(* ===== verification/Prelude.thy ===== *)
theory Prelude
  imports Main "HOL-Library.Sublist" "HOL-Library.Char_ord" "HOL-Library.List_Lexorder"
begin

text \<open>
  Prelude of the development: the error values of the program, the result-and-state
  combinators in which every operation of the program is written, the collections of
  rewrite rules that the component theories fill, and generic facts on lists and
  association lists that several components use.
\<close>

named_theorems go_simps "unfolding rules of the string layer"
named_theorems audit_simps "unfolding rules of the audit components"
named_theorems cmd_simps "rules that execute a command of the program"
named_theorems frame_simps "what an operation leaves unchanged"

section \<open>Errors\<close>

text \<open>
  \<open>apperrors.ErrorCode\<close>, the codes the sources name; \<open>codeAuditIncomplete\<close> is the program's own
  (cmd/mutation_audit.go). \<open>CodeOther\<close> stands for any further code of the core library.
\<close>

datatype error_code =
    CodeUsageError | CodeAuthFailed | CodeResourceNotFound | CodeResourceAlreadyExists
  | CodeValidationFailed | CodeConflict | CodeNotImplemented | CodeNetworkError
  | CodeLocalIOError | CodeServerError | CodeBackendUnreachable | CodeBackendError
  | CodeAuthorizationRequired | CodePartialFailure | CodeNoChangeRequired
  | CodeUnsupportedProtocol | CodeCredentialStoreError | CodeCredentialStoreMissing
  | CodeAuditIncomplete | CodeOther string

text \<open>\<open>audit.AppendCommitState\<close>: what an append to the audit log reports about durability.\<close>

datatype append_state =
    AppendCommitNotCommitted | AppendCommitCommitted
  | AppendCommitCommittedPostCommitError | AppendCommitIndeterminate

text \<open>
  A Go \<open>error\<close> value: an \<open>AppError\<close> with its code, message and cause, the two errors of package
  \<open>context\<close>, a joined error, the program's own \<open>mutationAuditAppendError\<close> and
  \<open>auditPruneDurabilityError\<close>, and any other error of a library.
\<close>

datatype go_error =
    AppError error_code string "go_error option"
  | ContextCanceled
  | ContextDeadlineExceeded
  | JoinedError "go_error list"
  | MutationAuditAppendError append_state go_error
  | AuditPruneDurabilityError go_error
  | OtherError string

definition not_found :: "string \<Rightarrow> go_error" where
  "not_found msg = AppError CodeResourceNotFound msg None"

definition usage_error :: "string \<Rightarrow> go_error" where
  "usage_error msg = AppError CodeUsageError msg None"

section \<open>Operations that return a value or an error and change a state\<close>

type_synonym ('w, 'a) op = "'w \<Rightarrow> (go_error + 'a) \<times> 'w"

definition ret :: "'a \<Rightarrow> ('w, 'a) op" where
  "ret x = (\<lambda>w. (Inr x, w))"

definition throw :: "go_error \<Rightarrow> ('w, 'a) op" where
  "throw e = (\<lambda>w. (Inl e, w))"

text \<open>\<open>seqE m f\<close> is \<open>x, err := m(); if err != nil { return err }; f(x)\<close>.\<close>

definition seqE :: "('w, 'a) op \<Rightarrow> ('a \<Rightarrow> ('w, 'b) op) \<Rightarrow> ('w, 'b) op" where
  "seqE m f = (\<lambda>w. case m w of (Inl e, w') \<Rightarrow> (Inl e, w') | (Inr x, w') \<Rightarrow> f x w')"

text \<open>\<open>tryE m f\<close> hands the error, if any, to \<open>f\<close> together with the value.\<close>

definition tryE :: "('w, 'a) op \<Rightarrow> (go_error + 'a \<Rightarrow> ('w, 'b) op) \<Rightarrow> ('w, 'b) op" where
  "tryE m f = (\<lambda>w. case m w of (r, w') \<Rightarrow> f r w')"

definition getS :: "('w \<Rightarrow> 'a) \<Rightarrow> ('w, 'a) op" where
  "getS g = (\<lambda>w. (Inr (g w), w))"

definition modS :: "('w \<Rightarrow> 'w) \<Rightarrow> ('w, unit) op" where
  "modS g = (\<lambda>w. (Inr (), g w))"

definition guardE :: "bool \<Rightarrow> go_error \<Rightarrow> ('w, unit) op" where
  "guardE b e = (if b then ret () else throw e)"

definition liftE :: "go_error + 'a \<Rightarrow> ('w, 'a) op" where
  "liftE r = (\<lambda>w. (r, w))"

text \<open>
  A function with the results \<open>(T, error)\<close> whose value counts even beside an error. \<open>stepC zero m f\<close>
  is \<open>x, err := m(); if err != nil { return zero, err }; f(x)\<close>, and \<open>callE\<close> hands value and error on.
\<close>

type_synonym ('w, 'a) call = "'w \<Rightarrow> ('a \<times> go_error option) \<times> 'w"

definition answer :: "'a \<Rightarrow> go_error option \<Rightarrow> ('w, 'a) call" where
  "answer x e = (\<lambda>w. ((x, e), w))"

definition stepC :: "'b \<Rightarrow> ('w, 'a) op \<Rightarrow> ('a \<Rightarrow> ('w, 'b) call) \<Rightarrow> ('w, 'b) call" where
  "stepC zero m f = (\<lambda>w. case m w of (Inl e, w') \<Rightarrow> ((zero, Some e), w') | (Inr x, w') \<Rightarrow> f x w')"

definition orZero :: "'a \<Rightarrow> ('w, 'a) op \<Rightarrow> ('w, 'a) call" where
  "orZero zero m = stepC zero m (\<lambda>x. answer x None)"

definition callE :: "('w \<Rightarrow> 'r \<times> 'w) \<Rightarrow> ('r \<Rightarrow> 'w \<Rightarrow> 's \<times> 'w) \<Rightarrow> 'w \<Rightarrow> 's \<times> 'w" where
  "callE m f = (\<lambda>w. case m w of (r, w') \<Rightarrow> f r w')"

text \<open>The value is dropped beside an error.\<close>

definition asOp :: "('w, 'a) call \<Rightarrow> ('w, 'a) op" where
  "asOp m = (\<lambda>w. case m w of ((x, None), w') \<Rightarrow> (Inr x, w') | ((x, Some e), w') \<Rightarrow> (Inl e, w'))"

definition errOf :: "go_error + 'a \<Rightarrow> go_error option" where
  "errOf r = (case r of Inl e \<Rightarrow> Some e | Inr _ \<Rightarrow> None)"

text \<open>An operation on a component of the state.\<close>

definition zoom :: "('w \<Rightarrow> 'v) \<Rightarrow> ('v \<Rightarrow> 'w \<Rightarrow> 'w) \<Rightarrow> ('v \<Rightarrow> 'r \<times> 'v) \<Rightarrow> 'w \<Rightarrow> 'r \<times> 'w" where
  "zoom get put m = (\<lambda>w. case m (get w) of (r, v) \<Rightarrow> (r, put v w))"

lemma run_simps [simp, cmd_simps]:
  "ret x w = (Inr x, w)"
  "throw e w = (Inl e, w)"
  "getS g w = (Inr (g w), w)"
  "modS h w = (Inr (), h w)"
  "liftE r w = (r, w)"
  "answer x c w = ((x, c), w)"
  by (simp_all add: ret_def throw_def getS_def modS_def liftE_def answer_def)

lemma guardE_run [cmd_simps]: "guardE b e w = (if b then Inr () else Inl e, w)"
  by (simp add: guardE_def)

lemma seqE_run [cmd_simps]:
  "seqE m f w = (case m w of (Inl e, w') \<Rightarrow> (Inl e, w') | (Inr x, w') \<Rightarrow> f x w')"
  by (simp add: seqE_def)

lemma tryE_run [cmd_simps]: "tryE m f w = (case m w of (r, w') \<Rightarrow> f r w')"
  by (simp add: tryE_def)

lemma zoom_run [cmd_simps]: "zoom get put m w = (case m (get w) of (r, v) \<Rightarrow> (r, put v w))"
  by (simp add: zoom_def)

lemma stepC_run [cmd_simps]:
  "stepC zero m f w = (case m w of (Inl e, w') \<Rightarrow> ((zero, Some e), w') | (Inr x, w') \<Rightarrow> f x w')"
  by (simp add: stepC_def)

lemma callE_run [cmd_simps]: "callE m f w = (case m w of (r, w') \<Rightarrow> f r w')"
  by (simp add: callE_def)

lemma asOp_run [cmd_simps]:
  "asOp m w = (case m w of ((x, None), w') \<Rightarrow> (Inr x, w') | ((x, Some e), w') \<Rightarrow> (Inl e, w'))"
  by (simp add: asOp_def)

lemma errOf_simps [simp]: "errOf (Inl e) = Some e" "errOf (Inr x) = None"
  by (simp_all add: errOf_def)

lemma seqE_Inr:
  assumes "seqE m f w = (Inr y, w'')"
  obtains x w' where "m w = (Inr x, w')" and "f x w' = (Inr y, w'')"
  using assms by (auto simp: seqE_run split: prod.splits sum.splits)

lemma seqE_Inl:
  assumes "seqE m f w = (Inl e, w'')"
  obtains "m w = (Inl e, w'')"
  | x w' where "m w = (Inr x, w')" and "f x w' = (Inl e, w'')"
  using assms by (auto simp: seqE_run split: prod.splits sum.splits)

lemma seqE_cases:
  assumes "seqE m f w = (r, w'')"
  obtains e where "m w = (Inl e, w'')" and "r = Inl e"
  | x w' where "m w = (Inr x, w')" and "f x w' = (r, w'')"
  using assms by (auto simp: seqE_run split: prod.splits sum.splits)

lemma seqE_ret_state: "snd (seqE m (\<lambda>x. ret (f x)) w) = snd (m w)"
  by (simp add: seqE_run split: prod.split sum.split)

text \<open>A relation between the states before and after that composes holds of the composition.\<close>

lemma seqE_rel:
  assumes "\<And>w r w'. m w = (r, w') \<Longrightarrow> R w w'"
    and "\<And>x w r w'. f x w = (r, w') \<Longrightarrow> R w w'"
    and "\<And>u v w. R u v \<Longrightarrow> R v w \<Longrightarrow> R u w"
    and "seqE m f w = (r, w')"
  shows "R w w'"
  using assms(4) by (rule seqE_cases) (use assms(1-3) in blast)+

text \<open>
  The interface of frame reasoning: a relation between states that holds of a state with itself and
  composes is kept by every operation built from operations that keep it.
\<close>

locale op_relation =
  fixes R :: "'w \<Rightarrow> 'w \<Rightarrow> bool"
  assumes R_refl: "R w w" and R_trans: "R u v \<Longrightarrow> R v w \<Longrightarrow> R u w"
begin

definition keeps :: "('w \<Rightarrow> 'r \<times> 'w) \<Rightarrow> bool" where
  "keeps m = (\<forall>w. R w (snd (m w)))"

lemma keepsI: "(\<And>w r w'. m w = (r, w') \<Longrightarrow> R w w') \<Longrightarrow> keeps m"
  by (metis keeps_def prod.collapse)

lemma keepsD: "keeps m \<Longrightarrow> m w = (r, w') \<Longrightarrow> R w w'"
  by (metis keeps_def snd_conv)

lemma keeps_basic: "keeps (ret x)" "keeps (throw e)" "keeps (getS g)" "keeps (liftE r)" "keeps (guardE b e)"
  "keeps (answer x c)"
  by (simp_all add: keeps_def R_refl guardE_run)

lemma keeps_seqE: "keeps m \<Longrightarrow> (\<And>x. keeps (f x)) \<Longrightarrow> keeps (seqE m f)"
  unfolding keeps_def seqE_run
  by (auto split: prod.split sum.split intro: R_refl) (metis R_trans snd_conv)+

lemma keeps_tryE: "keeps m \<Longrightarrow> (\<And>r. keeps (f r)) \<Longrightarrow> keeps (tryE m f)"
  unfolding keeps_def tryE_run by (auto split: prod.split) (metis R_trans snd_conv)

lemma keeps_stepC: "keeps m \<Longrightarrow> (\<And>x. keeps (f x)) \<Longrightarrow> keeps (stepC z m f)"
  unfolding keeps_def stepC_run
  by (auto split: prod.split sum.split intro: R_refl) (metis R_trans snd_conv)+

lemma keeps_callE: "keeps m \<Longrightarrow> (\<And>r. keeps (f r)) \<Longrightarrow> keeps (callE m f)"
  unfolding keeps_def callE_run by (auto split: prod.split) (metis R_trans snd_conv)

lemma keeps_asOp: "keeps m \<Longrightarrow> keeps (asOp m)"
  unfolding keeps_def asOp_run by (auto split: prod.split option.split) (metis snd_conv)+

lemma keeps_prod: "(\<And>x y. keeps (f x y)) \<Longrightarrow> keeps (case z of (x, y) \<Rightarrow> f x y)"
  by (cases z) simp

lemma keeps_orZero: "keeps m \<Longrightarrow> keeps (orZero z m)"
  unfolding orZero_def by (intro keeps_stepC keeps_basic)

lemma keeps_if: "(b \<Longrightarrow> keeps m) \<Longrightarrow> (\<not> b \<Longrightarrow> keeps m') \<Longrightarrow> keeps (if b then m else m')"
  by simp

lemma keeps_option: "keeps m \<Longrightarrow> (\<And>x. keeps (f x)) \<Longrightarrow> keeps (case z of None \<Rightarrow> m | Some x \<Rightarrow> f x)"
  by (cases z) simp_all

lemma keeps_sum: "(\<And>x. keeps (f x)) \<Longrightarrow> (\<And>y. keeps (g y)) \<Longrightarrow> keeps (case z of Inl x \<Rightarrow> f x | Inr y \<Rightarrow> g y)"
  by (cases z) simp_all

text \<open>What follows a success may use it.\<close>

lemma keeps_known:
  assumes "keeps m" and "\<And>w x w'. m w = (Inr x, w') \<Longrightarrow> R w' (snd (f x w'))"
  shows "keeps (seqE m f)"
  unfolding keeps_def
proof
  fix w
  obtain r w' where m: "m w = (r, w')" by (cases "m w")
  have w: "R w w'" by (rule keepsD [OF assms(1) m])
  show "R w (snd (seqE m f w))"
  proof (cases r)
    case (Inr x)
    then show ?thesis using R_trans [OF w assms(2) [OF m [unfolded Inr]]] m by (simp add: seqE_run)
  qed (simp add: seqE_run m w)
qed

lemma keeps_lifted: "(\<And>x. y = Inr x \<Longrightarrow> keeps (f x)) \<Longrightarrow> keeps (seqE (liftE y) f)"
  by (cases y) (auto simp: keeps_def seqE_run R_refl)

lemmas keeps_rules = keeps_basic keeps_seqE keeps_tryE keeps_stepC keeps_callE keeps_orZero keeps_asOp
  keeps_if keeps_option keeps_sum keeps_prod

end

section \<open>Machine integers\<close>

text \<open>The value of a sum or difference of Go's \<open>int\<close> and \<open>int64\<close>, which wrap at 64 bits.\<close>

definition go_int :: "int \<Rightarrow> int" where
  "go_int x = (x + 2 ^ 63) mod 2 ^ 64 - 2 ^ 63"

lemma go_int_id [simp]: "- (2 ^ 63) \<le> x \<Longrightarrow> x < 2 ^ 63 \<Longrightarrow> go_int x = x"
  by (simp add: go_int_def)

lemma go_int_range: "- (2 ^ 63) \<le> go_int x" "go_int x < 2 ^ 63"
  using pos_mod_bound [of "2 ^ 64" "x + 2 ^ 63"] pos_mod_sign [of "2 ^ 64" "x + 2 ^ 63"]
  by (simp_all add: go_int_def)

section \<open>Association lists\<close>

definition alist_put :: "'k \<Rightarrow> 'v \<Rightarrow> ('k \<times> 'v) list \<Rightarrow> ('k \<times> 'v) list" where
  "alist_put k v kvs = (k, v) # filter (\<lambda>(k', _). k' \<noteq> k) kvs"

definition alist_del :: "'k \<Rightarrow> ('k \<times> 'v) list \<Rightarrow> ('k \<times> 'v) list" where
  "alist_del k kvs = filter (\<lambda>(k', _). k' \<noteq> k) kvs"

lemma map_of_alist_del [simp]: "map_of (alist_del k kvs) = (map_of kvs)(k := None)"
  by (induction kvs) (auto simp: alist_del_def fun_eq_iff)

lemma map_of_alist_put [simp]: "map_of (alist_put k v kvs) = (map_of kvs)(k \<mapsto> v)"
  using map_of_alist_del [of k kvs] by (simp add: alist_put_def alist_del_def)

lemma fst_set_alist_del [simp]: "fst ` set (alist_del k kvs) = fst ` set kvs - {k}"
  by (auto simp: alist_del_def)

lemma fst_set_alist_put [simp]: "fst ` set (alist_put k v kvs) = insert k (fst ` set kvs)"
  by (auto simp: alist_put_def)

lemma distinct_alist_del [simp]: "distinct (map fst kvs) \<Longrightarrow> distinct (map fst (alist_del k kvs))"
  by (induction kvs) (auto simp: alist_del_def)

lemma distinct_alist_put [simp]: "distinct (map fst kvs) \<Longrightarrow> distinct (map fst (alist_put k v kvs))"
  using distinct_alist_del [of kvs k] by (auto simp: alist_put_def alist_del_def)

lemma list_all_alist_put [simp]:
  "P (k, v) \<Longrightarrow> list_all P kvs \<Longrightarrow> list_all P (alist_put k v kvs)"
  by (auto simp: alist_put_def list_all_iff)

lemma list_all_alist_del [simp]: "list_all P kvs \<Longrightarrow> list_all P (alist_del k kvs)"
  by (auto simp: alist_del_def list_all_iff)

lemma list_all_map_of: "list_all P kvs \<Longrightarrow> map_of kvs k = Some v \<Longrightarrow> P (k, v)"
  by (auto simp: list_all_iff dest: map_of_SomeD)

section \<open>Lists\<close>

lemma sort_distinct_strict: "distinct xs \<Longrightarrow> sorted_wrt (<) (sort (xs :: 'a :: linorder list))"
  by (simp add: strict_sorted_iff)

lemma filter_neq_notin [simp]: "x \<notin> set xs \<Longrightarrow> filter (\<lambda>y. y \<noteq> x) xs = xs"
  by (induction xs) auto

end
