(* ===== verification/Classifier.thy ===== *)
theory Classifier
  imports Go_Strings
begin

text \<open>
  internal/mqclass/classifier.go: the fail-closed risk classifier. \<open>Classify\<close> and every function
  it calls, in the order of the source, then a declarative specification of the risk and the
  lemmas that relate the two.
\<close>

section \<open>Risk tiers, operations and targets\<close>

text \<open>\<open>safety.Risk\<close>: four tiers, ordered.\<close>

datatype risk = R0 | R1 | R2 | R3

fun risk_level :: "risk \<Rightarrow> nat" where
  "risk_level R0 = 0"
| "risk_level R1 = 1"
| "risk_level R2 = 2"
| "risk_level R3 = 3"

lemma risk_level_inject [simp]: "risk_level a = risk_level b \<longleftrightarrow> a = b"
  by (cases a; cases b) auto

instantiation risk :: linorder
begin

definition less_eq_risk :: "risk \<Rightarrow> risk \<Rightarrow> bool" where
  "a \<le> b \<longleftrightarrow> risk_level a \<le> risk_level b"

definition less_risk :: "risk \<Rightarrow> risk \<Rightarrow> bool" where
  "a < b \<longleftrightarrow> risk_level a < risk_level b"

instance
  by standard (auto simp: less_eq_risk_def less_risk_def)

end

text \<open>\<open>risk++\<close> below R3.\<close>

fun risk_succ :: "risk \<Rightarrow> risk" where
  "risk_succ R0 = R1"
| "risk_succ R1 = R2"
| "risk_succ R2 = R3"
| "risk_succ R3 = R3"

lemma risk_le_R3 [simp]: "r \<le> R3"
  by (cases r) (auto simp: less_eq_risk_def)

lemma R0_le_risk [simp]: "R0 \<le> r"
  by (cases r) (auto simp: less_eq_risk_def)

lemma risk_succ_ge [simp]: "r \<le> risk_succ r"
  by (cases r) (auto simp: less_eq_risk_def)

lemma risk_succ_mono: "a \<le> b \<Longrightarrow> risk_succ a \<le> risk_succ b"
  by (cases a; cases b) (auto simp: less_eq_risk_def)

lemma R3_le_iff [simp]: "R3 \<le> r \<longleftrightarrow> r = R3"
  by (cases r) (auto simp: less_eq_risk_def)

lemma less_R3_iff [simp]: "r < R3 \<longleftrightarrow> r \<noteq> R3"
  by (cases r) (auto simp: less_risk_def)

text \<open>
  \<open>Operation\<close> is a string type with the constants below; \<open>OperationOther\<close> is any other string.
\<close>

datatype operation =
    OperationList | OperationDescribe | OperationLag | OperationPeek | OperationTail
  | OperationListDLQ | OperationPeekDLQ | OperationRedriveDLQ | OperationClusterInfo
  | OperationProduce | OperationCreateTopic | OperationAlterTopic | OperationCreateGroup
  | OperationDeleteGroup | OperationResetOffset | OperationSeekOffset | OperationPurgeTopic
  | OperationPurgeDLQ | OperationDeleteTopic | OperationListACL | OperationGrantACL
  | OperationRevokeACL | OperationListSchema | OperationDescribeSchema | OperationCheckSchema
  | OperationRegisterSchema | OperationDeleteSchema | OperationMirror
  | OperationOther string

record acl_target =
  a_principal :: string
  a_resource_type :: string
  a_resource_name :: string
  a_pattern_type :: string
  a_operation :: string
  a_permission :: string
  a_unknown :: bool

record class_target =
  t_backend :: string
  t_topic :: string
  t_group :: string
  t_protected_topic :: bool
  t_internal_topic :: bool
  t_acl :: acl_target
  t_plan :: bool
  t_schema_exists :: bool
  t_schema_unknown :: bool
  t_create_may_alter :: bool

definition no_acl :: acl_target where
  "no_acl = \<lparr>a_principal = [], a_resource_type = [], a_resource_name = [], a_pattern_type = [],
     a_operation = [], a_permission = [], a_unknown = False\<rparr>"

text \<open>The zero value of \<open>Target\<close>.\<close>

definition empty_target :: class_target where
  "empty_target = \<lparr>t_backend = [], t_topic = [], t_group = [], t_protected_topic = False,
     t_internal_topic = False, t_acl = no_acl, t_plan = False, t_schema_exists = False,
     t_schema_unknown = False, t_create_may_alter = False\<rparr>"

record class_result =
  r_risk :: risk
  r_reason :: string

section \<open>Patterns, topics and ACL tokens\<close>

definition hasPattern :: "string \<Rightarrow> bool" where
  "hasPattern value = contains_any value ''*?[''"

definition isAllTarget :: "string \<Rightarrow> bool" where
  "isAllTarget value =
     (let normalized = to_lower (trim_space value) in normalized = ''all'' \<or> normalized = ''any'')"

definition IsInternalTopic :: "string \<Rightarrow> string \<Rightarrow> bool" where
  "IsInternalTopic backend topic =
     (let name = to_lower (trim_space topic) in
      if has_prefix name ''__'' \<or> has_prefix name ''_system'' \<or> contains name ''consumer_offsets''
      then True
      else if \<not> equal_fold (trim_space backend) ''rocketmq'' then False
      else has_prefix name ''%retry%'' \<or> has_prefix name ''%dlq%'' \<or> has_prefix name ''rmq_sys_''
        \<or> has_prefix name ''schedule_topic_'' \<or> name = ''tbw102'')"

definition IsInternalTopicScope :: "string \<Rightarrow> string \<Rightarrow> string \<Rightarrow> bool" where
  "IsInternalTopicScope backend namespace topic =
     (if IsInternalTopic backend topic then True
      else if \<not> equal_fold (trim_space backend) ''pulsar'' then False
      else
        let scope = trim_space namespace; parts = split_on (CHR ''/'') scope in
        (case parts of
           [tenant, ns] \<Rightarrow>
             if scope \<noteq> namespace \<or> tenant = [] \<or> ns = [] \<or> trim_space tenant \<noteq> tenant
                \<or> trim_space ns \<noteq> ns
             then True
             else equal_fold tenant ''pulsar'' \<or> equal_fold ns ''system''
         | _ \<Rightarrow> True))"

definition normalizeACLToken :: "string \<Rightarrow> string" where
  "normalizeACLToken value = to_lower (filter (\<lambda>c. c \<notin> set ''_-.'') (trim_space value))"

definition knownACLResourceType :: "string \<Rightarrow> bool" where
  "knownACLResourceType resourceType =
     (normalizeACLToken resourceType \<in> set [''any'', ''topic'', ''group'', ''cluster'',
        ''transactionalid'', ''delegationtoken'', ''user'', ''vhost'', ''namespace''])"

definition broadACLPatternType :: "string \<Rightarrow> bool" where
  "broadACLPatternType patternType =
     (let patternType = normalizeACLToken patternType
      in patternType \<noteq> ''literal'' \<and> patternType \<noteq> ''regex'')"

definition knownACLOperation :: "string \<Rightarrow> bool" where
  "knownACLOperation operation =
     (operation \<in> set [''any'', ''all'', ''read'', ''write'', ''configure'', ''produce'', ''consume'',
        ''functions'', ''sources'', ''sinks'', ''packages'', ''create'', ''delete'', ''alter'',
        ''describe'', ''clusteraction'', ''describeconfigs'', ''alterconfigs'', ''idempotentwrite'',
        ''createtokens'', ''describetokens''])"

definition broadACLOperation :: "string \<Rightarrow> bool" where
  "broadACLOperation operation =
     (let normalized = normalizeACLToken operation in
      if normalized \<in> set [[], ''all'', ''alter'', ''clusteraction'', ''alterconfigs'',
           ''idempotentwrite'', ''functions'', ''sources'', ''sinks'', ''packages'']
      then True else \<not> knownACLOperation normalized)"

definition aclRegexHasMeta :: "string \<Rightarrow> bool" where
  "aclRegexHasMeta pattern = contains_any pattern (CHR 0x5C # ''.+*?()|[]{}^$'')"

definition broadACLRegex :: "string \<Rightarrow> bool" where
  "broadACLRegex pattern =
     (let pattern = trim_space pattern in
      if pattern \<in> set [[], ''.'', ''.*'', ''.+''] then True
      else if contains pattern ''.*'' \<or> contains pattern ''.+'' then True
      else if has_prefix pattern ''^'' \<and> has_suffix pattern ''$''
      then aclRegexHasMeta (butlast (tl pattern))
      else aclRegexHasMeta pattern)"

definition broadACLResourceName :: "string \<Rightarrow> string \<Rightarrow> bool" where
  "broadACLResourceName resourceName patternType =
     (let resourceName = trim_space resourceName in
      if normalizeACLToken patternType = ''regex'' then broadACLRegex resourceName
      else resourceName = [] \<or> resourceName = ''*'' \<or> hasPattern resourceName)"

definition broadACLGrant :: "acl_target \<Rightarrow> bool" where
  "broadACLGrant target =
     (if a_unknown target then True
      else if broadACLPatternType (a_pattern_type target) then True
      else
        let principal = to_lower (trim_space (a_principal target)) in
        if principal = [] \<or> principal = ''*'' \<or> principal = ''user:*'' then True
        else
          let resourceType = to_lower (trim_space (a_resource_type target)) in
          if resourceType = [] \<or> resourceType = ''cluster'' then True
          else if \<not> knownACLResourceType resourceType then True
          else if broadACLResourceName (a_resource_name target) (a_pattern_type target) then True
          else if broadACLOperation (a_operation target) then True
          else
            let permission = to_lower (trim_space (a_permission target)) in
            permission = [] \<or> (permission \<noteq> ''allow'' \<and> permission \<noteq> ''deny''))"

section \<open>Classification\<close>

definition classifyBase :: "operation \<Rightarrow> class_result" where
  "classifyBase op =
     (if op \<in> set [OperationList, OperationDescribe, OperationLag, OperationPeek, OperationTail,
          OperationListDLQ, OperationPeekDLQ, OperationClusterInfo, OperationListACL,
          OperationListSchema, OperationDescribeSchema, OperationCheckSchema]
      then \<lparr>r_risk = R0, r_reason = ''read-only broker operation''\<rparr>
      else if op \<in> set [OperationProduce, OperationCreateTopic, OperationRegisterSchema, OperationMirror]
      then \<lparr>r_risk = R1, r_reason = ''non-protected topic write''\<rparr>
      else if op \<in> set [OperationAlterTopic, OperationCreateGroup, OperationDeleteGroup,
          OperationRedriveDLQ, OperationGrantACL]
      then \<lparr>r_risk = R2, r_reason = ''elevated topic/group mutation''\<rparr>
      else if op \<in> set [OperationResetOffset, OperationSeekOffset, OperationPurgeTopic,
          OperationPurgeDLQ, OperationDeleteTopic, OperationRevokeACL, OperationDeleteSchema]
      then \<lparr>r_risk = R3, r_reason = ''destructive broker operation''\<rparr>
      else \<lparr>r_risk = R3, r_reason = ''unknown broker operation''\<rparr>)"

definition escalate :: "class_result \<Rightarrow> string \<Rightarrow> class_result" where
  "escalate r reason =
     (let r = (if r_risk r < R3 then r\<lparr>r_risk := risk_succ (r_risk r)\<rparr> else r) in
      if r_reason r = [] then r\<lparr>r_reason := reason\<rparr>
      else r\<lparr>r_reason := r_reason r @ ''; '' @ reason\<rparr>)"

definition pinR3 :: "class_result \<Rightarrow> string \<Rightarrow> class_result" where
  "pinR3 r reason =
     (let r = (if r_risk r < R3 then r\<lparr>r_risk := R3\<rparr> else r) in
      if r_reason r = [] then r\<lparr>r_reason := reason\<rparr>
      else if \<not> contains (r_reason r) reason then r\<lparr>r_reason := r_reason r @ ''; '' @ reason\<rparr>
      else r)"

definition isOffsetChange :: "operation \<Rightarrow> bool" where
  "isOffsetChange op \<longleftrightarrow> op = OperationResetOffset \<or> op = OperationSeekOffset"

definition isPurgeOrDelete :: "operation \<Rightarrow> bool" where
  "isPurgeOrDelete op \<longleftrightarrow> op = OperationPurgeTopic \<or> op = OperationPurgeDLQ \<or> op = OperationDeleteTopic
     \<or> op = OperationDeleteSchema"

definition isReadOnlyPlan :: "operation \<Rightarrow> bool" where
  "isReadOnlyPlan op \<longleftrightarrow> op = OperationResetOffset \<or> op = OperationSeekOffset
     \<or> op = OperationPurgeTopic \<or> op = OperationPurgeDLQ \<or> op = OperationRedriveDLQ
     \<or> op = OperationMirror"

definition applyTargetEscalation :: "class_result \<Rightarrow> operation \<Rightarrow> class_target \<Rightarrow> class_result" where
  "applyTargetEscalation result op target =
     (let result = (if hasPattern (t_topic target) \<or> hasPattern (t_group target)
            then escalate result ''wildcard target expands blast radius'' else result);
          result = (if t_protected_topic target \<and> \<not> t_plan target
            then escalate result ''protected topic'' else result)
      in if t_internal_topic target \<and> op \<noteq> OperationProduce \<and> \<not> t_plan target
         then escalate result ''internal/system topic'' else result)"

definition applyInternalProducePins :: "class_result \<Rightarrow> operation \<Rightarrow> class_target \<Rightarrow> class_result" where
  "applyInternalProducePins result op target =
     (if (op = OperationProduce \<or> op = OperationMirror)
        \<and> (t_internal_topic target \<or> IsInternalTopic (t_backend target) (t_topic target))
        \<and> \<not> t_plan target
      then pinR3 result ''produce to internal/system topic is destructive''
      else result)"

definition applyRedrivePins :: "class_result \<Rightarrow> operation \<Rightarrow> class_target \<Rightarrow> class_result" where
  "applyRedrivePins result op target =
     (if op \<noteq> OperationRedriveDLQ \<or> t_plan target then result
      else
        let result = (if hasPattern (t_topic target) \<or> isAllTarget (t_topic target)
              then pinR3 result ''redrive wildcard/all target expands blast radius'' else result)
        in pinR3 result ''DLQ redrive uses internal produce'')"

definition applyDestructivePins :: "class_result \<Rightarrow> operation \<Rightarrow> class_target \<Rightarrow> class_result" where
  "applyDestructivePins result op target =
     (let result = (if isOffsetChange op \<and> \<not> t_plan target
            then pinR3 result ''offset changes are destructive'' else result);
          result = (if isPurgeOrDelete op \<and> \<not> t_plan target
            then pinR3 result ''purge/delete operations are destructive'' else result);
          result = applyInternalProducePins result op target;
          result = applyRedrivePins result op target;
          result = (if op = OperationRevokeACL then pinR3 result ''ACL revoke is destructive'' else result);
          result = (if op = OperationGrantACL \<and> broadACLGrant (t_acl target)
            then pinR3 result ''broad ACL grant'' else result)
      in if op = OperationRegisterSchema \<and> (t_schema_exists target \<or> t_schema_unknown target)
         then escalate result ''existing or uncertain schema subject is evolution'' else result)"

definition Classify :: "operation \<Rightarrow> class_target \<Rightarrow> class_result" where
  "Classify op target =
     (let base = classifyBase op;
          base = (if op = OperationCreateTopic \<and> t_create_may_alter target \<and> \<not> t_plan target
            then escalate base ''backend create API may alter an existing topic'' else base);
          base = (if t_plan target \<and> isReadOnlyPlan op
            then \<lparr>r_risk = R0, r_reason = ''read-only impact preview''\<rparr> else base);
          result = applyTargetEscalation base op target
      in applyDestructivePins result op target)"

section \<open>Steps of the classification\<close>

text \<open>
  Every step after the base tier only raises the tier, is monotone in it and extends the
  reason. A locale states the contract once; composition keeps it.
\<close>

locale risk_step =
  fixes step :: "class_result \<Rightarrow> class_result"
  assumes extensive: "r_risk r \<le> r_risk (step r)"
    and monotone: "r_risk a \<le> r_risk b \<Longrightarrow> r_risk (step a) \<le> r_risk (step b)"
    and extends_reason: "prefix (r_reason r) (r_reason (step r))"
begin

lemma R3_stays: "r_risk r = R3 \<Longrightarrow> r_risk (step r) = R3"
  using extensive [of r] by simp

lemma risk_only: "r_risk a = r_risk b \<Longrightarrow> r_risk (step a) = r_risk (step b)"
  using monotone [of a b] monotone [of b a] by (simp add: antisym)

end

lemma risk_step_comp:
  assumes "risk_step f" and "risk_step g"
  shows "risk_step (\<lambda>r. g (f r))"
proof
  show "r_risk r \<le> r_risk (g (f r))" for r
    using assms by (meson risk_step.extensive order_trans)
  show "r_risk (g (f a)) \<le> r_risk (g (f b))" if "r_risk a \<le> r_risk b" for a b
    using that assms by (meson risk_step.monotone)
  show "prefix (r_reason r) (r_reason (g (f r)))" for r
    using assms by (meson risk_step.extends_reason prefix_order.order_trans)
qed

locale risk_compose = f: risk_step f + g: risk_step g
  for f g :: "class_result \<Rightarrow> class_result"

sublocale risk_compose \<subseteq> fg: risk_step "\<lambda>r. g (f r)"
  using f.risk_step_axioms g.risk_step_axioms by (rule risk_step_comp)

text \<open>The two primitive steps, on the tier.\<close>

lemma escalate_risk [simp]: "r_risk (escalate r reason) = risk_succ (r_risk r)"
  by (cases "r_risk r") (simp_all add: escalate_def Let_def)

lemma pinR3_risk [simp]: "r_risk (pinR3 r reason) = R3"
  by (simp add: pinR3_def Let_def)

lemma escalate_reason: "prefix (r_reason r) (r_reason (escalate r reason))"
  by (simp add: escalate_def Let_def)

lemma pinR3_reason: "prefix (r_reason r) (r_reason (pinR3 r reason))"
  by (simp add: pinR3_def Let_def)

interpretation esc: risk_step "\<lambda>r. escalate r reason" for reason
  by unfold_locales (simp_all add: risk_succ_mono escalate_reason)

interpretation pin: risk_step "\<lambda>r. pinR3 r reason" for reason
  by unfold_locales (simp_all add: pinR3_reason)

lemma risk_step_id: "risk_step (\<lambda>r. r)"
  by unfold_locales simp_all

lemma risk_step_if:
  "(b \<Longrightarrow> risk_step f) \<Longrightarrow> (\<not> b \<Longrightarrow> risk_step g) \<Longrightarrow> risk_step (\<lambda>r. if b then f r else g r)"
  by (cases b) simp_all

lemmas risk_step_intros = risk_step_if risk_step_id esc.risk_step_axioms pin.risk_step_axioms

interpretation target_esc: risk_step "\<lambda>r. applyTargetEscalation r op target" for op target
proof -
  have "risk_step (\<lambda>r. if b1 then escalate r s1 else r)" for b1 s1
    by (intro risk_step_intros)
  note one = this
  show "risk_step (\<lambda>r. applyTargetEscalation r op target)"
    unfolding applyTargetEscalation_def Let_def
    by (rule risk_step_comp [OF risk_step_comp [OF one one] one])
qed

interpretation destructive_pins: risk_step "\<lambda>r. applyDestructivePins r op target" for op target
proof -
  have one: "risk_step (\<lambda>r. if b then pinR3 r s else r)" for b s
    by (intro risk_step_intros)
  have produce: "risk_step (\<lambda>r. applyInternalProducePins r op target)"
    unfolding applyInternalProducePins_def by (rule one)
  have redrive: "risk_step (\<lambda>r. applyRedrivePins r op target)"
    unfolding applyRedrivePins_def Let_def
    by (intro risk_step_if risk_step_id risk_step_comp [OF one pin.risk_step_axioms])
  have esc: "risk_step (\<lambda>r. if b then escalate r s else r)" for b s
    by (intro risk_step_intros)
  show "risk_step (\<lambda>r. applyDestructivePins r op target)"
    unfolding applyDestructivePins_def Let_def
    by (rule risk_step_comp [OF risk_step_comp [OF risk_step_comp [OF risk_step_comp [OF
          risk_step_comp [OF risk_step_comp [OF one one] produce] redrive] one] one] esc])
qed

interpretation classify_steps:
  risk_compose "\<lambda>r. applyTargetEscalation r op target" "\<lambda>r. applyDestructivePins r op target"
  for op target
  by unfold_locales

section \<open>A declarative specification of the tier\<close>

text \<open>
  The tier of an operation is its base tier (R0 for a preview of one of the previewable
  operations) raised once per aggravating fact of the target, and R3 outright when one of the
  destructive rules applies.
\<close>

definition base_tier :: "operation \<Rightarrow> class_target \<Rightarrow> risk" where
  "base_tier op t = (if t_plan t \<and> isReadOnlyPlan op then R0 else r_risk (classifyBase op))"

definition wild_target :: "class_target \<Rightarrow> bool" where
  "wild_target t \<longleftrightarrow> hasPattern (t_topic t) \<or> hasPattern (t_group t)"

definition aggravations :: "operation \<Rightarrow> class_target \<Rightarrow> bool list" where
  "aggravations op t =
     [op = OperationCreateTopic \<and> t_create_may_alter t \<and> \<not> t_plan t,
      wild_target t,
      t_protected_topic t \<and> \<not> t_plan t,
      t_internal_topic t \<and> op \<noteq> OperationProduce \<and> \<not> t_plan t,
      op = OperationRegisterSchema \<and> (t_schema_exists t \<or> t_schema_unknown t)]"

definition destructive :: "operation \<Rightarrow> class_target \<Rightarrow> bool" where
  "destructive op t \<longleftrightarrow>
     (\<not> t_plan t \<and> (isOffsetChange op \<or> isPurgeOrDelete op \<or> op = OperationRedriveDLQ
        \<or> ((op = OperationProduce \<or> op = OperationMirror)
           \<and> (t_internal_topic t \<or> IsInternalTopic (t_backend t) (t_topic t)))))
     \<or> op = OperationRevokeACL \<or> (op = OperationGrantACL \<and> broadACLGrant (t_acl t))"

definition tier_spec :: "operation \<Rightarrow> class_target \<Rightarrow> risk" where
  "tier_spec op t =
     (if destructive op t then R3
      else (risk_succ ^^ length (filter id (aggravations op t))) (base_tier op t))"

lemma applyTargetEscalation_risk:
  "r_risk (applyTargetEscalation r op t) =
     (risk_succ ^^ length (filter id [wild_target t, t_protected_topic t \<and> \<not> t_plan t,
        t_internal_topic t \<and> op \<noteq> OperationProduce \<and> \<not> t_plan t])) (r_risk r)"
  by (simp add: applyTargetEscalation_def Let_def wild_target_def)

lemma applyDestructivePins_risk:
  "r_risk (applyDestructivePins r op t) =
     (if destructive op t then R3
      else if op = OperationRegisterSchema \<and> (t_schema_exists t \<or> t_schema_unknown t)
      then risk_succ (r_risk r) else r_risk r)"
  by (auto simp: applyDestructivePins_def Let_def destructive_def applyInternalProducePins_def
      applyRedrivePins_def isOffsetChange_def isPurgeOrDelete_def)

lemma Classify_tier_spec: "r_risk (Classify op t) = tier_spec op t"
  by (cases "op = OperationCreateTopic"; cases "op = OperationRegisterSchema")
    (auto simp: Classify_def Let_def applyDestructivePins_risk applyTargetEscalation_risk
      tier_spec_def aggravations_def base_tier_def isReadOnlyPlan_def funpow_swap1)

lemma funpow_risk_succ_ge: "r \<le> (risk_succ ^^ n) r"
  by (induction n) (auto intro: order_trans [OF _ risk_succ_ge])

lemma funpow_risk_succ_mono:
  assumes "a \<le> b" and "m \<le> n"
  shows "(risk_succ ^^ m) a \<le> (risk_succ ^^ n) b"
proof -
  have "(risk_succ ^^ m) a \<le> (risk_succ ^^ m) b"
    using assms(1) by (induction m) (auto intro: risk_succ_mono)
  also have "\<dots> \<le> (risk_succ ^^ (n - m)) ((risk_succ ^^ m) b)"
    by (rule funpow_risk_succ_ge)
  also have "\<dots> = (risk_succ ^^ n) b"
    using assms(2) by (simp flip: funpow_add [THEN fun_cong, unfolded comp_apply])
  finally show ?thesis .
qed

lemma R0_funpow_iff: "(risk_succ ^^ n) r = R0 \<longleftrightarrow> n = 0 \<and> r = R0"
proof (cases n)
  case (Suc m)
  have "risk_succ r' \<noteq> R0" for r' by (cases r') auto
  with Suc show ?thesis by simp
qed simp

lemma classifyBase_R0_iff:
  "r_risk (classifyBase op) = R0 \<longleftrightarrow>
     op \<in> set [OperationList, OperationDescribe, OperationLag, OperationPeek, OperationTail,
       OperationListDLQ, OperationPeekDLQ, OperationClusterInfo, OperationListACL,
       OperationListSchema, OperationDescribeSchema, OperationCheckSchema]"
  by (cases op) (simp_all add: classifyBase_def)

lemma Classify_R3_if_destructive: "destructive op t \<Longrightarrow> r_risk (Classify op t) = R3"
  by (simp add: Classify_tier_spec tier_spec_def)

lemma Classify_base_le: "base_tier op t \<le> r_risk (Classify op t)"
  by (simp add: Classify_tier_spec tier_spec_def funpow_risk_succ_ge)

lemma length_filter_list_all2:
  "list_all2 (\<lambda>a b. a \<longrightarrow> b) xs ys \<Longrightarrow> length (filter id xs) \<le> length (filter id ys)"
  by (induction xs ys rule: list_all2_induct) auto

end
