(* ===== verification/Go_Numbers.thy ===== *)
theory Go_Numbers
  imports Go_Strings
begin

text \<open>
  Decimal and hexadecimal text: \<open>fmt\<close>'s \<open>%d\<close> and \<open>%020d\<close>, \<open>strconv.ParseUint(s, 10, 64)\<close>,
  \<open>encoding/hex\<close>. The lemmas are the round trips and the fact that zero-padded numbers of one
  width sort as text in the order of the numbers, on which the file names of the outcome
  spool rely.
\<close>

section \<open>Decimal digits\<close>

definition digit_char :: "nat \<Rightarrow> char" where
  "digit_char d = char_of (48 + d)"

definition is_digit :: "char \<Rightarrow> bool" where
  "is_digit c \<longleftrightarrow> CHR ''0'' \<le> c \<and> c \<le> CHR ''9''"

definition digit_val :: "char \<Rightarrow> nat" where
  "digit_val c = of_char c - 48"

text \<open>The last \<open>w\<close> digits of \<open>n\<close>, most significant first.\<close>

fun digits_width :: "nat \<Rightarrow> nat \<Rightarrow> string" where
  "digits_width 0 n = []"
| "digits_width (Suc w) n = digits_width w (n div 10) @ [digit_char (n mod 10)]"

text \<open>\<open>%d\<close> of a non-negative number.\<close>

fun show_nat :: "nat \<Rightarrow> string" where
  "show_nat n = (if n < 10 then [digit_char n] else show_nat (n div 10) @ [digit_char (n mod 10)])"

declare show_nat.simps [simp del]

text \<open>\<open>%020d\<close>: at least twenty digits.\<close>

definition show_pad20 :: "nat \<Rightarrow> string" where
  "show_pad20 n = (if n < 10 ^ 20 then digits_width 20 n else show_nat n)"

definition digits_value :: "string \<Rightarrow> nat" where
  "digits_value s = foldl (\<lambda>a c. a * 10 + digit_val c) 0 s"

text \<open>
  \<open>strconv.ParseUint(s, 10, 64)\<close>: only digits, at least one of them, and a value below 2^64.
\<close>

definition parse_uint64 :: "string \<Rightarrow> (64 word) option" where
  "parse_uint64 s =
     (if s = [] \<or> \<not> list_all is_digit s then None
      else if digits_value s < 2 ^ 64 then Some (of_nat (digits_value s)) else None)"

lemma is_digit_iff: "is_digit c \<longleftrightarrow> 48 \<le> (of_char c :: nat) \<and> (of_char c :: nat) \<le> 57"
  by (simp add: is_digit_def less_eq_char_def)

lemma of_char_digit_char: "d < 10 \<Longrightarrow> (of_char (digit_char d) :: nat) = 48 + d"
  by (simp add: digit_char_def of_char_of)

lemma digit_char_digit [simp]: "d < 10 \<Longrightarrow> is_digit (digit_char d)"
  by (simp add: is_digit_iff of_char_digit_char)

lemma digit_val_char [simp]: "d < 10 \<Longrightarrow> digit_val (digit_char d) = d"
  by (simp add: digit_val_def of_char_digit_char)

lemma length_digits_width [simp]: "length (digits_width w n) = w"
  by (induction w arbitrary: n) auto

lemma digits_width_all [simp]: "list_all is_digit (digits_width w n)"
  by (induction w arbitrary: n) auto

lemma digits_value_snoc [simp]: "digits_value (s @ [c]) = digits_value s * 10 + digit_val c"
  by (simp add: digits_value_def)

lemma digits_value_Nil [simp]: "digits_value [] = 0"
  by (simp add: digits_value_def)

lemma digits_value_width: "n < 10 ^ w \<Longrightarrow> digits_value (digits_width w n) = n"
proof (induction w arbitrary: n)
  case (Suc w)
  then have "n div 10 < 10 ^ w" by (simp add: less_mult_imp_div_less mult.commute)
  then show ?case by (simp add: Suc.IH)
qed simp

lemma show_nat_props: "show_nat n \<noteq> [] \<and> list_all is_digit (show_nat n) \<and> digits_value (show_nat n) = n"
proof (induction n rule: show_nat.induct)
  case (1 n)
  then show ?case
    by (cases "n < 10") (auto simp: show_nat.simps [of n] digits_value_def)
qed

lemma parse_show_nat: "n < 2 ^ 64 \<Longrightarrow> parse_uint64 (show_nat n) = Some (of_nat n)"
  using show_nat_props [of n] by (simp add: parse_uint64_def)

lemma parse_show_pad20: "n < 2 ^ 64 \<Longrightarrow> parse_uint64 (show_pad20 n) = Some (of_nat n)"
proof -
  assume n: "n < 2 ^ 64"
  have "(2::nat) ^ 64 < 10 ^ 20" by simp
  with n have lt: "n < 10 ^ 20" by (rule less_trans)
  have "digits_width 20 n \<noteq> []"
    by (metis length_digits_width list.size(3) zero_neq_numeral)
  then show ?thesis
    using lt n digits_value_width [OF lt]
    by (simp add: parse_uint64_def show_pad20_def)
qed

lemma length_show_pad20: "n < 2 ^ 64 \<Longrightarrow> length (show_pad20 n) = 20"
  by (simp add: show_pad20_def)

section \<open>Text order of zero-padded numbers\<close>

lemma digit_char_less: "d < 10 \<Longrightarrow> e < 10 \<Longrightarrow> digit_char d < digit_char e \<longleftrightarrow> d < e"
  by (simp add: less_char_def of_char_digit_char)

lemma list_less_snoc:
  fixes u v :: "'a :: order list"
  assumes "length u = length v"
  shows "u @ [a] < v @ [b] \<longleftrightarrow> u < v \<or> u = v \<and> a < b"
  using assms by (induction u v rule: list_induct2) auto

lemma digits_width_eq:
  "m < 10 ^ w \<Longrightarrow> n < 10 ^ w \<Longrightarrow> digits_width w m = digits_width w n \<longleftrightarrow> m = n"
  by (metis digits_value_width)

lemma div_mod_less_iff:
  fixes m n :: nat
  shows "m div 10 < n div 10 \<or> m div 10 = n div 10 \<and> m mod 10 < n mod 10 \<longleftrightarrow> m < n"
  using div_mult_mod_eq [of m 10] div_mult_mod_eq [of n 10] mod_less_divisor [of 10 m]
    mod_less_divisor [of 10 n] by linarith

lemma digits_width_less:
  "m < 10 ^ w \<Longrightarrow> n < 10 ^ w \<Longrightarrow> digits_width w m < digits_width w n \<longleftrightarrow> m < n"
proof (induction w arbitrary: m n)
  case 0
  then show ?case by simp
next
  case (Suc w)
  have bounds: "m div 10 < 10 ^ w" "n div 10 < 10 ^ w"
    using Suc.prems by (simp_all add: less_mult_imp_div_less mult.commute)
  have "digits_width (Suc w) m < digits_width (Suc w) n
      \<longleftrightarrow> m div 10 < n div 10 \<or> m div 10 = n div 10 \<and> m mod 10 < n mod 10"
    by (simp add: list_less_snoc Suc.IH [OF bounds] digits_width_eq [OF bounds] digit_char_less)
  also have "\<dots> \<longleftrightarrow> m < n" by (rule div_mod_less_iff)
  finally show ?case .
qed

lemma list_less_append:
  fixes u v :: "'a :: order list"
  assumes "length u = length v"
  shows "u @ x < v @ y \<longleftrightarrow> u < v \<or> u = v \<and> x < y"
  using assms by (induction u v rule: list_induct2) auto

lemma show_pad20_less:
  assumes "m < 2 ^ 64" and "n < 2 ^ 64"
  shows "show_pad20 m < show_pad20 n \<longleftrightarrow> m < n"
  using assms digits_width_less [of m 20 n] by (simp add: show_pad20_def)

lemma show_pad20_eq: "m < 2 ^ 64 \<Longrightarrow> n < 2 ^ 64 \<Longrightarrow> show_pad20 m = show_pad20 n \<longleftrightarrow> m = n"
  using digits_width_eq [of m 20 n] by (simp add: show_pad20_def)

section \<open>Hexadecimal\<close>

definition hex_char :: "nat \<Rightarrow> char" where
  "hex_char d = (if d < 10 then char_of (48 + d) else char_of (87 + d))"

definition hex_encode :: "string \<Rightarrow> string" where
  "hex_encode s = concat (map (\<lambda>c. [hex_char (of_char c div 16), hex_char (of_char c mod 16)]) s)"

definition is_hex :: "char \<Rightarrow> bool" where
  "is_hex c \<longleftrightarrow> is_digit c \<or> CHR ''a'' \<le> c \<and> c \<le> CHR ''f'' \<or> CHR ''A'' \<le> c \<and> c \<le> CHR ''F''"

text \<open>Whether \<open>hex.DecodeString\<close> returns no error.\<close>

definition hex_decodes :: "string \<Rightarrow> bool" where
  "hex_decodes s \<longleftrightarrow> even (length s) \<and> list_all is_hex s"

definition lower_hex :: "char \<Rightarrow> bool" where
  "lower_hex c \<longleftrightarrow> is_digit c \<or> CHR ''a'' \<le> c \<and> c \<le> CHR ''f''"

lemma lower_hex_char: "d < 16 \<Longrightarrow> lower_hex (hex_char d)"
  by (auto simp: lower_hex_def hex_char_def is_digit_iff less_eq_char_def of_char_of)

lemma lower_hex_is_hex: "lower_hex c \<Longrightarrow> is_hex c"
  by (auto simp: lower_hex_def is_hex_def)

lemma of_char_div16: "(of_char (c :: char) :: nat) div 16 < 16"
  using nat_of_char_less_256 [of c] by (simp add: less_mult_imp_div_less)

lemma hex_encode_lower: "list_all lower_hex (hex_encode s)"
  by (induction s) (auto simp: hex_encode_def lower_hex_char of_char_div16)

lemma length_hex_encode [simp]: "length (hex_encode s) = 2 * length s"
  by (induction s) (simp_all add: hex_encode_def)

lemma list_all_mono_pred: "list_all P xs \<Longrightarrow> (\<And>x. P x \<Longrightarrow> Q x) \<Longrightarrow> list_all Q xs"
  by (induction xs) auto

lemma hex_encode_decodes [simp]: "hex_decodes (hex_encode s)"
  using list_all_mono_pred [OF hex_encode_lower lower_hex_is_hex]
  by (simp add: hex_decodes_def)

lemma lower_hex_fixed:
  assumes "lower_hex c"
  shows "lower_char c = c" and "\<not> prefix kelvin_sign (c # s)" and "\<not> prefix capital_i_dot (c # s)"
  using assms
  by (auto simp: lower_char_def lower_hex_def is_digit_iff less_eq_char_def kelvin_sign_def
      capital_i_dot_def)

lemma to_lower_lower_hex: "list_all lower_hex s \<Longrightarrow> to_lower s = s"
  by (induction s) (simp_all add: lower_hex_fixed)

lemma to_lower_hex_encode [simp]: "to_lower (hex_encode s) = hex_encode s"
  by (rule to_lower_lower_hex) (rule hex_encode_lower)

end
