(* ===== verification/Sha256.thy ===== *)
theory Sha256
  imports Go_Numbers
begin

text \<open>
  \<open>crypto/sha256\<close> of Go's standard library, executable, on byte strings (FIPS 180-4), and the
  fingerprints the program derives from it: internal/mqgov/fingerprint.go and
  \<open>mutationAuditFingerprint\<close> / \<open>sensitiveAuditFingerprint\<close> of cmd/mutation_audit.go.
\<close>

unbundle bit_operations_syntax

section \<open>The hash function\<close>

type_synonym w32 = "32 word"

text \<open>The 64 round constants, eight to a row.\<close>

definition sha_k :: "w32 list" where
  "sha_k = concat (map (\<lambda>row :: int. map (\<lambda>i. word_of_int (row div 2 ^ (32 * (7 - i)))) [0..<8])
     [0x428a2f9871374491b5c0fbcfe9b5dba53956c25b59f111f1923f82a4ab1c5ed5,
     0xd807aa9812835b01243185be550c7dc372be5d7480deb1fe9bdc06a7c19bf174,
     0xe49b69c1efbe47860fc19dc6240ca1cc2de92c6f4a7484aa5cb0a9dc76f988da,
     0x983e5152a831c66db00327c8bf597fc7c6e00bf3d5a7914706ca635114292967,
     0x27b70a852e1b21384d2c6dfc53380d13650a7354766a0abb81c2c92e92722c85,
     0xa2bfe8a1a81a664bc24b8b70c76c51a3d192e819d6990624f40e3585106aa070,
     0x19a4c1161e376c082748774c34b0bcb5391c0cb34ed8aa4a5b9cca4f682e6ff3,
     0x748f82ee78a5636f84c878148cc7020890befffaa4506cebbef9a3f7c67178f2])"

datatype sha_state = Sha_State w32 w32 w32 w32 w32 w32 w32 w32

definition sha_init :: sha_state where
  "sha_init = Sha_State 0x6a09e667 0xbb67ae85 0x3c6ef372 0xa54ff53a 0x510e527f 0x9b05688c
     0x1f83d9ab 0x5be0cd19"

definition small_sigma0 :: "w32 \<Rightarrow> w32" where
  "small_sigma0 x = word_rotr 7 x XOR word_rotr 18 x XOR drop_bit 3 x"

definition small_sigma1 :: "w32 \<Rightarrow> w32" where
  "small_sigma1 x = word_rotr 17 x XOR word_rotr 19 x XOR drop_bit 10 x"

definition big_sigma0 :: "w32 \<Rightarrow> w32" where
  "big_sigma0 x = word_rotr 2 x XOR word_rotr 13 x XOR word_rotr 22 x"

definition big_sigma1 :: "w32 \<Rightarrow> w32" where
  "big_sigma1 x = word_rotr 6 x XOR word_rotr 11 x XOR word_rotr 25 x"

text \<open>The message schedule, kept newest first.\<close>

fun sha_extend :: "nat \<Rightarrow> w32 list \<Rightarrow> w32 list" where
  "sha_extend 0 ws = ws"
| "sha_extend (Suc n) ws =
     sha_extend n ((small_sigma1 (ws ! 1) + ws ! 6 + small_sigma0 (ws ! 14) + ws ! 15) # ws)"

fun sha_round :: "sha_state \<Rightarrow> w32 \<times> w32 \<Rightarrow> sha_state" where
  "sha_round (Sha_State a b c d e f g h) (k, w) =
     (let t1 = h + big_sigma1 e + ((e AND f) XOR (NOT e AND g)) + k + w;
          t2 = big_sigma0 a + ((a AND b) XOR (a AND c) XOR (b AND c))
      in Sha_State (t1 + t2) a b c (d + t1) e f g)"

fun sha_add :: "sha_state \<Rightarrow> sha_state \<Rightarrow> sha_state" where
  "sha_add (Sha_State a b c d e f g h) (Sha_State a' b' c' d' e' f' g' h') =
     Sha_State (a + a') (b + b') (c + c') (d + d') (e + e') (f + f') (g + g') (h + h')"

definition byte_word :: "char \<Rightarrow> w32" where
  "byte_word c = of_nat (of_char c)"

fun bytes_words :: "string \<Rightarrow> w32 list" where
  "bytes_words (a # b # c # d # s) =
     (push_bit 24 (byte_word a) OR push_bit 16 (byte_word b) OR push_bit 8 (byte_word c) OR byte_word d)
       # bytes_words s"
| "bytes_words _ = []"

definition sha_block :: "sha_state \<Rightarrow> string \<Rightarrow> sha_state" where
  "sha_block st block =
     sha_add st (foldl sha_round st (zip sha_k (rev (sha_extend 48 (rev (bytes_words block))))))"

fun sha_blocks :: "nat \<Rightarrow> sha_state \<Rightarrow> string \<Rightarrow> sha_state" where
  "sha_blocks 0 st s = st"
| "sha_blocks (Suc n) st s = sha_blocks n (sha_block st (take 64 s)) (drop 64 s)"

text \<open>\<open>n\<close> as \<open>k\<close> bytes, big endian.\<close>

fun be_bytes :: "nat \<Rightarrow> int \<Rightarrow> string" where
  "be_bytes 0 n = []"
| "be_bytes (Suc k) n = be_bytes k (n div 256) @ [char_of (n mod 256)]"

definition sha_pad :: "string \<Rightarrow> string" where
  "sha_pad s = s @ [CHR 0x80] @ replicate ((119 - length s mod 64) mod 64) (CHR 0x00)
     @ be_bytes 8 (8 * int (length s))"

fun sha_digest :: "sha_state \<Rightarrow> string" where
  "sha_digest (Sha_State a b c d e f g h) =
     concat (map (\<lambda>w. be_bytes 4 (uint w)) [a, b, c, d, e, f, g, h])"

definition sha256 :: "string \<Rightarrow> string" where
  "sha256 s = (let p = sha_pad s in sha_digest (sha_blocks (length p div 64) sha_init p))"

lemma length_be_bytes [simp]: "length (be_bytes k n) = k"
  by (induction k arbitrary: n) auto

lemma length_sha256 [simp]: "length (sha256 s) = 32"
  by (cases "sha_blocks (length (sha_pad s) div 64) sha_init (sha_pad s)")
    (simp add: sha256_def Let_def)

section \<open>Fingerprints\<close>

text \<open>\<open>sha256Hex\<close> (and its exported name \<open>SHA256Hex\<close>) of internal/mqgov/fingerprint.go.\<close>

definition sha256Hex :: "string \<Rightarrow> string" where
  "sha256Hex data = hex_encode (sha256 data)"

definition mutationAuditAPIVersion :: string where
  "mutationAuditAPIVersion = ''mqgov-cli.io/mutation-audit/v1''"

text \<open>The bytes \<open>mutationAuditFingerprint\<close> hashes: API version, domain and value, separated by NUL.\<close>

definition fingerprint_preimage :: "string \<Rightarrow> string \<Rightarrow> string" where
  "fingerprint_preimage domain value =
     mutationAuditAPIVersion @ [CHR 0x00] @ domain @ [CHR 0x00] @ value"

definition mutationAuditFingerprint :: "string \<Rightarrow> string \<Rightarrow> string" where
  "mutationAuditFingerprint domain value =
     ''sha256:'' @ hex_encode (sha256 (fingerprint_preimage domain value))"

definition sensitiveAuditFingerprint :: "string \<Rightarrow> string \<Rightarrow> string \<times> int" where
  "sensitiveAuditFingerprint domain value =
     (if value = [] then ([], 0)
      else (mutationAuditFingerprint domain value, int (length value)))"

text \<open>\<open>validAuditFingerprint\<close> of cmd/audit.go.\<close>

definition validAuditFingerprint :: "string \<Rightarrow> bool" where
  "validAuditFingerprint value \<longleftrightarrow>
     has_prefix value ''sha256:'' \<and> value = to_lower value
     \<and> length value = length ''sha256:'' + 32 * 2
     \<and> hex_decodes (drop (length ''sha256:'') value)"

lemma length_sha256Hex [simp]: "length (sha256Hex data) = 64"
  by (simp add: sha256Hex_def)

lemma to_lower_sha_prefix: "to_lower (''sha256:'' @ s) = ''sha256:'' @ to_lower s"
  by (simp add: kelvin_sign_def capital_i_dot_def lower_char_def less_eq_char_def)

lemma fingerprint_valid [simp]: "validAuditFingerprint (mutationAuditFingerprint domain value)"
proof -
  let ?h = "hex_encode (sha256 (fingerprint_preimage domain value))"
  have "to_lower (''sha256:'' @ ?h) = ''sha256:'' @ ?h"
    by (simp only: to_lower_sha_prefix to_lower_hex_encode)
  moreover have "prefix ''sha256:'' (''sha256:'' @ ?h)" by (rule prefixI) simp
  ultimately show ?thesis
    by (simp add: validAuditFingerprint_def mutationAuditFingerprint_def has_prefix_def
        del: to_lower.simps)
qed

lemma fingerprint_nonempty [simp]: "mutationAuditFingerprint domain value \<noteq> []"
  by (simp add: mutationAuditFingerprint_def)

lemma sensitive_fingerprint_ok:
  assumes "sensitiveAuditFingerprint domain value = (fp, n)"
  shows "0 \<le> n \<and> (fp = [] \<longrightarrow> n = 0) \<and> (fp \<noteq> [] \<longrightarrow> validAuditFingerprint fp)"
  using assms by (auto simp: sensitiveAuditFingerprint_def split: if_splits)

lemma append_sep_inject:
  assumes "c \<notin> set u" and "c \<notin> set v"
  shows "u @ c # x = v @ c # y \<longleftrightarrow> u = v \<and> x = y"
  using assms by (induction u v rule: list_induct2') auto

lemma fingerprint_preimage_inject:
  assumes "CHR 0x00 \<notin> set d" and "CHR 0x00 \<notin> set d'"
  shows "fingerprint_preimage d v = fingerprint_preimage d' v' \<longleftrightarrow> d = d' \<and> v = v'"
  using append_sep_inject [OF assms] by (simp add: fingerprint_preimage_def)

end
