(* ===== verification/Risk_Properties.thy ===== *)
theory Risk_Properties
  imports Classifier Sha256
begin

text \<open>
  The properties of the risk classifier (internal/mqclass/classifier.go) and of the fingerprints that
  stand in the audit log instead of sensitive text.
\<close>

section \<open>The tier of an operation\<close>

text \<open>
  C13: The sequence of adjustments in Classify computes a declarative tier: R3 when a destructive rule
  applies, otherwise the base tier raised by one for every aggravating fact of the target.
\<close>

theorem classify_computes_tier: "r_risk (Classify op target) = tier_spec op target"
  by (rule Classify_tier_spec)

text \<open>
  The classifier fails closed: an operation that is none of the known constants is R3 whatever its
  target says, also when it is presented as a plan.
\<close>

theorem unknown_operation_is_R3:
  "r_risk (Classify (OperationOther name) target) = R3 \<and>
   prefix ''unknown broker operation'' (r_reason (Classify (OperationOther name) target))"
proof -
  have "prefix (r_reason (classifyBase (OperationOther name))) (r_reason (Classify (OperationOther name) target))"
    using classify_steps.fg.extends_reason [of "classifyBase (OperationOther name)" "OperationOther name" target]
    by (simp add: Classify_def isReadOnlyPlan_def)
  moreover have "R3 \<le> r_risk (Classify (OperationOther name) target)"
    using Classify_base_le [of "OperationOther name" target]
    by (simp add: base_tier_def isReadOnlyPlan_def classifyBase_def)
  ultimately show ?thesis by (simp add: classifyBase_def)
qed

text \<open>
  C16: An operation is free of authorization (R0) exactly when it reads, or is a plan of one of the
  operations that can be planned, and neither a wildcard nor, outside a plan, a protected or internal
  topic raises it. A mutation that is not a plan is never R0.
\<close>

definition free_operation :: "operation \<Rightarrow> class_target \<Rightarrow> bool" where
  "free_operation op t = ((t_plan t \<and> isReadOnlyPlan op \<or>
       op \<in> set [OperationList, OperationDescribe, OperationLag, OperationPeek, OperationTail,
         OperationListDLQ, OperationPeekDLQ, OperationClusterInfo, OperationListACL,
         OperationListSchema, OperationDescribeSchema, OperationCheckSchema]) \<and>
     \<not> wild_target t \<and> (t_plan t \<or> \<not> t_protected_topic t \<and> \<not> t_internal_topic t))"

lemma base_tier_R0_iff:
  "base_tier op t = R0 \<longleftrightarrow> t_plan t \<and> isReadOnlyPlan op \<or>
     op \<in> set [OperationList, OperationDescribe, OperationLag, OperationPeek, OperationTail,
       OperationListDLQ, OperationPeekDLQ, OperationClusterInfo, OperationListACL,
       OperationListSchema, OperationDescribeSchema, OperationCheckSchema]"
  unfolding base_tier_def using classifyBase_R0_iff by auto

theorem R0_exactly_the_free_operations: "r_risk (Classify op target) = R0 \<longleftrightarrow> free_operation op target"
proof (cases "op \<in> set [OperationList, OperationDescribe, OperationLag, OperationPeek, OperationTail,
       OperationListDLQ, OperationPeekDLQ, OperationClusterInfo, OperationListACL,
       OperationListSchema, OperationDescribeSchema, OperationCheckSchema]")
  case True
  then have "\<not> destructive op target" by (auto simp: destructive_def isOffsetChange_def isPurgeOrDelete_def)
  then show ?thesis
    using True unfolding Classify_tier_spec tier_spec_def
    by (auto simp: R0_funpow_iff base_tier_R0_iff free_operation_def aggravations_def)
next
  case False
  then have eq: "free_operation op target \<longleftrightarrow> t_plan target \<and> isReadOnlyPlan op \<and> \<not> wild_target target"
    by (auto simp: free_operation_def)
  show ?thesis
  proof (cases "t_plan target \<and> isReadOnlyPlan op")
    case True
    then have "\<not> destructive op target" by (auto simp: destructive_def isReadOnlyPlan_def)
    then show ?thesis
      using True eq unfolding Classify_tier_spec tier_spec_def
      by (auto simp: R0_funpow_iff base_tier_R0_iff aggravations_def isReadOnlyPlan_def)
  next
    case plan: False
    then have "base_tier op target \<noteq> R0" using False base_tier_R0_iff by blast
    then have "r_risk (Classify op target) \<noteq> R0"
      unfolding Classify_tier_spec tier_spec_def using R0_funpow_iff by auto
    then show ?thesis using eq plan by blast
  qed
qed

text \<open>
  Facts only aggravate: when a target is protected, internal, matched by a wildcard, in an existing
  or unknown schema subject, or created with an upsert where another target is not, and the two agree
  otherwise, its tier is at least as high.
\<close>

theorem classify_monotone:
  assumes same: "t_plan t' = t_plan t" "t_backend t' = t_backend t" "t_topic t' = t_topic t" "t_group t' = t_group t"
      "t_acl t' = t_acl t"
    and worse: "t_protected_topic t \<longrightarrow> t_protected_topic t'" "t_internal_topic t \<longrightarrow> t_internal_topic t'"
      "t_schema_exists t \<longrightarrow> t_schema_exists t'" "t_schema_unknown t \<longrightarrow> t_schema_unknown t'"
      "t_create_may_alter t \<longrightarrow> t_create_may_alter t'"
  shows "r_risk (Classify op t) \<le> r_risk (Classify op t')"
proof -
  have "destructive op t \<Longrightarrow> destructive op t'"
    using assms by (auto simp: destructive_def)
  moreover have "base_tier op t' = base_tier op t" using same by (simp add: base_tier_def)
  moreover have "length (filter id (aggravations op t)) \<le> length (filter id (aggravations op t'))"
    using assms by (intro length_filter_list_all2) (auto simp: aggravations_def wild_target_def)
  ultimately show ?thesis
    unfolding Classify_tier_spec tier_spec_def
    using funpow_risk_succ_mono [of "base_tier op t" "base_tier op t'"] by auto
qed

theorem classify_monotone_witness:
  "r_risk (Classify OperationAlterTopic (empty_target\<lparr>t_topic := ''orders''\<rparr>)) = R2 \<and>
   r_risk (Classify OperationAlterTopic (empty_target\<lparr>t_topic := ''orders'', t_protected_topic := True\<rparr>)) = R3 \<and>
   R2 \<le> (R3 :: risk)"
proof -
  have "r_risk (Classify OperationAlterTopic (empty_target\<lparr>t_topic := ''orders''\<rparr>)) \<le>
      r_risk (Classify OperationAlterTopic (empty_target\<lparr>t_topic := ''orders'', t_protected_topic := True\<rparr>))"
    by (rule classify_monotone) (simp_all add: empty_target_def)
  moreover have "r_risk (Classify OperationAlterTopic (empty_target\<lparr>t_topic := ''orders''\<rparr>)) = R2"
    "r_risk (Classify OperationAlterTopic (empty_target\<lparr>t_topic := ''orders'', t_protected_topic := True\<rparr>)) = R3"
    by code_simp+
  ultimately show ?thesis by simp
qed

text \<open>
  A grant below R3 is narrow: the pattern is literal or a regular expression without metacharacters,
  the principal is named, the resource is of a known type other than the cluster and, unless a regular
  expression names it, without wildcards, the operation is a known one that administers nothing, and
  the permission is allow or deny.
\<close>

theorem grant_below_R3_is_narrow:
  assumes "r_risk (Classify OperationGrantACL target) \<noteq> R3"
  shows "normalizeACLToken (a_pattern_type (t_acl target)) \<in> {''literal'', ''regex''} \<and>
    to_lower (trim_space (a_principal (t_acl target))) \<notin> {'''', ''*'', ''user:*''} \<and>
    to_lower (trim_space (a_resource_type (t_acl target))) \<notin> {'''', ''cluster''} \<and>
    knownACLResourceType (to_lower (trim_space (a_resource_type (t_acl target)))) \<and>
    (if normalizeACLToken (a_pattern_type (t_acl target)) = ''regex''
     then \<not> broadACLRegex (trim_space (a_resource_name (t_acl target)))
     else trim_space (a_resource_name (t_acl target)) \<noteq> '''' \<and> \<not> hasPattern (trim_space (a_resource_name (t_acl target)))) \<and>
    knownACLOperation (normalizeACLToken (a_operation (t_acl target))) \<and>
    normalizeACLToken (a_operation (t_acl target)) \<notin> {''all'', ''alter'', ''alterconfigs'', ''clusteraction''} \<and>
    to_lower (trim_space (a_permission (t_acl target))) \<in> {''allow'', ''deny''}"
proof -
  have "\<not> broadACLGrant (t_acl target)"
    using assms Classify_R3_if_destructive [of OperationGrantACL target] by (auto simp: destructive_def)
  then show ?thesis
    unfolding broadACLGrant_def broadACLPatternType_def broadACLResourceName_def broadACLOperation_def Let_def
    by (auto split: if_splits)
qed

definition demo_grant :: class_target where
  "demo_grant = empty_target\<lparr>t_acl := \<lparr>a_principal = ''User:alice'', a_resource_type = ''topic'',
     a_resource_name = ''orders'', a_pattern_type = ''literal'', a_operation = ''read'', a_permission = ''allow'',
     a_unknown = False\<rparr>\<rparr>"

theorem grant_below_R3_is_narrow_witness:
  "r_risk (Classify OperationGrantACL demo_grant) = R2 \<and>
   normalizeACLToken (a_pattern_type (t_acl demo_grant)) \<in> {''literal'', ''regex''}"
proof -
  have r: "r_risk (Classify OperationGrantACL demo_grant) = R2" by code_simp
  then have "r_risk (Classify OperationGrantACL demo_grant) \<noteq> R3" by simp
  from grant_below_R3_is_narrow [OF this] r show ?thesis by simp
qed

section \<open>Fingerprints\<close>

text \<open>
  What the program writes as a fingerprint of a ticket, a reason, an error or a payload is accepted
  by its own validation, and the bytes hashed determine both the domain and the value, so that equal
  values in different domains never share a preimage.
\<close>

theorem fingerprints_are_valid_and_separated:
  "validAuditFingerprint (mutationAuditFingerprint domain value) \<and>
   length (mutationAuditFingerprint domain value) = 71 \<and>
   (fingerprint_preimage ''ticket'' value = fingerprint_preimage ''reason'' value' \<longleftrightarrow> False) \<and>
   (fingerprint_preimage ''error'' value = fingerprint_preimage ''error'' value' \<longleftrightarrow> value = value')"
proof -
  have "length (mutationAuditFingerprint domain value) = 71" by (simp add: mutationAuditFingerprint_def)
  moreover have "validAuditFingerprint (mutationAuditFingerprint domain value)" by (rule fingerprint_valid)
  ultimately show ?thesis
    using fingerprint_preimage_inject [of "''ticket''" "''reason''" "value" "value'"]
      fingerprint_preimage_inject [of "''error''" "''error''" "value" "value'"] by simp
qed

end
