(* ===== verification/Broker_Types.thy ===== *)
theory Broker_Types
  imports Sha256
begin

text \<open>
  The data and the interface of package \<open>mqgov\<close> (internal/mqgov/broker.go and fingerprint.go).
  Every struct is a record whose fields carry the source's names behind a short prefix; Go's
  \<open>int\<close> and \<open>int64\<close> are \<open>int\<close> here: the code of these two files only stores and compares them, save
  for the sum of the three counters of a batch, which wraps at 64 bits (\<open>go_int\<close>). \<open>map[string]string\<close> is an association list, \<open>[]byte\<close> a
  string of bytes. The interface \<open>Broker\<close> and the optional interfaces found by type assertion
  are records of operations over the state of a backend; an absent interface is \<open>None\<close>.
\<close>

section \<open>Coordinates\<close>

definition MaxMessageBatchSize :: int where "MaxMessageBatchSize = 10000"

definition MaxMirrorBatchSize :: int where "MaxMirrorBatchSize = 1000"

record TopicCoordinate =
  tc_Cluster :: string
  tc_Namespace :: string
  tc_Topic :: string

record GroupCoordinate =
  gc_Cluster :: string
  gc_Namespace :: string
  gc_Group :: string

record MessageCoordinate =
  mc_TopicCoordinate :: TopicCoordinate
  mc_Partition :: int
  mc_Offset :: int

section \<open>Batches and fingerprints\<close>

record BatchOutcome =
  bo_Succeeded :: int
  bo_Failed :: int
  bo_Uncertain :: int

definition no_outcome :: BatchOutcome where
  "no_outcome = \<lparr>bo_Succeeded = 0, bo_Failed = 0, bo_Uncertain = 0\<rparr>"

definition BatchOutcome_Count :: "BatchOutcome \<Rightarrow> int" where
  "BatchOutcome_Count oc = go_int (bo_Succeeded oc + bo_Failed oc + bo_Uncertain oc)"

definition BatchOutcome_Empty :: "BatchOutcome \<Rightarrow> bool" where
  "BatchOutcome_Empty oc = (BatchOutcome_Count oc = 0)"

record PartitionImpact =
  pi_Partition :: int
  pi_From :: int
  pi_To :: int
  pi_Count :: int

record MessageFingerprint =
  mf_Partition :: int
  mf_Offset :: int
  mf_KeySHA256 :: string
  mf_BodySHA256 :: string
  mf_Size :: int
  mf_Timestamp :: string

record ResourceFingerprints =
  rf_KeySHA256 :: string
  rf_BodySHA256 :: string
  rf_Count :: int
  rf_Size :: int

definition count_fingerprint :: "int \<Rightarrow> ResourceFingerprints" where
  "count_fingerprint n = \<lparr>rf_KeySHA256 = '''', rf_BodySHA256 = '''', rf_Count = n, rf_Size = 0\<rparr>"

definition FingerprintMessage :: "int \<Rightarrow> int \<Rightarrow> string \<Rightarrow> string \<Rightarrow> MessageFingerprint" where
  "FingerprintMessage p off key body =
     \<lparr>mf_Partition = p, mf_Offset = off, mf_KeySHA256 = sha256Hex key,
      mf_BodySHA256 = sha256Hex body, mf_Size = int (length body), mf_Timestamp = ''''\<rparr>"

definition Fingerprints :: "string \<Rightarrow> string \<Rightarrow> int \<Rightarrow> ResourceFingerprints" where
  "Fingerprints key body n =
     \<lparr>rf_KeySHA256 = sha256Hex key, rf_BodySHA256 = sha256Hex body, rf_Count = n,
      rf_Size = int (length body)\<rparr>"

section \<open>Topics\<close>

record TopicListOptions =
  tlo_Namespace :: string
  tlo_Pattern :: string
  tlo_Limit :: int

record TopicDescription =
  td_Coordinate :: TopicCoordinate
  td_Partitions :: int
  td_Config :: "(string \<times> string) list"
  td_Protected :: bool
  td_Internal :: bool

record TopicCreateRequest =
  tcr_Coordinate :: TopicCoordinate
  tcr_Partitions :: int
  tcr_Config :: "(string \<times> string) list"
  tcr_Protected :: bool

record TopicAlterRequest =
  tar_Coordinate :: TopicCoordinate
  tar_Partitions :: int
  tar_Config :: "(string \<times> string) list"

record TopicPurgeRequest =
  tpr_Coordinate :: TopicCoordinate
  tpr_DLQ :: bool
  tpr_DryRun :: bool

record TopicPurgeResult =
  tpx_Outcome :: BatchOutcome
  tpx_Coordinate :: TopicCoordinate
  tpx_DLQ :: bool
  tpx_DryRun :: bool
  tpx_Impact :: "PartitionImpact list"
  tpx_AttemptedPartitions :: int
  tpx_AffectedMessages :: int
  tpx_Total :: int
  tpx_Fingerprint :: ResourceFingerprints

section \<open>Dead-letter queues\<close>

record DLQListOptions =
  dlo_Namespace :: string
  dlo_Topic :: string
  dlo_Group :: string
  dlo_Pattern :: string
  dlo_Limit :: int

record DLQDescription =
  dd_Coordinate :: TopicCoordinate
  dd_SourceTopic :: string
  dd_ConsumerGroup :: string
  dd_NativeModel :: string
  dd_Messages :: int

record DLQPeekRequest =
  dpr_DLQ :: TopicCoordinate
  dpr_Topic :: string
  dpr_Group :: string
  dpr_Partition :: int
  dpr_Offset :: int
  dpr_Count :: int

record DLQPeekResult =
  dpx_DLQ :: TopicCoordinate
  dpx_Partition :: int
  dpx_Offset :: int
  dpx_Count :: int
  dpx_Messages :: "MessageFingerprint list"

record DLQRedriveRequest =
  drr_DLQ :: TopicCoordinate
  drr_Target :: TopicCoordinate
  drr_Topic :: string
  drr_Group :: string
  drr_Count :: int
  drr_DryRun :: bool

record DLQRedriveResult =
  drx_Outcome :: BatchOutcome
  drx_DLQ :: TopicCoordinate
  drx_Target :: TopicCoordinate
  drx_DryRun :: bool
  drx_Impact :: "PartitionImpact list"
  drx_Total :: int
  drx_Fingerprint :: ResourceFingerprints

record DLQPurgeRequest =
  dur_DLQ :: TopicCoordinate
  dur_Topic :: string
  dur_Group :: string
  dur_DryRun :: bool

record DLQPurgeResult =
  dux_Outcome :: BatchOutcome
  dux_DLQ :: TopicCoordinate
  dux_DryRun :: bool
  dux_Impact :: "PartitionImpact list"
  dux_AttemptedPartitions :: int
  dux_AffectedMessages :: int
  dux_Total :: int
  dux_Fingerprint :: ResourceFingerprints

section \<open>Schemas\<close>

record SchemaListOptions =
  slo_Subject :: string
  slo_Pattern :: string
  slo_Limit :: int

record SchemaSubject =
  ss_Subject :: string

record SchemaDescription =
  sd_Subject :: string
  sd_Version :: string
  sd_ID :: int
  sd_Type :: string
  sd_Schema :: string
  sd_SchemaHash :: string
  sd_Versions :: "string list"
  sd_Properties :: "(string \<times> string) list"

record SchemaDescribeRequest =
  sdr_Subject :: string
  sdr_Version :: string

record SchemaCheckRequest =
  scr_Subject :: string
  scr_Version :: string
  scr_Type :: string
  scr_Schema :: string

record SchemaCheckResult =
  scx_Subject :: string
  scx_Version :: string
  scx_Compatible :: bool
  scx_SchemaHash :: string
  scx_Message :: string

record SchemaRegisterRequest =
  srr_Subject :: string
  srr_Type :: string
  srr_Schema :: string

record SchemaDeleteRequest =
  sxr_Subject :: string
  sxr_Version :: string
  sxr_Permanent :: bool

record SchemaDeleteResult =
  sxx_Subject :: string
  sxx_Version :: string
  sxx_Permanent :: bool
  sxx_Versions :: "string list"

section \<open>Groups, messages and offsets\<close>

record GroupListOptions =
  glo_Namespace :: string
  glo_Pattern :: string
  glo_Limit :: int

record GroupDescription =
  gd_Coordinate :: GroupCoordinate
  gd_Members :: int
  gd_State :: string

record Message =
  m_Coordinate :: MessageCoordinate
  m_Key :: string
  m_Body :: string
  m_Headers :: "(string \<times> string) list"

record MessageProduceRequest =
  mpr_Coordinate :: TopicCoordinate
  mpr_Key :: string
  mpr_Body :: string
  mpr_Headers :: "(string \<times> string) list"

record MessageProduceResult =
  mpx_Coordinate :: MessageCoordinate
  mpx_Fingerprint :: ResourceFingerprints

record MessagePeekRequest =
  mkr_Coordinate :: TopicCoordinate
  mkr_Partition :: int
  mkr_Offset :: int
  mkr_Count :: int

record MessagePeekResult =
  mkx_Coordinate :: TopicCoordinate
  mkx_Partition :: int
  mkx_Offset :: int
  mkx_Count :: int
  mkx_Messages :: "MessageFingerprint list"

record MessageTailRequest =
  mtr_Coordinate :: TopicCoordinate
  mtr_Partition :: int
  mtr_From :: string
  mtr_Follow :: bool
  mtr_MaxMessages :: int

record MessageTailResult =
  mtx_Coordinate :: TopicCoordinate
  mtx_Count :: int
  mtx_TotalSize :: int
  mtx_Impact :: "PartitionImpact list"

record MessageMirrorRequest =
  mmr_Source :: TopicCoordinate
  mmr_Target :: TopicCoordinate
  mmr_From :: string
  mmr_Partition :: int
  mmr_Limit :: int
  mmr_DryRun :: bool

record MessageMirrorResult =
  mmx_Outcome :: BatchOutcome
  mmx_Source :: TopicCoordinate
  mmx_Target :: TopicCoordinate
  mmx_DryRun :: bool
  mmx_Count :: int
  mmx_Impact :: "PartitionImpact list"
  mmx_Fingerprint :: ResourceFingerprints

record OffsetPlanRequest =
  opr_Group :: GroupCoordinate
  opr_Topic :: TopicCoordinate
  opr_To :: string
  opr_DryRun :: bool
  opr_Partition :: int

record OffsetPlan =
  op_Outcome :: BatchOutcome
  op_Group :: GroupCoordinate
  op_Topic :: TopicCoordinate
  op_To :: string
  op_DryRun :: bool
  op_Impact :: "PartitionImpact list"
  op_Total :: int

section \<open>Backends\<close>

record Description =
  de_Backend :: string
  de_Cluster :: string
  de_Namespace :: string

record Capabilities =
  cp_Backend :: string
  cp_ResourceTypes :: "string list"
  cp_Verbs :: "string list"
  cp_SupportsOffsets :: bool
  cp_SupportsPartitions :: bool
  cp_SupportsACL :: bool
  cp_SupportsDLQList :: bool
  cp_SupportsDLQPeek :: bool
  cp_SupportsDLQRedrive :: bool
  cp_SupportsDLQPurge :: bool
  cp_SupportsSchema :: bool

record ACLBinding =
  ab_Principal :: string
  ab_Host :: string
  ab_Vhost :: string
  ab_ResourceType :: string
  ab_ResourceName :: string
  ab_PatternType :: string
  ab_Operation :: string
  ab_Permission :: string

record ACLFilter =
  af_Principal :: string
  af_Host :: string
  af_Vhost :: string
  af_ResourceType :: string
  af_ResourceName :: string
  af_PatternType :: string
  af_Operation :: string
  af_Permission :: string

record 'b OffsetManager =
  PlanOffsetReset :: "OffsetPlanRequest \<Rightarrow> ('b, OffsetPlan) call"
  ResetOffset :: "OffsetPlanRequest \<Rightarrow> ('b, OffsetPlan) call"
  Lag :: "GroupCoordinate \<Rightarrow> TopicCoordinate \<Rightarrow> ('b, OffsetPlan) call"

record 'b PartitionManager =
  AlterTopic :: "TopicAlterRequest \<Rightarrow> ('b, TopicDescription) call"
  PurgeTopic :: "TopicPurgeRequest \<Rightarrow> ('b, TopicPurgeResult) call"

record 'b ACLManager =
  ListACLs :: "ACLFilter \<Rightarrow> ('b, ACLBinding list) call"
  GrantACL :: "ACLBinding \<Rightarrow> ('b, unit) op"
  RevokeACL :: "ACLBinding \<Rightarrow> ('b, unit) op"

record 'b DLQManager =
  ListDLQs :: "DLQListOptions \<Rightarrow> ('b, DLQDescription list) call"
  PeekDLQ :: "DLQPeekRequest \<Rightarrow> ('b, DLQPeekResult) call"
  RedriveDLQ :: "DLQRedriveRequest \<Rightarrow> ('b, DLQRedriveResult) call"
  PurgeDLQ :: "DLQPurgeRequest \<Rightarrow> ('b, DLQPurgeResult) call"

record 'b SchemaManager =
  ListSchemas :: "SchemaListOptions \<Rightarrow> ('b, SchemaSubject list) call"
  DescribeSchema :: "SchemaDescribeRequest \<Rightarrow> ('b, SchemaDescription) call"
  CheckCompatibility :: "SchemaCheckRequest \<Rightarrow> ('b, SchemaCheckResult) call"
  RegisterSchema :: "SchemaRegisterRequest \<Rightarrow> ('b, SchemaDescription) call"
  DeleteSchema :: "SchemaDeleteRequest \<Rightarrow> ('b, SchemaDeleteResult) call"

text \<open>
  The callback of a tail or a mirror runs in a state \<open>'s\<close> of its caller; the backend's operation
  threads both states. A broker is therefore typed by its own state and by the states of the two callers.
\<close>

type_synonym ('b, 's) Tailer =
  "MessageTailRequest \<Rightarrow> (MessageFingerprint \<Rightarrow> ('s, unit) op) \<Rightarrow> ('b \<times> 's, MessageTailResult) call"

type_synonym ('b, 's) MirrorSource =
  "MessageMirrorRequest \<Rightarrow> (Message \<Rightarrow> ('s, unit) op) \<Rightarrow> ('b \<times> 's, MessageMirrorResult) call"

record ('b, 't, 'm) Broker =
  Close :: "'b \<Rightarrow> 'b"
  Ping :: "('b, unit) op"
  Describe :: "'b \<Rightarrow> Description"
  BCapabilities :: "'b \<Rightarrow> Capabilities"
  ListTopics :: "TopicListOptions \<Rightarrow> ('b, TopicDescription list) call"
  DescribeTopic :: "TopicCoordinate \<Rightarrow> ('b, TopicDescription) call"
  CreateTopic :: "TopicCreateRequest \<Rightarrow> ('b, TopicDescription) call"
  DeleteTopic :: "TopicCoordinate \<Rightarrow> ('b, unit) op"
  ListGroups :: "GroupListOptions \<Rightarrow> ('b, GroupDescription list) call"
  CreateGroup :: "GroupCoordinate \<Rightarrow> ('b, GroupDescription) call"
  DeleteGroup :: "GroupCoordinate \<Rightarrow> ('b, unit) op"
  Peek :: "MessagePeekRequest \<Rightarrow> ('b, MessagePeekResult) call"
  Produce :: "MessageProduceRequest \<Rightarrow> ('b, MessageProduceResult) call"
  SupportsOffsets :: "'b OffsetManager option"
  SupportsPartitions :: "'b PartitionManager option"
  SupportsACL :: "'b ACLManager option"
  SupportsTail :: "('b, 't) Tailer option"
  SupportsMirrorSource :: "('b, 'm) MirrorSource option"
  SupportsDLQ :: "'b DLQManager option"
  SupportsSchema :: "'b SchemaManager option"

section \<open>Zero values\<close>

text \<open>What Go returns in the place of a result beside an error: every field zero.\<close>

definition zero_TopicCoordinate :: TopicCoordinate where
  "zero_TopicCoordinate = \<lparr>tc_Cluster = '''', tc_Namespace = '''', tc_Topic = ''''\<rparr>"

definition zero_GroupCoordinate :: GroupCoordinate where
  "zero_GroupCoordinate = \<lparr>gc_Cluster = '''', gc_Namespace = '''', gc_Group = ''''\<rparr>"

definition zero_TopicDescription :: TopicDescription where
  "zero_TopicDescription = \<lparr>td_Coordinate = zero_TopicCoordinate, td_Partitions = 0, td_Config = [],
     td_Protected = False, td_Internal = False\<rparr>"

definition zero_GroupDescription :: GroupDescription where
  "zero_GroupDescription = \<lparr>gd_Coordinate = zero_GroupCoordinate, gd_Members = 0, gd_State = ''''\<rparr>"

definition zero_TopicPurgeResult :: TopicPurgeResult where
  "zero_TopicPurgeResult = \<lparr>tpx_Outcome = no_outcome, tpx_Coordinate = zero_TopicCoordinate, tpx_DLQ = False,
     tpx_DryRun = False, tpx_Impact = [], tpx_AttemptedPartitions = 0, tpx_AffectedMessages = 0, tpx_Total = 0,
     tpx_Fingerprint = count_fingerprint 0\<rparr>"

definition zero_DLQPeekResult :: DLQPeekResult where
  "zero_DLQPeekResult = \<lparr>dpx_DLQ = zero_TopicCoordinate, dpx_Partition = 0, dpx_Offset = 0, dpx_Count = 0,
     dpx_Messages = []\<rparr>"

definition zero_DLQRedriveResult :: DLQRedriveResult where
  "zero_DLQRedriveResult = \<lparr>drx_Outcome = no_outcome, drx_DLQ = zero_TopicCoordinate,
     drx_Target = zero_TopicCoordinate, drx_DryRun = False, drx_Impact = [], drx_Total = 0,
     drx_Fingerprint = count_fingerprint 0\<rparr>"

definition zero_DLQPurgeResult :: DLQPurgeResult where
  "zero_DLQPurgeResult = \<lparr>dux_Outcome = no_outcome, dux_DLQ = zero_TopicCoordinate, dux_DryRun = False,
     dux_Impact = [], dux_AttemptedPartitions = 0, dux_AffectedMessages = 0, dux_Total = 0,
     dux_Fingerprint = count_fingerprint 0\<rparr>"

definition zero_SchemaDescription :: SchemaDescription where
  "zero_SchemaDescription = \<lparr>sd_Subject = '''', sd_Version = '''', sd_ID = 0, sd_Type = '''', sd_Schema = '''',
     sd_SchemaHash = '''', sd_Versions = [], sd_Properties = []\<rparr>"

definition zero_SchemaCheckResult :: SchemaCheckResult where
  "zero_SchemaCheckResult = \<lparr>scx_Subject = '''', scx_Version = '''', scx_Compatible = False,
     scx_SchemaHash = '''', scx_Message = ''''\<rparr>"

definition zero_SchemaDeleteResult :: SchemaDeleteResult where
  "zero_SchemaDeleteResult = \<lparr>sxx_Subject = '''', sxx_Version = '''', sxx_Permanent = False, sxx_Versions = []\<rparr>"

definition zero_MessageProduceResult :: MessageProduceResult where
  "zero_MessageProduceResult = \<lparr>mpx_Coordinate = \<lparr>mc_TopicCoordinate = zero_TopicCoordinate, mc_Partition = 0,
     mc_Offset = 0\<rparr>, mpx_Fingerprint = count_fingerprint 0\<rparr>"

definition zero_MessagePeekResult :: MessagePeekResult where
  "zero_MessagePeekResult = \<lparr>mkx_Coordinate = zero_TopicCoordinate, mkx_Partition = 0, mkx_Offset = 0,
     mkx_Count = 0, mkx_Messages = []\<rparr>"

definition zero_MessageTailResult :: MessageTailResult where
  "zero_MessageTailResult = \<lparr>mtx_Coordinate = zero_TopicCoordinate, mtx_Count = 0, mtx_TotalSize = 0,
     mtx_Impact = []\<rparr>"

definition zero_MessageMirrorResult :: MessageMirrorResult where
  "zero_MessageMirrorResult = \<lparr>mmx_Outcome = no_outcome, mmx_Source = zero_TopicCoordinate,
     mmx_Target = zero_TopicCoordinate, mmx_DryRun = False, mmx_Count = 0, mmx_Impact = [],
     mmx_Fingerprint = count_fingerprint 0\<rparr>"

definition zero_OffsetPlan :: OffsetPlan where
  "zero_OffsetPlan = \<lparr>op_Outcome = no_outcome, op_Group = zero_GroupCoordinate, op_Topic = zero_TopicCoordinate,
     op_To = '''', op_DryRun = False, op_Impact = [], op_Total = 0\<rparr>"

section \<open>Facts on batches and fingerprints\<close>

text \<open>The outcomes whose counters are counts: not negative, and adding up within 64 bits.\<close>

definition outcome_counts :: "BatchOutcome \<Rightarrow> bool" where
  "outcome_counts oc = (0 \<le> bo_Succeeded oc \<and> 0 \<le> bo_Failed oc \<and> 0 \<le> bo_Uncertain oc \<and>
     bo_Succeeded oc + bo_Failed oc + bo_Uncertain oc < 2 ^ 63)"

lemma outcome_count_sum:
  "outcome_counts oc \<Longrightarrow> BatchOutcome_Count oc = bo_Succeeded oc + bo_Failed oc + bo_Uncertain oc"
  by (simp add: outcome_counts_def BatchOutcome_Count_def)

lemma outcome_empty_iff:
  assumes "outcome_counts oc"
  shows "BatchOutcome_Empty oc \<longleftrightarrow> oc = no_outcome"
  using assms outcome_count_sum [OF assms]
  by (cases oc) (auto simp: outcome_counts_def BatchOutcome_Empty_def no_outcome_def)

lemma no_outcome_facts [simp]:
  "BatchOutcome_Empty no_outcome" "BatchOutcome_Count no_outcome = 0" "outcome_counts no_outcome"
  by (simp_all add: no_outcome_def BatchOutcome_Empty_def BatchOutcome_Count_def outcome_counts_def)

lemma FingerprintMessage_at [simp]:
  "mf_Offset (FingerprintMessage p off k b) = off" "mf_Partition (FingerprintMessage p off k b) = p"
  "mf_Size (FingerprintMessage p off k b) = int (length b)"
  by (simp_all add: FingerprintMessage_def)

end
