(* ===== verification/Fake_Broker.thy ===== *)
theory Fake_Broker
  imports Broker_Types
begin

text \<open>
  The in-memory backend of internal/backend/fake/fake.go, complete: the state of \<open>Broker\<close>, one
  operation per method, and the operation records through which the commands reach it.

  A Go map is an association list with distinct keys; the order of the list stands for the order,
  unspecified in Go, in which \<open>range\<close> visits the map. A \<open>*topicState\<close> is owned by one key of
  \<open>topics\<close>, so an update through the pointer is an update of the map. The mutex makes every method
  atomic. Records returned to a caller are values: the maps inside them, shared in Go, are read
  before the next operation runs.
\<close>

section \<open>State\<close>

record topicState =
  ts_desc :: TopicDescription
  ts_messages :: "Message list"

record fake =
  fk_cluster :: string
  fk_namespace :: string
  fk_topics :: "(string \<times> topicState) list"
  fk_groups :: "(string \<times> GroupDescription) list"
  fk_lag :: "(string \<times> (int \<times> int) list) list"
  fk_schemas :: "(string \<times> SchemaDescription) list"

definition fake_coord :: "string \<Rightarrow> string \<Rightarrow> string \<Rightarrow> TopicCoordinate" where
  "fake_coord cluster namespace topic =
     \<lparr>tc_Cluster = cluster, tc_Namespace = namespace, tc_Topic = topic\<rparr>"

definition fake_order_schema :: string where
  "fake_order_schema =
     ''{'' @ [CHR 0x22] @ ''type'' @ [CHR 0x22] @ '':'' @ [CHR 0x22] @ ''record'' @ [CHR 0x22] @
     '','' @ [CHR 0x22] @ ''name'' @ [CHR 0x22] @ '':'' @ [CHR 0x22] @ ''Order'' @ [CHR 0x22] @
     '','' @ [CHR 0x22] @ ''fields'' @ [CHR 0x22] @ '':[{'' @ [CHR 0x22] @ ''name'' @ [CHR 0x22] @
     '':'' @ [CHR 0x22] @ ''id'' @ [CHR 0x22] @ '','' @ [CHR 0x22] @ ''type'' @ [CHR 0x22] @ '':'' @
     [CHR 0x22] @ ''string'' @ [CHR 0x22] @ ''}]}''"

definition New :: "string \<Rightarrow> string \<Rightarrow> fake" where
  "New cluster0 namespace =
    (let cluster = (if cluster0 = '''' then ''fake'' else cluster0);
         topic = (\<lambda>name parts config prot int_topic msgs.
           (name, \<lparr>ts_desc = \<lparr>td_Coordinate = fake_coord cluster namespace name,
              td_Partitions = parts, td_Config = config, td_Protected = prot,
              td_Internal = int_topic\<rparr>, ts_messages = msgs\<rparr>))
     in \<lparr>fk_cluster = cluster, fk_namespace = namespace,
         fk_topics =
           [topic ''orders'' 3 [(''retention.ms'', ''60000'')] False False [],
            topic ''orders.dlq'' 1 [] False False
              [\<lparr>m_Coordinate = \<lparr>mc_TopicCoordinate = fake_coord cluster namespace ''orders.dlq'',
                 mc_Partition = 0, mc_Offset = 0\<rparr>, m_Key = ''dlq-key'', m_Body = ''dlq-body'',
                 m_Headers = []\<rparr>],
            topic ''payments'' 2 [] True False [],
            topic ''__consumer_offsets'' 2 [] True True []],
         fk_groups =
           [(''billing'', \<lparr>gd_Coordinate = \<lparr>gc_Cluster = cluster, gc_Namespace = namespace,
              gc_Group = ''billing''\<rparr>, gd_Members = 1, gd_State = ''stable''\<rparr>)],
         fk_lag = [(''billing:orders'', [(0, 12), (1, 0), (2, 7)])],
         fk_schemas =
           [(''orders-value'', \<lparr>sd_Subject = ''orders-value'', sd_Version = ''1'', sd_ID = 1,
              sd_Type = ''AVRO'', sd_Schema = fake_order_schema,
              sd_SchemaHash = sha256Hex fake_order_schema, sd_Versions = [''1''],
              sd_Properties = []\<rparr>)]\<rparr>)"

definition fake_Describe :: "fake \<Rightarrow> Description" where
  "fake_Describe b =
     \<lparr>de_Backend = ''fake'', de_Cluster = fk_cluster b, de_Namespace = fk_namespace b\<rparr>"

definition fake_Capabilities :: "fake \<Rightarrow> Capabilities" where
  "fake_Capabilities b =
     \<lparr>cp_Backend = ''fake'',
      cp_ResourceTypes = [''topic'', ''group'', ''message'', ''offset'', ''dlq'', ''schema''],
      cp_Verbs = [''list'', ''describe'', ''lag'', ''peek'', ''produce'', ''create'', ''alter'',
        ''delete'', ''purge'', ''reset-offset'', ''redrive'', ''check-schema'', ''register-schema'',
        ''delete-schema''],
      cp_SupportsOffsets = True, cp_SupportsPartitions = True, cp_SupportsACL = False,
      cp_SupportsDLQList = True, cp_SupportsDLQPeek = True, cp_SupportsDLQRedrive = True,
      cp_SupportsDLQPurge = True, cp_SupportsSchema = True\<rparr>"

definition fake_limit :: "int \<Rightarrow> 'a list \<Rightarrow> 'a list" where
  "fake_limit limit items = (if 0 < limit \<and> limit < int (length items) then take (nat limit) items else items)"

section \<open>Schemas\<close>

definition fake_ListSchemas :: "SchemaListOptions \<Rightarrow> (fake, SchemaSubject list) op" where
  "fake_ListSchemas opts b =
    (let wanted = (\<lambda>subject. \<not> (slo_Subject opts \<noteq> '''' \<and> slo_Subject opts \<noteq> subject) \<and>
           \<not> (slo_Pattern opts \<noteq> '''' \<and> slo_Pattern opts \<noteq> subject));
         items = map (\<lambda>subject. \<lparr>ss_Subject = subject\<rparr>) (filter wanted (map fst (fk_schemas b)))
     in (Inr (fake_limit (slo_Limit opts) (sort_key ss_Subject items)), b))"

definition schema_version_missing :: "string \<Rightarrow> SchemaDescription \<Rightarrow> bool" where
  "schema_version_missing version desc =
     (version \<noteq> '''' \<and> version \<noteq> ''latest'' \<and> version \<noteq> sd_Version desc)"

definition fake_DescribeSchema :: "SchemaDescribeRequest \<Rightarrow> (fake, SchemaDescription) op" where
  "fake_DescribeSchema req b =
    (case map_of (fk_schemas b) (sdr_Subject req) of
       None \<Rightarrow> (Inl (not_found ''schema subject not found''), b)
     | Some desc \<Rightarrow>
         if schema_version_missing (sdr_Version req) desc
         then (Inl (not_found ''schema version not found''), b)
         else (Inr desc, b))"

definition fake_CheckCompatibility :: "SchemaCheckRequest \<Rightarrow> (fake, SchemaCheckResult) op" where
  "fake_CheckCompatibility req b =
    (case map_of (fk_schemas b) (scr_Subject req) of
       None \<Rightarrow> (Inl (not_found ''schema subject not found''), b)
     | Some _ \<Rightarrow>
         (Inr \<lparr>scx_Subject = scr_Subject req,
               scx_Version = firstNonEmpty [scr_Version req, ''latest''], scx_Compatible = True,
               scx_SchemaHash = sha256Hex (scr_Schema req), scx_Message = ''''\<rparr>, b))"

definition fake_RegisterSchema :: "SchemaRegisterRequest \<Rightarrow> (fake, SchemaDescription) op" where
  "fake_RegisterSchema req b =
    (if srr_Subject req = '''' then (Inl (usage_error ''schema subject is required''), b)
     else if srr_Schema req = '''' then (Inl (usage_error ''schema text is required''), b)
     else
       let (version, id, versions) =
             (case map_of (fk_schemas b) (srr_Subject req) of
                Some current \<Rightarrow>
                  let version = show_nat (length (sd_Versions current) + 1)
                  in (version, sd_ID current + 1, sd_Versions current @ [version])
              | None \<Rightarrow> (''1'', 1, [''1'']));
           desc = \<lparr>sd_Subject = srr_Subject req, sd_Version = version, sd_ID = id,
             sd_Type = firstNonEmpty [srr_Type req, ''AVRO''], sd_Schema = srr_Schema req,
             sd_SchemaHash = sha256Hex (srr_Schema req), sd_Versions = versions,
             sd_Properties = []\<rparr>
       in (Inr desc, b\<lparr>fk_schemas := alist_put (srr_Subject req) desc (fk_schemas b)\<rparr>))"

definition fake_DeleteSchema :: "SchemaDeleteRequest \<Rightarrow> (fake, SchemaDeleteResult) op" where
  "fake_DeleteSchema req b =
    (case map_of (fk_schemas b) (sxr_Subject req) of
       None \<Rightarrow> (Inl (not_found ''schema subject not found''), b)
     | Some desc \<Rightarrow>
         if schema_version_missing (sxr_Version req) desc
         then (Inl (not_found ''schema version not found''), b)
         else (Inr \<lparr>sxx_Subject = sxr_Subject req, sxx_Version = sxr_Version req,
                    sxx_Permanent = sxr_Permanent req, sxx_Versions = sd_Versions desc\<rparr>,
               b\<lparr>fk_schemas := alist_del (sxr_Subject req) (fk_schemas b)\<rparr>))"

section \<open>Topics and groups\<close>

definition fake_ListTopics :: "TopicListOptions \<Rightarrow> (fake, TopicDescription list) op" where
  "fake_ListTopics opts b =
    (let wanted = (\<lambda>desc. \<not> (tlo_Pattern opts \<noteq> '''' \<and>
           tlo_Pattern opts \<noteq> tc_Topic (td_Coordinate desc)));
         items = filter wanted (map (ts_desc \<circ> snd) (fk_topics b))
     in (Inr (fake_limit (tlo_Limit opts) (sort_key (tc_Topic \<circ> td_Coordinate) items)), b))"

definition fake_DescribeTopic :: "TopicCoordinate \<Rightarrow> (fake, TopicDescription) op" where
  "fake_DescribeTopic coord b =
    (case map_of (fk_topics b) (tc_Topic coord) of
       None \<Rightarrow> (Inl (not_found ''topic not found''), b)
     | Some state \<Rightarrow> (Inr (ts_desc state), b))"

definition fake_CreateTopic :: "TopicCreateRequest \<Rightarrow> (fake, TopicDescription) op" where
  "fake_CreateTopic req b =
    (case map_of (fk_topics b) (tc_Topic (tcr_Coordinate req)) of
       Some _ \<Rightarrow> (Inl (AppError CodeResourceAlreadyExists ''topic already exists'' None), b)
     | None \<Rightarrow>
         let partitions = (if tcr_Partitions req \<le> 0 then 1 else tcr_Partitions req);
             desc = \<lparr>td_Coordinate = tcr_Coordinate req, td_Partitions = partitions,
               td_Config = tcr_Config req, td_Protected = tcr_Protected req, td_Internal = False\<rparr>
         in (Inr desc, b\<lparr>fk_topics := alist_put (tc_Topic (tcr_Coordinate req))
               \<lparr>ts_desc = desc, ts_messages = []\<rparr> (fk_topics b)\<rparr>))"

definition fake_DeleteTopic :: "TopicCoordinate \<Rightarrow> (fake, unit) op" where
  "fake_DeleteTopic coord b =
    (case map_of (fk_topics b) (tc_Topic coord) of
       None \<Rightarrow> (Inl (not_found ''topic not found''), b)
     | Some _ \<Rightarrow> (Inr (), b\<lparr>fk_topics := alist_del (tc_Topic coord) (fk_topics b)\<rparr>))"

definition fake_ListGroups :: "GroupListOptions \<Rightarrow> (fake, GroupDescription list) op" where
  "fake_ListGroups opts b =
    (let wanted = (\<lambda>group. \<not> (glo_Pattern opts \<noteq> '''' \<and>
           glo_Pattern opts \<noteq> gc_Group (gd_Coordinate group)))
     in (Inr (sort_key (gc_Group \<circ> gd_Coordinate) (filter wanted (map snd (fk_groups b)))), b))"

definition fake_CreateGroup :: "GroupCoordinate \<Rightarrow> (fake, GroupDescription) op" where
  "fake_CreateGroup coord b =
    (case map_of (fk_groups b) (gc_Group coord) of
       Some _ \<Rightarrow> (Inl (AppError CodeResourceAlreadyExists ''group already exists'' None), b)
     | None \<Rightarrow>
         let desc = \<lparr>gd_Coordinate = coord, gd_Members = 0, gd_State = ''empty''\<rparr>
         in (Inr desc, b\<lparr>fk_groups := alist_put (gc_Group coord) desc (fk_groups b)\<rparr>))"

definition fake_DeleteGroup :: "GroupCoordinate \<Rightarrow> (fake, unit) op" where
  "fake_DeleteGroup coord b =
    (case map_of (fk_groups b) (gc_Group coord) of
       None \<Rightarrow> (Inl (not_found ''group not found''), b)
     | Some _ \<Rightarrow> (Inr (), b\<lparr>fk_groups := alist_del (gc_Group coord) (fk_groups b)\<rparr>))"

definition fake_AlterTopic :: "TopicAlterRequest \<Rightarrow> (fake, TopicDescription) op" where
  "fake_AlterTopic req b =
    (case map_of (fk_topics b) (tc_Topic (tar_Coordinate req)) of
       None \<Rightarrow> (Inl (not_found ''topic not found''), b)
     | Some state \<Rightarrow>
         let desc = ts_desc state;
             desc1 = (if td_Partitions desc < tar_Partitions req
                      then desc\<lparr>td_Partitions := tar_Partitions req\<rparr> else desc);
             desc2 = desc1\<lparr>td_Config := fold (\<lambda>(key, value). alist_put key value)
                       (tar_Config req) (td_Config desc1)\<rparr>
         in (Inr desc2, b\<lparr>fk_topics := alist_put (tc_Topic (tar_Coordinate req))
               (state\<lparr>ts_desc := desc2\<rparr>) (fk_topics b)\<rparr>))"

section \<open>Messages\<close>

text \<open>The loop of \<open>peekMessages\<close>; \<open>index\<close> is the position in the topic, \<open>room\<close> the messages still wanted.\<close>

fun fake_peek_loop :: "int \<Rightarrow> int \<Rightarrow> int \<Rightarrow> int \<Rightarrow> Message list \<Rightarrow> MessageFingerprint list" where
  "fake_peek_loop part off room index [] = []"
| "fake_peek_loop part off room index (m # ms) =
    (if room \<le> 0 then []
     else if mc_Partition (m_Coordinate m) = part \<and> off \<le> mc_Offset (m_Coordinate m)
     then FingerprintMessage part index (m_Key m) (m_Body m) #
            fake_peek_loop part off (room - 1) (index + 1) ms
     else fake_peek_loop part off room (index + 1) ms)"

definition fake_peekMessages ::
  "string \<Rightarrow> int \<Rightarrow> int \<Rightarrow> int \<Rightarrow> string \<Rightarrow> (fake, MessageFingerprint list) op" where
  "fake_peekMessages topic part off count notFound b =
    (if count \<le> 0 then (Inl (usage_error ''peek count must be positive''), b)
     else if MaxMessageBatchSize < count
     then (Inl (usage_error ''peek count exceeds the safe batch limit''), b)
     else if part < 0 \<or> off < 0
     then (Inl (usage_error ''peek partition and offset must be non-negative''), b)
     else case map_of (fk_topics b) topic of
       None \<Rightarrow> (Inl (not_found notFound), b)
     | Some state \<Rightarrow> (Inr (fake_peek_loop part off count 0 (ts_messages state)), b))"

definition fake_Peek :: "MessagePeekRequest \<Rightarrow> (fake, MessagePeekResult) op" where
  "fake_Peek req =
     seqE (fake_peekMessages (tc_Topic (mkr_Coordinate req)) (mkr_Partition req) (mkr_Offset req)
        (mkr_Count req) ''topic not found'')
      (\<lambda>msgs. ret \<lparr>mkx_Coordinate = mkr_Coordinate req, mkx_Partition = mkr_Partition req,
        mkx_Offset = mkr_Offset req, mkx_Count = int (length msgs), mkx_Messages = msgs\<rparr>)"

definition fake_PeekDLQ :: "DLQPeekRequest \<Rightarrow> (fake, DLQPeekResult) op" where
  "fake_PeekDLQ req =
     seqE (fake_peekMessages (tc_Topic (dpr_DLQ req)) (dpr_Partition req) (dpr_Offset req)
        (dpr_Count req) ''DLQ not found'')
      (\<lambda>msgs. ret \<lparr>dpx_DLQ = dpr_DLQ req, dpx_Partition = dpr_Partition req,
        dpx_Offset = dpr_Offset req, dpx_Count = int (length msgs), dpx_Messages = msgs\<rparr>)"

definition fake_Produce :: "MessageProduceRequest \<Rightarrow> (fake, MessageProduceResult) op" where
  "fake_Produce req b =
    (case map_of (fk_topics b) (tc_Topic (mpr_Coordinate req)) of
       None \<Rightarrow> (Inl (not_found ''topic not found''), b)
     | Some state \<Rightarrow>
         let msg = \<lparr>m_Coordinate = \<lparr>mc_TopicCoordinate = mpr_Coordinate req, mc_Partition = 0,
                      mc_Offset = int (length (ts_messages state))\<rparr>,
                    m_Key = mpr_Key req, m_Body = mpr_Body req, m_Headers = mpr_Headers req\<rparr>
         in (Inr \<lparr>mpx_Coordinate = m_Coordinate msg,
                  mpx_Fingerprint = Fingerprints (mpr_Key req) (mpr_Body req) 1\<rparr>,
             b\<lparr>fk_topics := alist_put (tc_Topic (mpr_Coordinate req))
               (state\<lparr>ts_messages := ts_messages state @ [msg]\<rparr>) (fk_topics b)\<rparr>))"

definition fake_impact :: "int \<Rightarrow> PartitionImpact list" where
  "fake_impact n = [\<lparr>pi_Partition = 0, pi_From = 0, pi_To = 0, pi_Count = n\<rparr>]"

definition fake_PurgeTopic :: "TopicPurgeRequest \<Rightarrow> (fake, TopicPurgeResult) op" where
  "fake_PurgeTopic req b =
    (case map_of (fk_topics b) (tc_Topic (tpr_Coordinate req)) of
       None \<Rightarrow> (Inl (not_found ''topic not found''), b)
     | Some state \<Rightarrow>
         let total = int (length (ts_messages state));
             b' = (if tpr_DryRun req then b
                   else b\<lparr>fk_topics := alist_put (tc_Topic (tpr_Coordinate req))
                          (state\<lparr>ts_messages := []\<rparr>) (fk_topics b)\<rparr>)
         in (Inr \<lparr>tpx_Outcome = no_outcome, tpx_Coordinate = tpr_Coordinate req,
                  tpx_DLQ = tpr_DLQ req, tpx_DryRun = tpr_DryRun req,
                  tpx_Impact = fake_impact total, tpx_AttemptedPartitions = 0,
                  tpx_AffectedMessages = 0, tpx_Total = total,
                  tpx_Fingerprint = count_fingerprint total\<rparr>, b'))"

section \<open>Dead-letter queues\<close>

definition fake_ListDLQs :: "DLQListOptions \<Rightarrow> (fake, DLQDescription list) op" where
  "fake_ListDLQs opts b =
    (let wanted = (\<lambda>name. \<not> (dlo_Pattern opts \<noteq> '''' \<and> dlo_Pattern opts \<noteq> name) \<and>
           \<not> (dlo_Topic opts \<noteq> '''' \<and> dlo_Topic opts @ ''.dlq'' \<noteq> name \<and> dlo_Topic opts \<noteq> name) \<and>
           name = ''orders.dlq'');
         items = map (\<lambda>(name, state). \<lparr>dd_Coordinate = td_Coordinate (ts_desc state),
             dd_SourceTopic = ''orders'', dd_ConsumerGroup = '''', dd_NativeModel = ''fake-topic'',
             dd_Messages = int (length (ts_messages state))\<rparr>)
           (filter (wanted \<circ> fst) (fk_topics b))
     in (Inr (sort_key (tc_Topic \<circ> dd_Coordinate) items), b))"

text \<open>The loop of \<open>RedriveDLQ\<close>: each message is appended to the target at the target's next offset.\<close>

fun fake_move :: "TopicCoordinate \<Rightarrow> Message list \<Rightarrow> Message list \<Rightarrow> Message list" where
  "fake_move coord target [] = target"
| "fake_move coord target (m # ms) =
     fake_move coord (target @ [\<lparr>m_Coordinate = \<lparr>mc_TopicCoordinate = coord, mc_Partition = 0,
        mc_Offset = int (length target)\<rparr>, m_Key = m_Key m, m_Body = m_Body m,
        m_Headers = m_Headers m\<rparr>]) ms"

definition fake_RedriveDLQ :: "DLQRedriveRequest \<Rightarrow> (fake, DLQRedriveResult) op" where
  "fake_RedriveDLQ req b =
    (if drr_Count req \<le> 0 \<or> MaxMessageBatchSize < drr_Count req
     then (Inl (usage_error ''redrive count must be within the safe batch limit''), b)
     else if tc_Topic (drr_DLQ req) = tc_Topic (drr_Target req)
     then (Inl (usage_error ''redrive target must differ from the DLQ''), b)
     else case map_of (fk_topics b) (tc_Topic (drr_DLQ req)) of
       None \<Rightarrow> (Inl (not_found ''DLQ not found''), b)
     | Some dlq \<Rightarrow>
       (case map_of (fk_topics b) (tc_Topic (drr_Target req)) of
          None \<Rightarrow> (Inl (not_found ''target topic not found''), b)
        | Some target \<Rightarrow>
            let avail = int (length (ts_messages dlq));
                limit = (if drr_Count req \<le> 0 \<or> avail < drr_Count req then avail
                         else drr_Count req);
                moved = fake_move (drr_Target req) (ts_messages target)
                          (take (nat limit) (ts_messages dlq));
                b' = (if drr_DryRun req then b
                      else b\<lparr>fk_topics :=
                        alist_put (tc_Topic (drr_DLQ req))
                          (dlq\<lparr>ts_messages := drop (nat limit) (ts_messages dlq)\<rparr>)
                        (alist_put (tc_Topic (drr_Target req)) (target\<lparr>ts_messages := moved\<rparr>)
                          (fk_topics b))\<rparr>)
            in (Inr \<lparr>drx_Outcome = no_outcome, drx_DLQ = drr_DLQ req, drx_Target = drr_Target req,
                     drx_DryRun = drr_DryRun req, drx_Impact = fake_impact limit,
                     drx_Total = limit, drx_Fingerprint = count_fingerprint limit\<rparr>, b')))"

definition fake_PurgeDLQ :: "DLQPurgeRequest \<Rightarrow> (fake, DLQPurgeResult) op" where
  "fake_PurgeDLQ req b =
    (case map_of (fk_topics b) (tc_Topic (dur_DLQ req)) of
       None \<Rightarrow> (Inl (not_found ''DLQ not found''), b)
     | Some state \<Rightarrow>
         let total = int (length (ts_messages state));
             b' = (if dur_DryRun req then b
                   else b\<lparr>fk_topics := alist_put (tc_Topic (dur_DLQ req))
                          (state\<lparr>ts_messages := []\<rparr>) (fk_topics b)\<rparr>)
         in (Inr \<lparr>dux_Outcome = no_outcome, dux_DLQ = dur_DLQ req, dux_DryRun = dur_DryRun req,
                  dux_Impact = fake_impact total, dux_AttemptedPartitions = 0,
                  dux_AffectedMessages = 0, dux_Total = total,
                  dux_Fingerprint = count_fingerprint total\<rparr>, b'))"

section \<open>Offsets\<close>

definition fake_offsetPlan :: "OffsetPlanRequest \<Rightarrow> bool \<Rightarrow> fake \<Rightarrow> OffsetPlan" where
  "fake_offsetPlan req dryRun b =
    (let key = gc_Group (opr_Group req) @ '':'' @ tc_Topic (opr_Topic req);
         partitions = (case map_of (fk_lag b) key of Some ps \<Rightarrow> ps | None \<Rightarrow> []);
         chosen = filter (\<lambda>(part, _). \<not> (0 \<le> opr_Partition req \<and> part \<noteq> opr_Partition req))
                    partitions;
         impact = map (\<lambda>(part, count). \<lparr>pi_Partition = part, pi_From = count, pi_To = 0,
                    pi_Count = count\<rparr>) chosen
     in \<lparr>op_Outcome = no_outcome, op_Group = opr_Group req, op_Topic = opr_Topic req,
         op_To = opr_To req, op_DryRun = dryRun, op_Impact = sort_key pi_Partition impact,
         op_Total = sum_list (map snd chosen)\<rparr>)"

definition fake_PlanOffsetReset :: "OffsetPlanRequest \<Rightarrow> (fake, OffsetPlan) op" where
  "fake_PlanOffsetReset req b = (Inr (fake_offsetPlan req True b), b)"

definition fake_ResetOffset :: "OffsetPlanRequest \<Rightarrow> (fake, OffsetPlan) op" where
  "fake_ResetOffset req b = (Inr (fake_offsetPlan req (opr_DryRun req) b), b)"

definition fake_Lag :: "GroupCoordinate \<Rightarrow> TopicCoordinate \<Rightarrow> (fake, OffsetPlan) op" where
  "fake_Lag grp topic b =
     (Inr (fake_offsetPlan \<lparr>opr_Group = grp, opr_Topic = topic, opr_To = ''latest'',
        opr_DryRun = True, opr_Partition = 0\<rparr> True b), b)"

section \<open>The operation records\<close>

text \<open>Beside an error every method returns the zero value of its result.\<close>

definition fake_offsets :: "fake OffsetManager" where
  "fake_offsets = \<lparr>PlanOffsetReset = orZero zero_OffsetPlan \<circ> fake_PlanOffsetReset,
     ResetOffset = orZero zero_OffsetPlan \<circ> fake_ResetOffset,
     Lag = (\<lambda>grp topic. orZero zero_OffsetPlan (fake_Lag grp topic))\<rparr>"

definition fake_partitions :: "fake PartitionManager" where
  "fake_partitions = \<lparr>AlterTopic = orZero zero_TopicDescription \<circ> fake_AlterTopic,
     PurgeTopic = orZero zero_TopicPurgeResult \<circ> fake_PurgeTopic\<rparr>"

definition fake_dlqs :: "fake DLQManager" where
  "fake_dlqs = \<lparr>ListDLQs = orZero [] \<circ> fake_ListDLQs, PeekDLQ = orZero zero_DLQPeekResult \<circ> fake_PeekDLQ,
     RedriveDLQ = orZero zero_DLQRedriveResult \<circ> fake_RedriveDLQ,
     PurgeDLQ = orZero zero_DLQPurgeResult \<circ> fake_PurgeDLQ\<rparr>"

definition fake_schemas :: "fake SchemaManager" where
  "fake_schemas = \<lparr>ListSchemas = orZero [] \<circ> fake_ListSchemas,
     DescribeSchema = orZero zero_SchemaDescription \<circ> fake_DescribeSchema,
     CheckCompatibility = orZero zero_SchemaCheckResult \<circ> fake_CheckCompatibility,
     RegisterSchema = orZero zero_SchemaDescription \<circ> fake_RegisterSchema,
     DeleteSchema = orZero zero_SchemaDeleteResult \<circ> fake_DeleteSchema\<rparr>"

definition fake_broker :: "(fake, 't, 'm) Broker" where
  "fake_broker = \<lparr>Close = (\<lambda>b. b), Ping = ret (), Describe = fake_Describe,
     BCapabilities = fake_Capabilities, ListTopics = orZero [] \<circ> fake_ListTopics,
     DescribeTopic = orZero zero_TopicDescription \<circ> fake_DescribeTopic,
     CreateTopic = orZero zero_TopicDescription \<circ> fake_CreateTopic,
     DeleteTopic = fake_DeleteTopic, ListGroups = orZero [] \<circ> fake_ListGroups,
     CreateGroup = orZero zero_GroupDescription \<circ> fake_CreateGroup,
     DeleteGroup = fake_DeleteGroup, Peek = orZero zero_MessagePeekResult \<circ> fake_Peek,
     Produce = orZero zero_MessageProduceResult \<circ> fake_Produce,
     SupportsOffsets = Some fake_offsets, SupportsPartitions = Some fake_partitions,
     SupportsACL = None, SupportsTail = None, SupportsMirrorSource = None,
     SupportsDLQ = Some fake_dlqs, SupportsSchema = Some fake_schemas\<rparr>"

section \<open>Well-formed states\<close>

text \<open>
  Every key of a map names the value it leads to, and a schema subject carries the versions
  \<open>1 \<dots> n\<close> with \<open>n\<close> as its identifier.
\<close>

definition schema_ok :: "string \<times> SchemaDescription \<Rightarrow> bool" where
  "schema_ok = (\<lambda>(subject, desc). sd_Subject desc = subject \<and> sd_Versions desc \<noteq> [] \<and>
     sd_Versions desc = map show_nat [1..<Suc (length (sd_Versions desc))] \<and>
     sd_ID desc = int (length (sd_Versions desc)) \<and> sd_Version desc = last (sd_Versions desc))"

definition topic_ok :: "string \<times> topicState \<Rightarrow> bool" where
  "topic_ok = (\<lambda>(name, state). tc_Topic (td_Coordinate (ts_desc state)) = name \<and>
     0 < td_Partitions (ts_desc state))"

definition group_ok :: "string \<times> GroupDescription \<Rightarrow> bool" where
  "group_ok = (\<lambda>(name, desc). gc_Group (gd_Coordinate desc) = name)"

definition fake_ok :: "fake \<Rightarrow> bool" where
  "fake_ok b = (distinct (map fst (fk_topics b)) \<and> list_all topic_ok (fk_topics b) \<and>
     distinct (map fst (fk_groups b)) \<and> list_all group_ok (fk_groups b) \<and>
     distinct (map fst (fk_schemas b)) \<and> list_all schema_ok (fk_schemas b))"

lemma schema_ok_next:
  assumes "schema_ok (s, desc)"
  shows "schema_ok (s, \<lparr>sd_Subject = s, sd_Version = show_nat (Suc (length (sd_Versions desc))),
    sd_ID = sd_ID desc + 1, sd_Type = t, sd_Schema = text, sd_SchemaHash = h,
    sd_Versions = sd_Versions desc @ [show_nat (Suc (length (sd_Versions desc)))], sd_Properties = ps\<rparr>)"
proof -
  let ?vs = "sd_Versions desc"
  have "?vs = map show_nat [1..<Suc (length ?vs)]" and id: "sd_ID desc = int (length ?vs)"
    using assms by (simp_all add: schema_ok_def del: upt_Suc)
  then have "map show_nat [Suc 0..<Suc (Suc (length ?vs))] = ?vs @ [show_nat (Suc (length ?vs))]"
    by (subst upt_Suc) simp
  with id show ?thesis
    by (simp add: schema_ok_def del: upt_Suc)
qed

lemma show_nat_1: "show_nat (Suc 0) = ''1''"
  by code_simp

lemma schema_ok_first:
  "schema_ok (s, \<lparr>sd_Subject = s, sd_Version = ''1'', sd_ID = 1, sd_Type = t, sd_Schema = text,
    sd_SchemaHash = h, sd_Versions = [''1''], sd_Properties = ps\<rparr>)"
  by (simp add: schema_ok_def show_nat_1)

lemma New_ok: "fake_ok (New cluster namespace)"
  by (simp add: fake_ok_def New_def topic_ok_def group_ok_def schema_ok_first fake_coord_def Let_def)

text \<open>What the operations that read leave alone, and what the others keep.\<close>

lemma fake_reads [frame_simps]:
  "snd (fake_ListSchemas slo b) = b" "snd (fake_DescribeSchema sdr b) = b"
  "snd (fake_CheckCompatibility scr b) = b" "snd (fake_ListTopics tlo b) = b"
  "snd (fake_DescribeTopic tc b) = b" "snd (fake_ListGroups glo b) = b"
  "snd (fake_ListDLQs dlo b) = b" "snd (fake_PlanOffsetReset opr b) = b"
  "snd (fake_ResetOffset opr b) = b" "snd (fake_Lag gc tc b) = b"
  "snd (fake_peekMessages t p off n msg b) = b"
  by (simp_all add: fake_ListSchemas_def fake_DescribeSchema_def fake_CheckCompatibility_def
      fake_ListTopics_def fake_DescribeTopic_def fake_ListGroups_def fake_ListDLQs_def
      fake_PlanOffsetReset_def fake_ResetOffset_def fake_Lag_def fake_peekMessages_def Let_def
      split: option.split)

lemma fake_peeks [frame_simps]: "snd (fake_Peek mkr b) = b" "snd (fake_PeekDLQ dpr b) = b"
  by (simp_all add: fake_Peek_def fake_PeekDLQ_def seqE_ret_state fake_reads)

lemma fake_dry_runs [frame_simps]:
  "tpr_DryRun tpr \<Longrightarrow> snd (fake_PurgeTopic tpr b) = b"
  "dur_DryRun dur \<Longrightarrow> snd (fake_PurgeDLQ dur b) = b"
  "drr_DryRun drr \<Longrightarrow> snd (fake_RedriveDLQ drr b) = b"
  by (simp_all add: fake_PurgeTopic_def fake_PurgeDLQ_def fake_RedriveDLQ_def Let_def
      split: option.split)

lemma topic_ok_upd:
  "topic_ok (k, state) \<Longrightarrow> topic_ok (k, state\<lparr>ts_messages := ms\<rparr>)"
  by (simp add: topic_ok_def)

lemma topic_ok_alter:
  assumes "topic_ok (k, state)"
  shows "topic_ok (k, state\<lparr>ts_desc := (ts_desc state)\<lparr>td_Config := c\<rparr>\<rparr>)"
    and "td_Partitions (ts_desc state) < p \<Longrightarrow>
      topic_ok (k, state\<lparr>ts_desc := (ts_desc state)\<lparr>td_Partitions := p, td_Config := c\<rparr>\<rparr>)"
  using assms by (simp_all add: topic_ok_def)

lemma topic_ok_new:
  "0 < p \<Longrightarrow> topic_ok (tc_Topic c, \<lparr>ts_desc = \<lparr>td_Coordinate = c, td_Partitions = p,
     td_Config = cfg, td_Protected = pr, td_Internal = i\<rparr>, ts_messages = ms\<rparr>)"
  by (simp add: topic_ok_def)

inductive fake_step :: "fake \<Rightarrow> fake \<Rightarrow> bool" where
  step_RegisterSchema: "fake_step b (snd (fake_RegisterSchema srr b))"
| step_DeleteSchema: "fake_step b (snd (fake_DeleteSchema sxr b))"
| step_CreateTopic: "fake_step b (snd (fake_CreateTopic tcr b))"
| step_DeleteTopic: "fake_step b (snd (fake_DeleteTopic tc b))"
| step_AlterTopic: "fake_step b (snd (fake_AlterTopic tar b))"
| step_CreateGroup: "fake_step b (snd (fake_CreateGroup gc b))"
| step_DeleteGroup: "fake_step b (snd (fake_DeleteGroup gc b))"
| step_Produce: "fake_step b (snd (fake_Produce mpr b))"
| step_PurgeTopic: "fake_step b (snd (fake_PurgeTopic tpr b))"
| step_RedriveDLQ: "fake_step b (snd (fake_RedriveDLQ drr b))"
| step_PurgeDLQ: "fake_step b (snd (fake_PurgeDLQ dur b))"

lemma RegisterSchema_ok: "fake_ok b \<Longrightarrow> fake_ok (snd (fake_RegisterSchema req b))"
  by (auto simp: fake_RegisterSchema_def fake_ok_def Let_def
      intro!: list_all_alist_put schema_ok_first schema_ok_next dest: list_all_map_of split: option.split)

lemma fake_schema_steps_ok:
  "fake_ok b \<Longrightarrow> fake_ok (snd (fake_DeleteSchema sxr b))"
  "fake_ok b \<Longrightarrow> fake_ok (snd (fake_CreateGroup gc b))"
  "fake_ok b \<Longrightarrow> fake_ok (snd (fake_DeleteGroup gc b))"
  by (auto simp: fake_DeleteSchema_def fake_CreateGroup_def fake_DeleteGroup_def fake_ok_def Let_def
      group_ok_def split: option.split)

lemma fake_topic_steps_ok:
  "fake_ok b \<Longrightarrow> fake_ok (snd (fake_CreateTopic tcr b))"
  "fake_ok b \<Longrightarrow> fake_ok (snd (fake_DeleteTopic tc b))"
  "fake_ok b \<Longrightarrow> fake_ok (snd (fake_AlterTopic tar b))"
  by (auto simp: fake_CreateTopic_def fake_DeleteTopic_def fake_AlterTopic_def fake_ok_def Let_def
      intro!: list_all_alist_put topic_ok_new topic_ok_alter dest: list_all_map_of
      split: option.split)

lemma fake_message_steps_ok:
  "fake_ok b \<Longrightarrow> fake_ok (snd (fake_Produce mpr b))"
  "fake_ok b \<Longrightarrow> fake_ok (snd (fake_PurgeTopic tpr b))"
  "fake_ok b \<Longrightarrow> fake_ok (snd (fake_PurgeDLQ dur b))"
  "fake_ok b \<Longrightarrow> fake_ok (snd (fake_RedriveDLQ drr b))"
  by (auto simp: fake_Produce_def fake_PurgeTopic_def fake_PurgeDLQ_def fake_RedriveDLQ_def
      fake_ok_def Let_def intro!: topic_ok_upd list_all_alist_put dest: list_all_map_of split: option.split)

lemma fake_step_ok: "fake_step b b' \<Longrightarrow> fake_ok b \<Longrightarrow> fake_ok b'"
  by (induction rule: fake_step.induct)
    (simp_all add: RegisterSchema_ok fake_schema_steps_ok fake_topic_steps_ok fake_message_steps_ok)

end
