(* ===== verification/Fake_Laws.thy ===== *)
theory Fake_Laws
  imports Fake_Broker "HOL-Library.Multiset"
begin

text \<open>
  What the in-memory backend promises. The contract of a registry of named things, which its
  topics, groups and schema subjects share, is the locale \<open>registry\<close>: any sequence of creations and
  deletions acts on the look-up function as on a partial map. The listing, peeking and moving of
  messages are related to reference definitions.
\<close>

section \<open>Registries\<close>

datatype ('r, 'c) registry_op = Reg_Create 'r | Reg_Delete 'c

fun reg_run :: "('r \<Rightarrow> ('s, 'v) op) \<Rightarrow> ('c \<Rightarrow> ('s, 'u) op) \<Rightarrow> ('r, 'c) registry_op list \<Rightarrow> 's \<Rightarrow> 's" where
  "reg_run create delete [] s = s"
| "reg_run create delete (Reg_Create r # ops) s = reg_run create delete ops (snd (create r s))"
| "reg_run create delete (Reg_Delete c # ops) s = reg_run create delete ops (snd (delete c s))"

text \<open>The same sequence on a partial map: a creation never replaces, a deletion removes.\<close>

fun reg_spec ::
  "('r \<Rightarrow> string) \<Rightarrow> ('r \<Rightarrow> 'v) \<Rightarrow> ('c \<Rightarrow> string) \<Rightarrow> ('r, 'c) registry_op list \<Rightarrow>
   (string \<Rightarrow> 'v option) \<Rightarrow> string \<Rightarrow> 'v option" where
  "reg_spec rname built cname [] m = m"
| "reg_spec rname built cname (Reg_Create r # ops) m =
     reg_spec rname built cname ops (if m (rname r) = None then m(rname r \<mapsto> built r) else m)"
| "reg_spec rname built cname (Reg_Delete c # ops) m =
     reg_spec rname built cname ops (m(cname c := None))"

locale registry =
  fixes find :: "'s \<Rightarrow> string \<Rightarrow> 'v option"
    and create :: "'r \<Rightarrow> ('s, 'v) op" and delete :: "'c \<Rightarrow> ('s, unit) op"
    and rname :: "'r \<Rightarrow> string" and cname :: "'c \<Rightarrow> string"
    and built :: "'r \<Rightarrow> 'v" and exists_error :: go_error and missing_error :: go_error
  assumes create_new: "find s (rname r) = None \<Longrightarrow>
      fst (create r s) = Inr (built r) \<and> find (snd (create r s)) = (find s)(rname r \<mapsto> built r)"
    and create_taken: "find s (rname r) \<noteq> None \<Longrightarrow> create r s = (Inl exists_error, s)"
    and delete_there: "find s (cname c) \<noteq> None \<Longrightarrow>
      fst (delete c s) = Inr () \<and> find (snd (delete c s)) = (find s)(cname c := None)"
    and delete_missing: "find s (cname c) = None \<Longrightarrow> delete c s = (Inl missing_error, s)"
begin

lemma find_create:
  "find (snd (create r s)) = (if find s (rname r) = None then (find s)(rname r \<mapsto> built r) else find s)"
  using create_new [of s r] create_taken [of s r] by auto

lemma find_delete: "find (snd (delete c s)) = (find s)(cname c := None)"
  using delete_there [of s c] delete_missing [of s c] by (cases "find s (cname c)") auto

lemma run_refines: "find (reg_run create delete ops s) = reg_spec rname built cname ops (find s)"
proof (induction ops arbitrary: s)
  case (Cons op ops)
  then show ?case by (cases op) (simp_all add: find_create find_delete fun_upd_def)
qed simp

lemma create_once:
  assumes "fst (create r s) = Inr v" and "rname r' = rname r"
  shows "create r' (snd (create r s)) = (Inl exists_error, snd (create r s))"
  using assms create_new [of s r] create_taken [of s r]
  by (intro create_taken) (cases "find s (rname r)", auto)

lemma create_delete_restores:
  assumes "fst (create r s) = Inr v" and "cname c = rname r"
  shows "fst (delete c (snd (create r s))) = Inr ()"
    and "find (snd (delete c (snd (create r s)))) = find s"
proof -
  have "find s (rname r) = None"
    using assms(1) create_taken [of s r] by (cases "find s (rname r)") auto
  then have "find (snd (create r s)) = (find s)(rname r \<mapsto> built r)"
    by (simp add: find_create)
  then show "fst (delete c (snd (create r s))) = Inr ()"
    and "find (snd (delete c (snd (create r s)))) = find s"
    using delete_there [of "snd (create r s)" c] assms(2) \<open>find s (rname r) = None\<close> by auto
qed

end

definition fake_topic :: "fake \<Rightarrow> string \<Rightarrow> TopicDescription option" where
  "fake_topic b name = map_option ts_desc (map_of (fk_topics b) name)"

definition created_topic :: "TopicCreateRequest \<Rightarrow> TopicDescription" where
  "created_topic req = \<lparr>td_Coordinate = tcr_Coordinate req,
     td_Partitions = max 1 (tcr_Partitions req), td_Config = tcr_Config req,
     td_Protected = tcr_Protected req, td_Internal = False\<rparr>"

definition created_group :: "GroupCoordinate \<Rightarrow> GroupDescription" where
  "created_group coord = \<lparr>gd_Coordinate = coord, gd_Members = 0, gd_State = ''empty''\<rparr>"

interpretation topic_registry: registry fake_topic fake_CreateTopic fake_DeleteTopic
  "tc_Topic \<circ> tcr_Coordinate" tc_Topic created_topic
  "AppError CodeResourceAlreadyExists ''topic already exists'' None" "not_found ''topic not found''"
  by unfold_locales (auto simp: fake_topic_def fake_CreateTopic_def fake_DeleteTopic_def
      created_topic_def Let_def fun_eq_iff split: option.split)

interpretation group_registry: registry "map_of \<circ> fk_groups" fake_CreateGroup fake_DeleteGroup
  gc_Group gc_Group created_group
  "AppError CodeResourceAlreadyExists ''group already exists'' None" "not_found ''group not found''"
  by unfold_locales (auto simp: fake_CreateGroup_def fake_DeleteGroup_def created_group_def Let_def
      split: option.split)

lemma DescribeTopic_find:
  "fst (fake_DescribeTopic c b) = (case fake_topic b (tc_Topic c) of
     None \<Rightarrow> Inl (not_found ''topic not found'') | Some d \<Rightarrow> Inr d)"
  by (simp add: fake_DescribeTopic_def fake_topic_def split: option.split)

section \<open>Listings\<close>

text \<open>Sorting by a key that is distinct in the list forgets the order of the list.\<close>

lemma sort_key_unique:
  fixes f :: "'a \<Rightarrow> 'k :: linorder"
  assumes "mset xs = mset ys" and "distinct (map f xs)"
  shows "sort_key f xs = sort_key f ys"
proof -
  have "mset (map f xs) = mset (map f ys)" using assms(1) by simp
  then have "distinct (map f ys)" using assms(2) by (metis mset_eq_imp_distinct_iff)
  then have ys: "distinct (map f (sort_key f ys))" by (simp add: distinct_map)
  have xs: "distinct (map f (sort_key f xs))" using assms(2) by (simp add: distinct_map)
  have same: "set (sort_key f xs) = set (sort_key f ys)"
    using mset_eq_setD [OF assms(1)] by simp
  have "inj_on f (set (sort_key f xs) \<union> set (sort_key f ys))"
    using xs unfolding same [symmetric] by (simp add: distinct_map)
  then show ?thesis
    using xs ys same by (intro map_sorted_distinct_set_unique [of f]) simp_all
qed

lemma sort_key_strict:
  fixes f :: "'a \<Rightarrow> 'k :: linorder"
  shows "distinct (map f xs) \<Longrightarrow> sorted_wrt (<) (map f (sort_key f xs))"
  by (simp add: strict_sorted_iff distinct_map)

lemma sorted_wrt_fake_limit: "sorted_wrt R (map f xs) \<Longrightarrow> sorted_wrt R (map f (fake_limit n xs))"
  by (simp add: fake_limit_def take_map [symmetric])

text \<open>The listed topics of a well-formed state, before sorting, have distinct names.\<close>

lemma topic_names:
  "list_all topic_ok kvs \<Longrightarrow> map (tc_Topic \<circ> td_Coordinate) (map (ts_desc \<circ> snd) kvs) = map fst kvs"
  by (induction kvs) (auto simp: topic_ok_def)

lemma distinct_map_filter_key: "distinct (map f xs) \<Longrightarrow> distinct (map f (filter P xs))"
  by (induction xs) auto

definition topic_listing :: "TopicListOptions \<Rightarrow> fake \<Rightarrow> TopicDescription list" where
  "topic_listing opts b = (case fst (fake_ListTopics opts b) of Inr items \<Rightarrow> items | Inl _ \<Rightarrow> [])"

lemma topic_listing_eq:
  "topic_listing opts b = fake_limit (tlo_Limit opts) (sort_key (tc_Topic \<circ> td_Coordinate)
     (filter (\<lambda>desc. tlo_Pattern opts = '''' \<or> tlo_Pattern opts = tc_Topic (td_Coordinate desc))
       (map (ts_desc \<circ> snd) (fk_topics b))))"
  by (simp add: topic_listing_def fake_ListTopics_def Let_def disj_imp)

lemma topic_listing_sorted:
  assumes "fake_ok b"
  shows "sorted_wrt (<) (map (tc_Topic \<circ> td_Coordinate) (topic_listing opts b))"
proof -
  have "distinct (map (tc_Topic \<circ> td_Coordinate) (map (ts_desc \<circ> snd) (fk_topics b)))"
    using assms topic_names [of "fk_topics b"] by (simp only: fake_ok_def)
  then show ?thesis
    unfolding topic_listing_eq
    by (intro sorted_wrt_fake_limit sort_key_strict distinct_map_filter_key)
qed

lemma topic_listing_order:
  assumes "fake_ok b" and "mset (fk_topics b') = mset (fk_topics b)"
  shows "topic_listing opts b' = topic_listing opts b"
proof -
  let ?P = "\<lambda>desc. tlo_Pattern opts = '''' \<or> tlo_Pattern opts = tc_Topic (td_Coordinate desc)"
  let ?L = "\<lambda>b. filter ?P (map (ts_desc \<circ> snd) (fk_topics b))"
  have "distinct (map (tc_Topic \<circ> td_Coordinate) (map (ts_desc \<circ> snd) (fk_topics b)))"
    using assms(1) topic_names [of "fk_topics b"] by (simp only: fake_ok_def)
  then have "distinct (map (tc_Topic \<circ> td_Coordinate) (?L b))"
    by (rule distinct_map_filter_key)
  moreover have "mset (?L b) = mset (?L b')" using assms(2) by simp
  ultimately have "sort_key (tc_Topic \<circ> td_Coordinate) (?L b) = sort_key (tc_Topic \<circ> td_Coordinate) (?L b')"
    by (intro sort_key_unique)
  then show ?thesis unfolding topic_listing_eq by simp
qed

section \<open>Messages\<close>

text \<open>The peeking loop selects by partition and offset, numbers by position and cuts at the count.\<close>

lemma peek_loop_spec:
  "fake_peek_loop part off room (int i) ms =
     take (nat room) (map (\<lambda>(j, m). FingerprintMessage part (int j) (m_Key m) (m_Body m))
       (filter (\<lambda>(j, m). mc_Partition (m_Coordinate m) = part \<and> off \<le> mc_Offset (m_Coordinate m))
         (enumerate i ms)))"
proof (induction ms arbitrary: room i)
  case (Cons m ms)
  show ?case
    using Cons [of "room - 1" "Suc i"] Cons [of room "Suc i"]
    by (cases "nat room") (auto simp: nat_diff_distrib add.commute Suc_nat_eq_nat_zadd1 not_le)
qed simp

definition fake_messages :: "fake \<Rightarrow> string \<Rightarrow> Message list" where
  "fake_messages b topic = (case map_of (fk_topics b) topic of Some st \<Rightarrow> ts_messages st | None \<Rightarrow> [])"

definition payload :: "Message \<Rightarrow> string \<times> string \<times> (string \<times> string) list" where
  "payload m = (m_Key m, m_Body m, m_Headers m)"

lemma fake_move_payload: "map payload (fake_move coord target ms) = map payload target @ map payload ms"
  by (induction coord target ms rule: fake_move.induct) (simp_all add: payload_def)

lemma redrive_moves:
  assumes "fake_RedriveDLQ req b = (Inr r, b')" and "\<not> drr_DryRun req"
  shows "drx_Total r = min (drr_Count req) (int (length (fake_messages b (tc_Topic (drr_DLQ req)))))"
    and "fake_messages b' (tc_Topic (drr_DLQ req)) =
         drop (nat (drx_Total r)) (fake_messages b (tc_Topic (drr_DLQ req)))"
    and "map payload (fake_messages b' (tc_Topic (drr_Target req))) =
         map payload (fake_messages b (tc_Topic (drr_Target req))) @
         map payload (take (nat (drx_Total r)) (fake_messages b (tc_Topic (drr_DLQ req))))"
    and "topic \<noteq> tc_Topic (drr_DLQ req) \<Longrightarrow> topic \<noteq> tc_Topic (drr_Target req) \<Longrightarrow>
         fake_messages b' topic = fake_messages b topic"
  using assms
  by (auto simp: fake_RedriveDLQ_def fake_messages_def Let_def fake_move_payload
      split: if_splits option.splits)

text \<open>
  The topics that hold what \<open>Produce\<close> numbered: the stored offset is the position. Every topic is so
  until messages are redriven out of it.
\<close>

definition offsets_are_positions :: "Message list \<Rightarrow> bool" where
  "offsets_are_positions ms = list_all (\<lambda>(i, m). mc_Offset (m_Coordinate m) = int i \<and>
     mc_Partition (m_Coordinate m) = 0) (enumerate 0 ms)"

lemma filter_from_position:
  assumes "offsets_are_positions ms"
  shows "filter (\<lambda>(j, m). mc_Partition (m_Coordinate m) = 0 \<and> int (length ms) \<le> mc_Offset (m_Coordinate m))
     (enumerate 0 ms) = []"
proof -
  have "mc_Offset (m_Coordinate m) < int (length ms)" if "(j, m) \<in> set (enumerate 0 ms)" for j m
  proof -
    have "mc_Offset (m_Coordinate m) = int j"
      using assms that unfolding offsets_are_positions_def list_all_iff by fast
    then show ?thesis using that by (simp add: in_set_enumerate_eq)
  qed
  then show ?thesis by (force simp: filter_empty_conv)
qed

lemma produce_appends:
  assumes "fake_Produce req b = (Inr r, b')"
  shows "\<exists>m. fake_messages b' (tc_Topic (mpr_Coordinate req)) =
             fake_messages b (tc_Topic (mpr_Coordinate req)) @ [m] \<and>
           m_Coordinate m = mpx_Coordinate r \<and> payload m = (mpr_Key req, mpr_Body req, mpr_Headers req) \<and>
           mc_Offset (mpx_Coordinate r) = int (length (fake_messages b (tc_Topic (mpr_Coordinate req)))) \<and>
           mc_Partition (mpx_Coordinate r) = 0"
    and "\<exists>st. map_of (fk_topics b') (tc_Topic (mpr_Coordinate req)) = Some st"
  using assms
  by (auto simp: fake_Produce_def fake_messages_def payload_def Let_def split: option.splits)

lemma peek_run:
  assumes "map_of (fk_topics b) (tc_Topic (mkr_Coordinate req)) = Some st"
    and "0 < mkr_Count req" "mkr_Count req \<le> MaxMessageBatchSize" "0 \<le> mkr_Partition req" "0 \<le> mkr_Offset req"
  shows "fake_Peek req b = (Inr \<lparr>mkx_Coordinate = mkr_Coordinate req, mkx_Partition = mkr_Partition req,
     mkx_Offset = mkr_Offset req,
     mkx_Count = int (length (fake_peek_loop (mkr_Partition req) (mkr_Offset req) (mkr_Count req) 0 (ts_messages st))),
     mkx_Messages = fake_peek_loop (mkr_Partition req) (mkr_Offset req) (mkr_Count req) 0 (ts_messages st)\<rparr>, b)"
  using assms by (simp add: fake_Peek_def fake_peekMessages_def seqE_run)

lemma peek_produced:
  assumes prod: "fake_Produce req b = (Inr r, b')"
    and pos: "offsets_are_positions (fake_messages b (tc_Topic (mpr_Coordinate req)))"
    and n: "0 < n" "n \<le> MaxMessageBatchSize"
  shows "\<exists>x. fst (fake_Peek \<lparr>mkr_Coordinate = mpr_Coordinate req, mkr_Partition = 0,
      mkr_Offset = mc_Offset (mpx_Coordinate r), mkr_Count = n\<rparr> b') = Inr x \<and>
      mkx_Messages x = [FingerprintMessage 0 (mc_Offset (mpx_Coordinate r)) (mpr_Key req) (mpr_Body req)]"
proof -
  let ?t = "tc_Topic (mpr_Coordinate req)" and ?ms = "fake_messages b (tc_Topic (mpr_Coordinate req))"
  obtain m where m: "fake_messages b' ?t = ?ms @ [m]" "m_Coordinate m = mpx_Coordinate r"
    "payload m = (mpr_Key req, mpr_Body req, mpr_Headers req)"
    "mc_Offset (mpx_Coordinate r) = int (length ?ms)" "mc_Partition (mpx_Coordinate r) = 0"
    using produce_appends(1) [OF prod] by blast
  obtain st where st: "map_of (fk_topics b') ?t = Some st"
    using produce_appends(2) [OF prod] by blast
  then have "ts_messages st = ?ms @ [m]" using m(1) by (simp add: fake_messages_def)
  then have "fake_peek_loop 0 (int (length ?ms)) n 0 (ts_messages st) =
      [FingerprintMessage 0 (int (length ?ms)) (mpr_Key req) (mpr_Body req)]"
    using peek_loop_spec [of 0 "int (length ?ms)" n 0 "?ms @ [m]"] filter_from_position [OF pos] m n
    by (simp add: enumerate_append_eq payload_def)
  then show ?thesis
    using peek_run [of b' "\<lparr>mkr_Coordinate = mpr_Coordinate req, mkr_Partition = 0,
        mkr_Offset = mc_Offset (mpx_Coordinate r), mkr_Count = n\<rparr>" st] st n m(4)
    by simp
qed

lemma produce_keeps_positions:
  assumes "fake_Produce req b = (Inr r, b')"
    and "offsets_are_positions (fake_messages b (tc_Topic (mpr_Coordinate req)))"
  shows "offsets_are_positions (fake_messages b' (tc_Topic (mpr_Coordinate req)))"
  using produce_appends(1) [OF assms(1)] assms(2)
  by (auto simp: offsets_are_positions_def enumerate_append_eq)

text \<open>
  After a partial redrive the next offset of the queue repeats one that is in use: the offset is the
  number of messages left, while the messages left keep their offsets.
\<close>

definition demo_message :: "int \<Rightarrow> Message" where
  "demo_message off = \<lparr>m_Coordinate = \<lparr>mc_TopicCoordinate = fake_coord ''fake'' '''' ''q'', mc_Partition = 0,
     mc_Offset = off\<rparr>, m_Key = '''', m_Body = ''b'', m_Headers = []\<rparr>"

lemma redrive_then_produce_repeats_offset:
  "let b = New '''' '''';
       b1 = snd (fake_Produce \<lparr>mpr_Coordinate = fake_coord ''fake'' '''' ''orders.dlq'', mpr_Key = ''k'',
              mpr_Body = ''one'', mpr_Headers = []\<rparr> b);
       b2 = snd (fake_RedriveDLQ \<lparr>drr_DLQ = fake_coord ''fake'' '''' ''orders.dlq'',
              drr_Target = fake_coord ''fake'' '''' ''orders'', drr_Topic = '''', drr_Group = '''',
              drr_Count = 1, drr_DryRun = False\<rparr> b1);
       b3 = snd (fake_Produce \<lparr>mpr_Coordinate = fake_coord ''fake'' '''' ''orders.dlq'', mpr_Key = ''k'',
              mpr_Body = ''two'', mpr_Headers = []\<rparr> b2)
   in map (mc_Offset \<circ> m_Coordinate) (fake_messages b3 ''orders.dlq'') = [1, 1]"
  by (simp add: New_def fake_coord_def fake_Produce_def fake_RedriveDLQ_def fake_messages_def Let_def
      alist_put_def MaxMessageBatchSize_def)

text \<open>
  The lag reported is that of partition 0 only: the request of \<open>Lag\<close> leaves \<open>Partition\<close> at its zero
  value, which selects a partition, where a plan over all partitions passes -1.
\<close>

lemma lag_of_partition_zero_only:
  "op_Total (fake_offsetPlan \<lparr>opr_Group = g, opr_Topic = t, opr_To = ''latest'', opr_DryRun = True,
      opr_Partition = -1\<rparr> True (New '''' '''')) = 19"
  "map_option op_Total (case fst (fake_Lag g t (New '''' '''')) of Inr p \<Rightarrow> Some p | Inl _ \<Rightarrow> None) = Some 12"
  if "gc_Group g = ''billing''" "tc_Topic t = ''orders''"
  using that by (simp_all add: fake_offsetPlan_def fake_Lag_def New_def Let_def)

section \<open>Partitions and schema versions\<close>

lemma alter_never_shrinks:
  assumes "fake_topic b t = Some d" and "fake_topic (snd (fake_AlterTopic req b)) t = Some d'"
  shows "td_Partitions d \<le> td_Partitions d'"
  using assms
  by (cases "tc_Topic (tar_Coordinate req) = t")
    (auto simp: fake_topic_def fake_AlterTopic_def Let_def split: option.splits if_splits)

lemma alter_config:
  "map_of (fold (\<lambda>(key, value). alist_put key value) kvs cfg) = map_of cfg ++ map_of (rev kvs)"
  by (induction kvs arbitrary: cfg) (auto simp: fun_eq_iff map_add_def split: option.split)

lemma register_next_version:
  assumes "fake_ok b" and "map_of (fk_schemas b) (srr_Subject req) = Some cur"
    and "srr_Subject req \<noteq> ''''" "srr_Schema req \<noteq> ''''"
  shows "\<exists>desc. fst (fake_RegisterSchema req b) = Inr desc \<and> sd_ID desc = sd_ID cur + 1 \<and>
    sd_Version desc = show_nat (nat (sd_ID desc)) \<and>
    fst (fake_DescribeSchema \<lparr>sdr_Subject = srr_Subject req, sdr_Version = sd_Version desc\<rparr>
      (snd (fake_RegisterSchema req b))) = Inr desc"
proof -
  have "schema_ok (srr_Subject req, cur)"
    using assms(1,2) by (auto simp: fake_ok_def dest: list_all_map_of)
  then have "sd_ID cur = int (length (sd_Versions cur))" by (simp add: schema_ok_def)
  then show ?thesis
    using assms by (simp add: fake_RegisterSchema_def fake_DescribeSchema_def
        schema_version_missing_def Let_def nat_add_distrib)
qed

end
