(* ===== verification/Broker_Properties.thy ===== *)
theory Broker_Properties
  imports Fake_Laws
begin

text \<open>
  The properties of the in-memory backend (internal/backend/fake/fake.go), the reference implementation
  of the broker interface that the commands are run against.
\<close>

section \<open>Reachable states\<close>

text \<open>The states a broker reaches from a new one by any sequence of its operations.\<close>

inductive fake_reachable :: "fake \<Rightarrow> bool" where
  reachable_new: "fake_reachable (New cluster namespace)"
| reachable_step: "fake_reachable b \<Longrightarrow> fake_step b b' \<Longrightarrow> fake_reachable b'"

lemma reachable_ok: "fake_reachable b \<Longrightarrow> fake_ok b"
  by (induction rule: fake_reachable.induct) (auto intro: New_ok fake_step_ok)

text \<open>
  C20: In every state that operations reach, the keys of the topics, groups and schema subjects are distinct
  and name what they lead to, every topic has a partition, and a schema subject holds the consecutive
  versions 1 to n with its newest version as identifier.
\<close>

theorem reachable_states_are_well_formed:
  assumes "fake_reachable b"
  shows "fake_ok b \<and> (\<forall>name d. fake_topic b name = Some d \<longrightarrow> tc_Topic (td_Coordinate d) = name \<and> 0 < td_Partitions d)"
proof -
  have ok: "fake_ok b" using assms by (rule reachable_ok)
  have "topic_ok (name, st)" if "map_of (fk_topics b) name = Some st" for name st
    using ok that unfolding fake_ok_def by (blast intro: list_all_map_of)
  then show ?thesis using ok by (auto simp: fake_topic_def topic_ok_def)
qed

definition demo_create :: TopicCreateRequest where
  "demo_create = \<lparr>tcr_Coordinate = fake_coord ''fake'' '''' ''audit'', tcr_Partitions = 0, tcr_Config = [],
     tcr_Protected = False\<rparr>"

theorem reachable_states_are_well_formed_witness:
  "fake_ok (snd (fake_CreateTopic demo_create (New '''' '''')))"
proof -
  have "fake_reachable (snd (fake_CreateTopic demo_create (New '''' '''')))"
    by (rule reachable_step [OF reachable_new step_CreateTopic])
  then show ?thesis using reachable_states_are_well_formed by blast
qed

section \<open>Topics as a partial map\<close>

text \<open>
  C18: Any sequence of topic creations and deletions acts on the topics as the same sequence acts on a
  partial map from names to descriptions: a creation never replaces a topic and rounds the partitions
  up to one, a deletion removes, and what DescribeTopic returns afterwards is the value of that map.
\<close>

theorem topics_refine_a_partial_map:
  "fst (fake_DescribeTopic c (reg_run fake_CreateTopic fake_DeleteTopic ops b)) =
    (case reg_spec (tc_Topic \<circ> tcr_Coordinate) created_topic tc_Topic ops (fake_topic b) (tc_Topic c) of
       None \<Rightarrow> Inl (not_found ''topic not found'')
     | Some d \<Rightarrow> Inr d)"
  using topic_registry.run_refines [of ops b] by (simp add: DescribeTopic_find)

text \<open>
  A topic that was created can be created no second time, and deleting it restores every topic to
  what it was before.
\<close>

theorem create_once_then_delete_restores:
  assumes "fst (fake_CreateTopic req b) = Inr d" and "tc_Topic c = tc_Topic (tcr_Coordinate req)"
  shows "fake_CreateTopic req (snd (fake_CreateTopic req b)) =
      (Inl (AppError CodeResourceAlreadyExists ''topic already exists'' None), snd (fake_CreateTopic req b)) \<and>
    fst (fake_DeleteTopic c (snd (fake_CreateTopic req b))) = Inr () \<and>
    fake_topic (snd (fake_DeleteTopic c (snd (fake_CreateTopic req b)))) = fake_topic b"
  using topic_registry.create_once [OF assms(1), of req]
    topic_registry.create_delete_restores [OF assms(1), of c] assms(2) by simp

theorem create_once_then_delete_restores_witness:
  "fake_topic (snd (fake_DeleteTopic (fake_coord ''fake'' '''' ''audit'')
     (snd (fake_CreateTopic demo_create (New '''' ''''))))) = fake_topic (New '''' '''')"
proof -
  have "\<exists>d. fst (fake_CreateTopic demo_create (New '''' '''')) = Inr d"
    by (simp add: fake_CreateTopic_def demo_create_def New_def fake_coord_def Let_def)
  then obtain d where "fst (fake_CreateTopic demo_create (New '''' '''')) = Inr d" by blast
  from create_once_then_delete_restores [OF this] show ?thesis by (simp add: demo_create_def)
qed

section \<open>Listings\<close>

text \<open>
  The listing of topics is strictly sorted by name and does not depend on the order in which the map
  is iterated: two reachable states with the same topics list the same.
\<close>

theorem listing_is_sorted_and_deterministic:
  assumes "fake_reachable b" and "mset (fk_topics b') = mset (fk_topics b)"
  shows "sorted_wrt (<) (map (tc_Topic \<circ> td_Coordinate) (topic_listing opts b)) \<and>
    topic_listing opts b' = topic_listing opts b"
  using topic_listing_sorted topic_listing_order assms(2) reachable_ok [OF assms(1)] by blast

theorem listing_is_sorted_and_deterministic_witness:
  "let b = New '''' ''''; all = \<lparr>tlo_Namespace = '''', tlo_Pattern = '''', tlo_Limit = 0\<rparr>
   in topic_listing all (b\<lparr>fk_topics := rev (fk_topics b)\<rparr>) = topic_listing all b"
  unfolding Let_def
  by (rule listing_is_sorted_and_deterministic [THEN conjunct2, OF reachable_new]) simp

section \<open>Messages\<close>

text \<open>
  C21: A redrive that is no dry run moves messages and loses none: it takes the oldest ones off the queue, as
  many as asked for and there are, appends them with key, body and headers to the target in their
  order, leaves every other topic alone and reports the number moved.
\<close>

theorem redrive_conserves_messages:
  assumes "fake_RedriveDLQ req b = (Inr r, b')" and "\<not> drr_DryRun req"
  shows "drx_Total r = min (drr_Count req) (int (length (fake_messages b (tc_Topic (drr_DLQ req))))) \<and>
    fake_messages b' (tc_Topic (drr_DLQ req)) = drop (nat (drx_Total r)) (fake_messages b (tc_Topic (drr_DLQ req))) \<and>
    map payload (fake_messages b' (tc_Topic (drr_Target req))) =
      map payload (fake_messages b (tc_Topic (drr_Target req))) @
      map payload (take (nat (drx_Total r)) (fake_messages b (tc_Topic (drr_DLQ req)))) \<and>
    (\<forall>topic. topic \<notin> {tc_Topic (drr_DLQ req), tc_Topic (drr_Target req)} \<longrightarrow>
       fake_messages b' topic = fake_messages b topic)"
  using redrive_moves [OF assms] by simp

definition demo_redrive :: DLQRedriveRequest where
  "demo_redrive = \<lparr>drr_DLQ = fake_coord ''fake'' '''' ''orders.dlq'', drr_Target = fake_coord ''fake'' '''' ''orders'',
     drr_Topic = '''', drr_Group = '''', drr_Count = 5, drr_DryRun = False\<rparr>"

theorem redrive_conserves_messages_witness:
  "\<exists>r b'. fake_RedriveDLQ demo_redrive (New '''' '''') = (Inr r, b') \<and> drx_Total r = 1 \<and>
     fake_messages b' ''orders.dlq'' = []"
proof -
  have run: "\<exists>r b'. fake_RedriveDLQ demo_redrive (New '''' '''') = (Inr r, b')"
    by (simp add: fake_RedriveDLQ_def demo_redrive_def New_def fake_coord_def Let_def MaxMessageBatchSize_def)
  then obtain r b' where r: "fake_RedriveDLQ demo_redrive (New '''' '''') = (Inr r, b')" by blast
  have "length (fake_messages (New '''' '''') ''orders.dlq'') = 1"
    by (simp add: fake_messages_def New_def fake_coord_def Let_def)
  then show ?thesis
    using redrive_conserves_messages [OF r] r by (auto simp: demo_redrive_def fake_coord_def)
qed

text \<open>
  What is produced can be peeked: while the stored offsets of a topic are its positions, which Produce
  keeps so, a peek from the offset it returned yields exactly the fingerprint of that message.
\<close>

theorem produced_message_is_peeked:
  assumes "fake_Produce req b = (Inr r, b')"
    and "offsets_are_positions (fake_messages b (tc_Topic (mpr_Coordinate req)))"
    and "0 < n" "n \<le> MaxMessageBatchSize"
  shows "offsets_are_positions (fake_messages b' (tc_Topic (mpr_Coordinate req))) \<and>
    (\<exists>x. fst (fake_Peek \<lparr>mkr_Coordinate = mpr_Coordinate req, mkr_Partition = 0,
        mkr_Offset = mc_Offset (mpx_Coordinate r), mkr_Count = n\<rparr> b') = Inr x \<and>
      mkx_Messages x = [FingerprintMessage 0 (mc_Offset (mpx_Coordinate r)) (mpr_Key req) (mpr_Body req)])"
  using produce_keeps_positions [OF assms(1,2)] peek_produced [OF assms] by blast

definition demo_produce :: MessageProduceRequest where
  "demo_produce = \<lparr>mpr_Coordinate = fake_coord ''fake'' '''' ''orders'', mpr_Key = ''k'', mpr_Body = ''hello'',
     mpr_Headers = []\<rparr>"

theorem produced_message_is_peeked_witness:
  "\<exists>r b' x. fake_Produce demo_produce (New '''' '''') = (Inr r, b') \<and>
     fst (fake_Peek \<lparr>mkr_Coordinate = mpr_Coordinate demo_produce, mkr_Partition = 0,
        mkr_Offset = mc_Offset (mpx_Coordinate r), mkr_Count = 10\<rparr> b') = Inr x \<and> length (mkx_Messages x) = 1"
proof -
  have "\<exists>r b'. fake_Produce demo_produce (New '''' '''') = (Inr r, b')"
    by (simp add: fake_Produce_def demo_produce_def New_def fake_coord_def Let_def)
  then obtain r b' where r: "fake_Produce demo_produce (New '''' '''') = (Inr r, b')" by blast
  have "offsets_are_positions (fake_messages (New '''' '''') (tc_Topic (mpr_Coordinate demo_produce)))"
    by (simp add: offsets_are_positions_def fake_messages_def New_def demo_produce_def fake_coord_def Let_def)
  from produced_message_is_peeked [OF r this, of 10] r show ?thesis by (auto simp: MaxMessageBatchSize_def)
qed

text \<open>
  A partial redrive lets offsets repeat: a message left in the queue keeps its stored offset, while the
  next one produced takes the number of messages left as its offset.
\<close>

theorem redrive_lets_offsets_repeat:
  "let dlq = fake_coord ''fake'' '''' ''orders.dlq'';
       req = \<lambda>body. \<lparr>mpr_Coordinate = dlq, mpr_Key = ''k'', mpr_Body = body, mpr_Headers = []\<rparr>;
       b1 = snd (fake_Produce (req ''one'') (New '''' ''''));
       b2 = snd (fake_RedriveDLQ (demo_redrive\<lparr>drr_Count := 1\<rparr>) b1);
       b3 = snd (fake_Produce (req ''two'') b2)
   in map (mc_Offset \<circ> m_Coordinate) (fake_messages b3 ''orders.dlq'') = [1, 1]"
  using redrive_then_produce_repeats_offset
  by (simp add: demo_redrive_def fake_coord_def Let_def)

text \<open>
  The lag that Lag reports is that of partition 0 alone: for the seeded group, 12, where the plan over
  all partitions, which the same function computes, counts 19.
\<close>

theorem lag_counts_partition_0_only:
  "(case fst (fake_Lag (\<lparr>gc_Cluster = '''', gc_Namespace = '''', gc_Group = ''billing''\<rparr>) (fake_coord '''' '''' ''orders'')
      (New '''' '''')) of Inr plan \<Rightarrow> op_Total plan | Inl _ \<Rightarrow> 0) = 12 \<and>
   op_Total (fake_offsetPlan \<lparr>opr_Group = \<lparr>gc_Cluster = '''', gc_Namespace = '''', gc_Group = ''billing''\<rparr>,
      opr_Topic = fake_coord '''' '''' ''orders'', opr_To = ''latest'', opr_DryRun = True, opr_Partition = -1\<rparr> True
      (New '''' '''')) = 19"
  using lag_of_partition_zero_only [of "\<lparr>gc_Cluster = '''', gc_Namespace = '''', gc_Group = ''billing''\<rparr>"
      "fake_coord '''' '''' ''orders''"]
  by (auto simp: fake_coord_def split: sum.splits)

section \<open>Partitions and schema versions\<close>

text \<open>
  Altering a topic never lowers its number of partitions, and no operation but deletion takes a topic
  away from the state.
\<close>

theorem alter_never_shrinks_a_topic:
  assumes "fake_topic b name = Some d"
  shows "\<exists>d'. fake_topic (snd (fake_AlterTopic req b)) name = Some d' \<and> td_Partitions d \<le> td_Partitions d' \<and>
    td_Coordinate d' = td_Coordinate d"
proof -
  have "\<exists>d'. fake_topic (snd (fake_AlterTopic req b)) name = Some d' \<and> td_Coordinate d' = td_Coordinate d"
    using assms
    by (cases "tc_Topic (tar_Coordinate req) = name")
      (auto simp: fake_topic_def fake_AlterTopic_def Let_def split: option.splits)
  then show ?thesis using alter_never_shrinks [OF assms] by blast
qed

theorem alter_never_shrinks_a_topic_witness:
  "\<exists>d'. fake_topic (snd (fake_AlterTopic \<lparr>tar_Coordinate = fake_coord ''fake'' '''' ''orders'', tar_Partitions = 1,
      tar_Config = []\<rparr> (New '''' ''''))) ''orders'' = Some d' \<and> 3 \<le> td_Partitions d'"
proof -
  have "\<exists>d. fake_topic (New '''' '''') ''orders'' = Some d \<and> td_Partitions d = 3"
    by (simp add: fake_topic_def New_def fake_coord_def Let_def)
  then show ?thesis using alter_never_shrinks_a_topic by metis
qed

text \<open>
  Registering a schema for a subject that exists creates the next version: the identifier grows by one,
  the version is its decimal form, and describing that version returns what was registered.
\<close>

theorem register_creates_the_next_version:
  assumes "fake_reachable b" and "map_of (fk_schemas b) (srr_Subject req) = Some cur"
    and "srr_Subject req \<noteq> ''''" "srr_Schema req \<noteq> ''''"
  shows "\<exists>desc. fst (fake_RegisterSchema req b) = Inr desc \<and> sd_ID desc = sd_ID cur + 1 \<and>
    sd_Version desc = show_nat (nat (sd_ID desc)) \<and>
    fst (fake_DescribeSchema \<lparr>sdr_Subject = srr_Subject req, sdr_Version = sd_Version desc\<rparr>
      (snd (fake_RegisterSchema req b))) = Inr desc"
  using register_next_version [OF reachable_ok [OF assms(1)] assms(2-4)] .

theorem register_creates_the_next_version_witness:
  "\<exists>desc. fst (fake_RegisterSchema \<lparr>srr_Subject = ''orders-value'', srr_Type = ''AVRO'', srr_Schema = ''{}''\<rparr>
      (New '''' '''')) = Inr desc \<and> sd_ID desc = 2"
proof -
  have "\<exists>cur. map_of (fk_schemas (New '''' '''')) ''orders-value'' = Some cur \<and> sd_ID cur = 1"
    by (simp add: New_def Let_def)
  then obtain cur where cur: "map_of (fk_schemas (New '''' '''')) ''orders-value'' = Some cur" "sd_ID cur = 1" by blast
  have "\<exists>desc. fst (fake_RegisterSchema \<lparr>srr_Subject = ''orders-value'', srr_Type = ''AVRO'', srr_Schema = ''{}''\<rparr>
      (New '''' '''')) = Inr desc \<and> sd_ID desc = sd_ID cur + 1"
    using register_creates_the_next_version [OF reachable_new, of "''''" "''''" "\<lparr>srr_Subject = ''orders-value'',
        srr_Type = ''AVRO'', srr_Schema = ''{}''\<rparr>" cur] cur(1) by auto
  then show ?thesis using cur(2) by simp
qed

end
