(* ===== verification/Cli_Env.thy ===== *)
theory Cli_Env
  imports Broker_Types Classifier
begin

text \<open>
  What a command starts from: the stored contexts (internal/mqgovctx/context.go), the flags of the
  command line and the resolution of context, operator and output format (cmd/root.go).

  The context store and the operating system are read, never written, by the commands that talk to
  a broker, and the program caches what it read (\<open>contextOnce\<close>, \<open>trustedOperator\<close>); they are
  the record \<open>surroundings\<close>, an argument of every operation. The text of the store file is decoded by
  the core library: \<open>store_Load\<close> is the result of that decoding.
\<close>

section \<open>Contexts\<close>

datatype role = RoleReader | RoleWriter | RoleAdmin | RoleOther string

record Context =
  cx_Env :: string
  cx_Protected :: bool
  cx_TicketPattern :: string
  cx_TicketValidator :: string
  cx_Roles :: "(string \<times> role) list"
  cx_Username :: string
  cx_Password :: string
  cx_CredentialBackend :: string
  cx_OTLPEndpoint :: string
  cx_OTLPMetricsEndpoint :: string
  cx_OTLPInsecure :: bool
  cx_OTLPRedact :: bool
  cx_OTLPEndpointSource :: string
  cx_OTLPMetricsSource :: string
  cx_VaultAddr :: string
  cx_VaultPath :: string
  cx_VaultRoleID :: string
  cx_VaultNamespace :: string
  cx_Backend :: string
  cx_Cluster :: string
  cx_Namespace :: string
  cx_Topics :: "string list"
  cx_KafkaBrokers :: "string list"
  cx_KafkaSASLMechanism :: string
  cx_KafkaTLS :: bool
  cx_KafkaCACertFile :: string
  cx_KafkaClientCertFile :: string
  cx_KafkaClientKeyFile :: string
  cx_KafkaSchemaRegistryURL :: string
  cx_KafkaSchemaRegistryUsername :: string
  cx_KafkaSchemaRegistryPassword :: string
  cx_RabbitMQAMQPURL :: string
  cx_RabbitMQManagementURL :: string
  cx_RabbitMQHost :: string
  cx_RabbitMQPort :: int
  cx_RabbitMQVHost :: string
  cx_RabbitMQTLS :: bool
  cx_RabbitMQCACertFile :: string
  cx_RabbitMQClientCertFile :: string
  cx_RabbitMQClientKeyFile :: string
  cx_PulsarServiceURL :: string
  cx_PulsarAdminURL :: string
  cx_PulsarTenant :: string
  cx_PulsarNamespace :: string
  cx_PulsarTLS :: bool
  cx_PulsarCACertFile :: string
  cx_PulsarClientCertFile :: string
  cx_PulsarClientKeyFile :: string
  cx_RocketMQNameServers :: "string list"
  cx_RocketMQBrokerAddr :: string
  cx_RocketMQAccessKey :: string
  cx_RocketMQTLS :: bool
  cx_RocketMQCACertFile :: string
  cx_RocketMQClientCertFile :: string
  cx_RocketMQClientKeyFile :: string

definition no_context :: Context where
  "no_context = \<lparr>cx_Env = '''', cx_Protected = False, cx_TicketPattern = '''', cx_TicketValidator = '''',
     cx_Roles = [], cx_Username = '''', cx_Password = '''', cx_CredentialBackend = '''',
     cx_OTLPEndpoint = '''', cx_OTLPMetricsEndpoint = '''', cx_OTLPInsecure = False, cx_OTLPRedact = False,
     cx_OTLPEndpointSource = '''', cx_OTLPMetricsSource = '''', cx_VaultAddr = '''', cx_VaultPath = '''',
     cx_VaultRoleID = '''', cx_VaultNamespace = '''', cx_Backend = '''', cx_Cluster = '''', cx_Namespace = '''', cx_Topics = [],
     cx_KafkaBrokers = [], cx_KafkaSASLMechanism = '''', cx_KafkaTLS = False, cx_KafkaCACertFile = '''',
     cx_KafkaClientCertFile = '''', cx_KafkaClientKeyFile = '''', cx_KafkaSchemaRegistryURL = '''',
     cx_KafkaSchemaRegistryUsername = '''', cx_KafkaSchemaRegistryPassword = '''',
     cx_RabbitMQAMQPURL = '''', cx_RabbitMQManagementURL = '''', cx_RabbitMQHost = '''',
     cx_RabbitMQPort = 0, cx_RabbitMQVHost = '''', cx_RabbitMQTLS = False, cx_RabbitMQCACertFile = '''',
     cx_RabbitMQClientCertFile = '''', cx_RabbitMQClientKeyFile = '''', cx_PulsarServiceURL = '''',
     cx_PulsarAdminURL = '''', cx_PulsarTenant = '''', cx_PulsarNamespace = '''', cx_PulsarTLS = False,
     cx_PulsarCACertFile = '''', cx_PulsarClientCertFile = '''', cx_PulsarClientKeyFile = '''',
     cx_RocketMQNameServers = [], cx_RocketMQBrokerAddr = '''', cx_RocketMQAccessKey = '''',
     cx_RocketMQTLS = False, cx_RocketMQCACertFile = '''', cx_RocketMQClientCertFile = '''',
     cx_RocketMQClientKeyFile = ''''\<rparr>"

record Config =
  cf_CurrentContext :: string
  cf_Contexts :: "(string \<times> Context) list"

text \<open>
  \<open>%q\<close> of a string: the ASCII characters exactly, bytes above ASCII (the UTF-8 form of printable
  characters) unchanged.
\<close>

definition quote_char :: "char \<Rightarrow> string" where
  "quote_char c =
     (if c = CHR 0x22 then [CHR 0x5C, CHR 0x22]
      else if c = CHR 0x5C then [CHR 0x5C, CHR 0x5C]
      else if c = CHR 0x07 then [CHR 0x5C, CHR ''a'']
      else if c = CHR 0x08 then [CHR 0x5C, CHR ''b'']
      else if c = CHR 0x09 then [CHR 0x5C, CHR ''t'']
      else if c = CHR 0x0A then [CHR 0x5C, CHR ''n'']
      else if c = CHR 0x0B then [CHR 0x5C, CHR ''v'']
      else if c = CHR 0x0C then [CHR 0x5C, CHR ''f'']
      else if c = CHR 0x0D then [CHR 0x5C, CHR ''r'']
      else if c < CHR 0x20 \<or> c = CHR 0x7F then [CHR 0x5C, CHR ''x''] @ hex_encode [c]
      else [c])"

definition go_quote :: "string \<Rightarrow> string" where
  "go_quote s = [CHR 0x22] @ concat (map quote_char s) @ [CHR 0x22]"

definition unsupported_role :: "string \<Rightarrow> string \<Rightarrow> string \<Rightarrow> go_error" where
  "unsupported_role contextName role operator = AppError CodeValidationFailed
     (''context '' @ go_quote contextName @ '' has unsupported role '' @ go_quote role @
      '' for operator '' @ go_quote operator) None"

text \<open>The loops visit the keys of the maps in sorted order and return the first error.\<close>

fun first_bad_role :: "string \<Rightarrow> (string \<times> role) list \<Rightarrow> string list \<Rightarrow> go_error option" where
  "first_bad_role contextName roles [] = None"
| "first_bad_role contextName roles (operator # operators) =
    (case map_of roles operator of
       Some (RoleOther r) \<Rightarrow> Some (unsupported_role contextName r operator)
     | _ \<Rightarrow> first_bad_role contextName roles operators)"

definition validateContextRoles :: "string \<Rightarrow> Context \<Rightarrow> go_error option" where
  "validateContextRoles contextName item =
     first_bad_role contextName (cx_Roles item) (sort (map fst (cx_Roles item)))"

fun first_bad_context :: "(string \<times> Context) list \<Rightarrow> string list \<Rightarrow> go_error option" where
  "first_bad_context contexts [] = None"
| "first_bad_context contexts (name # names) =
    (case validateContextRoles name (case map_of contexts name of Some c \<Rightarrow> c | None \<Rightarrow> no_context) of
       Some e \<Rightarrow> Some e
     | None \<Rightarrow> first_bad_context contexts names)"

definition validatePersistedRoles :: "Config \<Rightarrow> go_error option" where
  "validatePersistedRoles cfg = first_bad_context (cf_Contexts cfg) (sort (map fst (cf_Contexts cfg)))"

definition Load :: "go_error + Config \<Rightarrow> go_error + Config" where
  "Load store_Load = (case store_Load of
     Inl e \<Rightarrow> Inl e
   | Inr cfg \<Rightarrow> (case validatePersistedRoles cfg of Some e \<Rightarrow> Inl e | None \<Rightarrow> Inr cfg))"

definition Current :: "go_error + Config \<Rightarrow> go_error + (Context \<times> string)" where
  "Current store_Load = (case Load store_Load of
     Inl e \<Rightarrow> Inl e
   | Inr cfg \<Rightarrow>
       if cf_CurrentContext cfg = ''''
       then Inl (AppError CodeUsageError ''no current context set'' None)
       else (case map_of (cf_Contexts cfg) (cf_CurrentContext cfg) of
         None \<Rightarrow> Inl (AppError CodeUsageError
                   (''context '' @ go_quote (cf_CurrentContext cfg) @ '' not found'') None)
       | Some item \<Rightarrow> Inr (item, cf_CurrentContext cfg)))"

section \<open>Flags and surroundings\<close>

record cliFlags =
  fl_Config :: string
  fl_Context :: string
  fl_Backend :: string
  fl_Cluster :: string
  fl_Namespace :: string
  fl_Timeout :: int
  fl_Output :: string
  fl_PlainHead :: bool
  fl_Debug :: bool
  fl_Trace :: bool
  fl_NoColor :: bool
  fl_AuditMaxSize :: int
  fl_DryRun :: bool
  fl_Plan :: bool
  fl_Yes :: bool
  fl_Ticket :: string
  fl_Operator :: string
  fl_Reason :: string
  fl_NonInter :: bool
  fl_AllowOffsetReset :: bool
  fl_AllowTopicPurge :: bool
  fl_AllowTopicDelete :: bool
  fl_AllowTopicUpsert :: bool
  fl_AllowDestructiveACL :: bool
  fl_AllowInternalProd :: bool
  fl_AllowSchemaDelete :: bool
  fl_AllowContextChange :: bool
  fl_AllowContextDelete :: bool
  fl_AllowRoleChange :: bool
  fl_AllowAuditPrune :: bool
  fl_OTLPEnd :: string
  fl_OTLPMetrics :: string
  fl_OTLPInsec :: bool
  fl_trustedOperator :: string

record surroundings =
  su_store :: "go_error + Config"
  su_user :: "go_error + string"
  su_host :: "go_error + string"

definition newDefaultFlags :: "int \<Rightarrow> cliFlags" where
  "newDefaultFlags default_max_size = \<lparr>fl_Config = '''', fl_Context = '''', fl_Backend = '''',
     fl_Cluster = '''', fl_Namespace = '''', fl_Timeout = 30000000000, fl_Output = ''table'', fl_PlainHead = False,
     fl_Debug = False, fl_Trace = False, fl_NoColor = False, fl_AuditMaxSize = default_max_size, fl_DryRun = False,
     fl_Plan = False, fl_Yes = False, fl_Ticket = '''', fl_Operator = '''', fl_Reason = '''',
     fl_NonInter = False, fl_AllowOffsetReset = False, fl_AllowTopicPurge = False,
     fl_AllowTopicDelete = False, fl_AllowTopicUpsert = False, fl_AllowDestructiveACL = False,
     fl_AllowInternalProd = False, fl_AllowSchemaDelete = False, fl_AllowContextChange = False,
     fl_AllowContextDelete = False, fl_AllowRoleChange = False, fl_AllowAuditPrune = False,
     fl_OTLPEnd = '''', fl_OTLPMetrics = '''', fl_OTLPInsec = False, fl_trustedOperator = ''''\<rparr>"

definition applyGlobalFlags :: "cliFlags \<Rightarrow> cliFlags" where
  "applyGlobalFlags f = (if fl_Trace f then f\<lparr>fl_Debug := True\<rparr> else f)"

definition contextName :: "surroundings \<Rightarrow> cliFlags \<Rightarrow> string" where
  "contextName su f =
    (if fl_Context f \<noteq> '''' then fl_Context f
     else case Current (su_store su) of
       Inl _ \<Rightarrow> ''direct''
     | Inr (_, name) \<Rightarrow> if name = '''' then ''direct'' else name)"

definition trustedOperatorIdentity :: "surroundings \<Rightarrow> cliFlags \<Rightarrow> go_error + string" where
  "trustedOperatorIdentity su f =
    (if fl_trustedOperator f \<noteq> '''' then Inr (fl_trustedOperator f)
     else case su_user su of
       Inl e \<Rightarrow> Inl (AppError CodeAuthorizationRequired ''trusted OS operator identity is unavailable'' (Some e))
     | Inr user \<Rightarrow>
         if trim_space user = ''''
         then Inl (AppError CodeAuthorizationRequired ''trusted OS operator identity is unavailable'' None)
         else (case su_host su of
           Inl e \<Rightarrow> Inl (AppError CodeAuthorizationRequired ''trusted OS hostname is unavailable'' (Some e))
         | Inr host \<Rightarrow>
             if trim_space host = ''''
             then Inl (AppError CodeAuthorizationRequired ''trusted OS hostname is unavailable'' None)
             else Inr (user @ ''@'' @ host)))"

definition currentOperator :: "surroundings \<Rightarrow> cliFlags \<Rightarrow> string" where
  "currentOperator su f = (case trustedOperatorIdentity su f of Inr operator \<Rightarrow> operator | Inl _ \<Rightarrow> '''')"

definition resolveTrustedOperator :: "surroundings \<Rightarrow> cliFlags \<Rightarrow> go_error option" where
  "resolveTrustedOperator su f = (case trustedOperatorIdentity su f of Inl e \<Rightarrow> Some e | Inr _ \<Rightarrow> None)"

definition resolvedContext :: "surroundings \<Rightarrow> cliFlags \<Rightarrow> go_error + (Context \<times> string)" where
  "resolvedContext su f =
    (if fl_Context f \<noteq> '''' then
       (case Load (su_store su) of
          Inl e \<Rightarrow> Inl e
        | Inr cfg \<Rightarrow>
          (case map_of (cf_Contexts cfg) (fl_Context f) of
             None \<Rightarrow> Inl (AppError CodeUsageError ''context not found'' None)
           | Some item \<Rightarrow> Inr (item, fl_Context f)))
     else case Current (su_store su) of
       Inr (ctx, name) \<Rightarrow> Inr (ctx, name)
     | Inl _ \<Rightarrow> Inr (no_context\<lparr>cx_Backend := firstNonEmpty [fl_Backend f, ''fake''],
                   cx_Cluster := fl_Cluster f, cx_Namespace := fl_Namespace f\<rparr>, ''direct''))"

section \<open>Validation of arguments\<close>

definition validateOutput :: "string \<Rightarrow> go_error option" where
  "validateOutput output = (if output \<in> {'''', ''table'', ''json'', ''plain''} then None
     else Some (AppError CodeUsageError ''output format must be table, json, or plain'' None))"

definition validateExactPattern :: "string \<Rightarrow> go_error option" where
  "validateExactPattern pattern = (if contains_any pattern ''*?[]''
     then Some (AppError CodeUsageError
       ''--pattern accepts an exact name only; glob metacharacters are not supported'' None)
     else None)"

definition validateTopicName :: "string \<Rightarrow> go_error option" where
  "validateTopicName topic = (if trim_space topic = ''''
     then Some (AppError CodeUsageError ''topic name must not be empty'' None) else None)"

fun outputFlagFromArgs :: "string list \<Rightarrow> string" where
  "outputFlagFromArgs [] = ''''"
| "outputFlagFromArgs (arg # rest) =
    (if (arg = ''-o'' \<or> arg = ''--output'') \<and> rest \<noteq> [] then hd rest
     else if has_prefix arg ''--output='' then trim_prefix arg ''--output=''
     else if has_prefix arg ''-o='' then trim_prefix arg ''-o=''
     else outputFlagFromArgs rest)"

definition firstNonEmptyList :: "string list \<Rightarrow> string \<Rightarrow> string list" where
  "firstNonEmptyList values fallback =
    (if values \<noteq> [] then values else if fallback = '''' then [] else split_on (CHR '','') fallback)"

fun firstNonZeroInt :: "int list \<Rightarrow> int" where
  "firstNonZeroInt [] = 0"
| "firstNonZeroInt (v # vs) = (if v \<noteq> 0 then v else firstNonZeroInt vs)"

definition isProtectedTopic :: "Context \<Rightarrow> string \<Rightarrow> TopicDescription \<Rightarrow> bool" where
  "isProtectedTopic meta topic desc = (td_Protected desc \<or> topic \<in> set (cx_Topics meta))"

definition contextPlanOnly :: "cliFlags \<Rightarrow> bool" where
  "contextPlanOnly f = (fl_DryRun f \<or> fl_Plan f)"
section \<open>What the resolution guarantees\<close>

fun known_role :: "role \<Rightarrow> bool" where
  "known_role (RoleOther _) = False"
| "known_role _ = True"

lemma first_bad_role_None:
  "first_bad_role c roles ops = None \<longleftrightarrow> (\<forall>op \<in> set ops. \<forall>r. map_of roles op = Some r \<longrightarrow> known_role r)"
  by (induction ops) (auto split: option.splits role.splits)

lemma validateContextRoles_None:
  "validateContextRoles name item = None \<longleftrightarrow>
     (\<forall>op r. map_of (cx_Roles item) op = Some r \<longrightarrow> known_role r)"
proof -
  have "\<And>op r. map_of (cx_Roles item) op = Some r \<Longrightarrow> op \<in> set (map fst (cx_Roles item))"
    by (metis domI dom_map_of_conv_image_fst list.set_map)
  then show ?thesis
    unfolding validateContextRoles_def first_bad_role_None set_sort by blast
qed

lemma first_bad_context_None:
  "first_bad_context contexts names = None \<longleftrightarrow>
     (\<forall>name \<in> set names. validateContextRoles name
        (case map_of contexts name of Some c \<Rightarrow> c | None \<Rightarrow> no_context) = None)"
  by (induction names) (auto split: option.splits)

lemma Load_ok:
  assumes "Load store = Inr cfg" and "map_of (cf_Contexts cfg) name = Some item"
    and "map_of (cx_Roles item) operator = Some role"
  shows "known_role role"
proof -
  have "validatePersistedRoles cfg = None"
    using assms(1) by (auto simp: Load_def split: sum.splits option.splits)
  moreover have "name \<in> set (map fst (cf_Contexts cfg))"
    using assms(2) by (metis domI dom_map_of_conv_image_fst list.set_map)
  ultimately have "validateContextRoles name item = None"
    using assms(2) unfolding validatePersistedRoles_def first_bad_context_None set_sort by fastforce
  then show ?thesis using assms(3) by (simp add: validateContextRoles_None)
qed

lemma resolvedContext_roles:
  assumes "resolvedContext su f = Inr (meta, name)" and "map_of (cx_Roles meta) operator = Some role"
  shows "known_role role"
  using assms
  by (auto simp: resolvedContext_def Current_def no_context_def
      split: if_splits sum.splits option.splits dest: Load_ok)

text \<open>A context named on the command line is the stored one, or the command fails.\<close>

lemma resolvedContext_named:
  assumes "fl_Context f \<noteq> ''''" and "resolvedContext su f = Inr (meta, name)"
  shows "name = fl_Context f \<and>
    (\<exists>cfg. Load (su_store su) = Inr cfg \<and> map_of (cf_Contexts cfg) name = Some meta)"
  using assms by (auto simp: resolvedContext_def split: sum.splits option.splits)

text \<open>
  Without \<open>--context\<close> no error of the store reaches the command: an unreadable file, or a context with
  a role outside the supported ones, leads to the direct context, which protects nothing and knows
  no roles.
\<close>

lemma resolvedContext_error_is_direct:
  assumes "fl_Context f = ''''" and "su_store su = Inl e"
  shows "\<exists>meta. resolvedContext su f = Inr (meta, ''direct'') \<and>
    \<not> cx_Protected meta \<and> cx_Env meta = '''' \<and> cx_Roles meta = [] \<and> cx_Topics meta = []"
  using assms by (simp add: resolvedContext_def Current_def Load_def no_context_def)

lemma currentOperator_ignores_flag:
  "currentOperator su (f\<lparr>fl_Operator := x\<rparr>) = currentOperator su f"
  by (simp add: currentOperator_def trustedOperatorIdentity_def)

lemma contextName_nonempty: "contextName su f \<noteq> ''''"
  by (auto simp: contextName_def split: sum.split)

lemma contextName_resolved:
  assumes "resolvedContext su f = Inr (meta, name)"
  shows "contextName su f = name"
  using assms
  by (auto simp: contextName_def resolvedContext_def Current_def split: if_splits sum.splits option.splits)

lemma outputFlagFromArgs_last:
  "outputFlagFromArgs (''-o'' # v # rest) = v" "outputFlagFromArgs (''--output'' # v # rest) = v"
  "outputFlagFromArgs ((''--output='' @ v) # rest) = v" "outputFlagFromArgs ((''-o='' @ v) # rest) = v"
  by (simp_all add: has_prefix_def trim_prefix_def)

end
