(* ===== verification/Audit_Record.thy ===== *)
theory Audit_Record
  imports Cli_Env
begin

text \<open>
  The audit records of cmd/mutation_audit.go: their fields, the construction of intent and outcome
  records, the normalisation of outcomes, and the checks that a spooled record has to pass before it
  is replayed (\<open>validateMutationSpoolRecord\<close> and what it calls, also from cmd/audit.go).

  Strings the core library chooses (\<open>audit.StatusSuccess\<close> \dots) are constructors of \<open>audit_status\<close>;
  the empty status is \<open>StatusUnset\<close>. An error code is an option, \<open>None\<close> for the empty string. A time is
  its distance from year 1 in nanoseconds and its zone offset. \<open>apperrors.AsAppError\<close> is the parameter
  \<open>asApp\<close>: the code and the text of the application error that it makes of an error.
\<close>

section \<open>Types\<close>

datatype audit_status =
    StatusUnset | StatusPending | StatusSuccess | StatusFailed | StatusPartialFailed | StatusDenied
  | StatusOther string

record go_time =
  gt_nanos :: int
  gt_offset :: int

definition time_UTC :: "go_time \<Rightarrow> go_time" where
  "time_UTC t = t\<lparr>gt_offset := 0\<rparr>"

definition time_IsZero :: "go_time \<Rightarrow> bool" where
  "time_IsZero t = (gt_nanos t = 0)"

type_synonym as_app = "go_error \<Rightarrow> error_code \<times> string"

definition mutationAuditKind :: string where "mutationAuditKind = ''MutationAuditRecord''"
definition readAuditKind :: string where "readAuditKind = ''ReadAuditRecord''"
definition safeAuditKind :: string where "safeAuditKind = ''AuditRecord''"
definition mutationAuditPhaseIntent :: string where "mutationAuditPhaseIntent = ''intent''"
definition mutationAuditPhaseOutcome :: string where "mutationAuditPhaseOutcome = ''outcome''"

record EventTarget =
  et_ResourceType :: string
  et_Resource :: string

record mutationAuditMetadata =
  md_PayloadFingerprint :: string
  md_PayloadBytes :: int
  md_KeyFingerprint :: string
  md_KeyBytes :: int
  md_BodyFingerprint :: string
  md_BodyBytes :: int
  md_Revision :: string
  md_Items :: int
  md_Creates :: int
  md_Updates :: int
  md_Deletes :: int

record mutationAuditOutcome =
  oc_Status :: audit_status
  oc_ErrorCode :: "error_code option"
  oc_ErrorFingerprint :: string
  oc_ErrorBytes :: int
  oc_Succeeded :: int
  oc_Failed :: int
  oc_Skipped :: int
  oc_Uncertain :: int
  oc_Revision :: string
  oc_CompensationStatus :: string
  oc_ResultCount :: int
  oc_counted :: bool

record mutationAuditSpec =
  sp_Action :: string
  sp_ContextName :: string
  sp_Context :: Context
  sp_Target :: EventTarget
  sp_Metadata :: mutationAuditMetadata
  sp_AuditPath :: string
  sp_Read :: bool

text \<open>\<open>audit.Event\<close> and \<open>safeAuditRecord\<close>, which embeds it.\<close>

record Event =
  ev_Timestamp :: go_time
  ev_EventType :: string
  ev_Operator :: string
  ev_ContextName :: string
  ev_Env :: string
  ev_Protected :: bool
  ev_Target :: EventTarget
  ev_Status :: audit_status
  ev_Ticket :: string
  ev_Reason :: string
  ev_Diff :: string
  ev_Error :: "(string \<times> string) option"
  ev_RoleChange :: "(string \<times> string) option"

record safeAuditRecord =
  ar_APIVersion :: string
  ar_Kind :: string
  ar_Event :: Event
  ar_MutationID :: string
  ar_OperationID :: string
  ar_Phase :: string
  ar_Action :: string
  ar_TicketFingerprint :: string
  ar_TicketBytes :: int
  ar_ReasonFingerprint :: string
  ar_ReasonBytes :: int
  ar_DetailFingerprint :: string
  ar_DetailBytes :: int
  ar_ErrorCode :: "error_code option"
  ar_ErrorFingerprint :: string
  ar_ErrorBytes :: int
  ar_Metadata :: mutationAuditMetadata
  ar_Outcome :: "mutationAuditOutcome option"

record mutationAuditHandle =
  mh_id :: string
  mh_path :: string
  mh_spec :: mutationAuditSpec

definition no_metadata :: mutationAuditMetadata where
  "no_metadata = \<lparr>md_PayloadFingerprint = '''', md_PayloadBytes = 0, md_KeyFingerprint = '''',
     md_KeyBytes = 0, md_BodyFingerprint = '''', md_BodyBytes = 0, md_Revision = '''', md_Items = 0,
     md_Creates = 0, md_Updates = 0, md_Deletes = 0\<rparr>"

definition empty_outcome :: mutationAuditOutcome where
  "empty_outcome = \<lparr>oc_Status = StatusUnset, oc_ErrorCode = None, oc_ErrorFingerprint = '''',
     oc_ErrorBytes = 0, oc_Succeeded = 0, oc_Failed = 0, oc_Skipped = 0, oc_Uncertain = 0,
     oc_Revision = '''', oc_CompensationStatus = '''', oc_ResultCount = 0, oc_counted = False\<rparr>"

section \<open>Outcomes\<close>

definition mutationAuditStatus :: "go_error option \<Rightarrow> audit_status" where
  "mutationAuditStatus operationErr = (if operationErr \<noteq> None then StatusFailed else StatusSuccess)"

definition mutationAuditErrorOutcome ::
  "as_app \<Rightarrow> mutationAuditOutcome \<Rightarrow> go_error \<Rightarrow> mutationAuditOutcome" where
  "mutationAuditErrorOutcome asApp oc operationErr =
    (let (code, text) = asApp operationErr;
         oc1 = (if oc_ErrorCode oc = None then oc\<lparr>oc_ErrorCode := Some code\<rparr> else oc)
     in if oc_ErrorFingerprint oc1 = ''''
        then (let (fp, n) = sensitiveAuditFingerprint ''error'' text
              in oc1\<lparr>oc_ErrorFingerprint := fp, oc_ErrorBytes := n\<rparr>)
        else oc1)"

definition mutationAuditCountsEmpty :: "mutationAuditOutcome \<Rightarrow> bool" where
  "mutationAuditCountsEmpty oc =
     (oc_Succeeded oc = 0 \<and> oc_Failed oc = 0 \<and> oc_Skipped oc = 0 \<and> oc_Uncertain oc = 0)"

definition normalizeMutationAuditOutcome ::
  "as_app \<Rightarrow> mutationAuditOutcome \<Rightarrow> go_error option \<Rightarrow> mutationAuditOutcome" where
  "normalizeMutationAuditOutcome asApp oc operationErr =
    (let oc1 = (if oc_Status oc = StatusUnset then oc\<lparr>oc_Status := mutationAuditStatus operationErr\<rparr> else oc);
         oc2 = (case operationErr of Some e \<Rightarrow> mutationAuditErrorOutcome asApp oc1 e | None \<Rightarrow> oc1)
     in if \<not> oc_counted oc2 \<and> mutationAuditCountsEmpty oc2
        then (if operationErr = None then oc2\<lparr>oc_Succeeded := 1\<rparr> else oc2\<lparr>oc_Failed := 1\<rparr>)
        else oc2)"

text \<open>The outcome that \<open>finishBatchMutationAuditWithOutcome\<close> hands to \<open>finishMutationAudit\<close>.\<close>

definition batchMutationAuditOutcome :: "int \<Rightarrow> BatchOutcome \<Rightarrow> go_error option \<Rightarrow> mutationAuditOutcome" where
  "batchMutationAuditOutcome tot bo operationErr =
    (let skipped0 = go_int (tot - BatchOutcome_Count bo);
         skipped = (if skipped0 < 0 then 0 else skipped0);
         status = (if 0 < bo_Failed bo \<or> 0 < bo_Uncertain bo \<or> operationErr \<noteq> None
                   then (if 0 < bo_Succeeded bo then StatusPartialFailed else StatusFailed)
                   else StatusSuccess)
     in empty_outcome\<lparr>oc_Status := status, oc_Succeeded := bo_Succeeded bo, oc_Failed := bo_Failed bo,
          oc_Skipped := skipped, oc_Uncertain := bo_Uncertain bo, oc_counted := True\<rparr>)"

text \<open>\<open>singleReadAuditOutcome\<close> and the outcome of \<open>persistReadAuditBatch\<close> of cmd/read_audit.go.\<close>

definition singleReadAuditOutcome :: "int \<Rightarrow> go_error option \<Rightarrow> mutationAuditOutcome" where
  "singleReadAuditOutcome resultCount operationErr =
    (let oc = empty_outcome\<lparr>oc_ResultCount := resultCount, oc_counted := True\<rparr>
     in if operationErr = None then oc\<lparr>oc_Succeeded := 1\<rparr> else oc\<lparr>oc_Failed := 1\<rparr>)"

definition batchReadAuditOutcome ::
  "int \<Rightarrow> int \<Rightarrow> int \<Rightarrow> int \<Rightarrow> go_error option \<Rightarrow> mutationAuditOutcome" where
  "batchReadAuditOutcome tot succeeded failed resultCount operationErr =
    (let status = (if 0 < failed \<or> operationErr \<noteq> None
                   then (if 0 < succeeded then StatusPartialFailed else StatusFailed)
                   else StatusSuccess);
         skipped0 = go_int (tot - succeeded - failed);
         skipped = (if skipped0 < 0 then 0 else skipped0)
     in empty_outcome\<lparr>oc_Status := status, oc_Succeeded := succeeded, oc_Failed := failed,
          oc_Skipped := skipped, oc_ResultCount := resultCount, oc_counted := True\<rparr>)"

text \<open>The outcome that \<open>beginMutationAudit\<close> spools when its intent may have been committed.\<close>

definition uncertainIntentOutcome :: "mutationAuditMetadata \<Rightarrow> mutationAuditOutcome" where
  "uncertainIntentOutcome metadata = empty_outcome\<lparr>oc_Status := StatusFailed,
     oc_ErrorCode := Some CodeAuditIncomplete,
     oc_Skipped := (if 0 < md_Items metadata then md_Items metadata else 1), oc_counted := True\<rparr>"

section \<open>Records\<close>

text \<open>\<open>handle.record(phase, outcome)\<close> at the time \<open>now\<close>.\<close>

definition handle_record ::
  "surroundings \<Rightarrow> cliFlags \<Rightarrow> go_time \<Rightarrow> mutationAuditHandle \<Rightarrow> string \<Rightarrow> mutationAuditOutcome option \<Rightarrow>
   safeAuditRecord" where
  "handle_record su f now handle phase oc =
    (let spec = mh_spec handle;
         name = (if sp_ContextName spec = '''' then contextName su f else sp_ContextName spec);
         (ticketFingerprint, ticketBytes) = sensitiveAuditFingerprint ''ticket'' (fl_Ticket f);
         (reasonFingerprint, reasonBytes) = sensitiveAuditFingerprint ''reason'' (fl_Reason f);
         status = (case oc of Some x \<Rightarrow> oc_Status x | None \<Rightarrow> StatusPending)
     in \<lparr>ar_APIVersion = mutationAuditAPIVersion,
         ar_Kind = (if sp_Read spec then readAuditKind else mutationAuditKind),
         ar_Event = \<lparr>ev_Timestamp = time_UTC now, ev_EventType = sp_Action spec @ ''.'' @ phase,
           ev_Operator = currentOperator su f, ev_ContextName = name,
           ev_Env = cx_Env (sp_Context spec), ev_Protected = cx_Protected (sp_Context spec),
           ev_Target = sp_Target spec, ev_Status = status,
           ev_Ticket = '''', ev_Reason = '''', ev_Diff = '''', ev_Error = None,
           ev_RoleChange = None\<rparr>,
         ar_MutationID = (if sp_Read spec then '''' else mh_id handle),
         ar_OperationID = (if sp_Read spec then mh_id handle else ''''),
         ar_Phase = phase, ar_Action = sp_Action spec,
         ar_TicketFingerprint = ticketFingerprint, ar_TicketBytes = ticketBytes,
         ar_ReasonFingerprint = reasonFingerprint, ar_ReasonBytes = reasonBytes,
         ar_DetailFingerprint = '''', ar_DetailBytes = 0, ar_ErrorCode = None,
         ar_ErrorFingerprint = '''', ar_ErrorBytes = 0,
         ar_Metadata = sp_Metadata spec, ar_Outcome = oc\<rparr>)"

definition newSafeAuditRecord ::
  "as_app \<Rightarrow> surroundings \<Rightarrow> cliFlags \<Rightarrow> go_time \<Rightarrow> string \<Rightarrow> Context \<Rightarrow> string \<Rightarrow> EventTarget \<Rightarrow>
   audit_status \<Rightarrow> string \<Rightarrow> go_error option \<Rightarrow> safeAuditRecord" where
  "newSafeAuditRecord asApp su f now typ ctx ctxName target status detail operationErr =
    (let name = (if ctxName = '''' then contextName su f else ctxName);
         (ticketFingerprint, ticketBytes) = sensitiveAuditFingerprint ''ticket'' (fl_Ticket f);
         (reasonFingerprint, reasonBytes) = sensitiveAuditFingerprint ''reason'' (fl_Reason f);
         (detailFingerprint, detailBytes) = sensitiveAuditFingerprint ''detail'' detail;
         (errorCode, errorFingerprint, errorBytes) =
           (case operationErr of
              None \<Rightarrow> (None, '''', 0)
            | Some e \<Rightarrow> (case asApp e of (code, text) \<Rightarrow> (Some code, sensitiveAuditFingerprint ''error'' text)))
     in \<lparr>ar_APIVersion = mutationAuditAPIVersion, ar_Kind = safeAuditKind,
         ar_Event = \<lparr>ev_Timestamp = time_UTC now, ev_EventType = typ,
           ev_Operator = currentOperator su f, ev_ContextName = name,
           ev_Env = cx_Env ctx, ev_Protected = cx_Protected ctx, ev_Target = target,
           ev_Status = status, ev_Ticket = '''', ev_Reason = '''', ev_Diff = '''', ev_Error = None,
           ev_RoleChange = None\<rparr>,
         ar_MutationID = '''', ar_OperationID = '''', ar_Phase = '''', ar_Action = '''',
         ar_TicketFingerprint = ticketFingerprint, ar_TicketBytes = ticketBytes,
         ar_ReasonFingerprint = reasonFingerprint, ar_ReasonBytes = reasonBytes,
         ar_DetailFingerprint = detailFingerprint, ar_DetailBytes = detailBytes,
         ar_ErrorCode = errorCode, ar_ErrorFingerprint = errorFingerprint, ar_ErrorBytes = errorBytes,
         ar_Metadata = no_metadata, ar_Outcome = None\<rparr>)"

definition mutationPayloadMetadata :: "string \<Rightarrow> string \<Rightarrow> mutationAuditMetadata" where
  "mutationPayloadMetadata action payload = no_metadata\<lparr>
     md_PayloadFingerprint := mutationAuditFingerprint (''payload:'' @ action) payload,
     md_PayloadBytes := int (length payload)\<rparr>"

text \<open>\<open>mutationValueMetadata\<close>, given the result of \<open>json.Marshal\<close> on the value.\<close>

definition mutationValueMetadata :: "string \<Rightarrow> string option \<Rightarrow> mutationAuditMetadata" where
  "mutationValueMetadata action marshalled =
     (case marshalled of None \<Rightarrow> no_metadata | Some payload \<Rightarrow> mutationPayloadMetadata action payload)"

definition mutationMessageMetadata :: "string \<Rightarrow> string \<Rightarrow> mutationAuditMetadata" where
  "mutationMessageMetadata key body = no_metadata\<lparr>
     md_KeyFingerprint := mutationAuditFingerprint ''message-key'' key,
     md_KeyBytes := int (length key),
     md_BodyFingerprint := mutationAuditFingerprint ''message-body'' body,
     md_BodyBytes := int (length body), md_Items := 1\<rparr>"

text \<open>\<open>newMutationID\<close>: sixteen random bytes, or the failure of the random source.\<close>

definition newMutationID :: "string option \<Rightarrow> go_error + string" where
  "newMutationID bytes = (case bytes of
     None \<Rightarrow> Inl (AppError CodeLocalIOError ''failed to generate mutation id'' None)
   | Some value \<Rightarrow> Inr (hex_encode value))"

section \<open>Validation\<close>

definition local_io :: "string \<Rightarrow> go_error" where
  "local_io msg = AppError CodeLocalIOError msg None"

definition validateSafeAuditRecord :: "safeAuditRecord \<Rightarrow> go_error option" where
  "validateSafeAuditRecord r =
    (if ar_APIVersion r \<noteq> mutationAuditAPIVersion \<or>
        (ar_Kind r \<noteq> mutationAuditKind \<and> ar_Kind r \<noteq> readAuditKind \<and> ar_Kind r \<noteq> safeAuditKind) \<or>
        ev_Ticket (ar_Event r) \<noteq> '''' \<or> ev_Reason (ar_Event r) \<noteq> '''' \<or>
        ev_Diff (ar_Event r) \<noteq> '''' \<or> ev_Error (ar_Event r) \<noteq> None
     then Some (AppError CodeValidationFailed ''unsafe audit record rejected'' None) else None)"

definition bad_fingerprint :: "string \<times> int \<Rightarrow> bool" where
  "bad_fingerprint = (\<lambda>(value, bytes). bytes < 0 \<or> (value = '''' \<and> bytes \<noteq> 0) \<or>
     (value \<noteq> '''' \<and> \<not> validAuditFingerprint value))"

definition record_fingerprints :: "safeAuditRecord \<Rightarrow> (string \<times> int) list" where
  "record_fingerprints r =
    (let m = ar_Metadata r in
     [(ar_TicketFingerprint r, ar_TicketBytes r), (ar_ReasonFingerprint r, ar_ReasonBytes r),
      (ar_DetailFingerprint r, ar_DetailBytes r), (ar_ErrorFingerprint r, ar_ErrorBytes r),
      (md_PayloadFingerprint m, md_PayloadBytes m), (md_KeyFingerprint m, md_KeyBytes m),
      (md_BodyFingerprint m, md_BodyBytes m)] @
     (case ar_Outcome r of Some oc \<Rightarrow> [(oc_ErrorFingerprint oc, oc_ErrorBytes oc)] | None \<Rightarrow> []))"

definition record_counts :: "safeAuditRecord \<Rightarrow> int list" where
  "record_counts r =
    (let m = ar_Metadata r in
     [md_Items m, md_Creates m, md_Updates m, md_Deletes m] @
     (case ar_Outcome r of
        Some oc \<Rightarrow> [oc_Succeeded oc, oc_Failed oc, oc_Skipped oc, oc_Uncertain oc, oc_ResultCount oc]
      | None \<Rightarrow> []))"

definition validateSanitizedAuditMetadata :: "safeAuditRecord \<Rightarrow> go_error option" where
  "validateSanitizedAuditMetadata r =
    (if list_ex bad_fingerprint (record_fingerprints r)
     then Some (AppError CodeValidationFailed ''audit record has invalid fingerprint metadata'' None)
     else if list_ex (\<lambda>n. n < 0) (record_counts r)
     then Some (AppError CodeValidationFailed ''audit record has invalid count metadata'' None)
     else None)"

definition auditRecordID :: "safeAuditRecord \<Rightarrow> string" where
  "auditRecordID r = (if ar_Kind r = readAuditKind then ar_OperationID r else ar_MutationID r)"

definition action_char :: "char \<Rightarrow> bool" where
  "action_char c = (CHR ''a'' \<le> c \<and> c \<le> CHR ''z'' \<or> is_digit c \<or> c = CHR ''.'' \<or> c = CHR ''-'' \<or> c = CHR ''_'')"

definition validMutationAuditAction :: "string \<Rightarrow> bool" where
  "validMutationAuditAction action =
     (\<not> (action = '''' \<or> trim_space action \<noteq> action) \<and> list_all action_char action)"

definition validMutationSpoolRecordIdentity :: "safeAuditRecord \<Rightarrow> bool" where
  "validMutationSpoolRecordIdentity r =
    ((ar_Kind r = mutationAuditKind \<or> ar_Kind r = readAuditKind) \<and>
     ar_Phase r = mutationAuditPhaseOutcome \<and> validMutationAuditAction (ar_Action r) \<and>
     length (auditRecordID r) = 32 \<and> auditRecordID r = to_lower (auditRecordID r) \<and>
     (ar_Kind r = mutationAuditKind \<and> ar_MutationID r \<noteq> '''' \<and> ar_OperationID r = '''' \<or>
      ar_Kind r = readAuditKind \<and> ar_OperationID r \<noteq> '''' \<and> ar_MutationID r = '''') \<and>
     \<not> time_IsZero (ev_Timestamp (ar_Event r)) \<and> ar_Outcome r \<noteq> None)"

definition validMutationSpoolName :: "string \<Rightarrow> bool" where
  "validMutationSpoolName name =
    (has_suffix name ''.json'' \<and>
     (case split_on (CHR ''-'') (trim_suffix name ''.json'') of
        [p0, p1] \<Rightarrow> length p0 = 20 \<and> length p1 = 32 \<and> list_all is_digit p0 \<and>
          p1 = to_lower p1 \<and> hex_decodes p1
      | _ \<Rightarrow> False))"

definition mutationSpoolNameSequence :: "string \<Rightarrow> go_error + 64 word" where
  "mutationSpoolNameSequence name =
    (if index_byte name (CHR ''-'') \<noteq> Some 20
     then Inl (local_io ''invalid mutation outcome spool sequence'')
     else case parse_uint64 (take 20 name) of
       None \<Rightarrow> Inl (local_io ''invalid mutation outcome spool sequence'')
     | Some v \<Rightarrow> Inr v)"

definition mutationIDFromSpoolName :: "string \<Rightarrow> string" where
  "mutationIDFromSpoolName name =
    (if \<not> validMutationSpoolName name then ''''
     else let stem = trim_suffix name ''.json''
          in drop (case last_index_byte stem (CHR ''-'') of Some i \<Rightarrow> Suc i | None \<Rightarrow> 0) stem)"

definition validMutationOutcomeStatus :: "audit_status \<Rightarrow> bool" where
  "validMutationOutcomeStatus s = (s = StatusSuccess \<or> s = StatusFailed \<or> s = StatusPartialFailed)"

definition validMutationCompensationStatus :: "string \<Rightarrow> bool" where
  "validMutationCompensationStatus s =
     (s = '''' \<or> s = ''succeeded'' \<or> s = ''incomplete'' \<or> s = ''not-safe'')"

definition validSuccessfulMutationSpoolOutcome :: "mutationAuditOutcome \<Rightarrow> bool" where
  "validSuccessfulMutationSpoolOutcome oc =
     (oc_Failed oc = 0 \<and> oc_Uncertain oc = 0 \<and> oc_ErrorCode oc = None \<and>
      oc_ErrorFingerprint oc = '''' \<and> oc_ErrorBytes oc = 0 \<and> oc_CompensationStatus oc = '''')"

definition validPartialMutationSpoolOutcome :: "mutationAuditOutcome \<Rightarrow> bool" where
  "validPartialMutationSpoolOutcome oc =
     (0 < oc_Succeeded oc \<and> (0 < oc_Failed oc \<or> 0 < oc_Uncertain oc \<or> oc_ErrorCode oc \<noteq> None))"

definition validateMutationSpoolOutcomeStatus :: "mutationAuditOutcome \<Rightarrow> go_error option" where
  "validateMutationSpoolOutcomeStatus oc =
    (case oc_Status oc of
       StatusSuccess \<Rightarrow>
         if \<not> validSuccessfulMutationSpoolOutcome oc
         then Some (local_io ''invalid successful mutation outcome spool record'') else None
     | StatusFailed \<Rightarrow>
         if oc_Succeeded oc \<noteq> 0
         then Some (local_io ''invalid failed mutation outcome spool record'') else None
     | StatusPartialFailed \<Rightarrow>
         if \<not> validPartialMutationSpoolOutcome oc
         then Some (local_io ''invalid partial mutation outcome spool record'') else None
     | _ \<Rightarrow> None)"

definition validateMutationSpoolCompensation :: "mutationAuditOutcome \<Rightarrow> go_error option" where
  "validateMutationSpoolCompensation oc =
    (if oc_CompensationStatus oc = ''succeeded''
     then (if oc_Uncertain oc \<noteq> 0
           then Some (local_io ''invalid compensated mutation outcome spool record'') else None)
     else if oc_CompensationStatus oc = ''incomplete''
     then (if oc_Uncertain oc = 0
           then Some (local_io ''incomplete compensation must report uncertain credentials'') else None)
     else if oc_CompensationStatus oc = ''not-safe''
     then (if oc_Succeeded oc = 0 \<and> oc_Uncertain oc = 0
           then Some (local_io ''unsafe compensation outcome must report committed or uncertain credentials'')
           else None)
     else None)"

definition outcome_total :: "mutationAuditOutcome \<Rightarrow> int" where
  "outcome_total oc = go_int (oc_Succeeded oc + oc_Failed oc + oc_Skipped oc + oc_Uncertain oc)"

definition validateMutationSpoolRecord :: "safeAuditRecord \<Rightarrow> string \<Rightarrow> go_error option" where
  "validateMutationSpoolRecord r name =
    (if validateSafeAuditRecord r \<noteq> None \<or> \<not> validMutationSpoolRecordIdentity r
     then Some (local_io ''invalid mutation outcome spool record'')
     else if validateSanitizedAuditMetadata r \<noteq> None
     then Some (local_io ''invalid mutation outcome spool metadata'')
     else if \<not> hex_decodes (auditRecordID r)
     then Some (local_io ''invalid operation outcome spool id'')
     else if \<not> validMutationSpoolName name \<or>
        \<not> has_suffix (trim_suffix name ''.json'') (''-'' @ auditRecordID r)
     then Some (local_io ''mutation outcome spool filename does not match its record'')
     else (case ar_Outcome r of
       None \<Rightarrow> Some (local_io ''invalid mutation outcome spool record'')
     | Some oc \<Rightarrow>
         if ev_EventType (ar_Event r) \<noteq> ar_Action r @ ''.'' @ mutationAuditPhaseOutcome \<or>
            ev_Status (ar_Event r) \<noteq> oc_Status oc \<or> \<not> validMutationOutcomeStatus (oc_Status oc) \<or>
            \<not> validMutationCompensationStatus (oc_CompensationStatus oc)
         then Some (local_io ''invalid mutation outcome spool semantics'')
         else if 0 < md_Items (ar_Metadata r) \<and> outcome_total oc \<noteq> md_Items (ar_Metadata r)
         then Some (local_io ''mutation outcome spool counts do not match planned items'')
         else if gt_offset (ev_Timestamp (ar_Event r)) \<noteq> 0
         then Some (local_io ''mutation outcome spool timestamp must be UTC'')
         else (case validateMutationSpoolOutcomeStatus oc of
           Some e \<Rightarrow> Some e
         | None \<Rightarrow> validateMutationSpoolCompensation oc)))"

text \<open>
  The file name of \<open>writeMutationSpoolRecord\<close> and what \<open>json.Marshal\<close> keeps of a record: everything
  but the unexported field \<open>counted\<close>.
\<close>

definition spoolRecordName :: "64 word \<Rightarrow> string \<Rightarrow> string" where
  "spoolRecordName sequence recordID = show_pad20 (unat sequence) @ ''-'' @ recordID @ ''.json''"

definition marshalled_record :: "safeAuditRecord \<Rightarrow> safeAuditRecord" where
  "marshalled_record r = r\<lparr>ar_Outcome := map_option (oc_counted_update (\<lambda>_. False)) (ar_Outcome r)\<rparr>"

section \<open>Errors\<close>

definition auditIncompleteError :: "string \<Rightarrow> bool \<Rightarrow> go_error" where
  "auditIncompleteError mutationID spoolFailed = AppError CodeAuditIncomplete
     (if spoolFailed then ''mutation outcome audit is incomplete and durable spooling failed''
      else ''mutation outcome audit is incomplete'') None"

definition auditIncompleteSuggestion :: "string \<Rightarrow> string" where
  "auditIncompleteSuggestion mutationID =
    (if mutationID \<noteq> ''''
     then ''Do not retry blindly. Check mutationId '' @ mutationID @
       '', resolve audit storage, then run a mutation to replay durable outcomes.''
     else ''Resolve audit storage before another mutation. Definitely uncommitted outcomes replay automatically; reconcile .indeterminate entries against the audit log before handling them manually.'')"

definition indeterminateMutationSpoolError :: "string \<Rightarrow> go_error" where
  "indeterminateMutationSpoolError mutationID =
     AppError CodeAuditIncomplete ''mutation outcome audit commit state is indeterminate'' None"

text \<open>The state that \<open>errors.As\<close> finds in the chain of causes of an append error.\<close>

fun mutationAuditCommitState :: "go_error \<Rightarrow> append_state option" where
  "mutationAuditCommitState (MutationAuditAppendError state cause) = Some state"
| "mutationAuditCommitState (AppError code msg (Some cause)) = mutationAuditCommitState cause"
| "mutationAuditCommitState (AuditPruneDurabilityError cause) = mutationAuditCommitState cause"
| "mutationAuditCommitState (JoinedError []) = None"
| "mutationAuditCommitState (JoinedError (e # es)) =
    (case mutationAuditCommitState e of Some s \<Rightarrow> Some s | None \<Rightarrow> mutationAuditCommitState (JoinedError es))"
| "mutationAuditCommitState e = None"

definition mutationAuditAppendMayExist :: "go_error \<Rightarrow> bool" where
  "mutationAuditAppendMayExist e = (case mutationAuditCommitState e of
     Some state \<Rightarrow> state \<noteq> AppendCommitNotCommitted | None \<Rightarrow> False)"

definition mutationAuditAppendCommitted :: "go_error \<Rightarrow> bool" where
  "mutationAuditAppendCommitted e = (case mutationAuditCommitState e of
     Some state \<Rightarrow> state = AppendCommitCommitted \<or> state = AppendCommitCommittedPostCommitError
   | None \<Rightarrow> False)"

end
