(* ===== verification/Audit_Record_Laws.thy ===== *)
theory Audit_Record_Laws
  imports Audit_Record
begin

text \<open>
  The records the program writes are the records it accepts: the names of spool files, and the
  acceptance of every outcome record by the validation that guards its replay.
\<close>

section \<open>Spool file names\<close>

lemma split_on_single: "sep \<notin> set a \<Longrightarrow> split_on sep a = [a]"
  by (induction a) auto

lemma split_on_pair: "sep \<notin> set a \<Longrightarrow> sep \<notin> set b \<Longrightarrow> split_on sep (a @ sep # b) = [a, b]"
  by (induction a) (auto simp: split_on_single)

lemma index_byte_append: "c \<notin> set a \<Longrightarrow> index_byte (a @ c # b) c = Some (length a)"
  by (induction a) auto

lemma last_index_byte_notin: "c \<notin> set b \<Longrightarrow> last_index_byte b c = None"
  by (induction b) auto

lemma last_index_byte_append: "c \<notin> set b \<Longrightarrow> last_index_byte (a @ c # b) c = Some (length a)"
  by (induction a) (auto simp: last_index_byte_notin)

lemma suffix_append [simp]: "has_suffix (a @ b) b" "trim_suffix (a @ b) b = a"
  by (simp_all add: has_suffix_def trim_suffix_def suffix_def)

lemma lower_hex_no_dash: "list_all lower_hex s \<Longrightarrow> CHR ''-'' \<notin> set s"
  by (auto simp: list_all_iff lower_hex_def is_digit_iff less_eq_char_def)

lemma digits_no_dash: "list_all is_digit s \<Longrightarrow> CHR ''-'' \<notin> set s"
  by (auto simp: list_all_iff is_digit_iff)

lemma show_pad20_digits: "n < 2 ^ 64 \<Longrightarrow> list_all is_digit (show_pad20 n)"
  by (simp add: show_pad20_def)

definition operation_id :: "string \<Rightarrow> bool" where
  "operation_id i = (length i = 32 \<and> list_all lower_hex i)"

lemma newMutationID_ok:
  assumes "newMutationID src = Inr i" and "\<And>b. src = Some b \<Longrightarrow> length b = 16"
  shows "operation_id i"
  using assms hex_encode_lower by (auto simp: newMutationID_def operation_id_def split: option.splits)

lemma operation_id_facts:
  assumes "operation_id i"
  shows "to_lower i = i" "hex_decodes i" "CHR ''-'' \<notin> set i" "i \<noteq> ''''"
  using assms lower_hex_no_dash [of i] to_lower_lower_hex [of i] list_all_mono_pred [of lower_hex i is_hex]
  by (auto simp: operation_id_def hex_decodes_def lower_hex_is_hex)

lemma unat_64: "unat (s :: 64 word) < 2 ^ 64"
  using unsigned_less [of s, where 'a = nat] by simp

lemma spoolRecordName_split:
  assumes "operation_id i"
  shows "trim_suffix (spoolRecordName s i) ''.json'' = show_pad20 (unat s) @ CHR ''-'' # i"
    and "has_suffix (spoolRecordName s i) ''.json''"
    and "split_on (CHR ''-'') (show_pad20 (unat s) @ CHR ''-'' # i) = [show_pad20 (unat s), i]"
proof -
  have "spoolRecordName s i = (show_pad20 (unat s) @ CHR ''-'' # i) @ ''.json''"
    by (simp add: spoolRecordName_def)
  then show "trim_suffix (spoolRecordName s i) ''.json'' = show_pad20 (unat s) @ CHR ''-'' # i"
    and "has_suffix (spoolRecordName s i) ''.json''"
    by (metis suffix_append(2), metis suffix_append(1))
  show "split_on (CHR ''-'') (show_pad20 (unat s) @ CHR ''-'' # i) = [show_pad20 (unat s), i]"
    using operation_id_facts(3) [OF assms] digits_no_dash [OF show_pad20_digits [OF unat_64]]
    by (intro split_on_pair)
qed

lemma spoolRecordName_valid: "operation_id i \<Longrightarrow> validMutationSpoolName (spoolRecordName s i)"
  using spoolRecordName_split [of i s] operation_id_facts [of i] length_show_pad20 [OF unat_64]
    show_pad20_digits [OF unat_64]
  by (simp add: validMutationSpoolName_def operation_id_def)

lemma spoolRecordName_id: "operation_id i \<Longrightarrow> mutationIDFromSpoolName (spoolRecordName s i) = i"
  using spoolRecordName_split [of i s] last_index_byte_append [of "CHR ''-''" i] operation_id_facts(3) [of i]
  by (simp add: mutationIDFromSpoolName_def spoolRecordName_valid)

lemma spoolRecordName_suffix:
  assumes "operation_id i"
  shows "has_suffix (trim_suffix (spoolRecordName s i) ''.json'') (''-'' @ j) \<longleftrightarrow> suffix (CHR ''-'' # j) (show_pad20 (unat s) @ CHR ''-'' # i)"
  using spoolRecordName_split [OF assms] by (simp add: has_suffix_def)

lemma spoolRecordName_sequence: "mutationSpoolNameSequence (spoolRecordName s i) = Inr s"
proof -
  have "CHR ''-'' \<notin> set (show_pad20 (unat s))" and "length (show_pad20 (unat s)) = 20"
    using digits_no_dash [OF show_pad20_digits [OF unat_64]] length_show_pad20 [OF unat_64] by auto
  then show ?thesis
    using index_byte_append [of "CHR ''-''" "show_pad20 (unat s)" "i @ ''.json''"] parse_show_pad20 [OF unat_64]
    by (simp add: mutationSpoolNameSequence_def spoolRecordName_def)
qed

text \<open>The order of the names is the order of the sequence numbers.\<close>

lemma spoolRecordName_less:
  assumes "s < t"
  shows "spoolRecordName s i < spoolRecordName t j"
proof -
  have "show_pad20 (unat s) < show_pad20 (unat t)"
    using assms show_pad20_less [OF unat_64 unat_64, of s t] by (simp add: word_less_nat_alt)
  moreover have "length (show_pad20 (unat s)) = length (show_pad20 (unat t))"
    by (simp add: length_show_pad20 [OF unat_64])
  ultimately show ?thesis
    by (simp add: spoolRecordName_def list_less_append)
qed

section \<open>Acceptance of the records of the program\<close>

definition metadata_ok :: "mutationAuditMetadata \<Rightarrow> bool" where
  "metadata_ok m = (\<not> list_ex bad_fingerprint [(md_PayloadFingerprint m, md_PayloadBytes m),
       (md_KeyFingerprint m, md_KeyBytes m), (md_BodyFingerprint m, md_BodyBytes m)] \<and>
     0 \<le> md_Items m \<and> 0 \<le> md_Creates m \<and> 0 \<le> md_Updates m \<and> 0 \<le> md_Deletes m)"

definition outcome_ok :: "mutationAuditOutcome \<Rightarrow> bool" where
  "outcome_ok oc = (\<not> bad_fingerprint (oc_ErrorFingerprint oc, oc_ErrorBytes oc) \<and>
     0 \<le> oc_Succeeded oc \<and> 0 \<le> oc_Failed oc \<and> 0 \<le> oc_Skipped oc \<and> 0 \<le> oc_Uncertain oc \<and>
     0 \<le> oc_ResultCount oc \<and> validMutationOutcomeStatus (oc_Status oc) \<and>
     validMutationCompensationStatus (oc_CompensationStatus oc) \<and>
     validateMutationSpoolOutcomeStatus oc = None \<and> validateMutationSpoolCompensation oc = None)"

lemma no_metadata_ok [simp]: "metadata_ok no_metadata"
  by (simp add: metadata_ok_def no_metadata_def bad_fingerprint_def)

lemma fingerprint_not_bad [simp]: "0 \<le> n \<Longrightarrow> \<not> bad_fingerprint (mutationAuditFingerprint d v, n)"
  by (simp add: bad_fingerprint_def)

lemma sensitive_not_bad [simp]: "\<not> bad_fingerprint (sensitiveAuditFingerprint d v)"
  using sensitive_fingerprint_ok [of d v] by (cases "sensitiveAuditFingerprint d v") (auto simp: bad_fingerprint_def)

lemma empty_not_bad [simp]: "\<not> bad_fingerprint ('''', 0)"
  by (simp add: bad_fingerprint_def)

lemma metadata_constructors_ok:
  "metadata_ok (mutationPayloadMetadata action payload)" "metadata_ok (mutationValueMetadata action value)"
  "metadata_ok (mutationMessageMetadata key body)"
  by (auto simp: metadata_ok_def mutationPayloadMetadata_def mutationValueMetadata_def
      mutationMessageMetadata_def no_metadata_def split: option.split)

lemma kinds [simp]: "readAuditKind \<noteq> mutationAuditKind" "mutationAuditKind \<noteq> readAuditKind"
  "safeAuditKind \<noteq> readAuditKind" "readAuditKind \<noteq> safeAuditKind"
  "safeAuditKind \<noteq> mutationAuditKind" "mutationAuditKind \<noteq> safeAuditKind"
  by (simp_all add: readAuditKind_def mutationAuditKind_def safeAuditKind_def)

lemma handle_record_fields:
  "ar_Kind (handle_record su f now h phase oc) = (if sp_Read (mh_spec h) then readAuditKind else mutationAuditKind)"
  "auditRecordID (handle_record su f now h phase oc) = mh_id h"
  "ar_MutationID (handle_record su f now h phase oc) = (if sp_Read (mh_spec h) then '''' else mh_id h)"
  "ar_OperationID (handle_record su f now h phase oc) = (if sp_Read (mh_spec h) then mh_id h else '''')"
  "ar_Phase (handle_record su f now h phase oc) = phase"
  "ar_Action (handle_record su f now h phase oc) = sp_Action (mh_spec h)"
  "ar_Metadata (handle_record su f now h phase oc) = sp_Metadata (mh_spec h)"
  "ar_Outcome (handle_record su f now h phase oc) = oc"
  "ev_Timestamp (ar_Event (handle_record su f now h phase oc)) = time_UTC now"
  "ev_EventType (ar_Event (handle_record su f now h phase oc)) = sp_Action (mh_spec h) @ ''.'' @ phase"
  "ev_Status (ar_Event (handle_record su f now h phase oc)) = (case oc of Some x \<Rightarrow> oc_Status x | None \<Rightarrow> StatusPending)"
  by (auto simp: handle_record_def Let_def auditRecordID_def split: prod.split)

lemma handle_record_safe: "validateSafeAuditRecord (handle_record su f now h phase oc) = None"
  by (simp add: handle_record_def validateSafeAuditRecord_def Let_def split: prod.split)

lemma newSafeAuditRecord_safe:
  "validateSafeAuditRecord (newSafeAuditRecord asApp su f now typ c n t s d e) = None"
  by (simp add: newSafeAuditRecord_def validateSafeAuditRecord_def Let_def split: prod.split)

text \<open>Neither the ticket nor the reason nor a detail stands in a record in clear text.\<close>

lemma handle_record_fingerprints:
  "record_fingerprints (handle_record su f now h phase oc) =
    [sensitiveAuditFingerprint ''ticket'' (fl_Ticket f), sensitiveAuditFingerprint ''reason'' (fl_Reason f),
     ('''', 0), ('''', 0)] @
    [(md_PayloadFingerprint (sp_Metadata (mh_spec h)), md_PayloadBytes (sp_Metadata (mh_spec h))),
     (md_KeyFingerprint (sp_Metadata (mh_spec h)), md_KeyBytes (sp_Metadata (mh_spec h))),
     (md_BodyFingerprint (sp_Metadata (mh_spec h)), md_BodyBytes (sp_Metadata (mh_spec h)))] @
    (case oc of Some x \<Rightarrow> [(oc_ErrorFingerprint x, oc_ErrorBytes x)] | None \<Rightarrow> [])"
  by (simp add: record_fingerprints_def handle_record_def Let_def split: prod.split option.split)

lemma handle_record_metadata:
  assumes "metadata_ok (sp_Metadata (mh_spec h))" and "outcome_ok oc"
  shows "validateSanitizedAuditMetadata (handle_record su f now h phase (Some oc)) = None"
  using assms
  by (auto simp: validateSanitizedAuditMetadata_def handle_record_fingerprints record_counts_def
      handle_record_fields metadata_ok_def outcome_ok_def Let_def)

lemma validMutationAuditAction_nonempty: "validMutationAuditAction a \<Longrightarrow> a \<noteq> ''''"
  by (simp add: validMutationAuditAction_def)

lemma handle_record_accepted:
  assumes "validMutationAuditAction (sp_Action (mh_spec h))" and id: "operation_id (mh_id h)"
    and "\<not> time_IsZero now" and "metadata_ok (sp_Metadata (mh_spec h))" and oc: "outcome_ok oc"
  shows "validateMutationSpoolRecord (handle_record su f now h mutationAuditPhaseOutcome (Some oc))
           (spoolRecordName seq (mh_id h)) = None \<longleftrightarrow>
         md_Items (sp_Metadata (mh_spec h)) = 0 \<or> outcome_total oc = md_Items (sp_Metadata (mh_spec h))"
proof -
  have items: "0 \<le> md_Items (sp_Metadata (mh_spec h))" using assms(4) by (simp add: metadata_ok_def)
  have "has_suffix (trim_suffix (spoolRecordName seq (mh_id h)) ''.json'') (''-'' @ mh_id h)"
    using spoolRecordName_split(1) [OF id, of seq] by (simp add: has_suffix_def suffix_def)
  moreover have "length (mh_id h) = 32" using id by (simp add: operation_id_def)
  ultimately show ?thesis
    using assms items spoolRecordName_valid [OF id, of seq] operation_id_facts [OF id]
    by (auto simp: validateMutationSpoolRecord_def handle_record_safe handle_record_fields
        handle_record_metadata validMutationSpoolRecordIdentity_def time_IsZero_def time_UTC_def outcome_ok_def)
qed

lemma marshalled_same [simp]:
  "validateMutationSpoolRecord (marshalled_record r) name = validateMutationSpoolRecord r name"
  "validateSafeAuditRecord (marshalled_record r) = validateSafeAuditRecord r"
  "auditRecordID (marshalled_record r) = auditRecordID r"
  "marshalled_record (marshalled_record r) = marshalled_record r"
proof -
  show safe: "validateSafeAuditRecord (marshalled_record r) = validateSafeAuditRecord r"
    by (simp add: validateSafeAuditRecord_def marshalled_record_def)
  show id: "auditRecordID (marshalled_record r) = auditRecordID r"
    by (simp add: auditRecordID_def marshalled_record_def)
  have "record_fingerprints (marshalled_record r) = record_fingerprints r"
    "record_counts (marshalled_record r) = record_counts r"
    "validMutationSpoolRecordIdentity (marshalled_record r) = validMutationSpoolRecordIdentity r"
    by (simp_all add: record_fingerprints_def record_counts_def validMutationSpoolRecordIdentity_def id)
      (auto simp: marshalled_record_def Let_def split: option.split)
  then show "validateMutationSpoolRecord (marshalled_record r) name = validateMutationSpoolRecord r name"
    unfolding validateMutationSpoolRecord_def safe id validateSanitizedAuditMetadata_def
    by (cases "ar_Outcome r") (auto simp: marshalled_record_def outcome_total_def
        validateMutationSpoolOutcomeStatus_def validateMutationSpoolCompensation_def
        validSuccessfulMutationSpoolOutcome_def validPartialMutationSpoolOutcome_def split: audit_status.split)
  show "marshalled_record (marshalled_record r) = marshalled_record r"
    by (cases "ar_Outcome r") (simp_all add: marshalled_record_def)
qed

section \<open>Outcomes of the program\<close>

lemma normalize_simps:
  "normalizeMutationAuditOutcome asApp oc None =
    (let oc1 = (if oc_Status oc = StatusUnset then oc\<lparr>oc_Status := StatusSuccess\<rparr> else oc)
     in if \<not> oc_counted oc \<and> mutationAuditCountsEmpty oc then oc1\<lparr>oc_Succeeded := 1\<rparr> else oc1)"
  by (simp add: normalizeMutationAuditOutcome_def mutationAuditStatus_def mutationAuditCountsEmpty_def Let_def)

lemma error_outcome_fields:
  "oc_Status (mutationAuditErrorOutcome asApp oc e) = oc_Status oc"
  "oc_Succeeded (mutationAuditErrorOutcome asApp oc e) = oc_Succeeded oc"
  "oc_Failed (mutationAuditErrorOutcome asApp oc e) = oc_Failed oc"
  "oc_Skipped (mutationAuditErrorOutcome asApp oc e) = oc_Skipped oc"
  "oc_Uncertain (mutationAuditErrorOutcome asApp oc e) = oc_Uncertain oc"
  "oc_counted (mutationAuditErrorOutcome asApp oc e) = oc_counted oc"
  "oc_ResultCount (mutationAuditErrorOutcome asApp oc e) = oc_ResultCount oc"
  "oc_CompensationStatus (mutationAuditErrorOutcome asApp oc e) = oc_CompensationStatus oc"
  "oc_ErrorCode (mutationAuditErrorOutcome asApp oc e) \<noteq> None"
  "\<not> bad_fingerprint (oc_ErrorFingerprint oc, oc_ErrorBytes oc) \<Longrightarrow>
   \<not> bad_fingerprint (oc_ErrorFingerprint (mutationAuditErrorOutcome asApp oc e),
      oc_ErrorBytes (mutationAuditErrorOutcome asApp oc e))"
  using sensitive_not_bad [of "''error''" "snd (asApp e)"]
  by (cases "asApp e"; cases "sensitiveAuditFingerprint ''error'' (snd (asApp e))";
      auto simp: mutationAuditErrorOutcome_def Let_def)+

text \<open>
  What \<open>normalizeMutationAuditOutcome\<close> makes acceptable: an outcome that is counted and whose status is
  consistent with its counters, or one that is left to be filled in.
\<close>

definition status_consistent :: "mutationAuditOutcome \<Rightarrow> go_error option \<Rightarrow> bool" where
  "status_consistent oc err =
    (case oc_Status oc of
       StatusSuccess \<Rightarrow> err = None \<and> oc_Failed oc = 0 \<and> oc_Uncertain oc = 0
     | StatusFailed \<Rightarrow> oc_Succeeded oc = 0 \<and> (oc_counted oc \<or> err \<noteq> None)
     | StatusPartialFailed \<Rightarrow> 0 < oc_Succeeded oc \<and> (0 < oc_Failed oc \<or> 0 < oc_Uncertain oc \<or> err \<noteq> None)
     | StatusUnset \<Rightarrow> (if err = None then oc_Failed oc = 0 \<and> oc_Uncertain oc = 0 else oc_Succeeded oc = 0)
     | _ \<Rightarrow> False)"

definition counts_nonneg :: "mutationAuditOutcome \<Rightarrow> bool" where
  "counts_nonneg oc = (0 \<le> oc_Succeeded oc \<and> 0 \<le> oc_Failed oc \<and> 0 \<le> oc_Skipped oc \<and>
     0 \<le> oc_Uncertain oc \<and> 0 \<le> oc_ResultCount oc)"

definition no_error_fields :: "mutationAuditOutcome \<Rightarrow> bool" where
  "no_error_fields oc = (oc_ErrorCode oc = None \<and> oc_ErrorFingerprint oc = '''' \<and> oc_ErrorBytes oc = 0 \<and>
     oc_CompensationStatus oc = '''')"

lemma normalize_ok:
  assumes "status_consistent oc err" and "counts_nonneg oc" and "no_error_fields oc"
  shows "outcome_ok (normalizeMutationAuditOutcome asApp oc err)"
proof (cases err)
  case None
  then show ?thesis
    using assms unfolding None normalize_simps outcome_ok_def
    by (auto simp: mutationAuditCountsEmpty_def status_consistent_def counts_nonneg_def no_error_fields_def Let_def
        validMutationOutcomeStatus_def validMutationCompensationStatus_def
        validateMutationSpoolOutcomeStatus_def validateMutationSpoolCompensation_def
        validSuccessfulMutationSpoolOutcome_def validPartialMutationSpoolOutcome_def
        split: audit_status.splits)
next
  case (Some e)
  then show ?thesis
    using assms error_outcome_fields(10) [of oc asApp e] error_outcome_fields(9) [of asApp _ e]
    unfolding outcome_ok_def
    by (auto simp: normalizeMutationAuditOutcome_def mutationAuditStatus_def error_outcome_fields
        status_consistent_def counts_nonneg_def no_error_fields_def Let_def
        validMutationOutcomeStatus_def validMutationCompensationStatus_def
        validateMutationSpoolOutcomeStatus_def validateMutationSpoolCompensation_def
        validSuccessfulMutationSpoolOutcome_def validPartialMutationSpoolOutcome_def
        split: audit_status.splits)
qed

lemma normalize_total:
  assumes "oc_counted oc"
  shows "outcome_total (normalizeMutationAuditOutcome asApp oc err) = outcome_total oc"
  using assms
  by (cases err) (simp_all add: normalizeMutationAuditOutcome_def outcome_total_def Let_def error_outcome_fields)

lemma batch_outcome_fields:
  "oc_counted (batchMutationAuditOutcome tot bo err)" "no_error_fields (batchMutationAuditOutcome tot bo err)"
  "oc_counted (batchReadAuditOutcome tot s n r err)" "no_error_fields (batchReadAuditOutcome tot s n r err)"
  "oc_counted (singleReadAuditOutcome r err)" "no_error_fields (singleReadAuditOutcome r err)"
  by (simp_all add: batchMutationAuditOutcome_def batchReadAuditOutcome_def singleReadAuditOutcome_def
      no_error_fields_def empty_outcome_def Let_def)

lemma batch_outcome_ok:
  assumes "outcome_counts bo"
  shows "outcome_ok (normalizeMutationAuditOutcome asApp (batchMutationAuditOutcome tot bo err) err)"
  using assms
  by (intro normalize_ok batch_outcome_fields)
    (auto simp: status_consistent_def counts_nonneg_def batchMutationAuditOutcome_def empty_outcome_def
      outcome_counts_def Let_def)

lemma batch_outcome_total:
  assumes "outcome_counts bo" and "0 \<le> tot" and "tot < 2 ^ 63"
  shows "outcome_total (normalizeMutationAuditOutcome asApp (batchMutationAuditOutcome tot bo err) err) =
    max tot (BatchOutcome_Count bo)"
  using assms
  by (simp add: normalize_total batch_outcome_fields)
    (simp add: outcome_total_def batchMutationAuditOutcome_def empty_outcome_def outcome_count_sum
      outcome_counts_def Let_def)

lemma read_batch_outcome_ok:
  assumes "0 \<le> s" "0 \<le> n" "0 \<le> r"
  shows "outcome_ok (normalizeMutationAuditOutcome asApp (batchReadAuditOutcome tot s n r err) err)"
  using assms
  by (intro normalize_ok batch_outcome_fields)
    (auto simp: status_consistent_def counts_nonneg_def batchReadAuditOutcome_def empty_outcome_def Let_def)

lemma read_batch_outcome_total:
  assumes "0 \<le> s" "0 \<le> n" "s + n \<le> tot" "tot < 2 ^ 63"
  shows "outcome_total (normalizeMutationAuditOutcome asApp (batchReadAuditOutcome tot s n r err) err) = tot"
  using assms
  by (simp add: normalize_total batch_outcome_fields)
    (simp add: outcome_total_def batchReadAuditOutcome_def empty_outcome_def Let_def)

lemma single_read_ok:
  assumes "0 \<le> r"
  shows "outcome_ok (normalizeMutationAuditOutcome asApp (singleReadAuditOutcome r err) err)"
    and "outcome_total (normalizeMutationAuditOutcome asApp (singleReadAuditOutcome r err) err) = 1"
proof -
  show "outcome_ok (normalizeMutationAuditOutcome asApp (singleReadAuditOutcome r err) err)"
    using assms
    by (intro normalize_ok batch_outcome_fields)
      (auto simp: status_consistent_def counts_nonneg_def singleReadAuditOutcome_def empty_outcome_def Let_def)
  show "outcome_total (normalizeMutationAuditOutcome asApp (singleReadAuditOutcome r err) err) = 1"
    by (simp add: normalize_total batch_outcome_fields)
      (simp add: outcome_total_def singleReadAuditOutcome_def empty_outcome_def Let_def)
qed

lemma single_mutation_ok:
  assumes "oc = empty_outcome\<lparr>oc_Revision := revision\<rparr>"
  shows "outcome_ok (normalizeMutationAuditOutcome asApp oc err)"
    and "outcome_total (normalizeMutationAuditOutcome asApp oc err) = 1"
proof -
  show "outcome_ok (normalizeMutationAuditOutcome asApp oc err)"
    using assms
    by (intro normalize_ok)
      (auto simp: status_consistent_def counts_nonneg_def no_error_fields_def empty_outcome_def)
  show "outcome_total (normalizeMutationAuditOutcome asApp oc err) = 1"
    using assms
    by (cases err) (simp_all add: normalizeMutationAuditOutcome_def mutationAuditErrorOutcome_def
        mutationAuditCountsEmpty_def outcome_total_def empty_outcome_def Let_def split: prod.split)
qed

lemma uncertain_intent_ok:
  assumes "metadata_ok m"
  shows "outcome_ok (uncertainIntentOutcome m)"
    and "md_Items m < 2 ^ 63 \<Longrightarrow> md_Items m = 0 \<or> outcome_total (uncertainIntentOutcome m) = md_Items m"
  using assms
  by (auto simp: outcome_ok_def uncertainIntentOutcome_def empty_outcome_def metadata_ok_def outcome_total_def
      validMutationOutcomeStatus_def validMutationCompensationStatus_def
      validateMutationSpoolOutcomeStatus_def validateMutationSpoolCompensation_def)

end
