(* ===== verification/Audit_Fs.thy ===== *)
theory Audit_Fs
  imports Audit_Record_Laws
begin

text \<open>
  The directory of the outcome spool and the checks on it: cmd/mutation_audit_permissions_other.go,
  \<open>ensureMutationAuditDirectory\<close> and \<open>replaceContextExportFile\<close>.

  The state \<open>aud\<close> holds the audit log (\<open>'l\<close>, opaque), the directories on the way from the audit
  directory up to the root (\<open>None\<close>: missing), the spool directory and its files. A file is its
  metadata and its content: the line that \<open>json.Marshal\<close> makes of a record, or other text. What is
  outside the program is the record \<open>audit_env\<close>: \<open>ae_fault n\<close> is the error that the operating system
  gives to the \<open>n\<close>-th system call of the program, if any, \<open>ae_clock\<close> and \<open>ae_random\<close> the successive
  readings of the clock and of the random source, \<open>ae_append\<close> the append of the core library's audit
  package, \<open>ae_decode\<close> the decoding of text that the program did not write, \<open>ae_json_len\<close> the length
  of a marshalled record. One audit path is in use, \<open>ae_path\<close>.
\<close>

unbundle bit_operations_syntax

section \<open>Files\<close>

record file_info =
  fi_dir :: bool
  fi_regular :: bool
  fi_symlink :: bool
  fi_sticky :: bool
  fi_perm :: "16 word"
  fi_uid :: int

definition mode_0600 :: "16 word" where "mode_0600 = 0x180"
definition mode_0700 :: "16 word" where "mode_0700 = 0x1C0"
definition mode_0022 :: "16 word" where "mode_0022 = 0x12"

datatype content = Content_Record safeAuditRecord | Content_Text string

record spool_file =
  sf_info :: file_info
  sf_content :: content

record 'l audit_env =
  ae_fault :: "nat \<Rightarrow> go_error option"
  ae_clock :: "nat \<Rightarrow> go_time"
  ae_random :: "nat \<Rightarrow> string option"
  ae_euid :: int
  ae_umask :: "16 word"
  ae_lock_info :: file_info
  ae_append :: "int \<Rightarrow> safeAuditRecord \<Rightarrow> 'l \<Rightarrow> 'l \<times> append_state \<times> go_error option"
  ae_log_info :: "'l \<Rightarrow> file_info option"
  ae_decode :: "string \<Rightarrow> go_error + safeAuditRecord"
  ae_json_len :: "safeAuditRecord \<Rightarrow> nat"
  ae_path :: string
  ae_default_path :: "go_error + string"
  ae_default_max_size :: int
  ae_asApp :: as_app
  ae_su :: surroundings

record 'l aud =
  au_tick :: nat
  au_time :: nat
  au_rand :: nat
  au_log :: 'l
  au_ancestors :: "file_info option list"
  au_spool_dir :: "file_info option"
  au_files :: "(string \<times> spool_file) list"
  au_entered :: bool

section \<open>System calls\<close>

text \<open>A call fails with the error of the system, which the code mostly replaces by its own.\<close>

definition sys :: "'l audit_env \<Rightarrow> (go_error \<Rightarrow> go_error) \<Rightarrow> ('l aud, unit) op" where
  "sys E wrap a = (case ae_fault E (au_tick a) of None \<Rightarrow> Inr () | Some e \<Rightarrow> Inl (wrap e),
     a\<lparr>au_tick := Suc (au_tick a)\<rparr>)"

definition sys_io :: "'l audit_env \<Rightarrow> string \<Rightarrow> ('l aud, unit) op" where
  "sys_io E msg = sys E (\<lambda>_. local_io msg)"

definition check :: "go_error option \<Rightarrow> ('w, unit) op" where
  "check e = (case e of None \<Rightarrow> ret () | Some e \<Rightarrow> throw e)"

definition find_file :: "string \<Rightarrow> 'l aud \<Rightarrow> spool_file option" where
  "find_file name a = map_of (au_files a) name"

definition put_file :: "string \<Rightarrow> spool_file \<Rightarrow> 'l aud \<Rightarrow> 'l aud" where
  "put_file name file a = a\<lparr>au_files := alist_put name file (au_files a)\<rparr>"

definition del_file :: "string \<Rightarrow> 'l aud \<Rightarrow> 'l aud" where
  "del_file name a = a\<lparr>au_files := alist_del name (au_files a)\<rparr>"

definition new_info :: "'l audit_env \<Rightarrow> bool \<Rightarrow> 16 word \<Rightarrow> file_info" where
  "new_info E dir perm = \<lparr>fi_dir = dir, fi_regular = \<not> dir, fi_symlink = False, fi_sticky = False,
     fi_perm = perm AND NOT (ae_umask E), fi_uid = ae_euid E\<rparr>"

text \<open>\<open>time.Now\<close> and the random source.\<close>

definition now_op :: "'l audit_env \<Rightarrow> ('l aud, go_time) op" where
  "now_op E a = (Inr (ae_clock E (au_time a)), a\<lparr>au_time := Suc (au_time a)\<rparr>)"

definition newMutationID_op :: "'l audit_env \<Rightarrow> ('l aud, string) op" where
  "newMutationID_op E a = (newMutationID (ae_random E (au_rand a)), a\<lparr>au_rand := Suc (au_rand a)\<rparr>)"

section \<open>Checks on files and directories\<close>

definition effectiveMutationSpoolUID :: "'l audit_env \<Rightarrow> go_error + int" where
  "effectiveMutationSpoolUID E = (if ae_euid E < 0
     then Inl (local_io ''failed to identify the current mutation outcome spool owner'')
     else Inr (ae_euid E))"

definition verifyMutationSpoolOwner :: "'l audit_env \<Rightarrow> file_info \<Rightarrow> string \<Rightarrow> go_error option" where
  "verifyMutationSpoolOwner E info path = (case effectiveMutationSpoolUID E of
     Inl e \<Rightarrow> Some e
   | Inr euid \<Rightarrow> if fi_uid info \<noteq> euid
       then Some (local_io (''mutation outcome spool path '' @ path @ '' is not owned by the current user''))
       else None)"

definition spoolFileCheck :: "'l audit_env \<Rightarrow> file_info \<Rightarrow> string \<Rightarrow> go_error option" where
  "spoolFileCheck E info path =
    (if fi_symlink info \<or> \<not> fi_regular info
     then Some (local_io ''mutation outcome spool entry must be a regular file'')
     else case verifyMutationSpoolOwner E info path of
       Some e \<Rightarrow> Some e
     | None \<Rightarrow> if fi_perm info \<noteq> mode_0600
         then Some (local_io ''mutation outcome spool file must have mode 0600'') else None)"

definition spoolDirectoryCheck :: "'l audit_env \<Rightarrow> file_info \<Rightarrow> string \<Rightarrow> go_error option" where
  "spoolDirectoryCheck E info path =
    (if fi_symlink info \<or> \<not> fi_dir info
     then Some (local_io ''mutation outcome spool must be a real directory'')
     else case verifyMutationSpoolOwner E info path of
       Some e \<Rightarrow> Some e
     | None \<Rightarrow> if fi_perm info \<noteq> mode_0700
         then Some (local_io ''mutation outcome spool directory must have mode 0700'') else None)"

definition ancestorCheck :: "'l audit_env \<Rightarrow> file_info \<Rightarrow> go_error option" where
  "ancestorCheck E info =
    (if fi_symlink info \<or> \<not> fi_dir info
     then Some (local_io ''mutation outcome spool ancestors must be real directories'')
     else case effectiveMutationSpoolUID E of
       Inl e \<Rightarrow> Some e
     | Inr euid \<Rightarrow>
         if fi_uid info \<noteq> euid \<and> fi_uid info \<noteq> 0
         then Some (local_io ''mutation outcome spool ancestor has an untrusted owner'')
         else if fi_perm info AND mode_0022 \<noteq> 0 \<and> \<not> fi_sticky info
         then Some (local_io ''mutation outcome spool ancestor is replaceable by another user'')
         else None)"

definition spoolPath :: "'l audit_env \<Rightarrow> string" where
  "spoolPath E = ae_path E @ ''.outcome-spool''"

definition verifyMutationSpoolFile :: "'l audit_env \<Rightarrow> string \<Rightarrow> ('l aud, unit) op" where
  "verifyMutationSpoolFile E name =
     seqE (sys_io E ''failed to inspect mutation outcome spool file'') (\<lambda>_.
     seqE (getS (find_file name)) (\<lambda>file.
       case file of
         None \<Rightarrow> throw (local_io ''failed to inspect mutation outcome spool file'')
       | Some file \<Rightarrow> check (spoolFileCheck E (sf_info file) (spoolPath E @ ''/'' @ name))))"

definition chmod_file :: "string \<Rightarrow> 16 word \<Rightarrow> 'l aud \<Rightarrow> 'l aud" where
  "chmod_file name perm a = (case find_file name a of
     None \<Rightarrow> a | Some file \<Rightarrow> put_file name (file\<lparr>sf_info := (sf_info file)\<lparr>fi_perm := perm\<rparr>\<rparr>) a)"

definition secureMutationSpoolFile :: "'l audit_env \<Rightarrow> string \<Rightarrow> ('l aud, unit) op" where
  "secureMutationSpoolFile E name =
     seqE (sys_io E ''failed to secure mutation outcome spool file'') (\<lambda>_.
     seqE (getS (find_file name)) (\<lambda>file.
     seqE (guardE (file \<noteq> None) (local_io ''failed to secure mutation outcome spool file'')) (\<lambda>_.
     seqE (modS (chmod_file name mode_0600)) (\<lambda>_.
     verifyMutationSpoolFile E name))))"

definition syncMutationSpoolDirectory :: "'l audit_env \<Rightarrow> ('l aud, unit) op" where
  "syncMutationSpoolDirectory E =
     seqE (sys_io E ''failed to open mutation outcome spool directory'') (\<lambda>_.
     sys_io E ''failed to sync mutation outcome spool directory'')"

text \<open>\<open>os.Rename\<close>, then the synchronisation of the directory.\<close>

definition rename_file :: "string \<Rightarrow> string \<Rightarrow> 'l aud \<Rightarrow> 'l aud" where
  "rename_file src dst a = (case find_file src a of
     None \<Rightarrow> a | Some file \<Rightarrow> put_file dst file (del_file src a))"

definition commitMutationSpoolFile :: "'l audit_env \<Rightarrow> string \<Rightarrow> string \<Rightarrow> ('l aud, unit) op" where
  "commitMutationSpoolFile E src dst =
     seqE (sys E id) (\<lambda>_.
     seqE (getS (find_file src)) (\<lambda>file.
     seqE (guardE (file \<noteq> None) (OtherError ''no such file or directory'')) (\<lambda>_.
     seqE (modS (rename_file src dst)) (\<lambda>_.
     syncMutationSpoolDirectory E))))"

definition verifyMutationSpoolDirectory :: "'l audit_env \<Rightarrow> ('l aud, unit) op" where
  "verifyMutationSpoolDirectory E =
     seqE (sys_io E ''failed to inspect mutation outcome spool directory'') (\<lambda>_.
     seqE (getS au_spool_dir) (\<lambda>dir.
       case dir of
         None \<Rightarrow> throw (local_io ''failed to inspect mutation outcome spool directory'')
       | Some info \<Rightarrow> check (spoolDirectoryCheck E info (spoolPath E))))"

text \<open>The loop of \<open>verifyMutationSpoolParent\<close>, from a directory up to the root.\<close>

fun verifyMutationSpoolParent :: "'l audit_env \<Rightarrow> file_info option list \<Rightarrow> ('l aud, unit) op" where
  "verifyMutationSpoolParent E [] = ret ()"
| "verifyMutationSpoolParent E (dir # ups) =
     seqE (sys_io E ''failed to inspect mutation outcome spool ancestor'') (\<lambda>_.
       case dir of
         None \<Rightarrow> throw (local_io ''failed to inspect mutation outcome spool ancestor'')
       | Some info \<Rightarrow> seqE (check (ancestorCheck E info)) (\<lambda>_. verifyMutationSpoolParent E ups))"

text \<open>
  \<open>ensureMutationSpoolDirectory\<close> on the directory that \<open>get\<close> and \<open>put\<close> reach, below the directories \<open>ups\<close>.
\<close>

definition ensureDirectory ::
  "'l audit_env \<Rightarrow> ('l aud \<Rightarrow> file_info option list) \<Rightarrow> ('l aud \<Rightarrow> file_info option) \<Rightarrow>
   (file_info option \<Rightarrow> 'l aud \<Rightarrow> 'l aud) \<Rightarrow> string \<Rightarrow> ('l aud, unit) op" where
  "ensureDirectory E ups get put path =
     seqE (getS ups) (\<lambda>dirs.
     seqE (verifyMutationSpoolParent E dirs) (\<lambda>_.
     seqE (sys_io E ''failed to create mutation outcome spool directory'') (\<lambda>_.
     seqE (getS get) (\<lambda>old.
     seqE (if old = None
           then seqE (modS (put (Some (new_info E True mode_0700)))) (\<lambda>_. syncMutationSpoolDirectory E)
           else ret ()) (\<lambda>_.
     seqE (sys_io E ''failed to inspect mutation outcome spool directory'') (\<lambda>_.
     seqE (getS get) (\<lambda>dir.
       case dir of
         None \<Rightarrow> throw (local_io ''failed to inspect mutation outcome spool directory'')
       | Some info \<Rightarrow> check (spoolDirectoryCheck E info path))))))))"

definition ensureMutationSpoolDirectory :: "'l audit_env \<Rightarrow> ('l aud, unit) op" where
  "ensureMutationSpoolDirectory E =
     ensureDirectory E au_ancestors au_spool_dir (\<lambda>d a. a\<lparr>au_spool_dir := d\<rparr>) (spoolPath E)"

text \<open>\<open>createPrivateMutationAuditDirectory\<close> on the \<open>i\<close>-th directory above the audit log.\<close>

definition createPrivateMutationAuditDirectory :: "'l audit_env \<Rightarrow> nat \<Rightarrow> ('l aud, unit) op" where
  "createPrivateMutationAuditDirectory E i =
     ensureDirectory E (\<lambda>a. drop (Suc i) (au_ancestors a))
       (\<lambda>a. if i < length (au_ancestors a) then au_ancestors a ! i else None)
       (\<lambda>d a. a\<lparr>au_ancestors := (au_ancestors a)[i := d]\<rparr>) ''''"

text \<open>
  The recursion of \<open>ensureMutationAuditDirectory\<close>: \<open>dirs\<close> are the directories from the \<open>i\<close>-th one up
  to the root.
\<close>

fun ensureMutationAuditDirectory :: "'l audit_env \<Rightarrow> nat \<Rightarrow> file_info option list \<Rightarrow> ('l aud, unit) op" where
  "ensureMutationAuditDirectory E i [] = ret ()"
| "ensureMutationAuditDirectory E i (dir # ups) =
     seqE (sys_io E ''failed to inspect mutation audit directory'') (\<lambda>_.
       case dir of
         Some info \<Rightarrow> guardE (\<not> (fi_symlink info \<or> \<not> fi_dir info))
           (local_io ''mutation audit directory must be a real directory'')
       | None \<Rightarrow>
           if ups = [] then throw (local_io ''mutation audit directory has no existing ancestor'')
           else seqE (ensureMutationAuditDirectory E (Suc i) ups)
             (\<lambda>_. createPrivateMutationAuditDirectory E i))"

definition verifyMutationAuditActivePath :: "'l audit_env \<Rightarrow> bool \<Rightarrow> ('l aud, unit) op" where
  "verifyMutationAuditActivePath E allowMissing =
     seqE (sys_io E ''failed to inspect mutation audit log'') (\<lambda>_.
     seqE (getS (\<lambda>a. ae_log_info E (au_log a))) (\<lambda>info.
       case info of
         None \<Rightarrow> if allowMissing then ret () else throw (local_io ''failed to inspect mutation audit log'')
       | Some info \<Rightarrow> guardE (\<not> (fi_symlink info \<or> \<not> fi_regular info))
           (local_io ''mutation audit log must be a real regular file'')))"

text \<open>
  The scheme of the two writers of spool files: an exclusive temporary file, made private, written,
  synchronised, closed and renamed; when a step fails the temporary file is removed, as far as the
  system allows. \<open>what\<close> names the file in the messages.
\<close>

definition removeTemp :: "'l audit_env \<Rightarrow> string \<Rightarrow> ('l aud, unit) op" where
  "removeTemp E temp = tryE (seqE (sys E id) (\<lambda>_. modS (del_file temp))) (\<lambda>_. ret ())"

definition createTemp :: "'l audit_env \<Rightarrow> string \<Rightarrow> string \<Rightarrow> ('l aud, unit) op" where
  "createTemp E temp what =
     seqE (sys_io E (''failed to create '' @ what)) (\<lambda>_.
     seqE (getS (find_file temp)) (\<lambda>old.
     seqE (guardE (old = None) (local_io (''failed to create '' @ what))) (\<lambda>_.
     modS (put_file temp \<lparr>sf_info = new_info E False mode_0600, sf_content = Content_Text ''''\<rparr>))))"

definition set_content :: "string \<Rightarrow> content \<Rightarrow> 'l aud \<Rightarrow> 'l aud" where
  "set_content name c a = (case find_file name a of
     None \<Rightarrow> a | Some file \<Rightarrow> put_file name (file\<lparr>sf_content := c\<rparr>) a)"

definition fillTemp :: "'l audit_env \<Rightarrow> string \<Rightarrow> string \<Rightarrow> content \<Rightarrow> string \<Rightarrow> ('l aud, unit) op" where
  "fillTemp E temp target c what =
     seqE (secureMutationSpoolFile E temp) (\<lambda>_.
     seqE (sys_io E (''failed to write '' @ what)) (\<lambda>_.
     seqE (modS (set_content temp c)) (\<lambda>_.
     seqE (sys_io E (''failed to sync '' @ what)) (\<lambda>_.
     seqE (sys_io E (''failed to close '' @ what)) (\<lambda>_.
     tryE (commitMutationSpoolFile E temp target) (\<lambda>r.
       case r of Inl _ \<Rightarrow> throw (local_io (''failed to commit '' @ what)) | Inr _ \<Rightarrow> ret ()))))))"

definition writeTempAndCommit :: "'l audit_env \<Rightarrow> string \<Rightarrow> content \<Rightarrow> string \<Rightarrow> ('l aud, unit) op" where
  "writeTempAndCommit E target c what =
     (let temp = target @ ''.tmp'' in
      seqE (createTemp E temp what) (\<lambda>_.
      tryE (fillTemp E temp target c what) (\<lambda>r.
        case r of Inl e \<Rightarrow> seqE (removeTemp E temp) (\<lambda>_. throw e) | Inr _ \<Rightarrow> ret ())))"

end
