(* ===== verification/Audit_Spool.thy ===== *)
theory Audit_Spool
  imports Audit_Fs
begin

text \<open>
  The outcome spool of cmd/mutation_audit.go: its sequence file, the writing, reading, replaying,
  removing and quarantining of its records, and the append of a record to the audit log.
\<close>

section \<open>The sequence file\<close>

definition lockFileName :: string where "lockFileName = ''queue.lock''"
definition sequenceFileName :: string where "sequenceFileName = ''sequence''"
definition indeterminateSuffix :: string where "indeterminateSuffix = ''.indeterminate''"

text \<open>\<open>os.ReadDir\<close>: the entries sorted by name.\<close>

definition readDir :: "'l aud \<Rightarrow> (string \<times> spool_file) list" where
  "readDir a = sort_key fst (au_files a)"

definition unexpectedEntry :: go_error where
  "unexpectedEntry = local_io ''mutation outcome spool contains an unexpected entry''"

fun maxSpoolSequence :: "(string \<times> spool_file) list \<Rightarrow> 64 word \<Rightarrow> go_error + 64 word" where
  "maxSpoolSequence [] maxRecord = Inr maxRecord"
| "maxSpoolSequence ((name, file) # entries) maxRecord =
    (if name = lockFileName \<or> name = sequenceFileName then maxSpoolSequence entries maxRecord
     else let pendingName = trim_suffix name indeterminateSuffix in
       if fi_dir (sf_info file) \<or> \<not> validMutationSpoolName pendingName then Inl unexpectedEntry
       else case mutationSpoolNameSequence pendingName of
         Inl e \<Rightarrow> Inl e
       | Inr sequence \<Rightarrow> maxSpoolSequence entries (if maxRecord < sequence then sequence else maxRecord))"

definition contentText :: "'l audit_env \<Rightarrow> content \<Rightarrow> nat \<times> string option" where
  "contentText E c = (case c of
     Content_Text s \<Rightarrow> (length s, Some s)
   | Content_Record r \<Rightarrow> (Suc (ae_json_len E r), None))"

text \<open>A marshalled record is never a decimal number, whatever its length.\<close>

definition readMutationSpoolSequence :: "'l audit_env \<Rightarrow> ('l aud, (64 word) option) op" where
  "readMutationSpoolSequence E =
     seqE (sys_io E ''failed to inspect mutation outcome spool sequence'') (\<lambda>_.
     seqE (getS (find_file sequenceFileName)) (\<lambda>file.
       case file of
         None \<Rightarrow> ret None
       | Some file \<Rightarrow>
           seqE (verifyMutationSpoolFile E sequenceFileName) (\<lambda>_.
           seqE (sys_io E ''failed to read mutation outcome spool sequence'') (\<lambda>_.
           if 32 < fst (contentText E (sf_content file))
           then throw (local_io ''failed to read mutation outcome spool sequence'')
           else (case snd (contentText E (sf_content file)) of
               None \<Rightarrow> throw (local_io ''invalid mutation outcome spool sequence'')
             | Some s \<Rightarrow> (case parse_uint64 (trim_space s) of
                 None \<Rightarrow> throw (local_io ''invalid mutation outcome spool sequence'')
               | Some v \<Rightarrow> ret (Some v)))))))"

definition writeMutationSpoolSequence :: "'l audit_env \<Rightarrow> 64 word \<Rightarrow> ('l aud, unit) op" where
  "writeMutationSpoolSequence E sequence =
     seqE (writeTempAndCommit E sequenceFileName (Content_Text (show_nat (unat sequence) @ [CHR 0x0A]))
       ''mutation outcome spool sequence'') (\<lambda>_.
     verifyMutationSpoolFile E sequenceFileName)"

definition nextMutationSpoolSequence :: "'l audit_env \<Rightarrow> ('l aud, 64 word) op" where
  "nextMutationSpoolSequence E =
     seqE (sys_io E ''failed to list mutation outcome spool for sequencing'') (\<lambda>_.
     seqE (getS readDir) (\<lambda>entries.
     seqE (liftE (maxSpoolSequence entries 0)) (\<lambda>maxRecord.
     seqE (readMutationSpoolSequence E) (\<lambda>found.
     let current = (case found of None \<Rightarrow> maxRecord | Some c \<Rightarrow> c) in
     if found \<noteq> None \<and> current < maxRecord
     then throw (local_io ''mutation outcome spool sequence moved backwards'')
     else if current = - 1
     then throw (local_io ''mutation outcome spool sequence is exhausted'')
     else seqE (writeMutationSpoolSequence E (current + 1)) (\<lambda>_. ret (current + 1))))))"

text \<open>\<open>json.Marshal\<close> refuses only a time outside the years 0 to 9999.\<close>

definition marshallable :: "safeAuditRecord \<Rightarrow> bool" where
  "marshallable r = (let n = gt_nanos (ev_Timestamp (ar_Event r))
     in - 31622400000000000 \<le> n \<and> n < 315537897600000000000)"

definition writeMutationSpoolRecord :: "'l audit_env \<Rightarrow> safeAuditRecord \<Rightarrow> ('l aud, unit) op" where
  "writeMutationSpoolRecord E r =
     seqE (guardE (marshallable r) (local_io ''failed to encode mutation outcome spool'')) (\<lambda>_.
     seqE (nextMutationSpoolSequence E) (\<lambda>sequence.
     writeTempAndCommit E (spoolRecordName sequence (auditRecordID r))
       (Content_Record (marshalled_record r)) ''mutation outcome spool''))"

section \<open>Reading and removing\<close>

definition maxMutationSpoolRecordSize :: nat where
  "maxMutationSpoolRecordSize = 1024 * 1024"

definition readMutationSpoolRecord :: "'l audit_env \<Rightarrow> string \<Rightarrow> ('l aud, safeAuditRecord) op" where
  "readMutationSpoolRecord E name =
     seqE (verifyMutationSpoolFile E name) (\<lambda>_.
     seqE (sys_io E ''failed to inspect mutation outcome spool file'') (\<lambda>_.
     seqE (sys_io E ''failed to open mutation outcome spool file'') (\<lambda>_.
     seqE (sys_io E ''mutation outcome spool file changed while opening'') (\<lambda>_.
     seqE (sys_io E ''failed to read mutation outcome spool file'') (\<lambda>_.
     seqE (getS (find_file name)) (\<lambda>file.
       case file of
         None \<Rightarrow> throw (local_io ''failed to open mutation outcome spool file'')
       | Some file \<Rightarrow>
           if maxMutationSpoolRecordSize < fst (contentText E (sf_content file))
           then throw (local_io ''failed to read mutation outcome spool file'')
           else seqE (liftE (case sf_content file of
                  Content_Record r \<Rightarrow> Inr r | Content_Text s \<Rightarrow> ae_decode E s)) (\<lambda>r.
                seqE (check (validateMutationSpoolRecord r name)) (\<lambda>_. ret r))))))))"

definition removeReplayedMutationSpool :: "'l audit_env \<Rightarrow> string \<Rightarrow> ('l aud, unit) op" where
  "removeReplayedMutationSpool E name =
     seqE (sys_io E ''failed to remove replayed mutation outcome spool'') (\<lambda>_.
     seqE (getS (find_file name)) (\<lambda>file.
     seqE (guardE (file \<noteq> None) (local_io ''failed to remove replayed mutation outcome spool'')) (\<lambda>_.
     seqE (modS (del_file name)) (\<lambda>_.
     syncMutationSpoolDirectory E))))"

definition markMutationSpoolIndeterminate :: "'l audit_env \<Rightarrow> string \<Rightarrow> ('l aud, unit) op" where
  "markMutationSpoolIndeterminate E name =
     seqE (tryE (commitMutationSpoolFile E name (name @ indeterminateSuffix)) (\<lambda>r.
       case r of Inl _ \<Rightarrow> throw (local_io ''failed to quarantine indeterminate mutation outcome spool'')
       | Inr _ \<Rightarrow> ret ())) (\<lambda>_.
     verifyMutationSpoolFile E (name @ indeterminateSuffix))"

section \<open>Appending and replaying\<close>

definition auditOptions :: "'l audit_env \<Rightarrow> cliFlags \<Rightarrow> int" where
  "auditOptions E f = (if fl_AuditMaxSize f \<le> 0 then ae_default_max_size E else fl_AuditMaxSize f)"

definition appendRecordWithResult ::
  "'l audit_env \<Rightarrow> cliFlags \<Rightarrow> safeAuditRecord \<Rightarrow> ('l aud, unit) op" where
  "appendRecordWithResult E f r a =
     (case ae_append E (auditOptions E f) r (au_log a) of (log, state, err) \<Rightarrow>
        (case err of None \<Rightarrow> Inr () | Some e \<Rightarrow> Inl (MutationAuditAppendError state e),
         a\<lparr>au_log := log\<rparr>))"

definition appendMutationAuditRecord ::
  "'l audit_env \<Rightarrow> cliFlags \<Rightarrow> safeAuditRecord \<Rightarrow> ('l aud, unit) op" where
  "appendMutationAuditRecord E f r =
     seqE (check (validateSafeAuditRecord r)) (\<lambda>_.
     seqE (verifyMutationAuditActivePath E True) (\<lambda>_.
     appendRecordWithResult E f r))"

definition handleMutationSpoolReplayAppendError ::
  "'l audit_env \<Rightarrow> string \<Rightarrow> safeAuditRecord \<Rightarrow> go_error \<Rightarrow> ('l aud, unit) op" where
  "handleMutationSpoolReplayAppendError E name r appendErr =
    (if mutationAuditCommitState appendErr = Some AppendCommitIndeterminate
     then tryE (markMutationSpoolIndeterminate E name) (\<lambda>marked.
       case marked of
         Inl _ \<Rightarrow> throw (auditIncompleteError (auditRecordID r) True)
       | Inr _ \<Rightarrow> throw (indeterminateMutationSpoolError (auditRecordID r)))
     else if \<not> mutationAuditAppendCommitted appendErr then throw appendErr
     else seqE (removeReplayedMutationSpool E name) (\<lambda>_. throw appendErr))"

text \<open>The names to replay, or the error of the first entry that stops the replay.\<close>

fun replayNames :: "(string \<times> spool_file) list \<Rightarrow> go_error + string list" where
  "replayNames [] = Inr []"
| "replayNames ((name, file) # entries) =
    (if name = lockFileName \<or> name = sequenceFileName then replayNames entries
     else if has_suffix name indeterminateSuffix
     then let pendingName = trim_suffix name indeterminateSuffix in
       if fi_dir (sf_info file) \<or> \<not> validMutationSpoolName pendingName then Inl unexpectedEntry
       else Inl (indeterminateMutationSpoolError (mutationIDFromSpoolName pendingName))
     else if fi_dir (sf_info file) \<or> \<not> validMutationSpoolName name then Inl unexpectedEntry
     else (case replayNames entries of Inl e \<Rightarrow> Inl e | Inr names \<Rightarrow> Inr (name # names)))"

fun checkSequences :: "string list \<Rightarrow> (64 word) list \<Rightarrow> 64 word \<Rightarrow> go_error + 64 word" where
  "checkSequences [] seen maxRecord = Inr maxRecord"
| "checkSequences (name # names) seen maxRecord =
    (case mutationSpoolNameSequence name of
       Inl _ \<Rightarrow> Inl (local_io ''invalid mutation outcome spool sequence'')
     | Inr sequence \<Rightarrow>
         if sequence = 0 then Inl (local_io ''invalid mutation outcome spool sequence'')
         else if sequence \<in> set seen then Inl (local_io ''duplicate mutation outcome spool sequence'')
         else checkSequences names (sequence # seen) (if maxRecord < sequence then sequence else maxRecord))"

definition validateMutationSpoolSequence :: "'l audit_env \<Rightarrow> string list \<Rightarrow> ('l aud, unit) op" where
  "validateMutationSpoolSequence E names =
     seqE (liftE (checkSequences names [] 0)) (\<lambda>maxRecord.
     seqE (readMutationSpoolSequence E) (\<lambda>found.
       case found of
         None \<Rightarrow> if names = [] then ret ()
                 else throw (local_io ''mutation outcome spool sequence is missing'')
       | Some current \<Rightarrow> guardE (\<not> current < maxRecord)
           (local_io ''mutation outcome spool sequence moved backwards'')))"

text \<open>The loop over the records in order, and one round of it.\<close>

definition replayOne :: "'l audit_env \<Rightarrow> cliFlags \<Rightarrow> string \<Rightarrow> ('l aud, unit) op" where
  "replayOne E f name =
     seqE (readMutationSpoolRecord E name) (\<lambda>r.
     tryE (appendMutationAuditRecord E f r) (\<lambda>appended.
       case appended of
         Inl e \<Rightarrow> handleMutationSpoolReplayAppendError E name r e
       | Inr _ \<Rightarrow> removeReplayedMutationSpool E name))"

fun replayLoop :: "'l audit_env \<Rightarrow> cliFlags \<Rightarrow> string list \<Rightarrow> ('l aud, unit) op" where
  "replayLoop E f [] = ret ()"
| "replayLoop E f (name # names) = seqE (replayOne E f name) (\<lambda>_. replayLoop E f names)"

definition replayMutationAuditSpoolLocked :: "'l audit_env \<Rightarrow> cliFlags \<Rightarrow> ('l aud, unit) op" where
  "replayMutationAuditSpoolLocked E f =
     seqE (sys_io E ''failed to inspect mutation outcome spool'') (\<lambda>_.
     seqE (getS au_spool_dir) (\<lambda>dir.
     if dir = None then ret ()
     else seqE (verifyMutationSpoolDirectory E) (\<lambda>_.
     seqE (sys_io E ''failed to list mutation outcome spool'') (\<lambda>_.
     seqE (getS readDir) (\<lambda>entries.
     seqE (liftE (replayNames entries)) (\<lambda>names.
     seqE (validateMutationSpoolSequence E (sort names)) (\<lambda>_.
     replayLoop E f (sort names))))))))"

end
