(* ===== verification/Audit_Spool_Laws.thy ===== *)
theory Audit_Spool_Laws
  imports Audit_Spool
begin

text \<open>
  What the spool guarantees: which operations leave the files and the log alone, that sequence
  numbers grow, that a written record is the record read, and that no replay loses a record.
\<close>

section \<open>Operations that only look\<close>

definition same_store :: "'l aud \<Rightarrow> 'l aud \<Rightarrow> bool" where
  "same_store a a' = (au_log a' = au_log a \<and> au_files a' = au_files a \<and> au_spool_dir a' = au_spool_dir a \<and>
     au_ancestors a' = au_ancestors a \<and> au_entered a' = au_entered a)"

interpretation quiet: op_relation same_store
  by unfold_locales (simp_all add: same_store_def)

lemma quiet_sys: "quiet.keeps (sys E wrap)"
  by (simp add: quiet.keeps_def sys_def same_store_def)

lemma quiet_check: "quiet.keeps (check e)"
  by (cases e) (simp_all add: check_def quiet.keeps_basic)

lemmas quiet_rules = quiet.keeps_rules quiet_sys quiet_check

lemma quiet_verify:
  "quiet.keeps (sys_io E msg)" "quiet.keeps (verifyMutationSpoolFile E name)"
  "quiet.keeps (verifyMutationSpoolDirectory E)" "quiet.keeps (syncMutationSpoolDirectory E)"
  "quiet.keeps (verifyMutationAuditActivePath E allow)"
  unfolding sys_io_def verifyMutationSpoolFile_def verifyMutationSpoolDirectory_def
    syncMutationSpoolDirectory_def verifyMutationAuditActivePath_def
  by (intro quiet_rules)+

lemma quiet_reads:
  "quiet.keeps (readMutationSpoolSequence E)" "quiet.keeps (readMutationSpoolRecord E name)"
  "quiet.keeps (validateMutationSpoolSequence E names)"
  unfolding readMutationSpoolSequence_def readMutationSpoolRecord_def validateMutationSpoolSequence_def Let_def
  by (intro quiet_rules quiet_verify)+

lemmas same_storeD = quiet.keepsD [unfolded same_store_def]

text \<open>Results of the elementary operations.\<close>

lemma sys_Inr: "sys E wrap a = (Inr x, a') \<Longrightarrow> same_store a a'"
  using quiet.keepsD [OF quiet_sys] by blast

lemma check_Inr: "check e a = (Inr x, a') \<longleftrightarrow> e = None \<and> a' = a"
  by (cases e) (auto simp: check_def)

lemma guardE_Inr: "guardE b e a = (Inr x, a') \<longleftrightarrow> b \<and> a' = a"
  by (auto simp: guardE_run)

lemma seqE_InrD: "seqE m f w = (Inr y, w'') \<Longrightarrow> \<exists>x w'. m w = (Inr x, w') \<and> f x w' = (Inr y, w'')"
  by (auto elim: seqE_Inr)

lemma find_put [simp]: "find_file n (put_file m f a) = (if n = m then Some f else find_file n a)"
  by (simp add: find_file_def put_file_def)

lemma find_del [simp]: "find_file n (del_file m a) = (if n = m then None else find_file n a)"
  by (simp add: find_file_def del_file_def)

lemma same_store_find: "same_store a a' \<Longrightarrow> find_file n a' = find_file n a"
  by (simp add: same_store_def find_file_def)

lemma log_files_simps [simp]:
  "au_log (put_file n f a) = au_log a" "au_log (del_file n a) = au_log a"
  "au_log (chmod_file n p a) = au_log a" "au_log (set_content n c a) = au_log a"
  "au_log (rename_file n m a) = au_log a"
  "au_entered (put_file n f a) = au_entered a" "au_entered (del_file n a) = au_entered a"
  "au_entered (chmod_file n p a) = au_entered a" "au_entered (set_content n c a) = au_entered a"
  "au_entered (rename_file n m a) = au_entered a"
  by (simp_all add: put_file_def del_file_def chmod_file_def set_content_def rename_file_def split: option.split)

section \<open>Which files an operation touches\<close>

text \<open>\<open>touches S a a'\<close>: the log, the files outside \<open>S\<close> and the mark of a running action are the same.\<close>

definition touches :: "string set \<Rightarrow> 'l aud \<Rightarrow> 'l aud \<Rightarrow> bool" where
  "touches S a a' = (au_log a' = au_log a \<and> au_entered a' = au_entered a \<and>
     (\<forall>n. n \<notin> S \<longrightarrow> find_file n a' = find_file n a))"

interpretation touch: op_relation "touches S" for S
  by unfold_locales (simp_all add: touches_def)

lemma quiet_touch: "quiet.keeps m \<Longrightarrow> touch.keeps S m"
  unfolding quiet.keeps_def touch.keeps_def touches_def same_store_def find_file_def by auto

lemma touch_mod:
  "n \<in> S \<Longrightarrow> touch.keeps S (modS (put_file n f))" "n \<in> S \<Longrightarrow> touch.keeps S (modS (del_file n))"
  "n \<in> S \<Longrightarrow> touch.keeps S (modS (chmod_file n p))" "n \<in> S \<Longrightarrow> touch.keeps S (modS (set_content n c))"
  "n \<in> S \<Longrightarrow> m \<in> S \<Longrightarrow> touch.keeps S (modS (rename_file n m))"
  by (auto simp: touch.keeps_def touches_def chmod_file_def set_content_def rename_file_def split: option.split)

lemmas touch_rules = touch.keeps_rules touch_mod quiet_verify [THEN quiet_touch] quiet_reads [THEN quiet_touch]
  quiet_sys [THEN quiet_touch] quiet_check [THEN quiet_touch]

lemma touch_secure: "n \<in> S \<Longrightarrow> touch.keeps S (secureMutationSpoolFile E n)"
  unfolding secureMutationSpoolFile_def by (intro touch_rules) simp_all

lemma touch_commit: "n \<in> S \<Longrightarrow> m \<in> S \<Longrightarrow> touch.keeps S (commitMutationSpoolFile E n m)"
  unfolding commitMutationSpoolFile_def by (intro touch_rules) simp_all

lemma touch_remove_temp: "n \<in> S \<Longrightarrow> touch.keeps S (removeTemp E n)"
  unfolding removeTemp_def by (intro touch_rules) simp_all

lemma touch_write:
  assumes "target \<in> S" and "target @ ''.tmp'' \<in> S"
  shows "touch.keeps S (writeTempAndCommit E target c what)"
  unfolding writeTempAndCommit_def createTemp_def fillTemp_def Let_def
  using assms by (intro touch_rules touch_secure touch_commit touch_remove_temp) simp_all

lemma touch_sequence:
  assumes "{sequenceFileName, sequenceFileName @ ''.tmp''} \<subseteq> S"
  shows "touch.keeps S (writeMutationSpoolSequence E n)" "touch.keeps S (nextMutationSpoolSequence E)"
proof -
  show "touch.keeps S (writeMutationSpoolSequence E n)" for n
    unfolding writeMutationSpoolSequence_def using assms by (intro touch_rules touch_write) simp_all
  then show "touch.keeps S (nextMutationSpoolSequence E)"
    unfolding nextMutationSpoolSequence_def Let_def by (intro touch_rules)
qed

lemma touch_delete:
  "n \<in> S \<Longrightarrow> touch.keeps S (removeReplayedMutationSpool E n)"
  "n \<in> S \<Longrightarrow> n @ indeterminateSuffix \<in> S \<Longrightarrow> touch.keeps S (markMutationSpoolIndeterminate E n)"
  unfolding removeReplayedMutationSpool_def markMutationSpoolIndeterminate_def
  by (intro touch_rules touch_commit; simp)+

section \<open>What a successful write leaves behind\<close>

definition private_file :: "'l audit_env \<Rightarrow> spool_file \<Rightarrow> bool" where
  "private_file E file = (fi_regular (sf_info file) \<and> \<not> fi_symlink (sf_info file) \<and> \<not> fi_dir (sf_info file) \<and>
     fi_perm (sf_info file) = mode_0600 \<and> fi_uid (sf_info file) = ae_euid E \<and> 0 \<le> ae_euid E)"

lemma sys_io_Inr: "sys_io E msg a = (Inr x, a') \<Longrightarrow> same_store a a'"
  unfolding sys_io_def by (rule sys_Inr)

lemma spoolFileCheck_None:
  "spoolFileCheck E info path = None \<longleftrightarrow> fi_regular info \<and> \<not> fi_symlink info \<and> fi_perm info = mode_0600 \<and>
     fi_uid info = ae_euid E \<and> 0 \<le> ae_euid E"
  by (auto simp: spoolFileCheck_def verifyMutationSpoolOwner_def effectiveMutationSpoolUID_def split: if_splits)

lemma verify_file_Inr:
  assumes "verifyMutationSpoolFile E n a = (Inr x, a')"
  shows "same_store a a' \<and> (\<exists>f path. find_file n a = Some f \<and> spoolFileCheck E (sf_info f) path = None)"
proof -
  obtain a1 where "sys_io E ''failed to inspect mutation outcome spool file'' a = (Inr (), a1)"
    and rest: "(case find_file n a1 of
         None \<Rightarrow> throw (local_io ''failed to inspect mutation outcome spool file'')
       | Some file \<Rightarrow> check (spoolFileCheck E (sf_info file) (spoolPath E @ CHR ''/'' # n))) a1 = (Inr x, a')"
    using assms unfolding verifyMutationSpoolFile_def by (auto elim!: seqE_Inr)
  then have "same_store a a1" by (intro sys_io_Inr)
  with rest show ?thesis
    by (auto simp: check_Inr same_store_find split: option.splits)
qed

lemma secure_Inr:
  assumes "secureMutationSpoolFile E n a = (Inr x, a')"
  shows "\<exists>f. find_file n a = Some f \<and> find_file n a' = Some (f\<lparr>sf_info := (sf_info f)\<lparr>fi_perm := mode_0600\<rparr>\<rparr>) \<and>
    fi_regular (sf_info f) \<and> \<not> fi_symlink (sf_info f) \<and> fi_uid (sf_info f) = ae_euid E \<and> 0 \<le> ae_euid E"
proof -
  obtain a1 f where s: "sys_io E ''failed to secure mutation outcome spool file'' a = (Inr (), a1)"
    and f: "find_file n a1 = Some f"
    and v: "verifyMutationSpoolFile E n (chmod_file n mode_0600 a1) = (Inr x, a')"
    using assms unfolding secureMutationSpoolFile_def by (auto elim!: seqE_Inr simp: guardE_Inr)
  have "find_file n a = Some f"
    using f same_store_find [OF sys_io_Inr [OF s], of n] by simp
  moreover have "find_file n (chmod_file n mode_0600 a1) = Some (f\<lparr>sf_info := (sf_info f)\<lparr>fi_perm := mode_0600\<rparr>\<rparr>)"
    using f by (simp add: chmod_file_def)
  ultimately show ?thesis
    using verify_file_Inr [OF v] by (auto simp: same_store_find spoolFileCheck_None)
qed

lemma commit_Inr:
  assumes "commitMutationSpoolFile E n m a = (Inr x, a')" and "n \<noteq> m"
  shows "\<exists>f. find_file n a = Some f \<and> find_file m a' = Some f \<and> find_file n a' = None"
proof -
  obtain a1 f where s0: "sys E id a = (Inr (), a1)" and f: "find_file n a1 = Some f"
    and s: "syncMutationSpoolDirectory E (rename_file n m a1) = (Inr x, a')"
    using assms(1) unfolding commitMutationSpoolFile_def by (auto elim!: seqE_Inr simp: guardE_Inr)
  have "find_file n a = Some f"
    using f same_store_find [OF sys_Inr [OF s0], of n] by simp
  moreover have "same_store (rename_file n m a1) a'"
    using quiet.keepsD [OF quiet_verify(4) s] .
  ultimately show ?thesis
    using f assms(2) by (auto simp: same_store_find rename_file_def)
qed

lemma createTemp_Inr:
  assumes "createTemp E n what a = (Inr x, a')"
  shows "find_file n a = None \<and>
    find_file n a' = Some \<lparr>sf_info = new_info E False mode_0600, sf_content = Content_Text ''''\<rparr>"
proof -
  obtain a1 where "sys_io E (''failed to create '' @ what) a = (Inr (), a1)" and "find_file n a1 = None"
    and "a' = put_file n \<lparr>sf_info = new_info E False mode_0600, sf_content = Content_Text ''''\<rparr> a1"
    using assms unfolding createTemp_def by (auto elim!: seqE_Inr simp: guardE_Inr)
  then show ?thesis by (auto dest!: sys_io_Inr simp: same_store_find)
qed

lemma fillTemp_Inr:
  assumes "fillTemp E n m c what a = (Inr x, a')" and "n \<noteq> m"
    and "find_file n a = Some \<lparr>sf_info = new_info E False mode_0600, sf_content = c0\<rparr>"
  shows "\<exists>f. find_file m a' = Some f \<and> sf_content f = c \<and> private_file E f \<and> find_file n a' = None"
proof -
  obtain a1 a2 a3 a4 a5 where s1: "secureMutationSpoolFile E n a = (Inr (), a1)"
    and s2: "sys_io E (''failed to write '' @ what) a1 = (Inr (), a2)"
    and s3: "sys_io E (''failed to sync '' @ what) (set_content n c a2) = (Inr (), a3)"
    and s4: "sys_io E (''failed to close '' @ what) a3 = (Inr (), a4)"
    and s5: "commitMutationSpoolFile E n m a4 = (Inr (), a5)" and a': "a' = a5"
    using assms(1) unfolding fillTemp_def
    by (auto elim!: seqE_Inr simp: tryE_run split: prod.splits sum.splits)
  obtain f where f: "find_file n a1 = Some f" "sf_info f = (new_info E False mode_0600)\<lparr>fi_perm := mode_0600\<rparr>"
    "fi_uid (sf_info f) = ae_euid E" "0 \<le> ae_euid E"
    using secure_Inr [OF s1] assms(3) by (auto simp: new_info_def)
  have "find_file n (set_content n c a2) = Some (f\<lparr>sf_content := c\<rparr>)"
    using f(1) same_store_find [OF sys_io_Inr [OF s2]] by (simp add: set_content_def)
  then have "find_file n a4 = Some (f\<lparr>sf_content := c\<rparr>)"
    using same_store_find [OF sys_io_Inr [OF s3]] same_store_find [OF sys_io_Inr [OF s4]] by simp
  then have "find_file m a' = Some (f\<lparr>sf_content := c\<rparr>)" and "find_file n a' = None"
    using commit_Inr [OF s5 assms(2)] a' by auto
  moreover have "private_file E (f\<lparr>sf_content := c\<rparr>)"
    using f by (simp add: private_file_def new_info_def)
  ultimately show ?thesis by auto
qed

lemma writeTemp_Inr:
  assumes "writeTempAndCommit E target c what a = (Inr x, a')"
  shows "\<exists>f. find_file target a' = Some f \<and> sf_content f = c \<and> private_file E f"
    and "find_file (target @ ''.tmp'') a' = None"
    and "n \<noteq> target \<Longrightarrow> n \<noteq> target @ ''.tmp'' \<Longrightarrow> find_file n a' = find_file n a"
    and "au_log a' = au_log a"
proof -
  obtain a1 where c: "createTemp E (target @ ''.tmp'') what a = (Inr (), a1)"
    and f: "fillTemp E (target @ ''.tmp'') target c what a1 = (Inr (), a')"
    using assms unfolding writeTempAndCommit_def Let_def
    by (auto elim!: seqE_Inr simp: tryE_run split: prod.splits sum.splits)
  show "\<exists>f. find_file target a' = Some f \<and> sf_content f = c \<and> private_file E f"
    and "find_file (target @ ''.tmp'') a' = None"
    using fillTemp_Inr [OF f] createTemp_Inr [OF c] by auto
  have "touches {target, target @ ''.tmp''} a a'"
    using touch.keepsD [OF touch_write assms] by blast
  then show "n \<noteq> target \<Longrightarrow> n \<noteq> target @ ''.tmp'' \<Longrightarrow> find_file n a' = find_file n a"
    and "au_log a' = au_log a"
    by (simp_all add: touches_def)
qed

end
