(* ===== verification/Audit_Queue.thy ===== *)
theory Audit_Queue
  imports Audit_Spool_Laws
begin

text \<open>
  The spool as a durable queue: sequence numbers only grow, a written record is read back, a replay
  loses nothing whatever fails, and a replay in which nothing fails appends every record once, in the
  order of the sequence numbers.
\<close>

section \<open>Sequence numbers grow\<close>

definition recordFile :: "string \<Rightarrow> bool" where
  "recordFile n = (n \<noteq> lockFileName \<and> n \<noteq> sequenceFileName)"

definition pendingName :: "string \<Rightarrow> string" where
  "pendingName n = trim_suffix n indeterminateSuffix"

lemma maxSpoolSequence_Cons:
  assumes "maxSpoolSequence ((n, file) # es) m = Inr k"
  shows "\<not> recordFile n \<and> maxSpoolSequence es m = Inr k \<or>
    (\<exists>s. recordFile n \<and> validMutationSpoolName (pendingName n) \<and> mutationSpoolNameSequence (pendingName n) = Inr s \<and>
      maxSpoolSequence es (max m s) = Inr k)"
proof (cases "recordFile n")
  case True
  then obtain s where "validMutationSpoolName (pendingName n)" "mutationSpoolNameSequence (pendingName n) = Inr s"
    "maxSpoolSequence es (if m < s then s else m) = Inr k"
    using assms by (auto simp: recordFile_def pendingName_def Let_def split: if_splits sum.splits)
  moreover have "(if m < s then s else m) = max m s" by (cases "m < s") (auto simp: max_def)
  ultimately show ?thesis using True by simp
qed (use assms in \<open>auto simp: recordFile_def\<close>)

lemma maxSpoolSequence_ge: "maxSpoolSequence es m = Inr k \<Longrightarrow> m \<le> k"
proof (induction es arbitrary: m)
  case (Cons e es)
  obtain n f where "e = (n, f)" by (cases e)
  with Cons.prems maxSpoolSequence_Cons [of n f es m k] Cons.IH
  consider "m \<le> k" | s where "max m s \<le> k" by blast
  then show ?case by cases (auto intro: order_trans [OF max.cobounded1])
qed simp

lemma maxSpoolSequence_Inr:
  assumes "maxSpoolSequence es m = Inr k" and "(n, file) \<in> set es" and "recordFile n"
  shows "validMutationSpoolName (pendingName n) \<and> (\<exists>s. mutationSpoolNameSequence (pendingName n) = Inr s \<and> s \<le> k)"
  using assms
proof (induction es arbitrary: m)
  case (Cons e es)
  obtain n' f' where e: "e = (n', f')" by (cases e)
  from maxSpoolSequence_Cons [OF Cons.prems(1) [unfolded e]] show ?case
  proof
    assume "\<not> recordFile n' \<and> maxSpoolSequence es m = Inr k"
    then show ?case using Cons e by auto
  next
    assume "\<exists>s. recordFile n' \<and> validMutationSpoolName (pendingName n') \<and>
      mutationSpoolNameSequence (pendingName n') = Inr s \<and> maxSpoolSequence es (max m s) = Inr k"
    then obtain s where s: "validMutationSpoolName (pendingName n')" "mutationSpoolNameSequence (pendingName n') = Inr s"
      "maxSpoolSequence es (max m s) = Inr k" by blast
    show ?case
    proof (cases "(n, file) \<in> set es")
      case True
      then show ?thesis using Cons.IH [OF s(3)] Cons.prems(3) by simp
    next
      case False
      then have "n = n'" using Cons.prems(2) e by simp
      then show ?thesis using s maxSpoolSequence_ge [OF s(3)] by auto
    qed
  qed
qed simp

lemma word_less_Suc:
  assumes "(c :: 64 word) \<noteq> - 1"
  shows "c < c + 1"
proof -
  have "uint c \<noteq> uint (- 1 :: 64 word)" using assms word_uint_eq_iff by blast
  moreover have "uint (- 1 :: 64 word) = 2 ^ 64 - 1"
    by (simp add: unsigned_minus_1_eq_mask mask_eq_exp_minus_1)
  ultimately have "uint c + 1 < 2 ^ 64"
    using unsigned_less [of c, where 'a = int] by simp
  then have "uint (c + 1) = uint c + 1"
    by (simp add: uint_word_ariths)
  then show ?thesis by (simp add: word_less_def)
qed

lemma readDir_find: "find_file n a = Some f \<Longrightarrow> (n, f) \<in> set (readDir a)"
  by (simp add: find_file_def readDir_def map_of_SomeD)

lemma writeSequence_Inr:
  assumes "writeMutationSpoolSequence E n a = (Inr x, a')"
  shows "\<exists>f. find_file sequenceFileName a' = Some f \<and> private_file E f \<and>
           sf_content f = Content_Text (show_nat (unat n) @ [CHR 0x0A])"
    and "find_file (sequenceFileName @ ''.tmp'') a' = None"
proof -
  obtain a1 where w: "writeTempAndCommit E sequenceFileName (Content_Text (show_nat (unat n) @ [CHR 0x0A]))
       ''mutation outcome spool sequence'' a = (Inr (), a1)"
    and v: "verifyMutationSpoolFile E sequenceFileName a1 = (Inr x, a')"
    using assms unfolding writeMutationSpoolSequence_def by (auto elim!: seqE_Inr)
  have "same_store a1 a'" using quiet.keepsD [OF quiet_verify(2) v] .
  then show "\<exists>f. find_file sequenceFileName a' = Some f \<and> private_file E f \<and>
           sf_content f = Content_Text (show_nat (unat n) @ [CHR 0x0A])"
    and "find_file (sequenceFileName @ ''.tmp'') a' = None"
    using writeTemp_Inr(1,2) [OF w] by (auto simp: same_store_find)
qed

lemma next_sequence_Inr:
  assumes "nextMutationSpoolSequence E a = (Inr n, a')"
  shows "find_file m a = Some file \<Longrightarrow> recordFile m \<Longrightarrow> validMutationSpoolName (pendingName m) \<and>
      (\<exists>s. mutationSpoolNameSequence (pendingName m) = Inr s \<and> s < n)"
    and "\<exists>f. find_file sequenceFileName a' = Some f \<and> private_file E f \<and>
           sf_content f = Content_Text (show_nat (unat n) @ [CHR 0x0A])"
    and "touches {sequenceFileName, sequenceFileName @ ''.tmp''} a a'"
    and "find_file (sequenceFileName @ ''.tmp'') a' = None"
proof -
  obtain a1 a2 mx found where s: "sys_io E ''failed to list mutation outcome spool for sequencing'' a = (Inr (), a1)"
    and mx: "maxSpoolSequence (readDir a1) 0 = Inr mx"
    and rd: "readMutationSpoolSequence E a1 = (Inr found, a2)"
    and cur: "mx \<le> (case found of None \<Rightarrow> mx | Some c \<Rightarrow> c)" "(case found of None \<Rightarrow> mx | Some c \<Rightarrow> c) \<noteq> - 1"
    and n: "n = (case found of None \<Rightarrow> mx | Some c \<Rightarrow> c) + 1"
    and w: "writeMutationSpoolSequence E n a2 = (Inr (), a')"
    using assms unfolding nextMutationSpoolSequence_def Let_def
    by (auto elim!: seqE_Inr split: if_splits option.splits simp: not_less)
  have lt: "mx < n"
    using le_less_trans [OF cur(1) word_less_Suc [OF cur(2)]] n by simp
  have same: "find_file m a1 = find_file m a" using same_store_find [OF sys_io_Inr [OF s]] .
  show "find_file m a = Some file \<Longrightarrow> recordFile m \<Longrightarrow> validMutationSpoolName (pendingName m) \<and>
      (\<exists>s. mutationSpoolNameSequence (pendingName m) = Inr s \<and> s < n)"
    using maxSpoolSequence_Inr [OF mx readDir_find] lt same by fastforce
  show "\<exists>f. find_file sequenceFileName a' = Some f \<and> private_file E f \<and>
           sf_content f = Content_Text (show_nat (unat n) @ [CHR 0x0A])"
    and "find_file (sequenceFileName @ ''.tmp'') a' = None"
    using writeSequence_Inr [OF w] by auto
  show "touches {sequenceFileName, sequenceFileName @ ''.tmp''} a a'"
    using touch.keepsD [OF touch_sequence(2) assms] by blast
qed

section \<open>Writing a record\<close>

definition no_faults_from :: "'l audit_env \<Rightarrow> nat \<Rightarrow> bool" where
  "no_faults_from E t = (\<forall>n \<ge> t. ae_fault E n = None)"

lemma recordName_facts:
  "\<not> has_suffix (sequenceFileName) ''.json''" "has_suffix (spoolRecordName s i) ''.json''"
  "\<not> has_suffix (n @ ''.tmp'') ''.json''"
  "\<not> has_suffix lockFileName ''.json''" "\<not> has_suffix (n @ ''.tmp'') indeterminateSuffix"
  by (simp_all add: has_suffix_def sequenceFileName_def lockFileName_def spoolRecordName_def suffix_def
      indeterminateSuffix_def append_eq_append_conv2)

lemma pendingName_idle: "has_suffix n ''.json'' \<Longrightarrow> pendingName n = n"
  by (auto simp: pendingName_def trim_suffix_def has_suffix_def indeterminateSuffix_def suffix_def
      append_eq_append_conv2)

lemma tmp_not_pending: "\<not> has_suffix (pendingName (n @ ''.tmp'')) ''.json''"
  unfolding pendingName_def trim_suffix_def using recordName_facts(3,5) by presburger

lemma write_record_Inr:
  assumes "writeMutationSpoolRecord E r a = (Inr x, a')"
  shows "\<exists>s f. find_file (spoolRecordName s (auditRecordID r)) a' = Some f \<and>
      sf_content f = Content_Record (marshalled_record r) \<and> private_file E f \<and>
      find_file (spoolRecordName s (auditRecordID r)) a = None \<and>
      (\<forall>m file. find_file m a = Some file \<longrightarrow> recordFile m \<longrightarrow>
         find_file m a' = Some file \<and> (\<exists>t. mutationSpoolNameSequence (pendingName m) = Inr t \<and> t < s)) \<and>
      au_log a' = au_log a"
proof -
  obtain s a1 where n: "nextMutationSpoolSequence E a = (Inr s, a1)"
    and w: "writeTempAndCommit E (spoolRecordName s (auditRecordID r))
       (Content_Record (marshalled_record r)) ''mutation outcome spool'' a1 = (Inr (), a')"
    using assms unfolding writeMutationSpoolRecord_def by (auto elim!: seqE_Inr simp: guardE_Inr)
  let ?n = "spoolRecordName s (auditRecordID r)"
  have rec: "recordFile ?n"
    using recordName_facts unfolding recordFile_def by metis
  have old: "validMutationSpoolName (pendingName m) \<and> (\<exists>t. mutationSpoolNameSequence (pendingName m) = Inr t \<and> t < s)"
    if "find_file m a = Some fl" "recordFile m" for m fl
    using next_sequence_Inr(1) [OF n that] .
  have fresh: "find_file ?n a = None"
    using old [of ?n] rec spoolRecordName_sequence [of s "auditRecordID r"]
      pendingName_idle [OF recordName_facts(2) [of s "auditRecordID r"]] by (cases "find_file ?n a") auto
  have "find_file m a' = Some fl" if m: "find_file m a = Some fl" "recordFile m" for m fl
  proof -
    have "validMutationSpoolName (pendingName m)" using old m by blast
    then have "has_suffix (pendingName m) ''.json''" by (simp only: validMutationSpoolName_def)
    then have "m \<noteq> p @ ''.tmp''" for p by (metis tmp_not_pending)
    moreover have "m \<noteq> ?n" using fresh m by auto
    ultimately have "find_file m a' = find_file m a1"
      using writeTemp_Inr(3) [OF w] by blast
    also have "\<dots> = find_file m a"
      using next_sequence_Inr(3) [OF n] m(2) \<open>\<And>p. m \<noteq> p @ ''.tmp''\<close>
      unfolding touches_def recordFile_def by blast
    finally show ?thesis using m(1) by simp
  qed
  moreover have "au_log a' = au_log a"
    using writeTemp_Inr(4) [OF w] next_sequence_Inr(3) [OF n] by (simp add: touches_def)
  ultimately show ?thesis
    using writeTemp_Inr(1) [OF w] fresh old by blast
qed

text \<open>Reading, when the system works.\<close>

lemma sys_ok: "no_faults_from E (au_tick a) \<Longrightarrow> sys E wrap a = (Inr (), a\<lparr>au_tick := Suc (au_tick a)\<rparr>)"
  by (simp add: sys_def no_faults_from_def)

lemma find_tick [simp]: "find_file n (a\<lparr>au_tick := t\<rparr>) = find_file n a"
  by (simp add: find_file_def)

lemma no_faults_later: "no_faults_from E t \<Longrightarrow> t \<le> u \<Longrightarrow> no_faults_from E u"
  by (simp add: no_faults_from_def)

lemma private_check: "private_file E f \<Longrightarrow> spoolFileCheck E (sf_info f) path = None"
  by (simp add: private_file_def spoolFileCheck_None)

lemma verify_file_ok:
  assumes "find_file n a = Some f" "private_file E f" "no_faults_from E (au_tick a)"
  shows "verifyMutationSpoolFile E n a = (Inr (), a\<lparr>au_tick := Suc (au_tick a)\<rparr>)"
  using assms by (simp add: verifyMutationSpoolFile_def seqE_run sys_io_def sys_ok private_check check_def)

lemma read_record_ok:
  assumes "find_file n a = Some f" "private_file E f" "sf_content f = Content_Record r"
    and "no_faults_from E (au_tick a)" and "validateMutationSpoolRecord r n = None"
    and "Suc (ae_json_len E r) \<le> maxMutationSpoolRecordSize"
  shows "readMutationSpoolRecord E n a = (Inr r, a\<lparr>au_tick := au_tick a + 5\<rparr>)"
proof -
  have "ae_fault E (au_tick a) = None" "ae_fault E (Suc (au_tick a)) = None" "ae_fault E (Suc (Suc (au_tick a))) = None"
    "ae_fault E (Suc (Suc (Suc (au_tick a)))) = None" "ae_fault E (Suc (Suc (Suc (Suc (au_tick a))))) = None"
    using assms(4) by (simp_all add: no_faults_from_def)
  then show ?thesis
    using assms
    by (simp add: readMutationSpoolRecord_def verify_file_ok seqE_run sys_io_def sys_def contentText_def check_def)
qed

text \<open>The write and the read are inverse: what is read is what \<open>json.Marshal\<close> keeps of the record.\<close>

lemma write_read:
  assumes "writeMutationSpoolRecord E r a = (Inr x, a')" and "no_faults_from E (au_tick a')"
    and "\<And>s. validateMutationSpoolRecord r (spoolRecordName s (auditRecordID r)) = None"
    and "Suc (ae_json_len E (marshalled_record r)) \<le> maxMutationSpoolRecordSize"
  shows "\<exists>s. fst (readMutationSpoolRecord E (spoolRecordName s (auditRecordID r)) a') = Inr (marshalled_record r)"
proof -
  obtain s f where "find_file (spoolRecordName s (auditRecordID r)) a' = Some f"
    "sf_content f = Content_Record (marshalled_record r)" "private_file E f"
    using write_record_Inr [OF assms(1)] by blast
  then show ?thesis
    using read_record_ok [OF _ _ _ assms(2) _ assms(4)] assms(3) by (intro exI [of _ s]) simp
qed

end
