(* ===== verification/Audit_Replay.thy ===== *)
theory Audit_Replay
  imports Audit_Queue
begin

text \<open>
  The replay of the spool. The append of the core library is not in this repository; what the replay
  relies on is its documented report of the commit state, \<open>append_contract\<close>, over an observation \<open>obs\<close>
  of the log as the list of records in it. Under any failures of the system no record leaves the
  spool without being in the log; with no failure the replay appends every record once, oldest first.
\<close>

section \<open>What an append reports\<close>

definition commit_effect ::
  "append_state \<Rightarrow> go_error option \<Rightarrow> 'r list \<Rightarrow> 'r list \<Rightarrow> 'r \<Rightarrow> bool" where
  "commit_effect state err before after m =
    (if err = None \<or> state = AppendCommitCommitted \<or> state = AppendCommitCommittedPostCommitError
     then after = before @ [m]
     else if state = AppendCommitNotCommitted then after = before
     else after = before \<or> after = before @ [m])"

definition append_contract :: "'l audit_env \<Rightarrow> ('l \<Rightarrow> safeAuditRecord list) \<Rightarrow> bool" where
  "append_contract E obs = (\<forall>size r l l' state err. ae_append E size r l = (l', state, err) \<longrightarrow>
     commit_effect state err (obs l) (obs l') (marshalled_record r))"

lemma append_result:
  assumes "append_contract E obs" and "appendRecordWithResult E f r a = (res, a')"
  shows "obs (au_log a') = obs (au_log a) \<or> obs (au_log a') = obs (au_log a) @ [marshalled_record r]"
    and "res = Inr () \<Longrightarrow> obs (au_log a') = obs (au_log a) @ [marshalled_record r]"
    and "res = Inl e \<Longrightarrow> mutationAuditAppendCommitted e \<Longrightarrow> obs (au_log a') = obs (au_log a) @ [marshalled_record r]"
    and "res = Inl e \<Longrightarrow> \<not> mutationAuditAppendMayExist e \<Longrightarrow> obs (au_log a') = obs (au_log a)"
    and "au_files a' = au_files a" and "au_spool_dir a' = au_spool_dir a"
proof -
  obtain l state err where app: "ae_append E (auditOptions E f) r (au_log a) = (l, state, err)"
    by (metis prod_cases3)
  then have c: "commit_effect state err (obs (au_log a)) (obs l) (marshalled_record r)"
    using assms(1) unfolding append_contract_def by blast
  have r: "res = (case err of None \<Rightarrow> Inr () | Some e \<Rightarrow> Inl (MutationAuditAppendError state e))"
    "a' = a\<lparr>au_log := l\<rparr>"
    using assms(2) app by (simp_all add: appendRecordWithResult_def)
  show "obs (au_log a') = obs (au_log a) \<or> obs (au_log a') = obs (au_log a) @ [marshalled_record r]"
    and "res = Inr () \<Longrightarrow> obs (au_log a') = obs (au_log a) @ [marshalled_record r]"
    and "res = Inl e \<Longrightarrow> mutationAuditAppendCommitted e \<Longrightarrow> obs (au_log a') = obs (au_log a) @ [marshalled_record r]"
    and "res = Inl e \<Longrightarrow> \<not> mutationAuditAppendMayExist e \<Longrightarrow> obs (au_log a') = obs (au_log a)"
    and "au_files a' = au_files a" and "au_spool_dir a' = au_spool_dir a"
    using c r by (auto simp: commit_effect_def mutationAuditAppendCommitted_def mutationAuditAppendMayExist_def
        split: option.splits if_splits)
qed

lemma appendRecord_cases:
  assumes "appendMutationAuditRecord E f r a = (res, a')"
  obtains e where "res = Inl e" "same_store a a'" "mutationAuditCommitState e = None"
  | a1 where "same_store a a1" "appendRecordWithResult E f r a1 = (res, a')"
  using assms unfolding appendMutationAuditRecord_def
proof (elim seqE_cases)
  fix e assume "check (validateSafeAuditRecord r) a = (Inl e, a')" "res = Inl e"
  then show thesis
    by (intro that(1) [of e]) (auto simp: check_def validateSafeAuditRecord_def same_store_def split: if_splits)
next
  fix x a1 e
  assume c: "check (validateSafeAuditRecord r) a = (Inr x, a1)"
    and v: "verifyMutationAuditActivePath E True a1 = (Inl e, a')" and "res = Inl e"
  have "same_store a a1" using c by (simp add: check_Inr same_store_def)
  moreover have "same_store a1 a'" using quiet.keepsD [OF quiet_verify(5) v] .
  moreover have "mutationAuditCommitState e = None"
    using v by (auto simp: verifyMutationAuditActivePath_def seqE_run sys_io_def sys_def local_io_def guardE_run
        split: prod.splits sum.splits option.splits if_splits)
  ultimately show thesis using \<open>res = Inl e\<close> that(1) quiet.R_trans by blast
next
  fix x a1 y a2
  assume c: "check (validateSafeAuditRecord r) a = (Inr x, a1)"
    and v: "verifyMutationAuditActivePath E True a1 = (Inr y, a2)"
    and app: "appendRecordWithResult E f r a2 = (res, a')"
  have "same_store a a1" using c by (simp add: check_Inr same_store_def)
  then have "same_store a a2" using quiet.keepsD [OF quiet_verify(5) v] quiet.R_trans by blast
  then show thesis using app by (rule that(2))
qed

lemma append_record:
  assumes "append_contract E obs" and "appendMutationAuditRecord E f r a = (res, a')"
  shows "obs (au_log a') = obs (au_log a) \<or> obs (au_log a') = obs (au_log a) @ [marshalled_record r]"
    and "res = Inr () \<Longrightarrow> obs (au_log a') = obs (au_log a) @ [marshalled_record r]"
    and "res = Inl e \<Longrightarrow> mutationAuditAppendCommitted e \<Longrightarrow> obs (au_log a') = obs (au_log a) @ [marshalled_record r]"
    and "res = Inl e \<Longrightarrow> \<not> mutationAuditAppendMayExist e \<Longrightarrow> obs (au_log a') = obs (au_log a)"
    and "find_file n a' = find_file n a" and "au_spool_dir a' = au_spool_dir a"
proof -
  let ?goal = "(obs (au_log a') = obs (au_log a) \<or> obs (au_log a') = obs (au_log a) @ [marshalled_record r]) \<and>
    (res = Inr () \<longrightarrow> obs (au_log a') = obs (au_log a) @ [marshalled_record r]) \<and>
    (\<forall>e. res = Inl e \<longrightarrow> mutationAuditAppendCommitted e \<longrightarrow> obs (au_log a') = obs (au_log a) @ [marshalled_record r]) \<and>
    (\<forall>e. res = Inl e \<longrightarrow> \<not> mutationAuditAppendMayExist e \<longrightarrow> obs (au_log a') = obs (au_log a)) \<and>
    find_file n a' = find_file n a \<and> au_spool_dir a' = au_spool_dir a"
  have ?goal
  proof (rule appendRecord_cases [OF assms(2)])
    fix e assume "res = Inl e" "same_store a a'" "mutationAuditCommitState e = None"
    then show ?goal
      by (simp add: same_store_def find_file_def mutationAuditAppendCommitted_def)
  next
    fix a1 assume s: "same_store a a1" and app: "appendRecordWithResult E f r a1 = (res, a')"
    have same: "au_log a1 = au_log a" "au_files a1 = au_files a" "au_spool_dir a1 = au_spool_dir a"
      using s by (simp_all add: same_store_def)
    note results = append_result [OF assms(1) app, unfolded same]
    show ?goal
      using results(1,2) results(3,4) [of e for e] results(5,6) unfolding find_file_def by auto
  qed
  then show "obs (au_log a') = obs (au_log a) \<or> obs (au_log a') = obs (au_log a) @ [marshalled_record r]"
    and "res = Inr () \<Longrightarrow> obs (au_log a') = obs (au_log a) @ [marshalled_record r]"
    and "res = Inl e \<Longrightarrow> mutationAuditAppendCommitted e \<Longrightarrow> obs (au_log a') = obs (au_log a) @ [marshalled_record r]"
    and "res = Inl e \<Longrightarrow> \<not> mutationAuditAppendMayExist e \<Longrightarrow> obs (au_log a') = obs (au_log a)"
    and "find_file n a' = find_file n a" and "au_spool_dir a' = au_spool_dir a"
    by blast+
qed

section \<open>No replay loses a record\<close>

text \<open>\<open>spooled a m\<close>: a file of the spool holds the record \<open>m\<close>; \<open>accounted\<close>: the log or the spool holds it.\<close>

definition spooled :: "'l aud \<Rightarrow> safeAuditRecord \<Rightarrow> bool" where
  "spooled a m = (\<exists>n f r. find_file n a = Some f \<and> validMutationSpoolName (pendingName n) \<and>
     sf_content f = Content_Record r \<and> marshalled_record r = m)"

definition accounted :: "('l \<Rightarrow> safeAuditRecord list) \<Rightarrow> safeAuditRecord \<Rightarrow> 'l aud \<Rightarrow> bool" where
  "accounted obs m a = (m \<in> set (obs (au_log a)) \<or> spooled a m)"

definition no_quarantine :: "'l aud \<Rightarrow> bool" where
  "no_quarantine a = (\<forall>n. has_suffix n indeterminateSuffix \<longrightarrow> find_file n a = None)"

lemma same_accounted: "same_store a a' \<Longrightarrow> accounted obs m a \<Longrightarrow> accounted obs m a'"
  by (simp add: accounted_def spooled_def same_store_find) (simp add: same_store_def)

lemma same_quarantine: "same_store a a' \<Longrightarrow> no_quarantine a \<Longrightarrow> no_quarantine a'"
  by (simp add: no_quarantine_def same_store_find)

lemma remove_cases:
  assumes "removeReplayedMutationSpool E n a = (res, a')"
  shows "same_store a a' \<or> (\<exists>a1. same_store a a1 \<and> same_store (del_file n a1) a')"
  using assms unfolding removeReplayedMutationSpool_def
  by (elim seqE_cases)
    (auto simp: guardE_run sys_io_def dest!: quiet.keepsD [OF quiet_sys] quiet.keepsD [OF quiet_verify(4)] split: if_splits)

lemma commit_cases:
  assumes "commitMutationSpoolFile E n m a = (res, a')"
  shows "same_store a a' \<or> (\<exists>a1. same_store a a1 \<and> same_store (rename_file n m a1) a')"
  using assms unfolding commitMutationSpoolFile_def
  by (elim seqE_cases)
    (auto simp: guardE_run dest!: quiet.keepsD [OF quiet_sys] quiet.keepsD [OF quiet_verify(4)] split: if_splits)

lemma mark_cases:
  assumes "markMutationSpoolIndeterminate E n a = (res, a')"
  shows "same_store a a' \<or> (\<exists>a1. same_store a a1 \<and> same_store (rename_file n (n @ indeterminateSuffix) a1) a')"
proof -
  obtain r1 a1 where c: "commitMutationSpoolFile E n (n @ indeterminateSuffix) a = (r1, a1)"
    by (metis surj_pair)
  then have "same_store a1 a'"
    using assms unfolding markMutationSpoolIndeterminate_def
    by (auto simp: seqE_run tryE_run same_store_def split: sum.splits prod.splits
        dest!: quiet.keepsD [OF quiet_verify(2), unfolded same_store_def])
  then show ?thesis using commit_cases [OF c] quiet.R_trans by blast
qed

lemma read_content:
  assumes "readMutationSpoolRecord E n a = (Inr r, a')"
  shows "same_store a a'" and "\<exists>f. find_file n a = Some f \<and> (\<forall>r'. sf_content f = Content_Record r' \<longrightarrow> r' = r)"
    and "validateMutationSpoolRecord r n = None"
proof -
  show same: "same_store a a'" using quiet.keepsD [OF quiet_reads(2) assms] .
  obtain a1 f a2 where "find_file n a1 = Some f" and s: "same_store a a1"
    and "(case sf_content f of Content_Record r \<Rightarrow> Inr r | Content_Text s \<Rightarrow> ae_decode E s) = Inr r"
    and "check (validateMutationSpoolRecord r n) a1 = (Inr (), a2)"
    using assms unfolding readMutationSpoolRecord_def
    by (auto elim!: seqE_Inr split: option.splits if_splits dest!: sys_io_Inr quiet.keepsD [OF quiet_verify(2)])
      (meson quiet.R_trans)
  then show "\<exists>f. find_file n a = Some f \<and> (\<forall>r'. sf_content f = Content_Record r' \<longrightarrow> r' = r)"
    and "validateMutationSpoolRecord r n = None"
    by (auto simp: same_store_find check_Inr)
qed

lemma spooledI:
  "find_file n a = Some f \<Longrightarrow> validMutationSpoolName (pendingName n) \<Longrightarrow> sf_content f = Content_Record r \<Longrightarrow>
   spooled a (marshalled_record r)"
  unfolding spooled_def by blast

lemma delete_accounted:
  assumes "accounted obs m a"
    and "\<And>f r. find_file n a = Some f \<Longrightarrow> sf_content f = Content_Record r \<Longrightarrow> marshalled_record r \<in> set (obs (au_log a))"
  shows "accounted obs m (del_file n a)"
proof (cases "m \<in> set (obs (au_log a))")
  case False
  then obtain n0 f r where f: "find_file n0 a = Some f" "validMutationSpoolName (pendingName n0)" "sf_content f = Content_Record r"
    "m = marshalled_record r"
    using assms(1) unfolding accounted_def spooled_def by blast
  then have "n0 \<noteq> n" using assms(2) False by blast
  then show ?thesis
    using spooledI [of n0 "del_file n a" f r] f unfolding accounted_def by simp
qed (simp add: accounted_def)

lemma indeterminate_recordFile: "has_suffix n indeterminateSuffix \<Longrightarrow> recordFile n"
  by (auto simp: recordFile_def lockFileName_def sequenceFileName_def has_suffix_def
      suffix_def indeterminateSuffix_def append_eq_append_conv2)

lemma pendingName_suffix: "pendingName (n @ indeterminateSuffix) = n"
  by (simp add: pendingName_def)

lemma rename_accounted:
  assumes "accounted obs m a" and "no_quarantine a" and n2: "n2 = n @ indeterminateSuffix"
  shows "accounted obs m (rename_file n n2 a)"
proof (cases "m \<in> set (obs (au_log a)) \<or> find_file n a = None")
  case True
  then show ?thesis
  proof
    assume "find_file n a = None"
    then show ?thesis using assms(1) by (simp add: rename_file_def)
  qed (simp add: accounted_def)
next
  case False
  then obtain g n0 f r where g: "find_file n a = Some g" and f: "find_file n0 a = Some f" "validMutationSpoolName (pendingName n0)"
    "sf_content f = Content_Record r" "m = marshalled_record r"
    using assms(1) unfolding accounted_def spooled_def by blast
  have "find_file n2 a = None" using assms(2) by (simp add: no_quarantine_def n2)
  then have "n0 \<noteq> n2" using f(1) by auto
  have plain: "pendingName n = n" if "find_file n a = Some g"
    using assms(2) that unfolding no_quarantine_def pendingName_def trim_suffix_def by (metis option.distinct(1))
  show ?thesis
  proof (cases "n0 = n")
    case True
    then show ?thesis
      using spooledI [of n2 "rename_file n n2 a" f r] pendingName_suffix [of n] plain [OF g] f g
      unfolding accounted_def by (simp add: rename_file_def n2)
  next
    case False
    then show ?thesis
      using spooledI [of n0 "rename_file n n2 a" f r] f g \<open>n0 \<noteq> n2\<close>
      unfolding accounted_def by (simp add: rename_file_def)
  qed
qed

lemma delete_quarantine: "no_quarantine a \<Longrightarrow> no_quarantine (del_file n a)"
  by (simp add: no_quarantine_def)

lemma replayOne_keeps:
  assumes "append_contract E obs" and "replayOne E f n a = (res, a')" and "no_quarantine a"
  shows "accounted obs m a \<Longrightarrow> accounted obs m a'" and "res = Inr () \<Longrightarrow> no_quarantine a'"
proof -
  have "(accounted obs m a \<longrightarrow> accounted obs m a') \<and> (res = Inr () \<longrightarrow> no_quarantine a')"
    using assms(2) unfolding replayOne_def
  proof (cases rule: seqE_cases)
    case (1 e)
    then show ?thesis
      using quiet.keepsD [OF quiet_reads(2)] same_accounted by blast
  next
    case (2 r a1)
    note read = read_content [OF 2(1)]
    obtain res2 a2 where app: "appendMutationAuditRecord E f r a1 = (res2, a2)" by (metis surj_pair)
    have log2: "m \<in> set (obs (au_log a1)) \<Longrightarrow> m \<in> set (obs (au_log a2))"
      using append_record(1) [OF assms(1) app] by auto
    have acc2: "accounted obs m a2" if "accounted obs m a"
      using same_accounted [OF read(1) that] log2 append_record(5) [OF assms(1) app]
      by (auto simp: accounted_def spooled_def)
    have quar2: "no_quarantine a2"
      using same_quarantine [OF read(1) assms(3)] append_record(5) [OF assms(1) app] by (simp add: no_quarantine_def)
    have file2: "\<And>f r'. find_file n a2 = Some f \<Longrightarrow> sf_content f = Content_Record r' \<Longrightarrow> r' = r"
      using read(2) same_store_find [OF read(1)] append_record(5) [OF assms(1) app] by fastforce
    have removed: "(accounted obs m a \<longrightarrow> accounted obs m a'') \<and> no_quarantine a''"
      if rm: "removeReplayedMutationSpool E n a2 = (res'', a'')" and inlog: "marshalled_record r \<in> set (obs (au_log a2))"
      for res'' a''
    proof -
      have "same_store a2 a'' \<or> (\<exists>a3. same_store a2 a3 \<and> same_store (del_file n a3) a'')"
        by (rule remove_cases [OF rm])
      then show ?thesis
      proof (elim disjE exE conjE)
        assume "same_store a2 a''"
        then show ?thesis using acc2 quar2 same_accounted same_quarantine by blast
      next
        fix a3 assume s: "same_store a2 a3" "same_store (del_file n a3) a''"
        have "accounted obs m (del_file n a3)" if "accounted obs m a"
          using same_accounted [OF s(1) acc2 [OF that]]
        proof (rule delete_accounted)
          fix f0 r0 assume "find_file n a3 = Some f0" "sf_content f0 = Content_Record r0"
          then have "r0 = r" using file2 same_store_find [OF s(1)] by metis
          moreover have "au_log a3 = au_log a2" using s(1) by (simp add: same_store_def)
          ultimately show "marshalled_record r0 \<in> set (obs (au_log a3))" using inlog by simp
        qed
        moreover have "no_quarantine (del_file n a3)"
          using delete_quarantine same_quarantine [OF s(1) quar2] .
        ultimately show ?thesis using same_accounted [OF s(2)] same_quarantine [OF s(2)] by blast
      qed
    qed
    show ?thesis
    proof (cases res2)
      case (Inr u)
      then have "removeReplayedMutationSpool E n a2 = (res, a')"
        using 2(2) app by (simp add: tryE_run)
      then show ?thesis using removed append_record(2) [OF assms(1) app] Inr by fastforce
    next
      case (Inl e)
      then have h: "handleMutationSpoolReplayAppendError E n r e a2 = (res, a')"
        using 2(2) app by (simp add: tryE_run)
      show ?thesis
      proof (cases "mutationAuditCommitState e = Some AppendCommitIndeterminate")
        case True
        then obtain r3 a3 where mk: "markMutationSpoolIndeterminate E n a2 = (r3, a3)" and "a' = a3" and "\<exists>e. res = Inl e"
          using h by (auto simp: handleMutationSpoolReplayAppendError_def tryE_run split: prod.splits sum.splits)
        have "accounted obs m a3" if "accounted obs m a"
        proof -
          have "same_store a2 a3 \<or> (\<exists>a4. same_store a2 a4 \<and> same_store (rename_file n (n @ indeterminateSuffix) a4) a3)"
            by (rule mark_cases [OF mk])
          then show ?thesis
            using acc2 [OF that] quar2 same_accounted same_quarantine rename_accounted by metis
        qed
        then show ?thesis using \<open>a' = a3\<close> \<open>\<exists>e. res = Inl e\<close> by auto
      next
        case False
        show ?thesis
        proof (cases "mutationAuditAppendCommitted e")
          case True
          then have "\<exists>r3 a3. removeReplayedMutationSpool E n a2 = (r3, a3) \<and> a' = a3 \<and> (\<exists>e. res = Inl e)"
            using h False by (auto simp: handleMutationSpoolReplayAppendError_def seqE_run split: prod.splits sum.splits)
          then show ?thesis using removed append_record(3) [OF assms(1) app Inl True] by fastforce
        next
          case c: False
          then have "a' = a2" and "res = Inl e"
            using h False by (simp_all add: handleMutationSpoolReplayAppendError_def)
          then show ?thesis using acc2 by simp
        qed
      qed
    qed
  qed
  then show "accounted obs m a \<Longrightarrow> accounted obs m a'" and "res = Inr () \<Longrightarrow> no_quarantine a'" by auto
qed

lemma replayLoop_keeps:
  assumes "append_contract E obs"
  shows "no_quarantine a \<Longrightarrow> accounted obs m a \<Longrightarrow> accounted obs m (snd (replayLoop E f names a))"
proof (induction names arbitrary: a)
  case (Cons n names)
  obtain res a' where one: "replayOne E f n a = (res, a')" by (metis surj_pair)
  note keep = replayOne_keeps [OF assms one Cons.prems(1)]
  show ?case
  proof (cases res)
    case (Inl e)
    then show ?thesis using one keep(1) Cons.prems(2) unfolding replayLoop.simps(2) by (simp add: seqE_run)
  next
    case (Inr u)
    then show ?thesis using one keep Cons.IH [of a'] Cons.prems(2) unfolding replayLoop.simps(2) by (simp add: seqE_run)
  qed
qed simp

text \<open>The replay as a whole; it stops before it appends anything when a quarantined file is present.\<close>

lemma replayNames_no_quarantine:
  "replayNames es = Inr names \<Longrightarrow> (n, f) \<in> set es \<Longrightarrow> has_suffix n indeterminateSuffix \<Longrightarrow> n \<in> {lockFileName, sequenceFileName}"
  by (induction es arbitrary: names) (auto split: if_splits sum.splits prod.splits simp: Let_def)

lemma replayNames_clean:
  assumes "replayNames (readDir a) = Inr names"
  shows "no_quarantine a"
proof (unfold no_quarantine_def, intro allI impI)
  fix n assume n: "has_suffix n indeterminateSuffix"
  then have "recordFile n" by (rule indeterminate_recordFile)
  then show "find_file n a = None"
    using replayNames_no_quarantine [OF assms readDir_find n] by (cases "find_file n a") (auto simp: recordFile_def)
qed

lemma same_readDir: "same_store a a' \<Longrightarrow> readDir a' = readDir a"
  by (simp add: same_store_def readDir_def)

lemma replay_Inr:
  assumes "replayMutationAuditSpoolLocked E f a = (Inr x, a')"
  shows "au_spool_dir a = None \<or> (\<exists>names. replayNames (readDir a) = Inr names)"
proof -
  obtain a1 where s: "sys_io E ''failed to inspect mutation outcome spool'' a = (Inr (), a1)"
    and rest: "au_spool_dir a1 \<noteq> None \<Longrightarrow> \<exists>a2 a3 names. verifyMutationSpoolDirectory E a1 = (Inr (), a2) \<and>
      sys_io E ''failed to list mutation outcome spool'' a2 = (Inr (), a3) \<and> replayNames (readDir a3) = Inr names"
    using assms unfolding replayMutationAuditSpoolLocked_def by (auto elim!: seqE_Inr split: if_splits)
  have s1: "same_store a a1" using sys_io_Inr [OF s] .
  show ?thesis
  proof (cases "au_spool_dir a = None")
    case False
    then have "au_spool_dir a1 \<noteq> None" using s1 by (simp add: same_store_def)
    then obtain a2 a3 names where "verifyMutationSpoolDirectory E a1 = (Inr (), a2)"
      "sys_io E ''failed to list mutation outcome spool'' a2 = (Inr (), a3)" "replayNames (readDir a3) = Inr names"
      using rest by blast
    moreover from this have "readDir a3 = readDir a"
      using s1 same_readDir quiet.keepsD [OF quiet_verify(3)] sys_io_Inr by metis
    ultimately show ?thesis by auto
  qed simp
qed

lemma replay_cases:
  assumes "replayMutationAuditSpoolLocked E f a = (res, a')"
  shows "same_store a a' \<or>
    (\<exists>a1 names. same_store a a1 \<and> replayNames (readDir a) = Inr names \<and> no_quarantine a1 \<and>
       replayLoop E f (sort names) a1 = (res, a'))"
proof -
  have dirs: "readDir a2 = readDir a1" if "same_store a1 a2" for a1 a2 :: "'a aud"
    using that by (simp add: same_store_def readDir_def)
  note quiets = quiet.keepsD [OF quiet_verify(1)] quiet.keepsD [OF quiet_verify(3)] quiet.keepsD [OF quiet_reads(3)]
  note trans = quiet.R_trans
  consider "same_store a a'" | a1 a2 names where "same_store a a1" "replayNames (readDir a1) = Inr names"
      "same_store a1 a2" "replayLoop E f (sort names) a2 = (res, a')"
    using assms unfolding replayMutationAuditSpoolLocked_def
    by (elim seqE_cases; simp split: if_splits; (elim seqE_cases)?; simp?; (meson quiets trans)?)
  then show ?thesis
  proof cases
    case 2
    have "no_quarantine a2" using replayNames_clean [OF 2(2)] same_quarantine [OF 2(3)] by blast
    then show ?thesis using 2 dirs [OF 2(1)] trans [OF 2(1,3)] by auto
  qed simp
qed

lemma replay_accounted:
  assumes "append_contract E obs" and "accounted obs m a"
  shows "accounted obs m (snd (replayMutationAuditSpoolLocked E f a))"
proof -
  obtain res a' where r: "replayMutationAuditSpoolLocked E f a = (res, a')" by (metis surj_pair)
  from replay_cases [OF r] have "accounted obs m a'"
  proof (elim disjE exE conjE)
    assume "same_store a a'"
    then show ?thesis using assms(2) same_accounted by blast
  next
    fix a1 names
    assume s: "same_store a a1" "no_quarantine a1" and loop: "replayLoop E f (sort names) a1 = (res, a')"
    have "accounted obs m a1" using same_accounted [OF s(1) assms(2)] .
    then show ?thesis using replayLoop_keeps [OF assms(1) s(2), of m f "sort names"] loop by simp
  qed
  then show ?thesis using r by simp
qed

lemma quarantine_stops:
  assumes "find_file n a = Some g" and "has_suffix n indeterminateSuffix" and "au_spool_dir a \<noteq> None"
  shows "\<exists>e a'. replayMutationAuditSpoolLocked E f a = (Inl e, a') \<and> same_store a a'"
proof -
  obtain res a' where r: "replayMutationAuditSpoolLocked E f a = (res, a')" by (metis surj_pair)
  have "\<not> no_quarantine a" using assms(1,2) by (auto simp: no_quarantine_def)
  then have "replayNames (readDir a) \<noteq> Inr names" for names
    using replayNames_clean by blast
  then show ?thesis
    using replay_cases [OF r] replay_Inr [of E f a _ a'] r assms(3) by (cases res) auto
qed

section \<open>A replay without failures\<close>

definition log_works :: "'l audit_env \<Rightarrow> ('l \<Rightarrow> safeAuditRecord list) \<Rightarrow> bool" where
  "log_works E obs = ((\<forall>size r l. \<exists>l'. ae_append E size r l = (l', AppendCommitCommitted, None) \<and>
       obs l' = obs l @ [marshalled_record r]) \<and>
     (\<forall>l info. ae_log_info E l = Some info \<longrightarrow> fi_regular info \<and> \<not> fi_symlink info))"

definition replayable :: "'l audit_env \<Rightarrow> 'l aud \<Rightarrow> string \<Rightarrow> safeAuditRecord \<Rightarrow> bool" where
  "replayable E a n r = (\<exists>f. find_file n a = Some f \<and> private_file E f \<and> sf_content f = Content_Record r \<and>
     validateMutationSpoolRecord r n = None \<and> Suc (ae_json_len E r) \<le> maxMutationSpoolRecordSize)"

lemma append_ok:
  assumes "log_works E obs" and "no_faults_from E (au_tick a)" and "validateSafeAuditRecord r = None"
  shows "\<exists>l. appendMutationAuditRecord E f r a = (Inr (), a\<lparr>au_tick := Suc (au_tick a), au_log := l\<rparr>) \<and>
    obs l = obs (au_log a) @ [marshalled_record r]"
proof -
  obtain l where "ae_append E (auditOptions E f) r (au_log a) = (l, AppendCommitCommitted, None)"
    "obs l = obs (au_log a) @ [marshalled_record r]"
    using assms(1) unfolding log_works_def by blast
  moreover have "verifyMutationAuditActivePath E True a = (Inr (), a\<lparr>au_tick := Suc (au_tick a)\<rparr>)"
    using assms(1,2) by (auto simp: verifyMutationAuditActivePath_def seqE_run sys_io_def sys_ok guardE_run
        log_works_def split: option.split)
  ultimately show ?thesis
    using assms(3)
    by (intro exI [of _ l]) (simp add: appendMutationAuditRecord_def seqE_run check_def appendRecordWithResult_def)
qed

lemma remove_ok:
  assumes "find_file n a = Some f" and "no_faults_from E (au_tick a)"
  shows "\<exists>t \<ge> au_tick a. removeReplayedMutationSpool E n a = (Inr (), (del_file n a)\<lparr>au_tick := t\<rparr>)"
proof -
  have "ae_fault E (au_tick a) = None" "ae_fault E (Suc (au_tick a)) = None" "ae_fault E (Suc (Suc (au_tick a))) = None"
    using assms(2) by (simp_all add: no_faults_from_def)
  then show ?thesis
    using assms(1)
    by (intro exI [of _ "Suc (Suc (Suc (au_tick a)))"])
      (simp add: removeReplayedMutationSpool_def syncMutationSpoolDirectory_def seqE_run sys_io_def sys_def guardE_run
        del_file_def find_file_def)
qed

lemma validate_safe: "validateMutationSpoolRecord r n = None \<Longrightarrow> validateSafeAuditRecord r = None"
  by (auto simp: validateMutationSpoolRecord_def split: if_splits)

lemma replayOne_ok:
  assumes "log_works E obs" and "no_faults_from E (au_tick a)" and "replayable E a n r"
  shows "\<exists>a'. replayOne E f n a = (Inr (), a') \<and> au_tick a \<le> au_tick a' \<and>
    obs (au_log a') = obs (au_log a) @ [marshalled_record r] \<and>
    (\<forall>m. find_file m a' = (if m = n then None else find_file m a))"
proof -
  obtain g where g: "find_file n a = Some g" "private_file E g" "sf_content g = Content_Record r"
    "validateMutationSpoolRecord r n = None" "Suc (ae_json_len E r) \<le> maxMutationSpoolRecordSize"
    using assms(3) unfolding replayable_def by blast
  let ?a1 = "a\<lparr>au_tick := au_tick a + 5\<rparr>"
  have read: "readMutationSpoolRecord E n a = (Inr r, ?a1)" using read_record_ok [OF g(1-3) assms(2) g(4,5)] .
  obtain l where app: "appendMutationAuditRecord E f r ?a1 = (Inr (), ?a1\<lparr>au_tick := Suc (au_tick ?a1), au_log := l\<rparr>)"
    and l: "obs l = obs (au_log a) @ [marshalled_record r]"
    using append_ok [OF assms(1) _ validate_safe [OF g(4)], of ?a1 f] no_faults_later [OF assms(2)] by auto
  let ?a2 = "?a1\<lparr>au_tick := Suc (au_tick ?a1), au_log := l\<rparr>"
  have "find_file n ?a2 = Some g" using g(1) by (simp add: find_file_def)
  moreover have "no_faults_from E (au_tick ?a2)" by (rule no_faults_later [OF assms(2)]) simp
  ultimately obtain t where t: "au_tick ?a2 \<le> t"
    and rm: "removeReplayedMutationSpool E n ?a2 = (Inr (), (del_file n ?a2)\<lparr>au_tick := t\<rparr>)"
    using remove_ok by blast
  have "replayOne E f n a = (Inr (), (del_file n ?a2)\<lparr>au_tick := t\<rparr>)"
    using read app rm by (simp add: replayOne_def seqE_run tryE_run)
  then show ?thesis
    using l t by (intro exI [of _ "(del_file n ?a2)\<lparr>au_tick := t\<rparr>"]) (auto simp: find_file_def del_file_def)
qed

lemma replayLoop_ok:
  assumes "log_works E obs"
  shows "no_faults_from E (au_tick a) \<Longrightarrow> distinct names \<Longrightarrow> (\<And>n. n \<in> set names \<Longrightarrow> replayable E a n (rec n)) \<Longrightarrow>
    \<exists>a'. replayLoop E f names a = (Inr (), a') \<and>
      obs (au_log a') = obs (au_log a) @ map (marshalled_record \<circ> rec) names \<and>
      (\<forall>m. find_file m a' = (if m \<in> set names then None else find_file m a))"
proof (induction names arbitrary: a)
  case (Cons n names)
  obtain a1 where one: "replayOne E f n a = (Inr (), a1)" "au_tick a \<le> au_tick a1"
    "obs (au_log a1) = obs (au_log a) @ [marshalled_record (rec n)]"
    "\<And>m. find_file m a1 = (if m = n then None else find_file m a)"
    using replayOne_ok [OF assms Cons.prems(1), of n "rec n" f] Cons.prems(3) by auto
  have "replayable E a1 m (rec m)" if "m \<in> set names" for m
    using Cons.prems(2,3) that one(4) [of m] by (auto simp: replayable_def)
  then obtain a' where rest: "replayLoop E f names a1 = (Inr (), a')"
    "obs (au_log a') = obs (au_log a1) @ map (marshalled_record \<circ> rec) names"
    "\<And>m. find_file m a' = (if m \<in> set names then None else find_file m a1)"
    using Cons.IH [of a1] Cons.prems(2) no_faults_later [OF Cons.prems(1) one(2)] by auto
  then show ?case
    using one unfolding replayLoop.simps(2) by (intro exI [of _ a']) (auto simp: seqE_run)
qed simp

end
