(* ===== verification/Audit_Replay_Complete.thy ===== *)
theory Audit_Replay_Complete
  imports Audit_Replay
begin

text \<open>
  A replay in which nothing fails, from the listing of the directory to the last removal: it appends
  the records of the spool once each, in the order of their names, which is the order of their
  sequence numbers, and leaves no record behind.
\<close>

section \<open>The sequence file is read as it was written\<close>

lemma spaces_not_digits:
  "list_all (\<lambda>p. p \<noteq> [] \<and> \<not> is_digit (hd p)) unicode_spaces"
  "list_all (\<lambda>p. p \<noteq> [] \<and> \<not> is_digit (hd p)) (map rev unicode_spaces)"
  by code_simp+

lemma strip_any_head:
  assumes "list_all (\<lambda>p. p \<noteq> [] \<and> \<not> is_digit (hd p)) ps" and "is_digit c"
  shows "strip_any ps (c # s) = None"
proof -
  have "\<not> prefix p (c # s)" if "p \<in> set ps" for p
  proof
    assume "prefix p (c # s)"
    moreover have "p \<noteq> []" "\<not> is_digit (hd p)" using assms(1) that by (simp_all add: list_all_iff)
    ultimately show False using assms(2) by (cases p) auto
  qed
  then show ?thesis by (simp add: strip_any_def find_None_iff)
qed

lemma trim_left_digit:
  assumes "is_digit c"
  shows "trim_left unicode_spaces (c # s) = c # s" "trim_left (map rev unicode_spaces) (c # s) = c # s"
  using strip_any_head [OF spaces_not_digits(1) assms] strip_any_head [OF spaces_not_digits(2) assms]
  by (simp_all add: trim_left_idle)

lemma strip_newline:
  assumes "is_digit c"
  shows "strip_any (map rev unicode_spaces) (CHR 0x0A # c # s) = Some (c # s)"
  by (simp add: strip_any_def unicode_spaces_def)

lemma trim_space_line:
  assumes "list_all is_digit s" and "s \<noteq> []"
  shows "trim_space (s @ [CHR 0x0A]) = s"
proof -
  obtain c u where s: "s = c # u" and c: "is_digit c" using assms by (cases s) auto
  have "list_all is_digit (rev s)" "rev s \<noteq> []" using assms by simp_all
  then obtain d v where r: "rev s = d # v" and d: "is_digit d" by (cases "rev s") auto
  have "trim_left (map rev unicode_spaces) (CHR 0x0A # d # v) = d # v"
    using strip_newline [OF d, of v] trim_left_digit(2) [OF d] by (subst trim_left.simps) simp
  then have "trim_space (s @ [CHR 0x0A]) = rev (d # v)"
    using trim_left_digit(1) [OF c] r unfolding trim_space_def s by simp
  then show ?thesis using r by (metis rev_rev_ident)
qed

lemma length_show_nat_bound: "n < 10 ^ Suc k \<Longrightarrow> length (show_nat n) \<le> Suc k"
proof (induction k arbitrary: n)
  case (Suc k)
  then show ?case
    by (subst show_nat.simps) (use Suc.IH [of "n div 10"] in \<open>auto simp: less_mult_imp_div_less mult.commute\<close>)
qed (subst show_nat.simps, simp)

lemma sequence_line:
  "length (show_nat (unat (v :: 64 word)) @ [CHR 0x0A]) \<le> 32"
  "parse_uint64 (trim_space (show_nat (unat v) @ [CHR 0x0A])) = Some v"
proof -
  have "unat v < 10 ^ Suc 20" using unat_64 [of v] by simp
  then show "length (show_nat (unat v) @ [CHR 0x0A]) \<le> 32"
    using length_show_nat_bound [of "unat v" 20] by simp
  show "parse_uint64 (trim_space (show_nat (unat v) @ [CHR 0x0A])) = Some v"
    using trim_space_line [of "show_nat (unat v)"] show_nat_props [of "unat v"] parse_show_nat [OF unat_64, of v] by simp
qed

definition sequence_file :: "'l audit_env \<Rightarrow> 'l aud \<Rightarrow> 64 word \<Rightarrow> bool" where
  "sequence_file E a v = (\<exists>f. find_file sequenceFileName a = Some f \<and> private_file E f \<and>
     sf_content f = Content_Text (show_nat (unat v) @ [CHR 0x0A]))"

lemma read_sequence_ok:
  assumes "sequence_file E a v" and "no_faults_from E (au_tick a)"
  shows "readMutationSpoolSequence E a = (Inr (Some v), a\<lparr>au_tick := au_tick a + 3\<rparr>)"
proof -
  obtain f where f: "find_file sequenceFileName a = Some f" "private_file E f"
    "sf_content f = Content_Text (show_nat (unat v) @ [CHR 0x0A])"
    using assms(1) unfolding sequence_file_def by blast
  have "ae_fault E (au_tick a) = None" "ae_fault E (Suc (au_tick a)) = None" "ae_fault E (Suc (Suc (au_tick a))) = None"
    using assms(2) by (simp_all add: no_faults_from_def)
  then show ?thesis
    using f sequence_line [of v] private_check [OF f(2)]
    by (simp add: readMutationSpoolSequence_def verifyMutationSpoolFile_def seqE_run sys_io_def sys_def check_def
        contentText_def)
qed

section \<open>The whole replay\<close>

text \<open>
  A spool in order: the directory is private, every entry but the lock and the sequence file is a
  record that passes its checks, the sequence numbers are distinct and the sequence file covers them;
  a spool without records may do without the sequence file.
\<close>

definition sequence_covers :: "'l audit_env \<Rightarrow> 'l aud \<Rightarrow> bool" where
  "sequence_covers E a =
     ((\<exists>v. sequence_file E a v \<and>
         (\<forall>n f. find_file n a = Some f \<longrightarrow> recordFile n \<longrightarrow>
            (\<exists>s. mutationSpoolNameSequence n = Inr s \<and> s \<noteq> 0 \<and> s \<le> v))) \<or>
      find_file sequenceFileName a = None \<and> (\<forall>n. recordFile n \<longrightarrow> find_file n a = None))"

lemma sequence_covers_cases:
  assumes "sequence_covers E a"
  obtains v where "sequence_file E a v"
      "\<And>n g. find_file n a = Some g \<Longrightarrow> recordFile n \<Longrightarrow> \<exists>s. mutationSpoolNameSequence n = Inr s \<and> s \<noteq> 0 \<and> s \<le> v"
    | "find_file sequenceFileName a = None" "\<And>n. recordFile n \<Longrightarrow> find_file n a = None"
  using assms unfolding sequence_covers_def by (elim disjE exE conjE) simp_all

definition spool_in_order :: "'l audit_env \<Rightarrow> 'l aud \<Rightarrow> (string \<Rightarrow> safeAuditRecord) \<Rightarrow> bool" where
  "spool_in_order E a rec = (
     (\<exists>info. au_spool_dir a = Some info \<and> spoolDirectoryCheck E info (spoolPath E) = None) \<and>
     distinct (map fst (au_files a)) \<and>
     (\<forall>n f. find_file n a = Some f \<longrightarrow> recordFile n \<longrightarrow> replayable E a n (rec n)) \<and>
     sequence_covers E a \<and>
     (\<forall>n m f g. find_file n a = Some f \<longrightarrow> find_file m a = Some g \<longrightarrow> recordFile n \<longrightarrow> recordFile m \<longrightarrow>
        mutationSpoolNameSequence n = mutationSpoolNameSequence m \<longrightarrow> n = m))"

definition pendingRecords :: "'l aud \<Rightarrow> string list" where
  "pendingRecords a = sort (filter recordFile (map fst (au_files a)))"

lemma replayNames_ok:
  assumes "\<And>n f. (n, f) \<in> set es \<Longrightarrow> recordFile n \<Longrightarrow>
    \<not> fi_dir (sf_info f) \<and> validMutationSpoolName n \<and> \<not> has_suffix n indeterminateSuffix"
  shows "replayNames es = Inr (filter recordFile (map fst es))"
  using assms
proof (induction es)
  case (Cons e es)
  obtain n f where e: "e = (n, f)" by (cases e)
  have IH: "replayNames es = Inr (filter recordFile (map fst es))"
    using Cons.IH Cons.prems by auto
  show ?case
    using Cons.prems [of n f] IH by (cases "recordFile n") (auto simp: e recordFile_def [of n])
qed simp

lemma checkSequences_ok:
  assumes "distinct names" and "\<And>n. n \<in> set names \<Longrightarrow> \<exists>s. mutationSpoolNameSequence n = Inr s \<and> s \<noteq> 0 \<and> s \<le> v"
    and "\<And>n m. n \<in> set names \<Longrightarrow> m \<in> set names \<Longrightarrow> mutationSpoolNameSequence n = mutationSpoolNameSequence m \<Longrightarrow> n = m"
    and "\<And>n s. n \<in> set names \<Longrightarrow> s \<in> set seen \<Longrightarrow> mutationSpoolNameSequence n \<noteq> Inr s" and "mx \<le> v"
  shows "\<exists>k. checkSequences names seen mx = Inr k \<and> k \<le> v"
  using assms
proof (induction names arbitrary: seen mx)
  case (Cons n names)
  obtain s where s: "mutationSpoolNameSequence n = Inr s" "s \<noteq> 0" "s \<le> v" using Cons.prems(2) by auto
  have "s \<notin> set seen" using Cons.prems(4) [of n s] s(1) by auto
  moreover have "\<exists>k. checkSequences names (s # seen) (if mx < s then s else mx) = Inr k \<and> k \<le> v"
  proof (rule Cons.IH)
    show "mutationSpoolNameSequence m \<noteq> Inr t" if "m \<in> set names" "t \<in> set (s # seen)" for m t
      using that Cons.prems(1,3,4) s(1) by (metis distinct.simps(2) list.set_intros(1,2) set_ConsD)
    show "distinct names" using Cons.prems(1) by simp
    show "\<exists>s. mutationSpoolNameSequence m = Inr s \<and> s \<noteq> 0 \<and> s \<le> v" if "m \<in> set names" for m
      using Cons.prems(2) that by simp
    show "m = m'" if "m \<in> set names" "m' \<in> set names" "mutationSpoolNameSequence m = mutationSpoolNameSequence m'" for m m'
      using Cons.prems(3) that by simp
    show "(if mx < s then s else mx) \<le> v" using Cons.prems(5) s(3) by simp
  qed
  ultimately show ?case using s by simp
qed simp

lemma json_not_quarantined: "has_suffix n ''.json'' \<Longrightarrow> \<not> has_suffix n indeterminateSuffix"
  by (auto simp: has_suffix_def indeterminateSuffix_def suffix_def append_eq_append_conv2)

lemma validateRecord_name: "validateMutationSpoolRecord r n = None \<Longrightarrow> validMutationSpoolName n"
  by (auto simp: validateMutationSpoolRecord_def split: if_splits)

lemma replay_complete:
  assumes works: "log_works E obs" and nf: "no_faults_from E (au_tick a)" and ok: "spool_in_order E a rec"
  shows "\<exists>a'. replayMutationAuditSpoolLocked E f a = (Inr (), a') \<and>
    obs (au_log a') = obs (au_log a) @ map (marshalled_record \<circ> rec) (pendingRecords a) \<and>
    (\<forall>n. recordFile n \<longrightarrow> find_file n a' = None)"
proof -
  let ?names = "filter recordFile (map fst (au_files a))"
  have find: "find_file n a = Some g \<longleftrightarrow> (n, g) \<in> set (au_files a)" for n g
    using ok by (simp add: spool_in_order_def find_file_def map_of_eq_Some_iff)
  have ready: "replayable E a n (rec n)" if "n \<in> set ?names" for n
    using ok that find unfolding spool_in_order_def by auto
  have fine: "\<not> fi_dir (sf_info g) \<and> validMutationSpoolName n \<and> \<not> has_suffix n indeterminateSuffix"
    if "(n, g) \<in> set (readDir a)" "recordFile n" for n g
  proof -
    have g: "find_file n a = Some g" using that(1) find by (simp add: readDir_def)
    then have "n \<in> set ?names" using that(2) find by force
    then have r: "validateMutationSpoolRecord (rec n) n = None" "private_file E g"
      using ready [of n] g by (auto simp: replayable_def)
    then show ?thesis
      using json_not_quarantined [of n] validateRecord_name [OF r(1)]
      by (auto simp: private_file_def validMutationSpoolName_def)
  qed
  have names: "replayNames (readDir a) = Inr (filter recordFile (map fst (readDir a)))"
    using replayNames_ok fine by blast
  have sorted: "sort (filter recordFile (map fst (readDir a))) = pendingRecords a"
  proof (rule sorted_distinct_set_unique)
    have d: "distinct (map fst (au_files a))" using ok by (simp add: spool_in_order_def)
    then have "distinct (map fst (readDir a))" by (simp add: readDir_def distinct_map)
    then show "distinct (sort (filter recordFile (map fst (readDir a))))" by simp
    show "distinct (pendingRecords a)" using d by (simp add: pendingRecords_def)
    show "set (sort (filter recordFile (map fst (readDir a)))) = set (pendingRecords a)"
      by (simp add: pendingRecords_def readDir_def)
  qed (simp_all add: pendingRecords_def)
  obtain info where dir: "au_spool_dir a = Some info" "spoolDirectoryCheck E info (spoolPath E) = None"
    using ok unfolding spool_in_order_def by blast
  have pend: "n \<in> set (pendingRecords a) \<longleftrightarrow> (\<exists>g. find_file n a = Some g) \<and> recordFile n" for n
    using find by (force simp: pendingRecords_def)
  have inj: "find_file n a = Some g \<Longrightarrow> find_file m a = Some h \<Longrightarrow> recordFile n \<Longrightarrow> recordFile m \<Longrightarrow>
      mutationSpoolNameSequence n = mutationSpoolNameSequence m \<Longrightarrow> n = m" for n m g h
    using ok unfolding spool_in_order_def by (elim conjE allE impE) assumption+
  let ?a = "\<lambda>t. a\<lparr>au_tick := t\<rparr>"
  have faults: "ae_fault E (au_tick a) = None" "ae_fault E (Suc (au_tick a)) = None" "ae_fault E (Suc (Suc (au_tick a))) = None"
    using nf by (simp_all add: no_faults_from_def)
  obtain t where seqok: "validateMutationSpoolSequence E (pendingRecords a) (?a (Suc (Suc (Suc (au_tick a))))) = (Inr (), ?a t)"
    and later: "au_tick a \<le> t"
  proof -
    have "sequence_covers E a" using ok by (simp add: spool_in_order_def)
    then show thesis
    proof (cases rule: sequence_covers_cases)
      case (1 v)
      have "\<exists>k. checkSequences (pendingRecords a) [] 0 = Inr k \<and> k \<le> v"
      proof (rule checkSequences_ok)
        show "distinct (pendingRecords a)" using ok by (simp add: pendingRecords_def spool_in_order_def)
        show "\<exists>s. mutationSpoolNameSequence n = Inr s \<and> s \<noteq> 0 \<and> s \<le> v" if "n \<in> set (pendingRecords a)" for n
          using 1(2) that pend by blast
        show "n = m" if "n \<in> set (pendingRecords a)" "m \<in> set (pendingRecords a)"
          "mutationSpoolNameSequence n = mutationSpoolNameSequence m" for n m
          using that(1,2) pend inj [OF _ _ _ _ that(3)] by blast
      qed simp_all
      then obtain k where k: "checkSequences (pendingRecords a) [] 0 = Inr k" "k \<le> v" by blast
      have "readMutationSpoolSequence E (?a (Suc (Suc (Suc (au_tick a))))) = (Inr (Some v), ?a (Suc (Suc (Suc (au_tick a))) + 3))"
        using read_sequence_ok [of E "?a (Suc (Suc (Suc (au_tick a))))" v] 1(1) no_faults_later [OF nf]
        by (simp add: sequence_file_def)
      then show thesis
        using k by (intro that [of "Suc (Suc (Suc (au_tick a))) + 3"])
          (simp_all add: validateMutationSpoolSequence_def seqE_run guardE_run)
    next
      case 2
      have "n \<notin> set (pendingRecords a)" for n using pend [of n] 2(2) [of n] by auto
      then have none: "pendingRecords a = []" by (metis list.set_intros(1) neq_Nil_conv)
      have "readMutationSpoolSequence E (?a (Suc (Suc (Suc (au_tick a))))) = (Inr None, ?a (Suc (Suc (Suc (au_tick a))) + 1))"
        using 2(1) nf by (simp add: readMutationSpoolSequence_def seqE_run sys_io_def sys_def no_faults_from_def)
      then show thesis
        using none by (intro that [of "Suc (Suc (Suc (au_tick a))) + 1"])
          (simp_all add: validateMutationSpoolSequence_def seqE_run guardE_run)
    qed
  qed
  let ?b = "?a t"
  have "no_faults_from E (au_tick ?b)" using later by (intro no_faults_later [OF nf]) simp
  moreover have "distinct (pendingRecords a)" using ok by (simp add: pendingRecords_def spool_in_order_def)
  moreover have "replayable E ?b n (rec n)" if "n \<in> set (pendingRecords a)" for n
    using ready [of n] that unfolding replayable_def find_tick by (simp add: pendingRecords_def)
  ultimately obtain a' where loop: "replayLoop E f (pendingRecords a) ?b = (Inr (), a')"
      "obs (au_log a') = obs (au_log a) @ map (marshalled_record \<circ> rec) (pendingRecords a)"
      "\<And>m. find_file m a' = (if m \<in> set (pendingRecords a) then None else find_file m a)"
    using replayLoop_ok [OF works, of ?b "pendingRecords a" rec f] unfolding find_tick by auto
  have "replayMutationAuditSpoolLocked E f a = (Inr (), a')"
    using faults dir names sorted seqok loop(1)
    by (simp add: replayMutationAuditSpoolLocked_def verifyMutationSpoolDirectory_def seqE_run sys_io_def sys_def
        check_def readDir_def)
  moreover have "find_file n a' = None" if "recordFile n" for n
    using loop(3) [of n] pend [of n] that by (cases "find_file n a") auto
  ultimately show ?thesis using loop(2) by blast
qed

end
