(* ===== verification/Audit_Engine.thy ===== *)
theory Audit_Engine
  imports Audit_Replay_Complete
begin

text \<open>
  The mutation audit of cmd/mutation_audit.go: the queue that serialises the users of one audit log,
  the intent that precedes every mutation and the outcome that follows it, and \<open>appendAuditWarn\<close> of
  cmd/root.go. A handle is never nil here, and an operation that fails returns no handle.

  The process-local mutexes and the file lock make the action of \<open>withMutationAuditQueue\<close> atomic with
  respect to the other users of the queue. The core library's lock is two system calls; that it
  leaves the file \<open>queue.lock\<close> in the spool directory matters to no other operation, for they all skip
  that name.
\<close>

section \<open>The queue\<close>

definition touchLockFile :: "'l audit_env \<Rightarrow> 'l aud \<Rightarrow> 'l aud" where
  "touchLockFile E a = (case find_file lockFileName a of
     None \<Rightarrow> put_file lockFileName \<lparr>sf_info = ae_lock_info E, sf_content = Content_Text ''''\<rparr> a
   | Some _ \<Rightarrow> a)"

text \<open>The part that \<open>withMutationAuditQueue\<close> and \<open>spoolMutationAuditOutcomeEmergency\<close> share.\<close>

definition acquireMutationAuditQueue :: "'l audit_env \<Rightarrow> ('l aud, unit) op" where
  "acquireMutationAuditQueue E =
     seqE (getS au_ancestors) (\<lambda>dirs.
     seqE (ensureMutationAuditDirectory E 0 dirs) (\<lambda>_.
     seqE (ensureMutationSpoolDirectory E) (\<lambda>_.
     seqE (sys E id) (\<lambda>_.
     seqE (modS (touchLockFile E)) (\<lambda>_.
     tryE (secureMutationSpoolFile E lockFileName) (\<lambda>secured.
       case secured of
         Inl e \<Rightarrow> seqE (tryE (sys E id) (\<lambda>_. ret ())) (\<lambda>_. throw e)
       | Inr _ \<Rightarrow> ret ()))))))"

text \<open>\<open>attempts\<close> tries, with a pause between them; the error of the last one is returned.\<close>

fun releaseMutationAuditLock :: "'l audit_env \<Rightarrow> nat \<Rightarrow> ('l aud, unit) op" where
  "releaseMutationAuditLock E 0 = ret ()"
| "releaseMutationAuditLock E (Suc n) = tryE (sys E id) (\<lambda>released.
     case released of
       Inr _ \<Rightarrow> ret ()
     | Inl e \<Rightarrow> if n = 0 then throw e else releaseMutationAuditLock E n)"

definition withQueueLock :: "'l audit_env \<Rightarrow> string \<Rightarrow> ('l aud, 'a) op \<Rightarrow> ('l aud, 'a) op" where
  "withQueueLock E releaseMessage action =
     seqE (acquireMutationAuditQueue E) (\<lambda>_.
     tryE (seqE (verifyMutationSpoolDirectory E) (\<lambda>_. action)) (\<lambda>result.
     tryE (releaseMutationAuditLock E 20) (\<lambda>released.
       case result of
         Inl e \<Rightarrow> throw e
       | Inr x \<Rightarrow> (case released of Inl _ \<Rightarrow> throw (local_io releaseMessage) | Inr _ \<Rightarrow> ret x))))"

definition withMutationAuditQueue :: "'l audit_env \<Rightarrow> ('l aud, 'a) op \<Rightarrow> ('l aud, 'a) op" where
  "withMutationAuditQueue E action =
     withQueueLock E ''failed to release mutation audit queue lock'' action"

section \<open>Intent\<close>

definition resolveAuditPath :: "'l audit_env \<Rightarrow> mutationAuditSpec \<Rightarrow> go_error + string" where
  "resolveAuditPath E spec =
    (let path = trim_space (sp_AuditPath spec) in
     if path \<noteq> '''' then Inr path
     else case ae_default_path E of
       Inl _ \<Rightarrow> Inl (local_io ''failed to resolve mutation audit path'')
     | Inr p \<Rightarrow> Inr p)"

text \<open>What follows an intent whose append did not report success.\<close>

definition intentNotPersisted ::
  "'l audit_env \<Rightarrow> cliFlags \<Rightarrow> mutationAuditHandle \<Rightarrow> go_error \<Rightarrow> ('l aud, mutationAuditHandle) op" where
  "intentNotPersisted E f handle e =
    (if mutationAuditAppendMayExist e
     then seqE (now_op E) (\<lambda>now.
       tryE (writeMutationSpoolRecord E (handle_record (ae_su E) f now handle mutationAuditPhaseOutcome
              (Some (uncertainIntentOutcome (sp_Metadata (mh_spec handle)))))) (\<lambda>spooled.
       throw (auditIncompleteError (mh_id handle) (isl spooled))))
     else throw (AppError CodeLocalIOError ''failed to persist mutation intent'' (Some e)))"

definition beginMutationAudit ::
  "'l audit_env \<Rightarrow> cliFlags \<Rightarrow> mutationAuditSpec \<Rightarrow> ('l aud, mutationAuditHandle) op" where
  "beginMutationAudit E f spec =
    (if trim_space (sp_Action spec) = ''''
     then throw (AppError CodeValidationFailed ''mutation audit action is required'' None)
     else seqE (liftE (resolveAuditPath E spec)) (\<lambda>path.
       withMutationAuditQueue E (
         tryE (replayMutationAuditSpoolLocked E f) (\<lambda>replayed.
         case replayed of
           Inl _ \<Rightarrow> throw (auditIncompleteError '''' False)
         | Inr _ \<Rightarrow>
             seqE (newMutationID_op E) (\<lambda>id.
             seqE (now_op E) (\<lambda>now.
             let handle = \<lparr>mh_id = id, mh_path = path, mh_spec = spec\<rparr> in
             tryE (appendMutationAuditRecord E f
                    (handle_record (ae_su E) f now handle mutationAuditPhaseIntent None)) (\<lambda>appended.
             case appended of
               Inr _ \<Rightarrow> ret handle
             | Inl e \<Rightarrow> intentNotPersisted E f handle e)))))))"

section \<open>Outcome\<close>

definition outcomeRecord ::
  "'l audit_env \<Rightarrow> cliFlags \<Rightarrow> go_time \<Rightarrow> mutationAuditHandle \<Rightarrow> mutationAuditOutcome \<Rightarrow> safeAuditRecord" where
  "outcomeRecord E f now handle oc = handle_record (ae_su E) f now handle mutationAuditPhaseOutcome (Some oc)"

text \<open>Spooling an outcome that the log does not hold; the caller learns whether that failed as well.\<close>

definition spoolOutcome :: "'l audit_env \<Rightarrow> mutationAuditHandle \<Rightarrow> safeAuditRecord \<Rightarrow> ('l aud, unit) op" where
  "spoolOutcome E handle r =
     tryE (writeMutationSpoolRecord E r) (\<lambda>spooled. throw (auditIncompleteError (mh_id handle) (isl spooled)))"

definition persistOutcome ::
  "'l audit_env \<Rightarrow> cliFlags \<Rightarrow> mutationAuditHandle \<Rightarrow> mutationAuditOutcome \<Rightarrow> ('l aud, unit) op" where
  "persistOutcome E f handle oc =
     tryE (replayMutationAuditSpoolLocked E f) (\<lambda>replayed.
     seqE (now_op E) (\<lambda>now.
     let r = outcomeRecord E f now handle oc in
     case replayed of
       Inl _ \<Rightarrow> spoolOutcome E handle r
     | Inr _ \<Rightarrow>
         tryE (appendMutationAuditRecord E f r) (\<lambda>appended.
         case appended of
           Inr _ \<Rightarrow> ret ()
         | Inl e \<Rightarrow>
             if mutationAuditAppendMayExist e then throw (auditIncompleteError (mh_id handle) False)
             else spoolOutcome E handle r)))"

definition spoolMutationAuditOutcomeEmergency ::
  "'l audit_env \<Rightarrow> cliFlags \<Rightarrow> mutationAuditHandle \<Rightarrow> mutationAuditOutcome \<Rightarrow> ('l aud, unit) op" where
  "spoolMutationAuditOutcomeEmergency E f handle oc =
     withQueueLock E ''failed to release emergency mutation audit queue lock''
       (seqE (now_op E) (\<lambda>now. writeMutationSpoolRecord E (outcomeRecord E f now handle oc)))"

text \<open>
  \<open>finishMutationAudit\<close> up to its result: \<open>Inr ()\<close> is the return of \<open>operationErr\<close> itself, whatever that
  is, \<open>Inl e\<close> the return of an error of the audit (\<open>finishReturn\<close>).
\<close>

definition finishMutationAudit ::
  "'l audit_env \<Rightarrow> cliFlags \<Rightarrow> mutationAuditHandle \<Rightarrow> mutationAuditOutcome \<Rightarrow> go_error option \<Rightarrow>
   ('l aud, unit) op" where
  "finishMutationAudit E f handle oc0 operationErr =
    (let oc = normalizeMutationAuditOutcome (ae_asApp E) oc0 operationErr in
     seqE (modS (\<lambda>a. a\<lparr>au_entered := False\<rparr>)) (\<lambda>_.
     tryE (withMutationAuditQueue E
            (seqE (modS (\<lambda>a. a\<lparr>au_entered := True\<rparr>)) (\<lambda>_. persistOutcome E f handle oc))) (\<lambda>result.
     case result of
       Inr _ \<Rightarrow> ret ()
     | Inl e \<Rightarrow>
         seqE (getS au_entered) (\<lambda>queueEntered.
         if \<not> queueEntered
         then tryE (spoolMutationAuditOutcomeEmergency E f handle oc) (\<lambda>spooled.
                throw (auditIncompleteError (mh_id handle) (isl spooled)))
         else throw e))))"

definition finishReturn :: "go_error + unit \<Rightarrow> go_error option \<Rightarrow> go_error option" where
  "finishReturn result operationErr = (case result of Inl e \<Rightarrow> Some e | Inr _ \<Rightarrow> operationErr)"

definition finishBatchMutationAuditWithOutcome ::
  "'l audit_env \<Rightarrow> cliFlags \<Rightarrow> mutationAuditHandle \<Rightarrow> int \<Rightarrow> BatchOutcome \<Rightarrow> go_error option \<Rightarrow>
   ('l aud, unit) op" where
  "finishBatchMutationAuditWithOutcome E f handle tot bo operationErr =
     finishMutationAudit E f handle (batchMutationAuditOutcome tot bo operationErr) operationErr"

definition finishBatchMutationAudit ::
  "'l audit_env \<Rightarrow> cliFlags \<Rightarrow> mutationAuditHandle \<Rightarrow> int \<Rightarrow> int \<Rightarrow> int \<Rightarrow> go_error option \<Rightarrow> ('l aud, unit) op" where
  "finishBatchMutationAudit E f handle tot succeeded failed operationErr =
     finishBatchMutationAuditWithOutcome E f handle tot
       \<lparr>bo_Succeeded = succeeded, bo_Failed = failed, bo_Uncertain = 0\<rparr> operationErr"

section \<open>Records outside a mutation\<close>

definition appendQueuedAuditRecord ::
  "'l audit_env \<Rightarrow> cliFlags \<Rightarrow> safeAuditRecord \<Rightarrow> ('l aud, unit) op" where
  "appendQueuedAuditRecord E f r = withMutationAuditQueue E (
     tryE (replayMutationAuditSpoolLocked E f) (\<lambda>replayed.
     case replayed of
       Inl _ \<Rightarrow> throw (auditIncompleteError '''' False)
     | Inr _ \<Rightarrow>
         seqE (now_op E) (\<lambda>now.
         appendMutationAuditRecord E f (r\<lparr>ar_Event := (ar_Event r)\<lparr>ev_Timestamp := time_UTC now\<rparr>\<rparr>))))"

text \<open>Failures are warnings on the error stream, which is not modelled.\<close>

definition appendAuditWarnForContext ::
  "'l audit_env \<Rightarrow> cliFlags \<Rightarrow> string \<Rightarrow> Context \<Rightarrow> string \<Rightarrow> EventTarget \<Rightarrow> audit_status \<Rightarrow> string \<Rightarrow>
   mutationAuditMetadata \<Rightarrow> go_error option \<Rightarrow> ('l aud, unit) op" where
  "appendAuditWarnForContext E f typ ctx ctxName target status diff metadata err =
    (case ae_default_path E of
       Inl _ \<Rightarrow> ret ()
     | Inr _ \<Rightarrow>
         seqE (now_op E) (\<lambda>now.
         let r = (newSafeAuditRecord (ae_asApp E) (ae_su E) f now typ ctx ctxName target status diff err)
                   \<lparr>ar_Metadata := metadata\<rparr> in
         tryE (appendQueuedAuditRecord E f r) (\<lambda>_. ret ())))"

definition appendAuditWarn ::
  "'l audit_env \<Rightarrow> cliFlags \<Rightarrow> string \<Rightarrow> Context \<Rightarrow> EventTarget \<Rightarrow> audit_status \<Rightarrow> string \<Rightarrow> go_error option \<Rightarrow>
   ('l aud, unit) op" where
  "appendAuditWarn E f typ ctx target status diff err =
     appendAuditWarnForContext E f typ ctx '''' target status diff no_metadata err"

end
