(* ===== verification/Audit_Engine_Laws.thy ===== *)
theory Audit_Engine_Laws
  imports Audit_Engine
begin

text \<open>
  What the engine guarantees: no operation on the audit state loses a record or rewrites the log, a
  mutation is only begun when its intent ends the log, and an outcome is in the log, in the spool, or
  reported as lost.
\<close>

section \<open>Nothing is lost and nothing rewritten\<close>

definition nothing_lost :: "('l \<Rightarrow> safeAuditRecord list) \<Rightarrow> 'l aud \<Rightarrow> 'l aud \<Rightarrow> bool" where
  "nothing_lost obs a a' = (prefix (obs (au_log a)) (obs (au_log a')) \<and>
     (\<forall>m. accounted obs m a \<longrightarrow> accounted obs m a'))"

interpretation kept: op_relation "nothing_lost obs" for obs :: "'l \<Rightarrow> safeAuditRecord list"
  by unfold_locales (auto simp: nothing_lost_def intro: prefix_order.order_trans)

definition plain_names :: "string set \<Rightarrow> bool" where
  "plain_names S = (\<forall>n \<in> S. \<not> validMutationSpoolName (pendingName n))"

lemma touches_kept:
  assumes "plain_names S" and "touches S a a'"
  shows "nothing_lost obs a a'"
proof -
  have "spooled a' m" if sp: "spooled a m" for m
  proof -
    obtain n f r where f: "find_file n a = Some f" "validMutationSpoolName (pendingName n)"
      "sf_content f = Content_Record r" "marshalled_record r = m"
      using sp unfolding spooled_def by blast
    then have "n \<notin> S" using assms(1) by (auto simp: plain_names_def)
    then have "find_file n a' = Some f" using assms(2) f(1) by (simp add: touches_def)
    then show ?thesis using f(2-4) unfolding spooled_def by blast
  qed
  then show ?thesis using assms(2) by (auto simp: nothing_lost_def accounted_def touches_def)
qed

lemma touch_kept: "plain_names S \<Longrightarrow> touch.keeps S m \<Longrightarrow> kept.keeps obs m"
  unfolding touch.keeps_def kept.keeps_def using touches_kept by blast

lemma quiet_kept: "quiet.keeps m \<Longrightarrow> kept.keeps obs m"
  by (rule touch_kept [of "{}"]) (simp_all add: plain_names_def quiet_touch)

lemma plain_lock: "plain_names {lockFileName}"
proof -
  have "\<not> has_suffix lockFileName indeterminateSuffix" by code_simp
  then have "pendingName lockFileName = lockFileName" by (simp add: pendingName_def trim_suffix_def)
  then show ?thesis
    using recordName_facts(4) by (simp add: plain_names_def validMutationSpoolName_def)
qed

lemma plain_sequence: "plain_names {sequenceFileName, sequenceFileName @ ''.tmp''}"
proof -
  have "\<not> has_suffix sequenceFileName indeterminateSuffix" by code_simp
  then have "pendingName sequenceFileName = sequenceFileName" by (simp add: pendingName_def trim_suffix_def)
  then show ?thesis
    using recordName_facts(1) tmp_not_pending [of sequenceFileName]
    by (simp add: plain_names_def validMutationSpoolName_def)
qed

lemma quiet_clocks: "quiet.keeps (now_op E)" "quiet.keeps (newMutationID_op E)"
  by (simp_all add: quiet.keeps_def now_op_def newMutationID_op_def same_store_def)

lemma touch_dirs:
  "touch.keeps S (verifyMutationSpoolParent E dirs)"
  "touch.keeps S (ensureMutationSpoolDirectory E)" "touch.keeps S (createPrivateMutationAuditDirectory E i)"
proof -
  show parent: "touch.keeps S (verifyMutationSpoolParent E dirs)" for dirs
  proof (induction dirs)
    case Nil
    show ?case unfolding verifyMutationSpoolParent.simps by (rule touch.keeps_basic)
  next
    case (Cons dir dirs)
    then show ?case unfolding verifyMutationSpoolParent.simps by (intro touch_rules)
  qed
  have ens: "touch.keeps S (ensureDirectory E ups get put path)"
    if "\<And>d. touch.keeps S (modS (put d))" for ups get put path
    unfolding ensureDirectory_def using that by (intro touch_rules parent)
  have puts: "touch.keeps S (modS (\<lambda>a. a\<lparr>au_spool_dir := d\<rparr>))"
    "touch.keeps S (modS (\<lambda>a. a\<lparr>au_ancestors := (au_ancestors a)[i := d]\<rparr>))" for d
    by (simp_all add: touch.keeps_def touches_def find_file_def)
  show "touch.keeps S (ensureMutationSpoolDirectory E)"
    unfolding ensureMutationSpoolDirectory_def by (rule ens) (rule puts(1))
  show "touch.keeps S (createPrivateMutationAuditDirectory E i)"
    unfolding createPrivateMutationAuditDirectory_def by (rule ens) (rule puts(2))
qed

lemma touch_ensure: "touch.keeps S (ensureMutationAuditDirectory E i dirs)"
proof (induction dirs arbitrary: i)
  case Nil
  show ?case unfolding ensureMutationAuditDirectory.simps by (rule touch.keeps_basic)
next
  case (Cons dir dirs)
  then show ?case unfolding ensureMutationAuditDirectory.simps by (intro touch_rules touch_dirs)
qed

lemma touch_acquire: "lockFileName \<in> S \<Longrightarrow> touch.keeps S (acquireMutationAuditQueue E)"
  unfolding acquireMutationAuditQueue_def
  by (intro touch_rules touch_dirs touch_ensure touch_secure)
    (auto simp: touch.keeps_def touches_def touchLockFile_def split: option.split)

lemma quiet_release: "quiet.keeps (releaseMutationAuditLock E n)"
proof (induction n)
  case 0
  show ?case unfolding releaseMutationAuditLock.simps by (rule quiet.keeps_basic)
next
  case (Suc n)
  then show ?case unfolding releaseMutationAuditLock.simps by (intro quiet_rules)
qed

lemma kept_append: "append_contract E obs \<Longrightarrow> kept.keeps obs (appendMutationAuditRecord E f r)"
  by (rule kept.keepsI)
    (auto simp: nothing_lost_def accounted_def spooled_def append_record(5) dest: append_record(1))

lemma write_fresh_kept:
  assumes "find_file n a = None" "\<not> validMutationSpoolName (pendingName (n @ ''.tmp''))"
    and "touches {n, n @ ''.tmp''} a a'"
  shows "nothing_lost obs a a'"
proof -
  have "spooled a' m" if sp: "spooled a m" for m
  proof -
    obtain k f r where f: "find_file k a = Some f" "validMutationSpoolName (pendingName k)"
      "sf_content f = Content_Record r" "marshalled_record r = m"
      using sp unfolding spooled_def by blast
    then have "k \<notin> {n, n @ ''.tmp''}" using assms(1,2) by auto
    then have "find_file k a' = Some f" using assms(3) f(1) by (simp add: touches_def)
    then show ?thesis using f(2-4) unfolding spooled_def by blast
  qed
  then show ?thesis using assms(3) by (auto simp: nothing_lost_def accounted_def touches_def)
qed

lemma kept_write: "kept.keeps obs (writeMutationSpoolRecord E r)"
proof (rule kept.keepsI)
  fix a res a' assume w: "writeMutationSpoolRecord E r a = (res, a')"
  show "nothing_lost obs a a'"
  proof (cases "marshallable r")
    case False
    then show ?thesis using w by (simp add: writeMutationSpoolRecord_def seqE_run guardE_run kept.R_refl)
  next
    case True
    then have w: "seqE (nextMutationSpoolSequence E) (\<lambda>s. writeTempAndCommit E (spoolRecordName s (auditRecordID r))
       (Content_Record (marshalled_record r)) ''mutation outcome spool'') a = (res, a')"
      using w by (simp add: writeMutationSpoolRecord_def seqE_run guardE_run)
    have seq: "nothing_lost obs a a1" if "nextMutationSpoolSequence E a = (x, a1)" for x a1
      using touches_kept [OF plain_sequence] touch.keepsD [OF touch_sequence(2) that] by blast
    from w show ?thesis
    proof (cases rule: seqE_cases)
      case (1 e)
      then show ?thesis using seq by blast
    next
      case (2 s a1)
      let ?n = "spoolRecordName s (auditRecordID r)"
      have json: "has_suffix ?n ''.json''" by (rule recordName_facts(2))
      have rec: "recordFile ?n" using recordName_facts(1,4) json unfolding recordFile_def by metis
      have "find_file ?n a = None"
        using next_sequence_Inr(1) [OF 2(1), of ?n] rec spoolRecordName_sequence [of s "auditRecordID r"]
          pendingName_idle [OF json] by (cases "find_file ?n a") auto
      moreover have "?n \<noteq> sequenceFileName @ ''.tmp''" using json recordName_facts(3) by metis
      ultimately have "find_file ?n a1 = None"
        using next_sequence_Inr(3) [OF 2(1)] rec by (simp add: touches_def recordFile_def)
      moreover have "\<not> validMutationSpoolName (pendingName (?n @ ''.tmp''))"
        using tmp_not_pending [of ?n] by (simp add: validMutationSpoolName_def)
      moreover have "touches {?n, ?n @ ''.tmp''} a1 a'"
        using touch.keepsD [OF touch_write 2(2)] by blast
      ultimately have "nothing_lost obs a1 a'" by (rule write_fresh_kept)
      then show ?thesis using seq [OF 2(1)] kept.R_trans by blast
    qed
  qed
qed

end
