(* ===== verification/Audit_Durable.thy ===== *)
theory Audit_Durable
  imports Audit_Engine_Laws
begin

text \<open>
  The durability of intents and outcomes. \<open>log_grows\<close> is the part of \<open>nothing_lost\<close> about the log
  alone.
\<close>

section \<open>The log only grows\<close>

definition log_grows :: "('l \<Rightarrow> safeAuditRecord list) \<Rightarrow> 'l aud \<Rightarrow> 'l aud \<Rightarrow> bool" where
  "log_grows obs a a' = prefix (obs (au_log a)) (obs (au_log a'))"

interpretation growth: op_relation "log_grows obs" for obs :: "'l \<Rightarrow> safeAuditRecord list"
  by unfold_locales (auto simp: log_grows_def intro: prefix_order.order_trans)

lemma touch_grows: "touch.keeps S m \<Longrightarrow> growth.keeps obs m"
  unfolding touch.keeps_def growth.keeps_def touches_def log_grows_def by simp

lemma quiet_grows: "quiet.keeps m \<Longrightarrow> growth.keeps obs m"
  by (rule touch_grows [OF quiet_touch])

lemma append_grows: "append_contract E obs \<Longrightarrow> growth.keeps obs (appendMutationAuditRecord E f r)"
  by (rule growth.keepsI) (auto simp: log_grows_def dest: append_record(1))

lemma replayOne_grows: "append_contract E obs \<Longrightarrow> growth.keeps obs (replayOne E f n)"
  unfolding replayOne_def handleMutationSpoolReplayAppendError_def
  by (intro growth.keeps_rules append_grows quiet_grows [OF quiet_reads(2)] touch_grows [where S = UNIV] touch_delete) simp_all

lemma replay_grows:
  assumes "append_contract E obs"
  shows "growth.keeps obs (replayMutationAuditSpoolLocked E f)"
proof -
  have "growth.keeps obs (replayLoop E f names)" for names
  proof (induction names)
    case Nil
    show ?case unfolding replayLoop.simps by (rule growth.keeps_basic)
  next
    case (Cons n names)
    then show ?case
      unfolding replayLoop.simps(2) using assms by (intro growth.keeps_rules replayOne_grows)
  qed
  then show ?thesis
    unfolding replayMutationAuditSpoolLocked_def
    by (intro growth.keeps_rules quiet_grows [OF quiet_verify(1)] quiet_grows [OF quiet_verify(3)]
        quiet_grows [OF quiet_reads(3)])
qed

lemma kept_replay:
  assumes "append_contract E obs"
  shows "kept.keeps obs (replayMutationAuditSpoolLocked E f)"
proof (rule kept.keepsI)
  fix a res a' assume r: "replayMutationAuditSpoolLocked E f a = (res, a')"
  have "accounted obs m a'" if "accounted obs m a" for m
    using replay_accounted [OF assms that, of f] r by simp
  then show "nothing_lost obs a a'"
    using growth.keepsD [OF replay_grows [OF assms] r] by (simp add: nothing_lost_def log_grows_def)
qed

section \<open>No operation loses or rewrites anything\<close>

lemmas kept_rules = kept.keeps_rules kept_write quiet_kept [OF quiet_clocks(1)] quiet_kept [OF quiet_clocks(2)]

lemma kept_queue:
  assumes "kept.keeps obs m"
  shows "kept.keeps obs (withQueueLock E msg m)"
  unfolding withQueueLock_def
  by (intro kept.keeps_rules touch_kept [OF plain_lock touch_acquire] quiet_kept [OF quiet_verify(3)]
      quiet_kept [OF quiet_release] assms) simp

lemma kept_entered: "kept.keeps obs (modS (\<lambda>a. a\<lparr>au_entered := b\<rparr>))"
  by (simp add: kept.keeps_def nothing_lost_def accounted_def spooled_def find_file_def)

lemma kept_begin: "append_contract E obs \<Longrightarrow> kept.keeps obs (beginMutationAudit E f spec)"
  unfolding beginMutationAudit_def withMutationAuditQueue_def intentNotPersisted_def Let_def
  by (intro kept_rules kept_queue kept_replay kept_append)

lemma kept_finish: "append_contract E obs \<Longrightarrow> kept.keeps obs (finishMutationAudit E f h oc err)"
  unfolding finishMutationAudit_def withMutationAuditQueue_def spoolMutationAuditOutcomeEmergency_def
    persistOutcome_def spoolOutcome_def Let_def
  by (intro kept_rules kept_queue kept_replay kept_append kept_entered)

lemma kept_warn: "append_contract E obs \<Longrightarrow> kept.keeps obs (appendAuditWarnForContext E f typ ctx n t st d md err)"
  unfolding appendAuditWarnForContext_def appendQueuedAuditRecord_def withMutationAuditQueue_def Let_def
  by (intro kept_rules kept_queue kept_replay kept_append)

section \<open>Inside the queue\<close>

text \<open>What an action finds and leaves when it runs under the lock.\<close>

lemma queue_cases:
  assumes "withQueueLock E msg m a = (res, a')"
  obtains e where "res = Inl e" "touches {lockFileName} a a'"
  | a1 r a2 where "touches {lockFileName} a a1" "m a1 = (r, a2)" "touches {} a2 a'"
      "res = r \<or> (\<exists>x. r = Inr x \<and> res = Inl (local_io msg))"
proof -
  from assms show thesis unfolding withQueueLock_def
  proof (cases rule: seqE_cases)
    case (1 e)
    then show ?thesis
      using that(1) [of e] touch.keepsD [OF touch_acquire [of "{lockFileName}"] 1(1)] by simp
  next
    case (2 u a0)
    have t0: "touches {lockFileName} a a0"
      using touch.keepsD [OF touch_acquire [of "{lockFileName}"] 2(1)] by simp
    obtain r2 a2 where inner: "seqE (verifyMutationSpoolDirectory E) (\<lambda>_. m) a0 = (r2, a2)"
      by (metis surj_pair)
    obtain r3 a3 where rel: "releaseMutationAuditLock E 20 a2 = (r3, a3)" by (metis surj_pair)
    have t3: "touches {} a2 a3"
      using touch.keepsD [OF quiet_touch [OF quiet_release] rel] .
    have res: "a' = a3" "res = (case r2 of Inl e \<Rightarrow> Inl e
        | Inr x \<Rightarrow> (case r3 of Inl _ \<Rightarrow> Inl (local_io msg) | Inr _ \<Rightarrow> Inr x))"
      using 2(2) inner rel by (auto simp: tryE_run split: sum.splits)
    from inner show ?thesis
    proof (cases rule: seqE_cases)
      case (1 e)
      have "touches {lockFileName} a0 a2"
        using touch.keepsD [OF quiet_touch [OF quiet_verify(3)] 1(1)] .
      then have "touches {lockFileName} a a'"
        using t0 t3 res(1) touch.R_trans by (metis (no_types, lifting) touches_def empty_iff)
      then show ?thesis using that(1) [of e] res 1 by simp
    next
      case (2 v a1)
      have "touches {lockFileName} a a1"
        using t0 touch.keepsD [OF quiet_touch [OF quiet_verify(3)] 2(1)] touch.R_trans by blast
      then show ?thesis
        using that(2) [of a1 r2 a2] 2(2) t3 res by (auto split: sum.splits)
    qed
  qed
qed


lemma touches_log: "touches S a a' \<Longrightarrow> au_log a' = au_log a"
  by (simp add: touches_def)

lemma queue_Inr:
  assumes "withQueueLock E msg m a = (Inr x, a')"
  obtains a1 a2 where "touches {lockFileName} a a1" "m a1 = (Inr x, a2)" "touches {} a2 a'"
  using assms by (elim queue_cases) auto

lemma clock_result: "now_op E a = (Inr (ae_clock E (au_time a)), a\<lparr>au_time := Suc (au_time a)\<rparr>)"
  by (simp add: now_op_def)

section \<open>Intents\<close>

text \<open>The action that \<open>beginMutationAudit\<close> runs in the queue.\<close>

lemma begin_action:
  assumes "append_contract E obs"
    and act: "tryE (replayMutationAuditSpoolLocked E f) (\<lambda>replayed.
         case replayed of
           Inl _ \<Rightarrow> throw (auditIncompleteError '''' False)
         | Inr _ \<Rightarrow>
             seqE (newMutationID_op E) (\<lambda>id.
             seqE (now_op E) (\<lambda>now.
             let handle = \<lparr>mh_id = id, mh_path = path, mh_spec = spec\<rparr> in
             tryE (appendMutationAuditRecord E f
                    (handle_record (ae_su E) f now handle mutationAuditPhaseIntent None)) (\<lambda>appended.
             case appended of
               Inr _ \<Rightarrow> ret handle
             | Inl e \<Rightarrow> intentNotPersisted E f handle e)))) a = (Inr h, a')"
  shows "mh_spec h = spec \<and> (\<exists>b. newMutationID_op E b = (Inr (mh_id h), b\<lparr>au_rand := Suc (au_rand b)\<rparr>)) \<and>
    (\<exists>older now. obs (au_log a') =
      obs (au_log a) @ older @ [marshalled_record (handle_record (ae_su E) f now h mutationAuditPhaseIntent None)])"
proof -
  obtain rr b1 where rep: "replayMutationAuditSpoolLocked E f a = (rr, b1)" by (metis surj_pair)
  obtain i b2 now b3 where i: "newMutationID_op E b1 = (Inr i, b2)" and now: "now_op E b2 = (Inr now, b3)"
    and app: "tryE (appendMutationAuditRecord E f
                (handle_record (ae_su E) f now \<lparr>mh_id = i, mh_path = path, mh_spec = spec\<rparr> mutationAuditPhaseIntent None))
              (\<lambda>appended. case appended of
                 Inr _ \<Rightarrow> ret \<lparr>mh_id = i, mh_path = path, mh_spec = spec\<rparr>
               | Inl e \<Rightarrow> intentNotPersisted E f \<lparr>mh_id = i, mh_path = path, mh_spec = spec\<rparr> e) b3 = (Inr h, a')"
    using act rep by (cases rr) (auto simp: tryE_run Let_def elim!: seqE_Inr)
  have no: "intentNotPersisted E f k e b = (Inr h, b') \<Longrightarrow> False" for k e b b'
    unfolding intentNotPersisted_def by (auto simp: seqE_run tryE_run split: if_splits prod.splits sum.splits)
  have h: "h = \<lparr>mh_id = i, mh_path = path, mh_spec = spec\<rparr>"
    and ap: "appendMutationAuditRecord E f (handle_record (ae_su E) f now h mutationAuditPhaseIntent None) b3 = (Inr (), a')"
    using app no by (auto simp: tryE_run split: prod.splits sum.splits)
  have "prefix (obs (au_log a)) (obs (au_log b1))"
    using growth.keepsD [OF replay_grows [OF assms(1)] rep] by (simp add: log_grows_def)
  moreover have "au_log b3 = au_log b1"
    using quiet.keepsD [OF quiet_clocks(2) i] quiet.keepsD [OF quiet_clocks(1) now] by (simp add: same_store_def)
  moreover have "obs (au_log a') = obs (au_log b3) @
      [marshalled_record (handle_record (ae_su E) f now h mutationAuditPhaseIntent None)]"
    using append_record(2) [OF assms(1) ap] by simp
  ultimately show ?thesis
    using i h by (auto simp: prefix_def newMutationID_op_def)
qed

lemma begin_durable:
  assumes "append_contract E obs" and "beginMutationAudit E f spec a = (Inr h, a')"
  shows "mh_spec h = spec \<and> (\<exists>b. newMutationID_op E b = (Inr (mh_id h), b\<lparr>au_rand := Suc (au_rand b)\<rparr>)) \<and>
    (\<exists>older now. obs (au_log a') =
      obs (au_log a) @ older @ [marshalled_record (handle_record (ae_su E) f now h mutationAuditPhaseIntent None)])"
proof -
  from assms(2) obtain path where q: "withMutationAuditQueue E
      (tryE (replayMutationAuditSpoolLocked E f) (\<lambda>replayed.
         case replayed of
           Inl _ \<Rightarrow> throw (auditIncompleteError '''' False)
         | Inr _ \<Rightarrow>
             seqE (newMutationID_op E) (\<lambda>id.
             seqE (now_op E) (\<lambda>now.
             let handle = \<lparr>mh_id = id, mh_path = path, mh_spec = spec\<rparr> in
             tryE (appendMutationAuditRecord E f
                    (handle_record (ae_su E) f now handle mutationAuditPhaseIntent None)) (\<lambda>appended.
             case appended of
               Inr _ \<Rightarrow> ret handle
             | Inl e \<Rightarrow> intentNotPersisted E f handle e))))) a = (Inr h, a')"
    unfolding beginMutationAudit_def by (auto simp: liftE_def split: if_splits elim!: seqE_Inr)
  show ?thesis
  proof (rule queue_Inr [OF q [unfolded withMutationAuditQueue_def]], goal_cases)
    case (1 a1 a2)
    show ?case using begin_action [OF assms(1) 1(2)] touches_log [OF 1(1)] touches_log [OF 1(3)] by simp
  qed
qed

section \<open>Outcomes\<close>

text \<open>The log is what an append of \<open>r\<close> left that the core library reported as indeterminate.\<close>

definition undecided :: "'l audit_env \<Rightarrow> cliFlags \<Rightarrow> safeAuditRecord \<Rightarrow> 'l \<Rightarrow> bool" where
  "undecided E f r log = (\<exists>old e. ae_append E (auditOptions E f) r old = (log, AppendCommitIndeterminate, Some e))"

lemma append_decided:
  assumes "append_contract E obs" and "appendMutationAuditRecord E f r a = (Inl e, a')"
    and "mutationAuditAppendMayExist e"
  shows "marshalled_record r \<in> set (obs (au_log a')) \<or> undecided E f r (au_log a')"
proof (rule appendRecord_cases [OF assms(2)])
  fix a1 assume "appendRecordWithResult E f r a1 = (Inl e, a')"
  then obtain l state x where ap: "ae_append E (auditOptions E f) r (au_log a1) = (l, state, Some x)"
    "e = MutationAuditAppendError state x" "a' = a1\<lparr>au_log := l\<rparr>"
    by (auto simp: appendRecordWithResult_def split: prod.splits option.splits)
  show ?thesis
  proof (cases "mutationAuditAppendCommitted e")
    case True
    then show ?thesis using append_record(3) [OF assms(1,2)] by auto
  next
    case False
    then have "state = AppendCommitIndeterminate"
      using assms(3) ap(2) by (cases state) (auto simp: mutationAuditAppendMayExist_def mutationAuditAppendCommitted_def)
    then show ?thesis using ap by (auto simp: undecided_def)
  qed
qed (use assms(3) in \<open>auto simp: mutationAuditAppendMayExist_def\<close>)

lemma write_spools:
  assumes "writeMutationSpoolRecord E r a = (Inr x, a')" and "operation_id (auditRecordID r)"
  shows "spooled a' (marshalled_record r)"
proof -
  obtain s f where s: "find_file (spoolRecordName s (auditRecordID r)) a' = Some f"
    "sf_content f = Content_Record (marshalled_record r)"
    using write_record_Inr [OF assms(1)] by blast
  have "validMutationSpoolName (pendingName (spoolRecordName s (auditRecordID r)))"
    using pendingName_idle [OF recordName_facts(2)] spoolRecordName_valid [OF assms(2)] by simp
  then show ?thesis using spooledI [OF s(1) _ s(2)] by simp
qed

lemma spool_outcome_cases:
  assumes "spoolOutcome E h r a = (res, a')" and "operation_id (auditRecordID r)"
  shows "res = Inl (auditIncompleteError (mh_id h) True) \<or>
    res = Inl (auditIncompleteError (mh_id h) False) \<and> accounted obs (marshalled_record r) a'"
proof -
  obtain w a1 where w: "writeMutationSpoolRecord E r a = (w, a1)" by (metis surj_pair)
  then have "res = Inl (auditIncompleteError (mh_id h) (isl w))" "a' = a1"
    using assms(1) by (simp_all add: spoolOutcome_def tryE_run)
  then show ?thesis
    using write_spools [OF _ assms(2)] w by (cases w) (auto simp: accounted_def)
qed

lemma outcome_id: "auditRecordID (outcomeRecord E f now h oc) = mh_id h"
  by (simp add: outcomeRecord_def handle_record_fields)

text \<open>What \<open>persistOutcome\<close> leaves behind.\<close>

lemma persist_cases:
  assumes "append_contract E obs" and "operation_id (mh_id h)" and "persistOutcome E f h oc a = (res, a')"
  shows "\<exists>now. (res = Inr () \<and>
      (\<exists>older. obs (au_log a') = obs (au_log a) @ older @ [marshalled_record (outcomeRecord E f now h oc)])) \<or>
    res = Inl (auditIncompleteError (mh_id h) True) \<or>
    (res = Inl (auditIncompleteError (mh_id h) False) \<and>
      (accounted obs (marshalled_record (outcomeRecord E f now h oc)) a' \<or>
       undecided E f (outcomeRecord E f now h oc) (au_log a')))"
proof -
  obtain rr b1 where rep: "replayMutationAuditSpoolLocked E f a = (rr, b1)" by (metis surj_pair)
  let ?b = "b1\<lparr>au_time := Suc (au_time b1)\<rparr>" and ?now = "ae_clock E (au_time b1)"
  let ?r = "outcomeRecord E f ?now h oc"
  have grow: "prefix (obs (au_log a)) (obs (au_log ?b))"
    using growth.keepsD [OF replay_grows [OF assms(1)] rep] by (simp add: log_grows_def)
  note spool = spool_outcome_cases [of E h ?r, unfolded outcome_id, OF _ assms(2)]
  show ?thesis
  proof (cases rr)
    case (Inl e)
    then have "spoolOutcome E h ?r ?b = (res, a')"
      using assms(3) rep by (simp add: persistOutcome_def tryE_run seqE_run clock_result Let_def)
    from spool [OF this, of obs] show ?thesis by blast
  next
    case (Inr u)
    obtain ra b2 where app: "appendMutationAuditRecord E f ?r ?b = (ra, b2)" by (metis surj_pair)
    have rest: "(case ra of Inr x \<Rightarrow> ret x | Inl e \<Rightarrow>
        if mutationAuditAppendMayExist e then throw (auditIncompleteError (mh_id h) False) else spoolOutcome E h ?r) b2 = (res, a')"
      using assms(3) rep Inr app by (simp add: persistOutcome_def tryE_run seqE_run clock_result Let_def)
    show ?thesis
    proof (cases ra)
      case (Inr v)
      then have "res = Inr ()" "a' = b2" using rest by simp_all
      then show ?thesis
        using append_record(2) [OF assms(1) app] grow Inr by (intro exI [of _ ?now]) (auto simp: prefix_def)
    next
      case (Inl e)
      show ?thesis
      proof (cases "mutationAuditAppendMayExist e")
        case True
        then have "res = Inl (auditIncompleteError (mh_id h) False)" "a' = b2" using rest Inl by simp_all
        moreover have "accounted obs (marshalled_record ?r) b2 \<or> undecided E f ?r (au_log b2)"
          using append_decided [OF assms(1) app [unfolded Inl] True] by (auto simp: accounted_def)
        ultimately show ?thesis by blast
      next
        case False
        then have "spoolOutcome E h ?r b2 = (res, a')" using rest Inl by simp
        from spool [OF this, of obs] show ?thesis by blast
      qed
    qed
  qed
qed

lemma emergency_spools:
  assumes "spoolMutationAuditOutcomeEmergency E f h oc b = (Inr u, a')" and "operation_id (mh_id h)"
  shows "\<exists>now. accounted obs (marshalled_record (outcomeRecord E f now h oc)) a'"
proof -
  obtain a1 a2 where w: "seqE (now_op E) (\<lambda>now. writeMutationSpoolRecord E (outcomeRecord E f now h oc)) a1 = (Inr u, a2)"
    and t: "touches {} a2 a'"
    using assms(1) [unfolded spoolMutationAuditOutcomeEmergency_def] by (rule queue_Inr)
  let ?r = "outcomeRecord E f (ae_clock E (au_time a1)) h oc"
  have "spooled a2 (marshalled_record ?r)"
    using w write_spools [of E ?r, unfolded outcome_id, OF _ assms(2)] by (auto simp: seqE_run clock_result)
  then have "accounted obs (marshalled_record ?r) a'"
    using t by (simp add: accounted_def spooled_def touches_def)
  then show ?thesis by blast
qed

lemma finish_cases:
  assumes "append_contract E obs" and id: "operation_id (mh_id h)" and "finishMutationAudit E f h oc0 err a = (res, a')"
    and oc: "oc = normalizeMutationAuditOutcome (ae_asApp E) oc0 err"
  shows "\<exists>now. (res = Inr () \<and>
      (\<exists>older. obs (au_log a') = obs (au_log a) @ older @ [marshalled_record (outcomeRecord E f now h oc)])) \<or>
    res = Inl (auditIncompleteError (mh_id h) True) \<or>
    (\<exists>e. res = Inl e \<and> accounted obs (marshalled_record (outcomeRecord E f now h oc)) a') \<or>
    (res = Inl (auditIncompleteError (mh_id h) False) \<and> undecided E f (outcomeRecord E f now h oc) (au_log a'))"
proof -
  let ?a = "a\<lparr>au_entered := False\<rparr>"
  let ?action = "seqE (modS (\<lambda>a. a\<lparr>au_entered := True\<rparr>)) (\<lambda>_. persistOutcome E f h oc)"
  let ?msg = "''failed to release mutation audit queue lock''"
  obtain rq b where q: "withQueueLock E ?msg ?action ?a = (rq, b)" by (metis surj_pair)
  have rest: "(case rq of Inr x \<Rightarrow> ret x | Inl e \<Rightarrow> seqE (getS au_entered) (\<lambda>queueEntered.
      if \<not> queueEntered
      then tryE (spoolMutationAuditOutcomeEmergency E f h oc) (\<lambda>spooled. throw (auditIncompleteError (mh_id h) (isl spooled)))
      else throw e)) b = (res, a')"
    using assms(3) q unfolding finishMutationAudit_def withMutationAuditQueue_def oc
    by (simp add: seqE_run tryE_run Let_def)
  have failed: ?thesis if failure: "rq = Inl e" "\<not> au_entered b" for e
  proof -
    obtain sp where em: "spoolMutationAuditOutcomeEmergency E f h oc b = (sp, a')"
      and res: "res = Inl (auditIncompleteError (mh_id h) (isl sp))"
      using rest failure by (auto simp: seqE_run tryE_run split: prod.splits)
    show ?thesis
      using emergency_spools [OF _ id, of E f oc b _ a' obs] em res by (cases sp) auto
  qed
  from q show ?thesis
  proof (cases rule: queue_cases)
    case (1 e)
    then show ?thesis using failed by (simp add: touches_def)
  next
    case (2 a1 r a2)
    have p: "persistOutcome E f h oc (a1\<lparr>au_entered := True\<rparr>) = (r, a2)"
      using 2(2) by (simp add: seqE_run)
    have log: "obs (au_log b) = obs (au_log a2)" "obs (au_log (a1\<lparr>au_entered := True\<rparr>)) = obs (au_log a)"
      "au_log b = au_log a2"
      using 2(1,3) by (simp_all add: touches_def)
    have acc: "accounted obs m a2 \<Longrightarrow> accounted obs m b" for m
      using 2(3) by (simp add: accounted_def spooled_def touches_def)
    have held: "accounted obs m a2" if "obs (au_log a2) = xs @ ys @ [m]" for m xs ys
      using that by (simp add: accounted_def)
    have outcome: "\<exists>now. (r = Inr () \<and>
        (\<exists>older. obs (au_log b) = obs (au_log a) @ older @ [marshalled_record (outcomeRecord E f now h oc)])) \<and>
        accounted obs (marshalled_record (outcomeRecord E f now h oc)) b \<or>
      r = Inl (auditIncompleteError (mh_id h) True) \<or>
      (\<exists>e. r = Inl e \<and> accounted obs (marshalled_record (outcomeRecord E f now h oc)) b) \<or>
      (r = Inl (auditIncompleteError (mh_id h) False) \<and> undecided E f (outcomeRecord E f now h oc) (au_log b))"
    proof -
      from persist_cases [OF assms(1) id p] obtain now where
        "(r = Inr () \<and> (\<exists>older. obs (au_log a2) = obs (au_log a) @ older @ [marshalled_record (outcomeRecord E f now h oc)])) \<or>
         r = Inl (auditIncompleteError (mh_id h) True) \<or>
         (r = Inl (auditIncompleteError (mh_id h) False) \<and>
           (accounted obs (marshalled_record (outcomeRecord E f now h oc)) a2 \<or>
            undecided E f (outcomeRecord E f now h oc) (au_log a2)))"
        unfolding log by blast
      then show ?thesis
        unfolding log by (intro exI [of _ now]) (use acc held in blast)
    qed
    show ?thesis
    proof (cases rq)
      case (Inl e)
      show ?thesis
      proof (cases "au_entered b")
        case True
        then have "res = Inl e" "a' = b" using rest Inl by (simp_all add: seqE_run)
        then show ?thesis using outcome 2(4) Inl by auto
      qed (use failed Inl in blast)
    next
      case (Inr u)
      then have "res = Inr ()" "a' = b" using rest by simp_all
      then show ?thesis using outcome 2(4) Inr by auto
    qed
  qed
qed

lemma spoolOutcome_fails: "spoolOutcome E h r a \<noteq> (Inr u, a')"
  by (auto simp: spoolOutcome_def tryE_run split: prod.splits)

lemma persist_Inr:
  assumes "append_contract E obs" and "persistOutcome E f h oc a = (Inr u, a')"
  shows "\<exists>now older. obs (au_log a') = obs (au_log a) @ older @ [marshalled_record (outcomeRecord E f now h oc)]"
proof -
  obtain rr b1 where rep: "replayMutationAuditSpoolLocked E f a = (rr, b1)" by (metis surj_pair)
  let ?b = "b1\<lparr>au_time := Suc (au_time b1)\<rparr>" and ?now = "ae_clock E (au_time b1)"
  let ?r = "outcomeRecord E f ?now h oc"
  have "prefix (obs (au_log a)) (obs (au_log ?b))"
    using growth.keepsD [OF replay_grows [OF assms(1)] rep] by (simp add: log_grows_def)
  moreover have "appendMutationAuditRecord E f ?r ?b = (Inr (), a')"
    using assms(2) rep
    by (auto simp: spoolOutcome_fails persistOutcome_def tryE_run seqE_run clock_result Let_def split: sum.splits prod.splits if_splits)
  ultimately show ?thesis
    using append_record(2) [OF assms(1)] by (fastforce simp: prefix_def)
qed

lemma finish_Inr:
  assumes "append_contract E obs" and "finishMutationAudit E f h oc err a = (Inr u, a')"
  shows "\<exists>now older. obs (au_log a') = obs (au_log a) @ older @
    [marshalled_record (outcomeRecord E f now h (normalizeMutationAuditOutcome (ae_asApp E) oc err))]"
proof -
  let ?oc = "normalizeMutationAuditOutcome (ae_asApp E) oc err"
  have "withQueueLock E ''failed to release mutation audit queue lock''
      (seqE (modS (\<lambda>a. a\<lparr>au_entered := True\<rparr>)) (\<lambda>_. persistOutcome E f h ?oc)) (a\<lparr>au_entered := False\<rparr>) = (Inr (), a')"
    using assms(2) unfolding finishMutationAudit_def withMutationAuditQueue_def
    by (auto simp: seqE_run tryE_run Let_def split: sum.splits prod.splits if_splits)
  then obtain a1 a2 where t: "touches {lockFileName} (a\<lparr>au_entered := False\<rparr>) a1" "touches {} a2 a'"
    and p: "persistOutcome E f h ?oc (a1\<lparr>au_entered := True\<rparr>) = (Inr (), a2)"
    by (rule queue_Inr) (simp add: seqE_run)
  show ?thesis using persist_Inr [OF assms(1) p] touches_log [OF t(1)] touches_log [OF t(2)] by simp
qed

end
