(* ===== verification/Audit_Liveness.thy ===== *)
theory Audit_Liveness
  imports Audit_Durable
begin

text \<open>
  When nothing fails: on a healthy machine whose spool is in order, an intent is written, an outcome is
  written, and each of them first moves every pending record of the spool into the log.
\<close>

definition healthy :: "'l audit_env \<Rightarrow> ('l \<Rightarrow> safeAuditRecord list) \<Rightarrow> bool" where
  "healthy E obs = ((\<forall>n. ae_fault E n = None) \<and> log_works E obs \<and> (\<forall>n. ae_random E n \<noteq> None))"

definition lockable :: "'l audit_env \<Rightarrow> file_info \<Rightarrow> bool" where
  "lockable E info = (fi_regular info \<and> \<not> fi_symlink info \<and> fi_uid info = ae_euid E)"

definition ready :: "'l audit_env \<Rightarrow> (string \<Rightarrow> safeAuditRecord) \<Rightarrow> 'l aud \<Rightarrow> bool" where
  "ready E rec a = (au_ancestors a \<noteq> [] \<and>
     list_all (\<lambda>dir. case dir of Some info \<Rightarrow> ancestorCheck E info = None | None \<Rightarrow> False) (au_ancestors a) \<and>
     lockable E (case find_file lockFileName a of Some lock \<Rightarrow> sf_info lock | None \<Rightarrow> ae_lock_info E) \<and>
     spool_in_order E a rec)"

definition locked :: "'l audit_env \<Rightarrow> 'l aud \<Rightarrow> 'l aud" where
  "locked E a = chmod_file lockFileName mode_0600 (touchLockFile E a)"

lemma healthy_sys: "healthy E obs \<Longrightarrow> sys E wrap a = (Inr (), a\<lparr>au_tick := Suc (au_tick a)\<rparr>)"
  by (simp add: healthy_def sys_def)

lemma healthy_faults: "healthy E obs \<Longrightarrow> no_faults_from E n"
  by (simp add: healthy_def no_faults_from_def)

section \<open>The lock\<close>

lemma parents_ok:
  assumes "healthy E obs"
  shows "list_all (\<lambda>dir. case dir of Some info \<Rightarrow> ancestorCheck E info = None | None \<Rightarrow> False) dirs \<Longrightarrow>
    \<exists>t. verifyMutationSpoolParent E dirs a = (Inr (), a\<lparr>au_tick := t\<rparr>)"
proof (induction dirs arbitrary: a)
  case Nil
  show ?case by (intro exI [of _ "au_tick a"]) simp
next
  case (Cons dir dirs)
  then obtain info where dir: "dir = Some info" "ancestorCheck E info = None" by (auto split: option.splits)
  obtain t where "verifyMutationSpoolParent E dirs (a\<lparr>au_tick := Suc (au_tick a)\<rparr>) = (Inr (), a\<lparr>au_tick := t\<rparr>)"
    using Cons.IH [of "a\<lparr>au_tick := Suc (au_tick a)\<rparr>"] Cons.prems by auto
  then show ?case
    using dir assms by (auto simp: seqE_run sys_io_def healthy_sys check_def)
qed

lemma find_touch [simp]:
  "find_file n (touchLockFile E a) = (if n = lockFileName \<and> find_file n a = None
     then Some \<lparr>sf_info = ae_lock_info E, sf_content = Content_Text ''''\<rparr> else find_file n a)"
  by (auto simp: touchLockFile_def split: option.split)

lemma acquire_ok:
  assumes h: "healthy E obs" and r: "ready E rec a"
  shows "\<exists>t. acquireMutationAuditQueue E a = (Inr (), (locked E a)\<lparr>au_tick := t\<rparr>)"
proof -
  obtain info ups where anc: "au_ancestors a = Some info # ups" "ancestorCheck E info = None"
    using r by (cases "au_ancestors a") (auto simp: ready_def split: option.splits)
  then have dir: "fi_dir info" "\<not> fi_symlink info" by (auto simp: ancestorCheck_def split: if_splits)
  obtain sd where sd: "au_spool_dir a = Some sd" "spoolDirectoryCheck E sd (spoolPath E) = None"
    using r by (auto simp: ready_def spool_in_order_def)
  then have euid: "0 \<le> ae_euid E"
    by (auto simp: spoolDirectoryCheck_def verifyMutationSpoolOwner_def effectiveMutationSpoolUID_def split: if_splits)
  obtain t where parents: "verifyMutationSpoolParent E (au_ancestors a) (a\<lparr>au_tick := Suc (au_tick a)\<rparr>) = (Inr (), a\<lparr>au_tick := t\<rparr>)"
    using parents_ok [OF h, of "au_ancestors a" "a\<lparr>au_tick := Suc (au_tick a)\<rparr>"] r by (auto simp: ready_def)
  have one: "ensureMutationAuditDirectory E 0 (au_ancestors a) a = (Inr (), a\<lparr>au_tick := Suc (au_tick a)\<rparr>)"
    using anc(1) dir h by (simp add: seqE_run sys_io_def healthy_sys guardE_run)
  have two: "ensureMutationSpoolDirectory E (a\<lparr>au_tick := Suc (au_tick a)\<rparr>) = (Inr (), a\<lparr>au_tick := Suc (Suc t)\<rparr>)"
    using parents sd h
    by (simp add: ensureMutationSpoolDirectory_def ensureDirectory_def seqE_run sys_io_def healthy_sys check_def)
  obtain lock where lock: "find_file lockFileName (touchLockFile E a) = Some lock" "lockable E (sf_info lock)"
    using r by (auto simp: ready_def split: option.splits)
  have tick: "touchLockFile E (a\<lparr>au_tick := k\<rparr>) = (touchLockFile E a)\<lparr>au_tick := k\<rparr>"
    "chmod_file n p (b\<lparr>au_tick := k\<rparr>) = (chmod_file n p b)\<lparr>au_tick := k\<rparr>" for k n p and b :: "'a aud"
    by (simp_all add: touchLockFile_def chmod_file_def put_file_def split: option.split)
  have "find_file lockFileName (locked E a) = Some (lock\<lparr>sf_info := (sf_info lock)\<lparr>fi_perm := mode_0600\<rparr>\<rparr>)"
    using lock(1) by (simp add: locked_def chmod_file_def)
  moreover have "spoolFileCheck E ((sf_info lock)\<lparr>fi_perm := mode_0600\<rparr>) path = None" for path
    using lock(2) euid by (simp add: lockable_def spoolFileCheck_None)
  ultimately have "secureMutationSpoolFile E lockFileName ((touchLockFile E a)\<lparr>au_tick := k\<rparr>) =
      (Inr (), (locked E a)\<lparr>au_tick := Suc (Suc k)\<rparr>)" for k
    using lock euid h
    by (simp add: secureMutationSpoolFile_def verifyMutationSpoolFile_def seqE_run sys_io_def healthy_sys guardE_run
        check_def tick flip: locked_def)
  then show ?thesis
    using one two h by (auto simp: acquireMutationAuditQueue_def seqE_run tryE_run healthy_sys tick)
qed

lemma find_locked: "n \<noteq> lockFileName \<Longrightarrow> find_file n (locked E a) = find_file n a"
  by (auto simp: locked_def chmod_file_def split: option.split)

lemma locked_same: "au_log (locked E a) = au_log a" "au_spool_dir (locked E a) = au_spool_dir a"
  by (simp_all add: locked_def touchLockFile_def chmod_file_def put_file_def split: option.split)

lemma locked_distinct: "distinct (map fst (au_files a)) \<Longrightarrow> distinct (map fst (au_files (locked E a)))"
  by (simp add: locked_def touchLockFile_def chmod_file_def put_file_def split: option.split)

text \<open>The lock file is not a record: the spool is in order with and without it.\<close>

lemma in_order_cong:
  assumes "spool_in_order E a rec" and "\<And>n. n \<noteq> lockFileName \<Longrightarrow> find_file n a' = find_file n a"
    and "au_spool_dir a' = au_spool_dir a" and "distinct (map fst (au_files a'))"
  shows "spool_in_order E a' rec" and "pendingRecords a' = pendingRecords a"
proof -
  have rf: "find_file n a' = find_file n a" if "recordFile n" for n
    using that assms(2) by (simp add: recordFile_def)
  have sq: "find_file sequenceFileName a' = find_file sequenceFileName a"
    using assms(2) by (simp add: sequenceFileName_def lockFileName_def)
  have cov: "sequence_covers E a' \<longleftrightarrow> sequence_covers E a"
  proof -
    have "(find_file n a' = Some f \<longrightarrow> recordFile n \<longrightarrow> Q) = (find_file n a = Some f \<longrightarrow> recordFile n \<longrightarrow> Q)"
      "(recordFile n \<longrightarrow> find_file n a' = None) = (recordFile n \<longrightarrow> find_file n a = None)" for n f Q
      using rf by metis+
    then show ?thesis unfolding sequence_covers_def sequence_file_def by (simp only: sq)
  qed
  have rep: "replayable E a' n r = replayable E a n r" if "recordFile n" for n r
    using rf [OF that] by (simp add: replayable_def)
  show "spool_in_order E a' rec"
    using assms(1,3,4) rf rep cov unfolding spool_in_order_def by metis
  have d: "distinct (map fst (au_files a))" using assms(1) by (simp add: spool_in_order_def)
  have mem: "n \<in> fst ` set (au_files b) \<longleftrightarrow> find_file n b \<noteq> None" for n and b :: "'a aud"
    by (simp add: find_file_def map_of_eq_None_iff)
  have "set (filter recordFile (map fst (au_files a'))) = set (filter recordFile (map fst (au_files a)))"
    using rf mem by auto
  then show "pendingRecords a' = pendingRecords a"
    unfolding pendingRecords_def using d assms(4) by (intro sorted_distinct_set_unique) simp_all
qed

lemma queue_ok:
  assumes h: "healthy E obs" and r: "ready E rec a"
    and act: "\<And>t. \<exists>x a'. action ((locked E a)\<lparr>au_tick := t\<rparr>) = (Inr x, a') \<and> P x (au_log a') (\<lambda>n. find_file n a')"
  shows "\<exists>x a'. withQueueLock E msg action a = (Inr x, a') \<and> P x (au_log a') (\<lambda>n. find_file n a')"
proof -
  obtain t where acq: "acquireMutationAuditQueue E a = (Inr (), (locked E a)\<lparr>au_tick := t\<rparr>)"
    using acquire_ok [OF h r] by blast
  obtain sd where sd: "au_spool_dir a = Some sd" "spoolDirectoryCheck E sd (spoolPath E) = None"
    using r by (auto simp: ready_def spool_in_order_def)
  have ver: "verifyMutationSpoolDirectory E ((locked E a)\<lparr>au_tick := t\<rparr>) = (Inr (), (locked E a)\<lparr>au_tick := Suc t\<rparr>)"
    using sd h by (simp add: verifyMutationSpoolDirectory_def seqE_run sys_io_def healthy_sys check_def locked_same)
  obtain x a' where a': "action ((locked E a)\<lparr>au_tick := Suc t\<rparr>) = (Inr x, a')" "P x (au_log a') (\<lambda>n. find_file n a')"
    using act by blast
  have "releaseMutationAuditLock E 20 a' = (Inr (), a'\<lparr>au_tick := Suc (au_tick a')\<rparr>)"
    using h by (simp add: numeral_eq_Suc tryE_run healthy_sys)
  then have "withQueueLock E msg action a = (Inr x, a'\<lparr>au_tick := Suc (au_tick a')\<rparr>)"
    using acq ver a'(1) by (simp add: withQueueLock_def seqE_run tryE_run)
  then show ?thesis using a'(2) by (intro exI [of _ x] exI [of _ "a'\<lparr>au_tick := Suc (au_tick a')\<rparr>"]) simp
qed

lemma replay_locked:
  assumes h: "healthy E obs" and r: "ready E rec a"
  shows "\<exists>a'. replayMutationAuditSpoolLocked E f ((locked E a)\<lparr>au_tick := t, au_entered := b\<rparr>) = (Inr (), a') \<and>
    obs (au_log a') = obs (au_log a) @ map (marshalled_record \<circ> rec) (pendingRecords a) \<and>
    (\<forall>n. recordFile n \<longrightarrow> find_file n a' = None)"
proof -
  let ?a = "(locked E a)\<lparr>au_tick := t, au_entered := b\<rparr>"
  have so: "spool_in_order E a rec" using r by (simp add: ready_def)
  have find: "find_file n ?a = find_file n (locked E a)" for n by (simp add: find_file_def)
  have d: "distinct (map fst (au_files ?a))"
    using so locked_distinct [of a E] by (simp add: spool_in_order_def)
  have "spool_in_order E ?a rec" "pendingRecords ?a = pendingRecords a"
    using in_order_cong [OF so, of ?a] d unfolding find by (simp_all add: find_locked locked_same)
  then show ?thesis
    using replay_complete [of E obs ?a rec f] h healthy_faults [OF h] by (simp add: healthy_def locked_same)
qed

section \<open>A file is written\<close>

lemma writeTemp_works:
  assumes h: "healthy E obs" and fresh: "find_file (target @ ''.tmp'') a = None" and euid: "0 \<le> ae_euid E"
  shows "\<exists>a'. writeTempAndCommit E target c what a = (Inr (), a')"
proof -
  let ?t = "target @ ''.tmp''"
  let ?f = "\<lparr>sf_info = new_info E False mode_0600, sf_content = Content_Text ''''\<rparr>"
  have check: "spoolFileCheck E ((new_info E False mode_0600)\<lparr>fi_perm := mode_0600\<rparr>) path = None" for path
    using euid by (simp add: spoolFileCheck_None new_info_def)
  have create: "createTemp E ?t what a = (Inr (), put_file ?t ?f (a\<lparr>au_tick := Suc (au_tick a)\<rparr>))"
    using fresh h by (simp add: createTemp_def seqE_run sys_io_def healthy_sys guardE_run)
  have step: "\<exists>b'. fillTemp E ?t target c what b = (Inr (), b')" if "find_file ?t b = Some ?f" for b
  proof -
    have found: "find_file ?t (b\<lparr>au_tick := k\<rparr>) = Some ?f" for k using that by (simp add: find_file_def)
    have f2: "find_file ?t (chmod_file ?t mode_0600 (b\<lparr>au_tick := k\<rparr>)) =
        Some (?f\<lparr>sf_info := (new_info E False mode_0600)\<lparr>fi_perm := mode_0600\<rparr>\<rparr>)" for k
      using found [of k] by (simp add: chmod_file_def)
    have f3: "find_file ?t (set_content ?t c e) = map_option (\<lambda>f. f\<lparr>sf_content := c\<rparr>) (find_file ?t e)"
      for e :: "'a aud"
      by (simp add: set_content_def split: option.split)
    show ?thesis
      unfolding fillTemp_def secureMutationSpoolFile_def verifyMutationSpoolFile_def commitMutationSpoolFile_def
        syncMutationSpoolDirectory_def
      using h found f2 check f3
      by (simp add: seqE_run tryE_run sys_io_def healthy_sys guardE_run check_def)
  qed
  obtain b' where "fillTemp E ?t target c what (put_file ?t ?f (a\<lparr>au_tick := Suc (au_tick a)\<rparr>)) = (Inr (), b')"
    using step [of "put_file ?t ?f (a\<lparr>au_tick := Suc (au_tick a)\<rparr>)"] by auto
  then show ?thesis
    using create by (simp add: writeTempAndCommit_def Let_def seqE_run tryE_run)
qed

section \<open>Intents and outcomes are written\<close>

lemma append_works:
  assumes "healthy E obs" and "validateSafeAuditRecord r = None"
  shows "\<exists>a'. appendMutationAuditRecord E f r a = (Inr (), a') \<and>
    obs (au_log a') = obs (au_log a) @ [marshalled_record r] \<and> (\<forall>n. find_file n a' = find_file n a)"
proof -
  obtain l where "appendMutationAuditRecord E f r a = (Inr (), a\<lparr>au_tick := Suc (au_tick a), au_log := l\<rparr>)"
    "obs l = obs (au_log a) @ [marshalled_record r]"
    using append_ok [of E obs a r f, OF _ healthy_faults [OF assms(1)] assms(2)] assms(1)
    unfolding healthy_def by blast
  then show ?thesis by (auto simp: find_file_def)
qed

lemma begin_works:
  assumes h: "healthy E obs" and r: "ready E rec a"
    and path: "resolveAuditPath E spec = Inr path" and action: "trim_space (sp_Action spec) \<noteq> ''''"
  shows "\<exists>handle now a'. beginMutationAudit E f spec a = (Inr handle, a') \<and> mh_spec handle = spec \<and>
    obs (au_log a') = obs (au_log a) @ map (marshalled_record \<circ> rec) (pendingRecords a) @
      [marshalled_record (handle_record (ae_su E) f now handle mutationAuditPhaseIntent None)] \<and>
    (\<forall>n. recordFile n \<longrightarrow> find_file n a' = None)"
proof -
  let ?done = "\<lambda>handle l files. mh_spec handle = spec \<and>
    (\<exists>now. obs l = obs (au_log a) @ map (marshalled_record \<circ> rec) (pendingRecords a) @
      [marshalled_record (handle_record (ae_su E) f now handle mutationAuditPhaseIntent None)]) \<and>
    (\<forall>n. recordFile n \<longrightarrow> files n = None)"
  let ?action = "tryE (replayMutationAuditSpoolLocked E f) (\<lambda>replayed.
         case replayed of
           Inl _ \<Rightarrow> throw (auditIncompleteError '''' False)
         | Inr _ \<Rightarrow>
             seqE (newMutationID_op E) (\<lambda>id.
             seqE (now_op E) (\<lambda>now.
             let k = \<lparr>mh_id = id, mh_path = path, mh_spec = spec\<rparr> in
             tryE (appendMutationAuditRecord E f
                    (handle_record (ae_su E) f now k mutationAuditPhaseIntent None)) (\<lambda>appended.
             case appended of
               Inr _ \<Rightarrow> ret k
             | Inl e \<Rightarrow> intentNotPersisted E f k e))))"
  have "\<exists>x a'. ?action ((locked E a)\<lparr>au_tick := t\<rparr>) = (Inr x, a') \<and> ?done x (au_log a') (\<lambda>n. find_file n a')" for t
  proof -
    obtain b where rep: "replayMutationAuditSpoolLocked E f ((locked E a)\<lparr>au_tick := t\<rparr>) = (Inr (), b)"
      and log: "obs (au_log b) = obs (au_log a) @ map (marshalled_record \<circ> rec) (pendingRecords a)"
      and gone: "\<And>n. recordFile n \<Longrightarrow> find_file n b = None"
      using replay_locked [OF h r, where f = f and t = t and b = "au_entered (locked E a)"] by (auto simp: comp_def)
    obtain bytes where id: "ae_random E (au_rand b) = Some bytes" using h by (auto simp: healthy_def)
    let ?h = "\<lparr>mh_id = hex_encode bytes, mh_path = path, mh_spec = spec\<rparr>"
    let ?b = "b\<lparr>au_rand := Suc (au_rand b), au_time := Suc (au_time b)\<rparr>" and ?now = "ae_clock E (au_time b)"
    obtain c where app: "appendMutationAuditRecord E f (handle_record (ae_su E) f ?now ?h mutationAuditPhaseIntent None) ?b = (Inr (), c)"
      and "obs (au_log c) = obs (au_log ?b) @ [marshalled_record (handle_record (ae_su E) f ?now ?h mutationAuditPhaseIntent None)]"
      "\<And>n. find_file n c = find_file n ?b"
      using append_works [OF h handle_record_safe] by blast
    then have "?done ?h (au_log c) (\<lambda>n. find_file n c)" using log gone by (auto simp: find_file_def)
    moreover have "?action ((locked E a)\<lparr>au_tick := t\<rparr>) = (Inr ?h, c)"
      using rep id app by (simp add: tryE_run seqE_run newMutationID_op_def newMutationID_def now_op_def Let_def)
    ultimately show ?thesis by blast
  qed
  from queue_ok [OF h r, of ?action ?done, OF this, of "''failed to release mutation audit queue lock''"]
  obtain handle a' where "withMutationAuditQueue E ?action a = (Inr handle, a')" "?done handle (au_log a') (\<lambda>n. find_file n a')"
    unfolding withMutationAuditQueue_def by blast
  moreover from this(1) have "beginMutationAudit E f spec a = (Inr handle, a')"
    using path action by (simp add: beginMutationAudit_def seqE_run)
  ultimately show ?thesis by blast
qed

lemma finish_works:
  assumes h: "healthy E obs" and r: "ready E rec a"
  shows "\<exists>now a'. finishMutationAudit E f handle oc err a = (Inr (), a') \<and>
    obs (au_log a') = obs (au_log a) @ map (marshalled_record \<circ> rec) (pendingRecords a) @
      [marshalled_record (outcomeRecord E f now handle (normalizeMutationAuditOutcome (ae_asApp E) oc err))] \<and>
    (\<forall>n. recordFile n \<longrightarrow> find_file n a' = None)"
proof -
  let ?oc = "normalizeMutationAuditOutcome (ae_asApp E) oc err"
  let ?a = "a\<lparr>au_entered := False\<rparr>"
  let ?done = "\<lambda>(x :: unit) l files. (\<exists>now. obs l = obs (au_log a) @ map (marshalled_record \<circ> rec) (pendingRecords a) @
      [marshalled_record (outcomeRecord E f now handle ?oc)]) \<and> (\<forall>n. recordFile n \<longrightarrow> files n = None)"
  let ?action = "seqE (modS (\<lambda>a. a\<lparr>au_entered := True\<rparr>)) (\<lambda>_. persistOutcome E f handle ?oc)"
  have r0: "ready E rec ?a"
    using r in_order_cong(1) [of E a rec ?a] by (simp add: ready_def find_file_def spool_in_order_def)
  have pend: "pendingRecords ?a = pendingRecords a" by (simp add: pendingRecords_def)
  have "\<exists>x a'. ?action ((locked E ?a)\<lparr>au_tick := t\<rparr>) = (Inr x, a') \<and> ?done x (au_log a') (\<lambda>n. find_file n a')" for t
  proof -
    obtain b where rep: "replayMutationAuditSpoolLocked E f ((locked E ?a)\<lparr>au_tick := t, au_entered := True\<rparr>) = (Inr (), b)"
      and log: "obs (au_log b) = obs (au_log a) @ map (marshalled_record \<circ> rec) (pendingRecords a)"
      and gone: "\<And>n. recordFile n \<Longrightarrow> find_file n b = None"
      using replay_locked [OF h r0, where f = f and t = t and b = True] pend by (auto simp: comp_def)
    let ?b = "b\<lparr>au_time := Suc (au_time b)\<rparr>"
    let ?r = "outcomeRecord E f (ae_clock E (au_time b)) handle ?oc"
    have "validateSafeAuditRecord ?r = None" unfolding outcomeRecord_def by (rule handle_record_safe)
    then obtain c where app: "appendMutationAuditRecord E f ?r ?b = (Inr (), c)"
      and "obs (au_log c) = obs (au_log ?b) @ [marshalled_record ?r]" "\<And>n. find_file n c = find_file n ?b"
      using append_works [OF h] by blast
    then have "?done () (au_log c) (\<lambda>n. find_file n c)" using log gone by (auto simp: find_file_def)
    moreover have "?action ((locked E ?a)\<lparr>au_tick := t\<rparr>) = (Inr (), c)"
      using rep app by (simp add: tryE_run seqE_run persistOutcome_def clock_result Let_def)
    ultimately show ?thesis by blast
  qed
  from queue_ok [OF h r0, of ?action ?done, OF this, of "''failed to release mutation audit queue lock''"]
  obtain x a' where q: "withMutationAuditQueue E ?action ?a = (Inr x, a')" and "?done x (au_log a') (\<lambda>n. find_file n a')"
    unfolding withMutationAuditQueue_def by blast
  moreover from q have "finishMutationAudit E f handle oc err a = (Inr (), a')"
    by (simp add: finishMutationAudit_def seqE_run tryE_run Let_def)
  ultimately show ?thesis by blast
qed

end
