(* ===== verification/Audit_Demo.thy ===== *)
theory Audit_Demo
  imports Audit_Liveness
begin

text \<open>
  A concrete machine on which the theorems about the audit are instantiated: a log that is the list of
  its records, a file system without faults on which the current user owns everything, a clock that
  ticks and a random source of constant bytes.
\<close>

definition demo_su :: surroundings where
  "demo_su = \<lparr>su_store = Inr \<lparr>cf_CurrentContext = '''', cf_Contexts = []\<rparr>, su_user = Inr ''ann'', su_host = Inr ''host''\<rparr>"

definition demo_dir :: file_info where
  "demo_dir = \<lparr>fi_dir = True, fi_regular = False, fi_symlink = False, fi_sticky = False, fi_perm = mode_0700, fi_uid = 7\<rparr>"

definition demo_file_info :: file_info where
  "demo_file_info = \<lparr>fi_dir = False, fi_regular = True, fi_symlink = False, fi_sticky = False, fi_perm = mode_0600,
     fi_uid = 7\<rparr>"

definition demo_env :: "safeAuditRecord list audit_env" where
  "demo_env = \<lparr>ae_fault = (\<lambda>_. None), ae_clock = (\<lambda>n. \<lparr>gt_nanos = int n + 1, gt_offset = 0\<rparr>),
     ae_random = (\<lambda>_. Some (replicate 16 (CHR 0x2A))), ae_euid = 7, ae_umask = 0, ae_lock_info = demo_file_info,
     ae_append = (\<lambda>_ r l. (l @ [marshalled_record r], AppendCommitCommitted, None)),
     ae_log_info = (\<lambda>l. if l = [] then None else Some demo_file_info), ae_decode = (\<lambda>_. Inl (OtherError ''json'')),
     ae_json_len = (\<lambda>_. 1000), ae_path = ''/log'', ae_default_path = Inr ''/log'', ae_default_max_size = 1000000,
     ae_asApp = (\<lambda>e. (CodeLocalIOError, ''error'')), ae_su = demo_su\<rparr>"

text \<open>The same machine with a log that refuses every append and leaves it out.\<close>

definition demo_refusing :: "safeAuditRecord list audit_env" where
  "demo_refusing = demo_env\<lparr>ae_append := (\<lambda>_ r l. (l, AppendCommitNotCommitted, Some (OtherError ''disk full'')))\<rparr>"

definition demo_aud :: "safeAuditRecord list aud" where
  "demo_aud = \<lparr>au_tick = 0, au_time = 0, au_rand = 0, au_log = [], au_ancestors = [Some demo_dir],
     au_spool_dir = Some demo_dir, au_files = [], au_entered = False\<rparr>"

definition demo_flags :: cliFlags where "demo_flags = newDefaultFlags 1000000"

definition demo_spec :: mutationAuditSpec where
  "demo_spec = \<lparr>sp_Action = ''mq.topic.create'', sp_ContextName = ''direct'', sp_Context = no_context,
     sp_Target = \<lparr>et_ResourceType = ''topic'', et_Resource = ''orders''\<rparr>, sp_Metadata = no_metadata\<lparr>md_Items := 1\<rparr>,
     sp_AuditPath = '''', sp_Read = False\<rparr>"

definition demo_handle :: mutationAuditHandle where
  "demo_handle = \<lparr>mh_id = hex_encode (replicate 16 (CHR 0x2A)), mh_path = ''/log'', mh_spec = demo_spec\<rparr>"

lemma demo_contract: "append_contract demo_env id" "append_contract demo_refusing id"
  by (simp_all add: append_contract_def commit_effect_def demo_env_def demo_refusing_def)

lemma demo_id: "operation_id (mh_id demo_handle)"
  by code_simp

lemma demo_works: "healthy demo_env id"
  by (simp add: healthy_def log_works_def demo_env_def demo_file_info_def)

lemma demo_ready: "ready demo_env rec demo_aud"
proof -
  have "ancestorCheck demo_env demo_dir = None" "lockable demo_env (ae_lock_info demo_env)"
    "spoolDirectoryCheck demo_env demo_dir (spoolPath demo_env) = None"
    by code_simp+
  then show ?thesis
    by (simp add: ready_def spool_in_order_def sequence_covers_def demo_aud_def find_file_def)
qed

lemma demo_path: "resolveAuditPath demo_env demo_spec = Inr ''/log''" "trim_space (sp_Action demo_spec) \<noteq> ''''"
  by code_simp+

lemma demo_begin: "\<exists>h a'. beginMutationAudit demo_env f demo_spec demo_aud = (Inr h, a')"
  using begin_works [OF demo_works demo_ready demo_path] by blast

lemma demo_finish: "\<exists>a'. finishMutationAudit demo_env f h oc err demo_aud = (Inr (), a')"
  using finish_works [OF demo_works demo_ready] by blast

end
