(* ===== verification/Audit_Fifo.thy ===== *)
theory Audit_Fifo
  imports Audit_Replay_Complete
begin

text \<open>
  The spool is a queue: a record that is written to a spool in order leaves it in order and stands behind every
  record that was pending, so that a replay appends it last.
\<close>

section \<open>The order of the names\<close>

lemma digits_of_value: "list_all is_digit u \<Longrightarrow> digits_width (length u) (digits_value u) = u"
proof (induction u rule: rev_induct)
  case (snoc c u)
  then have "digit_val c < 10" "digit_char (digit_val c) = c"
    by (auto simp: is_digit_iff digit_val_def digit_char_def)
  then show ?case using snoc by simp
qed simp

lemma digits_value_bound: "list_all is_digit u \<Longrightarrow> digits_value u < 10 ^ length u"
proof (induction u rule: rev_induct)
  case (snoc c u)
  then have "digit_val c < 10" by (auto simp: is_digit_iff digit_val_def)
  then show ?case using snoc by simp
qed simp

lemma index_byte_split: "index_byte s c = Some k \<Longrightarrow> k < length s"
  by (induction s arbitrary: k) (auto split: if_splits option.splits)

text \<open>A name with the sequence number \<open>t\<close> begins with its twenty digits.\<close>

lemma sequence_digits:
  assumes "mutationSpoolNameSequence m = Inr t"
  shows "take 20 m = show_pad20 (unat t)"
proof -
  let ?u = "take 20 m"
  have ix: "index_byte m (CHR ''-'') = Some 20" and p: "parse_uint64 ?u = Some t"
    using assms by (auto simp: mutationSpoolNameSequence_def split: if_splits option.splits)
  have len: "length ?u = 20" using index_byte_split [OF ix] by simp
  have d: "list_all is_digit ?u" "digits_value ?u < 2 ^ 64" "t = of_nat (digits_value ?u)"
    using p by (auto simp: parse_uint64_def split: if_splits)
  then have "unat t = digits_value ?u" by (simp add: unsigned_of_nat take_bit_nat_eq_self)
  moreover have "digits_value ?u < 10 ^ 20" using digits_value_bound [OF d(1)] len by simp
  ultimately show ?thesis using digits_of_value [OF d(1)] len by (simp add: show_pad20_def)
qed

lemma name_before:
  assumes "mutationSpoolNameSequence m = Inr t" and "t < s"
  shows "m < spoolRecordName s i"
proof -
  have "m = show_pad20 (unat t) @ drop 20 m" using sequence_digits [OF assms(1)] by (metis append_take_drop_id)
  moreover have "show_pad20 (unat t) < show_pad20 (unat s)"
    using assms(2) show_pad20_less [OF unat_64 unat_64, of t s] by (simp add: word_less_nat_alt)
  moreover have "length (show_pad20 (unat t)) = length (show_pad20 (unat s))"
    by (simp add: length_show_pad20 [OF unat_64])
  ultimately show ?thesis unfolding spoolRecordName_def by (metis list_less_append)
qed

section \<open>A write keeps the spool in order\<close>

definition same_shape :: "'l aud \<Rightarrow> 'l aud \<Rightarrow> bool" where
  "same_shape a a' = (au_spool_dir a' = au_spool_dir a \<and>
     (distinct (map fst (au_files a)) \<longrightarrow> distinct (map fst (au_files a'))))"

interpretation shape: op_relation same_shape
  by unfold_locales (auto simp: same_shape_def)

lemma quiet_shape: "quiet.keeps m \<Longrightarrow> shape.keeps m"
  by (simp add: quiet.keeps_def shape.keeps_def same_store_def same_shape_def)

lemma shape_put: "same_shape a (put_file n f a)" "same_shape a (del_file n a)"
  by (simp_all add: same_shape_def put_file_def del_file_def)

lemma shape_mod:
  "shape.keeps (modS (put_file n f))" "shape.keeps (modS (del_file n))" "shape.keeps (modS (chmod_file n p))"
  "shape.keeps (modS (set_content n c))" "shape.keeps (modS (rename_file n m))"
  using shape.R_trans [OF shape_put(2) shape_put(1)]
  by (auto simp: shape.keeps_def chmod_file_def set_content_def rename_file_def shape_put shape.R_refl split: option.split)

lemmas shape_rules = shape.keeps_rules shape_mod quiet_verify [THEN quiet_shape] quiet_reads [THEN quiet_shape]
  quiet_sys [THEN quiet_shape] quiet_check [THEN quiet_shape]

lemma shape_write: "shape.keeps (writeMutationSpoolRecord E r)"
  unfolding writeMutationSpoolRecord_def nextMutationSpoolSequence_def writeMutationSpoolSequence_def
    writeTempAndCommit_def createTemp_def fillTemp_def removeTemp_def commitMutationSpoolFile_def
    secureMutationSpoolFile_def Let_def
  by (intro shape_rules)

lemma next_sequence_positive:
  assumes "nextMutationSpoolSequence E a = (Inr n, a')"
  shows "n \<noteq> 0"
proof -
  obtain c :: "64 word" where "c \<noteq> - 1" "n = c + 1"
    using assms unfolding nextMutationSpoolSequence_def Let_def by (auto elim!: seqE_Inr split: if_splits option.splits)
  then show ?thesis by (metis add.inverse_unique add.commute)
qed

text \<open>What a write does to the directory.\<close>

lemma write_effect:
  assumes "writeMutationSpoolRecord E r a = (Inr x, a')"
  obtains s f where "find_file (spoolRecordName s (auditRecordID r)) a' = Some f"
    "sf_content f = Content_Record (marshalled_record r)" "private_file E f" "s \<noteq> 0" "sequence_file E a' s"
    "\<And>m. m \<noteq> spoolRecordName s (auditRecordID r) \<Longrightarrow> recordFile m \<Longrightarrow> find_file m a' = None \<or> find_file m a' = find_file m a"
    "\<And>m g. find_file m a = Some g \<Longrightarrow> recordFile m \<Longrightarrow> find_file m a' = Some g \<and>
       (\<exists>t. mutationSpoolNameSequence (pendingName m) = Inr t \<and> t < s)"
    "au_log a' = au_log a"
proof -
  obtain s a1 where n: "nextMutationSpoolSequence E a = (Inr s, a1)"
    and w: "writeTempAndCommit E (spoolRecordName s (auditRecordID r))
       (Content_Record (marshalled_record r)) ''mutation outcome spool'' a1 = (Inr (), a')"
    using assms unfolding writeMutationSpoolRecord_def by (auto elim!: seqE_Inr simp: guardE_Inr)
  let ?n = "spoolRecordName s (auditRecordID r)"
  obtain f where f: "find_file ?n a' = Some f" "sf_content f = Content_Record (marshalled_record r)" "private_file E f"
    using writeTemp_Inr(1) [OF w] by blast
  have "sequenceFileName \<noteq> ?n" "sequenceFileName \<noteq> ?n @ ''.tmp''"
  proof -
    show "sequenceFileName \<noteq> ?n" using recordName_facts(1) recordName_facts(2) [of s "auditRecordID r"] by metis
    have "last sequenceFileName \<noteq> last (?n @ ''.tmp'')" by (simp add: sequenceFileName_def)
    then show "sequenceFileName \<noteq> ?n @ ''.tmp''" by metis
  qed
  then have "sequence_file E a' s"
    using next_sequence_Inr(2) [OF n] writeTemp_Inr(3) [OF w] by (auto simp: sequence_file_def)
  moreover have "find_file m a' = None \<or> find_file m a' = find_file m a" if m: "m \<noteq> ?n" "recordFile m" for m
  proof (cases "m = ?n @ ''.tmp''")
    case True
    then show ?thesis using writeTemp_Inr(2) [OF w] by simp
  next
    case False
    then have e: "find_file m a' = find_file m a1" using writeTemp_Inr(3) [OF w] m(1) by blast
    show ?thesis
    proof (cases "m = sequenceFileName @ ''.tmp''")
      case True
      then show ?thesis using e next_sequence_Inr(4) [OF n] by simp
    next
      case False
      then show ?thesis
        using e next_sequence_Inr(3) [OF n] m(2) by (auto simp: touches_def recordFile_def)
    qed
  qed
  moreover obtain s' f' where other: "find_file (spoolRecordName s' (auditRecordID r)) a' = Some f'"
      "find_file (spoolRecordName s' (auditRecordID r)) a = None"
      "\<forall>m file. find_file m a = Some file \<longrightarrow> recordFile m \<longrightarrow>
         find_file m a' = Some file \<and> (\<exists>t. mutationSpoolNameSequence (pendingName m) = Inr t \<and> t < s')"
      "au_log a' = au_log a"
    using write_record_Inr [OF assms] by blast
  moreover have "mutationSpoolNameSequence (pendingName m) = Inr t \<Longrightarrow> t < s"
    if "find_file m a = Some g" "recordFile m" for m g t
    using next_sequence_Inr(1) [OF n that] by auto
  ultimately show thesis
    using that [of s f] f next_sequence_positive [OF n] by (metis (no_types, lifting))
qed

lemma write_in_order:
  assumes order: "spool_in_order E a rec" and wr: "writeMutationSpoolRecord E r a = (Inr x, a')"
    and valid: "\<And>s. validateMutationSpoolRecord r (spoolRecordName s (auditRecordID r)) = None"
    and small: "Suc (ae_json_len E (marshalled_record r)) \<le> maxMutationSpoolRecordSize"
  shows "\<exists>n. n \<notin> set (pendingRecords a) \<and> spool_in_order E a' (rec(n := marshalled_record r)) \<and>
    pendingRecords a' = pendingRecords a @ [n] \<and> au_log a' = au_log a"
proof -
  obtain s f where f: "find_file (spoolRecordName s (auditRecordID r)) a' = Some f"
    "sf_content f = Content_Record (marshalled_record r)" "private_file E f"
    and s: "s \<noteq> 0" "sequence_file E a' s"
    and only: "\<And>m. m \<noteq> spoolRecordName s (auditRecordID r) \<Longrightarrow> recordFile m \<Longrightarrow>
       find_file m a' = None \<or> find_file m a' = find_file m a"
    and kept: "\<And>m g. find_file m a = Some g \<Longrightarrow> recordFile m \<Longrightarrow> find_file m a' = Some g \<and>
       (\<exists>t. mutationSpoolNameSequence (pendingName m) = Inr t \<and> t < s)"
    and log: "au_log a' = au_log a"
    using write_effect [OF wr] by blast
  let ?n = "spoolRecordName s (auditRecordID r)" and ?rec = "rec(spoolRecordName s (auditRecordID r) := marshalled_record r)"
  have rec: "recordFile ?n"
    using recordName_facts(1,4) recordName_facts(2) [of s "auditRecordID r"] unfolding recordFile_def by metis
  have sq: "mutationSpoolNameSequence ?n = Inr s" by (rule spoolRecordName_sequence)
  have ready: "replayable E a m (rec m)" if "find_file m a = Some g" "recordFile m" for m g
    using order that unfolding spool_in_order_def by blast
  have old: "\<exists>t. mutationSpoolNameSequence m = Inr t \<and> t < s \<and> t \<noteq> 0" if m: "find_file m a = Some g" "recordFile m" for m g
  proof -
    have "validMutationSpoolName m" using ready [OF m] validateRecord_name by (auto simp: replayable_def)
    then have "pendingName m = m" using pendingName_idle by (simp add: validMutationSpoolName_def)
    then obtain t where t: "mutationSpoolNameSequence m = Inr t" "t < s" using kept [OF m] by auto
    have "sequence_covers E a" using order by (simp add: spool_in_order_def)
    then have "t \<noteq> 0" using t(1) m by (cases rule: sequence_covers_cases) fastforce+
    then show ?thesis using t by blast
  qed
  have fresh: "find_file ?n a = None" using old [of ?n] rec sq by (cases "find_file ?n a") auto
  have which: "m = ?n \<and> g = f \<or> m \<noteq> ?n \<and> find_file m a = Some g" if "find_file m a' = Some g" "recordFile m" for m g
    using that f(1) only [of m] by (cases "m = ?n") auto
  have shape: "au_spool_dir a' = au_spool_dir a" "distinct (map fst (au_files a'))" "distinct (map fst (au_files a))"
    using shape.keepsD [OF shape_write wr] order by (simp_all add: same_shape_def spool_in_order_def)
  have find: "find_file m b = Some g \<longleftrightarrow> (m, g) \<in> set (au_files b)" if "distinct (map fst (au_files b))" for m b g
    using that by (simp add: find_file_def map_of_eq_Some_iff)
  have pend: "m \<in> set (pendingRecords b) \<longleftrightarrow> (\<exists>g. find_file m b = Some g) \<and> recordFile m"
    if "distinct (map fst (au_files b))" for m b
    using find [OF that] by (force simp: pendingRecords_def)
  have new: "?n \<notin> set (pendingRecords a)" using pend [OF shape(3)] fresh by auto
  have queue: "pendingRecords a' = pendingRecords a @ [?n]"
  proof (rule sorted_distinct_set_unique)
    show "sorted (pendingRecords a')" "distinct (pendingRecords a')" using shape(2) by (simp_all add: pendingRecords_def)
    have "m < ?n" if "m \<in> set (pendingRecords a)" for m
      using that pend [OF shape(3)] old name_before by metis
    then show "sorted (pendingRecords a @ [?n])"
      by (auto simp: sorted_append pendingRecords_def intro: less_imp_le)
    show "distinct (pendingRecords a @ [?n])" using new shape(3) by (simp add: pendingRecords_def)
    show "set (pendingRecords a') = set (pendingRecords a @ [?n])"
    proof (intro set_eqI)
      fix m
      show "m \<in> set (pendingRecords a') \<longleftrightarrow> m \<in> set (pendingRecords a @ [?n])"
        using pend [OF shape(2), of m] pend [OF shape(3), of m] which [of m] kept [of m] f(1) rec by auto
    qed
  qed
  have "spool_in_order E a' ?rec"
    unfolding spool_in_order_def
  proof (intro conjI allI impI)
    show "\<exists>info. au_spool_dir a' = Some info \<and> spoolDirectoryCheck E info (spoolPath E) = None"
      using order shape(1) by (simp add: spool_in_order_def)
    show "distinct (map fst (au_files a'))" by (rule shape(2))
    show "replayable E a' m (?rec m)" if m: "find_file m a' = Some g" "recordFile m" for m g
    proof (cases "m = ?n")
      case True
      then show ?thesis using f valid small by (simp add: replayable_def)
    next
      case False
      then have "find_file m a = Some g" using which [OF m] by simp
      then show ?thesis using ready [of m g] m False by (simp add: replayable_def)
    qed
    show "sequence_covers E a'"
      unfolding sequence_covers_def using s which old sq by (intro disjI1 exI [of _ s]) (metis less_imp_le order_refl)
    show "m = k" if "find_file m a' = Some g" "find_file k a' = Some h" "recordFile m" "recordFile k"
        "mutationSpoolNameSequence m = mutationSpoolNameSequence k" for m k g h
    proof -
      note prems = that
      consider "m = ?n" "k = ?n" | "m = ?n" "find_file k a = Some h" | "find_file m a = Some g" "k = ?n" |
          "find_file m a = Some g" "find_file k a = Some h"
        using which [OF prems(1,3)] which [OF prems(2,4)] by blast
      then show ?thesis
      proof cases
        case 4
        then show ?thesis using order prems(3-5) unfolding spool_in_order_def by blast
      qed (use old prems(3-5) sq in \<open>fastforce+\<close>)
    qed
  qed
  then show ?thesis using new queue log by blast
qed

lemma marshalled_twice: "marshalled_record (marshalled_record r) = marshalled_record r"
  by (cases "ar_Outcome r") (simp_all add: marshalled_record_def)

end
