(* ===== verification/Audit_Properties.thy ===== *)
theory Audit_Properties
  imports Audit_Demo Audit_Fifo
begin

text \<open>
  The properties of contexts and operators (internal/mqgovctx/context.go, cmd/root.go) and of the mutation
  audit (cmd/mutation_audit.go): its records, its spool, the replay of the spool, and the durability of
  intents and outcomes.
\<close>

section \<open>Contexts and operators\<close>

text \<open>
  C39: No command runs in a context that gives an operator a role outside reader, writer and admin: such a
  context is refused when it is loaded.
\<close>

theorem resolved_roles_are_known:
  assumes "resolvedContext su f = Inr (meta, name)" and "map_of (cx_Roles meta) operator = Some role"
  shows "role \<in> {RoleReader, RoleWriter, RoleAdmin}"
  using resolvedContext_roles [OF assms] by (cases role) auto

definition demo_store :: surroundings where
  "demo_store = demo_su\<lparr>su_store := Inr \<lparr>cf_CurrentContext = ''prod'',
     cf_Contexts = [(''prod'', no_context\<lparr>cx_Protected := True, cx_Roles := [(''ann@host'', RoleWriter)]\<rparr>)]\<rparr>\<rparr>"

theorem resolved_roles_are_known_witness:
  "\<exists>meta. resolvedContext demo_store demo_flags = Inr (meta, ''prod'') \<and>
     RoleWriter \<in> {RoleReader, RoleWriter, RoleAdmin}"
proof -
  have "\<exists>meta. resolvedContext demo_store demo_flags = Inr (meta, ''prod'') \<and>
      map_of (cx_Roles meta) ''ann@host'' = Some RoleWriter"
    by (simp add: resolvedContext_def Current_def Load_def demo_store_def demo_su_def demo_flags_def newDefaultFlags_def
        validatePersistedRoles_def validateContextRoles_def no_context_def)
  then show ?thesis using resolved_roles_are_known by blast
qed

text \<open>
  C40: Without --context no error of the context store reaches the command: it runs in the direct context,
  which is not protected, has no environment, no roles and no protected topics. (The store may hold a
  protected context that was current; the resolution fails open.)
\<close>

theorem store_errors_resolve_to_an_unprotected_context:
  assumes "fl_Context f = ''''" and "su_store su = Inl e"
  shows "\<exists>meta. resolvedContext su f = Inr (meta, ''direct'') \<and> \<not> cx_Protected meta \<and> cx_Env meta = '''' \<and>
    cx_Roles meta = [] \<and> cx_Topics meta = []"
  using resolvedContext_error_is_direct [OF assms] .

theorem store_errors_resolve_to_an_unprotected_context_witness:
  "\<exists>meta. resolvedContext (demo_store\<lparr>su_store := Inl (OtherError ''permission denied'')\<rparr>) demo_flags =
     Inr (meta, ''direct'') \<and> \<not> cx_Protected meta"
  using store_errors_resolve_to_an_unprotected_context [of demo_flags "demo_store\<lparr>su_store := Inl (OtherError ''permission denied'')\<rparr>"]
  by (auto simp: demo_flags_def newDefaultFlags_def)

text \<open>
  The operator that is authorized and recorded is the user of the operating system at its host, whatever
  --operator says, and the name of the context in a record is the name the context was resolved by.
\<close>

theorem operator_flag_is_ignored:
  "currentOperator su (f\<lparr>fl_Operator := claimed\<rparr>) = currentOperator su f \<and>
   (case resolvedContext su f of Inr (meta, name) \<Rightarrow> contextName su f = name | Inl _ \<Rightarrow> True)"
  using currentOperator_ignores_flag contextName_resolved [of su f] by (auto split: sum.split)

section \<open>Records\<close>

text \<open>
  The name of a spool file and its contents agree: the name under which a record is spooled is valid, the
  identifier and the 64-bit sequence number are read back from it, and the order of the names is the
  order of the sequence numbers.
\<close>

theorem spool_names_round_trip:
  assumes "operation_id i" and "operation_id j"
  shows "validMutationSpoolName (spoolRecordName s i) \<and> mutationIDFromSpoolName (spoolRecordName s i) = i \<and>
    mutationSpoolNameSequence (spoolRecordName s i) = Inr s \<and>
    (s < t \<longrightarrow> spoolRecordName s i < spoolRecordName t j)"
  using spoolRecordName_valid [OF assms(1)] spoolRecordName_id [OF assms(1)] spoolRecordName_sequence spoolRecordName_less
  by blast

theorem spool_names_round_trip_witness:
  "mutationIDFromSpoolName (spoolRecordName (- 1) (mh_id demo_handle)) = mh_id demo_handle"
  using spool_names_round_trip [OF demo_id demo_id] by blast

text \<open>
  C32: The outcome of a batch passes the checks of its replay exactly when the counted results do not exceed
  the planned items: then succeeded, failed, uncertain and skipped add up to the items and the status
  agrees with the counters and with the error.
\<close>

theorem batch_outcome_is_replayable:
  assumes "validMutationAuditAction (sp_Action (mh_spec h))" "operation_id (mh_id h)" "\<not> time_IsZero now"
    "metadata_ok (sp_Metadata (mh_spec h))" "outcome_counts bo"
    and items: "md_Items (sp_Metadata (mh_spec h)) = tot" "0 < tot" "tot < 2 ^ 63"
  shows "validateMutationSpoolRecord
      (outcomeRecord E f now h (normalizeMutationAuditOutcome asApp (batchMutationAuditOutcome tot bo err) err))
      (spoolRecordName s (mh_id h)) = None \<longleftrightarrow> BatchOutcome_Count bo \<le> tot"
  using handle_record_accepted [OF assms(1-4) batch_outcome_ok [OF assms(5), of asApp tot err]]
    batch_outcome_total [OF assms(5) _ items(3), of asApp err] items
  by (auto simp: outcomeRecord_def)

theorem batch_outcome_is_replayable_witness:
  "validateMutationSpoolRecord
      (outcomeRecord demo_env demo_flags \<lparr>gt_nanos = 5, gt_offset = 0\<rparr> demo_handle
        (normalizeMutationAuditOutcome (ae_asApp demo_env)
          (batchMutationAuditOutcome 1 \<lparr>bo_Succeeded = 1, bo_Failed = 0, bo_Uncertain = 0\<rparr> None) None))
      (spoolRecordName 1 (mh_id demo_handle)) = None"
proof -
  have "validMutationAuditAction (sp_Action (mh_spec demo_handle))" by code_simp
  moreover have "metadata_ok (sp_Metadata (mh_spec demo_handle))" by code_simp
  moreover have "\<not> time_IsZero \<lparr>gt_nanos = 5, gt_offset = 0\<rparr>" by (simp add: time_IsZero_def)
  moreover have "outcome_counts \<lparr>bo_Succeeded = 1, bo_Failed = 0, bo_Uncertain = 0\<rparr>" by (simp add: outcome_counts_def)
  ultimately show ?thesis
    using demo_id
    by (intro batch_outcome_is_replayable [THEN iffD2])
      (simp_all add: demo_handle_def demo_spec_def no_metadata_def BatchOutcome_Count_def)
qed

section \<open>The spool\<close>

definition demo_outcome_record :: safeAuditRecord where
  "demo_outcome_record = outcomeRecord demo_env demo_flags \<lparr>gt_nanos = 5, gt_offset = 0\<rparr> demo_handle
     (normalizeMutationAuditOutcome (ae_asApp demo_env) empty_outcome None)"

lemma demo_outcome_valid: "validateMutationSpoolRecord demo_outcome_record (spoolRecordName s (mh_id demo_handle)) = None"
proof -
  have valid: "validMutationAuditAction (sp_Action (mh_spec demo_handle))" "metadata_ok (sp_Metadata (mh_spec demo_handle))"
    by code_simp+
  have plain: "empty_outcome = empty_outcome\<lparr>oc_Revision := ''''\<rparr>" by (simp add: empty_outcome_def)
  show ?thesis
    unfolding demo_outcome_record_def outcomeRecord_def
    using handle_record_accepted [OF valid(1) demo_id _ valid(2) single_mutation_ok(1) [OF plain], THEN iffD2]
      single_mutation_ok(2) [OF plain, of "ae_asApp demo_env" None]
    by (simp add: time_IsZero_def demo_handle_def demo_spec_def no_metadata_def)
qed

lemma demo_outcome_id: "auditRecordID demo_outcome_record = mh_id demo_handle"
  by (simp add: demo_outcome_record_def outcome_id)

lemma demo_sequence:
  "fst (nextMutationSpoolSequence demo_env demo_aud) = Inr 1 \<and>
   map fst (au_files (snd (nextMutationSpoolSequence demo_env demo_aud))) = [sequenceFileName]"
  by code_simp

lemma demo_write_at:
  assumes "nextMutationSpoolSequence demo_env a = (Inr s, b)" and "find_file (spoolRecordName s (mh_id demo_handle) @ ''.tmp'') b = None"
  shows "\<exists>a'. writeMutationSpoolRecord demo_env demo_outcome_record a = (Inr (), a')"
proof -
  from writeTemp_works [OF demo_works assms(2)] obtain a' where
    "writeTempAndCommit demo_env (spoolRecordName s (mh_id demo_handle)) (Content_Record (marshalled_record demo_outcome_record))
      ''mutation outcome spool'' b = (Inr (), a')"
    by (auto simp: demo_env_def)
  moreover have "marshallable demo_outcome_record"
    by (simp add: marshallable_def demo_outcome_record_def outcomeRecord_def handle_record_fields time_UTC_def)
  ultimately show ?thesis
    using assms(1) by (simp add: writeMutationSpoolRecord_def seqE_run guardE_run demo_outcome_id)
qed

lemma demo_written: "\<exists>a'. writeMutationSpoolRecord demo_env demo_outcome_record demo_aud = (Inr (), a')"
proof -
  obtain b where n: "nextMutationSpoolSequence demo_env demo_aud = (Inr 1, b)" "map fst (au_files b) = [sequenceFileName]"
    using demo_sequence by (metis prod.collapse)
  let ?n = "spoolRecordName 1 (mh_id demo_handle)"
  have "last (?n @ ''.tmp'') \<noteq> last sequenceFileName" by (simp add: sequenceFileName_def)
  then have "?n @ ''.tmp'' \<noteq> sequenceFileName" by metis
  then have "find_file (?n @ ''.tmp'') b = None"
    using n(2) by (auto simp: find_file_def map_of_eq_None_iff)
  then show ?thesis using demo_write_at [OF n(1)] by blast
qed

text \<open>
  C36: A new record is numbered above every record in the spool, quarantined ones included, replaces none of
  them and leaves the log alone, so that the order in which outcomes were spooled is the order of their
  replay.
\<close>

theorem spooled_records_are_numbered_upwards:
  assumes "writeMutationSpoolRecord E r a = (Inr x, a')"
  shows "\<exists>s f. find_file (spoolRecordName s (auditRecordID r)) a' = Some f \<and> sf_content f = Content_Record (marshalled_record r) \<and>
    private_file E f \<and> find_file (spoolRecordName s (auditRecordID r)) a = None \<and> au_log a' = au_log a \<and>
    (\<forall>m file. find_file m a = Some file \<and> recordFile m \<longrightarrow>
       find_file m a' = Some file \<and> (\<exists>t. mutationSpoolNameSequence (pendingName m) = Inr t \<and> t < s))"
  using write_record_Inr [OF assms] by blast

theorem spooled_records_are_numbered_upwards_witness:
  "\<exists>s f a'. writeMutationSpoolRecord demo_env demo_outcome_record demo_aud = (Inr (), a') \<and>
     find_file (spoolRecordName s (mh_id demo_handle)) a' = Some f \<and> private_file demo_env f"
  using demo_written spooled_records_are_numbered_upwards [of demo_env demo_outcome_record demo_aud "()"]
  unfolding demo_outcome_id by blast

section \<open>A machine with a pending record\<close>

definition demo_name :: string where "demo_name = spoolRecordName 1 (mh_id demo_handle)"

definition demo_pending :: "safeAuditRecord list aud" where
  "demo_pending = demo_aud\<lparr>au_files := [
     (demo_name, \<lparr>sf_info = demo_file_info, sf_content = Content_Record demo_outcome_record\<rparr>),
     (sequenceFileName, \<lparr>sf_info = demo_file_info, sf_content = Content_Text ''1\<newline>''\<rparr>)]\<rparr>"

lemma demo_names: "demo_name \<noteq> sequenceFileName" "recordFile demo_name" "\<not> recordFile sequenceFileName"
proof -
  have "has_suffix demo_name ''.json''" unfolding demo_name_def by (rule recordName_facts(2))
  then show "demo_name \<noteq> sequenceFileName" "recordFile demo_name" "\<not> recordFile sequenceFileName"
    using recordName_facts(1,4) unfolding recordFile_def by metis+
qed

lemma demo_pending_find:
  "find_file n demo_pending =
    (if n = demo_name then Some \<lparr>sf_info = demo_file_info, sf_content = Content_Record demo_outcome_record\<rparr>
     else if n = sequenceFileName then Some \<lparr>sf_info = demo_file_info, sf_content = Content_Text ''1\<newline>''\<rparr> else None)"
  by (auto simp: demo_pending_def find_file_def)

lemma demo_private: "private_file demo_env \<lparr>sf_info = demo_file_info, sf_content = c\<rparr>"
  by (simp add: private_file_def demo_file_info_def demo_env_def)

lemma demo_in_order: "spool_in_order demo_env demo_pending (\<lambda>_. demo_outcome_record)"
proof -
  have "spoolDirectoryCheck demo_env demo_dir (spoolPath demo_env) = None" by code_simp
  moreover have "show_nat (Suc 0) = ''1''" by code_simp
  moreover from this have "sequence_file demo_env demo_pending 1"
    using demo_private demo_names(1) by (simp add: sequence_file_def demo_pending_find unsigned_1)
  moreover have "mutationSpoolNameSequence demo_name = Inr 1"
    unfolding demo_name_def by (rule spoolRecordName_sequence)
  moreover have "Suc (ae_json_len demo_env demo_outcome_record) \<le> maxMutationSpoolRecordSize"
    by (simp add: demo_env_def maxMutationSpoolRecordSize_def)
  moreover have "validateMutationSpoolRecord demo_outcome_record demo_name = None"
    unfolding demo_name_def by (rule demo_outcome_valid)
  moreover have "distinct (map fst (au_files demo_pending))" "au_spool_dir demo_pending = Some demo_dir"
    using demo_names(1) by (simp_all add: demo_pending_def demo_aud_def)
  ultimately show ?thesis
    unfolding spool_in_order_def sequence_covers_def replayable_def
    using demo_private demo_names by (auto simp: demo_pending_find intro!: exI [of _ 1])
qed

lemma demo_spooled: "spooled demo_pending (marshalled_record demo_outcome_record)"
proof (rule spooledI)
  show "find_file demo_name demo_pending = Some \<lparr>sf_info = demo_file_info, sf_content = Content_Record demo_outcome_record\<rparr>"
    by (simp add: demo_pending_find)
  have "has_suffix demo_name ''.json''" unfolding demo_name_def by (rule recordName_facts(2))
  then show "validMutationSpoolName (pendingName demo_name)"
    using spoolRecordName_valid [OF demo_id] by (simp add: pendingName_idle) (simp add: demo_name_def)
qed simp

lemma demo_log_works: "log_works demo_env id"
  using demo_works by (simp add: healthy_def)

text \<open>A log that refuses every append holds, seen through any observation, what it held.\<close>

lemma demo_refused: "append_contract demo_refusing obs"
  by (simp add: append_contract_def commit_effect_def demo_refusing_def)

section \<open>Replay\<close>

text \<open>
  C7: Whatever fails during a replay, no record is lost: every record that the log or the spool held before
  is in the log or in the spool afterwards, and the log only grows at its end.
\<close>

theorem replay_loses_nothing:
  assumes "append_contract E obs" and "replayMutationAuditSpoolLocked E f a = (res, a')"
  shows "prefix (obs (au_log a)) (obs (au_log a')) \<and>
    (\<forall>m. m \<in> set (obs (au_log a)) \<or> spooled a m \<longrightarrow> m \<in> set (obs (au_log a')) \<or> spooled a' m)"
  using kept.keepsD [OF kept_replay [OF assms(1)] assms(2)] unfolding nothing_lost_def accounted_def by blast

text \<open>
  The log that refuses every append leaves the pending record in the spool, and the healthy one takes it out.
\<close>

theorem replay_loses_nothing_witness:
  "let m = marshalled_record demo_outcome_record;
       a = snd (replayMutationAuditSpoolLocked demo_refusing demo_flags demo_pending);
       b = snd (replayMutationAuditSpoolLocked demo_env demo_flags demo_pending)
   in spooled a m \<and> m \<in> set (au_log b) \<and> (\<forall>n. recordFile n \<longrightarrow> find_file n b = None)"
proof -
  let ?m = "marshalled_record demo_outcome_record"
  have "spooled (snd (replayMutationAuditSpoolLocked demo_refusing demo_flags demo_pending)) ?m"
    using replay_loses_nothing [OF demo_refused [of "\<lambda>_. []"] prod.collapse [symmetric], where f = demo_flags and a = demo_pending]
      demo_spooled by auto
  moreover obtain b where b: "replayMutationAuditSpoolLocked demo_env demo_flags demo_pending = (Inr (), b)"
    "\<forall>n. recordFile n \<longrightarrow> find_file n b = None"
    using replay_complete [OF demo_log_works healthy_faults [OF demo_works] demo_in_order] by blast
  moreover have "?m \<in> set (au_log b)"
  proof -
    have "recordFile n" if "validMutationSpoolName (pendingName n)" for n
      using that plain_lock plain_sequence by (auto simp: recordFile_def plain_names_def)
    then have "\<not> spooled b ?m" using b(2) unfolding spooled_def by (metis option.distinct(1))
    then show ?thesis using replay_loses_nothing [OF demo_contract(1) b(1)] demo_spooled by auto
  qed
  ultimately show ?thesis by (simp add: Let_def)
qed

text \<open>
  C33: A quarantined record stops the replay before anything is appended: while a file whose commit state is
  indeterminate lies in the spool, every replay fails and leaves log and spool as they are.
\<close>

theorem quarantine_blocks_the_replay:
  assumes "find_file n a = Some g" and "has_suffix n indeterminateSuffix" and "au_spool_dir a \<noteq> None"
  shows "\<exists>e a'. replayMutationAuditSpoolLocked E f a = (Inl e, a') \<and> au_log a' = au_log a \<and> au_files a' = au_files a"
  using quarantine_stops [OF assms, of E f] by (auto simp: same_store_def)

definition demo_quarantined :: "safeAuditRecord list aud" where
  "demo_quarantined = put_file (''x'' @ indeterminateSuffix) \<lparr>sf_info = demo_file_info, sf_content = Content_Text ''''\<rparr> demo_aud"

theorem quarantine_blocks_the_replay_witness:
  "\<exists>e a'. replayMutationAuditSpoolLocked demo_env demo_flags demo_quarantined = (Inl e, a') \<and> au_log a' = []"
proof -
  have "au_spool_dir demo_quarantined \<noteq> None" "au_log demo_quarantined = []"
    "find_file (''x'' @ indeterminateSuffix) demo_quarantined = Some \<lparr>sf_info = demo_file_info, sf_content = Content_Text ''''\<rparr>"
    unfolding demo_quarantined_def by (simp_all add: put_file_def demo_aud_def find_file_def)
  then show ?thesis
    using quarantine_blocks_the_replay [OF _ suffix_append(1)] by metis
qed

text \<open>
  C17: A replay in which nothing fails is complete: it appends every pending record exactly once, in the order
  of the sequence numbers, and leaves no record in the spool.
\<close>

theorem replay_is_complete:
  assumes "log_works E obs" and "no_faults_from E (au_tick a)" and "spool_in_order E a rec"
  shows "\<exists>a'. replayMutationAuditSpoolLocked E f a = (Inr (), a') \<and>
    obs (au_log a') = obs (au_log a) @ map (marshalled_record \<circ> rec) (pendingRecords a) \<and>
    (\<forall>n. recordFile n \<longrightarrow> find_file n a' = None) \<and> sorted_wrt (<) (pendingRecords a)"
proof -
  have "distinct (map fst (au_files a))" using assms(3) by (simp add: spool_in_order_def)
  then show ?thesis
    using replay_complete [OF assms, of f] sort_distinct_strict [of "filter recordFile (map fst (au_files a))"]
    by (simp add: pendingRecords_def)
qed

theorem replay_is_complete_witness:
  "\<exists>a'. replayMutationAuditSpoolLocked demo_env demo_flags demo_pending = (Inr (), a') \<and>
     au_log a' = [marshalled_record demo_outcome_record]"
proof -
  from replay_is_complete [OF demo_log_works healthy_faults [OF demo_works] demo_in_order, of demo_flags]
  show ?thesis
    using demo_names by (auto simp: pendingRecords_def demo_pending_def demo_aud_def)
qed

text \<open>
  C34: The spool is a queue: a record that was written to a spool in order is appended by the next replay, in which
  nothing fails, exactly once and after every record that was pending before it, and no record stays in the spool.
  (The record passes the validation of spooled records under its names and is within the size limit; the content of
  a file is the record that was marshalled, without its unexported field.)
\<close>

theorem spooled_record_is_replayed_last:
  assumes "log_works E obs" and "spool_in_order E a rec" and "writeMutationSpoolRecord E r a = (Inr x, a')"
    and "no_faults_from E (au_tick a')"
    and "\<And>s. validateMutationSpoolRecord r (spoolRecordName s (auditRecordID r)) = None"
    and "Suc (ae_json_len E (marshalled_record r)) \<le> maxMutationSpoolRecordSize"
  shows "\<exists>b. replayMutationAuditSpoolLocked E f a' = (Inr (), b) \<and>
    obs (au_log b) = obs (au_log a) @ map (marshalled_record \<circ> rec) (pendingRecords a) @ [marshalled_record r] \<and>
    (\<forall>n. recordFile n \<longrightarrow> find_file n b = None)"
proof -
  obtain n where n: "n \<notin> set (pendingRecords a)" "spool_in_order E a' (rec(n := marshalled_record r))"
    "pendingRecords a' = pendingRecords a @ [n]" "au_log a' = au_log a"
    using write_in_order [OF assms(2,3,5,6)] by blast
  have "map (marshalled_record \<circ> rec(n := marshalled_record r)) (pendingRecords a') =
      map (marshalled_record \<circ> rec) (pendingRecords a) @ [marshalled_record r]"
    unfolding n(3) using n(1) by (auto simp: marshalled_twice)
  then show ?thesis using replay_complete [OF assms(1,4) n(2), of f] n(4) by metis
qed

lemma demo_pending_max: "maxSpoolSequence (readDir demo_pending) 0 = Inr 1"
proof -
  have "has_suffix demo_name ''.json''" unfolding demo_name_def by (rule recordName_facts(2))
  then have "trim_suffix demo_name indeterminateSuffix = demo_name" using pendingName_idle [of demo_name] by (simp add: pendingName_def)
  moreover have "validMutationSpoolName demo_name" "mutationSpoolNameSequence demo_name = Inr 1"
    unfolding demo_name_def by (rule spoolRecordName_valid [OF demo_id], rule spoolRecordName_sequence)
  moreover have "demo_name \<noteq> lockFileName" using demo_names(2) by (simp add: recordFile_def)
  ultimately show ?thesis
    using demo_names(1) by (simp add: readDir_def demo_pending_def demo_file_info_def)
qed

lemma demo_next: "\<exists>b. nextMutationSpoolSequence demo_env demo_pending = (Inr 2, b)"
proof -
  let ?a = "demo_pending\<lparr>au_tick := Suc (au_tick demo_pending)\<rparr>"
  have "show_nat (Suc 0) = ''1''" by code_simp
  then have "sequence_file demo_env ?a 1"
    using demo_private demo_names(1) by (simp add: sequence_file_def demo_pending_find unsigned_1)
  from read_sequence_ok [OF this healthy_faults [OF demo_works]]
  have read: "readMutationSpoolSequence demo_env ?a = (Inr (Some 1), ?a\<lparr>au_tick := au_tick ?a + 3\<rparr>)" .
  let ?b = "?a\<lparr>au_tick := au_tick ?a + 3\<rparr>" and ?c = "Content_Text (show_nat (unat (2 :: 64 word)) @ [CHR 0x0A])"
  have "sequenceFileName @ ''.tmp'' \<noteq> demo_name"
    using recordName_facts(3) [of sequenceFileName] recordName_facts(2) [of 1 "mh_id demo_handle"] unfolding demo_name_def by metis
  then have "find_file (sequenceFileName @ ''.tmp'') ?b = None" by (simp add: demo_pending_find)
  from writeTemp_works [OF demo_works this, of ?c "''mutation outcome spool sequence''"] obtain b where
    w: "writeTempAndCommit demo_env sequenceFileName ?c ''mutation outcome spool sequence'' ?b = (Inr (), b)"
    by (auto simp: demo_env_def)
  obtain f where f: "find_file sequenceFileName b = Some f" "private_file demo_env f" using writeTemp_Inr(1) [OF w] by blast
  have "writeMutationSpoolSequence demo_env 2 ?b = (Inr (), b\<lparr>au_tick := Suc (au_tick b)\<rparr>)"
    using w verify_file_ok [OF f healthy_faults [OF demo_works]] by (simp add: writeMutationSpoolSequence_def seqE_run)
  then show ?thesis
    using read demo_pending_max
    by (simp add: nextMutationSpoolSequence_def seqE_run sys_io_def healthy_sys [OF demo_works] readDir_def Let_def)
qed

lemma demo_spooled_again: "\<exists>a'. writeMutationSpoolRecord demo_env demo_outcome_record demo_pending = (Inr (), a')"
proof -
  obtain b where n: "nextMutationSpoolSequence demo_env demo_pending = (Inr 2, b)" using demo_next by blast
  let ?t = "spoolRecordName 2 (mh_id demo_handle) @ ''.tmp''"
  have "last ?t \<noteq> last sequenceFileName" "last ?t \<noteq> last demo_name"
    by (simp_all add: sequenceFileName_def demo_name_def spoolRecordName_def)
  then have t: "?t \<noteq> sequenceFileName" "?t \<noteq> demo_name" by metis+
  then have "find_file ?t b = None"
    using next_sequence_Inr(3,4) [OF n] by (cases "?t = sequenceFileName @ ''.tmp''") (simp_all add: touches_def demo_pending_find)
  then show ?thesis using demo_write_at [OF n] by blast
qed

theorem spooled_record_is_replayed_last_witness:
  "\<exists>a' b. writeMutationSpoolRecord demo_env demo_outcome_record demo_pending = (Inr (), a') \<and>
     replayMutationAuditSpoolLocked demo_env demo_flags a' = (Inr (), b) \<and>
     au_log b = [marshalled_record demo_outcome_record, marshalled_record demo_outcome_record]"
proof -
  obtain a' where w: "writeMutationSpoolRecord demo_env demo_outcome_record demo_pending = (Inr (), a')"
    using demo_spooled_again by blast
  have "Suc (ae_json_len demo_env (marshalled_record demo_outcome_record)) \<le> maxMutationSpoolRecordSize"
    by (simp add: demo_env_def maxMutationSpoolRecordSize_def)
  from spooled_record_is_replayed_last [OF demo_log_works demo_in_order w healthy_faults [OF demo_works] _ this, of demo_flags]
  obtain b where "replayMutationAuditSpoolLocked demo_env demo_flags a' = (Inr (), b)"
    "au_log b = au_log demo_pending @ map (marshalled_record \<circ> (\<lambda>_. demo_outcome_record)) (pendingRecords demo_pending) @
      [marshalled_record demo_outcome_record]"
    using demo_outcome_valid by (auto simp: demo_outcome_id)
  then show ?thesis
    using w demo_names by (auto simp: pendingRecords_def demo_pending_def demo_aud_def)
qed

section \<open>Intents and outcomes\<close>

text \<open>
  C3: When beginMutationAudit returns a handle, the intent of that very mutation is the last record of the
  log, after whatever was pending: no mutation starts without its durable intent.
\<close>

theorem mutation_begins_with_a_durable_intent:
  assumes "append_contract E obs" and "beginMutationAudit E f spec a = (Inr h, a')"
  shows "mh_spec h = spec \<and> (\<exists>older now. obs (au_log a') = obs (au_log a) @ older @
    [marshalled_record (handle_record (ae_su E) f now h mutationAuditPhaseIntent None)])"
  using begin_durable [OF assms] by blast

theorem mutation_begins_with_a_durable_intent_witness:
  "\<exists>h a'. beginMutationAudit demo_env demo_flags demo_spec demo_aud = (Inr h, a') \<and> au_log a' \<noteq> []"
  using demo_begin [of demo_flags] mutation_begins_with_a_durable_intent [OF demo_contract(1), of demo_flags demo_spec demo_aud]
  by fastforce

text \<open>
  C4: An outcome is durable or reported, whatever fails. A finishMutationAudit that returns without an error of its own has
  made the record of the normalised outcome the last record of the log. One that returns an error has the
  record in the log or in the spool, or says that the durable spooling failed too, or is the audit's incomplete error after an
  append of exactly this record that the core library reported as indeterminate: only then may the record be missing
  from log and spool, for it is not spooled blindly.
\<close>

theorem outcome_is_durable_or_reported:
  assumes "append_contract E obs" and "operation_id (mh_id h)"
    and "finishMutationAudit E f h oc err a = (res, a')"
  shows "\<exists>now. let r = outcomeRecord E f now h (normalizeMutationAuditOutcome (ae_asApp E) oc err); m = marshalled_record r
    in res = Inr () \<and> (\<exists>older. obs (au_log a') = obs (au_log a) @ older @ [m]) \<or>
       (\<exists>e. res = Inl e \<and> (m \<in> set (obs (au_log a')) \<or> spooled a' m)) \<or>
       res = Inl (auditIncompleteError (mh_id h) True) \<or>
       res = Inl (auditIncompleteError (mh_id h) False) \<and>
         (\<exists>old e. ae_append E (auditOptions E f) r old = (au_log a', AppendCommitIndeterminate, Some e))"
proof -
  obtain now where "res = Inr () \<and>
      (\<exists>older. obs (au_log a') = obs (au_log a) @ older @ [marshalled_record (outcomeRecord E f now h
        (normalizeMutationAuditOutcome (ae_asApp E) oc err))]) \<or>
    res = Inl (auditIncompleteError (mh_id h) True) \<or>
    (\<exists>e. res = Inl e \<and> accounted obs (marshalled_record (outcomeRecord E f now h
        (normalizeMutationAuditOutcome (ae_asApp E) oc err))) a') \<or>
    (res = Inl (auditIncompleteError (mh_id h) False) \<and> undecided E f (outcomeRecord E f now h
        (normalizeMutationAuditOutcome (ae_asApp E) oc err)) (au_log a'))"
    using finish_cases [OF assms refl] by blast
  then show ?thesis unfolding accounted_def undecided_def Let_def by (intro exI [of _ now]) blast
qed

text \<open>The healthy log takes the outcome; of one that refuses it the record is in the spool, or its loss is the error.\<close>

theorem outcome_is_durable_or_reported_witness:
  "(\<exists>a' now. finishMutationAudit demo_env demo_flags demo_handle empty_outcome None demo_aud = (Inr (), a') \<and>
     last (au_log a') = marshalled_record (outcomeRecord demo_env demo_flags now demo_handle
       (normalizeMutationAuditOutcome (ae_asApp demo_env) empty_outcome None))) \<and>
   (\<exists>e a' now. finishMutationAudit demo_refusing demo_flags demo_handle empty_outcome None demo_aud = (Inl e, a') \<and>
     (spooled a' (marshalled_record (outcomeRecord demo_refusing demo_flags now demo_handle
       (normalizeMutationAuditOutcome (ae_asApp demo_refusing) empty_outcome None))) \<or>
      e = auditIncompleteError (mh_id demo_handle) True))"
proof
  obtain a' where a': "finishMutationAudit demo_env demo_flags demo_handle empty_outcome None demo_aud = (Inr (), a')"
    using demo_finish by blast
  from outcome_is_durable_or_reported [OF demo_contract(1) demo_id a'] a'
  show "\<exists>a' now. finishMutationAudit demo_env demo_flags demo_handle empty_outcome None demo_aud = (Inr (), a') \<and>
     last (au_log a') = marshalled_record (outcomeRecord demo_env demo_flags now demo_handle
       (normalizeMutationAuditOutcome (ae_asApp demo_env) empty_outcome None))"
    by (fastforce simp: Let_def)
next
  obtain res a' where a': "finishMutationAudit demo_refusing demo_flags demo_handle empty_outcome None demo_aud = (res, a')"
    by (metis surj_pair)
  have "ae_append demo_refusing size r old \<noteq> (log, AppendCommitIndeterminate, x)" for size r old log x
    by (simp add: demo_refusing_def)
  with outcome_is_durable_or_reported [OF demo_refused [of "\<lambda>_. []"] demo_id a'] a'
  show "\<exists>e a' now. finishMutationAudit demo_refusing demo_flags demo_handle empty_outcome None demo_aud = (Inl e, a') \<and>
     (spooled a' (marshalled_record (outcomeRecord demo_refusing demo_flags now demo_handle
       (normalizeMutationAuditOutcome (ae_asApp demo_refusing) empty_outcome None))) \<or>
      e = auditIncompleteError (mh_id demo_handle) True)"
    unfolding Let_def by (elim exE disjE conjE) auto
qed

text \<open>
  C37: Beginning and finishing a mutation and warning about a denied one never rewrite the log and never lose
  a record of the log or of the spool, whatever fails in between.
\<close>

theorem audit_operations_lose_nothing:
  assumes "append_contract E obs"
  shows "nothing_lost obs a (snd (beginMutationAudit E f spec a)) \<and> nothing_lost obs a (snd (finishMutationAudit E f h oc err a)) \<and>
    nothing_lost obs a (snd (appendAuditWarnForContext E f typ ctx name t st d md err a))"
  using kept_begin [OF assms] kept_finish [OF assms] kept_warn [OF assms] unfolding kept.keeps_def by blast

text \<open>With a log that refuses every append, none of the three loses the record that is pending in the spool.\<close>

theorem audit_operations_lose_nothing_witness:
  "let m = marshalled_record demo_outcome_record in
     spooled demo_pending m \<and>
     spooled (snd (beginMutationAudit demo_refusing demo_flags demo_spec demo_pending)) m \<and>
     spooled (snd (finishMutationAudit demo_refusing demo_flags demo_handle empty_outcome None demo_pending)) m \<and>
     spooled (snd (appendAuditWarnForContext demo_refusing demo_flags ''denied'' no_context ''direct''
       \<lparr>et_ResourceType = ''topic'', et_Resource = ''orders''\<rparr> StatusFailed '''' no_metadata None demo_pending)) m"
  using audit_operations_lose_nothing [OF demo_refused [of "\<lambda>_. []"], where a = demo_pending] demo_spooled
  by (simp add: nothing_lost_def accounted_def)

text \<open>
  C35: On a machine where no system call fails, with a spool in order and directories the checks accept, a
  mutation does begin and does finish: both operations return without an error, after they have moved
  every pending record into the log in order.
\<close>

theorem healthy_audit_succeeds:
  assumes "healthy E obs" and "ready E rec a" and "resolveAuditPath E spec = Inr path"
    and "trim_space (sp_Action spec) \<noteq> ''''"
  shows "(\<exists>h now a'. beginMutationAudit E f spec a = (Inr h, a') \<and> mh_spec h = spec \<and>
      obs (au_log a') = obs (au_log a) @ map (marshalled_record \<circ> rec) (pendingRecords a) @
        [marshalled_record (handle_record (ae_su E) f now h mutationAuditPhaseIntent None)]) \<and>
    (\<exists>now a'. finishMutationAudit E f h oc err a = (Inr (), a') \<and>
      obs (au_log a') = obs (au_log a) @ map (marshalled_record \<circ> rec) (pendingRecords a) @
        [marshalled_record (outcomeRecord E f now h (normalizeMutationAuditOutcome (ae_asApp E) oc err))])"
  using begin_works [OF assms, of f] finish_works [OF assms(1,2), of f h oc err] by blast

theorem healthy_audit_succeeds_witness:
  "\<exists>h a'. beginMutationAudit demo_env demo_flags demo_spec demo_aud = (Inr h, a') \<and> length (au_log a') = 1"
  using healthy_audit_succeeds [OF demo_works demo_ready demo_path, of demo_flags]
  by (fastforce simp: demo_aud_def pendingRecords_def)

end
