(* ===== verification/Json_Values.thy ===== *)
theory Json_Values
  imports Audit_Engine
begin

text \<open>
  \<open>json.Marshal\<close> of Go's standard library on the values that the commands hand to it, and the
  translation of the requests of internal/mqgov/broker.go into such values by their struct tags.
  The bytes of the text are what \<open>mutationValueMetadata\<close> of cmd/mutation_audit.go fingerprints.

  A string is taken to be valid UTF-8 (otherwise Go would replace the offending bytes). A nil map
  and an empty slice that is not nil are what the commands build, and are encoded as \<open>null\<close> and \<open>[]\<close>.
\<close>

section \<open>Values and their text\<close>

datatype json =
    JNull | JBool bool | JNum int | JStr string | JArr "json list" | JObj "(string \<times> json) list"

definition show_int :: "int \<Rightarrow> string" where
  "show_int i = (if i < 0 then CHR ''-'' # show_nat (nat (- i)) else show_nat (nat i))"

definition json_char :: "char \<Rightarrow> string" where
  "json_char c =
    (if c = CHR 0x22 \<or> c = CHR 0x5C then [CHR 0x5C, c]
     else if c = CHR 0x08 then [CHR 0x5C, CHR ''b'']
     else if c = CHR 0x09 then [CHR 0x5C, CHR ''t'']
     else if c = CHR 0x0A then [CHR 0x5C, CHR ''n'']
     else if c = CHR 0x0C then [CHR 0x5C, CHR ''f'']
     else if c = CHR 0x0D then [CHR 0x5C, CHR ''r'']
     else if c < CHR 0x20 \<or> c = CHR ''<'' \<or> c = CHR ''>'' \<or> c = CHR ''&''
     then [CHR 0x5C] @ ''u00'' @ hex_encode [c]
     else [c])"

text \<open>The line separators U+2028 and U+2029 are escaped as well.\<close>

fun json_chars :: "string \<Rightarrow> string" where
  "json_chars [] = []"
| "json_chars (c # cs) =
    (if c = CHR 0xE2 \<and> take 2 cs = [CHR 0x80, CHR 0xA8] then [CHR 0x5C] @ ''u2028'' @ json_chars (drop 2 cs)
     else if c = CHR 0xE2 \<and> take 2 cs = [CHR 0x80, CHR 0xA9] then [CHR 0x5C] @ ''u2029'' @ json_chars (drop 2 cs)
     else json_char c @ json_chars cs)"

definition json_string :: "string \<Rightarrow> string" where
  "json_string s = [CHR 0x22] @ json_chars s @ [CHR 0x22]"

fun json_text :: "json \<Rightarrow> string" where
  "json_text JNull = ''null''"
| "json_text (JBool b) = (if b then ''true'' else ''false'')"
| "json_text (JNum i) = show_int i"
| "json_text (JStr s) = json_string s"
| "json_text (JArr vs) = ''['' @ join_with '','' (map json_text vs) @ '']''"
| "json_text (JObj kvs) = ''{'' @ join_with '','' (map (\<lambda>(k, v). json_string k @ '':'' @ json_text v) kvs) @ ''}''"

text \<open>A map is written with its keys in order, a struct field with \<open>omitempty\<close> only when it is not zero.\<close>

definition json_map :: "(string \<times> json) list \<Rightarrow> json" where
  "json_map kvs = JObj (sort_key fst kvs)"

definition omit_str :: "string \<Rightarrow> string \<Rightarrow> (string \<times> json) list" where
  "omit_str name s = (if s = '''' then [] else [(name, JStr s)])"

definition omit_num :: "string \<Rightarrow> int \<Rightarrow> (string \<times> json) list" where
  "omit_num name n = (if n = 0 then [] else [(name, JNum n)])"

text \<open>\<open>mutationValueMetadata\<close> on a value: none of the values here makes \<open>json.Marshal\<close> fail.\<close>

definition valueMetadata :: "string \<Rightarrow> json \<Rightarrow> mutationAuditMetadata" where
  "valueMetadata action v = mutationValueMetadata action (Some (json_text v))"

section \<open>Requests\<close>

definition TopicCoordinate_json :: "TopicCoordinate \<Rightarrow> json" where
  "TopicCoordinate_json c = JObj (omit_str ''cluster'' (tc_Cluster c) @ omit_str ''namespace'' (tc_Namespace c) @
     [(''topic'', JStr (tc_Topic c))])"

definition GroupCoordinate_json :: "GroupCoordinate \<Rightarrow> json" where
  "GroupCoordinate_json c = JObj (omit_str ''cluster'' (gc_Cluster c) @ omit_str ''namespace'' (gc_Namespace c) @
     [(''group'', JStr (gc_Group c))])"

definition TopicListOptions_json :: "TopicListOptions \<Rightarrow> json" where
  "TopicListOptions_json opts = JObj (omit_str ''namespace'' (tlo_Namespace opts) @ omit_str ''pattern'' (tlo_Pattern opts) @
     omit_num ''limit'' (tlo_Limit opts))"

definition GroupListOptions_json :: "GroupListOptions \<Rightarrow> json" where
  "GroupListOptions_json opts = JObj (omit_str ''namespace'' (glo_Namespace opts) @ omit_str ''pattern'' (glo_Pattern opts) @
     omit_num ''limit'' (glo_Limit opts))"

definition config_json :: "(string \<times> string) list \<Rightarrow> json" where
  "config_json kvs = (if kvs = [] then JNull else json_map (map (\<lambda>(k, v). (k, JStr v)) kvs))"

definition TopicCreateRequest_json :: "TopicCreateRequest \<Rightarrow> json" where
  "TopicCreateRequest_json r = JObj [(''Coordinate'', TopicCoordinate_json (tcr_Coordinate r)),
     (''Partitions'', JNum (tcr_Partitions r)), (''Config'', config_json (tcr_Config r)),
     (''Protected'', JBool (tcr_Protected r))]"

definition TopicAlterRequest_json :: "TopicAlterRequest \<Rightarrow> json" where
  "TopicAlterRequest_json r = JObj [(''Coordinate'', TopicCoordinate_json (tar_Coordinate r)),
     (''Partitions'', JNum (tar_Partitions r)), (''Config'', config_json (tar_Config r))]"

definition TopicPurgeRequest_json :: "TopicPurgeRequest \<Rightarrow> json" where
  "TopicPurgeRequest_json r = JObj [(''Coordinate'', TopicCoordinate_json (tpr_Coordinate r)),
     (''DLQ'', JBool (tpr_DLQ r)), (''DryRun'', JBool (tpr_DryRun r))]"

definition DLQListOptions_json :: "DLQListOptions \<Rightarrow> json" where
  "DLQListOptions_json opts = JObj (omit_str ''namespace'' (dlo_Namespace opts) @ omit_str ''topic'' (dlo_Topic opts) @
     omit_str ''group'' (dlo_Group opts) @ omit_str ''pattern'' (dlo_Pattern opts) @ omit_num ''limit'' (dlo_Limit opts))"

definition DLQRedriveRequest_json :: "DLQRedriveRequest \<Rightarrow> json" where
  "DLQRedriveRequest_json r = JObj [(''DLQ'', TopicCoordinate_json (drr_DLQ r)),
     (''Target'', TopicCoordinate_json (drr_Target r)), (''Topic'', JStr (drr_Topic r)),
     (''Group'', JStr (drr_Group r)), (''Count'', JNum (drr_Count r)), (''DryRun'', JBool (drr_DryRun r))]"

definition DLQPurgeRequest_json :: "DLQPurgeRequest \<Rightarrow> json" where
  "DLQPurgeRequest_json r = JObj [(''DLQ'', TopicCoordinate_json (dur_DLQ r)), (''Topic'', JStr (dur_Topic r)),
     (''Group'', JStr (dur_Group r)), (''DryRun'', JBool (dur_DryRun r))]"

definition SchemaListOptions_json :: "SchemaListOptions \<Rightarrow> json" where
  "SchemaListOptions_json opts = JObj (omit_str ''subject'' (slo_Subject opts) @ omit_str ''pattern'' (slo_Pattern opts) @
     omit_num ''limit'' (slo_Limit opts))"

definition SchemaDescribeRequest_json :: "SchemaDescribeRequest \<Rightarrow> json" where
  "SchemaDescribeRequest_json r = JObj [(''Subject'', JStr (sdr_Subject r)), (''Version'', JStr (sdr_Version r))]"

definition SchemaCheckRequest_json :: "SchemaCheckRequest \<Rightarrow> json" where
  "SchemaCheckRequest_json r = JObj [(''Subject'', JStr (scr_Subject r)), (''Version'', JStr (scr_Version r)),
     (''Type'', JStr (scr_Type r)), (''Schema'', JStr (scr_Schema r))]"

definition SchemaDeleteRequest_json :: "SchemaDeleteRequest \<Rightarrow> json" where
  "SchemaDeleteRequest_json r = JObj [(''Subject'', JStr (sxr_Subject r)), (''Version'', JStr (sxr_Version r)),
     (''Permanent'', JBool (sxr_Permanent r))]"

definition ACLBinding_json :: "ACLBinding \<Rightarrow> json" where
  "ACLBinding_json b = JObj ([(''principal'', JStr (ab_Principal b)), (''host'', JStr (ab_Host b))] @
     omit_str ''vhost'' (ab_Vhost b) @ [(''resourceType'', JStr (ab_ResourceType b)),
     (''resourceName'', JStr (ab_ResourceName b)), (''patternType'', JStr (ab_PatternType b)),
     (''operation'', JStr (ab_Operation b)), (''permission'', JStr (ab_Permission b))])"

definition ACLFilter_json :: "ACLFilter \<Rightarrow> json" where
  "ACLFilter_json a = JObj (omit_str ''principal'' (af_Principal a) @ omit_str ''host'' (af_Host a) @
     omit_str ''vhost'' (af_Vhost a) @ omit_str ''resourceType'' (af_ResourceType a) @
     omit_str ''resourceName'' (af_ResourceName a) @ omit_str ''patternType'' (af_PatternType a) @
     omit_str ''operation'' (af_Operation a) @ omit_str ''permission'' (af_Permission a))"

definition PartitionImpact_json :: "PartitionImpact \<Rightarrow> json" where
  "PartitionImpact_json i = JObj ([(''partition'', JNum (pi_Partition i))] @ omit_num ''from'' (pi_From i) @
     omit_num ''to'' (pi_To i) @ [(''count'', JNum (pi_Count i))])"

definition ResourceFingerprints_json :: "ResourceFingerprints \<Rightarrow> json" where
  "ResourceFingerprints_json r = JObj (omit_str ''keySha256'' (rf_KeySHA256 r) @
     omit_str ''bodySha256'' (rf_BodySHA256 r) @ omit_num ''count'' (rf_Count r) @ omit_num ''size'' (rf_Size r))"

text \<open>The fields of the embedded \<open>BatchOutcome\<close> come first.\<close>

definition BatchOutcome_fields :: "BatchOutcome \<Rightarrow> (string \<times> json) list" where
  "BatchOutcome_fields b = omit_num ''succeeded'' (bo_Succeeded b) @ omit_num ''failed'' (bo_Failed b) @
     omit_num ''uncertain'' (bo_Uncertain b)"

definition OffsetPlanRequest_json :: "OffsetPlanRequest \<Rightarrow> json" where
  "OffsetPlanRequest_json r = JObj [(''Group'', GroupCoordinate_json (opr_Group r)),
     (''Topic'', TopicCoordinate_json (opr_Topic r)), (''To'', JStr (opr_To r)),
     (''DryRun'', JBool (opr_DryRun r)), (''Partition'', JNum (opr_Partition r))]"

definition OffsetPlan_json :: "OffsetPlan \<Rightarrow> json" where
  "OffsetPlan_json p = JObj (BatchOutcome_fields (op_Outcome p) @
     [(''group'', GroupCoordinate_json (op_Group p)), (''topic'', TopicCoordinate_json (op_Topic p)),
      (''to'', JStr (op_To p)), (''dryRun'', JBool (op_DryRun p)),
      (''impact'', JArr (map PartitionImpact_json (op_Impact p))), (''total'', JNum (op_Total p))])"

definition MessageMirrorRequest_json :: "MessageMirrorRequest \<Rightarrow> json" where
  "MessageMirrorRequest_json r = JObj [(''Source'', TopicCoordinate_json (mmr_Source r)),
     (''Target'', TopicCoordinate_json (mmr_Target r)), (''From'', JStr (mmr_From r)),
     (''Partition'', JNum (mmr_Partition r)), (''Limit'', JNum (mmr_Limit r)), (''DryRun'', JBool (mmr_DryRun r))]"

end
