(* ===== verification/Mirror_Buffer.thy ===== *)
theory Mirror_Buffer
  imports Json_Values "HOL-Library.Multiset" "HOL-Library.Sublist"
begin

text \<open>
  The buffer into which \<open>message mirror\<close> reads its source (cmd/message.go): at most the requested
  number of messages and at most \<open>maxBytes\<close> bytes, accounted with an overhead for every message and
  header, and the accumulator of the fingerprint that the audit records. Values cannot be shared
  here, so \<open>cloneMirrorMessage\<close> is the identity, and \<open>wipeMirrorMessages\<close>, which overwrites the memory of
  messages no longer needed, has no counterpart.
\<close>

definition maxMirrorBufferedBytes :: int where "maxMirrorBufferedBytes = 64 * 1024 * 1024"
definition mirrorMessageOverhead :: int where "mirrorMessageOverhead = 256"
definition mirrorHeaderOverhead :: int where "mirrorHeaderOverhead = 128"

record mirrorAccumulator =
  ma_bodyHashes :: string
  ma_totalSize :: int
  ma_totalCount :: int

record mirrorReadBuffer =
  mb_messages :: "Message list"
  mb_buffered :: int
  mb_maxMessages :: int
  mb_maxBytes :: int
  mb_accumulator :: mirrorAccumulator

definition newMirrorAccumulator :: mirrorAccumulator where
  "newMirrorAccumulator = \<lparr>ma_bodyHashes = '''', ma_totalSize = 0, ma_totalCount = 0\<rparr>"

definition mirrorAccumulator_Add :: "string \<Rightarrow> mirrorAccumulator \<Rightarrow> mirrorAccumulator" where
  "mirrorAccumulator_Add body a = \<lparr>ma_bodyHashes = ma_bodyHashes a @ sha256 body,
     ma_totalSize = ma_totalSize a + int (length body), ma_totalCount = ma_totalCount a + 1\<rparr>"

definition mirrorAccumulator_Fingerprints :: "mirrorAccumulator \<Rightarrow> ResourceFingerprints" where
  "mirrorAccumulator_Fingerprints a =
    (let digest = (if ma_totalCount a = 0 then sha256 '''' else sha256 (ma_bodyHashes a))
     in \<lparr>rf_KeySHA256 = '''', rf_BodySHA256 = hex_encode digest, rf_Count = ma_totalCount a,
         rf_Size = ma_totalSize a\<rparr>)"

definition newMirrorReadBuffer :: "int \<Rightarrow> int \<Rightarrow> mirrorReadBuffer" where
  "newMirrorReadBuffer limit maxBytes = \<lparr>mb_messages = [], mb_buffered = 0, mb_maxMessages = limit,
     mb_maxBytes = maxBytes, mb_accumulator = newMirrorAccumulator\<rparr>"

text \<open>The closure \<open>add\<close> of \<open>boundedMirrorMessageBytes\<close> on the sizes in turn, from the total so far.\<close>

fun addSizes :: "int \<Rightarrow> int list \<Rightarrow> int \<Rightarrow> int option" where
  "addSizes remaining [] tot = Some tot"
| "addSizes remaining (sz # szs) tot =
    (if sz < 0 \<or> remaining - tot < sz then None else addSizes remaining szs (tot + sz))"

definition messageSizes :: "Message \<Rightarrow> int list" where
  "messageSizes m = [mirrorMessageOverhead, int (length (m_Key m)), int (length (m_Body m))] @
     concat (map (\<lambda>(k, v). [mirrorHeaderOverhead, int (length k), int (length v)]) (m_Headers m))"

definition boundedMirrorMessageBytes :: "Message \<Rightarrow> int \<Rightarrow> int option" where
  "boundedMirrorMessageBytes m remaining = addSizes remaining (messageSizes m) 0"

definition mirrorReadBuffer_Add :: "Message \<Rightarrow> (mirrorReadBuffer, unit) op" where
  "mirrorReadBuffer_Add m b =
    (if mb_maxMessages b \<le> int (length (mb_messages b))
     then (Inl (AppError CodeValidationFailed ''mirror source emitted more messages than requested'' None), b)
     else case boundedMirrorMessageBytes m (mb_maxBytes b - mb_buffered b) of
       None \<Rightarrow> (Inl (AppError CodeValidationFailed
         (''mirror source exceeded the '' @ show_int (mb_maxBytes b) @ ''-byte safe buffer limit'') None), b)
     | Some n \<Rightarrow> (Inr (), b\<lparr>mb_messages := mb_messages b @ [m], mb_buffered := mb_buffered b + n,
         mb_accumulator := mirrorAccumulator_Add (m_Body m) (mb_accumulator b)\<rparr>))"

section \<open>The buffer is bounded and accounts for what it holds\<close>

lemma addSizes_Some:
  assumes "\<forall>s \<in> set szs. 0 \<le> s"
  shows "addSizes remaining szs tot =
    (if szs = [] \<or> tot + sum_list szs \<le> remaining then Some (tot + sum_list szs) else None)"
  using assms
proof (induction szs arbitrary: tot)
  case (Cons s szs)
  have "0 \<le> sum_list szs" using Cons.prems by (auto intro: sum_list_nonneg)
  with Cons show ?case by auto
qed simp

lemma messageSizes_nonneg: "\<forall>s \<in> set (messageSizes m). 0 \<le> s"
  by (auto simp: messageSizes_def mirrorMessageOverhead_def mirrorHeaderOverhead_def)

lemma bounded_Some:
  "boundedMirrorMessageBytes m remaining =
    (if sum_list (messageSizes m) \<le> remaining then Some (sum_list (messageSizes m)) else None)"
  unfolding boundedMirrorMessageBytes_def addSizes_Some [OF messageSizes_nonneg] by (simp add: messageSizes_def)

text \<open>The order in which Go visits the headers does not matter.\<close>

lemma messageSizes_headers:
  assumes "mset hs = mset (m_Headers m)"
  shows "boundedMirrorMessageBytes (m\<lparr>m_Headers := hs\<rparr>) remaining = boundedMirrorMessageBytes m remaining"
proof -
  let ?f = "\<lambda>(k, v). mirrorHeaderOverhead + int (length k) + int (length v)"
  have total: "sum_list (messageSizes x) = mirrorMessageOverhead + int (length (m_Key x)) + int (length (m_Body x)) +
      sum_list (map ?f (m_Headers x))" for x
  proof -
    have "sum_list (concat (map (\<lambda>(k, v). [mirrorHeaderOverhead, int (length k), int (length v)]) kvs)) =
      sum_list (map ?f kvs)" for kvs :: "(string \<times> string) list"
      by (induction kvs) auto
    then show ?thesis by (simp add: messageSizes_def)
  qed
  have "sum_list (map ?f hs) = sum_list (map ?f (m_Headers m))"
  proof -
    have "mset (map ?f hs) = mset (map ?f (m_Headers m))" using assms by simp
    then show ?thesis using sum_mset_sum_list by metis
  qed
  then show ?thesis unfolding bounded_Some total by simp
qed

definition buffer_ok :: "mirrorReadBuffer \<Rightarrow> bool" where
  "buffer_ok b = (int (length (mb_messages b)) \<le> max 0 (mb_maxMessages b) \<and>
     mb_buffered b = sum_list (map (sum_list \<circ> messageSizes) (mb_messages b)) \<and>
     mb_buffered b \<le> max 0 (mb_maxBytes b) \<and>
     mb_accumulator b = fold (mirrorAccumulator_Add \<circ> m_Body) (mb_messages b) newMirrorAccumulator)"

lemma buffer_new: "buffer_ok (newMirrorReadBuffer limit maxBytes)"
  by (simp add: buffer_ok_def newMirrorReadBuffer_def)

lemma buffer_add: "buffer_ok b \<Longrightarrow> buffer_ok (snd (mirrorReadBuffer_Add m b))"
  by (auto simp: mirrorReadBuffer_Add_def buffer_ok_def bounded_Some split: option.split)

text \<open>A source that emits the messages in turn, going on after an error.\<close>

definition fillMirrorBuffer :: "Message list \<Rightarrow> mirrorReadBuffer \<Rightarrow> mirrorReadBuffer" where
  "fillMirrorBuffer ms b = fold (\<lambda>m b. snd (mirrorReadBuffer_Add m b)) ms b"

lemma buffer_fill: "buffer_ok b \<Longrightarrow> buffer_ok (fillMirrorBuffer ms b)"
  unfolding fillMirrorBuffer_def by (induction ms arbitrary: b) (auto intro: buffer_add)

lemma fill_limits:
  "mb_maxMessages (fillMirrorBuffer ms b) = mb_maxMessages b" "mb_maxBytes (fillMirrorBuffer ms b) = mb_maxBytes b"
  unfolding fillMirrorBuffer_def
  by (induction ms arbitrary: b) (auto simp: mirrorReadBuffer_Add_def split: option.split)

lemma fill_subseq: "\<exists>taken. mb_messages (fillMirrorBuffer ms b) = mb_messages b @ taken \<and> subseq taken ms"
  unfolding fillMirrorBuffer_def
proof (induction ms arbitrary: b)
  case (Cons m ms)
  have "snd (mirrorReadBuffer_Add m b) = b \<or> mb_messages (snd (mirrorReadBuffer_Add m b)) = mb_messages b @ [m]"
    by (auto simp: mirrorReadBuffer_Add_def split: option.split)
  then show ?case using Cons.IH [of "snd (mirrorReadBuffer_Add m b)"] by auto
qed simp

lemma accumulated:
  "fold (mirrorAccumulator_Add \<circ> m_Body) ms a = \<lparr>ma_bodyHashes = ma_bodyHashes a @ concat (map (sha256 \<circ> m_Body) ms),
     ma_totalSize = ma_totalSize a + (\<Sum>m \<leftarrow> ms. int (length (m_Body m))), ma_totalCount = ma_totalCount a + int (length ms)\<rparr>"
  by (induction ms arbitrary: a) (simp_all add: mirrorAccumulator_Add_def)

end
