(* ===== verification/Cmd_World.thy ===== *)
theory Cmd_World
  imports Mirror_Buffer
begin

text \<open>
  What a command of the program works on: the state it reads and writes, the calls of libraries it
  depends on, connections to a broker, and what it prints (cmd/target.go, cmd/read_diagnostics.go).

  The state \<open>world\<close> holds the audit, the state \<open>'b\<close> of all brokers there are, the number of open
  connections, the buffers of diagnostics, and what was printed. \<open>cmd_env\<close> has one field for each
  library or system call that the commands of this development use:

  \<^item> \<open>ce_effectiveRisk\<close>, \<open>ce_authorize n\<close>: \<open>safety.EffectiveRisk\<close> and the \<open>n\<close>-th call of
    \<open>safety.Authorize\<close>, which may ask the user and run the validator of tickets;
  \<^item> \<open>ce_eventAuthorizationDenied\<close>: the event type \<open>audit.EventAuthorizationDenied\<close>;
  \<^item> \<open>ce_new_fake\<close> \<dots> \<open>ce_new_rocketmq\<close>: the constructors of the backends;
  \<^item> \<open>ce_notify n\<close>: the TLS notifications, formatted, that a backend emits during the \<open>n\<close>-th call of
    a broker; \<open>ce_redact\<close>: \<open>redact.String\<close>;
  \<^item> \<open>ce_print n\<close>: the error of the printer on the \<open>n\<close>-th output; \<open>ce_errorsIs\<close>: \<open>errors.Is\<close>;
  \<^item> \<open>ce_getenv\<close>, \<open>ce_readFile\<close> of the operating system; the calls of the credential store.
\<close>

section \<open>Backend options\<close>

record KafkaOptions =
  ko_Brokers :: "string list"
  ko_Cluster :: string
  ko_Namespace :: string
  ko_Username :: string
  ko_Password :: string
  ko_SASLMechanism :: string
  ko_TLS :: bool
  ko_CACertFile :: string
  ko_ClientCertFile :: string
  ko_ClientKeyFile :: string
  ko_SchemaRegistryURL :: string
  ko_SchemaRegistryUsername :: string
  ko_SchemaRegistryPassword :: string
  ko_TLSPinPath :: string
  ko_TLSNotify :: "nat option"
  ko_Timeout :: int

record RabbitMQOptions =
  ro_AMQPURL :: string
  ro_ManagementURL :: string
  ro_Host :: string
  ro_Port :: int
  ro_VHost :: string
  ro_Cluster :: string
  ro_Namespace :: string
  ro_Username :: string
  ro_Password :: string
  ro_TLS :: bool
  ro_CACertFile :: string
  ro_ClientCertFile :: string
  ro_ClientKeyFile :: string
  ro_TLSPinPath :: string
  ro_TLSNotify :: "nat option"
  ro_Timeout :: int

record PulsarOptions =
  po_ServiceURL :: string
  po_AdminURL :: string
  po_Tenant :: string
  po_Namespace :: string
  po_Cluster :: string
  po_Token :: string
  po_TLS :: bool
  po_CACertFile :: string
  po_ClientCertFile :: string
  po_ClientKeyFile :: string
  po_TLSPinPath :: string
  po_TLSNotify :: "nat option"
  po_Timeout :: int

record RocketMQOptions =
  qo_NameServers :: "string list"
  qo_BrokerAddr :: string
  qo_Cluster :: string
  qo_Namespace :: string
  qo_AccessKey :: string
  qo_SecretKey :: string
  qo_TLS :: bool
  qo_CACertFile :: string
  qo_ClientCertFile :: string
  qo_ClientKeyFile :: string
  qo_Timeout :: int

type_synonym 'b broker = "('b, MessageFingerprint list, mirrorReadBuffer) Broker"

section \<open>Governance of the core library\<close>

text \<open>\<open>safety.ContextMeta\<close> and \<open>safety.Options\<close>; an external validator is its path, context and operator.\<close>

record ContextMeta =
  sm_Env :: string
  sm_Protected :: bool
  sm_TicketPattern :: string
  sm_TicketValidator :: string
  sm_Roles :: "(string \<times> role) list"

record safety_options =
  so_Yes :: bool
  so_NonInteractive :: bool
  so_Ticket :: string
  so_TicketPattern :: string
  so_Validator :: "(string \<times> string \<times> string) option"
  so_RequiredAllowFlags :: "string list"
  so_GrantedAllowFlags :: "(string \<times> bool) list"
  so_Roles :: "(string \<times> role) list"
  so_Operator :: string

record ('l, 'b) cmd_env =
  ce_audit :: "'l audit_env"
  ce_effectiveRisk :: "risk \<Rightarrow> ContextMeta \<Rightarrow> risk"
  ce_authorize :: "nat \<Rightarrow> risk \<Rightarrow> safety_options \<Rightarrow> go_error option"
  ce_eventAuthorizationDenied :: string
  ce_new_fake :: "string \<Rightarrow> string \<Rightarrow> ('b, 'b broker) op"
  ce_new_kafka :: "KafkaOptions \<Rightarrow> ('b, 'b broker) op"
  ce_new_rabbitmq :: "RabbitMQOptions \<Rightarrow> ('b, 'b broker) op"
  ce_new_pulsar :: "PulsarOptions \<Rightarrow> ('b, 'b broker) op"
  ce_new_rocketmq :: "RocketMQOptions \<Rightarrow> ('b, 'b broker) op"
  ce_notify :: "nat \<Rightarrow> string list"
  ce_redact :: "string \<Rightarrow> string"
  ce_print :: "nat \<Rightarrow> go_error option"
  ce_errorsIs :: "go_error \<Rightarrow> go_error \<Rightarrow> bool"
  ce_getenv :: "string \<Rightarrow> string"
  ce_readFile :: "string \<Rightarrow> go_error + string"
  ce_passwordContext :: "Context \<Rightarrow> string \<Rightarrow> go_error + string"
  ce_parseRef :: "string \<Rightarrow> string option"
  ce_credstore :: "string \<Rightarrow> go_error + (string \<Rightarrow> go_error + string)"

section \<open>Diagnostics\<close>

record readDiagnosticBuffer =
  db_stderr :: string
  db_dropped :: bool
  db_done :: bool

definition maxReadDiagnosticBytes :: int where "maxReadDiagnosticBytes = 64 * 1024"

definition readDiagnosticOverflowNotice :: string where
  "readDiagnosticOverflowNotice = ''warning: additional backend diagnostics were suppressed\<newline>''"

definition newReadDiagnosticBuffer :: readDiagnosticBuffer where
  "newReadDiagnosticBuffer = \<lparr>db_stderr = '''', db_dropped = False, db_done = False\<rparr>"

definition appendStderr :: "(string \<Rightarrow> string) \<Rightarrow> string \<Rightarrow> readDiagnosticBuffer \<Rightarrow> readDiagnosticBuffer" where
  "appendStderr redact msg buffer =
    (let room = maxReadDiagnosticBytes - int (length (db_stderr buffer)) in
     if db_done buffer then buffer
     else if room < int (length msg) then buffer\<lparr>db_dropped := True\<rparr>
     else if room < int (length (redact msg)) then buffer\<lparr>db_dropped := True\<rparr>
     else buffer\<lparr>db_stderr := db_stderr buffer @ redact msg\<rparr>)"

text \<open>\<open>complete\<close>: the buffer afterwards and what is written to the error stream.\<close>

definition completeBuffer :: "bool \<Rightarrow> readDiagnosticBuffer \<Rightarrow> readDiagnosticBuffer \<times> string list" where
  "completeBuffer flush buffer =
    (if db_done buffer then (buffer, [])
     else (buffer\<lparr>db_done := True, db_stderr := ''''\<rparr>,
       if \<not> flush then []
       else (if db_stderr buffer = '''' then [] else [db_stderr buffer]) @
            (if db_dropped buffer then [readDiagnosticOverflowNotice] else [])))"

section \<open>Output\<close>

datatype out_format = FormatTable | FormatJSON | FormatPlain

record printer =
  pr_format :: out_format
  pr_PlainHead :: bool

record operationTarget =
  ot_Context :: string
  ot_Backend :: string
  ot_Cluster :: string
  ot_Namespace :: string

datatype operationTargetMode = operationTargetRead | operationTargetWrite

text \<open>The results that the commands print.\<close>

datatype out_value =
    V_Map "(string \<times> json) list" | V_Deleted string string audit_status
  | V_Topics "TopicDescription list" | V_Topic TopicDescription | V_TopicPurge TopicPurgeResult
  | V_Groups "GroupDescription list" | V_Group GroupDescription | V_Offsets OffsetPlan
  | V_Peek MessagePeekResult | V_Tail MessageTailResult | V_Message MessageFingerprint
  | V_Produce MessageProduceResult | V_Mirror MessageMirrorResult
  | V_DLQs "DLQDescription list" | V_DLQPeek DLQPeekResult | V_Redrive DLQRedriveResult
  | V_DLQPurge DLQPurgeResult | V_ACLs "ACLBinding list" | V_ACL ACLBinding
  | V_Schemas "SchemaSubject list" | V_Schema SchemaDescription | V_SchemaCheck SchemaCheckResult
  | V_SchemaDelete SchemaDeleteResult | V_Maps "(string \<times> json) list list"

datatype out_event =
    Out_Header printer string "(string \<times> string) list"
  | Out_JSON printer string out_value "operationTarget option"
  | Out_List printer string out_value int int operationTarget
  | Out_Table printer "string list" "string list list"
  | Out_JSONList printer string out_value int int int bool
  | Out_Info printer string
  | Out_Success printer string

section \<open>The world\<close>

record ('l, 'b) world =
  wo_aud :: "'l aud"
  wo_broker :: 'b
  wo_conns :: int
  wo_asks :: nat
  wo_calls :: nat
  wo_diag :: "nat option"
  wo_buffers :: "readDiagnosticBuffer list"
  wo_stderr :: "string list"
  wo_out :: "out_event list"

type_synonym ('l, 'b, 'a) cmd = "(('l, 'b) world, 'a) op"

definition ce_su :: "('l, 'b) cmd_env \<Rightarrow> surroundings" where
  "ce_su E = ae_su (ce_audit E)"

definition codeOf :: "('l, 'b) cmd_env \<Rightarrow> go_error \<Rightarrow> error_code" where
  "codeOf E e = fst (ae_asApp (ce_audit E) e)"

text \<open>An operation of the audit, and one of a broker.\<close>

definition audit :: "('l aud \<Rightarrow> 'r \<times> 'l aud) \<Rightarrow> ('l, 'b) world \<Rightarrow> 'r \<times> ('l, 'b) world" where
  "audit m = zoom wo_aud (\<lambda>a w. w\<lparr>wo_aud := a\<rparr>) m"

record 'b connection =
  cn_broker :: "'b broker"
  cn_notify :: "nat option"

definition notified :: "('l, 'b) cmd_env \<Rightarrow> nat option \<Rightarrow> ('l, 'b) world \<Rightarrow> ('l, 'b) world" where
  "notified E target w = w\<lparr>wo_calls := Suc (wo_calls w), wo_buffers := (case target of
       None \<Rightarrow> wo_buffers w
     | Some i \<Rightarrow> (wo_buffers w)[i := fold (appendStderr (ce_redact E)) (ce_notify E (wo_calls w)) (wo_buffers w ! i)])\<rparr>"

definition broker_call ::
  "('l, 'b) cmd_env \<Rightarrow> 'b connection \<Rightarrow> ('b \<Rightarrow> 'r \<times> 'b) \<Rightarrow> ('l, 'b) world \<Rightarrow> 'r \<times> ('l, 'b) world" where
  "broker_call E cn m w = (case m (wo_broker w) of (r, b) \<Rightarrow> (r, notified E (cn_notify cn) (w\<lparr>wo_broker := b\<rparr>)))"

text \<open>A call with a callback that works on a state \<open>s\<close> of the caller.\<close>

definition broker_call_with ::
  "('l, 'b) cmd_env \<Rightarrow> 'b connection \<Rightarrow> 's \<Rightarrow> ('b \<times> 's \<Rightarrow> 'r \<times> 'b \<times> 's) \<Rightarrow>
   ('l, 'b) world \<Rightarrow> ('r \<times> 's) \<times> ('l, 'b) world" where
  "broker_call_with E cn s m w = (case m (wo_broker w, s) of
     (r, b, s') \<Rightarrow> ((r, s'), notified E (cn_notify cn) (w\<lparr>wo_broker := b\<rparr>)))"

definition describe :: "'b connection \<Rightarrow> ('l, 'b) world \<Rightarrow> Description" where
  "describe cn w = Describe (cn_broker cn) (wo_broker w)"

definition capabilities :: "'b connection \<Rightarrow> ('l, 'b) world \<Rightarrow> Capabilities" where
  "capabilities cn w = BCapabilities (cn_broker cn) (wo_broker w)"

text \<open>\<open>defer backend.Close()\<close> around \<open>m\<close>.\<close>

definition closeBroker :: "'b connection \<Rightarrow> ('l, 'b) world \<Rightarrow> ('l, 'b) world" where
  "closeBroker cn w = w\<lparr>wo_broker := Close (cn_broker cn) (wo_broker w), wo_conns := wo_conns w - 1\<rparr>"

definition closing :: "'b connection \<Rightarrow> (('l, 'b) world \<Rightarrow> 'r \<times> ('l, 'b) world) \<Rightarrow>
  ('l, 'b) world \<Rightarrow> 'r \<times> ('l, 'b) world" where
  "closing cn m w = (case m w of (r, w') \<Rightarrow> (r, closeBroker cn w'))"

section \<open>Targets and printing\<close>

definition operationTargetFromDescription :: "string \<Rightarrow> Description \<Rightarrow> operationTarget" where
  "operationTargetFromDescription name desc = \<lparr>ot_Context = name, ot_Backend = de_Backend desc,
     ot_Cluster = de_Cluster desc, ot_Namespace = de_Namespace desc\<rparr>"

definition operationTargetFromBroker ::
  "('l, 'b) cmd_env \<Rightarrow> cliFlags \<Rightarrow> 'b connection \<Rightarrow> ('l, 'b) world \<Rightarrow> operationTarget" where
  "operationTargetFromBroker E f cn w =
     operationTargetFromDescription (contextName (ce_su E) f) (describe cn w)"

definition newPrinter :: "cliFlags \<Rightarrow> printer" where
  "newPrinter f = \<lparr>pr_format = (if fl_Output f = ''json'' then FormatJSON
       else if fl_Output f = ''plain'' then FormatPlain else FormatTable),
     pr_PlainHead = fl_PlainHead f\<rparr>"

definition printed :: "('l, 'b) cmd_env \<Rightarrow> out_event \<Rightarrow> ('l, 'b, unit) cmd" where
  "printed E x w = (case ce_print E (length (wo_out w)) of None \<Rightarrow> Inr () | Some e \<Rightarrow> Inl e,
     w\<lparr>wo_out := wo_out w @ [x]\<rparr>)"

definition printOperationTarget ::
  "('l, 'b) cmd_env \<Rightarrow> printer \<Rightarrow> operationTarget \<Rightarrow> operationTargetMode \<Rightarrow> ('l, 'b, unit) cmd" where
  "printOperationTarget E p target mode =
    (let label = (if mode = operationTargetWrite then ''WRITE TARGET'' else ''TARGET'') in
     printed E (Out_Header p label [(''context'', ot_Context target), (''backend'', ot_Backend target),
       (''cluster'', ot_Cluster target), (''namespace'', ot_Namespace target)]))"

definition targetDataForOutput :: "cliFlags \<Rightarrow> operationTarget \<Rightarrow> operationTarget option" where
  "targetDataForOutput f target = (if fl_Output f = ''json'' then Some target else None)"

definition targetJSONData ::
  "('l, 'b) cmd_env \<Rightarrow> cliFlags \<Rightarrow> string \<Rightarrow> out_value \<Rightarrow> operationTarget \<Rightarrow> operationTargetMode \<Rightarrow>
   ('l, 'b, unit) cmd" where
  "targetJSONData E f kind data target mode =
     seqE (printOperationTarget E (newPrinter f) target mode) (\<lambda>_.
     printed E (Out_JSON (newPrinter f) kind data (targetDataForOutput f target)))"

definition targetJSONList ::
  "('l, 'b) cmd_env \<Rightarrow> cliFlags \<Rightarrow> string \<Rightarrow> out_value \<Rightarrow> int \<Rightarrow> int \<Rightarrow> operationTarget \<Rightarrow> ('l, 'b, unit) cmd" where
  "targetJSONList E f kind items tot pageSize target =
     printed E (Out_List (newPrinter f) kind items tot pageSize target)"

definition targetTable ::
  "('l, 'b) cmd_env \<Rightarrow> cliFlags \<Rightarrow> string list \<Rightarrow> string list list \<Rightarrow> operationTarget \<Rightarrow> ('l, 'b, unit) cmd" where
  "targetTable E f headers rows target =
     seqE (printOperationTarget E (newPrinter f) target operationTargetRead) (\<lambda>_.
     printed E (Out_Table (newPrinter f) headers rows))"

text \<open>The details overwrite the fields that every plan has.\<close>

definition printBrokerChangePlan ::
  "('l, 'b) cmd_env \<Rightarrow> cliFlags \<Rightarrow> string \<Rightarrow> string \<Rightarrow> string \<Rightarrow> (string \<times> json) list \<Rightarrow> ('l, 'b, unit) cmd" where
  "printBrokerChangePlan E f action resourceType resource details =
    (let data = [(''action'', JStr action), (''resourceType'', JStr resourceType), (''resource'', JStr resource),
           (''context'', JStr (contextName (ce_su E) f)), (''dryRun'', JBool True)]
     in printed E (Out_JSON (newPrinter f) ''ChangePlan''
          (V_Map (fold (\<lambda>(k, v). alist_put k v) details data)) None))"

end
