(* ===== verification/Governance.thy ===== *)
theory Governance
  imports Cmd_World
begin

text \<open>
  Authorization and the choice of a backend (cmd/root.go, and the two password lookups of
  internal/mqgovctx/context.go that it needs). Every risky step of a command passes
  \<open>authorizeResolvedRiskForContextWithConfirmation\<close>: the trusted operator is resolved, the core
  library decides on risk, confirmation, ticket, roles and allow flags, and a denial is recorded in the
  audit. The hooks of the tests (\<open>brokerRuntime\<close>, \<open>mirrorRuntime\<close>, \<open>mutationAudit\<close>) are nil in the
  program and are left out.
\<close>

section \<open>Authorization\<close>

definition allowOffsetReset :: string where "allowOffsetReset = ''allow-offset-reset''"
definition allowTopicPurge :: string where "allowTopicPurge = ''allow-topic-purge''"
definition allowTopicDelete :: string where "allowTopicDelete = ''allow-topic-delete''"
definition allowTopicUpsert :: string where "allowTopicUpsert = ''allow-topic-upsert''"
definition allowDestructiveACL :: string where "allowDestructiveACL = ''allow-destructive-acl''"
definition allowInternalProduce :: string where "allowInternalProduce = ''allow-internal-produce''"
definition allowSchemaDelete :: string where "allowSchemaDelete = ''allow-schema-delete''"
definition allowContextChange :: string where "allowContextChange = ''allow-context-change''"
definition allowContextDelete :: string where "allowContextDelete = ''allow-context-delete''"
definition allowRoleChange :: string where "allowRoleChange = ''allow-role-change''"
definition allowAuditPrune :: string where "allowAuditPrune = ''allow-audit-prune''"

definition grantedAllowFlags :: "cliFlags \<Rightarrow> (string \<times> bool) list" where
  "grantedAllowFlags f =
     [(allowOffsetReset, fl_AllowOffsetReset f), (allowTopicPurge, fl_AllowTopicPurge f),
      (allowTopicDelete, fl_AllowTopicDelete f), (allowTopicUpsert, fl_AllowTopicUpsert f),
      (allowDestructiveACL, fl_AllowDestructiveACL f), (allowInternalProduce, fl_AllowInternalProd f),
      (allowSchemaDelete, fl_AllowSchemaDelete f), (allowContextChange, fl_AllowContextChange f),
      (allowContextDelete, fl_AllowContextDelete f), (allowRoleChange, fl_AllowRoleChange f),
      (allowAuditPrune, fl_AllowAuditPrune f)]"

definition requiredAllow :: "string \<Rightarrow> string list" where
  "requiredAllow flag = (if flag = '''' then [] else [flag])"

definition ticketValidator :: "string \<Rightarrow> string \<Rightarrow> string \<Rightarrow> (string \<times> string \<times> string) option" where
  "ticketValidator path name operator = (if path = '''' then None else Some (path, name, operator))"

definition safetyOptions ::
  "cliFlags \<Rightarrow> Context \<Rightarrow> string \<Rightarrow> bool \<Rightarrow> string \<Rightarrow> string \<Rightarrow> safety_options" where
  "safetyOptions f meta required confirmed name operator =
     \<lparr>so_Yes = confirmed, so_NonInteractive = fl_NonInter f, so_Ticket = fl_Ticket f,
      so_TicketPattern = cx_TicketPattern meta,
      so_Validator = ticketValidator (cx_TicketValidator meta) name operator,
      so_RequiredAllowFlags = requiredAllow required, so_GrantedAllowFlags = grantedAllowFlags f,
      so_Roles = cx_Roles meta, so_Operator = operator\<rparr>"

definition authorizeResolvedRiskForContextWithConfirmation ::
  "('l, 'b) cmd_env \<Rightarrow> cliFlags \<Rightarrow> risk \<Rightarrow> Context \<Rightarrow> string \<Rightarrow> bool \<Rightarrow> string \<Rightarrow> ('l, 'b, unit) cmd" where
  "authorizeResolvedRiskForContextWithConfirmation E f risk meta required confirmed name =
    (case trustedOperatorIdentity (ce_su E) f of
       Inl e \<Rightarrow> throw e
     | Inr operator \<Rightarrow>
         seqE (getS wo_asks) (\<lambda>n.
         seqE (modS (\<lambda>w. w\<lparr>wo_asks := Suc n\<rparr>)) (\<lambda>_.
         case ce_authorize E n risk (safetyOptions f meta required confirmed name operator) of
           None \<Rightarrow> ret ()
         | Some e \<Rightarrow>
             tryE (audit (appendAuditWarn (ce_audit E) f (ce_eventAuthorizationDenied E) meta
                    \<lparr>et_ResourceType = ''mq'', et_Resource = ''''\<rparr> StatusDenied '''' (Some e)))
               (\<lambda>_. throw e))))"

definition contextMeta :: "Context \<Rightarrow> ContextMeta" where
  "contextMeta meta = \<lparr>sm_Env = cx_Env meta, sm_Protected = cx_Protected meta,
     sm_TicketPattern = cx_TicketPattern meta, sm_TicketValidator = cx_TicketValidator meta,
     sm_Roles = cx_Roles meta\<rparr>"

definition authorizeForContextWithConfirmation ::
  "('l, 'b) cmd_env \<Rightarrow> cliFlags \<Rightarrow> risk \<Rightarrow> Context \<Rightarrow> string \<Rightarrow> bool \<Rightarrow> string \<Rightarrow> ('l, 'b, unit) cmd" where
  "authorizeForContextWithConfirmation E f base meta required confirmed name =
     authorizeResolvedRiskForContextWithConfirmation E f (ce_effectiveRisk E base (contextMeta meta)) meta
       required confirmed name"

definition authorizeWithConfirmation ::
  "('l, 'b) cmd_env \<Rightarrow> cliFlags \<Rightarrow> risk \<Rightarrow> Context \<Rightarrow> string \<Rightarrow> bool \<Rightarrow> ('l, 'b, unit) cmd" where
  "authorizeWithConfirmation E f base meta required confirmed =
     authorizeForContextWithConfirmation E f base meta required confirmed (contextName (ce_su E) f)"

definition authorize :: "('l, 'b) cmd_env \<Rightarrow> cliFlags \<Rightarrow> risk \<Rightarrow> Context \<Rightarrow> string \<Rightarrow> ('l, 'b, unit) cmd" where
  "authorize E f base meta required = authorizeWithConfirmation E f base meta required (fl_Yes f)"

definition authorizeResolvedRisk ::
  "('l, 'b) cmd_env \<Rightarrow> cliFlags \<Rightarrow> risk \<Rightarrow> Context \<Rightarrow> string \<Rightarrow> ('l, 'b, unit) cmd" where
  "authorizeResolvedRisk E f risk meta required =
     authorizeResolvedRiskForContextWithConfirmation E f risk meta required (fl_Yes f) (contextName (ce_su E) f)"

definition classifyAndAuthorize ::
  "('l, 'b) cmd_env \<Rightarrow> cliFlags \<Rightarrow> Context \<Rightarrow> operation \<Rightarrow> class_target \<Rightarrow> string \<Rightarrow> ('l, 'b, unit) cmd" where
  "classifyAndAuthorize E f meta opn target allow = authorize E f (r_risk (Classify opn target)) meta allow"

section \<open>Passwords and environment\<close>

definition ResolvePassword :: "('l, 'b) cmd_env \<Rightarrow> string \<Rightarrow> Context \<Rightarrow> go_error + string" where
  "ResolvePassword E name item =
    (if cx_Password item = '''' \<and> ce_getenv E ''MQGOV_PASSWORD'' \<noteq> ''''
     then Inr (ce_getenv E ''MQGOV_PASSWORD'')
     else ce_passwordContext E item name)"

definition ResolveKafkaSchemaRegistryPassword ::
  "('l, 'b) cmd_env \<Rightarrow> string \<Rightarrow> Context \<Rightarrow> go_error + string" where
  "ResolveKafkaSchemaRegistryPassword E name item =
    (case ce_parseRef E (cx_KafkaSchemaRegistryPassword item) of
       None \<Rightarrow> Inr (cx_KafkaSchemaRegistryPassword item)
     | Some backendName \<Rightarrow>
       (case ce_credstore E backendName of
          Inl e \<Rightarrow> Inl e
        | Inr get \<Rightarrow>
          (case get (name @ ''/schema-registry'') of
             Inl e \<Rightarrow> Inl (AppError CodeCredentialStoreError
               (''resolve schema registry password for context '' @ go_quote name) (Some e))
           | Inr password \<Rightarrow> Inr password)))"

text \<open>\<open>strconv.Atoi\<close>: an optional sign, decimal digits, and a value of 64 bits.\<close>

definition go_atoi :: "string \<Rightarrow> int option" where
  "go_atoi s =
    (let (neg, digits) = (case s of
           [] \<Rightarrow> (False, [])
         | c # cs \<Rightarrow> if c = CHR ''-'' then (True, cs) else if c = CHR ''+'' then (False, cs) else (False, s));
         v = (if neg then - int (digits_value digits) else int (digits_value digits))
     in if digits \<noteq> [] \<and> list_all is_digit digits \<and> go_int v = v then Some v else None)"

definition envInt :: "('l, 'b) cmd_env \<Rightarrow> string \<Rightarrow> int" where
  "envInt E name = (if ce_getenv E name = '''' then 0
     else case go_atoi (ce_getenv E name) of None \<Rightarrow> 0 | Some v \<Rightarrow> v)"

section \<open>The backend of a context\<close>

definition readTLSNotify :: "('l, 'b) world \<Rightarrow> nat option" where
  "readTLSNotify w = wo_diag w"

definition openBroker :: "nat option \<Rightarrow> ('b, 'b broker) op \<Rightarrow> ('l, 'b, 'b connection) cmd" where
  "openBroker notify new w = (case new (wo_broker w) of
     (Inl e, b) \<Rightarrow> (Inl e, w\<lparr>wo_broker := b\<rparr>)
   | (Inr B, b) \<Rightarrow> (Inr \<lparr>cn_broker = B, cn_notify = notify\<rparr>,
       w\<lparr>wo_broker := b, wo_conns := wo_conns w + 1\<rparr>))"

definition buildPulsarBackend ::
  "('l, 'b) cmd_env \<Rightarrow> cliFlags \<Rightarrow> Context \<Rightarrow> string \<Rightarrow> ('l, 'b, 'b connection) cmd" where
  "buildPulsarBackend E f item name =
     seqE (liftE (ResolvePassword E name item)) (\<lambda>token.
     seqE (getS readTLSNotify) (\<lambda>notify.
     openBroker notify (ce_new_pulsar E
       \<lparr>po_ServiceURL = firstNonEmpty [cx_PulsarServiceURL item, ce_getenv E ''PULSAR_SERVICE_URL''],
        po_AdminURL = firstNonEmpty [cx_PulsarAdminURL item, ce_getenv E ''PULSAR_ADMIN_URL''],
        po_Tenant = firstNonEmpty [cx_PulsarTenant item, ce_getenv E ''PULSAR_TENANT'', ''public''],
        po_Namespace = firstNonEmpty [cx_PulsarNamespace item, ce_getenv E ''PULSAR_NAMESPACE'', ''default''],
        po_Cluster = firstNonEmpty [fl_Cluster f, cx_Cluster item, ''pulsar''],
        po_Token = firstNonEmpty [ce_getenv E ''PULSAR_TOKEN'', token],
        po_TLS = (cx_PulsarTLS item \<or> ce_getenv E ''PULSAR_TLS'' = ''true''),
        po_CACertFile = firstNonEmpty [cx_PulsarCACertFile item, ce_getenv E ''PULSAR_CA_CERT_FILE''],
        po_ClientCertFile = firstNonEmpty [cx_PulsarClientCertFile item, ce_getenv E ''PULSAR_CLIENT_CERT_FILE''],
        po_ClientKeyFile = firstNonEmpty [cx_PulsarClientKeyFile item, ce_getenv E ''PULSAR_CLIENT_KEY_FILE''],
        po_TLSPinPath = '''', po_TLSNotify = notify, po_Timeout = fl_Timeout f\<rparr>)))"

definition buildRocketMQBackend ::
  "('l, 'b) cmd_env \<Rightarrow> cliFlags \<Rightarrow> Context \<Rightarrow> string \<Rightarrow> ('l, 'b, 'b connection) cmd" where
  "buildRocketMQBackend E f item name =
     seqE (liftE (ResolvePassword E name item)) (\<lambda>secretKey.
     openBroker None (ce_new_rocketmq E
       \<lparr>qo_NameServers = firstNonEmptyList (cx_RocketMQNameServers item) (ce_getenv E ''ROCKETMQ_NAMESRV_ADDR''),
        qo_BrokerAddr = firstNonEmpty [cx_RocketMQBrokerAddr item, ce_getenv E ''ROCKETMQ_BROKER_ADDR''],
        qo_Cluster = firstNonEmpty [fl_Cluster f, cx_Cluster item, ''rocketmq''],
        qo_Namespace = firstNonEmpty [fl_Namespace f, cx_Namespace item],
        qo_AccessKey = firstNonEmpty [cx_RocketMQAccessKey item, ce_getenv E ''ROCKETMQ_ACCESS_KEY''],
        qo_SecretKey = firstNonEmpty [ce_getenv E ''ROCKETMQ_SECRET_KEY'', secretKey],
        qo_TLS = (cx_RocketMQTLS item \<or> ce_getenv E ''ROCKETMQ_TLS'' = ''true''),
        qo_CACertFile = firstNonEmpty [cx_RocketMQCACertFile item, ce_getenv E ''ROCKETMQ_CA_CERT_FILE''],
        qo_ClientCertFile = firstNonEmpty [cx_RocketMQClientCertFile item, ce_getenv E ''ROCKETMQ_CLIENT_CERT_FILE''],
        qo_ClientKeyFile = firstNonEmpty [cx_RocketMQClientKeyFile item, ce_getenv E ''ROCKETMQ_CLIENT_KEY_FILE''],
        qo_Timeout = fl_Timeout f\<rparr>))"

definition buildRabbitMQBackend ::
  "('l, 'b) cmd_env \<Rightarrow> cliFlags \<Rightarrow> Context \<Rightarrow> string \<Rightarrow> ('l, 'b, 'b connection) cmd" where
  "buildRabbitMQBackend E f item name =
     seqE (liftE (ResolvePassword E name item)) (\<lambda>password.
     seqE (getS readTLSNotify) (\<lambda>notify.
     openBroker notify (ce_new_rabbitmq E
       \<lparr>ro_AMQPURL = firstNonEmpty [cx_RabbitMQAMQPURL item, ce_getenv E ''RABBITMQ_AMQP_URL''],
        ro_ManagementURL = firstNonEmpty [cx_RabbitMQManagementURL item, ce_getenv E ''RABBITMQ_MANAGEMENT_URL''],
        ro_Host = firstNonEmpty [cx_RabbitMQHost item, ce_getenv E ''RABBITMQ_HOST''],
        ro_Port = firstNonZeroInt [cx_RabbitMQPort item, envInt E ''RABBITMQ_PORT''],
        ro_VHost = firstNonEmpty [cx_RabbitMQVHost item, ce_getenv E ''RABBITMQ_VHOST''],
        ro_Cluster = firstNonEmpty [fl_Cluster f, cx_Cluster item, ''rabbitmq''],
        ro_Namespace = firstNonEmpty [fl_Namespace f, cx_Namespace item],
        ro_Username = firstNonEmpty [cx_Username item, ce_getenv E ''RABBITMQ_USERNAME''],
        ro_Password = firstNonEmpty [ce_getenv E ''RABBITMQ_PASSWORD'', password],
        ro_TLS = (cx_RabbitMQTLS item \<or> ce_getenv E ''RABBITMQ_TLS'' = ''true''),
        ro_CACertFile = firstNonEmpty [cx_RabbitMQCACertFile item, ce_getenv E ''RABBITMQ_CA_CERT_FILE''],
        ro_ClientCertFile = firstNonEmpty [cx_RabbitMQClientCertFile item, ce_getenv E ''RABBITMQ_CLIENT_CERT_FILE''],
        ro_ClientKeyFile = firstNonEmpty [cx_RabbitMQClientKeyFile item, ce_getenv E ''RABBITMQ_CLIENT_KEY_FILE''],
        ro_TLSPinPath = '''', ro_TLSNotify = notify, ro_Timeout = fl_Timeout f\<rparr>)))"

definition buildKafkaBackend ::
  "('l, 'b) cmd_env \<Rightarrow> cliFlags \<Rightarrow> Context \<Rightarrow> string \<Rightarrow> ('l, 'b, 'b connection) cmd" where
  "buildKafkaBackend E f item name =
     seqE (liftE (ResolvePassword E name item)) (\<lambda>password.
     seqE (liftE (ResolveKafkaSchemaRegistryPassword E name item)) (\<lambda>srPassword.
     seqE (getS readTLSNotify) (\<lambda>notify.
     openBroker notify (ce_new_kafka E
       \<lparr>ko_Brokers = firstNonEmptyList (cx_KafkaBrokers item) (ce_getenv E ''KAFKA_BROKERS''),
        ko_Cluster = firstNonEmpty [fl_Cluster f, cx_Cluster item, ''kafka''],
        ko_Namespace = firstNonEmpty [fl_Namespace f, cx_Namespace item],
        ko_Username = firstNonEmpty [cx_Username item, ce_getenv E ''KAFKA_USERNAME''],
        ko_Password = firstNonEmpty [ce_getenv E ''KAFKA_PASSWORD'', password],
        ko_SASLMechanism = firstNonEmpty [cx_KafkaSASLMechanism item, ce_getenv E ''KAFKA_SASL_MECHANISM''],
        ko_TLS = (cx_KafkaTLS item \<or> ce_getenv E ''KAFKA_TLS'' = ''true''),
        ko_CACertFile = firstNonEmpty [cx_KafkaCACertFile item, ce_getenv E ''KAFKA_CA_CERT_FILE''],
        ko_ClientCertFile = firstNonEmpty [cx_KafkaClientCertFile item, ce_getenv E ''KAFKA_CLIENT_CERT_FILE''],
        ko_ClientKeyFile = firstNonEmpty [cx_KafkaClientKeyFile item, ce_getenv E ''KAFKA_CLIENT_KEY_FILE''],
        ko_SchemaRegistryURL = firstNonEmpty [cx_KafkaSchemaRegistryURL item, ce_getenv E ''KAFKA_SCHEMA_REGISTRY_URL''],
        ko_SchemaRegistryUsername =
          firstNonEmpty [cx_KafkaSchemaRegistryUsername item, ce_getenv E ''KAFKA_SCHEMA_REGISTRY_USERNAME''],
        ko_SchemaRegistryPassword = firstNonEmpty [ce_getenv E ''KAFKA_SCHEMA_REGISTRY_PASSWORD'', srPassword],
        ko_TLSPinPath = '''', ko_TLSNotify = notify, ko_Timeout = fl_Timeout f\<rparr>))))"

definition buildBrokerForResolvedContext ::
  "('l, 'b) cmd_env \<Rightarrow> cliFlags \<Rightarrow> Context \<Rightarrow> string \<Rightarrow> ('l, 'b, 'b connection) cmd" where
  "buildBrokerForResolvedContext E f item name =
    (let backendName = firstNonEmpty [fl_Backend f, cx_Backend item, ''fake''] in
     if backendName \<noteq> ''fake'' then
       (if backendName = ''kafka'' then buildKafkaBackend E f item name
        else if backendName = ''rabbitmq'' then buildRabbitMQBackend E f item name
        else if backendName = ''pulsar'' then buildPulsarBackend E f item name
        else if backendName = ''rocketmq'' then buildRocketMQBackend E f item name
        else throw (AppError CodeNotImplemented ''backend is not supported'' None))
     else openBroker None (ce_new_fake E (firstNonEmpty [fl_Cluster f, cx_Cluster item, ''fake''])
            (firstNonEmpty [fl_Namespace f, cx_Namespace item])))"

end
