(* ===== verification/Read_Audit.thy ===== *)
theory Read_Audit
  imports Governance
begin

text \<open>
  The audit that brackets every access to a broker (cmd/read_audit.go): an intent that must be durable
  before the access, an outcome that must be durable before its result is used, and the backend's
  diagnostics, which reach the error stream only after a durable outcome.

  A generic parameter \<open>T\<close> comes with its zero value \<open>zero\<close>. No caller passes a nil function. The local
  variable \<open>opened\<close> of \<open>runMandatoryBrokerPreflight\<close>, which its closure sets, is part of the value of the
  closure; \<open>accessed\<close> keeps that value beside an error.
\<close>

record readAuditSpec =
  rs_Action :: string
  rs_ContextName :: string
  rs_Context :: Context
  rs_Target :: EventTarget
  rs_Metadata :: mutationAuditMetadata
  rs_AuditPath :: string

text \<open>A specification as the commands write it: the other fields are zero.\<close>

definition readSpec :: "string \<Rightarrow> EventTarget \<Rightarrow> mutationAuditMetadata \<Rightarrow> readAuditSpec" where
  "readSpec action target metadata = \<lparr>rs_Action = action, rs_ContextName = '''', rs_Context = no_context,
     rs_Target = target, rs_Metadata = metadata, rs_AuditPath = ''''\<rparr>"

record readAuditHandle =
  rh_mutation :: mutationAuditHandle
  rh_diagnostics :: nat
  rh_previous :: "nat option"

definition mandatoryReadAuditError :: "string \<Rightarrow> go_error \<Rightarrow> go_error option \<Rightarrow> go_error" where
  "mandatoryReadAuditError msg auditErr operationErr = AppError CodeLocalIOError msg
     (Some (case operationErr of None \<Rightarrow> auditErr | Some e \<Rightarrow> JoinedError [auditErr, e]))"

definition readMutationSpec :: "readAuditSpec \<Rightarrow> mutationAuditSpec" where
  "readMutationSpec spec = \<lparr>sp_Action = rs_Action spec, sp_ContextName = rs_ContextName spec,
     sp_Context = rs_Context spec, sp_Target = rs_Target spec,
     sp_Metadata = (if md_Items (rs_Metadata spec) = 0 then (rs_Metadata spec)\<lparr>md_Items := 1\<rparr>
       else rs_Metadata spec),
     sp_AuditPath = rs_AuditPath spec, sp_Read = True\<rparr>"

definition beginReadAudit ::
  "('l, 'b) cmd_env \<Rightarrow> cliFlags \<Rightarrow> readAuditSpec \<Rightarrow> ('l, 'b, readAuditHandle) cmd" where
  "beginReadAudit E f spec =
     tryE (audit (beginMutationAudit (ce_audit E) f (readMutationSpec spec))) (\<lambda>begun.
     case begun of
       Inl e \<Rightarrow> throw (mandatoryReadAuditError ''failed to persist mandatory read intent'' e None)
     | Inr handle \<Rightarrow>
         seqE (getS wo_diag) (\<lambda>previous.
         seqE (getS (length \<circ> wo_buffers)) (\<lambda>diagnostics.
         seqE (modS (\<lambda>w. w\<lparr>wo_diag := Some diagnostics,
           wo_buffers := wo_buffers w @ [newReadDiagnosticBuffer]\<rparr>)) (\<lambda>_.
         ret \<lparr>rh_mutation = handle, rh_diagnostics = diagnostics, rh_previous = previous\<rparr>))))"

text \<open>The buffer of a handle. Its index is that of a buffer there is; the other case does not occur.\<close>

definition diagnosticBuffer :: "readAuditHandle \<Rightarrow> ('l, 'b) world \<Rightarrow> readDiagnosticBuffer" where
  "diagnosticBuffer handle w = (if rh_diagnostics handle < length (wo_buffers w)
     then wo_buffers w ! rh_diagnostics handle else newReadDiagnosticBuffer)"

definition completeDiagnostics :: "readAuditHandle \<Rightarrow> bool \<Rightarrow> ('l, 'b) world \<Rightarrow> ('l, 'b) world" where
  "completeDiagnostics handle durable w =
    (let w1 = (if wo_diag w = Some (rh_diagnostics handle) then w\<lparr>wo_diag := rh_previous handle\<rparr> else w);
         (buffer, writes) = completeBuffer durable (diagnosticBuffer handle w)
     in w1\<lparr>wo_buffers := (wo_buffers w)[rh_diagnostics handle := buffer], wo_stderr := wo_stderr w @ writes\<rparr>)"

definition persistReadAuditOutcome ::
  "('l, 'b) cmd_env \<Rightarrow> cliFlags \<Rightarrow> readAuditHandle \<Rightarrow> mutationAuditOutcome \<Rightarrow> go_error option \<Rightarrow>
   ('l, 'b, unit) cmd" where
  "persistReadAuditOutcome E f handle oc operationErr =
     tryE (audit (finishMutationAudit (ce_audit E) f (rh_mutation handle) oc operationErr)) (\<lambda>finished.
     let durable = (case finished of
           Inr _ \<Rightarrow> True
         | Inl e \<Rightarrow> (case operationErr of None \<Rightarrow> False | Some e' \<Rightarrow> ce_errorsIs E e e'))
     in seqE (modS (completeDiagnostics handle durable)) (\<lambda>_.
        case finished of
          Inr _ \<Rightarrow> ret ()
        | Inl e \<Rightarrow> if durable then ret ()
            else throw (mandatoryReadAuditError ''failed to persist mandatory read outcome'' e operationErr)))"

definition finishReadAudit ::
  "('l, 'b) cmd_env \<Rightarrow> cliFlags \<Rightarrow> readAuditHandle \<Rightarrow> int \<Rightarrow> go_error option \<Rightarrow> ('l, 'b, unit) cmd" where
  "finishReadAudit E f handle resultCount operationErr =
     seqE (persistReadAuditOutcome E f handle (singleReadAuditOutcome resultCount operationErr) operationErr)
       (\<lambda>_. check operationErr)"

definition persistReadAuditBatch ::
  "('l, 'b) cmd_env \<Rightarrow> cliFlags \<Rightarrow> readAuditHandle \<Rightarrow> int \<Rightarrow> int \<Rightarrow> int \<Rightarrow> go_error option \<Rightarrow>
   ('l, 'b, unit) cmd" where
  "persistReadAuditBatch E f handle succeeded failed resultCount operationErr =
     persistReadAuditOutcome E f handle
       (batchReadAuditOutcome (md_Items (sp_Metadata (mh_spec (rh_mutation handle)))) succeeded failed
         resultCount operationErr) operationErr"

definition finishReadAuditBatch ::
  "('l, 'b) cmd_env \<Rightarrow> cliFlags \<Rightarrow> readAuditHandle \<Rightarrow> int \<Rightarrow> int \<Rightarrow> int \<Rightarrow> go_error option \<Rightarrow>
   ('l, 'b, unit) cmd" where
  "finishReadAuditBatch E f handle succeeded failed resultCount operationErr =
     seqE (persistReadAuditBatch E f handle succeeded failed resultCount operationErr)
       (\<lambda>_. check operationErr)"

section \<open>Reading under the audit\<close>

definition accessed ::
  "('l, 'b) cmd_env \<Rightarrow> cliFlags \<Rightarrow> readAuditSpec \<Rightarrow> 'a \<Rightarrow> (('l, 'b) world, 'a) call \<Rightarrow> ('a \<Rightarrow> int) \<Rightarrow>
   (('l, 'b) world, 'a) call" where
  "accessed E f spec zero operation resultCount =
     stepC zero (beginReadAudit E f spec) (\<lambda>handle.
     callE operation (\<lambda>(result, operationErr).
     callE (finishReadAudit E f handle (resultCount result) operationErr) (\<lambda>finished.
     answer result (errOf finished))))"

definition runMandatoryRead ::
  "('l, 'b) cmd_env \<Rightarrow> cliFlags \<Rightarrow> readAuditSpec \<Rightarrow> 'a \<Rightarrow> (('l, 'b) world, 'a) call \<Rightarrow> ('a \<Rightarrow> int) \<Rightarrow>
   ('l, 'b, 'a) cmd" where
  "runMandatoryRead E f spec zero operation resultCount =
     asOp (accessed E f spec zero operation resultCount)"

text \<open>The specification with the resolved context.\<close>

definition readSpecFor :: "readAuditSpec \<Rightarrow> Context \<Rightarrow> string \<Rightarrow> readAuditSpec" where
  "readSpecFor spec meta name = spec\<lparr>rs_Context := meta,
     rs_ContextName := (if rs_ContextName spec = '''' then name else rs_ContextName spec)\<rparr>"

definition zero_target :: operationTarget where
  "zero_target = \<lparr>ot_Context = '''', ot_Backend = '''', ot_Cluster = '''', ot_Namespace = ''''\<rparr>"

text \<open>The closure of \<open>runMandatoryBrokerRead\<close>.\<close>

definition brokerReadStep ::
  "('l, 'b) cmd_env \<Rightarrow> cliFlags \<Rightarrow> Context \<Rightarrow> string \<Rightarrow> 'a \<Rightarrow> (Context \<Rightarrow> ('l, 'b, unit) cmd) \<Rightarrow>
   ('b connection \<Rightarrow> Context \<Rightarrow> (('l, 'b) world, 'a) call) \<Rightarrow>
   (('l, 'b) world, 'a \<times> operationTarget) call" where
  "brokerReadStep E f meta name zero preBuildAuthorize operation =
     stepC (zero, zero_target) (preBuildAuthorize meta) (\<lambda>_.
     stepC (zero, zero_target) (buildBrokerForResolvedContext E f meta name) (\<lambda>backend.
     closing backend (callE (operation backend meta) (\<lambda>(result, operationErr) w.
       (((result, operationTargetFromDescription name (describe backend w)), operationErr), w)))))"

definition runMandatoryBrokerRead ::
  "('l, 'b) cmd_env \<Rightarrow> cliFlags \<Rightarrow> readAuditSpec \<Rightarrow> 'a \<Rightarrow> (Context \<Rightarrow> ('l, 'b, unit) cmd) \<Rightarrow>
   ('b connection \<Rightarrow> Context \<Rightarrow> (('l, 'b) world, 'a) call) \<Rightarrow> ('a \<Rightarrow> int) \<Rightarrow>
   ('l, 'b, 'a \<times> operationTarget) cmd" where
  "runMandatoryBrokerRead E f spec zero preBuildAuthorize operation resultCount =
     seqE (liftE (resolvedContext (ce_su E) f)) (\<lambda>(meta, name).
     runMandatoryRead E f (readSpecFor spec meta name) (zero, zero_target)
       (brokerReadStep E f meta name zero preBuildAuthorize operation) (resultCount \<circ> fst))"

definition runMandatoryBrokerList ::
  "('l, 'b) cmd_env \<Rightarrow> cliFlags \<Rightarrow> readAuditSpec \<Rightarrow> (Context \<Rightarrow> ('l, 'b, unit) cmd) \<Rightarrow>
   ('b connection \<Rightarrow> Context \<Rightarrow> (('l, 'b) world, 'a list) call) \<Rightarrow>
   ('l, 'b, 'a list \<times> operationTarget) cmd" where
  "runMandatoryBrokerList E f spec preBuildAuthorize operation =
     runMandatoryBrokerRead E f spec [] preBuildAuthorize operation (int \<circ> length)"

definition schemaManager :: "'b connection \<Rightarrow> ('l, 'b, 'b SchemaManager) cmd" where
  "schemaManager backend =
     seqE (getS (capabilities backend)) (\<lambda>caps.
     if \<not> cp_SupportsSchema caps
     then throw (AppError CodeNotImplemented ''backend does not support schema registry'' None)
     else case SupportsSchema (cn_broker backend) of
       None \<Rightarrow> throw (AppError CodeNotImplemented ''backend does not support schema registry'' None)
     | Some manager \<Rightarrow> ret manager)"

definition runMandatorySchemaRead ::
  "('l, 'b) cmd_env \<Rightarrow> cliFlags \<Rightarrow> readAuditSpec \<Rightarrow> 'a \<Rightarrow> (Context \<Rightarrow> ('l, 'b, unit) cmd) \<Rightarrow>
   ('b connection \<Rightarrow> 'b SchemaManager \<Rightarrow> (('l, 'b) world, 'a) call) \<Rightarrow>
   ('l, 'b, 'a \<times> operationTarget) cmd" where
  "runMandatorySchemaRead E f spec zero preBuildAuthorize operation =
     runMandatoryBrokerRead E f spec zero preBuildAuthorize
       (\<lambda>backend _. stepC zero (schemaManager backend) (\<lambda>manager. operation backend manager)) (\<lambda>_. 1)"

section \<open>Preflights\<close>

record ('b, 'a) preflight =
  pf_Backend :: "'b connection"
  pf_Context :: Context
  pf_Target :: operationTarget
  pf_Value :: 'a

text \<open>The closure of \<open>runMandatoryBrokerPreflight\<close>; \<open>None\<close> is its zero result, with nothing opened and an error
  beside it, so that the last case below does not occur.\<close>

definition preflightStep ::
  "('l, 'b) cmd_env \<Rightarrow> cliFlags \<Rightarrow> Context \<Rightarrow> string \<Rightarrow> ('b connection \<Rightarrow> Context \<Rightarrow> (('l, 'b) world, 'a) call) \<Rightarrow>
   (('l, 'b) world, ('b, 'a) preflight option) call" where
  "preflightStep E f meta name operation =
     stepC None (authorize E f R0 meta '''') (\<lambda>_.
     stepC None (buildBrokerForResolvedContext E f meta name) (\<lambda>backend.
     callE (operation backend meta) (\<lambda>(v, operationErr) w.
       ((Some \<lparr>pf_Backend = backend, pf_Context = meta,
          pf_Target = operationTargetFromDescription name (describe backend w), pf_Value = v\<rparr>, operationErr), w))))"

definition runMandatoryBrokerPreflight ::
  "('l, 'b) cmd_env \<Rightarrow> cliFlags \<Rightarrow> readAuditSpec \<Rightarrow> 'a \<Rightarrow>
   ('b connection \<Rightarrow> Context \<Rightarrow> (('l, 'b) world, 'a) call) \<Rightarrow> ('a \<Rightarrow> int) \<Rightarrow>
   ('l, 'b, ('b, 'a) preflight) cmd" where
  "runMandatoryBrokerPreflight E f spec zero operation resultCount =
     seqE (liftE (resolvedContext (ce_su E) f)) (\<lambda>(meta, name).
     callE (accessed E f (readSpecFor spec meta name) None (preflightStep E f meta name operation)
            (\<lambda>r. resultCount (case r of None \<Rightarrow> zero | Some p \<Rightarrow> pf_Value p))) (\<lambda>(opened, err).
     case (opened, err) of
       (Some p, None) \<Rightarrow> ret p
     | (Some p, Some e) \<Rightarrow> seqE (modS (closeBroker (pf_Backend p))) (\<lambda>_. throw e)
     | (None, Some e) \<Rightarrow> throw e
     | (None, None) \<Rightarrow> throw (OtherError ''unreachable''))) "

end
