(* ===== verification/Topic_Target.thy ===== *)
theory Topic_Target
  imports Read_Audit
begin

text \<open>
  The target of a command: its coordinate on the broker and its classification (cmd/topic_target.go,
  \<open>topicCoord\<close> of cmd/topic.go, \<open>groupCoord\<close> of cmd/group.go), and the parts that all mutating commands
  share: the specification of their audit and its end.
\<close>

section \<open>Targets\<close>

record resolvedTopicTarget =
  rt_Coordinate :: TopicCoordinate
  rt_Description :: TopicDescription
  rt_Classification :: class_target

definition zero_resolved :: resolvedTopicTarget where
  "zero_resolved = \<lparr>rt_Coordinate = zero_TopicCoordinate, rt_Description = zero_TopicDescription,
     rt_Classification = empty_target\<rparr>"

definition invalid :: "string \<Rightarrow> go_error" where
  "invalid msg = AppError CodeValidationFailed msg None"

definition not_implemented :: "string \<Rightarrow> go_error" where
  "not_implemented msg = AppError CodeNotImplemented msg None"

text \<open>Two names that are both given and differ.\<close>

definition conflicting :: "string \<Rightarrow> string \<Rightarrow> bool" where
  "conflicting a b = (a \<noteq> '''' \<and> b \<noteq> '''' \<and> a \<noteq> b)"

definition canonicalBrokerScope ::
  "cliFlags \<Rightarrow> Context \<Rightarrow> 'b connection \<Rightarrow> ('l, 'b, Description) cmd" where
  "canonicalBrokerScope f meta backend =
     seqE (getS (describe backend)) (\<lambda>desc.
     seqE (getS (capabilities backend)) (\<lambda>caps.
     let requestedCluster = firstNonEmpty [fl_Cluster f, cx_Cluster meta];
         requestedNamespace = firstNonEmpty [fl_Namespace f, cx_Namespace meta]
     in if de_Backend desc = '''' \<or> cp_Backend caps = '''' \<or> de_Backend desc \<noteq> cp_Backend caps
        then throw (invalid ''backend description and capabilities identify different backends'')
        else if conflicting requestedCluster (de_Cluster desc)
        then throw (invalid ''requested cluster does not match the backend cluster'')
        else if conflicting requestedNamespace (de_Namespace desc)
        then throw (invalid ''requested namespace does not match the backend namespace'')
        else ret (desc\<lparr>de_Cluster := firstNonEmpty [de_Cluster desc, requestedCluster],
          de_Namespace := firstNonEmpty [de_Namespace desc, requestedNamespace]\<rparr>)))"

definition topicCoord ::
  "cliFlags \<Rightarrow> Context \<Rightarrow> 'b connection \<Rightarrow> string \<Rightarrow> ('l, 'b, TopicCoordinate) cmd" where
  "topicCoord f meta backend topic =
     seqE (check (validateTopicName topic)) (\<lambda>_.
     seqE (canonicalBrokerScope f meta backend) (\<lambda>scope.
     ret \<lparr>tc_Cluster = de_Cluster scope, tc_Namespace = de_Namespace scope, tc_Topic = topic\<rparr>))"

definition groupCoord ::
  "cliFlags \<Rightarrow> Context \<Rightarrow> 'b connection \<Rightarrow> string \<Rightarrow> ('l, 'b, GroupCoordinate) cmd" where
  "groupCoord f meta backend grp =
     seqE (canonicalBrokerScope f meta backend) (\<lambda>scope.
     ret \<lparr>gc_Cluster = de_Cluster scope, gc_Namespace = de_Namespace scope, gc_Group = grp\<rparr>)"

text \<open>The metadata that the broker returns must be those of the topic that was asked for.\<close>

definition differentTopic :: "TopicCoordinate \<Rightarrow> TopicCoordinate \<Rightarrow> bool" where
  "differentTopic got asked = (tc_Topic got \<noteq> tc_Topic asked \<or>
     conflicting (tc_Cluster asked) (tc_Cluster got) \<or> conflicting (tc_Namespace asked) (tc_Namespace got))"

definition resolveTopicTarget ::
  "('l, 'b) cmd_env \<Rightarrow> 'b connection \<Rightarrow> cliFlags \<Rightarrow> Context \<Rightarrow> string \<Rightarrow> bool \<Rightarrow>
   ('l, 'b, resolvedTopicTarget) cmd" where
  "resolveTopicTarget E backend f meta topic plan =
     seqE (check (validateTopicName topic)) (\<lambda>_.
     seqE (topicCoord f meta backend topic) (\<lambda>coordinate.
     callE (broker_call E backend (DescribeTopic (cn_broker backend) coordinate)) (\<lambda>(desc, err).
     case err of
       Some e \<Rightarrow> throw (AppError (codeOf E e) ''cannot resolve topic metadata before authorization'' (Some e))
     | None \<Rightarrow>
         if differentTopic (td_Coordinate desc) coordinate
         then throw (invalid ''broker returned metadata for a different topic target'')
         else seqE (getS (describe backend)) (\<lambda>scope.
           ret \<lparr>rt_Coordinate = coordinate, rt_Description = desc,
             rt_Classification = empty_target\<lparr>t_backend := de_Backend scope, t_topic := topic,
               t_protected_topic := isProtectedTopic meta topic desc,
               t_internal_topic := td_Internal desc \<or> IsInternalTopic (de_Backend scope) topic,
               t_plan := plan\<rparr>\<rparr>))))"

definition declaredTopicTarget :: "Context \<Rightarrow> string \<Rightarrow> string \<Rightarrow> bool \<Rightarrow> class_target" where
  "declaredTopicTarget meta backend topic plan = empty_target\<lparr>t_backend := backend, t_topic := topic,
     t_protected_topic := isProtectedTopic meta topic zero_TopicDescription,
     t_internal_topic := IsInternalTopic backend topic, t_plan := plan\<rparr>"

definition sameTopicClassification :: "class_target \<Rightarrow> class_target \<Rightarrow> bool" where
  "sameTopicClassification a b = (t_backend a = t_backend b \<and> t_topic a = t_topic b \<and>
     t_protected_topic a = t_protected_topic b \<and> t_internal_topic a = t_internal_topic b \<and>
     t_create_may_alter a = t_create_may_alter b \<and> t_plan a = t_plan b)"

text \<open>The backend that a command expects before it has one.\<close>

definition expectedBackend :: "cliFlags \<Rightarrow> Context \<Rightarrow> string" where
  "expectedBackend f meta = firstNonEmpty [fl_Backend f, cx_Backend meta, ''fake'']"

section \<open>Common parts of the commands\<close>

text \<open>\<open>exactArgsWithTopic\<close> and \<open>cobra.ExactArgs\<close>: the handlers below get the right number of arguments.\<close>

definition withTopic :: "string \<Rightarrow> ('l, 'b, unit) cmd \<Rightarrow> ('l, 'b, unit) cmd" where
  "withTopic topic handler = seqE (check (validateTopicName topic)) (\<lambda>_. handler)"

definition resource :: "string \<Rightarrow> string \<Rightarrow> EventTarget" where
  "resource typ name = \<lparr>et_ResourceType = typ, et_Resource = name\<rparr>"

definition mutationSpec :: "string \<Rightarrow> Context \<Rightarrow> EventTarget \<Rightarrow> mutationAuditMetadata \<Rightarrow> mutationAuditSpec" where
  "mutationSpec action meta target metadata = \<lparr>sp_Action = action, sp_ContextName = '''', sp_Context = meta,
     sp_Target = target, sp_Metadata = metadata, sp_AuditPath = '''', sp_Read = False\<rparr>"

definition beginMutation ::
  "('l, 'b) cmd_env \<Rightarrow> cliFlags \<Rightarrow> mutationAuditSpec \<Rightarrow> ('l, 'b, mutationAuditHandle) cmd" where
  "beginMutation E f spec = audit (beginMutationAudit (ce_audit E) f spec)"

definition finishMutation ::
  "('l, 'b) cmd_env \<Rightarrow> cliFlags \<Rightarrow> mutationAuditHandle \<Rightarrow> mutationAuditOutcome \<Rightarrow> go_error option \<Rightarrow>
   ('l, 'b, unit) cmd" where
  "finishMutation E f handle oc operationErr =
     callE (audit (finishMutationAudit (ce_audit E) f handle oc operationErr)) (\<lambda>finished.
     check (finishReturn finished operationErr))"

definition finishBatch ::
  "('l, 'b) cmd_env \<Rightarrow> cliFlags \<Rightarrow> mutationAuditHandle \<Rightarrow> int \<Rightarrow> BatchOutcome \<Rightarrow> go_error option \<Rightarrow>
   ('l, 'b, unit) cmd" where
  "finishBatch E f handle tot oc operationErr =
     callE (audit (finishBatchMutationAuditWithOutcome (ce_audit E) f handle tot oc operationErr)) (\<lambda>finished.
     check (finishReturn finished operationErr))"

text \<open>A nil interface in a zero value: a call of its methods panics. It is never called.\<close>

definition nil_error :: go_error where "nil_error = OtherError ''nil pointer dereference''"

definition nil_partitions :: "'b PartitionManager" where
  "nil_partitions = \<lparr>AlterTopic = \<lambda>_. answer zero_TopicDescription (Some nil_error),
     PurgeTopic = \<lambda>_. answer zero_TopicPurgeResult (Some nil_error)\<rparr>"

definition nil_offsets :: "'b OffsetManager" where
  "nil_offsets = \<lparr>PlanOffsetReset = \<lambda>_. answer zero_OffsetPlan (Some nil_error),
     ResetOffset = \<lambda>_. answer zero_OffsetPlan (Some nil_error),
     Lag = \<lambda>_ _. answer zero_OffsetPlan (Some nil_error)\<rparr>"

definition nil_dlqs :: "'b DLQManager" where
  "nil_dlqs = \<lparr>ListDLQs = \<lambda>_. answer [] (Some nil_error), PeekDLQ = \<lambda>_. answer zero_DLQPeekResult (Some nil_error),
     RedriveDLQ = \<lambda>_. answer zero_DLQRedriveResult (Some nil_error),
     PurgeDLQ = \<lambda>_. answer zero_DLQPurgeResult (Some nil_error)\<rparr>"

definition nil_acls :: "'b ACLManager" where
  "nil_acls = \<lparr>ListACLs = \<lambda>_. answer [] (Some nil_error), GrantACL = \<lambda>_. throw nil_error,
     RevokeACL = \<lambda>_. throw nil_error\<rparr>"

definition nil_schemas :: "'b SchemaManager" where
  "nil_schemas = \<lparr>ListSchemas = \<lambda>_. answer [] (Some nil_error),
     DescribeSchema = \<lambda>_. answer zero_SchemaDescription (Some nil_error),
     CheckCompatibility = \<lambda>_. answer zero_SchemaCheckResult (Some nil_error),
     RegisterSchema = \<lambda>_. answer zero_SchemaDescription (Some nil_error),
     DeleteSchema = \<lambda>_. answer zero_SchemaDeleteResult (Some nil_error)\<rparr>"

end
