(* ===== verification/Topic_Cmd.thy ===== *)
theory Topic_Cmd
  imports Topic_Target
begin

text \<open>
  The topic commands of cmd/topic.go, one definition per handler (the \<open>RunE\<close> of the constructor of the
  same name). The arguments and flags of the command line are arguments of the definition.
\<close>

section \<open>Reading\<close>

definition show_bool :: "bool \<Rightarrow> string" where
  "show_bool b = (if b then ''true'' else ''false'')"

definition newTopicListCmd :: "('l, 'b) cmd_env \<Rightarrow> cliFlags \<Rightarrow> string \<Rightarrow> ('l, 'b, unit) cmd" where
  "newTopicListCmd E f pattern =
    (let options = \<lparr>tlo_Namespace = fl_Namespace f, tlo_Pattern = pattern, tlo_Limit = 0\<rparr> in
     seqE (check (validateExactPattern pattern)) (\<lambda>_.
     seqE (runMandatoryBrokerList E f
            (readSpec ''mq.topic.list'' (resource ''topic'' '''')
              (valueMetadata ''mq.topic.list'' (TopicListOptions_json options)))
            (\<lambda>meta. classifyAndAuthorize E f meta OperationList (empty_target\<lparr>t_topic := pattern\<rparr>) '''')
            (\<lambda>backend _. broker_call E backend (ListTopics (cn_broker backend) options))) (\<lambda>(items, opTarget).
     if fl_Output f = ''json''
     then targetJSONList E f ''TopicList'' (V_Topics items) (int (length items)) (int (length items)) opTarget
     else targetTable E f [''TOPIC'', ''PARTITIONS'', ''PROTECTED'', ''INTERNAL'']
            (map (\<lambda>item. [tc_Topic (td_Coordinate item), show_int (td_Partitions item),
               show_bool (td_Protected item), show_bool (td_Internal item)]) items) opTarget)))"

definition newTopicDescribeCmd :: "('l, 'b) cmd_env \<Rightarrow> cliFlags \<Rightarrow> string \<Rightarrow> ('l, 'b, unit) cmd" where
  "newTopicDescribeCmd E f topic = withTopic topic (
     seqE (runMandatoryBrokerRead E f
            (readSpec ''mq.topic.describe'' (resource ''topic'' topic)
              (valueMetadata ''mq.topic.describe'' (json_map [(''topic'', JStr topic)])))
            zero_resolved
            (\<lambda>meta. classifyAndAuthorize E f meta OperationDescribe
               (declaredTopicTarget meta (expectedBackend f meta) topic False) '''')
            (\<lambda>backend meta.
               stepC zero_resolved (resolveTopicTarget E backend f meta topic False) (\<lambda>resolved.
               stepC zero_resolved (classifyAndAuthorize E f meta OperationDescribe (rt_Classification resolved) '''')
                 (\<lambda>_. answer resolved None)))
            (\<lambda>_. 1)) (\<lambda>(resolved, opTarget).
     targetJSONData E f ''TopicDescription'' (V_Topic (rt_Description resolved)) opTarget operationTargetRead))"

section \<open>Creating\<close>

record topicCreatePreflight =
  tcp_Coordinate :: TopicCoordinate
  tcp_Backend :: string

definition zero_topicCreatePreflight :: topicCreatePreflight where
  "zero_topicCreatePreflight = \<lparr>tcp_Coordinate = zero_TopicCoordinate, tcp_Backend = ''''\<rparr>"

definition topicCreateAuthorizationTarget ::
  "Context \<Rightarrow> string \<Rightarrow> TopicCoordinate \<Rightarrow> class_target \<times> string" where
  "topicCreateAuthorizationTarget meta backend coordinate =
    (let declared = declaredTopicTarget meta backend (tc_Topic coordinate) False;
         target = declared\<lparr>t_internal_topic := t_internal_topic declared \<or>
           IsInternalTopicScope backend (tc_Namespace coordinate) (tc_Topic coordinate)\<rparr>
     in if backend \<noteq> ''rocketmq'' then (target, '''')
        else (target\<lparr>t_create_may_alter := True\<rparr>, allowTopicUpsert))"

definition topicCreateAuditOutcome :: "('l, 'b) cmd_env \<Rightarrow> go_error option \<Rightarrow> mutationAuditOutcome" where
  "topicCreateAuditOutcome E operationErr = (case operationErr of
     Some e \<Rightarrow> if codeOf E e = CodePartialFailure
       then empty_outcome\<lparr>oc_Uncertain := 1, oc_counted := True\<rparr> else empty_outcome
   | None \<Rightarrow> empty_outcome)"

definition newTopicCreateCmd :: "('l, 'b) cmd_env \<Rightarrow> cliFlags \<Rightarrow> int \<Rightarrow> string \<Rightarrow> ('l, 'b, unit) cmd" where
  "newTopicCreateCmd E f partitions topic = withTopic topic (
     if contextPlanOnly f
     then printBrokerChangePlan E f ''create'' ''topic'' topic [(''partitions'', JNum partitions)]
     else seqE (runMandatoryBrokerPreflight E f
            (readSpec ''mq.topic.create.preflight'' (resource ''topic'' topic)
              (valueMetadata ''mq.topic.create.preflight''
                (json_map [(''topic'', JStr topic), (''partitions'', JNum partitions)])))
            zero_topicCreatePreflight
            (\<lambda>backend meta. callE (topicCoord f meta backend topic) (\<lambda>coordinate w.
               ((\<lparr>tcp_Coordinate = (case coordinate of Inr c \<Rightarrow> c | Inl _ \<Rightarrow> zero_TopicCoordinate),
                  tcp_Backend = de_Backend (describe backend w)\<rparr>, errOf coordinate), w)))
            (\<lambda>_. 1)) (\<lambda>preflight.
     closing (pf_Backend preflight) (
     let (target, allow) = topicCreateAuthorizationTarget (pf_Context preflight)
           (tcp_Backend (pf_Value preflight)) (tcp_Coordinate (pf_Value preflight));
         request = \<lparr>tcr_Coordinate = tcp_Coordinate (pf_Value preflight), tcr_Partitions = partitions,
           tcr_Config = [], tcr_Protected = t_protected_topic target\<rparr>
     in seqE (classifyAndAuthorize E f (pf_Context preflight) OperationCreateTopic target allow) (\<lambda>_.
        seqE (beginMutation E f (mutationSpec ''mq.topic.create'' (pf_Context preflight) (resource ''topic'' topic)
               (valueMetadata ''mq.topic.create'' (TopicCreateRequest_json request)))) (\<lambda>handle.
        callE (broker_call E (pf_Backend preflight) (CreateTopic (cn_broker (pf_Backend preflight)) request))
          (\<lambda>(desc, operationErr).
        seqE (finishMutation E f handle (topicCreateAuditOutcome E operationErr) operationErr) (\<lambda>_.
        targetJSONData E f ''TopicDescription'' (V_Topic desc) (pf_Target preflight) operationTargetWrite)))))))"

section \<open>Altering\<close>

record 'b topicPartitionPreflight =
  tpp_Manager :: "'b PartitionManager"
  tpp_Resolved :: resolvedTopicTarget

definition zero_topicPartitionPreflight :: "'b topicPartitionPreflight" where
  "zero_topicPartitionPreflight = \<lparr>tpp_Manager = nil_partitions, tpp_Resolved = zero_resolved\<rparr>"

definition newTopicAlterCmd :: "('l, 'b) cmd_env \<Rightarrow> cliFlags \<Rightarrow> int \<Rightarrow> string \<Rightarrow> ('l, 'b, unit) cmd" where
  "newTopicAlterCmd E f partitions topic = withTopic topic (
     if contextPlanOnly f
     then printBrokerChangePlan E f ''alter'' ''topic'' topic [(''partitions'', JNum partitions)]
     else seqE (runMandatoryBrokerPreflight E f
            (readSpec ''mq.topic.alter.preflight'' (resource ''topic'' topic)
              (valueMetadata ''mq.topic.alter.preflight''
                (json_map [(''topic'', JStr topic), (''partitions'', JNum partitions)])))
            zero_topicPartitionPreflight
            (\<lambda>backend meta. case SupportsPartitions (cn_broker backend) of
               None \<Rightarrow> answer zero_topicPartitionPreflight
                 (Some (not_implemented ''backend does not support partition management''))
             | Some manager \<Rightarrow>
                 callE (resolveTopicTarget E backend f meta topic False) (\<lambda>resolved.
                 answer \<lparr>tpp_Manager = manager, tpp_Resolved = (case resolved of Inr r \<Rightarrow> r | Inl _ \<Rightarrow> zero_resolved)\<rparr>
                   (errOf resolved)))
            (\<lambda>_. 1)) (\<lambda>preflight.
     closing (pf_Backend preflight) (
     let resolved = tpp_Resolved (pf_Value preflight);
         request = \<lparr>tar_Coordinate = rt_Coordinate resolved, tar_Partitions = partitions, tar_Config = []\<rparr>
     in seqE (classifyAndAuthorize E f (pf_Context preflight) OperationAlterTopic (rt_Classification resolved) '''') (\<lambda>_.
        seqE (beginMutation E f (mutationSpec ''mq.topic.alter'' (pf_Context preflight) (resource ''topic'' topic)
               (valueMetadata ''mq.topic.alter'' (TopicAlterRequest_json request)))) (\<lambda>handle.
        callE (broker_call E (pf_Backend preflight) (AlterTopic (tpp_Manager (pf_Value preflight)) request))
          (\<lambda>(changed, operationErr).
        seqE (finishMutation E f handle empty_outcome operationErr) (\<lambda>_.
        targetJSONData E f ''TopicDescription'' (V_Topic changed) (pf_Target preflight) operationTargetWrite)))))))"

section \<open>Deleting\<close>

definition topicDeletePlanUsesRocketMQ :: "surroundings \<Rightarrow> cliFlags \<Rightarrow> bool" where
  "topicDeletePlanUsesRocketMQ su f =
    (if fl_Backend f \<noteq> '''' then fl_Backend f = ''rocketmq''
     else case resolvedContext su f of Inl _ \<Rightarrow> False | Inr (item, _) \<Rightarrow> cx_Backend item = ''rocketmq'')"

definition newTopicDeleteCmd :: "('l, 'b) cmd_env \<Rightarrow> cliFlags \<Rightarrow> string \<Rightarrow> ('l, 'b, unit) cmd" where
  "newTopicDeleteCmd E f topic = withTopic topic (
     if contextPlanOnly f
     then (if topicDeletePlanUsesRocketMQ (ce_su E) f
           then throw (not_implemented ''RocketMQ does not support topic delete'')
           else printBrokerChangePlan E f ''delete'' ''topic'' topic [])
     else seqE (runMandatoryBrokerPreflight E f
            (readSpec ''mq.topic.delete.preflight'' (resource ''topic'' topic)
              (valueMetadata ''mq.topic.delete.preflight'' (json_map [(''topic'', JStr topic)])))
            zero_resolved
            (\<lambda>backend meta. stepC zero_resolved (getS (capabilities backend)) (\<lambda>caps.
               if ''delete'' \<notin> set (cp_Verbs caps)
               then answer zero_resolved (Some (not_implemented ''backend does not support topic delete''))
               else orZero zero_resolved (resolveTopicTarget E backend f meta topic False)))
            (\<lambda>_. 1)) (\<lambda>preflight.
     closing (pf_Backend preflight) (
     let coordinate = rt_Coordinate (pf_Value preflight)
     in seqE (classifyAndAuthorize E f (pf_Context preflight) OperationDeleteTopic
               (rt_Classification (pf_Value preflight)) allowTopicDelete) (\<lambda>_.
        seqE (beginMutation E f (mutationSpec ''mq.topic.delete'' (pf_Context preflight) (resource ''topic'' topic)
               (valueMetadata ''mq.topic.delete'' (TopicCoordinate_json coordinate)))) (\<lambda>handle.
        callE (broker_call E (pf_Backend preflight) (DeleteTopic (cn_broker (pf_Backend preflight)) coordinate))
          (\<lambda>deleted.
        seqE (finishMutation E f handle empty_outcome (errOf deleted)) (\<lambda>_.
        targetJSONData E f ''DeleteResult'' (V_Deleted ''topic'' topic StatusSuccess) (pf_Target preflight)
          operationTargetWrite)))))))"

section \<open>Purging\<close>

record 'b topicPurgePreflight =
  tup_Manager :: "'b PartitionManager"
  tup_Resolved :: resolvedTopicTarget
  tup_Preview :: TopicPurgeResult
  tup_HasPreview :: bool

definition zero_topicPurgePreflight :: "'b topicPurgePreflight" where
  "zero_topicPurgePreflight = \<lparr>tup_Manager = nil_partitions, tup_Resolved = zero_resolved,
     tup_Preview = zero_TopicPurgeResult, tup_HasPreview = False\<rparr>"

definition purgeMutationOutcome :: "BatchOutcome \<Rightarrow> int \<Rightarrow> go_error option \<Rightarrow> BatchOutcome \<times> int" where
  "purgeMutationOutcome reported completedUnits operationErr =
    (if \<not> BatchOutcome_Empty reported then (reported, BatchOutcome_Count reported)
     else let oc = \<lparr>bo_Succeeded = completedUnits, bo_Failed = 0,
                bo_Uncertain = (if operationErr = None then 0 else 1)\<rparr>
       in (oc, BatchOutcome_Count oc))"

definition topicPurgePreflightStep ::
  "('l, 'b) cmd_env \<Rightarrow> cliFlags \<Rightarrow> bool \<Rightarrow> bool \<Rightarrow> operation \<Rightarrow> string \<Rightarrow> 'b connection \<Rightarrow> Context \<Rightarrow>
   (('l, 'b) world, 'b topicPurgePreflight) call" where
  "topicPurgePreflightStep E f dlq dryRun opn topic backend meta =
    (case SupportsPartitions (cn_broker backend) of
       None \<Rightarrow> answer zero_topicPurgePreflight (Some (not_implemented ''backend does not support topic purge''))
     | Some manager \<Rightarrow>
         stepC zero_topicPurgePreflight (resolveTopicTarget E backend f meta topic dryRun) (\<lambda>resolved.
         let v = zero_topicPurgePreflight\<lparr>tup_Manager := manager, tup_Resolved := resolved\<rparr> in
         if \<not> dryRun then answer v None
         else stepC zero_topicPurgePreflight (classifyAndAuthorize E f meta opn (rt_Classification resolved) '''') (\<lambda>_.
           callE (broker_call E backend (PurgeTopic manager
                   \<lparr>tpr_Coordinate = rt_Coordinate resolved, tpr_DLQ = dlq, tpr_DryRun = True\<rparr>))
             (\<lambda>(preview, err). answer (v\<lparr>tup_Preview := preview, tup_HasPreview := err = None\<rparr>) err))))"

definition newTopicPurgeCmd :: "('l, 'b) cmd_env \<Rightarrow> cliFlags \<Rightarrow> bool \<Rightarrow> string \<Rightarrow> ('l, 'b, unit) cmd" where
  "newTopicPurgeCmd E f dlq topic = withTopic topic (
     let opn = (if dlq then OperationPurgeDLQ else OperationPurgeTopic);
         dryRun = contextPlanOnly f
     in seqE (runMandatoryBrokerPreflight E f
            (readSpec ''mq.topic.purge.preflight'' (resource ''topic'' topic)
              (valueMetadata ''mq.topic.purge.preflight''
                (json_map [(''topic'', JStr topic), (''dlq'', JBool dlq), (''dryRun'', JBool dryRun)])))
            zero_topicPurgePreflight
            (topicPurgePreflightStep E f dlq dryRun opn topic)
            (\<lambda>v. if tup_HasPreview v then rf_Count (tpx_Fingerprint (tup_Preview v)) else 1)) (\<lambda>preflight.
     closing (pf_Backend preflight) (
     let resolved = tup_Resolved (pf_Value preflight);
         allow = (if dryRun then '''' else allowTopicPurge);
         request = \<lparr>tpr_Coordinate = rt_Coordinate resolved, tpr_DLQ = dlq, tpr_DryRun = dryRun\<rparr>
     in seqE (if dryRun then ret ()
              else classifyAndAuthorize E f (pf_Context preflight) opn (rt_Classification resolved) allow) (\<lambda>_.
        if dryRun
        then targetJSONData E f ''TopicPurgeResult'' (V_TopicPurge (tup_Preview (pf_Value preflight)))
               (pf_Target preflight) operationTargetWrite
        else seqE (beginMutation E f (mutationSpec ''mq.topic.purge'' (pf_Context preflight) (resource ''topic'' topic)
               (valueMetadata ''mq.topic.purge'' (TopicPurgeRequest_json request)))) (\<lambda>handle.
        callE (broker_call E (pf_Backend preflight) (PurgeTopic (tup_Manager (pf_Value preflight)) request))
          (\<lambda>(result, operationErr).
        let (oc, tot) = purgeMutationOutcome (tpx_Outcome result) (int (length (tpx_Impact result))) operationErr
        in seqE (finishBatch E f handle tot oc operationErr) (\<lambda>_.
           targetJSONData E f ''TopicPurgeResult'' (V_TopicPurge result) (pf_Target preflight)
             operationTargetWrite)))))))"

end
