(* ===== verification/Group_Cmd.thy ===== *)
theory Group_Cmd
  imports Topic_Target
begin

text \<open>The consumer group commands of cmd/group.go.\<close>

section \<open>Listing, creating, deleting\<close>

definition newGroupListCmd :: "('l, 'b) cmd_env \<Rightarrow> cliFlags \<Rightarrow> string \<Rightarrow> ('l, 'b, unit) cmd" where
  "newGroupListCmd E f pattern =
    (let options = \<lparr>glo_Namespace = fl_Namespace f, glo_Pattern = pattern, glo_Limit = 0\<rparr> in
     seqE (check (validateExactPattern pattern)) (\<lambda>_.
     seqE (runMandatoryBrokerList E f
            (readSpec ''mq.group.list'' (resource ''group'' '''')
              (valueMetadata ''mq.group.list'' (GroupListOptions_json options)))
            (\<lambda>meta. classifyAndAuthorize E f meta OperationList (empty_target\<lparr>t_group := pattern\<rparr>) '''')
            (\<lambda>backend _. broker_call E backend (ListGroups (cn_broker backend) options))) (\<lambda>(items, opTarget).
     if fl_Output f = ''json''
     then targetJSONList E f ''GroupList'' (V_Groups items) (int (length items)) (int (length items)) opTarget
     else targetTable E f [''GROUP'', ''MEMBERS'', ''STATE'']
            (map (\<lambda>item. [gc_Group (gd_Coordinate item), show_int (gd_Members item), gd_State item]) items)
            opTarget)))"

definition newGroupCreateCmd :: "('l, 'b) cmd_env \<Rightarrow> cliFlags \<Rightarrow> string \<Rightarrow> ('l, 'b, unit) cmd" where
  "newGroupCreateCmd E f grp =
    (if contextPlanOnly f
     then printBrokerChangePlan E f ''create'' ''group'' grp []
     else seqE (runMandatoryBrokerPreflight E f
            (readSpec ''mq.group.create.preflight'' (resource ''group'' grp)
              (valueMetadata ''mq.group.create.preflight'' (json_map [(''group'', JStr grp)])))
            zero_GroupCoordinate
            (\<lambda>backend meta. orZero zero_GroupCoordinate (groupCoord f meta backend grp)) (\<lambda>_. 1)) (\<lambda>preflight.
     closing (pf_Backend preflight) (
     seqE (classifyAndAuthorize E f (pf_Context preflight) OperationCreateGroup (empty_target\<lparr>t_group := grp\<rparr>) '''') (\<lambda>_.
     seqE (beginMutation E f (mutationSpec ''mq.group.create'' (pf_Context preflight) (resource ''group'' grp)
            (valueMetadata ''mq.group.create'' (GroupCoordinate_json (pf_Value preflight))))) (\<lambda>handle.
     callE (broker_call E (pf_Backend preflight)
             (CreateGroup (cn_broker (pf_Backend preflight)) (pf_Value preflight))) (\<lambda>(desc, operationErr).
     seqE (finishMutation E f handle empty_outcome operationErr) (\<lambda>_.
     targetJSONData E f ''GroupDescription'' (V_Group desc) (pf_Target preflight) operationTargetWrite)))))))"

definition newGroupDeleteCmd :: "('l, 'b) cmd_env \<Rightarrow> cliFlags \<Rightarrow> string \<Rightarrow> ('l, 'b, unit) cmd" where
  "newGroupDeleteCmd E f grp =
    (if contextPlanOnly f
     then printBrokerChangePlan E f ''delete'' ''group'' grp []
     else seqE (runMandatoryBrokerPreflight E f
            (readSpec ''mq.group.delete.preflight'' (resource ''group'' grp)
              (valueMetadata ''mq.group.delete.preflight'' (json_map [(''group'', JStr grp)])))
            zero_GroupCoordinate
            (\<lambda>backend meta. orZero zero_GroupCoordinate (groupCoord f meta backend grp)) (\<lambda>_. 1)) (\<lambda>preflight.
     closing (pf_Backend preflight) (
     seqE (classifyAndAuthorize E f (pf_Context preflight) OperationDeleteGroup (empty_target\<lparr>t_group := grp\<rparr>) '''') (\<lambda>_.
     seqE (beginMutation E f (mutationSpec ''mq.group.delete'' (pf_Context preflight) (resource ''group'' grp)
            (valueMetadata ''mq.group.delete'' (GroupCoordinate_json (pf_Value preflight))))) (\<lambda>handle.
     callE (broker_call E (pf_Backend preflight)
             (DeleteGroup (cn_broker (pf_Backend preflight)) (pf_Value preflight))) (\<lambda>deleted.
     seqE (finishMutation E f handle empty_outcome (errOf deleted)) (\<lambda>_.
     targetJSONData E f ''DeleteResult'' (V_Deleted ''group'' grp StatusSuccess) (pf_Target preflight)
       operationTargetWrite)))))))"

section \<open>Lag\<close>

definition newGroupLagCmd :: "('l, 'b) cmd_env \<Rightarrow> cliFlags \<Rightarrow> string \<Rightarrow> string \<Rightarrow> ('l, 'b, unit) cmd" where
  "newGroupLagCmd E f grp topic = withTopic topic (
     seqE (runMandatoryBrokerRead E f
            (readSpec ''mq.group.lag'' (resource ''offset'' (grp @ ''/'' @ topic))
              (valueMetadata ''mq.group.lag'' (json_map [(''group'', JStr grp), (''topic'', JStr topic)])))
            zero_OffsetPlan
            (\<lambda>meta. classifyAndAuthorize E f meta OperationLag
               ((declaredTopicTarget meta (expectedBackend f meta) topic False)\<lparr>t_group := grp\<rparr>) '''')
            (\<lambda>backend meta. case SupportsOffsets (cn_broker backend) of
               None \<Rightarrow> answer zero_OffsetPlan (Some (not_implemented ''backend does not support offsets''))
             | Some manager \<Rightarrow>
                 stepC zero_OffsetPlan (resolveTopicTarget E backend f meta topic False) (\<lambda>resolved.
                 stepC zero_OffsetPlan (classifyAndAuthorize E f meta OperationLag
                   ((rt_Classification resolved)\<lparr>t_group := grp\<rparr>) '''') (\<lambda>_.
                 stepC zero_OffsetPlan (groupCoord f meta backend grp) (\<lambda>groupCoordinate.
                 broker_call E backend (Lag manager groupCoordinate (rt_Coordinate resolved))))))
            (\<lambda>plan. int (length (op_Impact plan)))) (\<lambda>(plan, opTarget).
     targetJSONData E f ''LagResult'' (V_Offsets plan) opTarget operationTargetRead))"

section \<open>Resetting offsets\<close>

record 'b offsetResetPreflight =
  orp_Manager :: "'b OffsetManager"
  orp_Resolved :: resolvedTopicTarget
  orp_Request :: OffsetPlanRequest
  orp_Preview :: OffsetPlan

definition zero_OffsetPlanRequest :: OffsetPlanRequest where
  "zero_OffsetPlanRequest = \<lparr>opr_Group = zero_GroupCoordinate, opr_Topic = zero_TopicCoordinate, opr_To = '''',
     opr_DryRun = False, opr_Partition = 0\<rparr>"

definition zero_offsetResetPreflight :: "'b offsetResetPreflight" where
  "zero_offsetResetPreflight = \<lparr>orp_Manager = nil_offsets, orp_Resolved = zero_resolved,
     orp_Request = zero_OffsetPlanRequest, orp_Preview = zero_OffsetPlan\<rparr>"

definition offsetResetPreflightStep ::
  "('l, 'b) cmd_env \<Rightarrow> cliFlags \<Rightarrow> string \<Rightarrow> bool \<Rightarrow> string \<Rightarrow> string \<Rightarrow> 'b connection \<Rightarrow> Context \<Rightarrow>
   (('l, 'b) world, 'b offsetResetPreflight) call" where
  "offsetResetPreflightStep E f to dryRun grp topic backend meta =
    (case SupportsOffsets (cn_broker backend) of
       None \<Rightarrow> answer zero_offsetResetPreflight (Some (not_implemented ''backend does not support offsets''))
     | Some manager \<Rightarrow>
         stepC zero_offsetResetPreflight (resolveTopicTarget E backend f meta topic dryRun) (\<lambda>resolved.
         stepC zero_offsetResetPreflight (classifyAndAuthorize E f meta
           (if dryRun then OperationResetOffset else OperationLag)
           ((rt_Classification resolved)\<lparr>t_group := grp\<rparr>) '''') (\<lambda>_.
         stepC zero_offsetResetPreflight (groupCoord f meta backend grp) (\<lambda>groupCoordinate.
         let request = \<lparr>opr_Group = groupCoordinate, opr_Topic = rt_Coordinate resolved, opr_To = to,
               opr_DryRun = dryRun, opr_Partition = -1\<rparr>
         in callE (broker_call E backend (PlanOffsetReset manager (request\<lparr>opr_DryRun := True\<rparr>)))
              (\<lambda>(preview, previewErr). answer \<lparr>orp_Manager = manager, orp_Resolved = resolved,
                 orp_Request = request, orp_Preview = preview\<rparr> previewErr)))))"

text \<open>The outcome and the total that the audit gets.\<close>

definition offsetResetOutcome :: "OffsetPlan \<Rightarrow> go_error option \<Rightarrow> BatchOutcome \<times> int" where
  "offsetResetOutcome plan operationErr =
    (let oc = op_Outcome plan; impact = int (length (op_Impact plan)) in
     if \<not> BatchOutcome_Empty oc then (oc, BatchOutcome_Count oc)
     else if operationErr = None then (oc\<lparr>bo_Succeeded := impact\<rparr>, impact)
     else (oc\<lparr>bo_Succeeded := 0, bo_Failed := 1\<rparr>, if impact = 0 then 1 else impact))"

definition newGroupResetOffsetCmd ::
  "('l, 'b) cmd_env \<Rightarrow> cliFlags \<Rightarrow> string \<Rightarrow> string \<Rightarrow> string \<Rightarrow> ('l, 'b, unit) cmd" where
  "newGroupResetOffsetCmd E f to grp topic = withTopic topic (
     let dryRun = contextPlanOnly f; name = resource ''offset'' (grp @ ''/'' @ topic)
     in seqE (runMandatoryBrokerPreflight E f
            (readSpec ''mq.offset.reset.preflight'' name (valueMetadata ''mq.offset.reset.preflight''
              (json_map [(''group'', JStr grp), (''topic'', JStr topic), (''to'', JStr to), (''dryRun'', JBool dryRun)])))
            zero_offsetResetPreflight
            (offsetResetPreflightStep E f to dryRun grp topic)
            (\<lambda>v. int (length (op_Impact (orp_Preview v))))) (\<lambda>preflight.
     closing (pf_Backend preflight) (
     let allow = (if dryRun then '''' else allowOffsetReset);
         target = (rt_Classification (orp_Resolved (pf_Value preflight)))\<lparr>t_group := grp\<rparr>;
         req = orp_Request (pf_Value preflight);
         preview = orp_Preview (pf_Value preflight)
     in seqE (if dryRun then ret ()
              else classifyAndAuthorize E f (pf_Context preflight) OperationResetOffset target allow) (\<lambda>_.
        if opr_DryRun req
        then targetJSONData E f ''OffsetPlan'' (V_Offsets preview) (pf_Target preflight) operationTargetWrite
        else seqE (beginMutation E f (mutationSpec ''mq.offset.reset'' (pf_Context preflight) name
               (valueMetadata ''mq.offset.reset''
                 (JObj [(''Request'', OffsetPlanRequest_json req), (''Preview'', OffsetPlan_json preview)])))) (\<lambda>handle.
        callE (broker_call E (pf_Backend preflight) (ResetOffset (orp_Manager (pf_Value preflight)) req))
          (\<lambda>(plan, operationErr).
        let (oc, tot) = offsetResetOutcome plan operationErr
        in seqE (finishBatch E f handle tot oc operationErr) (\<lambda>_.
           targetJSONData E f ''OffsetPlan'' (V_Offsets plan) (pf_Target preflight) operationTargetWrite)))))))"

end
