(* ===== verification/Message_Cmd.thy ===== *)
theory Message_Cmd
  imports Topic_Cmd Group_Cmd
begin

text \<open>
  The commands on messages of cmd/message.go but for the mirror: peek, tail and produce.
  The time limit of a tail is the backend's, which may end a tail with \<open>context.DeadlineExceeded\<close>.
\<close>

section \<open>Peeking\<close>

definition maxPeekMessages :: int where "maxPeekMessages = MaxMessageBatchSize"
definition maxTailMessages :: int where "maxTailMessages = MaxMessageBatchSize"

definition validatePeekWindow :: "int \<Rightarrow> int \<Rightarrow> int \<Rightarrow> go_error option" where
  "validatePeekWindow part offset cnt =
    (if part < 0 then Some (usage_error ''peek partition must be non-negative'')
     else if offset < 0 then Some (usage_error ''peek offset must be non-negative'')
     else if cnt \<le> 0 then Some (usage_error ''peek count must be positive'')
     else if maxPeekMessages < cnt
     then Some (usage_error (''peek count must not exceed '' @ show_int maxPeekMessages))
     else None)"

definition newMessagePeekCmd ::
  "('l, 'b) cmd_env \<Rightarrow> cliFlags \<Rightarrow> int \<Rightarrow> int \<Rightarrow> int \<Rightarrow> string \<Rightarrow> ('l, 'b, unit) cmd" where
  "newMessagePeekCmd E f part offset cnt topic = withTopic topic (
     seqE (check (validatePeekWindow part offset cnt)) (\<lambda>_.
     seqE (runMandatoryBrokerRead E f
            (readSpec ''mq.message.peek'' (resource ''message'' topic)
              (valueMetadata ''mq.message.peek'' (JObj [(''Topic'', JStr topic), (''Partition'', JNum part),
                (''Offset'', JNum offset), (''Count'', JNum cnt)])))
            zero_MessagePeekResult
            (\<lambda>meta. classifyAndAuthorize E f meta OperationPeek
               (declaredTopicTarget meta (expectedBackend f meta) topic False) '''')
            (\<lambda>backend meta.
               stepC zero_MessagePeekResult (resolveTopicTarget E backend f meta topic False) (\<lambda>resolved.
               stepC zero_MessagePeekResult
                 (classifyAndAuthorize E f meta OperationPeek (rt_Classification resolved) '''') (\<lambda>_.
               broker_call E backend (Peek (cn_broker backend)
                 \<lparr>mkr_Coordinate = rt_Coordinate resolved, mkr_Partition = part, mkr_Offset = offset,
                  mkr_Count = cnt\<rparr>))))
            mkx_Count) (\<lambda>(result, opTarget).
     targetJSONData E f ''MessagePeekResult'' (V_Peek result) opTarget operationTargetRead)))"

section \<open>Tailing\<close>

definition validateTailWindow :: "int \<Rightarrow> go_error option" where
  "validateTailWindow maxMessages =
    (if maxMessages \<le> 0 then Some (usage_error ''tail max-messages must be positive'')
     else if maxTailMessages < maxMessages
     then Some (usage_error (''tail max-messages must not exceed '' @ show_int maxTailMessages))
     else None)"

record messageTailReadResult =
  mtl_Result :: MessageTailResult
  mtl_Fingerprints :: "MessageFingerprint list"

definition zero_messageTailReadResult :: messageTailReadResult where
  "zero_messageTailReadResult = \<lparr>mtl_Result = zero_MessageTailResult, mtl_Fingerprints = []\<rparr>"

text \<open>The callback: the fingerprints read so far are its state.\<close>

definition tailEmit :: "int \<Rightarrow> MessageFingerprint \<Rightarrow> (MessageFingerprint list, unit) op" where
  "tailEmit maxMessages fp fps =
    (if maxMessages \<le> int (length fps)
     then (Inl (AppError CodeBackendError ''backend emitted more messages than requested'' None), fps)
     else (Inr (), fps @ [fp]))"

text \<open>The end of the time limit and an interruption end a tail without an error.\<close>

definition tailError :: "('l, 'b) cmd_env \<Rightarrow> go_error option \<Rightarrow> go_error option" where
  "tailError E err = (case err of None \<Rightarrow> None
   | Some e \<Rightarrow> if ce_errorsIs E e ContextCanceled \<or> ce_errorsIs E e ContextDeadlineExceeded then None else Some e)"

definition messageTailStep ::
  "('l, 'b) cmd_env \<Rightarrow> cliFlags \<Rightarrow> int \<Rightarrow> string \<Rightarrow> bool \<Rightarrow> int \<Rightarrow> string \<Rightarrow> 'b connection \<Rightarrow> Context \<Rightarrow>
   (('l, 'b) world, messageTailReadResult) call" where
  "messageTailStep E f part from follow maxMessages topic backend meta =
    (case SupportsTail (cn_broker backend) of
       None \<Rightarrow> answer zero_messageTailReadResult
         (Some (not_implemented ''backend does not support non-destructive message tail''))
     | Some tailer \<Rightarrow>
         stepC zero_messageTailReadResult (resolveTopicTarget E backend f meta topic False) (\<lambda>resolved.
         stepC zero_messageTailReadResult
           (classifyAndAuthorize E f meta OperationTail (rt_Classification resolved) '''') (\<lambda>_.
         let req = \<lparr>mtr_Coordinate = rt_Coordinate resolved, mtr_Partition = part, mtr_From = from,
               mtr_Follow = follow, mtr_MaxMessages = maxMessages\<rparr>
         in callE (broker_call_with E backend [] (tailer req (tailEmit maxMessages)))
              (\<lambda>((result, tailErr), fingerprints).
            answer \<lparr>mtl_Result = result, mtl_Fingerprints = fingerprints\<rparr> (tailError E tailErr)))))"

definition printTailFingerprint ::
  "('l, 'b) cmd_env \<Rightarrow> cliFlags \<Rightarrow> MessageFingerprint \<Rightarrow> operationTarget \<Rightarrow> ('l, 'b, unit) cmd" where
  "printTailFingerprint E f fp target =
    (if fl_Output f = ''json''
     then printed E (Out_JSON (newPrinter f) ''MessageFingerprint'' (V_Message fp) (targetDataForOutput f target))
     else printed E (Out_Info (newPrinter f) (''partition='' @ show_int (mf_Partition fp) @ '' offset='' @
       show_int (mf_Offset fp) @ '' key-sha256='' @ mf_KeySHA256 fp @ '' body-sha256='' @ mf_BodySHA256 fp @
       '' size='' @ show_int (mf_Size fp) @ '' timestamp='' @ mf_Timestamp fp)))"

fun printTailFingerprints ::
  "('l, 'b) cmd_env \<Rightarrow> cliFlags \<Rightarrow> MessageFingerprint list \<Rightarrow> operationTarget \<Rightarrow> ('l, 'b, unit) cmd" where
  "printTailFingerprints E f [] target = ret ()"
| "printTailFingerprints E f (fp # fps) target =
     seqE (printTailFingerprint E f fp target) (\<lambda>_. printTailFingerprints E f fps target)"

definition printTailResult ::
  "('l, 'b) cmd_env \<Rightarrow> cliFlags \<Rightarrow> MessageTailResult \<Rightarrow> operationTarget \<Rightarrow> ('l, 'b, unit) cmd" where
  "printTailResult E f result target =
    (if fl_Output f = ''json''
     then printed E (Out_JSON (newPrinter f) ''MessageTailResult'' (V_Tail result) (targetDataForOutput f target))
     else printed E (Out_Info (newPrinter f) (''tail complete count='' @ show_int (mtx_Count result) @
       '' totalSize='' @ show_int (mtx_TotalSize result))))"

definition newMessageTailCmd ::
  "('l, 'b) cmd_env \<Rightarrow> cliFlags \<Rightarrow> int \<Rightarrow> string \<Rightarrow> bool \<Rightarrow> int \<Rightarrow> int \<Rightarrow> string \<Rightarrow> ('l, 'b, unit) cmd" where
  "newMessageTailCmd E f part from follow maxMessages timeout0 topic = withTopic topic (
     seqE (check (validateTailWindow maxMessages)) (\<lambda>_.
     let timeout = (if timeout0 \<le> 0 then 30000000000 else timeout0)
     in seqE (runMandatoryBrokerRead E f
            (readSpec ''mq.message.tail'' (resource ''message'' topic)
              (valueMetadata ''mq.message.tail'' (JObj [(''Topic'', JStr topic), (''Partition'', JNum part),
                (''From'', JStr from), (''Follow'', JBool follow), (''MaxMessages'', JNum maxMessages),
                (''Timeout'', JNum timeout)])))
            zero_messageTailReadResult
            (\<lambda>meta. classifyAndAuthorize E f meta OperationTail
               (declaredTopicTarget meta (expectedBackend f meta) topic False) '''')
            (messageTailStep E f part from follow maxMessages topic)
            (\<lambda>r. int (length (mtl_Fingerprints r)))) (\<lambda>(readResult, opTarget).
        seqE (printOperationTarget E (newPrinter f) opTarget operationTargetRead) (\<lambda>_.
        seqE (printTailFingerprints E f (mtl_Fingerprints readResult) opTarget) (\<lambda>_.
        printTailResult E f (mtl_Result readResult) opTarget)))))"

section \<open>Producing\<close>

definition newMessageProduceCmd ::
  "('l, 'b) cmd_env \<Rightarrow> cliFlags \<Rightarrow> string \<Rightarrow> string \<Rightarrow> string \<Rightarrow> ('l, 'b, unit) cmd" where
  "newMessageProduceCmd E f key body topic = withTopic topic (
     if contextPlanOnly f
     then printBrokerChangePlan E f ''produce'' ''message'' topic [(''keySha256'', JStr (sha256Hex key)),
       (''bodySha256'', JStr (sha256Hex body)), (''size'', JNum (int (length body)))]
     else seqE (runMandatoryBrokerPreflight E f
            (readSpec ''mq.message.produce.preflight'' (resource ''message'' topic)
              (valueMetadata ''mq.message.produce.preflight'' (json_map [(''topic'', JStr topic)])))
            zero_resolved
            (\<lambda>backend meta. orZero zero_resolved (resolveTopicTarget E backend f meta topic False))
            (\<lambda>_. 1)) (\<lambda>preflight.
     closing (pf_Backend preflight) (
     let resolved = pf_Value preflight;
         allow = (if t_internal_topic (rt_Classification resolved) then allowInternalProduce else '''');
         request = \<lparr>mpr_Coordinate = rt_Coordinate resolved, mpr_Key = key, mpr_Body = body, mpr_Headers = []\<rparr>
     in seqE (classifyAndAuthorize E f (pf_Context preflight) OperationProduce (rt_Classification resolved) allow) (\<lambda>_.
        seqE (beginMutation E f (mutationSpec ''mq.message.produce'' (pf_Context preflight)
               (resource ''message'' topic) (mutationMessageMetadata key body))) (\<lambda>handle.
        callE (broker_call E (pf_Backend preflight) (Produce (cn_broker (pf_Backend preflight)) request))
          (\<lambda>(result, operationErr).
        seqE (finishMutation E f handle empty_outcome operationErr) (\<lambda>_.
        targetJSONData E f ''MessageProduceResult'' (V_Produce result) (pf_Target preflight)
          operationTargetWrite)))))))"

end
