(* ===== verification/Dlq_Cmd.thy ===== *)
theory Dlq_Cmd
  imports Message_Cmd
begin

text \<open>The commands on dead-letter queues of cmd/dlq.go.\<close>

definition effectiveDLQTopic :: "string \<Rightarrow> string \<Rightarrow> string \<Rightarrow> string \<Rightarrow> string" where
  "effectiveDLQTopic backendName explicit topic grp =
    (if backendName \<noteq> ''pulsar'' \<or> topic = '''' \<or> grp = '''' then explicit
     else let name0 = trim_space topic;
              name = (case last_index_byte name0 (CHR ''/'') of None \<Rightarrow> name0 | Some i \<Rightarrow> drop (Suc i) name0)
       in name @ ''-'' @ grp @ ''-DLQ'')"

text \<open>The two guards that every command starts with: the capability and the interface.\<close>

definition dlqManager :: "(Capabilities \<Rightarrow> bool) \<Rightarrow> string \<Rightarrow> 'b connection \<Rightarrow> ('l, 'b, 'b DLQManager) cmd" where
  "dlqManager supported unsupported backend =
     seqE (getS (capabilities backend)) (\<lambda>caps.
     if \<not> supported caps then throw (not_implemented unsupported)
     else case SupportsDLQ (cn_broker backend) of
       None \<Rightarrow> throw (not_implemented ''backend does not support DLQ governance'')
     | Some manager \<Rightarrow> ret manager)"

definition dlqTopicOf :: "'b connection \<Rightarrow> string \<Rightarrow> string \<Rightarrow> string \<Rightarrow> ('l, 'b, string) cmd" where
  "dlqTopicOf backend dlq topic grp =
     getS (\<lambda>w. effectiveDLQTopic (de_Backend (describe backend w)) dlq topic grp)"

section \<open>Reading\<close>

definition newDLQListCmd ::
  "('l, 'b) cmd_env \<Rightarrow> cliFlags \<Rightarrow> string \<Rightarrow> string \<Rightarrow> string \<Rightarrow> ('l, 'b, unit) cmd" where
  "newDLQListCmd E f topic grp pattern =
    (let options = \<lparr>dlo_Namespace = fl_Namespace f, dlo_Topic = topic, dlo_Group = grp, dlo_Pattern = pattern,
           dlo_Limit = 0\<rparr>
     in seqE (check (validateExactPattern pattern)) (\<lambda>_.
     seqE (runMandatoryBrokerRead E f
            (readSpec ''mq.dlq.list'' (resource ''dlq'' '''')
              (valueMetadata ''mq.dlq.list'' (DLQListOptions_json options)))
            []
            (\<lambda>meta. classifyAndAuthorize E f meta OperationListDLQ
               (empty_target\<lparr>t_topic := firstNonEmpty [topic, pattern], t_group := grp\<rparr>) '''')
            (\<lambda>backend _. stepC []
               (dlqManager cp_SupportsDLQList ''backend does not support DLQ listing'' backend) (\<lambda>manager.
               broker_call E backend (ListDLQs manager options)))
            (int \<circ> length)) (\<lambda>(items, opTarget).
     if fl_Output f = ''json''
     then targetJSONList E f ''DLQList'' (V_DLQs items) (int (length items)) (int (length items)) opTarget
     else targetTable E f [''DLQ'', ''SOURCE'', ''GROUP'', ''NATIVE MODEL'', ''MESSAGES'']
            (map (\<lambda>item. [tc_Topic (dd_Coordinate item), dd_SourceTopic item, dd_ConsumerGroup item,
               dd_NativeModel item, show_int (dd_Messages item)]) items) opTarget)))"

definition newDLQPeekCmd ::
  "('l, 'b) cmd_env \<Rightarrow> cliFlags \<Rightarrow> string \<Rightarrow> string \<Rightarrow> int \<Rightarrow> int \<Rightarrow> int \<Rightarrow> string \<Rightarrow> ('l, 'b, unit) cmd" where
  "newDLQPeekCmd E f topic grp part offset cnt dlq =
     seqE (check (validatePeekWindow part offset cnt)) (\<lambda>_.
     seqE (runMandatoryBrokerRead E f
            (readSpec ''mq.dlq.peek'' (resource ''dlq'' dlq)
              (valueMetadata ''mq.dlq.peek'' (JObj [(''DLQ'', JStr dlq), (''Topic'', JStr topic),
                (''Group'', JStr grp), (''Partition'', JNum part), (''Offset'', JNum offset),
                (''Count'', JNum cnt)])))
            zero_DLQPeekResult
            (\<lambda>meta. classifyAndAuthorize E f meta OperationPeekDLQ
               ((declaredTopicTarget meta (expectedBackend f meta) (firstNonEmpty [topic, dlq]) False)\<lparr>t_group := grp\<rparr>)
               '''')
            (\<lambda>backend meta.
               stepC zero_DLQPeekResult (dlqManager cp_SupportsDLQPeek
                 ''backend does not support non-destructive DLQ peek'' backend) (\<lambda>manager.
               stepC zero_DLQPeekResult (dlqTopicOf backend dlq topic grp) (\<lambda>dlqTopic.
               stepC zero_DLQPeekResult (resolveTopicTarget E backend f meta dlqTopic False) (\<lambda>resolved.
               stepC zero_DLQPeekResult (classifyAndAuthorize E f meta OperationPeekDLQ
                 ((rt_Classification resolved)\<lparr>t_group := grp\<rparr>) '''') (\<lambda>_.
               broker_call E backend (PeekDLQ manager \<lparr>dpr_DLQ = rt_Coordinate resolved, dpr_Topic = topic,
                 dpr_Group = grp, dpr_Partition = part, dpr_Offset = offset, dpr_Count = cnt\<rparr>))))))
            dpx_Count) (\<lambda>(result, opTarget).
     targetJSONData E f ''DLQPeekResult'' (V_DLQPeek result) opTarget operationTargetRead))"

section \<open>Redriving\<close>

record 'b dlqRedrivePreflight =
  drp_Manager :: "'b DLQManager"
  drp_Target :: resolvedTopicTarget
  drp_Request :: DLQRedriveRequest
  drp_Preview :: DLQRedriveResult
  drp_HasPreview :: bool

definition zero_DLQRedriveRequest :: DLQRedriveRequest where
  "zero_DLQRedriveRequest = \<lparr>drr_DLQ = zero_TopicCoordinate, drr_Target = zero_TopicCoordinate,
     drr_Topic = '''', drr_Group = '''', drr_Count = 0, drr_DryRun = False\<rparr>"

definition zero_dlqRedrivePreflight :: "'b dlqRedrivePreflight" where
  "zero_dlqRedrivePreflight = \<lparr>drp_Manager = nil_dlqs, drp_Target = zero_resolved,
     drp_Request = zero_DLQRedriveRequest, drp_Preview = zero_DLQRedriveResult, drp_HasPreview = False\<rparr>"

definition dlqRedrivePreflightStep ::
  "('l, 'b) cmd_env \<Rightarrow> cliFlags \<Rightarrow> string \<Rightarrow> string \<Rightarrow> string \<Rightarrow> int \<Rightarrow> bool \<Rightarrow> string \<Rightarrow> 'b connection \<Rightarrow> Context \<Rightarrow>
   (('l, 'b) world, 'b dlqRedrivePreflight) call" where
  "dlqRedrivePreflightStep E f topic grp target cnt dryRun dlq backend meta =
    (let zero = zero_dlqRedrivePreflight in
     stepC zero (dlqManager cp_SupportsDLQRedrive ''backend does not support DLQ redrive'' backend) (\<lambda>manager.
     stepC zero (dlqTopicOf backend dlq topic grp) (\<lambda>dlqTopic.
     stepC zero (guardE (target \<noteq> dlqTopic) (usage_error ''redrive target must differ from the DLQ'')) (\<lambda>_.
     stepC zero (resolveTopicTarget E backend f meta dlqTopic dryRun) (\<lambda>resolvedDLQ.
     stepC zero (resolveTopicTarget E backend f meta target dryRun) (\<lambda>resolvedTarget.
     let request = \<lparr>drr_DLQ = rt_Coordinate resolvedDLQ, drr_Target = rt_Coordinate resolvedTarget,
           drr_Topic = topic, drr_Group = grp, drr_Count = cnt, drr_DryRun = dryRun\<rparr>;
         v = zero\<lparr>drp_Manager := manager, drp_Target := resolvedTarget, drp_Request := request\<rparr>
     in if \<not> dryRun then answer v None
        else stepC zero (classifyAndAuthorize E f meta OperationRedriveDLQ
               ((rt_Classification resolvedTarget)\<lparr>t_group := grp\<rparr>) '''') (\<lambda>_.
          callE (broker_call E backend (RedriveDLQ manager request)) (\<lambda>(preview, err).
          answer (v\<lparr>drp_Preview := preview, drp_HasPreview := err = None\<rparr>) err))))))))"

text \<open>The outcome that the audit gets.\<close>

definition redriveOutcome :: "DLQRedriveResult \<Rightarrow> go_error option \<Rightarrow> BatchOutcome" where
  "redriveOutcome result operationErr =
    (let oc = drx_Outcome result in
     if \<not> BatchOutcome_Empty oc then oc
     else let oc = oc\<lparr>bo_Succeeded := rf_Count (drx_Fingerprint result)\<rparr>
       in if operationErr = None then oc else oc\<lparr>bo_Uncertain := 1\<rparr>)"

definition newDLQRedriveCmd ::
  "('l, 'b) cmd_env \<Rightarrow> cliFlags \<Rightarrow> string \<Rightarrow> string \<Rightarrow> string \<Rightarrow> int \<Rightarrow> string \<Rightarrow> ('l, 'b, unit) cmd" where
  "newDLQRedriveCmd E f topic grp target cnt dlq =
    (let dryRun = contextPlanOnly f in
     seqE (guardE (target \<noteq> '''') (usage_error ''redrive target topic is required'')) (\<lambda>_.
     seqE (guardE (\<not> (cnt \<le> 0 \<or> MaxMessageBatchSize < cnt))
            (usage_error (''redrive count must be between 1 and '' @ show_int MaxMessageBatchSize))) (\<lambda>_.
     seqE (runMandatoryBrokerPreflight E f
            (readSpec ''mq.dlq.redrive.preflight'' (resource ''dlq'' dlq) (valueMetadata ''mq.dlq.redrive.preflight''
              (json_map [(''dlq'', JStr dlq), (''target'', JStr target), (''count'', JNum cnt), (''dryRun'', JBool dryRun)])))
            zero_dlqRedrivePreflight
            (dlqRedrivePreflightStep E f topic grp target cnt dryRun dlq)
            (\<lambda>v. if drp_HasPreview v then rf_Count (drx_Fingerprint (drp_Preview v)) else 1)) (\<lambda>preflight.
     closing (pf_Backend preflight) (
     let allow = (if dryRun then '''' else allowInternalProduce);
         classTarget = (rt_Classification (drp_Target (pf_Value preflight)))\<lparr>t_group := grp\<rparr>;
         request = drp_Request (pf_Value preflight)
     in seqE (if dryRun then ret ()
              else classifyAndAuthorize E f (pf_Context preflight) OperationRedriveDLQ classTarget allow) (\<lambda>_.
        if dryRun
        then targetJSONData E f ''DLQRedriveResult'' (V_Redrive (drp_Preview (pf_Value preflight)))
               (pf_Target preflight) operationTargetWrite
        else seqE (beginMutation E f (mutationSpec ''mq.dlq.redrive'' (pf_Context preflight) (resource ''dlq'' dlq)
               ((valueMetadata ''mq.dlq.redrive'' (DLQRedriveRequest_json request))\<lparr>md_Items := cnt\<rparr>))) (\<lambda>handle.
        callE (broker_call E (pf_Backend preflight) (RedriveDLQ (drp_Manager (pf_Value preflight)) request))
          (\<lambda>(result, operationErr).
        seqE (finishBatch E f handle cnt (redriveOutcome result operationErr) operationErr) (\<lambda>_.
        targetJSONData E f ''DLQRedriveResult'' (V_Redrive result) (pf_Target preflight)
          operationTargetWrite)))))))))"

section \<open>Purging\<close>

record 'b dlqPurgePreflight =
  dup_Manager :: "'b DLQManager"
  dup_Resolved :: resolvedTopicTarget
  dup_Request :: DLQPurgeRequest
  dup_Preview :: DLQPurgeResult
  dup_HasPreview :: bool

definition zero_DLQPurgeRequest :: DLQPurgeRequest where
  "zero_DLQPurgeRequest = \<lparr>dur_DLQ = zero_TopicCoordinate, dur_Topic = '''', dur_Group = '''', dur_DryRun = False\<rparr>"

definition zero_dlqPurgePreflight :: "'b dlqPurgePreflight" where
  "zero_dlqPurgePreflight = \<lparr>dup_Manager = nil_dlqs, dup_Resolved = zero_resolved,
     dup_Request = zero_DLQPurgeRequest, dup_Preview = zero_DLQPurgeResult, dup_HasPreview = False\<rparr>"

definition dlqPurgePreflightStep ::
  "('l, 'b) cmd_env \<Rightarrow> cliFlags \<Rightarrow> string \<Rightarrow> string \<Rightarrow> bool \<Rightarrow> string \<Rightarrow> 'b connection \<Rightarrow> Context \<Rightarrow>
   (('l, 'b) world, 'b dlqPurgePreflight) call" where
  "dlqPurgePreflightStep E f topic grp dryRun dlq backend meta =
    (let zero = zero_dlqPurgePreflight in
     stepC zero (dlqManager cp_SupportsDLQPurge ''backend does not support DLQ purge'' backend) (\<lambda>manager.
     stepC zero (dlqTopicOf backend dlq topic grp) (\<lambda>dlqTopic.
     stepC zero (resolveTopicTarget E backend f meta dlqTopic dryRun) (\<lambda>resolved.
     let request = \<lparr>dur_DLQ = rt_Coordinate resolved, dur_Topic = topic, dur_Group = grp, dur_DryRun = dryRun\<rparr>;
         v = zero\<lparr>dup_Manager := manager, dup_Resolved := resolved, dup_Request := request\<rparr>
     in if \<not> dryRun then answer v None
        else stepC zero (classifyAndAuthorize E f meta OperationPurgeDLQ
               ((rt_Classification resolved)\<lparr>t_group := grp\<rparr>) '''') (\<lambda>_.
          callE (broker_call E backend (PurgeDLQ manager request)) (\<lambda>(preview, err).
          answer (v\<lparr>dup_Preview := preview, dup_HasPreview := err = None\<rparr>) err))))))"

definition newDLQPurgeCmd ::
  "('l, 'b) cmd_env \<Rightarrow> cliFlags \<Rightarrow> string \<Rightarrow> string \<Rightarrow> string \<Rightarrow> ('l, 'b, unit) cmd" where
  "newDLQPurgeCmd E f topic grp dlq =
    (let dryRun = contextPlanOnly f in
     seqE (runMandatoryBrokerPreflight E f
            (readSpec ''mq.dlq.purge.preflight'' (resource ''dlq'' dlq) (valueMetadata ''mq.dlq.purge.preflight''
              (json_map [(''dlq'', JStr dlq), (''dryRun'', JBool dryRun)])))
            zero_dlqPurgePreflight
            (dlqPurgePreflightStep E f topic grp dryRun dlq)
            (\<lambda>v. if dup_HasPreview v then rf_Count (dux_Fingerprint (dup_Preview v)) else 1)) (\<lambda>preflight.
     closing (pf_Backend preflight) (
     let allow = (if dryRun then '''' else allowTopicPurge);
         classTarget = (rt_Classification (dup_Resolved (pf_Value preflight)))\<lparr>t_group := grp\<rparr>;
         request = dup_Request (pf_Value preflight)
     in seqE (if dryRun then ret ()
              else classifyAndAuthorize E f (pf_Context preflight) OperationPurgeDLQ classTarget allow) (\<lambda>_.
        if dryRun
        then targetJSONData E f ''DLQPurgeResult'' (V_DLQPurge (dup_Preview (pf_Value preflight)))
               (pf_Target preflight) operationTargetWrite
        else seqE (beginMutation E f (mutationSpec ''mq.dlq.purge'' (pf_Context preflight) (resource ''dlq'' dlq)
               (valueMetadata ''mq.dlq.purge'' (DLQPurgeRequest_json request)))) (\<lambda>handle.
        callE (broker_call E (pf_Backend preflight) (PurgeDLQ (dup_Manager (pf_Value preflight)) request))
          (\<lambda>(result, operationErr).
        let (oc, tot) = purgeMutationOutcome (dux_Outcome result) (int (length (dux_Impact result))) operationErr
        in seqE (finishBatch E f handle tot oc operationErr) (\<lambda>_.
           targetJSONData E f ''DLQPurgeResult'' (V_DLQPurge result) (pf_Target preflight)
             operationTargetWrite)))))))"

end
