(* ===== verification/Acl_Cmd.thy ===== *)
theory Acl_Cmd
  imports Topic_Cmd
begin

text \<open>The ACL commands of cmd/acl.go.\<close>

record aclFlags =
  ax_principal :: string
  ax_host :: string
  ax_vhost :: string
  ax_resourceType :: string
  ax_resourceName :: string
  ax_patternType :: string
  ax_operation :: string
  ax_permission :: string

definition aclBinding :: "aclFlags \<Rightarrow> ACLBinding" where
  "aclBinding x = \<lparr>ab_Principal = ax_principal x, ab_Host = ax_host x, ab_Vhost = ax_vhost x,
     ab_ResourceType = ax_resourceType x, ab_ResourceName = ax_resourceName x,
     ab_PatternType = ax_patternType x, ab_Operation = ax_operation x, ab_Permission = ax_permission x\<rparr>"

definition aclClassTarget :: "aclFlags \<Rightarrow> acl_target" where
  "aclClassTarget x = no_acl\<lparr>a_principal := ax_principal x, a_resource_type := ax_resourceType x,
     a_resource_name := ax_resourceName x, a_pattern_type := ax_patternType x,
     a_operation := ax_operation x, a_permission := ax_permission x\<rparr>"

definition aclAuditTarget :: "ACLBinding \<Rightarrow> EventTarget" where
  "aclAuditTarget b = resource ''acl'' (ab_ResourceType b @ ''/'' @ ab_ResourceName b)"

definition aclTarget :: "aclFlags \<Rightarrow> class_target" where
  "aclTarget x = empty_target\<lparr>t_acl := aclClassTarget x\<rparr>"

definition aclManager :: "'b connection \<Rightarrow> ('l, 'b, 'b ACLManager) cmd" where
  "aclManager backend = (case SupportsACL (cn_broker backend) of
     None \<Rightarrow> throw (not_implemented ''backend does not support ACL management'')
   | Some manager \<Rightarrow> ret manager)"

definition newACLListCmd :: "('l, 'b) cmd_env \<Rightarrow> cliFlags \<Rightarrow> aclFlags \<Rightarrow> ('l, 'b, unit) cmd" where
  "newACLListCmd E f x =
    (let filt = \<lparr>af_Principal = ax_principal x, af_Host = '''', af_Vhost = ax_vhost x,
           af_ResourceType = ax_resourceType x, af_ResourceName = ax_resourceName x, af_PatternType = '''',
           af_Operation = '''', af_Permission = ''''\<rparr>
     in seqE (runMandatoryBrokerRead E f
            (readSpec ''mq.acl.list'' (resource ''acl'' '''') (valueMetadata ''mq.acl.list'' (ACLFilter_json filt)))
            []
            (\<lambda>meta. classifyAndAuthorize E f meta OperationListACL (aclTarget x) '''')
            (\<lambda>backend _. stepC [] (aclManager backend) (\<lambda>manager. broker_call E backend (ListACLs manager filt)))
            (int \<circ> length)) (\<lambda>(items, opTarget).
     if fl_Output f = ''json''
     then targetJSONList E f ''ACLList'' (V_ACLs items) (int (length items)) (int (length items)) opTarget
     else targetTable E f [''PRINCIPAL'', ''HOST'', ''VHOST'', ''RESOURCE TYPE'', ''RESOURCE NAME'', ''PATTERN'',
              ''OPERATION'', ''PERMISSION'']
            (map (\<lambda>b. [ab_Principal b, ab_Host b, ab_Vhost b, ab_ResourceType b, ab_ResourceName b,
               ab_PatternType b, ab_Operation b, ab_Permission b]) items) opTarget))"

text \<open>The plan that both mutating commands print.\<close>

definition printACLPlan :: "('l, 'b) cmd_env \<Rightarrow> cliFlags \<Rightarrow> string \<Rightarrow> ACLBinding \<Rightarrow> ('l, 'b, unit) cmd" where
  "printACLPlan E f action b = printBrokerChangePlan E f action ''acl'' (ab_ResourceType b @ ''/'' @ ab_ResourceName b)
     [(''principal'', JStr (ab_Principal b)), (''operation'', JStr (ab_Operation b)),
      (''permission'', JStr (ab_Permission b))]"

definition newACLGrantCmd :: "('l, 'b) cmd_env \<Rightarrow> cliFlags \<Rightarrow> aclFlags \<Rightarrow> ('l, 'b, unit) cmd" where
  "newACLGrantCmd E f x =
    (let binding = aclBinding x in
     if contextPlanOnly f then printACLPlan E f ''grant'' binding
     else seqE (runMandatoryBrokerPreflight E f
            (readSpec ''mq.acl.grant.preflight'' (aclAuditTarget binding)
              (valueMetadata ''mq.acl.grant.preflight'' (ACLBinding_json binding)))
            nil_acls (\<lambda>backend _. orZero nil_acls (aclManager backend)) (\<lambda>_. 1)) (\<lambda>preflight.
     closing (pf_Backend preflight) (
     let allow = (if r_risk (Classify OperationGrantACL (aclTarget x)) = R3 then allowDestructiveACL else '''')
     in seqE (classifyAndAuthorize E f (pf_Context preflight) OperationGrantACL (aclTarget x) allow) (\<lambda>_.
        seqE (beginMutation E f (mutationSpec ''mq.acl.grant'' (pf_Context preflight) (aclAuditTarget binding)
               (valueMetadata ''mq.acl.grant'' (ACLBinding_json binding)))) (\<lambda>handle.
        callE (broker_call E (pf_Backend preflight) (GrantACL (pf_Value preflight) binding)) (\<lambda>granted.
        seqE (finishMutation E f handle empty_outcome (errOf granted)) (\<lambda>_.
        targetJSONData E f ''ACLBinding'' (V_ACL binding) (pf_Target preflight) operationTargetWrite)))))))"

definition newACLRevokeCmd :: "('l, 'b) cmd_env \<Rightarrow> cliFlags \<Rightarrow> aclFlags \<Rightarrow> ('l, 'b, unit) cmd" where
  "newACLRevokeCmd E f x =
    (let binding = aclBinding x in
     if contextPlanOnly f then printACLPlan E f ''revoke'' binding
     else seqE (runMandatoryBrokerPreflight E f
            (readSpec ''mq.acl.revoke.preflight'' (aclAuditTarget binding)
              (valueMetadata ''mq.acl.revoke.preflight'' (ACLBinding_json binding)))
            nil_acls (\<lambda>backend _. orZero nil_acls (aclManager backend)) (\<lambda>_. 1)) (\<lambda>preflight.
     closing (pf_Backend preflight) (
     seqE (classifyAndAuthorize E f (pf_Context preflight) OperationRevokeACL (aclTarget x) allowDestructiveACL) (\<lambda>_.
     seqE (beginMutation E f (mutationSpec ''mq.acl.revoke'' (pf_Context preflight) (aclAuditTarget binding)
            (valueMetadata ''mq.acl.revoke'' (ACLBinding_json binding)))) (\<lambda>handle.
     callE (broker_call E (pf_Backend preflight) (RevokeACL (pf_Value preflight) binding)) (\<lambda>revoked.
     seqE (finishMutation E f handle empty_outcome (errOf revoked)) (\<lambda>_.
     targetJSONData E f ''ACLBinding'' (V_ACL binding) (pf_Target preflight) operationTargetWrite)))))))"

end
