(* ===== verification/Schema_Cmd.thy ===== *)
theory Schema_Cmd
  imports Topic_Cmd
begin

text \<open>The schema registry commands of cmd/schema.go.\<close>

definition readSchemaInput :: "('l, 'b) cmd_env \<Rightarrow> string \<Rightarrow> string \<Rightarrow> go_error + string" where
  "readSchemaInput E schemaText schemaFile =
    (if schemaText \<noteq> '''' \<and> schemaFile \<noteq> ''''
     then Inl (usage_error ''--schema and --schema-file are mutually exclusive'')
     else if schemaText \<noteq> '''' then Inr schemaText
     else if schemaFile = '''' then Inl (usage_error ''schema text is required'')
     else case ce_readFile E schemaFile of
       Inl e \<Rightarrow> Inl (AppError CodeLocalIOError ''failed to read schema file'' (Some e))
     | Inr data \<Rightarrow> Inr data)"

definition isResourceNotFound :: "('l, 'b) cmd_env \<Rightarrow> go_error \<Rightarrow> bool" where
  "isResourceNotFound E e = (codeOf E e = CodeResourceNotFound)"

definition schemaTarget :: "string \<Rightarrow> class_target" where
  "schemaTarget subject = empty_target\<lparr>t_topic := subject\<rparr>"

section \<open>Reading\<close>

definition newSchemaListCmd :: "('l, 'b) cmd_env \<Rightarrow> cliFlags \<Rightarrow> string \<Rightarrow> int \<Rightarrow> ('l, 'b, unit) cmd" where
  "newSchemaListCmd E f pattern limit =
    (let options = \<lparr>slo_Subject = '''', slo_Pattern = pattern, slo_Limit = limit\<rparr> in
     seqE (check (validateExactPattern pattern)) (\<lambda>_.
     seqE (runMandatoryBrokerRead E f
            (readSpec ''mq.schema.list'' (resource ''schema'' '''')
              (valueMetadata ''mq.schema.list'' (SchemaListOptions_json options)))
            []
            (\<lambda>meta. classifyAndAuthorize E f meta OperationListSchema (schemaTarget pattern) '''')
            (\<lambda>backend _. stepC [] (schemaManager backend) (\<lambda>manager.
               broker_call E backend (ListSchemas manager options)))
            (int \<circ> length)) (\<lambda>(items, opTarget).
     if fl_Output f = ''json''
     then targetJSONList E f ''SchemaList'' (V_Schemas items) (int (length items)) (int (length items)) opTarget
     else targetTable E f [''SUBJECT''] (map (\<lambda>item. [ss_Subject item]) items) opTarget)))"

definition newSchemaDescribeCmd :: "('l, 'b) cmd_env \<Rightarrow> cliFlags \<Rightarrow> string \<Rightarrow> string \<Rightarrow> ('l, 'b, unit) cmd" where
  "newSchemaDescribeCmd E f version subject =
    (let request = \<lparr>sdr_Subject = subject, sdr_Version = version\<rparr> in
     seqE (runMandatorySchemaRead E f
            (readSpec ''mq.schema.describe'' (resource ''schema'' subject)
              (valueMetadata ''mq.schema.describe'' (SchemaDescribeRequest_json request)))
            zero_SchemaDescription
            (\<lambda>meta. classifyAndAuthorize E f meta OperationDescribeSchema (schemaTarget subject) '''')
            (\<lambda>backend manager. broker_call E backend (DescribeSchema manager request))) (\<lambda>(result, opTarget).
     targetJSONData E f ''SchemaDescription'' (V_Schema result) opTarget operationTargetRead))"

definition newSchemaCheckCmd ::
  "('l, 'b) cmd_env \<Rightarrow> cliFlags \<Rightarrow> string \<Rightarrow> string \<Rightarrow> string \<Rightarrow> string \<Rightarrow> string \<Rightarrow> ('l, 'b, unit) cmd" where
  "newSchemaCheckCmd E f version schemaType schemaText schemaFile subject =
     seqE (liftE (readSchemaInput E schemaText schemaFile)) (\<lambda>schema.
     let request = \<lparr>scr_Subject = subject, scr_Version = version, scr_Type = schemaType, scr_Schema = schema\<rparr>
     in seqE (runMandatorySchemaRead E f
            (readSpec ''mq.schema.check'' (resource ''schema'' subject)
              (valueMetadata ''mq.schema.check'' (SchemaCheckRequest_json request)))
            zero_SchemaCheckResult
            (\<lambda>meta. classifyAndAuthorize E f meta OperationCheckSchema (schemaTarget subject) '''')
            (\<lambda>backend manager. broker_call E backend (CheckCompatibility manager request))) (\<lambda>(result, opTarget).
        targetJSONData E f ''SchemaCheckResult'' (V_SchemaCheck result) opTarget operationTargetRead))"

section \<open>Registering\<close>

record 'b schemaRegisterPreflight =
  srp_Manager :: "'b SchemaManager"
  srp_Target :: class_target

definition zero_schemaRegisterPreflight :: "'b schemaRegisterPreflight" where
  "zero_schemaRegisterPreflight = \<lparr>srp_Manager = nil_schemas, srp_Target = empty_target\<rparr>"

definition schemaRegisterPreflightStep ::
  "('l, 'b) cmd_env \<Rightarrow> string \<Rightarrow> string \<Rightarrow> string \<Rightarrow> 'b connection \<Rightarrow> (('l, 'b) world, 'b schemaRegisterPreflight) call" where
  "schemaRegisterPreflightStep E schemaType schema subject backend =
     stepC zero_schemaRegisterPreflight (schemaManager backend) (\<lambda>manager.
     let v = \<lparr>srp_Manager = manager, srp_Target = schemaTarget subject\<rparr>;
         existing_v = v\<lparr>srp_Target := (schemaTarget subject)\<lparr>t_schema_exists := True\<rparr>\<rparr>
     in callE (broker_call E backend (DescribeSchema manager \<lparr>sdr_Subject = subject, sdr_Version = ''latest''\<rparr>))
          (\<lambda>(existing, describeErr).
        case describeErr of
          Some e \<Rightarrow>
            if isResourceNotFound E e then answer v None
            else answer (v\<lparr>srp_Target := (schemaTarget subject)\<lparr>t_schema_unknown := True\<rparr>\<rparr>) (Some e)
        | None \<Rightarrow>
            callE (broker_call E backend (CheckCompatibility manager \<lparr>scr_Subject = subject,
                    scr_Version = sd_Version existing, scr_Type = schemaType, scr_Schema = schema\<rparr>))
              (\<lambda>(compat, checkErr).
            case checkErr of
              Some e \<Rightarrow> answer existing_v (Some e)
            | None \<Rightarrow>
                if \<not> scx_Compatible compat
                then answer existing_v (Some (invalid ''schema is not compatible with existing subject''))
                else answer existing_v None)))"

definition newSchemaRegisterCmd ::
  "('l, 'b) cmd_env \<Rightarrow> cliFlags \<Rightarrow> string \<Rightarrow> string \<Rightarrow> string \<Rightarrow> string \<Rightarrow> ('l, 'b, unit) cmd" where
  "newSchemaRegisterCmd E f schemaType schemaText schemaFile subject =
     seqE (liftE (readSchemaInput E schemaText schemaFile)) (\<lambda>schema.
     if contextPlanOnly f
     then printBrokerChangePlan E f ''register'' ''schema'' subject [(''schemaType'', JStr schemaType),
       (''schemaSha256'', JStr (sha256Hex schema))]
     else seqE (runMandatoryBrokerPreflight E f
            (readSpec ''mq.schema.register.preflight'' (resource ''schema'' subject)
              (mutationPayloadMetadata ''mq.schema.register.preflight'' schema))
            zero_schemaRegisterPreflight
            (\<lambda>backend _. schemaRegisterPreflightStep E schemaType schema subject backend)
            (\<lambda>_. 1)) (\<lambda>preflight.
     closing (pf_Backend preflight) (
     let request = \<lparr>srr_Subject = subject, srr_Type = schemaType, srr_Schema = schema\<rparr>
     in seqE (classifyAndAuthorize E f (pf_Context preflight) OperationRegisterSchema
               (srp_Target (pf_Value preflight)) '''') (\<lambda>_.
        seqE (beginMutation E f (mutationSpec ''mq.schema.register'' (pf_Context preflight) (resource ''schema'' subject)
               ((mutationPayloadMetadata ''mq.schema.register'' schema)\<lparr>md_Items := 1\<rparr>))) (\<lambda>handle.
        callE (broker_call E (pf_Backend preflight) (RegisterSchema (srp_Manager (pf_Value preflight)) request))
          (\<lambda>(result, operationErr).
        seqE (finishMutation E f handle (empty_outcome\<lparr>oc_Revision := sd_Version result\<rparr>) operationErr) (\<lambda>_.
        targetJSONData E f ''SchemaDescription'' (V_Schema result) (pf_Target preflight) operationTargetWrite)))))))"

section \<open>Deleting\<close>

record 'b schemaDeletePreflight =
  sdp_Manager :: "'b SchemaManager"
  sdp_Description :: SchemaDescription

definition zero_schemaDeletePreflight :: "'b schemaDeletePreflight" where
  "zero_schemaDeletePreflight = \<lparr>sdp_Manager = nil_schemas, sdp_Description = zero_SchemaDescription\<rparr>"

definition newSchemaDeleteCmd ::
  "('l, 'b) cmd_env \<Rightarrow> cliFlags \<Rightarrow> string \<Rightarrow> bool \<Rightarrow> string \<Rightarrow> ('l, 'b, unit) cmd" where
  "newSchemaDeleteCmd E f version permanent subject =
    (if contextPlanOnly f
     then printBrokerChangePlan E f ''delete'' ''schema'' subject [(''version'', JStr version),
       (''permanent'', JBool permanent)]
     else seqE (runMandatoryBrokerPreflight E f
            (readSpec ''mq.schema.delete.preflight'' (resource ''schema'' subject)
              (valueMetadata ''mq.schema.delete.preflight''
                (json_map [(''subject'', JStr subject), (''version'', JStr version), (''permanent'', JBool permanent)])))
            zero_schemaDeletePreflight
            (\<lambda>backend _. stepC zero_schemaDeletePreflight (schemaManager backend) (\<lambda>manager.
               callE (broker_call E backend (DescribeSchema manager
                       \<lparr>sdr_Subject = subject, sdr_Version = firstNonEmpty [version, ''latest'']\<rparr>)) (\<lambda>(desc, describeErr).
               answer \<lparr>sdp_Manager = manager, sdp_Description = desc\<rparr> describeErr)))
            (\<lambda>_. 1)) (\<lambda>preflight.
     closing (pf_Backend preflight) (
     let request = \<lparr>sxr_Subject = subject, sxr_Version = version, sxr_Permanent = permanent\<rparr>
     in seqE (classifyAndAuthorize E f (pf_Context preflight) OperationDeleteSchema (schemaTarget subject)
               allowSchemaDelete) (\<lambda>_.
        seqE (beginMutation E f (mutationSpec ''mq.schema.delete'' (pf_Context preflight) (resource ''schema'' subject)
               (valueMetadata ''mq.schema.delete'' (SchemaDeleteRequest_json request)))) (\<lambda>handle.
        callE (broker_call E (pf_Backend preflight) (DeleteSchema (sdp_Manager (pf_Value preflight)) request))
          (\<lambda>(result, operationErr).
        let revision = firstNonEmpty [sxx_Version result, sd_Version (sdp_Description (pf_Value preflight))]
        in seqE (finishMutation E f handle (empty_outcome\<lparr>oc_Revision := revision\<rparr>) operationErr) (\<lambda>_.
           targetJSONData E f ''SchemaDeleteResult'' (V_SchemaDelete result) (pf_Target preflight)
             operationTargetWrite)))))))"

end
