(* ===== verification/Mirror_Cmd.thy ===== *)
theory Mirror_Cmd
  imports Message_Cmd
begin

text \<open>
  The mirror of cmd/message.go: a bounded batch of messages is read from one context under a mandatory
  read audit, and only when the outcome of the read is durable is it produced into another, under a
  mutation audit of its own. \<open>fleetLocalFlags\<close> of cmd/fleet.go gives the flags for another context.

  The variables \<open>sourceBackend\<close> and \<open>targetBackend\<close>, which the closure of the command sets, are parts of
  its value; the source is closed when the closure ends, the target when the command does.
\<close>

section \<open>Targets\<close>

definition fleetLocalFlags :: "cliFlags \<Rightarrow> string \<Rightarrow> cliFlags" where
  "fleetLocalFlags f name = (newDefaultFlags 0)\<lparr>fl_Config := fl_Config f, fl_Context := name,
     fl_Timeout := fl_Timeout f, fl_Output := fl_Output f, fl_PlainHead := fl_PlainHead f,
     fl_AuditMaxSize := fl_AuditMaxSize f, fl_Yes := fl_Yes f, fl_Ticket := fl_Ticket f,
     fl_Operator := fl_Operator f, fl_Reason := fl_Reason f, fl_NonInter := fl_NonInter f,
     fl_AllowOffsetReset := fl_AllowOffsetReset f, fl_AllowTopicPurge := fl_AllowTopicPurge f,
     fl_AllowTopicDelete := fl_AllowTopicDelete f, fl_AllowDestructiveACL := fl_AllowDestructiveACL f,
     fl_AllowInternalProd := fl_AllowInternalProd f, fl_AllowSchemaDelete := fl_AllowSchemaDelete f,
     fl_AllowContextChange := fl_AllowContextChange f, fl_AllowContextDelete := fl_AllowContextDelete f,
     fl_AllowRoleChange := fl_AllowRoleChange f, fl_AllowAuditPrune := fl_AllowAuditPrune f,
     fl_trustedOperator := fl_trustedOperator f\<rparr>"

definition resolveMirrorTarget :: "surroundings \<Rightarrow> cliFlags \<Rightarrow> string \<Rightarrow> go_error + (Context \<times> cliFlags)" where
  "resolveMirrorTarget su f name = (case Load (su_store su) of
     Inl e \<Rightarrow> Inl e
   | Inr cfg \<Rightarrow> (case map_of (cf_Contexts cfg) name of
       None \<Rightarrow> Inl (usage_error ''target context not found'')
     | Some item \<Rightarrow> Inr (item, fleetLocalFlags f name)))"

definition hasMirrorTargetPattern :: "string \<Rightarrow> bool" where
  "hasMirrorTargetPattern topic = contains_any topic ''*?[''"

definition validateMirrorWindow :: "string \<Rightarrow> string \<Rightarrow> int \<Rightarrow> go_error option" where
  "validateMirrorWindow toContext toTopic limit =
    (if toContext = '''' then Some (usage_error ''--to-context is required'')
     else if trim_space toTopic = '''' then Some (usage_error ''--to-topic is required'')
     else if limit \<le> 0 then Some (usage_error ''--limit must be positive'')
     else if MaxMirrorBatchSize < limit
     then Some (usage_error (''mirror limit must not exceed '' @ show_int MaxMirrorBatchSize))
     else if hasMirrorTargetPattern toTopic
     then Some (usage_error ''mirror target topic must not contain wildcards'')
     else None)"

definition authorizeMirrorSource ::
  "('l, 'b) cmd_env \<Rightarrow> cliFlags \<Rightarrow> Context \<Rightarrow> class_target \<Rightarrow> ('l, 'b, unit) cmd" where
  "authorizeMirrorSource E f meta target =
    (let risk = r_risk (Classify OperationPeek target) in
     authorizeResolvedRisk E f (if cx_Protected meta \<and> risk < R3 then risk_succ risk else risk) meta '''')"

definition mirrorTargetAllow :: "class_target \<Rightarrow> bool \<Rightarrow> string" where
  "mirrorTargetAllow target dryRun = (if t_internal_topic target \<and> \<not> dryRun then allowInternalProduce else '''')"

definition resolveAuthorizedMirrorTargets ::
  "('l, 'b) cmd_env \<Rightarrow> cliFlags \<Rightarrow> 'b connection \<Rightarrow> Context \<Rightarrow> string \<Rightarrow> 'b connection \<Rightarrow> Context \<Rightarrow> cliFlags \<Rightarrow>
   string \<Rightarrow> bool \<Rightarrow> ('l, 'b, resolvedTopicTarget \<times> resolvedTopicTarget) cmd" where
  "resolveAuthorizedMirrorTargets E f source sourceMeta sourceTopic target targetMeta targetFlags targetTopic dryRun =
     seqE (getS (\<lambda>w. declaredTopicTarget sourceMeta (de_Backend (describe source w)) sourceTopic False)) (\<lambda>sourcePre.
     seqE (authorizeMirrorSource E f sourceMeta sourcePre) (\<lambda>_.
     seqE (getS (\<lambda>w. declaredTopicTarget targetMeta (de_Backend (describe target w)) targetTopic dryRun)) (\<lambda>targetPre.
     seqE (classifyAndAuthorize E targetFlags targetMeta OperationMirror targetPre
            (mirrorTargetAllow targetPre dryRun)) (\<lambda>_.
     seqE (resolveTopicTarget E source f sourceMeta sourceTopic False) (\<lambda>sourceResolved.
     seqE (resolveTopicTarget E target targetFlags targetMeta targetTopic dryRun) (\<lambda>targetResolved.
     seqE (if sameTopicClassification sourcePre (rt_Classification sourceResolved) then ret ()
           else authorizeMirrorSource E f sourceMeta (rt_Classification sourceResolved)) (\<lambda>_.
     seqE (if sameTopicClassification targetPre (rt_Classification targetResolved) then ret ()
           else classifyAndAuthorize E targetFlags targetMeta OperationMirror (rt_Classification targetResolved)
             (mirrorTargetAllow (rt_Classification targetResolved) dryRun)) (\<lambda>_.
     ret (sourceResolved, targetResolved)))))))))"

section \<open>Reading the source\<close>

record mirrorReadPhase =
  mp_Request :: MessageMirrorRequest
  mp_Result :: MessageMirrorResult
  mp_Messages :: "Message list"
  mp_TargetMeta :: Context
  mp_OperationTarget :: operationTarget

definition zero_MessageMirrorRequest :: MessageMirrorRequest where
  "zero_MessageMirrorRequest = \<lparr>mmr_Source = zero_TopicCoordinate, mmr_Target = zero_TopicCoordinate,
     mmr_From = '''', mmr_Partition = 0, mmr_Limit = 0, mmr_DryRun = False\<rparr>"

definition zero_mirrorReadPhase :: mirrorReadPhase where
  "zero_mirrorReadPhase = \<lparr>mp_Request = zero_MessageMirrorRequest, mp_Result = zero_MessageMirrorResult,
     mp_Messages = [], mp_TargetMeta = no_context, mp_OperationTarget = zero_target\<rparr>"

definition validateMirrorReadResult :: "MessageMirrorRequest \<Rightarrow> MessageMirrorResult \<Rightarrow> int \<Rightarrow> go_error option" where
  "validateMirrorReadResult request result buffered =
    (if mmx_Source result \<noteq> mmr_Source request \<or> mmx_Target result \<noteq> mmr_Target request \<or>
        mmx_DryRun result \<noteq> mmr_DryRun request \<or> mmx_Count result \<noteq> buffered
     then Some (invalid ''mirror source returned an inconsistent bounded-read result'') else None)"

definition readMirrorSource ::
  "('l, 'b) cmd_env \<Rightarrow> cliFlags \<Rightarrow> 'b connection \<Rightarrow> Context \<Rightarrow> string \<Rightarrow> 'b connection \<Rightarrow> Context \<Rightarrow> cliFlags \<Rightarrow>
   string \<Rightarrow> string \<Rightarrow> int \<Rightarrow> int \<Rightarrow> bool \<Rightarrow> (('l, 'b) world, mirrorReadPhase) call" where
  "readMirrorSource E f source sourceMeta sourceTopic target targetMeta targetFlags targetTopic from part limit dryRun =
    (case SupportsMirrorSource (cn_broker source) of
       None \<Rightarrow> answer zero_mirrorReadPhase
         (Some (not_implemented ''source backend does not support non-destructive message mirror''))
     | Some mirror \<Rightarrow>
         stepC zero_mirrorReadPhase (resolveAuthorizedMirrorTargets E f source sourceMeta sourceTopic
           target targetMeta targetFlags targetTopic dryRun) (\<lambda>(sourceResolved, targetResolved).
         let request = \<lparr>mmr_Source = rt_Coordinate sourceResolved, mmr_Target = rt_Coordinate targetResolved,
               mmr_From = from, mmr_Partition = part, mmr_Limit = limit, mmr_DryRun = dryRun\<rparr>
         in callE (broker_call_with E source (newMirrorReadBuffer limit maxMirrorBufferedBytes)
                    (mirror request mirrorReadBuffer_Add)) (\<lambda>((result0, operationErr), buffer) w.
            let result = result0\<lparr>mmx_Fingerprint := mirrorAccumulator_Fingerprints (mb_accumulator buffer)\<rparr>;
                phase = \<lparr>mp_Request = request, mp_Result = result, mp_Messages = mb_messages buffer,
                  mp_TargetMeta = targetMeta, mp_OperationTarget = operationTargetFromBroker E targetFlags target w\<rparr>
            in ((phase, case operationErr of Some e \<Rightarrow> Some e
                  | None \<Rightarrow> validateMirrorReadResult request result (int (length (mb_messages buffer)))), w))))"

section \<open>Producing into the target\<close>

definition mirrorProduceFailureIsUncertain :: "('l, 'b) cmd_env \<Rightarrow> go_error \<Rightarrow> bool" where
  "mirrorProduceFailureIsUncertain E e =
    (if ce_errorsIs E e ContextCanceled \<or> ce_errorsIs E e ContextDeadlineExceeded then True
     else codeOf E e \<notin> {CodeUsageError, CodeAuthFailed, CodeResourceNotFound, CodeResourceAlreadyExists,
       CodeValidationFailed, CodeConflict, CodeNotImplemented})"

definition mirrorProduceFailure :: "BatchOutcome \<Rightarrow> go_error \<Rightarrow> go_error" where
  "mirrorProduceFailure oc cause =
    (if bo_Succeeded oc = 0 \<and> bo_Uncertain oc = 0 then cause
     else AppError CodePartialFailure (''message mirror did not complete atomically (succeeded='' @
       show_int (bo_Succeeded oc) @ '' failed='' @ show_int (bo_Failed oc) @ '' uncertain='' @
       show_int (bo_Uncertain oc) @ '')'') (Some cause))"

fun produceMirroredMessages ::
  "('l, 'b) cmd_env \<Rightarrow> 'b connection \<Rightarrow> TopicCoordinate \<Rightarrow> Message list \<Rightarrow> BatchOutcome \<Rightarrow>
   (('l, 'b) world, BatchOutcome) call" where
  "produceMirroredMessages E target coordinate [] oc = answer oc None"
| "produceMirroredMessages E target coordinate (m # ms) oc =
     callE (broker_call E target (Produce (cn_broker target) \<lparr>mpr_Coordinate = coordinate, mpr_Key = m_Key m,
             mpr_Body = m_Body m, mpr_Headers = m_Headers m\<rparr>)) (\<lambda>(_, err).
     case err of
       Some e \<Rightarrow>
         let oc' = (if mirrorProduceFailureIsUncertain E e then oc\<lparr>bo_Uncertain := bo_Uncertain oc + 1\<rparr>
                    else oc\<lparr>bo_Failed := bo_Failed oc + 1\<rparr>)
         in answer oc' (Some (mirrorProduceFailure oc' e))
     | None \<Rightarrow> produceMirroredMessages E target coordinate ms (oc\<lparr>bo_Succeeded := bo_Succeeded oc + 1\<rparr>))"

section \<open>The command\<close>

definition mirrorSourceReadAuditSpec ::
  "string \<Rightarrow> Context \<Rightarrow> string \<Rightarrow> string \<Rightarrow> string \<Rightarrow> string \<Rightarrow> int \<Rightarrow> int \<Rightarrow> bool \<Rightarrow> readAuditSpec" where
  "mirrorSourceReadAuditSpec name meta sourceTopic targetContext targetTopic from part limit dryRun =
     \<lparr>rs_Action = ''mq.message.mirror.source'', rs_ContextName = name, rs_Context = meta,
      rs_Target = resource ''message'' sourceTopic,
      rs_Metadata = valueMetadata ''mq.message.mirror.source'' (JObj [(''SourceContext'', JStr name),
        (''SourceTopic'', JStr sourceTopic), (''TargetContext'', JStr targetContext),
        (''TargetTopic'', JStr targetTopic), (''From'', JStr from), (''Partition'', JNum part),
        (''Limit'', JNum limit), (''DryRun'', JBool dryRun)]),
      rs_AuditPath = ''''\<rparr>"

definition mirrorTargetMutationAuditSpec ::
  "string \<Rightarrow> Context \<Rightarrow> MessageMirrorRequest \<Rightarrow> int \<Rightarrow> mutationAuditSpec" where
  "mirrorTargetMutationAuditSpec name meta request limit =
     (mutationSpec ''mq.message.mirror'' meta (resource ''message'' (tc_Topic (mmr_Target request)))
       ((valueMetadata ''mq.message.mirror.target'' (MessageMirrorRequest_json request))\<lparr>md_Items := limit\<rparr>))
     \<lparr>sp_ContextName := name\<rparr>"

definition mirrorAuditDiff :: "MessageMirrorResult \<Rightarrow> string" where
  "mirrorAuditDiff r = ''mirror source='' @ tc_Topic (mmx_Source r) @ '' target='' @ tc_Topic (mmx_Target r) @
     '' count='' @ show_int (mmx_Count r) @ '' body-sha256='' @ rf_BodySHA256 (mmx_Fingerprint r) @
     '' dryRun='' @ show_bool (mmx_DryRun r)"

definition mirrorAuditBinding_json :: "MessageMirrorRequest \<Rightarrow> MessageMirrorResult \<Rightarrow> json" where
  "mirrorAuditBinding_json request r = JObj [(''Request'', MessageMirrorRequest_json request),
     (''Count'', JNum (mmx_Count r)), (''Impact'', JArr (map PartitionImpact_json (mmx_Impact r))),
     (''Fingerprint'', ResourceFingerprints_json (mmx_Fingerprint r))]"

definition appendMirrorTargetPreviewAudit ::
  "('l, 'b) cmd_env \<Rightarrow> cliFlags \<Rightarrow> Context \<Rightarrow> string \<Rightarrow> MessageMirrorRequest \<Rightarrow> MessageMirrorResult \<Rightarrow>
   audit_status \<Rightarrow> go_error option \<Rightarrow> ('l, 'b, unit) cmd" where
  "appendMirrorTargetPreviewAudit E f meta name request result status operationErr =
     audit (appendAuditWarnForContext (ce_audit E) f ''mq.message'' meta name
       (resource ''message'' (tc_Topic (mmr_Target request))) status (mirrorAuditDiff result)
       ((valueMetadata ''mq.message.mirror.target-preview'' (mirrorAuditBinding_json request result))
         \<lparr>md_Items := mmx_Count result\<rparr>) operationErr)"

text \<open>The closure that reads: the phase and the target's connection.\<close>

definition mirrorReadStep ::
  "('l, 'b) cmd_env \<Rightarrow> cliFlags \<Rightarrow> Context \<Rightarrow> string \<Rightarrow> string \<Rightarrow> string \<Rightarrow> string \<Rightarrow> string \<Rightarrow> int \<Rightarrow> int \<Rightarrow> bool \<Rightarrow>
   (('l, 'b) world, mirrorReadPhase \<times> 'b connection option) call" where
  "mirrorReadStep E f sourceMeta sourceName sourceTopic toContext toTopic from part limit dryRun =
    (let zero = (zero_mirrorReadPhase, None) in
     stepC zero (authorizeMirrorSource E f sourceMeta
       (declaredTopicTarget sourceMeta (expectedBackend f sourceMeta) sourceTopic False)) (\<lambda>_.
     stepC zero (liftE (resolveMirrorTarget (ce_su E) f toContext)) (\<lambda>(targetMeta, targetFlags).
     let targetPre = declaredTopicTarget targetMeta (expectedBackend targetFlags targetMeta) toTopic dryRun in
     stepC zero (classifyAndAuthorize E targetFlags targetMeta OperationMirror targetPre
       (mirrorTargetAllow targetPre dryRun)) (\<lambda>_.
     stepC zero (buildBrokerForResolvedContext E f sourceMeta sourceName) (\<lambda>source.
     closing source (
     stepC zero (buildBrokerForResolvedContext E targetFlags targetMeta toContext) (\<lambda>target.
     callE (readMirrorSource E f source sourceMeta sourceTopic target targetMeta targetFlags toTopic from part
             limit dryRun) (\<lambda>(phase, err).
     answer (phase, Some target) err))))))))"

definition mirrorWrite ::
  "('l, 'b) cmd_env \<Rightarrow> cliFlags \<Rightarrow> string \<Rightarrow> mirrorReadPhase \<Rightarrow> 'b connection \<Rightarrow> ('l, 'b, unit) cmd" where
  "mirrorWrite E f toContext phase target =
    (let n = int (length (mp_Messages phase)) in
     seqE (beginMutation E f (mirrorTargetMutationAuditSpec toContext (mp_TargetMeta phase) (mp_Request phase) n))
       (\<lambda>handle.
     callE (produceMirroredMessages E target (mmr_Target (mp_Request phase)) (mp_Messages phase) no_outcome)
       (\<lambda>(oc, operationErr).
     seqE (finishBatch E f handle n oc operationErr) (\<lambda>_.
     targetJSONData E f ''MessageMirrorResult'' (V_Mirror ((mp_Result phase)\<lparr>mmx_Outcome := oc\<rparr>))
       (mp_OperationTarget phase) operationTargetWrite))))"

definition newMessageMirrorCmd ::
  "('l, 'b) cmd_env \<Rightarrow> cliFlags \<Rightarrow> string \<Rightarrow> string \<Rightarrow> int \<Rightarrow> string \<Rightarrow> int \<Rightarrow> string \<Rightarrow> ('l, 'b, unit) cmd" where
  "newMessageMirrorCmd E f toContext toTopic limit from part sourceTopic = withTopic sourceTopic (
     seqE (check (validateMirrorWindow toContext toTopic limit)) (\<lambda>_.
     let dryRun = contextPlanOnly f in
     seqE (liftE (resolvedContext (ce_su E) f)) (\<lambda>(sourceMeta, sourceName).
     callE (accessed E f (mirrorSourceReadAuditSpec sourceName sourceMeta sourceTopic toContext toTopic from part
             limit dryRun) (zero_mirrorReadPhase, None)
             (mirrorReadStep E f sourceMeta sourceName sourceTopic toContext toTopic from part limit dryRun)
             (\<lambda>(phase, _). int (length (mp_Messages phase)))) (\<lambda>((phase, opened), err).
     case opened of
       None \<Rightarrow> throw (case err of Some e \<Rightarrow> e | None \<Rightarrow> nil_error)
     | Some target \<Rightarrow> closing target (
         case err of
           Some e \<Rightarrow> throw e
         | None \<Rightarrow>
             if dryRun
             then seqE (appendMirrorTargetPreviewAudit E f (mp_TargetMeta phase) toContext (mp_Request phase)
                         (mp_Result phase) StatusSuccess None) (\<lambda>_.
               targetJSONData E f ''MessageMirrorResult'' (V_Mirror (mp_Result phase)) (mp_OperationTarget phase)
                 operationTargetWrite)
             else mirrorWrite E f toContext phase target)))))"

end
