(* ===== verification/Command_Frame.thy ===== *)
theory Command_Frame
  imports Dlq_Cmd Acl_Cmd Schema_Cmd Mirror_Cmd
begin

text \<open>
  Frame reasoning about commands: the interface \<open>command_frame\<close> asks of a relation between worlds what
  the basic steps of a command must keep, and yields that every command keeps the relation. It is
  interpreted in theory Command_Laws on relations about connections, brokers and the audit log.
\<close>

section \<open>Commands\<close>

datatype command =
    Topic_List string | Topic_Describe string | Topic_Create int string | Topic_Alter int string
  | Topic_Delete string | Topic_Purge bool string
  | Group_List string | Group_Create string | Group_Delete string | Group_Lag string string
  | Group_Reset string string string
  | Message_Peek int int int string | Message_Tail int string bool int int string
  | Message_Produce string string string | Message_Mirror string string int string int string
  | DLQ_List string string string | DLQ_Peek string string int int int string
  | DLQ_Redrive string string string int string | DLQ_Purge string string string
  | ACL_List aclFlags | ACL_Grant aclFlags | ACL_Revoke aclFlags
  | Schema_List string int | Schema_Describe string string
  | Schema_Check string string string string string
  | Schema_Register string string string string | Schema_Delete string bool string

fun run :: "('l, 'b) cmd_env \<Rightarrow> cliFlags \<Rightarrow> command \<Rightarrow> ('l, 'b, unit) cmd" where
  "run E f (Topic_List pattern) = newTopicListCmd E f pattern"
| "run E f (Topic_Describe topic) = newTopicDescribeCmd E f topic"
| "run E f (Topic_Create partitions topic) = newTopicCreateCmd E f partitions topic"
| "run E f (Topic_Alter partitions topic) = newTopicAlterCmd E f partitions topic"
| "run E f (Topic_Delete topic) = newTopicDeleteCmd E f topic"
| "run E f (Topic_Purge dlq topic) = newTopicPurgeCmd E f dlq topic"
| "run E f (Group_List pattern) = newGroupListCmd E f pattern"
| "run E f (Group_Create grp) = newGroupCreateCmd E f grp"
| "run E f (Group_Delete grp) = newGroupDeleteCmd E f grp"
| "run E f (Group_Lag grp topic) = newGroupLagCmd E f grp topic"
| "run E f (Group_Reset to grp topic) = newGroupResetOffsetCmd E f to grp topic"
| "run E f (Message_Peek part offset cnt topic) = newMessagePeekCmd E f part offset cnt topic"
| "run E f (Message_Tail part from follow n timeout topic) = newMessageTailCmd E f part from follow n timeout topic"
| "run E f (Message_Produce key body topic) = newMessageProduceCmd E f key body topic"
| "run E f (Message_Mirror toContext toTopic limit from part topic) =
     newMessageMirrorCmd E f toContext toTopic limit from part topic"
| "run E f (DLQ_List topic grp pattern) = newDLQListCmd E f topic grp pattern"
| "run E f (DLQ_Peek topic grp part offset cnt dlq) = newDLQPeekCmd E f topic grp part offset cnt dlq"
| "run E f (DLQ_Redrive topic grp target cnt dlq) = newDLQRedriveCmd E f topic grp target cnt dlq"
| "run E f (DLQ_Purge topic grp dlq) = newDLQPurgeCmd E f topic grp dlq"
| "run E f (ACL_List x) = newACLListCmd E f x"
| "run E f (ACL_Grant x) = newACLGrantCmd E f x"
| "run E f (ACL_Revoke x) = newACLRevokeCmd E f x"
| "run E f (Schema_List pattern limit) = newSchemaListCmd E f pattern limit"
| "run E f (Schema_Describe version subject) = newSchemaDescribeCmd E f version subject"
| "run E f (Schema_Check version typ text file subject) = newSchemaCheckCmd E f version typ text file subject"
| "run E f (Schema_Register typ text file subject) = newSchemaRegisterCmd E f typ text file subject"
| "run E f (Schema_Delete version permanent subject) = newSchemaDeleteCmd E f version permanent subject"

text \<open>
  The commands that may change a broker, each with the operation it is authorized as, the allow flag it
  must have on the class of target, and the action of its audit record.
\<close>

fun mutation_of :: "command \<Rightarrow> (operation \<times> (class_target \<Rightarrow> string) \<times> string) option" where
  "mutation_of (Topic_Create _ _) = Some (OperationCreateTopic,
     \<lambda>t. if t_create_may_alter t then allowTopicUpsert else '''', ''mq.topic.create'')"
| "mutation_of (Topic_Alter _ _) = Some (OperationAlterTopic, \<lambda>_. '''', ''mq.topic.alter'')"
| "mutation_of (Topic_Delete _) = Some (OperationDeleteTopic, \<lambda>_. allowTopicDelete, ''mq.topic.delete'')"
| "mutation_of (Topic_Purge dlq _) = Some (if dlq then OperationPurgeDLQ else OperationPurgeTopic,
     \<lambda>_. allowTopicPurge, ''mq.topic.purge'')"
| "mutation_of (Group_Create _) = Some (OperationCreateGroup, \<lambda>_. '''', ''mq.group.create'')"
| "mutation_of (Group_Delete _) = Some (OperationDeleteGroup, \<lambda>_. '''', ''mq.group.delete'')"
| "mutation_of (Group_Reset _ _ _) = Some (OperationResetOffset, \<lambda>_. allowOffsetReset, ''mq.offset.reset'')"
| "mutation_of (Message_Produce _ _ _) = Some (OperationProduce,
     \<lambda>t. if t_internal_topic t then allowInternalProduce else '''', ''mq.message.produce'')"
| "mutation_of (Message_Mirror _ _ _ _ _ _) = Some (OperationMirror,
     \<lambda>t. if t_internal_topic t then allowInternalProduce else '''', ''mq.message.mirror'')"
| "mutation_of (DLQ_Redrive _ _ _ _ _) = Some (OperationRedriveDLQ, \<lambda>_. allowInternalProduce, ''mq.dlq.redrive'')"
| "mutation_of (DLQ_Purge _ _ _) = Some (OperationPurgeDLQ, \<lambda>_. allowTopicPurge, ''mq.dlq.purge'')"
| "mutation_of (ACL_Grant _) = Some (OperationGrantACL,
     \<lambda>t. if r_risk (Classify OperationGrantACL t) = R3 then allowDestructiveACL else '''', ''mq.acl.grant'')"
| "mutation_of (ACL_Revoke _) = Some (OperationRevokeACL, \<lambda>_. allowDestructiveACL, ''mq.acl.revoke'')"
| "mutation_of (Schema_Register _ _ _ _) = Some (OperationRegisterSchema, \<lambda>_. '''', ''mq.schema.register'')"
| "mutation_of (Schema_Delete _ _ _) = Some (OperationDeleteSchema, \<lambda>_. allowSchemaDelete, ''mq.schema.delete'')"
| "mutation_of _ = None"

text \<open>The flags and the context a command is authorized with: those of the target for a mirror.\<close>

fun flags_of :: "cliFlags \<Rightarrow> command \<Rightarrow> cliFlags" where
  "flags_of f (Message_Mirror toContext _ _ _ _ _) = fleetLocalFlags f toContext"
| "flags_of f _ = f"

fun context_of :: "surroundings \<Rightarrow> cliFlags \<Rightarrow> command \<Rightarrow> go_error + Context" where
  "context_of su f (Message_Mirror toContext _ _ _ _ _) =
     (case resolveMirrorTarget su f toContext of Inl e \<Rightarrow> Inl e | Inr (meta, _) \<Rightarrow> Inr meta)"
| "context_of su f _ = (case resolvedContext su f of Inl e \<Rightarrow> Inl e | Inr (meta, _) \<Rightarrow> Inr meta)"

text \<open>
  The classes of target that a command may be authorized on: never those of a plan, and named as on the
  command line.
\<close>

definition names :: "string \<Rightarrow> bool \<Rightarrow> class_target \<Rightarrow> bool" where
  "names topic plan tgt = (t_topic tgt = topic \<and> t_plan tgt = plan)"

fun aims :: "command \<Rightarrow> class_target \<Rightarrow> bool" where
  "aims (Topic_Create _ topic) tgt = names topic False tgt"
| "aims (Topic_Alter _ topic) tgt = names topic False tgt"
| "aims (Topic_Delete topic) tgt = names topic False tgt"
| "aims (Topic_Purge _ topic) tgt = names topic False tgt"
| "aims (Group_Create grp) tgt = (t_group tgt = grp \<and> \<not> t_plan tgt)"
| "aims (Group_Delete grp) tgt = (t_group tgt = grp \<and> \<not> t_plan tgt)"
| "aims (Group_Reset _ grp topic) tgt = (names topic False tgt \<and> t_group tgt = grp)"
| "aims (Message_Produce _ _ topic) tgt = names topic False tgt"
| "aims (Message_Mirror _ toTopic _ _ _ _) tgt = names toTopic False tgt"
| "aims (DLQ_Redrive _ grp target _ _) tgt = (names target False tgt \<and> t_group tgt = grp)"
| "aims (DLQ_Purge _ grp _) tgt = (t_group tgt = grp \<and> \<not> t_plan tgt)"
| "aims (ACL_Grant x) tgt = (t_acl tgt = aclClassTarget x \<and> \<not> t_plan tgt)"
| "aims (ACL_Revoke x) tgt = (t_acl tgt = aclClassTarget x \<and> \<not> t_plan tgt)"
| "aims (Schema_Register _ _ _ subject) tgt = names subject False tgt"
| "aims (Schema_Delete _ _ subject) tgt = names subject False tgt"
| "aims _ tgt = False"


section \<open>The effects of a broker's operations that only read\<close>

inductive reads :: "'b broker \<Rightarrow> ('b \<Rightarrow> 'b) \<Rightarrow> bool" for B where
  "reads B (\<lambda>b. snd (ListTopics B o1 b))"
| "reads B (\<lambda>b. snd (DescribeTopic B c b))"
| "reads B (\<lambda>b. snd (ListGroups B o2 b))"
| "reads B (\<lambda>b. snd (Peek B o3 b))"
| "SupportsOffsets B = Some om \<Longrightarrow> reads B (\<lambda>b. snd (PlanOffsetReset om o4 b))"
| "SupportsOffsets B = Some om \<Longrightarrow> reads B (\<lambda>b. snd (Lag om g c b))"
| "SupportsPartitions B = Some pm \<Longrightarrow> tpr_DryRun o5 \<Longrightarrow> reads B (\<lambda>b. snd (PurgeTopic pm o5 b))"
| "SupportsACL B = Some am \<Longrightarrow> reads B (\<lambda>b. snd (ListACLs am o6 b))"
| "SupportsTail B = Some tr \<Longrightarrow> reads B (\<lambda>b. fst (snd (tr o7 emit (b, s))))"
| "SupportsMirrorSource B = Some ms \<Longrightarrow> reads B (\<lambda>b. fst (snd (ms o8 emit' (b, s'))))"
| "SupportsDLQ B = Some dm \<Longrightarrow> reads B (\<lambda>b. snd (ListDLQs dm o9 b))"
| "SupportsDLQ B = Some dm \<Longrightarrow> reads B (\<lambda>b. snd (PeekDLQ dm o10 b))"
| "SupportsDLQ B = Some dm \<Longrightarrow> drr_DryRun o11 \<Longrightarrow> reads B (\<lambda>b. snd (RedriveDLQ dm o11 b))"
| "SupportsDLQ B = Some dm \<Longrightarrow> dur_DryRun o12 \<Longrightarrow> reads B (\<lambda>b. snd (PurgeDLQ dm o12 b))"
| "SupportsSchema B = Some sm \<Longrightarrow> reads B (\<lambda>b. snd (ListSchemas sm o13 b))"
| "SupportsSchema B = Some sm \<Longrightarrow> reads B (\<lambda>b. snd (DescribeSchema sm o14 b))"
| "SupportsSchema B = Some sm \<Longrightarrow> reads B (\<lambda>b. snd (CheckCompatibility sm o15 b))"

text \<open>The constructors of backends.\<close>

inductive constructor :: "('l, 'b) cmd_env \<Rightarrow> ('b, 'b broker) op \<Rightarrow> bool" for E where
  "constructor E (ce_new_fake E c n)"
| "constructor E (ce_new_kafka E ko)"
| "constructor E (ce_new_rabbitmq E ro)"
| "constructor E (ce_new_pulsar E po)"
| "constructor E (ce_new_rocketmq E qo)"

text \<open>Some authorization is granted.\<close>

definition permits :: "('l, 'b) cmd_env \<Rightarrow> bool" where
  "permits E = (\<exists>n r x. ce_authorize E n r x = None)"

definition yields :: "('w, 'a) op \<Rightarrow> ('a \<Rightarrow> bool) \<Rightarrow> bool" where
  "yields m P = (\<forall>w x w'. m w = (Inr x, w') \<longrightarrow> P x)"

lemma yieldsD: "yields m P \<Longrightarrow> m w = (Inr x, w') \<Longrightarrow> P x"
  by (auto simp: yields_def)

lemma yields_seqE: "(\<And>x. yields (f x) P) \<Longrightarrow> yields (seqE m f) P"
  by (auto simp: yields_def elim!: seqE_Inr)

lemma yields_seqE_post: "yields m S \<Longrightarrow> (\<And>x. S x \<Longrightarrow> yields (f x) P) \<Longrightarrow> yields (seqE m f) P"
proof -
  assume m: "yields m S" and f: "\<And>x. S x \<Longrightarrow> yields (f x) P"
  show "yields (seqE m f) P"
    unfolding yields_def
  proof (intro allI impI, elim seqE_Inr)
    fix w x w' y v assume "m w = (Inr y, v)" and "f y v = (Inr x, w')"
    then show "P x" using yieldsD [OF f, of y v x w'] yieldsD [OF m, of w y v] by blast
  qed
qed

section \<open>The interface\<close>

lemma completeDiagnostics_form:
  "completeDiagnostics h durable w =
    (let c = completeBuffer durable (diagnosticBuffer h w)
     in w\<lparr>wo_diag := (if wo_diag w = Some (rh_diagnostics h) then rh_previous h else wo_diag w),
          wo_buffers := (wo_buffers w)[rh_diagnostics h := fst c], wo_stderr := wo_stderr w @ snd c\<rparr>)"
  by (simp add: completeDiagnostics_def Let_def split: prod.split)

locale command_frame = op_relation Q for Q :: "('l, 'b) world \<Rightarrow> ('l, 'b) world \<Rightarrow> bool" +
  fixes Q1 :: "('l, 'b) world \<Rightarrow> ('l, 'b) world \<Rightarrow> bool"
    and E :: "('l, 'b) cmd_env"
    and ok :: "'b broker \<Rightarrow> bool"
    and A L :: "('l, 'b) world \<Rightarrow> ('l, 'b) world \<Rightarrow> bool"
    and req :: "cliFlags \<Rightarrow> Context \<Rightarrow> operation \<Rightarrow> class_target \<Rightarrow> string \<Rightarrow> bool"
    and act :: "string \<Rightarrow> bool"
  assumes Q_Q1: "Q u v \<Longrightarrow> Q1 v w \<Longrightarrow> Q1 u w"
    and Q1_Q: "Q1 u v \<Longrightarrow> Q v w \<Longrightarrow> Q1 u w"
    and begins: "Q w (w\<lparr>wo_aud := snd (beginMutationAudit (ce_audit E) f spec (wo_aud w))\<rparr>)"
    and finishes: "Q w (w\<lparr>wo_aud := snd (finishMutationAudit (ce_audit E) f h oc err (wo_aud w))\<rparr>)"
    and warns: "Q w (w\<lparr>wo_aud := snd (appendAuditWarnForContext (ce_audit E) f t cx n tg st d md err (wo_aud w))\<rparr>)"
    and asks: "Q w (w\<lparr>wo_asks := Suc (wo_asks w)\<rparr>)"
    and prints: "Q w (w\<lparr>wo_out := wo_out w @ [x]\<rparr>)"
    and buffers: "Q w (w\<lparr>wo_diag := dg, wo_buffers := wo_buffers w @ [newReadDiagnosticBuffer]\<rparr>)"
    and completes: "Q w (completeDiagnostics rh durable w)"
    and calls: "permits E \<Longrightarrow> Q w (notified E tls w)"
    and opens: "permits E \<Longrightarrow> constructor E new \<Longrightarrow> openBroker tls new w = (r, w') \<Longrightarrow>
      case r of Inl _ \<Rightarrow> Q w w' | Inr cn \<Rightarrow> Q1 w w' \<and> ok (cn_broker cn)"
    and closes: "permits E \<Longrightarrow> ok (cn_broker cn) \<Longrightarrow> Q1 u w \<Longrightarrow> Q u (closeBroker cn w)"
    and closes1: "permits E \<Longrightarrow> ok (cn_broker cn) \<Longrightarrow> Q1 u v \<Longrightarrow> Q1 v w \<Longrightarrow> Q1 u (closeBroker cn w)"
    and reading: "permits E \<Longrightarrow> ok B \<Longrightarrow> reads B g \<Longrightarrow> Q w (w\<lparr>wo_broker := g (wo_broker w)\<rparr>)"
    and A_post: "A u v \<Longrightarrow> Q v w \<Longrightarrow> A u w" "A u v \<Longrightarrow> Q1 v w \<Longrightarrow> A u w"
    and A_pre: "Q u v \<Longrightarrow> A v w \<Longrightarrow> A u w"
    and L_post: "L u v \<Longrightarrow> Q v w \<Longrightarrow> L u w"
    and L_write: "L u v \<Longrightarrow> L u (v\<lparr>wo_broker := b\<rparr>)"
    and grants: "req f meta opn tgt al \<Longrightarrow> classifyAndAuthorize E f meta opn tgt al w = (Inr (), v) \<Longrightarrow> A w v"
    and intends: "act (sp_Action spec) \<Longrightarrow> A u v \<Longrightarrow>
      beginMutationAudit (ce_audit E) f spec (wo_aud v) = (Inr h, a) \<Longrightarrow> L u (v\<lparr>wo_aud := a\<rparr>)"
    and writing: "permits E \<Longrightarrow> L u v \<Longrightarrow> Q u v \<Longrightarrow> Q u (v\<lparr>wo_broker := b\<rparr>)"
    and writing1: "permits E \<Longrightarrow> L u v \<Longrightarrow> Q1 u v \<Longrightarrow> Q1 u (v\<lparr>wo_broker := b\<rparr>)"
begin

definition okc :: "'b connection \<Rightarrow> bool" where
  "okc cn = (permits E \<and> ok (cn_broker cn))"

lemma keeps_post: "keeps m \<Longrightarrow> yields m P \<Longrightarrow> (\<And>x. P x \<Longrightarrow> keeps (f x)) \<Longrightarrow> keeps (seqE m f)"
proof -
  assume m: "keeps m" "yields m P" and f: "\<And>x. P x \<Longrightarrow> keeps (f x)"
  show ?thesis
  proof (rule keepsI, erule seqE_cases)
    fix w r w' e assume "m w = (Inl e, w')"
    then show "Q w w'" by (rule keepsD [OF m(1)])
  next
    fix w r w' x v assume x: "m w = (Inr x, v)" "f x v = (r, w')"
    show "Q w w'"
      using R_trans [OF keepsD [OF m(1) x(1)] keepsD [OF f x(2)]] yieldsD [OF m(2) x(1)] by simp
  qed
qed

lemma keeps_postC:
  assumes "keeps m" "yields m P" and "\<And>x. P x \<Longrightarrow> keeps (f x)"
  shows "keeps (stepC z m f)"
proof (rule keepsI)
  fix w r w' assume r: "stepC z m f w = (r, w')"
  obtain y v where m: "m w = (y, v)" by (metis surj_pair)
  show "Q w w'"
  proof (cases y)
    case (Inl e)
    then show ?thesis using r m keepsD [OF assms(1) m] by (simp add: stepC_run)
  next
    case (Inr x)
    then have "f x v = (r, w')" and "P x" using r m yieldsD [OF assms(2)] by (auto simp: stepC_run)
    then show ?thesis using R_trans [OF keepsD [OF assms(1) m] keepsD [OF assms(3)]] by blast
  qed
qed

lemma keeps_audit: "(\<And>w. Q w (w\<lparr>wo_aud := snd (m (wo_aud w))\<rparr>)) \<Longrightarrow> keeps (audit m)"
  by (simp add: keeps_def audit_def zoom_run split_def)

lemma keeps_ask:
  assumes "\<And>n. keeps (k n)"
  shows "keeps (seqE (getS wo_asks) (\<lambda>n. seqE (modS (\<lambda>w. w\<lparr>wo_asks := Suc n\<rparr>)) (\<lambda>_. k n)))"
  using assms unfolding keeps_def by (auto simp: seqE_run intro: R_trans [OF asks])

lemma keeps_authorizeResolved: "keeps (authorizeResolvedRiskForContextWithConfirmation E f r meta a y n)"
  unfolding authorizeResolvedRiskForContextWithConfirmation_def appendAuditWarn_def
  by (intro keeps_rules keeps_ask keeps_audit warns)

lemma yields_authorizeResolved:
  "yields (authorizeResolvedRiskForContextWithConfirmation E f r meta a y n) (\<lambda>_. permits E)"
  unfolding authorizeResolvedRiskForContextWithConfirmation_def
  by (auto simp: yields_def permits_def seqE_run tryE_run split: sum.splits option.splits prod.splits)

lemma keeps_authorize: "keeps (authorize E f r meta a)" "keeps (classifyAndAuthorize E f meta opn t a)"
  "keeps (authorizeResolvedRisk E f r meta a)"
  unfolding classifyAndAuthorize_def authorize_def authorizeWithConfirmation_def
    authorizeForContextWithConfirmation_def authorizeResolvedRisk_def by (rule keeps_authorizeResolved)+

lemma yields_authorize: "yields (authorize E f r meta a) (\<lambda>_. permits E)"
  "yields (classifyAndAuthorize E f meta opn t a) (\<lambda>_. permits E)"
  "yields (authorizeResolvedRisk E f r meta a) (\<lambda>_. permits E)"
  unfolding classifyAndAuthorize_def authorize_def authorizeWithConfirmation_def
    authorizeForContextWithConfirmation_def authorizeResolvedRisk_def by (rule yields_authorizeResolved)+

subsection \<open>Output\<close>

lemma keeps_printed: "keeps (printed E x)"
  by (simp add: keeps_def printed_def prints)

lemma keeps_output:
  "keeps (printOperationTarget E p t md)" "keeps (targetJSONData E f kd v t md)"
  "keeps (targetJSONList E f kd v n k t)" "keeps (targetTable E f hs rows t)"
  "keeps (printBrokerChangePlan E f ac ty rn ds)"
  unfolding printOperationTarget_def targetJSONData_def targetJSONList_def targetTable_def
    printBrokerChangePlan_def Let_def by (intro keeps_rules keeps_printed)+

subsection \<open>The audit of reads\<close>

lemma keeps_beginRead: "keeps (beginReadAudit E f spec)"
  unfolding beginReadAudit_def
  by (intro keeps_rules keeps_audit begins) (simp add: keeps_def buffers)

lemma keeps_complete: "keeps (modS (completeDiagnostics h durable))"
  by (simp add: keeps_def completes)

lemma keeps_check: "keeps (check e)"
  unfolding check_def by (intro keeps_rules)

lemma keeps_finishRead: "keeps (finishReadAudit E f h n err)" "keeps (persistReadAuditOutcome E f h oc err)"
  unfolding finishReadAudit_def persistReadAuditOutcome_def Let_def
  by (intro keeps_rules keeps_audit finishes keeps_complete keeps_check)+

lemma keeps_accessed: "keeps m \<Longrightarrow> keeps (accessed E f spec z m n)"
  unfolding accessed_def by (intro keeps_rules keeps_beginRead keeps_finishRead)

lemma keeps_mandatoryRead: "keeps m \<Longrightarrow> keeps (runMandatoryRead E f spec z m n)"
  unfolding runMandatoryRead_def by (intro keeps_rules keeps_accessed)

lemma keeps_finish: "keeps (finishMutation E f h oc err)" "keeps (finishBatch E f h n bo err)"
  unfolding finishMutation_def finishBatch_def finishBatchMutationAuditWithOutcome_def
  by (intro keeps_rules keeps_audit finishes keeps_check)+

lemma keeps_beginMutation: "keeps (beginMutation E f spec)"
  unfolding beginMutation_def by (intro keeps_audit begins)

subsection \<open>Brokers\<close>

definition builds :: "('l, 'b, 'b connection) cmd \<Rightarrow> bool" where
  "builds m = (\<forall>w. case m w of (Inl _, w') \<Rightarrow> Q w w' | (Inr cn, w') \<Rightarrow> Q1 w w' \<and> okc cn)"

lemma builds_rules:
  "permits E \<Longrightarrow> constructor E new \<Longrightarrow> builds (openBroker tls new :: ('l, 'b, 'b connection) cmd)"
  "(\<And>x. builds (k x)) \<Longrightarrow> builds (seqE (liftE y) k)"
  "(\<And>x. builds (k x)) \<Longrightarrow> builds (seqE (getS g) k)"
  "builds (throw e)"
  "(c \<Longrightarrow> builds m) \<Longrightarrow> (\<not> c \<Longrightarrow> builds m') \<Longrightarrow> builds (if c then m else m')"
proof -
  assume p: "permits E" "constructor E new"
  show "builds (openBroker tls new :: ('l, 'b, 'b connection) cmd)"
    unfolding builds_def
  proof
    fix w :: "('l, 'b) world"
    obtain r w' where o: "openBroker tls new w = (r, w')" by (metis surj_pair)
    show "case openBroker tls new w of (Inl _, w') \<Rightarrow> Q w w' | (Inr cn, w') \<Rightarrow> Q1 w w' \<and> okc cn"
      using opens [OF p o] o p(1) by (cases r) (simp_all add: okc_def)
  qed
qed (auto simp: builds_def seqE_run R_refl split: sum.split)

lemma builds_context: "permits E \<Longrightarrow> builds (buildBrokerForResolvedContext E f item name)"
  unfolding buildBrokerForResolvedContext_def buildKafkaBackend_def buildRabbitMQBackend_def
    buildPulsarBackend_def buildRocketMQBackend_def Let_def
  by (intro builds_rules constructor.intros)

lemma keeps_build:
  assumes "permits E" and "buildBrokerForResolvedContext E f item name w = (r, w')"
  shows "case r of Inl _ \<Rightarrow> Q w w' | Inr cn \<Rightarrow> Q1 w w' \<and> okc cn"
proof -
  have "builds (buildBrokerForResolvedContext E f item name)" by (rule builds_context [OF assms(1)])
  from this [unfolded builds_def, rule_format, of w] show ?thesis
    using assms(2) by (cases r) simp_all
qed

lemma keeps_open_close:
  assumes "permits E" and "\<And>cn. okc cn \<Longrightarrow> keeps (m cn)"
  shows "keeps (stepC z (buildBrokerForResolvedContext E f item name) (\<lambda>cn. closing cn (m cn)))"
proof (rule keepsI)
  fix w r w' assume r: "stepC z (buildBrokerForResolvedContext E f item name) (\<lambda>cn. closing cn (m cn)) w = (r, w')"
  obtain y v where b: "buildBrokerForResolvedContext E f item name w = (y, v)" by (metis surj_pair)
  note kb = keeps_build [OF assms(1) b]
  show "Q w w'"
  proof (cases y)
    case (Inl e)
    then show ?thesis using r b kb by (simp add: stepC_run)
  next
    case (Inr cn)
    obtain q u where m: "m cn v = (q, u)" by (metis surj_pair)
    have "w' = closeBroker cn u" using r b m Inr by (simp add: stepC_run closing_def)
    moreover have "Q1 w u" and "ok (cn_broker cn)"
      using kb Inr Q1_Q [OF _ keepsD [OF assms(2) m]] by (auto simp: okc_def)
    ultimately show ?thesis using closes [OF assms(1)] by blast
  qed
qed

lemma keeps_brokerI: "okc cn \<Longrightarrow> (\<And>w. Q w (w\<lparr>wo_broker := snd (m (wo_broker w))\<rparr>)) \<Longrightarrow> keeps (broker_call E cn m)"
  by (simp add: keeps_def broker_call_def split_def okc_def R_trans [OF _ calls])

lemma keeps_call: "okc cn \<Longrightarrow> reads (cn_broker cn) (\<lambda>b. snd (m b)) \<Longrightarrow> keeps (broker_call E cn m)"
  by (rule keeps_brokerI, assumption, unfold okc_def, elim conjE) (rule reading)

lemma keeps_call_with:
  assumes "okc cn" and "reads (cn_broker cn) (\<lambda>b. fst (snd (m (b, s))))"
  shows "keeps (broker_call_with E cn s m)"
proof -
  have "permits E" and "Q w (w\<lparr>wo_broker := fst (snd (m (wo_broker w, s)))\<rparr>)" for w
    using reading [OF _ _ assms(2)] assms(1) by (simp_all add: okc_def)
  then show ?thesis
    by (simp add: keeps_def broker_call_with_def split_def R_trans [OF _ calls])
qed

lemma keeps_scope: "keeps (canonicalBrokerScope f meta cn)" "keeps (topicCoord f meta cn t)"
  "keeps (groupCoord f meta cn g)"
  unfolding canonicalBrokerScope_def topicCoord_def groupCoord_def Let_def
  by (intro keeps_rules keeps_check)+

lemma keeps_resolve: "okc cn \<Longrightarrow> keeps (resolveTopicTarget E cn f meta t pl)"
  unfolding resolveTopicTarget_def
  by (intro keeps_rules keeps_check keeps_scope keeps_call reads.intros)

end

end
