(* ===== verification/Command_Keeps.thy ===== *)
theory Command_Keeps
  imports Command_Frame
begin

text \<open>
  The interface of theory Command_Frame, continued: the steps that commands share keep the relation, a read under its
  mandatory audit, the preflight of a mutation, and a mutation with its authorization, intent and outcome.
\<close>

context command_frame
begin

lemma keepsC_option: "(z = None \<Longrightarrow> keeps m) \<Longrightarrow> (\<And>x. z = Some x \<Longrightarrow> keeps (f x)) \<Longrightarrow>
    keeps (case z of None \<Rightarrow> m | Some x \<Rightarrow> f x)"
  by (cases z) simp_all

lemma keeps_prod_app: "(\<And>x y. keeps (f x y u)) \<Longrightarrow> keeps ((case z of (x, y) \<Rightarrow> f x y) u)"
  by (cases z) simp

lemmas frame_rules = keeps_basic keeps_seqE keeps_tryE keeps_callE keeps_orZero keeps_asOp keeps_stepC
  keeps_if keepsC_option keeps_sum keeps_prod keeps_prod_app keeps_check keeps_authorize keeps_output keeps_scope keeps_resolve
  keeps_finish keeps_beginMutation keeps_call keeps_printed reads.intros(1-8,11-17)

subsection \<open>Reads\<close>

lemma keeps_brokerRead:
  assumes "\<And>meta. keeps (pre meta)" and "\<And>meta. yields (pre meta) (\<lambda>_. permits E)"
    and "\<And>cn meta. okc cn \<Longrightarrow> keeps (opn cn meta)"
  shows "keeps (runMandatoryBrokerRead E f spec z pre opn n)"
proof -
  have answered: "keeps (\<lambda>w. (g w, w))" for g :: "('l, 'b) world \<Rightarrow> 'r"
    by (simp add: keeps_def R_refl)
  have "keeps (brokerReadStep E f meta name z pre opn)" for meta name
    unfolding brokerReadStep_def
    by (intro keeps_postC [OF assms(1,2)] keeps_open_close keeps_callE keeps_prod assms(3) answered)
  then show ?thesis
    unfolding runMandatoryBrokerRead_def
    by (intro keeps_seqE keeps_prod keeps_mandatoryRead keeps_basic)
qed

lemmas keeps_brokerReads = keeps_brokerRead [OF keeps_authorize(2) yields_authorize(2)]

lemma keeps_schemaManager: "keeps (schemaManager cn)"
  unfolding schemaManager_def by (intro frame_rules)

lemma keeps_managers: "keeps (dlqManager supported msg cn)" "keeps (aclManager cn)" "keeps (dlqTopicOf cn dlq t g)"
  unfolding dlqManager_def aclManager_def dlqTopicOf_def by (intro frame_rules)+

lemma yields_managers:
  "yields (schemaManager cn :: ('l, 'b, 'b SchemaManager) cmd) (\<lambda>m. SupportsSchema (cn_broker cn) = Some m)"
  "yields (dlqManager supported msg cn :: ('l, 'b, 'b DLQManager) cmd) (\<lambda>m. SupportsDLQ (cn_broker cn) = Some m)"
  "yields (aclManager cn :: ('l, 'b, 'b ACLManager) cmd) (\<lambda>m. SupportsACL (cn_broker cn) = Some m)"
  unfolding schemaManager_def dlqManager_def aclManager_def
  by (auto simp: yields_def seqE_run split: if_splits option.splits)

lemmas manager_rules = keeps_postC [OF keeps_schemaManager yields_managers(1)]
  keeps_postC [OF keeps_managers(1) yields_managers(2)] keeps_postC [OF keeps_managers(2) yields_managers(3)]

lemma keeps_reading:
  "keeps (newTopicListCmd E f pattern)" "keeps (newTopicDescribeCmd E f topic)"
  "keeps (newGroupListCmd E f pattern)" "keeps (newGroupLagCmd E f grp topic)"
  "keeps (newMessagePeekCmd E f part offset cnt topic)"
  unfolding newTopicListCmd_def newTopicDescribeCmd_def newGroupListCmd_def newGroupLagCmd_def
    newMessagePeekCmd_def runMandatoryBrokerList_def withTopic_def Let_def
  by (intro frame_rules keeps_brokerReads; assumption)+

lemma keeps_tailing: "SupportsTail (cn_broker cn) = Some tr \<Longrightarrow> okc cn \<Longrightarrow>
    keeps (broker_call_with E cn s (tr mreq emit))"
  by (rule keeps_call_with [OF _ reads.intros(9)])

lemma keeps_inspecting:
  "keeps (newMessageTailCmd E f part from follow n timeout topic)"
  "keeps (newDLQListCmd E f topic grp pattern)" "keeps (newDLQPeekCmd E f topic grp part offset cnt dlq)"
  "keeps (newACLListCmd E f x)" "keeps (newSchemaListCmd E f pattern limit)"
  "keeps (newSchemaDescribeCmd E f version subject)"
  "keeps (newSchemaCheckCmd E f version typ text file subject)"
proof -
  have prints: "keeps (printTailFingerprints E f fps target)" for fps target
  proof (induction fps)
    case Nil
    show ?case unfolding printTailFingerprints.simps by (rule keeps_basic)
  next
    case (Cons fp fps)
    then show ?case unfolding printTailFingerprints.simps printTailFingerprint_def by (intro frame_rules)
  qed
  show "keeps (newMessageTailCmd E f part from follow n timeout topic)"
    unfolding newMessageTailCmd_def messageTailStep_def printTailResult_def withTopic_def Let_def
    by (intro frame_rules prints keeps_brokerReads; (rule keeps_tailing)?; assumption)
  show "keeps (newDLQListCmd E f topic grp pattern)" "keeps (newDLQPeekCmd E f topic grp part offset cnt dlq)"
    "keeps (newACLListCmd E f x)" "keeps (newSchemaListCmd E f pattern limit)"
    "keeps (newSchemaDescribeCmd E f version subject)"
    "keeps (newSchemaCheckCmd E f version typ text file subject)"
    unfolding newDLQListCmd_def newDLQPeekCmd_def newACLListCmd_def newSchemaListCmd_def newSchemaDescribeCmd_def
      newSchemaCheckCmd_def runMandatorySchemaRead_def Let_def
    by (intro manager_rules frame_rules keeps_managers(3) keeps_brokerReads; assumption)+
qed

subsection \<open>Calls that hand a connection on\<close>

text \<open>Every result that carries a connection left it open and satisfies \<open>P\<close>.\<close>

definition carries ::
  "('x \<Rightarrow> 'b connection option) \<Rightarrow> ('x \<Rightarrow> ('l, 'b) world \<Rightarrow> ('l, 'b) world \<Rightarrow> bool) \<Rightarrow> (('l, 'b) world, 'x) call \<Rightarrow> bool"
where
  "carries sel P m = (\<forall>w x e w'. m w = ((x, e), w') \<longrightarrow>
     (case sel x of None \<Rightarrow> Q w w' | Some cn \<Rightarrow> Q1 w w' \<and> okc cn \<and> (e = None \<longrightarrow> P x w w')))"

lemma carriesI: "(\<And>w x e w'. m w = ((x, e), w') \<Longrightarrow>
    (case sel x of None \<Rightarrow> Q w w' | Some cn \<Rightarrow> Q1 w w' \<and> okc cn \<and> (e = None \<longrightarrow> P x w w'))) \<Longrightarrow> carries sel P m"
  by (simp add: carries_def)

lemma carriesD: "carries sel P m \<Longrightarrow> m w = ((x, e), w') \<Longrightarrow>
    (case sel x of None \<Rightarrow> Q w w' | Some cn \<Rightarrow> Q1 w w' \<and> okc cn \<and> (e = None \<longrightarrow> P x w w'))"
  by (auto simp: carries_def)

text \<open>What may come before and after.\<close>

definition framed :: "('x \<Rightarrow> ('l, 'b) world \<Rightarrow> ('l, 'b) world \<Rightarrow> bool) \<Rightarrow> bool" where
  "framed P = (\<forall>x u v w. (P x u v \<longrightarrow> Q v w \<longrightarrow> P x u w) \<and> (Q u v \<longrightarrow> P x v w \<longrightarrow> P x u w))"

lemma carries_step:
  assumes "keeps m" and "yields m S" and "sel z = None" and "\<And>x. S x \<Longrightarrow> carries sel P (f x)" and "framed P"
  shows "carries sel P (stepC z m f)"
proof (rule carriesI)
  fix w x e w' assume r: "stepC z m f w = ((x, e), w')"
  obtain y v where m: "m w = (y, v)" by (metis surj_pair)
  note k = keepsD [OF assms(1) m]
  show "case sel x of None \<Rightarrow> Q w w' | Some cn \<Rightarrow> Q1 w w' \<and> okc cn \<and> (e = None \<longrightarrow> P x w w')"
  proof (cases y)
    case (Inl d)
    then show ?thesis using r m k assms(3) by (auto simp: stepC_run)
  next
    case (Inr a)
    then have "f a v = ((x, e), w')" and "S a" using r m yieldsD [OF assms(2)] by (auto simp: stepC_run)
    note c = carriesD [OF assms(4) [OF this(2)] this(1)]
    show ?thesis
    proof (cases "sel x")
      case None
      then show ?thesis using c R_trans [OF k] by simp
    next
      case (Some cn)
      then have "Q1 v w'" "okc cn" "e = None \<longrightarrow> P x v w'" using c by simp_all
      then show ?thesis using Some Q_Q1 [OF k] assms(5) k unfolding framed_def by auto
    qed
  qed
qed

lemma carries_accessed:
  assumes "carries sel P m" and "sel z = None" and "framed P"
  shows "carries sel P (accessed E f spec z m n)"
  unfolding accessed_def
proof (rule carries_step [where S = "\<lambda>_. True"])
  fix h show "carries sel P (callE m (\<lambda>(result, operationErr).
      callE (finishReadAudit E f h (n result) operationErr) (\<lambda>finished. answer result (errOf finished))))"
  proof (rule carriesI)
    fix w x e w'
    assume r: "callE m (\<lambda>(result, operationErr).
      callE (finishReadAudit E f h (n result) operationErr) (\<lambda>finished. answer result (errOf finished))) w = ((x, e), w')"
    obtain y d v where m: "m w = ((y, d), v)" by (metis surj_pair)
    obtain g u where fin: "finishReadAudit E f h (n y) d v = (g, u)" by (metis surj_pair)
    have eq: "y = x" "u = w'" using r m fin by (simp_all add: callE_run)
    have err: "d = None" if "e = None"
      using r m fin that unfolding finishReadAudit_def check_def
      by (auto simp: callE_run errOf_def split: sum.splits option.splits elim!: seqE_Inr)
    have xw: "case sel x of None \<Rightarrow> Q w v | Some cn \<Rightarrow> Q1 w v \<and> okc cn \<and> (d = None \<longrightarrow> P x w v)" "Q v w'"
      using carriesD [OF assms(1) m] keepsD [OF keeps_finishRead(1) fin] unfolding eq .
    show "case sel x of None \<Rightarrow> Q w w' | Some cn \<Rightarrow> Q1 w w' \<and> okc cn \<and> (e = None \<longrightarrow> P x w w')"
    proof (cases "sel x")
      case None
      then show ?thesis using R_trans [OF _ xw(2)] xw(1) by simp
    next
      case (Some cn)
      then have "Q1 w v" "okc cn" "e = None \<longrightarrow> P x w v" using err xw(1) by simp_all
      then show ?thesis using Some Q1_Q [OF _ xw(2)] xw(2) assms(3) unfolding framed_def by auto
    qed
  qed
qed (use assms keeps_beginRead in \<open>auto simp: yields_def\<close>)

text \<open>A connection handed on is closed by the one that gets it.\<close>

lemma keeps_carried:
  assumes "carries sel P m" and "\<And>x e. sel x = None \<Longrightarrow> keeps (k (x, e))"
    and "\<And>x e cn u v r w. sel x = Some cn \<Longrightarrow> okc cn \<Longrightarrow> (e = None \<Longrightarrow> P x u v) \<Longrightarrow> Q1 u v \<Longrightarrow> k (x, e) v = (r, w) \<Longrightarrow>
      \<exists>w0. Q1 u w0 \<and> w = closeBroker cn w0"
  shows "keeps (callE m k)"
proof (rule keepsI)
  fix w r w' assume r: "callE m k w = (r, w')"
  obtain x e v where m: "m w = ((x, e), v)" by (metis surj_pair)
  then have k: "k (x, e) v = (r, w')" using r by (simp add: callE_run)
  note c = carriesD [OF assms(1) m]
  show "Q w w'"
  proof (cases "sel x")
    case None
    then show ?thesis using c keepsD [OF assms(2) k] R_trans by auto
  next
    case (Some cn)
    then obtain w0 where "Q1 w w0" "w' = closeBroker cn w0"
      using assms(3) [OF Some _ _ _ k] c by auto
    then show ?thesis using closes c Some by (auto simp: okc_def)
  qed
qed

lemma closing_carried: "keeps (m :: ('l, 'b, 'r) cmd) \<Longrightarrow> Q1 u v \<Longrightarrow> closing cn m v = (r, w) \<Longrightarrow>
    \<exists>w0. Q1 u w0 \<and> w = closeBroker cn w0"
  by (auto simp: closing_def split: prod.splits dest: keepsD intro: Q1_Q)

subsection \<open>Preflights\<close>

definition returns :: "(('l, 'b) world, 'v) call \<Rightarrow> ('v \<Rightarrow> bool) \<Rightarrow> bool" where
  "returns m S = (\<forall>w v w'. m w = ((v, None), w') \<longrightarrow> S v)"

abbreviation handed :: "('b, 'v) preflight option \<Rightarrow> 'b connection option" where
  "handed \<equiv> map_option pf_Backend"

lemma carries_preflight:
  assumes "\<And>cn. okc cn \<Longrightarrow> keeps (opn cn meta)" and "\<And>cn. returns (opn cn meta) S"
  shows "carries handed (\<lambda>x _ _. \<forall>p. x = Some p \<longrightarrow> pf_Context p = meta \<and> S (pf_Value p))
    (preflightStep E f meta name opn)"
  unfolding preflightStep_def
proof (rule carries_step [OF keeps_authorize(1) yields_authorize(1)])
  fix u assume p: "permits E"
  let ?c = "\<lambda>backend. callE (opn backend meta) (\<lambda>(v, operationErr) w. ((Some \<lparr>pf_Backend = backend, pf_Context = meta,
      pf_Target = operationTargetFromDescription name (describe backend w), pf_Value = v\<rparr>, operationErr), w))"
  show "carries handed (\<lambda>x _ _. \<forall>p. x = Some p \<longrightarrow> pf_Context p = meta \<and> S (pf_Value p))
    (stepC None (buildBrokerForResolvedContext E f meta name) ?c)"
  proof (rule carriesI)
    fix w x e w' assume r: "stepC None (buildBrokerForResolvedContext E f meta name) ?c w = ((x, e), w')"
    obtain y v where b: "buildBrokerForResolvedContext E f meta name w = (y, v)" by (metis surj_pair)
    note kb = keeps_build [OF p b]
    show "case handed x of None \<Rightarrow> Q w w'
      | Some cn \<Rightarrow> Q1 w w' \<and> okc cn \<and> (e = None \<longrightarrow> (\<forall>p. x = Some p \<longrightarrow> pf_Context p = meta \<and> S (pf_Value p)))"
    proof (cases y)
      case (Inl d)
      then show ?thesis using r b kb by (auto simp: stepC_run)
    next
      case (Inr cn)
      obtain q d u where m: "opn cn meta v = ((q, d), u)" by (metis surj_pair)
      have x: "x = Some \<lparr>pf_Backend = cn, pf_Context = meta,
          pf_Target = operationTargetFromDescription name (describe cn u), pf_Value = q\<rparr>" "e = d" "w' = u"
        using r b m Inr by (auto simp: stepC_run callE_run)
      have "Q1 w u" "okc cn" using kb Inr Q1_Q [OF _ keepsD [OF assms(1) m]] by simp_all
      then show ?thesis using x assms(2) [of cn] m by (auto simp: returns_def)
    qed
  qed
qed (simp_all add: framed_def)

lemma keeps_preflight:
  fixes opn :: "'b connection \<Rightarrow> Context \<Rightarrow> (('l, 'b) world, 'v) call"
  assumes "\<And>cn meta. okc cn \<Longrightarrow> keeps (opn cn meta)" and "\<And>cn meta. returns (opn cn meta) S"
    and body: "\<And>p name. resolvedContext (ce_su E) f = Inr (pf_Context p, name) \<Longrightarrow> okc (pf_Backend p) \<Longrightarrow>
      S (pf_Value p) \<Longrightarrow> keeps (k p)"
  shows "keeps (seqE (runMandatoryBrokerPreflight E f spec z opn n) (\<lambda>p. closing (pf_Backend p) (k p)))"
proof (cases "resolvedContext (ce_su E) f")
  case (Inl e)
  then have "seqE (runMandatoryBrokerPreflight E f spec z opn n) (\<lambda>p. closing (pf_Backend p) (k p)) = throw e"
    by (auto simp: runMandatoryBrokerPreflight_def seqE_run fun_eq_iff)
  then show ?thesis by (simp add: keeps_basic)
next
  case (Inr r)
  obtain meta name where mn: "r = (meta, name)" by (metis surj_pair)
  let ?acc = "accessed E f (readSpecFor spec meta name) None (preflightStep E f meta name opn)
     (\<lambda>r. n (case r of None \<Rightarrow> z | Some p \<Rightarrow> pf_Value p))"
  let ?g = "\<lambda>(opened, err). case (opened, err) of
       (Some p, None) \<Rightarrow> ret p
     | (Some p, Some e) \<Rightarrow> seqE (modS (closeBroker (pf_Backend p))) (\<lambda>_. throw e)
     | (None, Some e) \<Rightarrow> throw e
     | (None, None) \<Rightarrow> throw (OtherError ''unreachable'')"
  let ?k = "\<lambda>r. seqE (?g r) (\<lambda>p. closing (pf_Backend p) (k p))"
  have "seqE (runMandatoryBrokerPreflight E f spec z opn n) (\<lambda>p. closing (pf_Backend p) (k p)) = callE ?acc ?k"
    by (simp add: runMandatoryBrokerPreflight_def Inr mn seqE_run callE_run fun_eq_iff split: prod.split)
  moreover have "keeps (callE ?acc ?k)"
  proof (rule keeps_carried [OF carries_accessed [OF carries_preflight [OF assms(1,2)]]])
    fix x :: "('b, 'v) preflight option" and e
    assume "handed x = None"
    then show "keeps (?k (x, e))" by (cases e) (auto intro!: keeps_seqE simp: keeps_basic seqE_run keeps_def R_refl)
  next
    fix x :: "('b, 'v) preflight option" and e cn u v r w
    assume x: "handed x = Some cn" "okc cn" "e = None \<Longrightarrow> \<forall>p. x = Some p \<longrightarrow> pf_Context p = meta \<and> S (pf_Value p)"
      "Q1 u v" "?k (x, e) v = (r, w)"
    obtain p where p: "x = Some p" "cn = pf_Backend p" using x(1) by auto
    show "\<exists>w0. Q1 u w0 \<and> w = closeBroker cn w0"
    proof (cases e)
      case None
      then have "closing cn (k p) v = (r, w)" "keeps (k p)"
        using x p body Inr mn by (auto simp: seqE_run)
      then show ?thesis using closing_carried x(4) by blast
    next
      case (Some d)
      then show ?thesis using x p by (auto simp: seqE_run)
    qed
  qed (simp_all add: framed_def)
  ultimately show ?thesis by simp
qed

subsection \<open>Mutations\<close>

lemma keeps_mutation:
  assumes "req f meta opn tgt al" and "act (sp_Action spec)" and "okc cn" and "\<And>h r. keeps (k h r)"
  shows "keeps (seqE (classifyAndAuthorize E f meta opn tgt al) (\<lambda>_. seqE (beginMutation E f spec) (\<lambda>h.
    callE (broker_call E cn m) (k h))))"
proof (rule keepsI, erule seqE_cases)
  fix w r w' e assume "classifyAndAuthorize E f meta opn tgt al w = (Inl e, w')"
  then show "Q w w'" by (rule keepsD [OF keeps_authorize(2)])
next
  fix w r w' x v
  assume a: "classifyAndAuthorize E f meta opn tgt al w = (Inr x, v)"
    and rest: "seqE (beginMutation E f spec) (\<lambda>h. callE (broker_call E cn m) (k h)) v = (r, w')"
  have A: "A w v" and qv: "Q w v" using grants [OF assms(1)] a keepsD [OF keeps_authorize(2) a] by auto
  from rest show "Q w w'"
  proof (cases rule: seqE_cases)
    case (1 e)
    then show ?thesis using R_trans [OF qv keepsD [OF keeps_beginMutation]] by simp
  next
    case (2 h u)
    then obtain ad where ad: "beginMutationAudit (ce_audit E) f spec (wo_aud v) = (Inr h, ad)" "u = v\<lparr>wo_aud := ad\<rparr>"
      by (auto simp: beginMutation_def audit_def zoom_run split: prod.splits)
    have L: "L w u" "Q w u"
      using intends [OF assms(2) A ad(1)] ad(2) R_trans [OF qv keepsD [OF keeps_beginMutation 2(1)]] by simp_all
    obtain q b where m: "m (wo_broker u) = (q, b)" by (metis surj_pair)
    have "Q w (notified E (cn_notify cn) (u\<lparr>wo_broker := b\<rparr>))"
      using R_trans [OF writing [OF _ L] calls] assms(3) by (simp add: okc_def)
    moreover have "k h q (notified E (cn_notify cn) (u\<lparr>wo_broker := b\<rparr>)) = (r, w')"
      using 2(2) m by (simp add: callE_run broker_call_def)
    ultimately show ?thesis using R_trans keepsD [OF assms(4)] by blast
  qed
qed

end

end
