(* ===== verification/Command_Mutations.thy ===== *)
theory Command_Mutations
  imports Command_Keeps
begin

text \<open>
  The interface of theory Command_Frame, continued: every command that changes a broker keeps the relation, given that
  the relation accepts a change after its authorization and intent.
\<close>

context command_frame
begin

text \<open>The command's authorization and intent are ones the frame accepts.\<close>

definition licensed :: "cliFlags \<Rightarrow> command \<Rightarrow> bool" where
  "licensed f c = (\<forall>opn allow a. mutation_of c = Some (opn, allow, a) \<longrightarrow> act a \<and>
     (\<forall>meta tgt. context_of (ce_su E) f c = Inr meta \<longrightarrow> aims c tgt \<longrightarrow> req (flags_of f c) meta opn tgt (allow tgt)))"

lemma licensedD:
  "licensed f c \<Longrightarrow> mutation_of c = Some (opn, allow, a) \<Longrightarrow> context_of (ce_su E) f c = Inr meta \<Longrightarrow> aims c tgt \<Longrightarrow>
    req (flags_of f c) meta opn tgt (allow tgt)"
  "licensed f c \<Longrightarrow> mutation_of c = Some (opn, allow, a) \<Longrightarrow> act a"
  by (simp_all add: licensed_def)

lemma returns_True: "returns m (\<lambda>_. True)"
  by (simp add: returns_def)

lemmas preflight_rule = keeps_preflight [where S = "\<lambda>_. True", OF _ returns_True]

lemma create_target: "topicCreateAuthorizationTarget meta b c = (t, al) \<Longrightarrow>
    al = (if t_create_may_alter t then allowTopicUpsert else '''')"
  by (auto simp: topicCreateAuthorizationTarget_def declaredTopicTarget_def empty_target_def Let_def split: if_splits)

lemma spec_action [simp]: "sp_Action (mutationSpec a meta t md) = a"
  by (simp add: mutationSpec_def)

lemma names_simps [simp]:
  "names t pl (tgt\<lparr>t_group := g\<rparr>) = names t pl tgt"
  "names t pl (schemaTarget s) = (s = t \<and> \<not> pl)"
  "names t pl ((schemaTarget s)\<lparr>t_schema_exists := ex\<rparr>) = (s = t \<and> \<not> pl)"
  "names t pl ((schemaTarget s)\<lparr>t_schema_unknown := ex\<rparr>) = (s = t \<and> \<not> pl)"
  "names t pl (declaredTopicTarget meta b s q) = (s = t \<and> pl = q)"
  by (auto simp: names_def schemaTarget_def declaredTopicTarget_def empty_target_def)

lemma aimed_simps [simp]:
  "t_acl (aclTarget x) = aclClassTarget x" "\<not> t_plan (aclTarget x)" "\<not> t_plan (empty_target\<lparr>t_group := g\<rparr>)"
  by (simp_all add: aclTarget_def empty_target_def)

lemma resolved_names: "resolveTopicTarget E cn f meta t pl w = (Inr r, w') \<Longrightarrow> names t pl (rt_Classification r)"
  unfolding resolveTopicTarget_def
  by (auto simp: callE_run names_def empty_target_def split: prod.splits option.splits if_splits elim!: seqE_Inr)

lemma keeps_let_prod: "(\<And>x y. z = (x, y) \<Longrightarrow> keeps (f x y)) \<Longrightarrow> keeps (let (x, y) = z in f x y)"
  by (cases z) simp

lemmas mutation_rules = keeps_seqE [OF keeps_check] keeps_if keeps_output preflight_rule keeps_mutation frame_rules

text \<open>What the preflights return without an error names the topic of the command.\<close>

lemma previews:
  "returns (callE (topicCoord f meta cn t) (\<lambda>coordinate w.
     ((\<lparr>tcp_Coordinate = (case coordinate of Inr c \<Rightarrow> c | Inl _ \<Rightarrow> z), tcp_Backend = b w\<rparr>, errOf coordinate), w)))
     (\<lambda>v. tc_Topic (tcp_Coordinate v) = t)"
  "returns (case SupportsPartitions (cn_broker cn) of
       None \<Rightarrow> answer zero_topicPartitionPreflight (Some e)
     | Some manager \<Rightarrow> callE (resolveTopicTarget E cn f meta t False) (\<lambda>resolved.
         answer \<lparr>tpp_Manager = manager, tpp_Resolved = (case resolved of Inr r \<Rightarrow> r | Inl _ \<Rightarrow> zero_resolved)\<rparr>
           (errOf resolved)))
     (\<lambda>v. names t False (rt_Classification (tpp_Resolved v)))"
  "returns (stepC zero_resolved (getS (capabilities cn)) (\<lambda>caps.
       if verb \<notin> set (cp_Verbs caps) then answer zero_resolved (Some e)
       else orZero zero_resolved (resolveTopicTarget E cn f meta t False)))
     (\<lambda>v. names t False (rt_Classification v))"
  "returns (orZero zero_resolved (resolveTopicTarget E cn f meta t False)) (\<lambda>v. names t False (rt_Classification v))"
  "returns (topicPurgePreflightStep E f dlq dryRun opn t cn meta) (\<lambda>v. names t dryRun (rt_Classification (tup_Resolved v)))"
  "returns (dlqRedrivePreflightStep E f topic grp t n dryRun dq cn meta)
     (\<lambda>v. names t dryRun (rt_Classification (drp_Target v)))"
  "returns (dlqPurgePreflightStep E f topic grp dryRun dq cn meta)
     (\<lambda>v. t_plan (rt_Classification (dup_Resolved v)) = dryRun)"
  "returns (offsetResetPreflightStep E f to dryRun grp t cn meta)
     (\<lambda>v. opr_DryRun (orp_Request v) = dryRun \<and> names t dryRun (rt_Classification (orp_Resolved v)))"
  "returns (schemaRegisterPreflightStep E typ schema t cn) (\<lambda>v. names t False (srp_Target v))"
proof -
  show "returns (dlqPurgePreflightStep E f topic grp dryRun dq cn meta)
     (\<lambda>v. t_plan (rt_Classification (dup_Resolved v)) = dryRun)"
    unfolding returns_def dlqPurgePreflightStep_def
    by (auto simp: stepC_run callE_run Let_def names_def split: option.splits sum.splits prod.splits if_splits
        dest!: resolved_names)
  show "returns (topicPurgePreflightStep E f dlq dryRun opn t cn meta)
     (\<lambda>v. names t dryRun (rt_Classification (tup_Resolved v)))"
    unfolding returns_def topicPurgePreflightStep_def
    by (auto simp: stepC_run callE_run Let_def split: option.splits sum.splits prod.splits if_splits dest!: resolved_names)
  show "returns (dlqRedrivePreflightStep E f topic grp t n dryRun dq cn meta)
     (\<lambda>v. names t dryRun (rt_Classification (drp_Target v)))"
    unfolding returns_def dlqRedrivePreflightStep_def
    by (auto simp: stepC_run callE_run Let_def split: option.splits sum.splits prod.splits if_splits dest!: resolved_names)
  show "returns (offsetResetPreflightStep E f to dryRun grp t cn meta)
     (\<lambda>v. opr_DryRun (orp_Request v) = dryRun \<and> names t dryRun (rt_Classification (orp_Resolved v)))"
    unfolding returns_def offsetResetPreflightStep_def
    by (auto simp: stepC_run callE_run Let_def split: option.splits sum.splits prod.splits dest!: resolved_names)
  show "returns (schemaRegisterPreflightStep E typ schema t cn) (\<lambda>v. names t False (srp_Target v))"
    unfolding returns_def schemaRegisterPreflightStep_def
    by (auto simp: stepC_run callE_run Let_def split: option.splits sum.splits prod.splits if_splits)
qed (auto simp: returns_def stepC_run callE_run orZero_def topicCoord_def errOf_def split: option.splits sum.splits prod.splits if_splits
    dest!: resolved_names elim!: seqE_Inr)

text \<open>The rules for a preflight whose value names the target.\<close>

lemmas named_rules = keeps_seqE [OF keeps_check] keeps_if keeps_output keeps_preflight [OF _ previews(1)]
  keeps_preflight [OF _ previews(2)] keeps_preflight [OF _ previews(3)] keeps_preflight [OF _ previews(4)]
  keeps_mutation frame_rules

lemma created_names: "topicCreateAuthorizationTarget meta b c = (t, al) \<Longrightarrow> names (tc_Topic c) False t"
  by (auto simp: topicCreateAuthorizationTarget_def names_def declaredTopicTarget_def empty_target_def Let_def
      split: if_splits)

lemma keeps_create: "contextPlanOnly f \<or> licensed f (Topic_Create n t) \<Longrightarrow> keeps (newTopicCreateCmd E f n t)"
proof -
  assume l: "contextPlanOnly f \<or> licensed f (Topic_Create n t)"
  have coord: "keeps (callE (topicCoord f meta cn t) (\<lambda>coordinate w. ((g coordinate w, errOf coordinate), w)))"
    for meta cn and g :: "go_error + TopicCoordinate \<Rightarrow> ('l, 'b) world \<Rightarrow> topicCreatePreflight"
    using keeps_scope(2) by (intro keeps_callE) (simp_all add: keeps_def R_refl)
  have lic: "req f meta OperationCreateTopic tgt al"
    if "\<not> contextPlanOnly f" "resolvedContext (ce_su E) f = Inr (meta, name)"
      "topicCreateAuthorizationTarget meta b c = (tgt, al)" "tc_Topic c = t" for meta name tgt al b c
    using l that created_names [OF that(3)] create_target [OF that(3)] unfolding licensed_def by simp
  show ?thesis
    unfolding newTopicCreateCmd_def withTopic_def Let_def
    by (intro coord keeps_let_prod [unfolded Let_def] named_rules)
      (use l in \<open>auto intro: lic simp: licensed_def\<close>)
qed

lemma keeps_changing:
  "contextPlanOnly f \<or> licensed f (Topic_Alter n t) \<Longrightarrow> keeps (newTopicAlterCmd E f n t)"
  "contextPlanOnly f \<or> licensed f (Topic_Delete t) \<Longrightarrow> keeps (newTopicDeleteCmd E f t)"
  "contextPlanOnly f \<or> licensed f (Message_Produce key body t) \<Longrightarrow> keeps (newMessageProduceCmd E f key body t)"
  unfolding newTopicAlterCmd_def newTopicDeleteCmd_def newMessageProduceCmd_def withTopic_def Let_def
  by ((intro named_rules; auto simp: licensed_def)+)

lemma keeps_grouping:
  "contextPlanOnly f \<or> licensed f (Group_Create g) \<Longrightarrow> keeps (newGroupCreateCmd E f g)"
  "contextPlanOnly f \<or> licensed f (Group_Delete g) \<Longrightarrow> keeps (newGroupDeleteCmd E f g)"
  unfolding newGroupCreateCmd_def newGroupDeleteCmd_def Let_def
  by ((intro mutation_rules; auto simp: licensed_def empty_target_def)+)

text \<open>Without a plan the authorization precedes the mutation; a plan is printed.\<close>

lemma keeps_planned: "(c \<Longrightarrow> keeps m1) \<Longrightarrow> (\<not> c \<Longrightarrow> keeps (seqE m (\<lambda>_. m2))) \<Longrightarrow>
    keeps (seqE (if c then ret () else m) (\<lambda>_. if c then m1 else m2))"
  by (simp add: seqE_run keeps_def)

lemma keeps_purging:
  "contextPlanOnly f \<or> licensed f (Topic_Purge dlq t) \<Longrightarrow> keeps (newTopicPurgeCmd E f dlq t)"
  "contextPlanOnly f \<or> licensed f (DLQ_Redrive t g tgt n dq) \<Longrightarrow> keeps (newDLQRedriveCmd E f t g tgt n dq)"
  "contextPlanOnly f \<or> licensed f (DLQ_Purge t g dq) \<Longrightarrow> keeps (newDLQPurgeCmd E f t g dq)"
proof -
  have steps: "okc cn \<Longrightarrow> keeps (topicPurgePreflightStep E f dlq dryRun opn t cn meta)"
    "okc cn \<Longrightarrow> keeps (dlqRedrivePreflightStep E f t g tgt n dryRun dq cn meta)"
    "okc cn \<Longrightarrow> keeps (dlqPurgePreflightStep E f t g dryRun dq cn meta)" for opn dryRun cn meta
    unfolding topicPurgePreflightStep_def dlqRedrivePreflightStep_def dlqPurgePreflightStep_def Let_def
    by ((intro manager_rules keeps_managers(3) frame_rules; (assumption | simp))+)
  note rules = keeps_planned keeps_preflight [OF steps(1) previews(5)] keeps_preflight [OF steps(2) previews(6)]
    keeps_preflight [OF steps(3) previews(7)] named_rules
  show "contextPlanOnly f \<or> licensed f (Topic_Purge dlq t) \<Longrightarrow> keeps (newTopicPurgeCmd E f dlq t)"
    "contextPlanOnly f \<or> licensed f (DLQ_Redrive t g tgt n dq) \<Longrightarrow> keeps (newDLQRedriveCmd E f t g tgt n dq)"
    "contextPlanOnly f \<or> licensed f (DLQ_Purge t g dq) \<Longrightarrow> keeps (newDLQPurgeCmd E f t g dq)"
    unfolding newTopicPurgeCmd_def newDLQRedriveCmd_def newDLQPurgeCmd_def withTopic_def Let_def
    by ((intro rules; auto simp: licensed_def)+)
qed

lemma keeps_reset:
  "contextPlanOnly f \<or> licensed f (Group_Reset to grp t) \<Longrightarrow> keeps (newGroupResetOffsetCmd E f to grp t)"
proof -
  assume l: "contextPlanOnly f \<or> licensed f (Group_Reset to grp t)"
  have plan: "keeps (offsetResetPreflightStep E f to dryRun grp t cn meta)" if "okc cn" for dryRun meta cn
    unfolding offsetResetPreflightStep_def Let_def by (intro frame_rules that) assumption
  have planned: "keeps (seqE (if c then ret () else m) (\<lambda>_. if b then m1 else m2))"
    if "b = c" "c \<Longrightarrow> keeps m1" "\<not> c \<Longrightarrow> keeps (seqE m (\<lambda>_. m2))" for b c m m1 m2
    using that keeps_planned by blast
  show ?thesis
    unfolding newGroupResetOffsetCmd_def withTopic_def Let_def
    by (intro keeps_seqE [OF keeps_check] keeps_preflight [OF _ previews(8)] plan planned mutation_rules)
      (use l in \<open>auto simp: licensed_def\<close>)
qed

lemma keeps_acl:
  "contextPlanOnly f \<or> licensed f (ACL_Grant x) \<Longrightarrow> keeps (newACLGrantCmd E f x)"
  "contextPlanOnly f \<or> licensed f (ACL_Revoke x) \<Longrightarrow> keeps (newACLRevokeCmd E f x)"
  unfolding newACLGrantCmd_def newACLRevokeCmd_def printACLPlan_def Let_def
  by ((intro keeps_managers mutation_rules; auto simp: licensed_def)+)

lemma keeps_schema:
  "contextPlanOnly f \<or> licensed f (Schema_Register typ text file s) \<Longrightarrow>
    keeps (newSchemaRegisterCmd E f typ text file s)"
  "contextPlanOnly f \<or> licensed f (Schema_Delete v p s) \<Longrightarrow> keeps (newSchemaDeleteCmd E f v p s)"
proof -
  have step: "okc cn \<Longrightarrow> keeps (schemaRegisterPreflightStep E typ schema s cn)" for schema cn
    unfolding schemaRegisterPreflightStep_def Let_def by (intro manager_rules frame_rules; assumption?)
  show "contextPlanOnly f \<or> licensed f (Schema_Register typ text file s) \<Longrightarrow>
    keeps (newSchemaRegisterCmd E f typ text file s)"
    unfolding newSchemaRegisterCmd_def Let_def
    by (intro keeps_preflight [OF step previews(9)] named_rules; auto simp: licensed_def)
  show "contextPlanOnly f \<or> licensed f (Schema_Delete v p s) \<Longrightarrow> keeps (newSchemaDeleteCmd E f v p s)"
    unfolding newSchemaDeleteCmd_def Let_def
    by (intro manager_rules mutation_rules; auto simp: licensed_def)
qed

end

end
