(* ===== verification/Command_Run.thy ===== *)
theory Command_Run
  imports Command_Mutations
begin

text \<open>
  The interface of theory Command_Frame, concluded: the mirror, and with it every command of \<open>run\<close>, keeps the relation.
\<close>

context command_frame
begin

text \<open>The mirror opens two connections, closes the first and hands the second on.\<close>

lemma carries_granted:
  assumes "req f meta opn tgt al" and "permits E \<Longrightarrow> carries sel (\<lambda>_ _ _. True) m" and "sel z = None"
  shows "carries sel (\<lambda>_. A) (stepC z (classifyAndAuthorize E f meta opn tgt al) (\<lambda>_. m))"
proof (rule carriesI)
  fix w x e w' assume r: "stepC z (classifyAndAuthorize E f meta opn tgt al) (\<lambda>_. m) w = ((x, e), w')"
  obtain y v where a: "classifyAndAuthorize E f meta opn tgt al w = (y, v)" by (metis surj_pair)
  note k = keepsD [OF keeps_authorize(2) a]
  show "case sel x of None \<Rightarrow> Q w w' | Some cn \<Rightarrow> Q1 w w' \<and> okc cn \<and> (e = None \<longrightarrow> A w w')"
  proof (cases y)
    case (Inl d)
    then show ?thesis using r a k assms(3) by (auto simp: stepC_run)
  next
    case (Inr u)
    have m: "m v = ((x, e), w')" using r a Inr by (simp add: stepC_run)
    have "permits E" and "A w v"
      using yieldsD [OF yields_authorize(2)] grants [OF assms(1)] a Inr by auto
    then show ?thesis
      using carriesD [OF assms(2) m] R_trans [OF k] Q_Q1 [OF k] A_post(2) by (cases "sel x") auto
  qed
qed

lemma carries_opening:
  assumes "permits E" and "\<And>cn. okc cn \<Longrightarrow> carries sel (\<lambda>_ _ _. True) (m cn)" and "sel z = None"
  shows "carries sel (\<lambda>_ _ _. True)
    (stepC z (buildBrokerForResolvedContext E f item name) (\<lambda>cn. closing cn (m cn)))"
proof (rule carriesI)
  fix w x e w'
  assume r: "stepC z (buildBrokerForResolvedContext E f item name) (\<lambda>cn. closing cn (m cn)) w = ((x, e), w')"
  obtain y v where b: "buildBrokerForResolvedContext E f item name w = (y, v)" by (metis surj_pair)
  note kb = keeps_build [OF assms(1) b]
  show "case sel x of None \<Rightarrow> Q w w' | Some cn \<Rightarrow> Q1 w w' \<and> okc cn \<and> (e = None \<longrightarrow> True)"
  proof (cases y)
    case (Inl d)
    then show ?thesis using r b kb assms(3) by (auto simp: stepC_run)
  next
    case (Inr cn)
    then obtain u where m: "m cn v = ((x, e), u)" "w' = closeBroker cn u" and q: "Q1 w v" "okc cn"
      using r b kb by (auto simp: stepC_run closing_def split: prod.splits)
    note c = carriesD [OF assms(2) [OF q(2)] m(1)]
    show ?thesis
    proof (cases "sel x")
      case None
      then show ?thesis
        using c m(2) closes [OF assms(1) _ Q1_Q [OF q(1)]] q(2) by (simp add: okc_def)
    next
      case (Some t)
      then show ?thesis
        using c m(2) closes1 [OF assms(1) _ q(1)] q(2) by (simp add: okc_def)
    qed
  qed
qed

lemma carries_target:
  assumes "permits E" and "\<And>cn. okc cn \<Longrightarrow> keeps (m cn)"
  shows "carries snd (\<lambda>_ _ _. True) (stepC (z, None) (buildBrokerForResolvedContext E f item name)
    (\<lambda>target. callE (m target) (\<lambda>(phase, err). answer (phase, Some target) err)))"
proof (rule carriesI)
  fix w x e w'
  assume r: "stepC (z, None) (buildBrokerForResolvedContext E f item name)
    (\<lambda>target. callE (m target) (\<lambda>(phase, err). answer (phase, Some target) err)) w = ((x, e), w')"
  obtain y v where b: "buildBrokerForResolvedContext E f item name w = (y, v)" by (metis surj_pair)
  note kb = keeps_build [OF assms(1) b]
  show "case snd x of None \<Rightarrow> Q w w' | Some cn \<Rightarrow> Q1 w w' \<and> okc cn \<and> (e = None \<longrightarrow> True)"
  proof (cases y)
    case (Inl d)
    then show ?thesis using r b kb by (auto simp: stepC_run)
  next
    case (Inr cn)
    obtain ph d u where m: "m cn v = ((ph, d), u)" by (metis surj_pair)
    then have "snd x = Some cn" "w' = u" using r b Inr by (auto simp: stepC_run callE_run)
    then show ?thesis using kb Inr Q1_Q [OF _ keepsD [OF assms(2) m]] by auto
  qed
qed

lemma keeps_mirroring: "SupportsMirrorSource (cn_broker cn) = Some ms \<Longrightarrow> okc cn \<Longrightarrow>
    keeps (broker_call_with E cn s (ms mreq emit))"
  by (rule keeps_call_with [OF _ reads.intros(10)])

lemma keeps_mirrorSource: "keeps (authorizeMirrorSource E f meta t)"
  "yields (authorizeMirrorSource E f meta t) (\<lambda>_. permits E)"
  unfolding authorizeMirrorSource_def Let_def by (rule keeps_authorize(3) yields_authorize(3))+

lemma keeps_answered: "keeps (\<lambda>w. (g w, w))"
  by (simp add: keeps_def R_refl)

lemma keeps_readMirror:
  assumes "okc source" and "okc target"
  shows "keeps (readMirrorSource E f source sm st target tm tf tt from part limit dry)"
proof -
  have resolved: "keeps (resolveAuthorizedMirrorTargets E f source sm st target tm tf tt dry)"
    unfolding resolveAuthorizedMirrorTargets_def by (intro frame_rules keeps_mirrorSource(1) assms)
  show ?thesis
    unfolding readMirrorSource_def Let_def
    by (intro frame_rules keeps_answered resolved; (rule keeps_mirroring)?; (assumption | rule assms))
qed

lemma keeps_mirrorRead:
  assumes "contextPlanOnly f \<or> licensed f (Message_Mirror toContext tt limit from part st)"
  shows "carries snd (\<lambda>_ u v. contextPlanOnly f \<or> A u v)
    (mirrorReadStep E f sm sn st toContext tt from part limit (contextPlanOnly f))"
proof -
  let ?P = "\<lambda>_ u v. contextPlanOnly f \<or> A u v"
  have framed: "framed ?P" using A_post(1) A_pre unfolding framed_def by blast
  have opened: "carries snd (\<lambda>_ _ _. True) (stepC (zero_mirrorReadPhase, None) (buildBrokerForResolvedContext E f sm sn)
      (\<lambda>source. closing source (
        stepC (zero_mirrorReadPhase, None) (buildBrokerForResolvedContext E tf tm toContext) (\<lambda>target.
        callE (readMirrorSource E f source sm st target tm tf tt from part limit d) (\<lambda>(phase, err).
        answer (phase, Some target) err)))))" if "permits E" for tf tm d
    by (intro carries_opening carries_target keeps_readMirror that) simp_all
  show ?thesis
    unfolding mirrorReadStep_def Let_def
  proof (rule carries_step [OF keeps_mirrorSource _ _ framed])
    fix u
    let ?rest = "\<lambda>tm tf. stepC (zero_mirrorReadPhase, None)
      (classifyAndAuthorize E tf tm OperationMirror
        (declaredTopicTarget tm (expectedBackend tf tm) tt (contextPlanOnly f))
        (mirrorTargetAllow (declaredTopicTarget tm (expectedBackend tf tm) tt (contextPlanOnly f)) (contextPlanOnly f)))
      (\<lambda>_. stepC (zero_mirrorReadPhase, None) (buildBrokerForResolvedContext E f sm sn) (\<lambda>source. closing source (
        stepC (zero_mirrorReadPhase, None) (buildBrokerForResolvedContext E tf tm toContext) (\<lambda>target.
        callE (readMirrorSource E f source sm st target tm tf tt from part limit (contextPlanOnly f)) (\<lambda>(phase, err).
        answer (phase, Some target) err)))))"
    have granted: "carries snd ?P (?rest tm tf)"
      if "resolveMirrorTarget (ce_su E) f toContext = Inr (tm, tf)" for tm tf
    proof (cases "contextPlanOnly f")
      case True
      then show ?thesis
        by (intro carries_step [OF keeps_authorize(2) yields_authorize(2)] framed)
          (use opened in \<open>simp_all add: carries_def framed_def\<close>)
    next
      case False
      let ?t = "declaredTopicTarget tm (expectedBackend tf tm) tt False"
      have lic: "licensed f (Message_Mirror toContext tt limit from part st)" using assms False by blast
      have tf: "tf = fleetLocalFlags f toContext"
        using that by (auto simp: resolveMirrorTarget_def split: sum.splits option.splits)
      have "req tf tm OperationMirror ?t (mirrorTargetAllow ?t False)"
        using licensedD(1) [OF lic mutation_of.simps(9), of tm ?t] that by (simp add: tf mirrorTargetAllow_def)
      from carries_granted [OF this opened] show ?thesis using False by simp
    qed
    show "carries snd ?P (stepC (zero_mirrorReadPhase, None) (liftE (resolveMirrorTarget (ce_su E) f toContext))
      (\<lambda>(tm, tf). ?rest tm tf))"
    proof (cases "resolveMirrorTarget (ce_su E) f toContext")
      case (Inl e)
      then show ?thesis by (auto simp: carries_def stepC_run R_refl)
    next
      case (Inr r)
      then show ?thesis using granted by (cases r) (simp add: carries_def stepC_run)
    qed
  qed simp
qed

lemma keeps_produced:
  assumes "permits E"
  shows "L u v \<Longrightarrow> Q1 u v \<Longrightarrow> produceMirroredMessages E cn c ms bo v = (r, w) \<Longrightarrow> Q1 u w"
proof (induction ms arbitrary: bo v)
  case Nil
  then show ?case by simp
next
  case (Cons m ms)
  obtain q b where m: "Produce (cn_broker cn) \<lparr>mpr_Coordinate = c, mpr_Key = m_Key m, mpr_Body = m_Body m,
      mpr_Headers = m_Headers m\<rparr> (wo_broker v) = (q, b)" by (metis surj_pair)
  let ?v = "notified E (cn_notify cn) (v\<lparr>wo_broker := b\<rparr>)"
  have "L u ?v" "Q1 u ?v"
    using L_post [OF L_write [OF Cons.prems(1)] calls [OF assms]]
      Q1_Q [OF writing1 [OF assms Cons.prems(1,2)] calls [OF assms]] by blast+
  then show ?case
    using Cons.prems(3) Cons.IH m by (auto simp: callE_run broker_call_def Let_def split: prod.splits option.splits)
qed

lemma keeps_mirrorWrite:
  assumes "permits E" and "A u v" and "Q1 u v" and "act ''mq.message.mirror''"
    and "mirrorWrite E f toContext phase cn v = (r, w)"
  shows "Q1 u w"
proof -
  let ?spec = "mirrorTargetMutationAuditSpec toContext (mp_TargetMeta phase) (mp_Request phase)
    (int (length (mp_Messages phase)))"
  have act: "act (sp_Action ?spec)" using assms(4) by (simp add: mirrorTargetMutationAuditSpec_def)
  from assms(5) show ?thesis unfolding mirrorWrite_def Let_def
  proof (cases rule: seqE_cases)
    case (1 e)
    then show ?thesis using Q1_Q [OF assms(3) keepsD [OF keeps_beginMutation]] by simp
  next
    case (2 h x)
    then obtain ad where ad: "beginMutationAudit (ce_audit E) f ?spec (wo_aud v) = (Inr h, ad)" "x = v\<lparr>wo_aud := ad\<rparr>"
      by (auto simp: beginMutation_def audit_def zoom_run split: prod.splits)
    have L: "L u x" using intends [OF act assms(2) ad(1)] ad(2) by simp
    have Q1: "Q1 u x" using Q1_Q [OF assms(3) keepsD [OF keeps_beginMutation 2(1)]] .
    obtain bo d y where p: "produceMirroredMessages E cn (mmr_Target (mp_Request phase)) (mp_Messages phase) no_outcome x
        = ((bo, d), y)" by (metis surj_pair)
    have "keeps (seqE (finishBatch E f h (int (length (mp_Messages phase))) bo d) (\<lambda>_.
      targetJSONData E f ''MessageMirrorResult'' (V_Mirror ((mp_Result phase)\<lparr>mmx_Outcome := bo\<rparr>))
       (mp_OperationTarget phase) operationTargetWrite))"
      by (intro frame_rules)
    then have "Q y w" using 2(2) p keepsD by (auto simp: callE_run)
    then show ?thesis using Q1_Q [OF keeps_produced [OF assms(1) L Q1 p]] by blast
  qed
qed

lemma keeps_mirror:
  assumes "contextPlanOnly f \<or> licensed f (Message_Mirror toContext tt limit from part st)"
  shows "keeps (newMessageMirrorCmd E f toContext tt limit from part st)"
proof -
  let ?P = "\<lambda>_ u v. contextPlanOnly f \<or> A u v"
  let ?k = "\<lambda>((phase, opened), err). case opened of
       None \<Rightarrow> throw (case err of Some e \<Rightarrow> e | None \<Rightarrow> nil_error)
     | Some target \<Rightarrow> closing target (
         case err of
           Some e \<Rightarrow> throw e
         | None \<Rightarrow>
             if contextPlanOnly f
             then seqE (appendMirrorTargetPreviewAudit E f (mp_TargetMeta phase) toContext (mp_Request phase)
                         (mp_Result phase) StatusSuccess None) (\<lambda>_.
               targetJSONData E f ''MessageMirrorResult'' (V_Mirror (mp_Result phase)) (mp_OperationTarget phase)
                 operationTargetWrite)
             else mirrorWrite E f toContext phase target)"
  have framed: "framed ?P" using A_post(1) A_pre unfolding framed_def by blast
  have preview: "keeps (seqE (appendMirrorTargetPreviewAudit E f tm toContext rq rs StatusSuccess None) (\<lambda>_.
      targetJSONData E f ''MessageMirrorResult'' (V_Mirror rs) t operationTargetWrite))" for tm rq rs t
    unfolding appendMirrorTargetPreviewAudit_def by (intro frame_rules keeps_audit warns)
  have called: "keeps (callE (accessed E f (mirrorSourceReadAuditSpec sn sm st toContext tt from part limit (contextPlanOnly f))
      (zero_mirrorReadPhase, None) (mirrorReadStep E f sm sn st toContext tt from part limit (contextPlanOnly f))
      (\<lambda>(phase, _). int (length (mp_Messages phase)))) ?k)" for sn sm
  proof (rule keeps_carried [OF carries_accessed [OF keeps_mirrorRead [OF assms] _ framed]])
    fix x :: "mirrorReadPhase \<times> 'b connection option" and e
    assume "snd x = None"
    then show "keeps (?k (x, e))" by (cases x) (simp add: keeps_basic)
  next
    fix x :: "mirrorReadPhase \<times> 'b connection option" and e cn u v r w
    assume x: "snd x = Some cn" "okc cn" "e = None \<Longrightarrow> ?P x u v" "Q1 u v" "?k (x, e) v = (r, w)"
    obtain phase where ph: "x = (phase, Some cn)" using x(1) by (cases x) simp
    show "\<exists>w0. Q1 u w0 \<and> w = closeBroker cn w0"
    proof (cases e)
      case (Some d)
      then show ?thesis using x(4,5) ph by (auto simp: closing_def)
    next
      case None
      show ?thesis
      proof (cases "contextPlanOnly f")
        case True
        then show ?thesis using closing_carried [OF preview x(4)] x(5) ph None by auto
      next
        case False
        then have "act ''mq.message.mirror''" "A u v"
          using assms licensedD(2) [OF _ mutation_of.simps(9)] x(3) None by blast+
        moreover obtain w0 where "mirrorWrite E f toContext phase cn v = (r, w0)" "w = closeBroker cn w0"
          using x(5) ph None False by (auto simp: closing_def split: prod.splits)
        moreover have "permits E" using x(2) by (simp add: okc_def)
        ultimately show ?thesis using keeps_mirrorWrite x(4) by blast
      qed
    qed
  qed simp
  show ?thesis
    unfolding newMessageMirrorCmd_def withTopic_def Let_def
    by (intro keeps_seqE keeps_check keeps_basic keeps_prod called)
qed

theorem keeps_run: "mutation_of c = None \<or> contextPlanOnly f \<or> licensed f c \<Longrightarrow> keeps (run E f c)"
  by (cases c) (simp_all only: run.simps mutation_of.simps option.distinct simp_thms keeps_reading keeps_inspecting keeps_create
    keeps_changing keeps_grouping keeps_purging keeps_reset keeps_acl keeps_schema keeps_mirror)

end

end
