(* ===== verification/Audit_Safety.thy ===== *)
theory Audit_Safety
  imports Audit_Durable
begin

text \<open>
  What the records that reach the log say of the texts that operators type: the operations of the audit append
  discreet records only, those that they take out of the spool included.
\<close>

section \<open>Discreet records\<close>

text \<open>
  No ticket, reason, detail or error stands in the event in clear text, and what the record holds of them is nothing or a
  fingerprint in the format of the audit, with a length that is not negative.
\<close>

definition discreet_record :: "safeAuditRecord \<Rightarrow> bool" where
  "discreet_record r =
    (ev_Ticket (ar_Event r) = '''' \<and> ev_Reason (ar_Event r) = '''' \<and> ev_Diff (ar_Event r) = '''' \<and>
     ev_Error (ar_Event r) = None \<and>
     list_all (Not \<circ> bad_fingerprint)
       [(ar_TicketFingerprint r, ar_TicketBytes r), (ar_ReasonFingerprint r, ar_ReasonBytes r),
        (ar_DetailFingerprint r, ar_DetailBytes r), (ar_ErrorFingerprint r, ar_ErrorBytes r)])"

lemma discreet_marshalled: "discreet_record (marshalled_record r) = discreet_record r"
  by (simp add: discreet_record_def marshalled_record_def)

lemma discreet_stamped: "discreet_record (r\<lparr>ar_Event := (ar_Event r)\<lparr>ev_Timestamp := t\<rparr>\<rparr>) = discreet_record r"
  by (simp add: discreet_record_def)

lemma discreet_described:
  "discreet_record (r\<lparr>ar_Metadata := m, ar_Event := (ar_Event r)\<lparr>ev_Timestamp := t\<rparr>\<rparr>) = discreet_record r"
  by (simp add: discreet_record_def)

lemma discreet_new: "discreet_record (newSafeAuditRecord asApp su f now typ c n t s d e)"
proof -
  have good: "\<not> bad_fingerprint (x, y)" if "sensitiveAuditFingerprint k v = (x, y)" for k v x y
    using sensitive_not_bad [of k v] that by simp
  show ?thesis
    by (auto simp: discreet_record_def newSafeAuditRecord_def Let_def split: prod.split option.split dest!: good)
qed

lemma discreet_handle: "discreet_record (handle_record su f now h phase oc)"
proof -
  have good: "\<not> bad_fingerprint (x, y)" if "sensitiveAuditFingerprint k v = (x, y)" for k v x y
    using sensitive_not_bad [of k v] that by simp
  show ?thesis
    by (auto simp: discreet_record_def handle_record_def Let_def split: prod.split dest!: good)
qed

text \<open>The validation of a spooled record refuses what is not discreet.\<close>

lemma discreet_validated: 
  "validateMutationSpoolRecord r n = None \<Longrightarrow> discreet_record r"
proof -
  assume "validateMutationSpoolRecord r n = None"
  then have "validateSafeAuditRecord r = None" "validateSanitizedAuditMetadata r = None"
    by (auto simp: validateMutationSpoolRecord_def split: if_splits)
  then show ?thesis
    by (auto simp: validateSafeAuditRecord_def validateSanitizedAuditMetadata_def record_fingerprints_def
        discreet_record_def Let_def simp del: not_None_eq split: if_splits)
qed

section \<open>The operations of the audit\<close>

definition discreetly :: "('l \<Rightarrow> safeAuditRecord list) \<Rightarrow> 'l aud \<Rightarrow> 'l aud \<Rightarrow> bool" where
  "discreetly obs a a' = (\<exists>new. obs (au_log a') = obs (au_log a) @ new \<and> list_all discreet_record new)"

interpretation guarded: op_relation "discreetly obs" for obs :: "'l \<Rightarrow> safeAuditRecord list"
  by unfold_locales (auto simp: discreetly_def)

lemma touch_guarded: "touch.keeps S m \<Longrightarrow> guarded.keeps obs m"
  unfolding touch.keeps_def guarded.keeps_def touches_def discreetly_def by simp

lemma quiet_guarded: "quiet.keeps m \<Longrightarrow> guarded.keeps obs m"
  by (rule touch_guarded [OF quiet_touch])

lemma guarded_append:
  assumes "append_contract E obs" and "discreet_record r"
  shows "guarded.keeps obs (appendMutationAuditRecord E f r)"
  using append_record(1) [OF assms(1)] assms(2)
  by (intro guarded.keepsI) (fastforce simp: discreetly_def discreet_marshalled)

lemma guarded_replayOne:
  assumes "append_contract E obs"
  shows "guarded.keeps obs (replayOne E f n)"
  unfolding replayOne_def
proof (rule guarded.keeps_known)
  show "guarded.keeps obs (readMutationSpoolRecord E n)" by (rule quiet_guarded [OF quiet_reads(2)])
next
  fix a r a' assume "readMutationSpoolRecord E n a = (Inr r, a')"
  then have "discreet_record r" by (intro discreet_validated read_content(3))
  then have "guarded.keeps obs (tryE (appendMutationAuditRecord E f r) (\<lambda>appended. case appended of
      Inl e \<Rightarrow> handleMutationSpoolReplayAppendError E n r e | Inr _ \<Rightarrow> removeReplayedMutationSpool E n))"
    unfolding handleMutationSpoolReplayAppendError_def
    by (intro guarded.keeps_rules guarded_append assms touch_guarded [where S = UNIV] touch_delete) simp_all
  then show "discreetly obs a' (snd (tryE (appendMutationAuditRecord E f r) (\<lambda>appended. case appended of
      Inl e \<Rightarrow> handleMutationSpoolReplayAppendError E n r e | Inr _ \<Rightarrow> removeReplayedMutationSpool E n) a'))"
    by (simp add: guarded.keeps_def)
qed

lemma guarded_replay:
  assumes "append_contract E obs"
  shows "guarded.keeps obs (replayMutationAuditSpoolLocked E f)"
proof -
  have "guarded.keeps obs (replayLoop E f names)" for names
    using assms by (induction names) (simp_all only: replayLoop.simps, auto intro!: guarded.keeps_rules guarded_replayOne)
  then show ?thesis
    unfolding replayMutationAuditSpoolLocked_def
    by (intro guarded.keeps_rules quiet_guarded [OF quiet_verify(1)] quiet_guarded [OF quiet_verify(3)]
        quiet_guarded [OF quiet_reads(3)])
qed

lemma guarded_queue: "guarded.keeps obs m \<Longrightarrow> guarded.keeps obs (withQueueLock E msg m)"
  unfolding withQueueLock_def
  by (intro guarded.keeps_rules touch_guarded [OF touch_acquire [where S = UNIV]] quiet_guarded [OF quiet_verify(3)]
      quiet_guarded [OF quiet_release]) simp_all

lemma guarded_write: "guarded.keeps obs (writeMutationSpoolRecord E r)"
  unfolding writeMutationSpoolRecord_def
  by (intro guarded.keeps_rules touch_guarded [where S = UNIV] touch_sequence touch_write) simp_all

lemma guarded_entered: "guarded.keeps obs (modS (\<lambda>a. a\<lparr>au_entered := b\<rparr>))"
  by (simp add: guarded.keeps_def discreetly_def)

lemmas guarded_rules = guarded.keeps_rules guarded_queue guarded_write guarded_entered
  quiet_guarded [OF quiet_clocks(1)] quiet_guarded [OF quiet_clocks(2)]

lemma guarded_begin: "append_contract E obs \<Longrightarrow> guarded.keeps obs (beginMutationAudit E f spec)"
  unfolding beginMutationAudit_def withMutationAuditQueue_def intentNotPersisted_def Let_def
  by (intro guarded_rules guarded_replay guarded_append discreet_handle)

lemma guarded_finish: "append_contract E obs \<Longrightarrow> guarded.keeps obs (finishMutationAudit E f h oc err)"
  unfolding finishMutationAudit_def withMutationAuditQueue_def spoolMutationAuditOutcomeEmergency_def
    persistOutcome_def spoolOutcome_def outcomeRecord_def Let_def
  by (intro guarded_rules guarded_replay guarded_append discreet_handle)

lemma guarded_warn: "append_contract E obs \<Longrightarrow> guarded.keeps obs (appendAuditWarnForContext E f typ ctx n t st d md err)"
  unfolding appendAuditWarnForContext_def appendQueuedAuditRecord_def withMutationAuditQueue_def Let_def
  by (intro guarded_rules guarded_replay guarded_append)
    (simp_all add: discreet_stamped discreet_described discreet_new)

end
