(* ===== verification/Command_Laws.thy ===== *)
theory Command_Laws
  imports Command_Run Audit_Safety
begin

text \<open>
  The interface of theory Command_Frame interpreted: what every command does to connections, to the broker,
  to the audit log and to the buffers of diagnostics.
\<close>

lemma openBroker_run: "openBroker tls new w = (case new (wo_broker w) of
    (Inl e, b) \<Rightarrow> (Inl e, w\<lparr>wo_broker := b\<rparr>)
  | (Inr B, b) \<Rightarrow> (Inr \<lparr>cn_broker = B, cn_notify = tls\<rparr>, w\<lparr>wo_broker := b, wo_conns := wo_conns w + 1\<rparr>))"
  by (simp add: openBroker_def)

lemmas world_steps = completeDiagnostics_form notified_def closeBroker_def Let_def

section \<open>Connections\<close>

definition balanced :: "int \<Rightarrow> ('l, 'b) world \<Rightarrow> ('l, 'b) world \<Rightarrow> bool" where
  "balanced n w w' = (wo_conns w' = wo_conns w + n)"

interpretation balance: command_frame "balanced 0 :: ('l, 'b) world \<Rightarrow> _" "balanced 1" E "\<lambda>_. True"
  "\<lambda>_ _. True" "\<lambda>_ _. True" "\<lambda>_ _ _ _ _. True" "\<lambda>_. True"
  for E :: "('l, 'b) cmd_env"
  by unfold_locales
    (auto simp: balanced_def world_steps openBroker_run split: prod.splits sum.splits)

section \<open>Diagnostics\<close>

definition within_limit :: "('l, 'b) world \<Rightarrow> bool" where
  "within_limit w = ((\<forall>d \<in> set (wo_buffers w). int (length (db_stderr d)) \<le> maxReadDiagnosticBytes) \<and>
     (\<forall>s \<in> set (wo_stderr w). int (length s) \<le> maxReadDiagnosticBytes))"

definition keeps_limit :: "('l, 'b) world \<Rightarrow> ('l, 'b) world \<Rightarrow> bool" where
  "keeps_limit w w' = (within_limit w \<longrightarrow> within_limit w')"

lemma appendStderr_limit:
  "int (length (db_stderr d)) \<le> maxReadDiagnosticBytes \<Longrightarrow>
    int (length (db_stderr (fold (appendStderr redact) msgs d))) \<le> maxReadDiagnosticBytes"
  by (induction msgs arbitrary: d) (auto simp: appendStderr_def Let_def)

lemma completeBuffer_limit:
  assumes "int (length (db_stderr d)) \<le> maxReadDiagnosticBytes"
  shows "int (length (db_stderr (fst (completeBuffer b d)))) \<le> maxReadDiagnosticBytes"
    and "\<forall>s \<in> set (snd (completeBuffer b d)). int (length s) \<le> maxReadDiagnosticBytes"
proof -
  have "int (length readDiagnosticOverflowNotice) \<le> maxReadDiagnosticBytes" by code_simp
  then show "int (length (db_stderr (fst (completeBuffer b d)))) \<le> maxReadDiagnosticBytes"
    and "\<forall>s \<in> set (snd (completeBuffer b d)). int (length s) \<le> maxReadDiagnosticBytes"
    using assms by (auto simp: completeBuffer_def maxReadDiagnosticBytes_def)
qed

lemma limit_update:
  assumes "\<forall>d \<in> set ds. int (length (db_stderr d)) \<le> n"
    and "i < length ds \<Longrightarrow> int (length (db_stderr x)) \<le> n"
  shows "\<forall>d \<in> set (ds[i := x]). int (length (db_stderr d)) \<le> n"
proof (cases "i < length ds")
  case True
  then show ?thesis using assms set_update_subset_insert [of ds i x] by auto
qed (use assms(1) in \<open>simp add: list_update_beyond\<close>)

lemma diagnosticBuffer_limit:
  assumes "within_limit w"
  shows "int (length (db_stderr (diagnosticBuffer h w))) \<le> maxReadDiagnosticBytes"
  using assms nth_mem [of "rh_diagnostics h" "wo_buffers w"]
  by (auto simp: within_limit_def diagnosticBuffer_def newReadDiagnosticBuffer_def maxReadDiagnosticBytes_def)

lemma limit_steps:
  "keeps_limit w (w\<lparr>wo_diag := dg, wo_buffers := wo_buffers w @ [newReadDiagnosticBuffer]\<rparr>)"
  "keeps_limit w (completeDiagnostics h durable w)" "keeps_limit w (notified E tls w)"
proof -
  show "keeps_limit w (w\<lparr>wo_diag := dg, wo_buffers := wo_buffers w @ [newReadDiagnosticBuffer]\<rparr>)"
    by (simp add: keeps_limit_def within_limit_def newReadDiagnosticBuffer_def maxReadDiagnosticBytes_def)
  show "keeps_limit w (completeDiagnostics h durable w)"
    unfolding keeps_limit_def
  proof
    assume w: "within_limit w"
    let ?c = "completeBuffer durable (diagnosticBuffer h w)"
    have "\<forall>d \<in> set ((wo_buffers w)[rh_diagnostics h := fst ?c]). int (length (db_stderr d)) \<le> maxReadDiagnosticBytes"
      using w completeBuffer_limit(1) [OF diagnosticBuffer_limit [OF w]] by (intro limit_update) (simp_all add: within_limit_def)
    then show "within_limit (completeDiagnostics h durable w)"
      using w completeBuffer_limit(2) [OF diagnosticBuffer_limit [OF w], of durable h]
      by (auto simp: within_limit_def completeDiagnostics_form Let_def)
  qed
  show "keeps_limit w (notified E tls w)"
    unfolding keeps_limit_def
  proof
    assume w: "within_limit w"
    then show "within_limit (notified E tls w)"
    proof (cases tls)
      case (Some i)
      have "int (length (db_stderr (wo_buffers w ! i))) \<le> maxReadDiagnosticBytes" if "i < length (wo_buffers w)"
        using w nth_mem [OF that] by (simp add: within_limit_def)
      then have "\<forall>d \<in> set ((wo_buffers w)[i := fold (appendStderr (ce_redact E)) (ce_notify E (wo_calls w)) (wo_buffers w ! i)]).
          int (length (db_stderr d)) \<le> maxReadDiagnosticBytes"
        using w appendStderr_limit by (intro limit_update) (simp_all add: within_limit_def)
      then show ?thesis using w Some by (simp add: within_limit_def notified_def)
    qed (simp add: within_limit_def notified_def)
  qed
qed

lemma limit_same: "wo_buffers w' = wo_buffers w \<Longrightarrow> wo_stderr w' = wo_stderr w \<Longrightarrow> keeps_limit w w'"
  by (simp add: keeps_limit_def within_limit_def)

lemma limit_trans: "keeps_limit u v \<Longrightarrow> keeps_limit v w \<Longrightarrow> keeps_limit u w"
  by (simp add: keeps_limit_def)

lemma limit_open: "openBroker tls new w = (r, w') \<Longrightarrow> keeps_limit w w'"
  by (rule limit_same) (auto simp: openBroker_run split: prod.splits sum.splits)

interpretation limited: command_frame "keeps_limit :: ('l, 'b) world \<Rightarrow> _" keeps_limit E "\<lambda>_. True"
  "\<lambda>_ _. True" "\<lambda>_ _. True" "\<lambda>_ _ _ _ _. True" "\<lambda>_. True"
  for E :: "('l, 'b) cmd_env"
  by unfold_locales
    (simp_all add: limit_steps limit_same closeBroker_def limit_trans [OF _ limit_same] limit_open split: sum.split,
     (erule (1) limit_trans | erule (1) limit_trans [OF limit_trans], simp add: limit_same)+)

section \<open>Denied authorizations\<close>

text \<open>Without a granted authorization no broker is built, called or closed.\<close>

definition untouched :: "('l, 'b) cmd_env \<Rightarrow> ('l, 'b) world \<Rightarrow> ('l, 'b) world \<Rightarrow> bool" where
  "untouched E w w' = (\<not> permits E \<longrightarrow>
     wo_broker w' = wo_broker w \<and> wo_calls w' = wo_calls w \<and> wo_conns w' = wo_conns w)"

interpretation denied: command_frame "untouched E :: ('l, 'b) world \<Rightarrow> _" "untouched E" E "\<lambda>_. True"
  "\<lambda>_ _. True" "\<lambda>_ _. True" "\<lambda>_ _ _ _ _. True" "\<lambda>_. True"
  for E :: "('l, 'b) cmd_env"
  by unfold_locales
    (auto simp: untouched_def completeDiagnostics_form Let_def split: sum.splits)

section \<open>Discreet records\<close>

text \<open>With a log that does what the appends report, a command appends discreet records only.\<close>

definition tells :: "('l \<Rightarrow> safeAuditRecord list) \<Rightarrow> ('l, 'b) cmd_env \<Rightarrow> ('l, 'b) world \<Rightarrow> ('l, 'b) world \<Rightarrow> bool" where
  "tells obs E w w' = (append_contract (ce_audit E) obs \<longrightarrow> discreetly obs (wo_aud w) (wo_aud w'))"

lemma tells_trans: "tells obs E u v \<Longrightarrow> tells obs E v w \<Longrightarrow> tells obs E u w"
  unfolding tells_def using guarded.R_trans by blast

lemma tells_same: "wo_aud w' = wo_aud w \<Longrightarrow> tells obs E w w'"
  by (simp add: tells_def guarded.R_refl)

lemma tells_audit: "(append_contract (ce_audit E) obs \<Longrightarrow> guarded.keeps obs m) \<Longrightarrow> tells obs E w (w\<lparr>wo_aud := snd (m (wo_aud w))\<rparr>)"
  by (simp add: tells_def guarded.keeps_def)

lemma tells_open: "openBroker tls new w = (r, w') \<Longrightarrow> tells obs E w w'"
  by (rule tells_same) (auto simp: openBroker_run split: prod.splits sum.splits)

interpretation telling: command_frame "tells obs E :: ('l, 'b) world \<Rightarrow> _" "tells obs E" E "\<lambda>_. True"
  "\<lambda>_ _. True" "\<lambda>_ _. True" "\<lambda>_ _ _ _ _. True" "\<lambda>_. True"
  for obs :: "'l \<Rightarrow> safeAuditRecord list" and E :: "('l, 'b) cmd_env"
  by unfold_locales
    (simp_all add: tells_same tells_audit guarded_begin guarded_finish guarded_warn world_steps tells_trans [OF _ tells_same]
        tells_open split: sum.split,
     (erule (1) tells_trans | erule (1) tells_trans [OF tells_trans], simp add: tells_same)+)

section \<open>The log and the authorizations\<close>

definition onward :: "('l \<Rightarrow> safeAuditRecord list) \<Rightarrow> ('l, 'b) world \<Rightarrow> ('l, 'b) world \<Rightarrow> bool" where
  "onward obs w w' = (prefix (obs (au_log (wo_aud w))) (obs (au_log (wo_aud w'))) \<and> wo_asks w \<le> wo_asks w')"

lemma onward_refl: "onward obs w w"
  by (simp add: onward_def)

lemma onward_trans: "onward obs u v \<Longrightarrow> onward obs v w \<Longrightarrow> onward obs u w"
  by (auto simp: onward_def intro: prefix_order.order_trans)

lemma onward_same: "wo_aud w' = wo_aud w \<Longrightarrow> wo_asks w \<le> wo_asks w' \<Longrightarrow> onward obs w w'"
  by (simp add: onward_def)

lemma onward_audit:
  assumes "kept.keeps obs m"
  shows "onward obs w (w\<lparr>wo_aud := snd (m (wo_aud w))\<rparr>)"
  using assms by (simp add: onward_def kept.keeps_def nothing_lost_def)

text \<open>The \<open>n\<close>-th authorization granted \<open>opn\<close> on \<open>tgt\<close> with the required flag \<open>allow\<close>.\<close>

definition approved ::
  "('l, 'b) cmd_env \<Rightarrow> cliFlags \<Rightarrow> Context \<Rightarrow> operation \<Rightarrow> class_target \<Rightarrow> string \<Rightarrow> nat \<Rightarrow> bool" where
  "approved E f meta opn tgt allow n = (\<exists>operator. trustedOperatorIdentity (ce_su E) f = Inr operator \<and>
     ce_authorize E n (ce_effectiveRisk E (r_risk (Classify opn tgt)) (contextMeta meta))
       (safetyOptions f meta allow (fl_Yes f) (contextName (ce_su E) f) operator) = None)"

lemma authorize_approved:
  assumes "classifyAndAuthorize E f meta opn tgt allow w = (Inr (), w')"
  shows "approved E f meta opn tgt allow (wo_asks w) \<and> w' = w\<lparr>wo_asks := Suc (wo_asks w)\<rparr>"
  using assms
  unfolding classifyAndAuthorize_def authorize_def authorizeWithConfirmation_def
    authorizeForContextWithConfirmation_def authorizeResolvedRiskForContextWithConfirmation_def
  by (auto simp: seqE_run tryE_run approved_def split: sum.splits option.splits prod.splits)

definition authorizes :: "('l, 'b) cmd_env \<Rightarrow> cliFlags \<Rightarrow> command \<Rightarrow> nat \<Rightarrow> bool" where
  "authorizes E f c n = (\<exists>opn allow action meta tgt. mutation_of c = Some (opn, allow, action) \<and>
     context_of (ce_su E) f c = Inr meta \<and> aims c tgt \<and> approved E (flags_of f c) meta opn tgt (allow tgt) n)"

definition authorized_between ::
  "('l, 'b) cmd_env \<Rightarrow> cliFlags \<Rightarrow> command \<Rightarrow> ('l, 'b) world \<Rightarrow> ('l, 'b) world \<Rightarrow> bool" where
  "authorized_between E f c w w' = (\<exists>n. wo_asks w \<le> n \<and> n < wo_asks w' \<and> authorizes E f c n)"

definition intended_between ::
  "('l \<Rightarrow> safeAuditRecord list) \<Rightarrow> ('l, 'b) cmd_env \<Rightarrow> command \<Rightarrow> ('l, 'b) world \<Rightarrow> ('l, 'b) world \<Rightarrow> bool" where
  "intended_between obs E c w w' = (\<exists>older newer f h now opn allow. mutation_of c = Some (opn, allow, sp_Action (mh_spec h)) \<and>
     obs (au_log (wo_aud w')) = obs (au_log (wo_aud w)) @ older @
       [marshalled_record (handle_record (ce_su E) f now h mutationAuditPhaseIntent None)] @ newer)"

lemma authorized_onward:
  "authorized_between E f c u v \<Longrightarrow> onward obs v w \<Longrightarrow> authorized_between E f c u w"
  "onward obs u v \<Longrightarrow> authorized_between E f c v w \<Longrightarrow> authorized_between E f c u w"
proof -
  assume a: "authorized_between E f c u v" and o: "onward obs v w"
  from a obtain n where "wo_asks u \<le> n" "n < wo_asks v" "authorizes E f c n" unfolding authorized_between_def by blast
  then show "authorized_between E f c u w"
    using o by (auto simp: authorized_between_def onward_def intro!: exI [of _ n])
next
  assume o: "onward obs u v" and a: "authorized_between E f c v w"
  from a obtain n where "wo_asks v \<le> n" "n < wo_asks w" "authorizes E f c n" unfolding authorized_between_def by blast
  then show "authorized_between E f c u w"
    using o by (auto simp: authorized_between_def onward_def intro!: exI [of _ n])
qed

lemma intended_onward:
  assumes "intended_between obs E c u v" and "onward obs v w"
  shows "intended_between obs E c u w"
proof -
  obtain zs where "obs (au_log (wo_aud w)) = obs (au_log (wo_aud v)) @ zs"
    using assms(2) by (auto simp: onward_def prefix_def)
  then show ?thesis using assms(1) unfolding intended_between_def by (metis append.assoc)
qed

lemma onward_intended:
  assumes "onward obs u v" and "intended_between obs E c v w"
  shows "intended_between obs E c u w"
proof -
  obtain zs where "obs (au_log (wo_aud v)) = obs (au_log (wo_aud u)) @ zs"
    using assms(1) by (auto simp: onward_def prefix_def)
  then show ?thesis using assms(2) unfolding intended_between_def by (metis append.assoc)
qed

text \<open>
  A contract of the backends: a relation \<open>R\<close> between states of the brokers that building and closing a
  backend and its read operations keep, such as equality of what is observable.
\<close>

definition read_only :: "('b \<Rightarrow> 'b \<Rightarrow> bool) \<Rightarrow> 'b broker \<Rightarrow> bool" where
  "read_only R B = ((\<forall>g b. reads B g \<longrightarrow> R b (g b)) \<and> (\<forall>b. R b (Close B b)))"

definition reading_contract :: "('l, 'b) cmd_env \<Rightarrow> ('b \<Rightarrow> 'b \<Rightarrow> bool) \<Rightarrow> bool" where
  "reading_contract E R = (\<forall>new b. constructor E new \<longrightarrow>
     R b (snd (new b)) \<and> (\<forall>B. fst (new b) = Inr B \<longrightarrow> read_only R B))"

lemma contract_opens:
  assumes "reading_contract E R" and "constructor E new" and "openBroker tls new w = (r, w')"
  shows "R (wo_broker w) (wo_broker w') \<and> (case r of Inl _ \<Rightarrow> True | Inr cn \<Rightarrow> read_only R (cn_broker cn))"
proof -
  obtain y b where n: "new (wo_broker w) = (y, b)" by (metis surj_pair)
  then have "R (wo_broker w) b" "\<And>B. y = Inr B \<Longrightarrow> read_only R B"
    using assms(1,2) unfolding reading_contract_def by (metis fst_conv snd_conv)+
  then show ?thesis using assms(3) n by (cases y) (auto simp: openBroker_run)
qed

definition contracts :: "('l \<Rightarrow> safeAuditRecord list) \<Rightarrow> ('l, 'b) cmd_env \<Rightarrow> ('b \<Rightarrow> 'b \<Rightarrow> bool) \<Rightarrow> bool" where
  "contracts obs E R = (append_contract (ce_audit E) obs \<and> reading_contract E R \<and> reflp R \<and> transp R)"

text \<open>
  \<open>governed\<close>: the log and the authorizations only go on, and the broker's state changes only when the
  command was authorized and its intent recorded in between. \<open>may\<close> tells whether it may change at all.
\<close>

definition governed ::
  "('l \<Rightarrow> safeAuditRecord list) \<Rightarrow> ('b \<Rightarrow> 'b \<Rightarrow> bool) \<Rightarrow> ('l, 'b) cmd_env \<Rightarrow> cliFlags \<Rightarrow> command \<Rightarrow> bool \<Rightarrow>
   ('l, 'b) world \<Rightarrow> ('l, 'b) world \<Rightarrow> bool" where
  "governed obs R E f c may w w' = (contracts obs E R \<longrightarrow>
     onward obs w w' \<and> (R (wo_broker w) (wo_broker w') \<or>
       (may \<and> authorized_between E f c w w' \<and> intended_between obs E c w w')))"

definition granted_between ::
  "('l \<Rightarrow> safeAuditRecord list) \<Rightarrow> ('b \<Rightarrow> 'b \<Rightarrow> bool) \<Rightarrow> ('l, 'b) cmd_env \<Rightarrow> cliFlags \<Rightarrow> command \<Rightarrow> bool \<Rightarrow>
   ('l, 'b) world \<Rightarrow> ('l, 'b) world \<Rightarrow> bool" where
  "granted_between obs R E f c may w w' = (contracts obs E R \<longrightarrow>
     onward obs w w' \<and> may \<and> authorized_between E f c w w')"

definition licensed_between ::
  "('l \<Rightarrow> safeAuditRecord list) \<Rightarrow> ('b \<Rightarrow> 'b \<Rightarrow> bool) \<Rightarrow> ('l, 'b) cmd_env \<Rightarrow> cliFlags \<Rightarrow> command \<Rightarrow> bool \<Rightarrow>
   ('l, 'b) world \<Rightarrow> ('l, 'b) world \<Rightarrow> bool" where
  "licensed_between obs R E f c may w w' = (contracts obs E R \<longrightarrow>
     onward obs w w' \<and> may \<and> authorized_between E f c w w' \<and> intended_between obs E c w w')"

definition required :: "('l, 'b) cmd_env \<Rightarrow> cliFlags \<Rightarrow> command \<Rightarrow> bool \<Rightarrow>
  cliFlags \<Rightarrow> Context \<Rightarrow> operation \<Rightarrow> class_target \<Rightarrow> string \<Rightarrow> bool" where
  "required E f c may f' meta opn tgt al = (may \<and> f' = flags_of f c \<and> context_of (ce_su E) f c = Inr meta \<and> aims c tgt \<and>
     (\<exists>allow action. mutation_of c = Some (opn, allow, action) \<and> al = allow tgt))"

definition action_of :: "command \<Rightarrow> string \<Rightarrow> bool" where
  "action_of c a = (\<exists>opn allow. mutation_of c = Some (opn, allow, a))"

lemma contracts_refl: "contracts obs E R \<Longrightarrow> R b b"
  by (simp add: contracts_def reflp_def)

lemma governed_onward: "(contracts obs E R \<Longrightarrow> onward obs w w') \<Longrightarrow> wo_broker w' = wo_broker w \<Longrightarrow>
    governed obs R E f c may w w'"
  by (simp add: governed_def contracts_refl)

lemma governed_same: "wo_aud w' = wo_aud w \<Longrightarrow> wo_asks w' = wo_asks w \<Longrightarrow> wo_broker w' = wo_broker w \<Longrightarrow>
    governed obs R E f c may w w'"
  by (rule governed_onward) (simp_all add: onward_def)

lemma governed_kept: "(append_contract (ce_audit E) obs \<Longrightarrow> kept.keeps obs m) \<Longrightarrow>
    governed obs R E f c may w (w\<lparr>wo_aud := snd (m (wo_aud w))\<rparr>)"
  by (rule governed_onward) (simp_all add: onward_audit contracts_def)

lemma governed_broker: "(contracts obs E R \<Longrightarrow> R (wo_broker w) (wo_broker w')) \<Longrightarrow> wo_aud w' = wo_aud w \<Longrightarrow>
    wo_asks w' = wo_asks w \<Longrightarrow> governed obs R E f c may w w'"
  by (simp add: governed_def onward_def)

lemma governed_trans:
  assumes "governed obs R E f c may u v" and "governed obs R E f c may v w"
  shows "governed obs R E f c may u w"
  unfolding governed_def
proof (rule impI)
  assume h: "contracts obs E R"
  then have u: "onward obs u v" and v: "onward obs v w"
    and r: "R (wo_broker u) (wo_broker v) \<or> (may \<and> authorized_between E f c u v \<and> intended_between obs E c u v)"
      "R (wo_broker v) (wo_broker w) \<or> (may \<and> authorized_between E f c v w \<and> intended_between obs E c v w)"
    using assms by (simp_all add: governed_def)
  have "transp R" using h by (simp add: contracts_def)
  then have "R (wo_broker u) (wo_broker w) \<or> (may \<and> authorized_between E f c u w \<and> intended_between obs E c u w)"
    using r transpD authorized_onward(1) [OF _ v] authorized_onward(2) [OF u]
      intended_onward [OF _ v] onward_intended [OF u] by meson
  then show "onward obs u w \<and> (R (wo_broker u) (wo_broker w) \<or>
      (may \<and> authorized_between E f c u w \<and> intended_between obs E c u w))"
    using onward_trans [OF u v] by blast
qed

lemma granted_steps:
  "granted_between obs R E f c may u v \<Longrightarrow> governed obs R E f c may v w \<Longrightarrow> granted_between obs R E f c may u w"
  "governed obs R E f c may u v \<Longrightarrow> granted_between obs R E f c may v w \<Longrightarrow> granted_between obs R E f c may u w"
  "licensed_between obs R E f c may u v \<Longrightarrow> governed obs R E f c may v w \<Longrightarrow> licensed_between obs R E f c may u w"
  unfolding granted_between_def licensed_between_def governed_def
  by (meson authorized_onward intended_onward onward_trans)+

lemma licensed_write: "licensed_between obs R E f c may u v \<Longrightarrow> licensed_between obs R E f c may u (v\<lparr>wo_broker := b\<rparr>)"
  by (simp add: licensed_between_def onward_def authorized_between_def intended_between_def)

lemma governed_write: "licensed_between obs R E f c may u v \<Longrightarrow> governed obs R E f c may u (v\<lparr>wo_broker := b\<rparr>)"
  by (simp add: licensed_between_def governed_def onward_def authorized_between_def intended_between_def)

lemma granted_authorize:
  assumes "required E f c may f' meta opn tgt al" and "classifyAndAuthorize E f' meta opn tgt al w = (Inr (), v)"
  shows "granted_between obs R E f c may w v"
proof -
  note a = authorize_approved [OF assms(2)]
  then have "authorizes E f c (wo_asks w)"
    using assms(1) unfolding required_def authorizes_def by blast
  then show ?thesis
    using a assms(1) by (auto simp: granted_between_def authorized_between_def onward_def required_def)
qed

lemma licensed_begin:
  assumes "action_of c (sp_Action spec)" and "granted_between obs R E f c may u v"
    and b: "beginMutationAudit (ce_audit E) f' spec (wo_aud v) = (Inr h, a)"
  shows "licensed_between obs R E f c may u (v\<lparr>wo_aud := a\<rparr>)"
  unfolding licensed_between_def
proof (rule impI)
  assume h: "contracts obs E R"
  then have ac: "append_contract (ce_audit E) obs" by (simp add: contracts_def)
  have g: "onward obs u v" "may" "authorized_between E f c u v" using assms(2) h by (simp_all add: granted_between_def)
  have "onward obs v (v\<lparr>wo_aud := a\<rparr>)"
    using onward_audit [OF kept_begin [OF ac], of v f' spec] b by simp
  then have ow: "onward obs u (v\<lparr>wo_aud := a\<rparr>)" "authorized_between E f c u (v\<lparr>wo_aud := a\<rparr>)"
    using onward_trans [OF g(1)] authorized_onward(1) [OF g(3)] by blast+
  obtain older now where "mh_spec h = spec" "obs (au_log a) = obs (au_log (wo_aud v)) @ older @
      [marshalled_record (handle_record (ae_su (ce_audit E)) f' now h mutationAuditPhaseIntent None)]"
    using begin_durable [OF ac b] by blast
  then have "intended_between obs E c v (v\<lparr>wo_aud := a\<rparr>)"
    using assms(1) unfolding intended_between_def action_of_def ce_su_def by fastforce
  then show "onward obs u (v\<lparr>wo_aud := a\<rparr>) \<and> may \<and> authorized_between E f c u (v\<lparr>wo_aud := a\<rparr>) \<and>
      intended_between obs E c u (v\<lparr>wo_aud := a\<rparr>)"
    using ow g(2) onward_intended [OF g(1)] by blast
qed

interpretation govern: command_frame "governed obs R E f c may :: ('l, 'b) world \<Rightarrow> _" "governed obs R E f c may" E
  "\<lambda>B. contracts obs E R \<longrightarrow> read_only R B" "granted_between obs R E f c may" "licensed_between obs R E f c may"
  "required E f c may" "action_of c"
  for obs :: "'l \<Rightarrow> safeAuditRecord list" and R :: "'b \<Rightarrow> 'b \<Rightarrow> bool" and E f c may
proof (unfold_locales, goal_cases)
  case (1 w)
  show ?case by (rule governed_same) simp_all
next
  case (2 u v w)
  then show ?case by (rule governed_trans)
next
  case (3 w f spec)
  show ?case by (rule governed_kept) (rule kept_begin)
next
  case (4 w f h oc err)
  show ?case by (rule governed_kept) (rule kept_finish)
next
  case (5 w f t cx n tg st d md err)
  show ?case by (rule governed_kept) (rule kept_warn)
next
  case (6 w)
  show ?case by (rule governed_onward) (simp_all add: onward_def)
next
  case (11 new tls w r w')
  then have "governed obs R E f c may w w'"
    using contract_opens [of E R new tls w r w']
    by (intro governed_broker) (auto simp: contracts_def openBroker_run split: prod.splits sum.splits)
  then show ?case
    using 11 contract_opens [of E R new tls w r w'] by (auto simp: contracts_def split: sum.splits)
next
  case (12 cn u w)
  then have "governed obs R E f c may w (closeBroker cn w)"
    by (intro governed_broker) (auto simp: read_only_def closeBroker_def)
  then show ?case using 12(3) governed_trans by blast
next
  case (13 cn u v w)
  then have "governed obs R E f c may w (closeBroker cn w)"
    by (intro governed_broker) (auto simp: read_only_def closeBroker_def)
  then show ?case using 13(3,4) governed_trans by blast
next
  case (14 B g w)
  then show ?case by (intro governed_broker) (auto simp: read_only_def)
qed (auto intro: governed_same granted_steps licensed_write governed_write granted_authorize licensed_begin
    simp: completeDiagnostics_form notified_def Let_def)

text \<open>What the interface yields for a run that changed a broker.\<close>

lemma change_governed:
  assumes h: "contracts obs E R" and run: "run E f c w = (r, w')" and changed: "\<not> R (wo_broker w) (wo_broker w')"
  shows "\<not> contextPlanOnly f \<and> authorized_between E f c w w' \<and> intended_between obs E c w w'"
proof -
  have "\<not> contextPlanOnly f"
  proof
    assume "contextPlanOnly f"
    then have "govern.keeps obs R E f c False (run E f c)" by (intro govern.keeps_run) blast
    from govern.keepsD [OF this run] show False using h changed by (simp add: governed_def)
  qed
  moreover have "govern.keeps obs R E f c True (run E f c)"
    by (rule govern.keeps_run) (auto simp: govern.licensed_def required_def action_of_def)
  from govern.keepsD [OF this run] have "authorized_between E f c w w' \<and> intended_between obs E c w w'"
    using h changed by (simp add: governed_def)
  ultimately show ?thesis by blast
qed

lemma reading_governed:
  assumes h: "contracts obs E R" and run: "run E f c w = (r, w')" and c: "mutation_of c = None \<or> contextPlanOnly f"
  shows "R (wo_broker w) (wo_broker w')"
proof -
  have "govern.keeps obs R E f c False (run E f c)" using c by (intro govern.keeps_run) blast
  from govern.keepsD [OF this run] show ?thesis using h by (simp add: governed_def)
qed

end
