(* ===== verification/Audit_Idle.thy ===== *)
theory Audit_Idle
  imports Audit_Liveness
begin

text \<open>
  A healthy machine with an empty spool stays one: intents and outcomes are written one after the other.
\<close>

definition idle :: "'l audit_env \<Rightarrow> 'l aud \<Rightarrow> bool" where
  "idle E a = ((\<exists>rec. ready E rec a) \<and> (\<forall>n. recordFile n \<longrightarrow> find_file n a = None))"

definition same_spool :: "'l aud \<Rightarrow> 'l aud \<Rightarrow> bool" where
  "same_spool a a' = (au_files a' = au_files a \<and> au_spool_dir a' = au_spool_dir a \<and> au_ancestors a' = au_ancestors a)"

lemma idle_same: "idle E a \<Longrightarrow> same_spool a a' \<Longrightarrow> idle E a'"
proof -
  assume "idle E a" and s: "same_spool a a'"
  then obtain rec where r: "ready E rec a" and n: "\<And>n. recordFile n \<Longrightarrow> find_file n a = None" by (auto simp: idle_def)
  have find: "find_file n a' = find_file n a" for n using s by (simp add: same_spool_def find_file_def)
  have "spool_in_order E a' rec"
    using in_order_cong(1) [of E a rec a'] r s by (simp add: ready_def find same_spool_def spool_in_order_def)
  then have "ready E rec a'" using r s by (simp add: ready_def find same_spool_def)
  then show ?thesis using n find by (auto simp: idle_def)
qed

lemma idle_locked: "idle E a \<Longrightarrow> idle E (locked E a)"
proof -
  assume "idle E a"
  then obtain rec where r: "ready E rec a" and n: "\<And>n. recordFile n \<Longrightarrow> find_file n a = None" by (auto simp: idle_def)
  have anc: "au_ancestors (locked E a) = au_ancestors a"
    by (simp add: locked_def touchLockFile_def chmod_file_def put_file_def split: option.split)
  have lock: "lockable E (case find_file lockFileName (locked E a) of Some lock \<Rightarrow> sf_info lock | None \<Rightarrow> ae_lock_info E)"
    using r by (auto simp: ready_def locked_def chmod_file_def lockable_def split: option.splits)
  have "spool_in_order E (locked E a) rec"
    using in_order_cong(1) [of E a rec "locked E a"] r locked_distinct [of a E]
    by (simp add: ready_def find_locked locked_same spool_in_order_def)
  then have "ready E rec (locked E a)" using r lock by (simp add: ready_def anc)
  moreover have "recordFile m \<Longrightarrow> find_file m (locked E a) = None" for m
    using n [of m] find_locked [of m E a] by (auto simp: recordFile_def)
  ultimately show ?thesis by (auto simp: idle_def)
qed

lemma queue_exact:
  assumes h: "healthy E obs" and r: "ready E rec a"
  obtains t where "\<And>x a'. action ((locked E a)\<lparr>au_tick := t\<rparr>) = (Inr x, a') \<Longrightarrow>
    withQueueLock E msg action a = (Inr x, a'\<lparr>au_tick := Suc (au_tick a')\<rparr>)"
proof -
  obtain t where acq: "acquireMutationAuditQueue E a = (Inr (), (locked E a)\<lparr>au_tick := t\<rparr>)"
    using acquire_ok [OF h r] by blast
  obtain sd where sd: "au_spool_dir a = Some sd" "spoolDirectoryCheck E sd (spoolPath E) = None"
    using r by (auto simp: ready_def spool_in_order_def)
  have ver: "verifyMutationSpoolDirectory E ((locked E a)\<lparr>au_tick := t\<rparr>) = (Inr (), (locked E a)\<lparr>au_tick := Suc t\<rparr>)"
    using sd h by (simp add: verifyMutationSpoolDirectory_def seqE_run sys_io_def healthy_sys check_def locked_same)
  show thesis
  proof (rule that [of "Suc t"])
    fix x a' assume a': "action ((locked E a)\<lparr>au_tick := Suc t\<rparr>) = (Inr x, a')"
    have "releaseMutationAuditLock E 20 a' = (Inr (), a'\<lparr>au_tick := Suc (au_tick a')\<rparr>)"
      using h by (simp add: numeral_eq_Suc tryE_run healthy_sys)
    then show "withQueueLock E msg action a = (Inr x, a'\<lparr>au_tick := Suc (au_tick a')\<rparr>)"
      using acq ver a' by (simp add: withQueueLock_def seqE_run tryE_run)
  qed
qed

text \<open>With an empty spool the replay changes nothing but the count of system calls.\<close>

lemma replayNames_members: "replayNames es = Inr names \<Longrightarrow> n \<in> set names \<Longrightarrow> recordFile n \<and> n \<in> fst ` set es"
  by (induction es arbitrary: names) (auto simp: recordFile_def Let_def split: if_splits sum.splits prod.splits)

lemma replay_idle:
  assumes h: "healthy E obs" and i: "idle E a"
  shows "\<exists>a'. replayMutationAuditSpoolLocked E f a = (Inr (), a') \<and> same_store a a'"
proof -
  obtain rec where r: "spool_in_order E a rec" and n: "\<And>n. recordFile n \<Longrightarrow> find_file n a = None"
    using i by (auto simp: idle_def ready_def)
  obtain a' where rep: "replayMutationAuditSpoolLocked E f a = (Inr (), a')"
    using replay_complete [of E obs a rec f, OF _ healthy_faults [OF h] r] h by (auto simp: healthy_def)
  have none: "names = []" if "replayNames (readDir a) = Inr names" for names
  proof (rule ccontr)
    assume "names \<noteq> []"
    then obtain m where "m \<in> set names" by fastforce
    then have "recordFile m" "m \<in> fst ` set (readDir a)" using replayNames_members [OF that] by blast+
    moreover from this have "find_file m a \<noteq> None"
      by (simp add: readDir_def find_file_def map_of_eq_None_iff)
    ultimately show False using n [of m] by simp
  qed
  have "same_store a a'"
    using replay_cases [OF rep]
  proof (elim disjE exE conjE)
    fix a1 names
    assume s: "same_store a a1" "replayNames (readDir a) = Inr names" "replayLoop E f (sort names) a1 = (Inr (), a')"
    then show ?thesis using none by simp
  qed
  then show ?thesis using rep by blast
qed

lemma same_store_spool: "same_store a a' \<Longrightarrow> same_spool a a'"
  by (simp add: same_store_def same_spool_def)

lemma same_spool_trans: "same_spool a b \<Longrightarrow> same_spool b c \<Longrightarrow> same_spool a c"
  by (simp add: same_spool_def)

lemma idle_append:
  assumes h: "healthy E obs" and "validateSafeAuditRecord r = None"
  shows "\<exists>a'. appendMutationAuditRecord E f r a = (Inr (), a') \<and> same_spool a a' \<and>
    obs (au_log a') = obs (au_log a) @ [marshalled_record r]"
proof -
  obtain l where "appendMutationAuditRecord E f r a = (Inr (), a\<lparr>au_tick := Suc (au_tick a), au_log := l\<rparr>)"
    "obs l = obs (au_log a) @ [marshalled_record r]"
    using append_ok [of E obs a r f, OF _ healthy_faults [OF h] assms(2)] h unfolding healthy_def by blast
  then show ?thesis by (auto simp: same_spool_def)
qed

lemma idle_queue:
  assumes h: "healthy E obs" and i: "idle E a"
    and act: "\<And>t. \<exists>x a'. action ((locked E a)\<lparr>au_tick := t\<rparr>) = (Inr x, a') \<and> same_spool (locked E a) a' \<and> P x (au_log a')"
  shows "\<exists>x a'. withQueueLock E msg action a = (Inr x, a') \<and> idle E a' \<and> P x (au_log a')"
proof -
  obtain rec where r: "ready E rec a" using i by (auto simp: idle_def)
  obtain t where q: "\<And>x a'. action ((locked E a)\<lparr>au_tick := t\<rparr>) = (Inr x, a') \<Longrightarrow>
      withQueueLock E msg action a = (Inr x, a'\<lparr>au_tick := Suc (au_tick a')\<rparr>)"
    using queue_exact [OF h r] by blast
  obtain x a' where "action ((locked E a)\<lparr>au_tick := t\<rparr>) = (Inr x, a')" and s: "same_spool (locked E a) a'" "P x (au_log a')"
    using act by blast
  note fin = q [OF this(1)]
  have "idle E (a'\<lparr>au_tick := k\<rparr>)" for k
    using idle_same [OF idle_locked [OF i], of "a'\<lparr>au_tick := k\<rparr>"] s(1) by (simp add: same_spool_def)
  then show ?thesis using fin s(2) by auto
qed

lemma replay_locked_idle:
  assumes h: "healthy E obs" and i: "idle E a"
  shows "\<exists>b. replayMutationAuditSpoolLocked E f ((locked E a)\<lparr>au_tick := t, au_entered := e\<rparr>) = (Inr (), b) \<and>
    same_spool (locked E a) b \<and> au_log b = au_log a"
proof -
  let ?a = "(locked E a)\<lparr>au_tick := t, au_entered := e\<rparr>"
  have "idle E ?a" by (rule idle_same [OF idle_locked [OF i]]) (simp add: same_spool_def)
  from replay_idle [OF h this] show ?thesis by (auto simp: same_store_def same_spool_def locked_same)
qed

lemma idle_begin:
  assumes h: "healthy E obs" and i: "idle E a" and path: "resolveAuditPath E spec = Inr path"
    and action: "trim_space (sp_Action spec) \<noteq> ''''"
  shows "\<exists>k a'. beginMutationAudit E f spec a = (Inr k, a') \<and> idle E a' \<and> mh_spec k = spec \<and>
    (\<exists>now. obs (au_log a') = obs (au_log a) @
      [marshalled_record (handle_record (ae_su E) f now k mutationAuditPhaseIntent None)])"
proof -
  let ?done = "\<lambda>k l. mh_spec k = spec \<and> (\<exists>now. obs l = obs (au_log a) @
      [marshalled_record (handle_record (ae_su E) f now k mutationAuditPhaseIntent None)])"
  let ?action = "tryE (replayMutationAuditSpoolLocked E f) (\<lambda>replayed.
         case replayed of
           Inl _ \<Rightarrow> throw (auditIncompleteError '''' False)
         | Inr _ \<Rightarrow>
             seqE (newMutationID_op E) (\<lambda>id.
             seqE (now_op E) (\<lambda>now.
             let k = \<lparr>mh_id = id, mh_path = path, mh_spec = spec\<rparr> in
             tryE (appendMutationAuditRecord E f
                    (handle_record (ae_su E) f now k mutationAuditPhaseIntent None)) (\<lambda>appended.
             case appended of
               Inr _ \<Rightarrow> ret k
             | Inl e \<Rightarrow> intentNotPersisted E f k e))))"
  have "\<exists>x a'. ?action ((locked E a)\<lparr>au_tick := t\<rparr>) = (Inr x, a') \<and> same_spool (locked E a) a' \<and> ?done x (au_log a')" for t
  proof -
    obtain b where rep: "replayMutationAuditSpoolLocked E f ((locked E a)\<lparr>au_tick := t\<rparr>) = (Inr (), b)"
      and b: "same_spool (locked E a) b" "au_log b = au_log a"
      using replay_locked_idle [OF h i, of f "au_entered (locked E a)" t] by auto
    obtain bytes where id: "ae_random E (au_rand b) = Some bytes" using h by (auto simp: healthy_def)
    let ?k = "\<lparr>mh_id = hex_encode bytes, mh_path = path, mh_spec = spec\<rparr>"
    let ?b = "b\<lparr>au_rand := Suc (au_rand b), au_time := Suc (au_time b)\<rparr>" and ?now = "ae_clock E (au_time b)"
    obtain c where app: "appendMutationAuditRecord E f (handle_record (ae_su E) f ?now ?k mutationAuditPhaseIntent None) ?b = (Inr (), c)"
      and c: "same_spool ?b c"
        "obs (au_log c) = obs (au_log ?b) @ [marshalled_record (handle_record (ae_su E) f ?now ?k mutationAuditPhaseIntent None)]"
      using idle_append [OF h handle_record_safe] by blast
    have "?action ((locked E a)\<lparr>au_tick := t\<rparr>) = (Inr ?k, c)"
      using rep id app by (simp add: tryE_run seqE_run newMutationID_op_def newMutationID_def now_op_def Let_def)
    moreover have "same_spool (locked E a) c" using b(1) c(1) by (simp add: same_spool_def)
    ultimately show ?thesis using b(2) c(2) by auto
  qed
  from idle_queue [OF h i, of ?action ?done, OF this, of "''failed to release mutation audit queue lock''"]
  obtain k a' where "withMutationAuditQueue E ?action a = (Inr k, a')" "idle E a'" "?done k (au_log a')"
    unfolding withMutationAuditQueue_def by blast
  moreover from this(1) have "beginMutationAudit E f spec a = (Inr k, a')"
    using path action by (simp add: beginMutationAudit_def seqE_run)
  ultimately show ?thesis by blast
qed

lemma idle_finish:
  assumes h: "healthy E obs" and i: "idle E a"
  shows "\<exists>a'. finishMutationAudit E f k oc err a = (Inr (), a') \<and> idle E a' \<and>
    (\<exists>now. obs (au_log a') = obs (au_log a) @
      [marshalled_record (outcomeRecord E f now k (normalizeMutationAuditOutcome (ae_asApp E) oc err))])"
proof -
  let ?oc = "normalizeMutationAuditOutcome (ae_asApp E) oc err"
  let ?a = "a\<lparr>au_entered := False\<rparr>"
  let ?done = "\<lambda>(x :: unit) l. \<exists>now. obs l = obs (au_log a) @ [marshalled_record (outcomeRecord E f now k ?oc)]"
  let ?action = "seqE (modS (\<lambda>a. a\<lparr>au_entered := True\<rparr>)) (\<lambda>_. persistOutcome E f k ?oc)"
  have i0: "idle E ?a" by (rule idle_same [OF i]) (simp add: same_spool_def)
  have "\<exists>x a'. ?action ((locked E ?a)\<lparr>au_tick := t\<rparr>) = (Inr x, a') \<and> same_spool (locked E ?a) a' \<and> ?done x (au_log a')" for t
  proof -
    obtain b where rep: "replayMutationAuditSpoolLocked E f ((locked E ?a)\<lparr>au_tick := t, au_entered := True\<rparr>) = (Inr (), b)"
      and b: "same_spool (locked E ?a) b" "au_log b = au_log a"
      using replay_locked_idle [OF h i0, of f True t] by auto
    let ?b = "b\<lparr>au_time := Suc (au_time b)\<rparr>"
    let ?r = "outcomeRecord E f (ae_clock E (au_time b)) k ?oc"
    have "validateSafeAuditRecord ?r = None" unfolding outcomeRecord_def by (rule handle_record_safe)
    then obtain c where app: "appendMutationAuditRecord E f ?r ?b = (Inr (), c)" and c: "same_spool ?b c"
        "obs (au_log c) = obs (au_log ?b) @ [marshalled_record ?r]"
      using idle_append [OF h] by blast
    have "?action ((locked E ?a)\<lparr>au_tick := t\<rparr>) = (Inr (), c)"
      using rep app by (simp add: tryE_run seqE_run persistOutcome_def clock_result Let_def)
    moreover have "same_spool (locked E ?a) c" using b(1) c(1) by (simp add: same_spool_def)
    ultimately show ?thesis using b(2) c(2) by auto
  qed
  from idle_queue [OF h i0, of ?action ?done, OF this, of "''failed to release mutation audit queue lock''"]
  obtain x a' where q: "withMutationAuditQueue E ?action ?a = (Inr x, a')" and "idle E a'" "?done x (au_log a')"
    unfolding withMutationAuditQueue_def by blast
  moreover from q have "finishMutationAudit E f k oc err a = (Inr (), a')"
    by (simp add: finishMutationAudit_def seqE_run tryE_run Let_def)
  ultimately show ?thesis by blast
qed

end
