(* ===== verification/Command_Live.thy ===== *)
theory Command_Live
  imports Command_Laws Audit_Idle Fake_Laws
begin

text \<open>
  Commands when nothing fails: on a healthy machine with an empty spool, with authorizations granted and
  an in-memory backend, a command returns and leaves its records in the log in order.
\<close>

section \<open>The log as a trail\<close>

type_synonym mark = "string \<times> string \<times> audit_status"

definition mark_of :: "safeAuditRecord \<Rightarrow> mark" where
  "mark_of r = (ar_Action r, ar_Phase r, ev_Status (ar_Event r))"

definition trail :: "('l \<Rightarrow> safeAuditRecord list) \<Rightarrow> ('l, 'b) world \<Rightarrow> mark list" where
  "trail obs w = map mark_of (obs (au_log (wo_aud w)))"

definition standing :: "('l, 'b) cmd_env \<Rightarrow> ('l \<Rightarrow> safeAuditRecord list) \<Rightarrow> 'b \<Rightarrow> mark list \<Rightarrow> ('l, 'b) world \<Rightarrow> bool" where
  "standing E obs b tr w = (wo_broker w = b \<and> idle (ce_audit E) (wo_aud w) \<and> trail obs w = tr)"

text \<open>A machine on which nothing fails and authorizations are granted to those who give the flags they need.\<close>

definition flags_given :: "cliFlags \<Rightarrow> string \<Rightarrow> bool" where
  "flags_given f al = (al = '''' \<or> (al, True) \<in> set (grantedAllowFlags f))"

definition obliging :: "('l, 'b) cmd_env \<Rightarrow> ('l \<Rightarrow> safeAuditRecord list) \<Rightarrow> cliFlags \<Rightarrow> bool" where
  "obliging E obs f = (healthy (ce_audit E) obs \<and> (\<forall>n r x. so_GrantedAllowFlags x = grantedAllowFlags f \<longrightarrow>
     (\<forall>al \<in> set (so_RequiredAllowFlags x). (al, True) \<in> set (grantedAllowFlags f)) \<longrightarrow> ce_authorize E n r x = None) \<and>
     (\<forall>n. ce_print E n = None) \<and>
     \<not> isl (trustedOperatorIdentity (ce_su E) f) \<and> \<not> isl (ae_default_path (ce_audit E)))"

lemma mark_marshalled: "mark_of (marshalled_record r) = mark_of r"
  by (simp add: mark_of_def marshalled_record_def)

lemma mark_handle: "mark_of (handle_record su f now k phase oc) =
    (sp_Action (mh_spec k), phase, case oc of Some x \<Rightarrow> oc_Status x | None \<Rightarrow> StatusPending)"
  by (simp add: mark_of_def handle_record_fields)

lemma standing_same: "standing E obs b tr w \<Longrightarrow> wo_broker w' = b \<Longrightarrow> wo_aud w' = wo_aud w \<Longrightarrow> standing E obs b tr w'"
  by (simp add: standing_def trail_def)

lemma standing_write: "standing E obs b tr w \<Longrightarrow> standing E obs b' tr (w\<lparr>wo_broker := b'\<rparr>)"
  by (simp add: standing_def trail_def)

lemma authorize_granted:
  assumes "obliging E obs f" and "flags_given f al"
  shows "authorize E f r meta al w = (Inr (), w\<lparr>wo_asks := Suc (wo_asks w)\<rparr>)"
    and "classifyAndAuthorize E f meta opn tgt al w = (Inr (), w\<lparr>wo_asks := Suc (wo_asks w)\<rparr>)"
  using assms
  unfolding classifyAndAuthorize_def authorize_def authorizeWithConfirmation_def authorizeForContextWithConfirmation_def
    authorizeResolvedRiskForContextWithConfirmation_def
  by (auto simp: obliging_def flags_given_def seqE_run safetyOptions_def requiredAllow_def split: sum.split)

lemma live_begin:
  assumes o: "obliging E obs f" and s: "standing E obs b tr w" and a: "trim_space (sp_Action spec) \<noteq> ''''"
  shows "\<exists>k w'. beginMutation E f spec w = (Inr k, w') \<and> mh_spec k = spec \<and>
    standing E obs b (tr @ [(sp_Action spec, mutationAuditPhaseIntent, StatusPending)]) w'"
proof -
  have h: "healthy (ce_audit E) obs" using o by (simp add: obliging_def)
  obtain q where "ae_default_path (ce_audit E) = Inr q"
    using o by (cases "ae_default_path (ce_audit E)") (auto simp: obliging_def)
  then have "\<exists>path. resolveAuditPath (ce_audit E) spec = Inr path" by (simp add: resolveAuditPath_def Let_def)
  then obtain path where "resolveAuditPath (ce_audit E) spec = Inr path" by blast
  from idle_begin [OF h _ this a, of "wo_aud w" f] s obtain k a' now where
    "beginMutationAudit (ce_audit E) f spec (wo_aud w) = (Inr k, a')" "idle (ce_audit E) a'" "mh_spec k = spec"
    "obs (au_log a') = obs (au_log (wo_aud w)) @
      [marshalled_record (handle_record (ae_su (ce_audit E)) f now k mutationAuditPhaseIntent None)]"
    by (auto simp: standing_def)
  then show ?thesis
    using s by (intro exI [of _ k] exI [of _ "w\<lparr>wo_aud := a'\<rparr>"])
      (simp add: beginMutation_def audit_def zoom_run standing_def trail_def mark_marshalled mark_handle)
qed

lemma live_finishing:
  assumes o: "obliging E obs f" and s: "standing E obs b tr w" and u: "oc_Status oc = StatusUnset"
  shows "\<exists>a'. finishMutationAudit (ce_audit E) f k oc None (wo_aud w) = (Inr (), a') \<and>
    standing E obs b (tr @ [(sp_Action (mh_spec k), mutationAuditPhaseOutcome, StatusSuccess)]) (w\<lparr>wo_aud := a'\<rparr>)"
proof -
  have h: "healthy (ce_audit E) obs" using o by (simp add: obliging_def)
  have st: "oc_Status (normalizeMutationAuditOutcome (ae_asApp (ce_audit E)) oc None) = StatusSuccess"
    using u by (simp add: normalizeMutationAuditOutcome_def mutationAuditStatus_def Let_def)
  from idle_finish [OF h, of "wo_aud w" f k oc None] s obtain a' now where
    "finishMutationAudit (ce_audit E) f k oc None (wo_aud w) = (Inr (), a')" "idle (ce_audit E) a'"
    "obs (au_log a') = obs (au_log (wo_aud w)) @
      [marshalled_record (outcomeRecord (ce_audit E) f now k (normalizeMutationAuditOutcome (ae_asApp (ce_audit E)) oc None))]"
    by (auto simp: standing_def)
  then show ?thesis
    using s st by (intro exI [of _ a'])
      (simp add: standing_def trail_def mark_marshalled mark_handle outcomeRecord_def)
qed

lemma live_finish:
  assumes "obliging E obs f" and "standing E obs b tr w" and "oc_Status oc = StatusUnset"
  shows "\<exists>w'. finishMutation E f k oc None w = (Inr (), w') \<and>
    standing E obs b (tr @ [(sp_Action (mh_spec k), mutationAuditPhaseOutcome, StatusSuccess)]) w'"
proof -
  obtain a' where a: "finishMutationAudit (ce_audit E) f k oc None (wo_aud w) = (Inr (), a')"
    "standing E obs b (tr @ [(sp_Action (mh_spec k), mutationAuditPhaseOutcome, StatusSuccess)]) (w\<lparr>wo_aud := a'\<rparr>)"
    using live_finishing [OF assms] by blast
  then show ?thesis
    by (intro exI [of _ "w\<lparr>wo_aud := a'\<rparr>"])
      (simp add: finishMutation_def callE_run audit_def zoom_run check_def finishReturn_def)
qed

lemma live_accessed:
  assumes o: "obliging E obs f" and s: "standing E obs b tr w" and a: "trim_space (rs_Action spec) \<noteq> ''''"
    and m: "\<And>v. standing E obs b (tr @ [(rs_Action spec, mutationAuditPhaseIntent, StatusPending)]) v \<Longrightarrow>
      \<exists>v'. operation v = ((x, None), v') \<and>
        standing E obs b (tr @ [(rs_Action spec, mutationAuditPhaseIntent, StatusPending)]) v'"
  shows "\<exists>w'. accessed E f spec z operation n w = ((x, None), w') \<and>
    standing E obs b (tr @ [(rs_Action spec, mutationAuditPhaseIntent, StatusPending),
      (rs_Action spec, mutationAuditPhaseOutcome, StatusSuccess)]) w'"
proof -
  let ?spec = "readMutationSpec spec"
  have "trim_space (sp_Action ?spec) \<noteq> ''''" "sp_Action ?spec = rs_Action spec"
    using a by (simp_all add: readMutationSpec_def)
  from live_begin [OF o s this(1)] this(2) obtain k v where
    v: "beginMutation E f ?spec w = (Inr k, v)" "mh_spec k = ?spec" "sp_Action ?spec = rs_Action spec"
      "standing E obs b (tr @ [(rs_Action spec, mutationAuditPhaseIntent, StatusPending)]) v"
    by auto
  let ?h = "\<lparr>rh_mutation = k, rh_diagnostics = length (wo_buffers v), rh_previous = wo_diag v\<rparr>"
  let ?v = "v\<lparr>wo_diag := Some (length (wo_buffers v)), wo_buffers := wo_buffers v @ [newReadDiagnosticBuffer]\<rparr>"
  have begun: "beginReadAudit E f spec w = (Inr ?h, ?v)"
    using v(1) by (simp add: beginReadAudit_def beginMutation_def tryE_run seqE_run)
  have "standing E obs b (tr @ [(rs_Action spec, mutationAuditPhaseIntent, StatusPending)]) ?v"
    by (rule standing_same [OF v(4)]) (use v(4) in \<open>simp_all add: standing_def\<close>)
  from m [OF this] obtain v' where v': "operation ?v = ((x, None), v')"
    "standing E obs b (tr @ [(rs_Action spec, mutationAuditPhaseIntent, StatusPending)]) v'" by blast
  let ?oc = "singleReadAuditOutcome (n x) None"
  have "oc_Status ?oc = StatusUnset" by (simp add: singleReadAuditOutcome_def empty_outcome_def Let_def)
  from live_finishing [OF o v'(2) this, of k] v(2,3) obtain a' where
    a': "finishMutationAudit (ce_audit E) f k ?oc None (wo_aud v') = (Inr (), a')"
    "standing E obs b (tr @ [(rs_Action spec, mutationAuditPhaseIntent, StatusPending),
      (rs_Action spec, mutationAuditPhaseOutcome, StatusSuccess)]) (v'\<lparr>wo_aud := a'\<rparr>)"
    by auto
  let ?w = "completeDiagnostics ?h True (v'\<lparr>wo_aud := a'\<rparr>)"
  have "finishReadAudit E f ?h (n x) None v' = (Inr (), ?w)"
    using a'(1) by (simp add: finishReadAudit_def persistReadAuditOutcome_def seqE_run tryE_run audit_def zoom_run check_def)
  moreover have "standing E obs b (tr @ [(rs_Action spec, mutationAuditPhaseIntent, StatusPending),
      (rs_Action spec, mutationAuditPhaseOutcome, StatusSuccess)]) ?w"
    by (rule standing_same [OF a'(2)]) (use a'(2) in \<open>simp_all add: completeDiagnostics_form Let_def standing_def\<close>)
  ultimately show ?thesis
    using begun v'(1) by (simp add: accessed_def stepC_run callE_run)
qed

section \<open>The in-memory backend\<close>

text \<open>The flags and the context choose the in-memory backend, which is built as it stands and whose scope fits.\<close>

definition fake_conn :: "fake connection" where
  "fake_conn = \<lparr>cn_broker = fake_broker, cn_notify = None\<rparr>"

definition fake_scope :: "cliFlags \<Rightarrow> Context \<Rightarrow> fake \<Rightarrow> Description" where
  "fake_scope f meta b = \<lparr>de_Backend = ''fake'',
     de_Cluster = firstNonEmpty [fk_cluster b, firstNonEmpty [fl_Cluster f, cx_Cluster meta]],
     de_Namespace = firstNonEmpty [fk_namespace b, firstNonEmpty [fl_Namespace f, cx_Namespace meta]]\<rparr>"

definition fake_coordinate :: "cliFlags \<Rightarrow> Context \<Rightarrow> fake \<Rightarrow> string \<Rightarrow> TopicCoordinate" where
  "fake_coordinate f meta b topic = \<lparr>tc_Cluster = de_Cluster (fake_scope f meta b),
     tc_Namespace = de_Namespace (fake_scope f meta b), tc_Topic = topic\<rparr>"

definition on_fake :: "('l, fake) cmd_env \<Rightarrow> cliFlags \<Rightarrow> Context \<Rightarrow> string \<Rightarrow> fake \<Rightarrow> bool" where
  "on_fake E f meta name b = (resolvedContext (ce_su E) f = Inr (meta, name) \<and>
     expectedBackend f meta = ''fake'' \<and> (\<forall>c n s. ce_new_fake E c n s = (Inr fake_broker, s)) \<and>
     \<not> conflicting (firstNonEmpty [fl_Cluster f, cx_Cluster meta]) (fk_cluster b) \<and>
     \<not> conflicting (firstNonEmpty [fl_Namespace f, cx_Namespace meta]) (fk_namespace b))"

lemma live_build:
  assumes "on_fake E f meta name b" and "standing E obs b tr w"
  shows "\<exists>w'. buildBrokerForResolvedContext E f meta name w = (Inr fake_conn, w') \<and> standing E obs b tr w'"
  using assms
  by (auto simp: on_fake_def buildBrokerForResolvedContext_def expectedBackend_def openBroker_def fake_conn_def Let_def
      intro: standing_same simp: standing_def trail_def)

lemma fake_conn_run:
  "describe fake_conn w = fake_Describe (wo_broker w)" "capabilities fake_conn w = fake_Capabilities (wo_broker w)"
  "cn_notify fake_conn = None"
  by (simp_all add: describe_def capabilities_def fake_conn_def fake_broker_def)

lemma topicCoord_fake:
  assumes "on_fake E f meta name (wo_broker w)" and "validateTopicName topic = None"
  shows "topicCoord f meta fake_conn topic w = (Inr (fake_coordinate f meta (wo_broker w) topic), w)"
  using assms
  by (simp add: topicCoord_def canonicalBrokerScope_def seqE_run check_def fake_conn_run fake_Describe_def fake_Capabilities_def
      on_fake_def Let_def fake_coordinate_def fake_scope_def)

lemma live_closing:
  assumes "m w = (r, w')" and "standing E obs b tr w'"
  shows "\<exists>w''. closing fake_conn m w = (r, w'') \<and> standing E obs b tr w''"
  using assms
  by (auto simp: closing_def closeBroker_def fake_conn_def fake_broker_def standing_def trail_def)

lemma live_print:
  assumes "obliging E obs f" and "standing E obs b tr w"
  shows "\<exists>w'. targetJSONData E f kd v t md w = (Inr (), w') \<and> standing E obs b tr w'"
  using assms
  by (auto simp: targetJSONData_def printOperationTarget_def printed_def seqE_run obliging_def Let_def standing_def trail_def)

section \<open>Creating a topic\<close>

definition marks :: "string \<Rightarrow> mark list" where
  "marks action = [(action, mutationAuditPhaseIntent, StatusPending), (action, mutationAuditPhaseOutcome, StatusSuccess)]"

text \<open>A preflight that opens the in-memory backend and reads from it.\<close>

lemma live_preflight:
  assumes o: "obliging E obs f" and k: "on_fake E f meta name b" and s: "standing E obs b tr w"
    and a: "trim_space (rs_Action spec) \<noteq> ''''"
    and m: "\<And>tr v. standing E obs b tr v \<Longrightarrow> \<exists>v'. operation fake_conn meta v = ((x, None), v') \<and> standing E obs b tr v'"
  shows "\<exists>w'. runMandatoryBrokerPreflight E f spec z operation n w =
      (Inr \<lparr>pf_Backend = fake_conn, pf_Context = meta,
         pf_Target = operationTargetFromDescription name (fake_Describe b), pf_Value = x\<rparr>, w') \<and>
    standing E obs b (tr @ marks (rs_Action spec)) w'"
proof -
  let ?p = "\<lparr>pf_Backend = fake_conn, pf_Context = meta,
         pf_Target = operationTargetFromDescription name (fake_Describe b), pf_Value = x\<rparr>"
  let ?spec = "readSpecFor spec meta name" and ?n = "\<lambda>r. n (case r of None \<Rightarrow> z | Some p \<Rightarrow> pf_Value p)"
  have act: "rs_Action ?spec = rs_Action spec" by (simp add: readSpecFor_def)
  have step: "\<exists>v'. preflightStep E f meta name operation v = ((Some ?p, None), v') \<and> standing E obs b tr v'"
    if v: "standing E obs b tr v" for tr v
  proof -
    have "standing E obs b tr (v\<lparr>wo_asks := Suc (wo_asks v)\<rparr>)"
      by (rule standing_same [OF v]) (use v in \<open>simp_all add: standing_def\<close>)
    from live_build [OF k this] obtain v1 where
      v1: "buildBrokerForResolvedContext E f meta name (v\<lparr>wo_asks := Suc (wo_asks v)\<rparr>) = (Inr fake_conn, v1)"
        "standing E obs b tr v1" by blast
    from m [OF v1(2)] obtain v2 where v2: "operation fake_conn meta v1 = ((x, None), v2)" "standing E obs b tr v2" by blast
    then show ?thesis
      using v1(1) by (simp add: preflightStep_def stepC_run callE_run authorize_granted [OF o, of "''''"] flags_given_def fake_conn_run standing_def)
  qed
  have "\<exists>w'. accessed E f ?spec None (preflightStep E f meta name operation) ?n w = ((Some ?p, None), w') \<and>
      standing E obs b (tr @ [(rs_Action ?spec, mutationAuditPhaseIntent, StatusPending),
        (rs_Action ?spec, mutationAuditPhaseOutcome, StatusSuccess)]) w'"
    using a by (intro live_accessed [OF o s] step) (simp_all add: act)
  then show ?thesis
    using k by (auto simp: runMandatoryBrokerPreflight_def seqE_run callE_run on_fake_def marks_def act)
qed

definition creation_request :: "cliFlags \<Rightarrow> Context \<Rightarrow> fake \<Rightarrow> int \<Rightarrow> string \<Rightarrow> TopicCreateRequest" where
  "creation_request f meta b partitions topic = \<lparr>tcr_Coordinate = fake_coordinate f meta b topic,
     tcr_Partitions = partitions, tcr_Config = [], tcr_Protected = isProtectedTopic meta topic zero_TopicDescription\<rparr>"

text \<open>What the mutating commands do after the preflight.\<close>

lemma live_mutation:
  assumes o: "obliging E obs f" and s: "standing E obs b tr v" and a: "trim_space (sp_Action spec) \<noteq> ''''"
    and g: "flags_given f al" and m: "m b = (q, b')" and u: "oc_Status oc = StatusUnset"
    and k: "\<And>h. k h q = seqE (finishMutation E f h oc None) (\<lambda>_. targetJSONData E f kd val t operationTargetWrite)"
  shows "\<exists>w'. closing fake_conn (seqE (classifyAndAuthorize E f meta opn tgt al) (\<lambda>_. seqE (beginMutation E f spec) (\<lambda>h.
      callE (broker_call E fake_conn m) (k h)))) v = (Inr (), w') \<and> standing E obs b' (tr @ marks (sp_Action spec)) w'"
proof -
  let ?m = "seqE (classifyAndAuthorize E f meta opn tgt al) (\<lambda>_. seqE (beginMutation E f spec) (\<lambda>h.
      callE (broker_call E fake_conn m) (k h)))"
  have v1: "standing E obs b tr (v\<lparr>wo_asks := Suc (wo_asks v)\<rparr>)"
    by (rule standing_same [OF s]) (use s in \<open>simp_all add: standing_def\<close>)
  obtain h v2 where v2: "beginMutation E f spec (v\<lparr>wo_asks := Suc (wo_asks v)\<rparr>) = (Inr h, v2)" "mh_spec h = spec"
    "standing E obs b (tr @ [(sp_Action spec, mutationAuditPhaseIntent, StatusPending)]) v2"
    using live_begin [OF o v1 a] by auto
  let ?v3 = "notified E None (v2\<lparr>wo_broker := b'\<rparr>)"
  have call: "broker_call E fake_conn m v2 = (q, ?v3)"
    using m v2(3) by (simp add: broker_call_def fake_conn_def standing_def)
  have "standing E obs b' (tr @ [(sp_Action spec, mutationAuditPhaseIntent, StatusPending)]) ?v3"
    using v2(3) by (simp add: standing_def trail_def notified_def)
  from live_finish [OF o this u, of h] obtain v4 where
    v4: "finishMutation E f h oc None ?v3 = (Inr (), v4)" "standing E obs b' (tr @ marks (sp_Action spec)) v4"
    using v2(2) by (auto simp: marks_def)
  obtain v5 where v5: "targetJSONData E f kd val t operationTargetWrite v4 = (Inr (), v5)"
      "standing E obs b' (tr @ marks (sp_Action spec)) v5"
    using live_print [OF o v4(2)] by blast
  have "?m v = (Inr (), v5)"
    using v2(1) call v4(1) v5(1) by (simp add: seqE_run callE_run authorize_granted [OF o g] k)
  from live_closing [where m = ?m, OF this v5(2)] show ?thesis by blast
qed

lemma empty_unset: "oc_Status empty_outcome = StatusUnset"
  by (simp add: empty_outcome_def)

lemma live_create:
  assumes o: "obliging E obs f" and k: "on_fake E f meta name b" and s: "standing E obs b tr w"
    and p: "\<not> contextPlanOnly f" and t: "validateTopicName topic = None" and new: "fake_topic b topic = None"
  shows "\<exists>w'. run E f (Topic_Create partitions topic) w = (Inr (), w') \<and>
    standing E obs (snd (fake_CreateTopic (creation_request f meta b partitions topic) b))
      (tr @ marks ''mq.topic.create.preflight'' @ marks ''mq.topic.create'') w'"
proof -
  let ?req = "creation_request f meta b partitions topic"
  let ?b = "snd (fake_CreateTopic ?req b)"
  let ?x = "\<lparr>tcp_Coordinate = fake_coordinate f meta b topic, tcp_Backend = ''fake''\<rparr>"
  let ?spec = "readSpec ''mq.topic.create.preflight'' (resource ''topic'' topic)
    (valueMetadata ''mq.topic.create.preflight'' (json_map [(''topic'', JStr topic), (''partitions'', JNum partitions)]))"
  let ?operation = "\<lambda>backend meta. callE (topicCoord f meta backend topic) (\<lambda>coordinate w.
               ((\<lparr>tcp_Coordinate = (case coordinate of Inr c \<Rightarrow> c | Inl _ \<Rightarrow> zero_TopicCoordinate),
                  tcp_Backend = de_Backend (describe backend w)\<rparr>, errOf coordinate), w))"
  let ?tgt = "topicCreateAuthorizationTarget meta ''fake'' (fake_coordinate f meta b topic)"
  let ?mspec = "mutationSpec ''mq.topic.create'' meta (resource ''topic'' topic)
    (valueMetadata ''mq.topic.create'' (TopicCreateRequest_json ?req))"
  let ?t = "operationTargetFromDescription name (fake_Describe b)" and ?d = "created_topic ?req"
  have acts: "trim_space (rs_Action ?spec) \<noteq> ''''" "trim_space (sp_Action ?mspec) \<noteq> ''''"
    unfolding readSpec_def mutationSpec_def readAuditSpec.simps mutationAuditSpec.simps by code_simp+
  have op: "\<exists>v'. ?operation fake_conn meta v = ((?x, None), v') \<and> standing E obs b tr v'" if "standing E obs b tr v" for tr v
    using that k topicCoord_fake [OF _ t, of E f meta name v]
    by (simp add: callE_run standing_def fake_conn_run fake_Describe_def)
  obtain v where
    v: "runMandatoryBrokerPreflight E f ?spec zero_topicCreatePreflight ?operation (\<lambda>_. 1) w =
      (Inr \<lparr>pf_Backend = fake_conn, pf_Context = meta, pf_Target = ?t, pf_Value = ?x\<rparr>, v)"
      "standing E obs b (tr @ marks (rs_Action ?spec)) v"
    using live_preflight [where operation = ?operation and x = ?x and n = "\<lambda>_. 1" and z = zero_topicCreatePreflight,
        OF o k s acts(1) op] by blast
  have "fake_CreateTopic ?req b = (Inr ?d, ?b)"
    using new topic_registry.create_new [of b ?req] by (simp add: prod_eq_iff creation_request_def fake_coordinate_def)
  then obtain b' where b': "fake_CreateTopic ?req b = (Inr ?d, b')" "?b = b'" by metis
  have created: "CreateTopic (cn_broker fake_conn) ?req b = ((?d, None), b')"
    using b' by (simp add: fake_conn_def fake_broker_def orZero_def stepC_run)
  have tgt: "snd ?tgt = ''''" "t_protected_topic (fst ?tgt) = isProtectedTopic meta topic zero_TopicDescription"
    by (simp_all add: topicCreateAuthorizationTarget_def declaredTopicTarget_def Let_def fake_coordinate_def)
  have req: "\<lparr>tcr_Coordinate = fake_coordinate f meta b topic, tcr_Partitions = partitions,
           tcr_Config = [], tcr_Protected = t_protected_topic (fst ?tgt)\<rparr> = ?req"
    by (simp add: creation_request_def tgt(2))
  let ?k = "\<lambda>h (desc, operationErr). seqE (finishMutation E f h (topicCreateAuditOutcome E operationErr) operationErr) (\<lambda>_.
        targetJSONData E f ''TopicDescription'' (V_Topic desc) ?t operationTargetWrite)"
  have "run E f (Topic_Create partitions topic) w =
      closing fake_conn (seqE (classifyAndAuthorize E f meta OperationCreateTopic (fst ?tgt) '''') (\<lambda>_.
        seqE (beginMutation E f ?mspec) (\<lambda>h. callE (broker_call E fake_conn (CreateTopic (cn_broker fake_conn) ?req)) (?k h)))) v"
    using p t v(1) tgt(1) req
    by (simp add: newTopicCreateCmd_def withTopic_def seqE_run check_def Let_def case_prod_unfold)
  then show ?thesis
    using live_mutation [where k = ?k and m = "CreateTopic (cn_broker fake_conn) ?req" and q = "(?d, None)",
        OF o v(2) acts(2) _ created empty_unset, of "''''", of "''TopicDescription''" "V_Topic ?d" ?t meta
        OperationCreateTopic "fst ?tgt"] b'(2)
    by (auto simp: flags_given_def topicCreateAuditOutcome_def readSpec_def mutationSpec_def)
qed

section \<open>Deleting a topic\<close>

definition fake_resolved :: "cliFlags \<Rightarrow> Context \<Rightarrow> fake \<Rightarrow> string \<Rightarrow> TopicDescription \<Rightarrow> bool \<Rightarrow> resolvedTopicTarget" where
  "fake_resolved f meta b topic d pl = \<lparr>rt_Coordinate = fake_coordinate f meta b topic, rt_Description = d,
     rt_Classification = empty_target\<lparr>t_backend := ''fake'', t_topic := topic, t_protected_topic := isProtectedTopic meta topic d,
       t_internal_topic := td_Internal d \<or> IsInternalTopic ''fake'' topic, t_plan := pl\<rparr>\<rparr>"

lemma live_resolve:
  assumes k: "on_fake E f meta name b" and s: "standing E obs b tr v" and t: "validateTopicName topic = None"
    and d: "fake_topic b topic = Some d" "\<not> differentTopic (td_Coordinate d) (fake_coordinate f meta b topic)"
  shows "\<exists>v'. resolveTopicTarget E fake_conn f meta topic pl v = (Inr (fake_resolved f meta b topic d pl), v') \<and>
    standing E obs b tr v'"
proof -
  have b: "wo_broker v = b" using s by (simp add: standing_def)
  have "DescribeTopic (cn_broker fake_conn) (fake_coordinate f meta b topic) b = ((d, None), b)"
    using DescribeTopic_find [of "fake_coordinate f meta b topic" b] d(1) fake_reads(5) [of "fake_coordinate f meta b topic" b]
    by (auto simp: fake_conn_def fake_broker_def orZero_def stepC_run fake_coordinate_def split: prod.splits sum.splits)
  then have "broker_call E fake_conn (DescribeTopic (cn_broker fake_conn) (fake_coordinate f meta b topic)) v =
      ((d, None), notified E None (v\<lparr>wo_broker := b\<rparr>))"
    using b by (simp add: broker_call_def fake_conn_def)
  moreover have "standing E obs b tr (notified E None (v\<lparr>wo_broker := b\<rparr>))"
    using s by (simp add: standing_def trail_def notified_def)
  ultimately show ?thesis
    using topicCoord_fake [OF _ t, of E f meta name v] k b t d(2)
    by (simp add: resolveTopicTarget_def seqE_run callE_run check_def fake_conn_run standing_def fake_Describe_def fake_resolved_def)
qed

lemma live_delete:
  assumes o: "obliging E obs f" and k: "on_fake E f meta name b" and s: "standing E obs b tr w"
    and p: "\<not> contextPlanOnly f" "fl_AllowTopicDelete f" and t: "validateTopicName topic = None"
    and d: "fake_topic b topic = Some d" "\<not> differentTopic (td_Coordinate d) (fake_coordinate f meta b topic)"
  shows "\<exists>w'. run E f (Topic_Delete topic) w = (Inr (), w') \<and>
    standing E obs (snd (fake_DeleteTopic (fake_coordinate f meta b topic) b))
      (tr @ marks ''mq.topic.delete.preflight'' @ marks ''mq.topic.delete'') w'"
proof -
  let ?c = "fake_coordinate f meta b topic" and ?x = "fake_resolved f meta b topic d False"
  let ?spec = "readSpec ''mq.topic.delete.preflight'' (resource ''topic'' topic)
    (valueMetadata ''mq.topic.delete.preflight'' (json_map [(''topic'', JStr topic)]))"
  let ?operation = "\<lambda>backend meta. stepC zero_resolved (getS (capabilities backend)) (\<lambda>caps.
               if ''delete'' \<notin> set (cp_Verbs caps)
               then answer zero_resolved (Some (not_implemented ''backend does not support topic delete''))
               else orZero zero_resolved (resolveTopicTarget E backend f meta topic False))"
  let ?mspec = "mutationSpec ''mq.topic.delete'' meta (resource ''topic'' topic)
    (valueMetadata ''mq.topic.delete'' (TopicCoordinate_json ?c))"
  let ?t = "operationTargetFromDescription name (fake_Describe b)"
  have acts: "trim_space (rs_Action ?spec) \<noteq> ''''" "trim_space (sp_Action ?mspec) \<noteq> ''''"
    unfolding readSpec_def mutationSpec_def readAuditSpec.simps mutationAuditSpec.simps by code_simp+
  have op: "\<exists>v'. ?operation fake_conn meta v = ((?x, None), v') \<and> standing E obs b tr v'" if v: "standing E obs b tr v" for tr v
    using live_resolve [OF k v t d, of False]
    by (auto simp: stepC_run orZero_def fake_conn_run fake_Capabilities_def)
  obtain v where
    v: "runMandatoryBrokerPreflight E f ?spec zero_resolved ?operation (\<lambda>_. 1) w =
      (Inr \<lparr>pf_Backend = fake_conn, pf_Context = meta, pf_Target = ?t, pf_Value = ?x\<rparr>, v)"
      "standing E obs b (tr @ marks (rs_Action ?spec)) v"
    using live_preflight [where operation = ?operation and x = ?x and n = "\<lambda>_. 1" and z = zero_resolved,
        OF o k s acts(1) op] by blast
  have given: "flags_given f allowTopicDelete"
    using p(2) by (simp add: flags_given_def grantedAllowFlags_def)
  obtain b' where b': "fake_DeleteTopic ?c b = (Inr (), b')"
    using topic_registry.delete_there [of b ?c] d(1) by (auto simp: fake_coordinate_def prod_eq_iff)
  then have deleted: "DeleteTopic (cn_broker fake_conn) ?c b = (Inr (), b')"
    by (simp add: fake_conn_def fake_broker_def)
  let ?k = "\<lambda>h deleted. seqE (finishMutation E f h empty_outcome (errOf deleted)) (\<lambda>_.
        targetJSONData E f ''DeleteResult'' (V_Deleted ''topic'' topic StatusSuccess) ?t operationTargetWrite)"
  have "run E f (Topic_Delete topic) w =
      closing fake_conn (seqE (classifyAndAuthorize E f meta OperationDeleteTopic (rt_Classification ?x) allowTopicDelete) (\<lambda>_.
        seqE (beginMutation E f ?mspec) (\<lambda>h. callE (broker_call E fake_conn (DeleteTopic (cn_broker fake_conn) ?c)) (?k h)))) v"
    using p t v(1)
    by (simp add: newTopicDeleteCmd_def withTopic_def seqE_run check_def Let_def fake_resolved_def)
  then show ?thesis
    using live_mutation [where k = ?k and m = "DeleteTopic (cn_broker fake_conn) ?c" and q = "Inr ()",
        OF o v(2) acts(2) given deleted empty_unset, of "''DeleteResult''"
        "V_Deleted ''topic'' topic StatusSuccess" ?t meta OperationDeleteTopic "rt_Classification ?x"] b'
    by (auto simp: readSpec_def mutationSpec_def)
qed

end
