(* ===== verification/Command_Demo.thy ===== *)
theory Command_Demo
  imports Command_Live Audit_Demo
begin

text \<open>
  A concrete machine with an in-memory backend, on which the properties of the commands are instantiated.
\<close>

definition other_backend :: go_error where
  "other_backend = AppError CodeNotImplemented ''no such backend here'' None"

definition demo_cmd :: "(nat \<Rightarrow> risk \<Rightarrow> safety_options \<Rightarrow> go_error option) \<Rightarrow> (safeAuditRecord list, fake) cmd_env" where
  "demo_cmd decide = \<lparr>ce_audit = demo_env, ce_effectiveRisk = (\<lambda>r _. r), ce_authorize = decide,
     ce_eventAuthorizationDenied = ''authorization.denied'', ce_new_fake = (\<lambda>_ _ b. (Inr fake_broker, b)),
     ce_new_kafka = (\<lambda>_. throw other_backend), ce_new_rabbitmq = (\<lambda>_. throw other_backend),
     ce_new_pulsar = (\<lambda>_. throw other_backend), ce_new_rocketmq = (\<lambda>_. throw other_backend),
     ce_notify = (\<lambda>_. []), ce_redact = (\<lambda>s. s), ce_print = (\<lambda>_. None), ce_errorsIs = (=),
     ce_getenv = (\<lambda>_. ''''), ce_readFile = (\<lambda>_. Inl other_backend), ce_passwordContext = (\<lambda>_ _. Inr ''''),
     ce_parseRef = (\<lambda>_. None), ce_credstore = (\<lambda>_. Inl other_backend)\<rparr>"

text \<open>An R3 operation is granted when its required flags are, or nothing is granted.\<close>

definition gate :: "nat \<Rightarrow> risk \<Rightarrow> safety_options \<Rightarrow> go_error option" where
  "gate _ r x = (if r = R3 \<and> \<not> (\<forall>al \<in> set (so_RequiredAllowFlags x). (al, True) \<in> set (so_GrantedAllowFlags x))
     then Some other_backend else None)"

definition deny_all :: "nat \<Rightarrow> risk \<Rightarrow> safety_options \<Rightarrow> go_error option" where
  "deny_all _ _ _ = Some other_backend"

definition demo_world :: "(safeAuditRecord list, fake) world" where
  "demo_world = \<lparr>wo_aud = demo_aud, wo_broker = New '''' '''', wo_conns = 0, wo_asks = 0, wo_calls = 0, wo_diag = None,
     wo_buffers = [], wo_stderr = [], wo_out = []\<rparr>"

lemma orZero_state: "snd (orZero z m b) = snd (m b)"
  by (simp add: orZero_def stepC_run split: prod.split sum.split)

lemma fake_reads_only: "reads fake_broker g \<Longrightarrow> g b = b"
  by (erule reads.cases)
    (auto simp: fake_broker_def fake_offsets_def fake_partitions_def fake_dlqs_def fake_schemas_def orZero_state frame_simps)

lemma demo_reading: "reading_contract (demo_cmd decide) (=)"
  by (auto simp: reading_contract_def demo_cmd_def read_only_def fake_reads_only fake_broker_def throw_def elim!: constructor.cases)

definition demo_live :: "(safeAuditRecord list, fake) cmd_env" where
  "demo_live = demo_cmd gate"

definition delete_flags :: cliFlags where
  "delete_flags = demo_flags\<lparr>fl_AllowTopicDelete := True\<rparr>"

definition demo_direct :: Context where
  "demo_direct = no_context\<lparr>cx_Backend := ''fake''\<rparr>"

lemma demo_obliging: "obliging demo_live id demo_flags" "obliging demo_live id delete_flags"
proof -
  have "\<not> isl (trustedOperatorIdentity demo_su demo_flags)" "\<not> isl (trustedOperatorIdentity demo_su delete_flags)"
    by code_simp+
  moreover have "ce_su demo_live = demo_su" by (simp add: ce_su_def demo_live_def demo_cmd_def demo_env_def)
  ultimately show "obliging demo_live id demo_flags" "obliging demo_live id delete_flags"
    by (simp_all add: obliging_def demo_live_def demo_cmd_def demo_works gate_def) (simp_all add: demo_env_def)
qed

lemma demo_on_fake: "on_fake demo_live demo_flags demo_direct ''direct'' (New '''' '''')"
  "on_fake demo_live delete_flags demo_direct ''direct'' (New '''' '''')"
proof -
  have "resolvedContext demo_su demo_flags = Inr (demo_direct, ''direct'')"
    "resolvedContext demo_su delete_flags = Inr (demo_direct, ''direct'')"
    "expectedBackend demo_flags demo_direct = ''fake''" "expectedBackend delete_flags demo_direct = ''fake''"
    "\<not> conflicting (firstNonEmpty [fl_Cluster demo_flags, cx_Cluster demo_direct]) (fk_cluster (New '''' ''''))"
    "\<not> conflicting (firstNonEmpty [fl_Cluster delete_flags, cx_Cluster demo_direct]) (fk_cluster (New '''' ''''))"
    "\<not> conflicting (firstNonEmpty [fl_Namespace demo_flags, cx_Namespace demo_direct]) (fk_namespace (New '''' ''''))"
    "\<not> conflicting (firstNonEmpty [fl_Namespace delete_flags, cx_Namespace demo_direct]) (fk_namespace (New '''' ''''))"
    by (simp_all add: resolvedContext_def Current_def Load_def validatePersistedRoles_def demo_su_def demo_flags_def
        delete_flags_def newDefaultFlags_def demo_direct_def no_context_def expectedBackend_def conflicting_def New_def Let_def)
  moreover have "ce_su demo_live = demo_su" by (simp add: ce_su_def demo_live_def demo_cmd_def demo_env_def)
  ultimately show "on_fake demo_live demo_flags demo_direct ''direct'' (New '''' '''')"
    "on_fake demo_live delete_flags demo_direct ''direct'' (New '''' '''')"
    by (simp_all add: on_fake_def) (simp_all add: demo_live_def demo_cmd_def)
qed

lemma demo_standing: "standing demo_live id (New '''' '''') [] demo_world"
proof -
  have "idle demo_env demo_aud"
    using demo_ready by (auto simp: idle_def demo_aud_def find_file_def)
  then show ?thesis by (simp add: standing_def trail_def demo_world_def demo_live_def demo_cmd_def demo_aud_def)
qed

lemma demo_topics:
  "fake_topic (New '''' '''') ''invoices'' = None" "validateTopicName ''invoices'' = None"
  "validateTopicName ''orders'' = None" "\<not> contextPlanOnly demo_flags" "\<not> contextPlanOnly delete_flags"
  "fl_AllowTopicDelete delete_flags"
proof -
  show "fake_topic (New '''' '''') ''invoices'' = None" by (simp add: fake_topic_def New_def Let_def)
qed (code_simp+)

lemma demo_orders:
  obtains d where "fake_topic (New '''' '''') ''orders'' = Some d"
    "\<not> differentTopic (td_Coordinate d) (fake_coordinate delete_flags demo_direct (New '''' '''') ''orders'')"
proof -
  have "case fake_topic (New '''' '''') ''orders'' of None \<Rightarrow> False
    | Some d \<Rightarrow> \<not> differentTopic (td_Coordinate d) (fake_coordinate delete_flags demo_direct (New '''' '''') ''orders'')"
    by (simp add: fake_topic_def New_def Let_def differentTopic_def fake_coordinate_def fake_scope_def fake_coord_def
        conflicting_def demo_flags_def delete_flags_def newDefaultFlags_def demo_direct_def no_context_def)
  then show thesis using that by (auto split: option.splits)
qed

text \<open>Someone who states a ticket and a reason.\<close>

definition ticket_flags :: cliFlags where
  "ticket_flags = demo_flags\<lparr>fl_Ticket := ''SEC-1'', fl_Reason := ''rotation''\<rparr>"

lemma ticket_obliging: "obliging demo_live id ticket_flags"
proof -
  have "\<not> isl (trustedOperatorIdentity demo_su ticket_flags)" by code_simp
  moreover have "ce_su demo_live = demo_su" by (simp add: ce_su_def demo_live_def demo_cmd_def demo_env_def)
  ultimately show ?thesis
    by (simp add: obliging_def demo_live_def demo_cmd_def demo_works gate_def) (simp add: demo_env_def)
qed

lemma ticket_on_fake: "on_fake demo_live ticket_flags demo_direct ''direct'' (New '''' '''')"
proof -
  have "resolvedContext demo_su ticket_flags = Inr (demo_direct, ''direct'')"
    "expectedBackend ticket_flags demo_direct = ''fake''"
    "\<not> conflicting (firstNonEmpty [fl_Cluster ticket_flags, cx_Cluster demo_direct]) (fk_cluster (New '''' ''''))"
    "\<not> conflicting (firstNonEmpty [fl_Namespace ticket_flags, cx_Namespace demo_direct]) (fk_namespace (New '''' ''''))"
    by (simp_all add: resolvedContext_def Current_def Load_def validatePersistedRoles_def demo_su_def demo_flags_def
        ticket_flags_def newDefaultFlags_def demo_direct_def no_context_def expectedBackend_def conflicting_def New_def Let_def)
  moreover have "ce_su demo_live = demo_su" by (simp add: ce_su_def demo_live_def demo_cmd_def demo_env_def)
  ultimately show ?thesis
    by (simp add: on_fake_def) (simp add: demo_live_def demo_cmd_def)
qed

lemma demo_ticketed: "\<exists>w'. run demo_live ticket_flags (Topic_Create 3 ''invoices'') demo_world = (Inr (), w') \<and>
    length (au_log (wo_aud w')) = 4"
proof -
  have plan: "\<not> contextPlanOnly ticket_flags" by code_simp
  obtain w' where w': "run demo_live ticket_flags (Topic_Create 3 ''invoices'') demo_world = (Inr (), w')"
    "trail id w' = marks ''mq.topic.create.preflight'' @ marks ''mq.topic.create''"
    using live_create [OF ticket_obliging ticket_on_fake demo_standing plan demo_topics(2,1), of 3]
    by (auto simp: standing_def)
  from arg_cong [OF w'(2), of length] have "length (au_log (wo_aud w')) = 4" by (simp add: trail_def marks_def)
  then show ?thesis using w'(1) by blast
qed

text \<open>The runs of two commands on this machine.\<close>

lemma demo_created: "\<exists>w'. run demo_live demo_flags (Topic_Create 3 ''invoices'') demo_world = (Inr (), w') \<and>
    fake_topic (wo_broker w') ''invoices'' \<noteq> None"
proof -
  let ?req = "creation_request demo_flags demo_direct (New '''' '''') 3 ''invoices''"
  obtain w' where w': "run demo_live demo_flags (Topic_Create 3 ''invoices'') demo_world = (Inr (), w')"
    "wo_broker w' = snd (fake_CreateTopic ?req (New '''' ''''))"
    using live_create [OF demo_obliging(1) demo_on_fake(1) demo_standing demo_topics(4,2,1), of 3]
    by (auto simp: standing_def)
  have "fake_topic (snd (fake_CreateTopic ?req (New '''' ''''))) ''invoices'' \<noteq> None"
    using topic_registry.create_new [of "New '''' ''''" ?req] demo_topics(1)
    by (simp add: creation_request_def fake_coordinate_def)
  then show ?thesis using w' by auto
qed

lemma demo_deleted: "\<exists>w'. run demo_live delete_flags (Topic_Delete ''orders'') demo_world = (Inr (), w') \<and>
    fake_topic (wo_broker w') ''orders'' = None"
proof -
  let ?c = "fake_coordinate delete_flags demo_direct (New '''' '''') ''orders''"
  obtain d where d: "fake_topic (New '''' '''') ''orders'' = Some d" "\<not> differentTopic (td_Coordinate d) ?c"
    by (rule demo_orders)
  obtain w' where w': "run demo_live delete_flags (Topic_Delete ''orders'') demo_world = (Inr (), w')"
    "wo_broker w' = snd (fake_DeleteTopic ?c (New '''' ''''))"
    using live_delete [OF demo_obliging(2) demo_on_fake(2) demo_standing demo_topics(5,6,3) d] by (auto simp: standing_def)
  have "fake_topic (snd (fake_DeleteTopic ?c (New '''' ''''))) ''orders'' = None"
    using topic_registry.find_delete [of ?c "New '''' ''''"] by (simp add: fake_coordinate_def)
  then show ?thesis using w' by auto
qed

lemma demo_present: "fake_topic (wo_broker demo_world) ''invoices'' = None" "fake_topic (wo_broker demo_world) ''orders'' \<noteq> None"
  by (simp_all add: demo_world_def fake_topic_def New_def Let_def)

end
