(* ===== verification/Command_Properties.thy ===== *)
theory Command_Properties
  imports Command_Demo
begin

text \<open>
  The properties of the commands (cmd/topic.go, cmd/group.go, cmd/message.go, cmd/dlq.go, cmd/acl.go,
  cmd/schema.go) and of the audit, authorization and choice of backends they share.
\<close>

section \<open>Changes\<close>

text \<open>
  C1: The state of a broker changes only during a command that is no plan, after the authorization of that
  command's operation, on a target named as on the command line, was granted, and after an intent record
  of the command's action became part of the log. (\<open>R\<close> relates states that the backends' reads do not tell
  apart; the contract of the backends is that their reads, dry runs, construction and closing keep it.)
\<close>

theorem broker_changes_need_authority:
  assumes "append_contract (ce_audit E) obs" and "reading_contract E R" and "reflp R" and "transp R"
    and "run E f c w = (r, w')" and "\<not> R (wo_broker w) (wo_broker w')"
  shows "\<not> contextPlanOnly f \<and> authorized_between E f c w w' \<and> intended_between obs E c w w'"
  using change_governed [where R = R, OF _ assms(5,6)] assms(1-4) by (simp add: contracts_def)

lemma demo_contracts: "append_contract (ce_audit demo_live) id" "reading_contract demo_live (=)"
  using demo_contract(1) demo_reading by (simp_all add: demo_live_def demo_cmd_def)

theorem broker_changes_need_authority_witness:
  "\<exists>w'. run demo_live demo_flags (Topic_Create 3 ''invoices'') demo_world = (Inr (), w') \<and>
     authorized_between demo_live demo_flags (Topic_Create 3 ''invoices'') demo_world w' \<and>
     intended_between id demo_live (Topic_Create 3 ''invoices'') demo_world w'"
proof -
  obtain w' where w': "run demo_live demo_flags (Topic_Create 3 ''invoices'') demo_world = (Inr (), w')"
    "fake_topic (wo_broker w') ''invoices'' \<noteq> None" using demo_created by blast
  then have "wo_broker demo_world \<noteq> wo_broker w'" using demo_present(1) by auto
  then show ?thesis
    using broker_changes_need_authority [OF demo_contracts reflp_on_equality transp_on_equality w'(1)] w'(1) by blast
qed

text \<open>The contract of the core library that the documentation states for R3: the exact flags must be given.\<close>

definition R3_needs_flags :: "('l, 'b) cmd_env \<Rightarrow> bool" where
  "R3_needs_flags E = ((\<forall>r m. r \<le> ce_effectiveRisk E r m) \<and>
     (\<forall>n x. ce_authorize E n R3 x = None \<longrightarrow>
        (\<forall>al \<in> set (so_RequiredAllowFlags x). (al, True) \<in> set (so_GrantedAllowFlags x))))"

fun needed_flag :: "command \<Rightarrow> (cliFlags \<Rightarrow> bool) option" where
  "needed_flag (Topic_Delete _) = Some fl_AllowTopicDelete"
| "needed_flag (Topic_Purge _ _) = Some fl_AllowTopicPurge"
| "needed_flag (DLQ_Purge _ _ _) = Some fl_AllowTopicPurge"
| "needed_flag (Group_Reset _ _ _) = Some fl_AllowOffsetReset"
| "needed_flag (DLQ_Redrive _ _ _ _ _) = Some fl_AllowInternalProd"
| "needed_flag (ACL_Revoke _) = Some fl_AllowDestructiveACL"
| "needed_flag (ACL_Grant x) = (if broadACLGrant (aclClassTarget x) then Some fl_AllowDestructiveACL else None)"
| "needed_flag (Schema_Delete _ _ _) = Some fl_AllowSchemaDelete"
| "needed_flag _ = None"

lemma approved_flag:
  assumes "R3_needs_flags E" and "approved E f meta opn tgt al n" and "destructive opn tgt" and "al \<noteq> ''''"
  shows "(al, True) \<in> set (grantedAllowFlags f)"
proof -
  obtain operator where "ce_authorize E n (ce_effectiveRisk E (r_risk (Classify opn tgt)) (contextMeta meta))
       (safetyOptions f meta al (fl_Yes f) (contextName (ce_su E) f) operator) = None" (is "ce_authorize E n _ ?x = None")
    using assms(2) by (auto simp: approved_def)
  moreover have "ce_effectiveRisk E R3 (contextMeta meta) = R3"
    using assms(1) unfolding R3_needs_flags_def by (metis R3_le_iff)
  ultimately have "\<forall>al \<in> set (so_RequiredAllowFlags ?x). (al, True) \<in> set (so_GrantedAllowFlags ?x)"
    using assms(1) unfolding R3_needs_flags_def Classify_R3_if_destructive [OF assms(3)] by metis
  then show ?thesis using assms(4) by (simp add: safetyOptions_def requiredAllow_def)
qed

lemmas allow_flags = allowOffsetReset_def allowTopicPurge_def allowTopicDelete_def allowTopicUpsert_def
  allowDestructiveACL_def allowInternalProduce_def allowSchemaDelete_def allowContextChange_def allowContextDelete_def
  allowRoleChange_def allowAuditPrune_def

lemma granted_flags:
  "(allowOffsetReset, True) \<in> set (grantedAllowFlags f) \<longleftrightarrow> fl_AllowOffsetReset f"
  "(allowTopicPurge, True) \<in> set (grantedAllowFlags f) \<longleftrightarrow> fl_AllowTopicPurge f"
  "(allowTopicDelete, True) \<in> set (grantedAllowFlags f) \<longleftrightarrow> fl_AllowTopicDelete f"
  "(allowDestructiveACL, True) \<in> set (grantedAllowFlags f) \<longleftrightarrow> fl_AllowDestructiveACL f"
  "(allowInternalProduce, True) \<in> set (grantedAllowFlags f) \<longleftrightarrow> fl_AllowInternalProd f"
  "(allowSchemaDelete, True) \<in> set (grantedAllowFlags f) \<longleftrightarrow> fl_AllowSchemaDelete f"
  by (auto simp: grantedAllowFlags_def allow_flags)

lemma flags_named: "allowOffsetReset \<noteq> ''''" "allowTopicPurge \<noteq> ''''" "allowTopicDelete \<noteq> ''''"
  "allowDestructiveACL \<noteq> ''''" "allowInternalProduce \<noteq> ''''" "allowSchemaDelete \<noteq> ''''"
  by (simp_all add: allow_flags)

lemma needed_destructive:
  assumes "needed_flag c = Some allowed" and "mutation_of c = Some (opn, allow, action)" and "aims c tgt"
  shows "destructive opn tgt" and "flags_of f c = f" and "allow tgt \<noteq> ''''"
    and "(allow tgt, True) \<in> set (grantedAllowFlags f) \<longleftrightarrow> allowed f"
proof -
  have broad: "t_acl tgt = acl \<Longrightarrow> broadACLGrant acl \<Longrightarrow> r_risk (Classify OperationGrantACL tgt) = R3" for acl
    using Classify_R3_if_destructive [of OperationGrantACL tgt] by (simp add: destructive_def)
  have "destructive opn tgt \<and> flags_of f c = f \<and> allow tgt \<noteq> '''' \<and>
      ((allow tgt, True) \<in> set (grantedAllowFlags f) \<longleftrightarrow> allowed f)"
  proof (cases c)
    case (ACL_Grant x)
    then show ?thesis
      using assms broad by (auto simp: destructive_def granted_flags flags_named split: if_splits)
  qed (use assms in \<open>auto simp: destructive_def names_def isPurgeOrDelete_def isOffsetChange_def granted_flags flags_named
      split: if_splits\<close>)
  then show "destructive opn tgt" "flags_of f c = f" "allow tgt \<noteq> ''''"
    "(allow tgt, True) \<in> set (grantedAllowFlags f) \<longleftrightarrow> allowed f" by blast+
qed

lemma authorized_flag:
  assumes "R3_needs_flags E" and "authorizes E f c n" and "needed_flag c = Some allowed"
  shows "allowed f"
proof -
  obtain opn allow action meta tgt where a: "mutation_of c = Some (opn, allow, action)" "aims c tgt"
    "approved E (flags_of f c) meta opn tgt (allow tgt) n"
    using assms(2) unfolding authorizes_def by blast
  note needed = needed_destructive [OF assms(3) a(1,2)]
  show ?thesis using approved_flag [OF assms(1) a(3) needed(1,3)] needed(2,4) by simp
qed

text \<open>
  C5: A destructive command (deleting or purging, resetting offsets, redriving a dead-letter queue, revoking or
  broadly granting an ACL, deleting a schema) changes the state of a broker only if its own allow flag was given, with a
  core library that grants an R3 operation only with all required flags and never lowers a risk.
\<close>

theorem destructive_changes_need_their_flag:
  assumes "append_contract (ce_audit E) obs" and "reading_contract E R" and "reflp R" and "transp R"
    and "R3_needs_flags E" and "needed_flag c = Some allowed"
    and "run E f c w = (r, w')" and "\<not> R (wo_broker w) (wo_broker w')"
  shows "allowed f"
  using change_governed [where R = R, OF _ assms(7,8)] authorized_flag [OF assms(5) _ assms(6)] assms(1-4)
  unfolding authorized_between_def contracts_def by blast

theorem destructive_changes_need_their_flag_witness:
  "\<exists>w'. run demo_live delete_flags (Topic_Delete ''orders'') demo_world = (Inr (), w') \<and>
     wo_broker w' \<noteq> wo_broker demo_world \<and> fl_AllowTopicDelete delete_flags"
proof -
  obtain w' where w': "run demo_live delete_flags (Topic_Delete ''orders'') demo_world = (Inr (), w')"
    "fake_topic (wo_broker w') ''orders'' = None" using demo_deleted by blast
  then have "wo_broker demo_world \<noteq> wo_broker w'" using demo_present(2) by auto
  moreover have "R3_needs_flags demo_live"
    by (auto simp: R3_needs_flags_def demo_live_def demo_cmd_def gate_def split: if_splits)
  ultimately show ?thesis
    using destructive_changes_need_their_flag [OF demo_contracts reflp_on_equality transp_on_equality _ _ w'(1),
        of fl_AllowTopicDelete] w'(1) by auto
qed

text \<open>
  C11: When no authorization is granted, no command builds, calls or closes a broker.
\<close>

theorem denied_commands_touch_no_broker:
  assumes "\<And>n r x. ce_authorize E n r x \<noteq> None" and "run E f c w = (r, w')"
  shows "wo_broker w' = wo_broker w \<and> wo_calls w' = wo_calls w \<and> wo_conns w' = wo_conns w"
proof -
  have "denied.keeps E (run E f c)" by (rule denied.keeps_run) (simp add: denied.licensed_def)
  from denied.keepsD [OF this assms(2)] show ?thesis
    using assms(1) by (simp add: untouched_def permits_def)
qed

definition deny :: "nat \<Rightarrow> risk \<Rightarrow> safety_options \<Rightarrow> go_error option" where
  "deny _ _ _ = Some other_backend"

theorem denied_commands_touch_no_broker_witness:
  "wo_broker (snd (run (demo_cmd deny) demo_flags (Topic_List '''') demo_world)) = New '''' ''''"
proof -
  obtain r w' where w': "run (demo_cmd deny) demo_flags (Topic_List '''') demo_world = (r, w')" by (metis surj_pair)
  have "ce_authorize (demo_cmd deny) n x y \<noteq> None" for n x y by (simp add: demo_cmd_def deny_def)
  from denied_commands_touch_no_broker [OF this w'] w' show ?thesis by (simp add: demo_world_def)
qed

section \<open>Discreet records\<close>

text \<open>
  C38: What a command appends to the log (intents, outcomes, warnings, and the outcomes that it replays from the spool,
  whoever wrote them) holds no ticket, reason, detail or error text: the clear fields of the event are empty, and the fields
  for their fingerprints are empty or hold a fingerprint in the audit's format. (For a log that appends what it is given, minus
  the unexported field. The fingerprints of the metadata and in the outcome are not claimed here.)
\<close>

theorem audited_records_reveal_nothing:
  assumes "append_contract (ce_audit E) obs" and "run E f c w = (r, w')"
  shows "\<exists>new. obs (au_log (wo_aud w')) = obs (au_log (wo_aud w)) @ new \<and>
    (\<forall>x \<in> set new. ev_Ticket (ar_Event x) = '''' \<and> ev_Reason (ar_Event x) = '''' \<and> ev_Diff (ar_Event x) = '''' \<and>
       ev_Error (ar_Event x) = None \<and>
       (\<forall>v \<in> {ar_TicketFingerprint x, ar_ReasonFingerprint x, ar_DetailFingerprint x, ar_ErrorFingerprint x}.
          v = '''' \<or> validAuditFingerprint v))"
proof -
  have "telling.keeps obs E (run E f c)" by (rule telling.keeps_run) (simp add: telling.licensed_def)
  from telling.keepsD [OF this assms(2)] obtain new where new: "obs (au_log (wo_aud w')) = obs (au_log (wo_aud w)) @ new"
    "\<forall>x \<in> set new. discreet_record x"
    using assms(1) by (auto simp: tells_def discreetly_def list_all_iff)
  then show ?thesis
    by (intro exI [of _ new] conjI ballI) (auto simp: discreet_record_def bad_fingerprint_def dest!: bspec)
qed

text \<open>A topic is created with a ticket and a reason; none of the four records holds either.\<close>

theorem audited_records_reveal_nothing_witness:
  "\<exists>w'. run demo_live ticket_flags (Topic_Create 3 ''invoices'') demo_world = (Inr (), w') \<and>
     length (au_log (wo_aud w')) = 4 \<and>
     (\<forall>x \<in> set (au_log (wo_aud w')). ev_Ticket (ar_Event x) = '''' \<and> ar_TicketFingerprint x \<noteq> ''SEC-1'' \<and>
        ev_Reason (ar_Event x) = '''' \<and> ar_ReasonFingerprint x \<noteq> ''rotation'')"
proof -
  obtain w' where w': "run demo_live ticket_flags (Topic_Create 3 ''invoices'') demo_world = (Inr (), w')"
    "length (au_log (wo_aud w')) = 4" using demo_ticketed by blast
  have "\<not> validAuditFingerprint ''SEC-1''" "\<not> validAuditFingerprint ''rotation''" by code_simp+
  moreover have "au_log (wo_aud demo_world) = []" by (simp add: demo_world_def demo_aud_def)
  ultimately show ?thesis
    using audited_records_reveal_nothing [OF demo_contracts(1) w'(1)] w' by auto
qed

section \<open>Resources\<close>

text \<open>
  C15: Every command closes every connection it opens, whatever fails.
\<close>

theorem commands_close_their_connections: "wo_conns (snd (run E f c w)) = wo_conns w"
proof -
  have "balance.keeps (run E f c)" by (rule balance.keeps_run) (simp add: balance.licensed_def)
  from balance.keepsD [OF this, of w] show ?thesis by (metis add_0_right balanced_def surj_pair snd_conv)
qed

text \<open>
  C31: A command never buffers more than \<open>maxReadDiagnosticBytes\<close> bytes of diagnostics for an access to a broker, nor
  writes a larger piece of them to the error stream.
\<close>

theorem diagnostics_are_bounded:
  assumes "within_limit w" and "run E f c w = (r, w')"
  shows "(\<forall>d \<in> set (wo_buffers w'). int (length (db_stderr d)) \<le> maxReadDiagnosticBytes) \<and>
    (\<forall>s \<in> set (wo_stderr w'). int (length s) \<le> maxReadDiagnosticBytes)"
proof -
  have "limited.keeps (run E f c)" by (rule limited.keeps_run) (simp add: limited.licensed_def)
  from limited.keepsD [OF this assms(2)] have "within_limit w'" using assms(1) by (simp add: keeps_limit_def)
  then show ?thesis by (simp add: within_limit_def)
qed

theorem diagnostics_are_bounded_witness:
  "\<exists>w'. run demo_live demo_flags (Topic_Create 3 ''invoices'') demo_world = (Inr (), w') \<and>
     (\<forall>d \<in> set (wo_buffers w'). int (length (db_stderr d)) \<le> maxReadDiagnosticBytes)"
proof -
  obtain w' where w': "run demo_live demo_flags (Topic_Create 3 ''invoices'') demo_world = (Inr (), w')"
    using demo_created by blast
  moreover have "within_limit demo_world" by (simp add: within_limit_def demo_world_def)
  ultimately show ?thesis using diagnostics_are_bounded by blast
qed

text \<open>
  C19: However many messages a source emits, the mirror's buffer holds no more of them than requested and
  accounts for at most its limit of bytes, and its fingerprint is that of exactly the messages it holds.
\<close>

theorem mirror_buffer_is_bounded:
  "let b = fillMirrorBuffer ms (newMirrorReadBuffer limit maxBytes);
       fp = mirrorAccumulator_Fingerprints (mb_accumulator b)
   in subseq (mb_messages b) ms \<and> int (length (mb_messages b)) \<le> max 0 limit \<and>
      (\<Sum>m \<leftarrow> mb_messages b. sum_list (messageSizes m)) \<le> max 0 maxBytes \<and>
      rf_BodySHA256 fp = hex_encode (sha256 (concat (map (sha256 \<circ> m_Body) (mb_messages b)))) \<and>
      rf_Count fp = int (length (mb_messages b)) \<and> rf_Size fp = (\<Sum>m \<leftarrow> mb_messages b. int (length (m_Body m)))"
proof -
  let ?b = "fillMirrorBuffer ms (newMirrorReadBuffer limit maxBytes)"
  have ok: "buffer_ok ?b" by (rule buffer_fill [OF buffer_new])
  have sub: "subseq (mb_messages ?b) ms"
    using fill_subseq [of ms "newMirrorReadBuffer limit maxBytes"] by (auto simp: newMirrorReadBuffer_def)
  have lim: "mb_maxMessages ?b = limit" "mb_maxBytes ?b = maxBytes"
    by (simp_all add: fill_limits newMirrorReadBuffer_def)
  have acc: "mb_accumulator ?b = \<lparr>ma_bodyHashes = concat (map (sha256 \<circ> m_Body) (mb_messages ?b)),
      ma_totalSize = (\<Sum>m \<leftarrow> mb_messages ?b. int (length (m_Body m))), ma_totalCount = int (length (mb_messages ?b))\<rparr>"
    using ok by (simp add: buffer_ok_def accumulated newMirrorAccumulator_def)
  have bytes: "(\<Sum>m \<leftarrow> mb_messages ?b. sum_list (messageSizes m)) \<le> max 0 maxBytes"
    using ok lim by (simp add: buffer_ok_def comp_def)
  have digest: "(if int (length (mb_messages ?b)) = 0 then sha256 '''' else sha256 (concat (map (sha256 \<circ> m_Body) (mb_messages ?b))))
      = sha256 (concat (map (sha256 \<circ> m_Body) (mb_messages ?b)))"
    by simp
  show ?thesis
    unfolding Let_def mirrorAccumulator_Fingerprints_def acc mirrorAccumulator.simps ResourceFingerprints.simps digest
    using ok sub lim bytes by (simp add: buffer_ok_def)
qed

section \<open>Reads\<close>

definition demo_read :: readAuditSpec where
  "demo_read = readSpec ''mq.topic.list'' (resource ''topic'' '''') no_metadata"

lemma demo_read_runs:
  "\<exists>w'. runMandatoryRead demo_live demo_flags demo_read 0 (answer 5 None) (\<lambda>_. 1) demo_world = (Inr (5 :: nat), w') \<and>
    standing demo_live id (New '''' '''') (marks ''mq.topic.list'') w'"
proof -
  have "trim_space (rs_Action demo_read) \<noteq> ''''" "rs_Action demo_read = ''mq.topic.list''"
    unfolding demo_read_def readSpec_def readAuditSpec.simps by (code_simp, rule refl)
  then show ?thesis
    using live_accessed [OF demo_obliging(1) demo_standing, of demo_read "answer (5 :: nat) None" 5 0 "\<lambda>_. 1"]
    by (auto simp: runMandatoryRead_def asOp_run marks_def)
qed

lemma finishRead_Inr:
  assumes "finishReadAudit E f h k None v = (Inr (), w')"
  shows "finishMutationAudit (ce_audit E) f (rh_mutation h) (singleReadAuditOutcome k None) None (wo_aud v) = (Inr (), wo_aud w')"
proof -
  obtain g a where fin: "finishMutationAudit (ce_audit E) f (rh_mutation h) (singleReadAuditOutcome k None) None (wo_aud v) = (g, a)"
    by (metis surj_pair)
  show ?thesis
  proof (cases g)
    case (Inl e)
    then show ?thesis
      using assms fin by (simp add: finishReadAudit_def persistReadAuditOutcome_def audit_def zoom_run seqE_run tryE_run)
  next
    case (Inr u)
    then have "w' = completeDiagnostics h True (v\<lparr>wo_aud := a\<rparr>)"
      using assms fin
      by (simp add: finishReadAudit_def persistReadAuditOutcome_def audit_def zoom_run seqE_run tryE_run check_def)
    then show ?thesis using fin Inr by (simp add: completeDiagnostics_form Let_def)
  qed
qed

text \<open>
  C10: The result of a read is released only after the read's outcome is the last record of the log, with the
  intent of the same read between the log as it was and that outcome. (The read itself may append to the log, not rewrite it.)
\<close>

theorem read_results_follow_their_audit:
  assumes "append_contract (ce_audit E) obs"
    and "\<forall>v. prefix (obs (au_log (wo_aud v))) (obs (au_log (wo_aud (snd (operation v)))))"
    and "runMandatoryRead E f spec z operation n w = (Inr x, w')"
  shows "\<exists>h before during now now'. mh_spec h = readMutationSpec spec \<and>
    obs (au_log (wo_aud w')) = obs (au_log (wo_aud w)) @ before @
      [marshalled_record (handle_record (ce_su E) f now h mutationAuditPhaseIntent None)] @ during @
      [marshalled_record (outcomeRecord (ce_audit E) f now' h
         (normalizeMutationAuditOutcome (ae_asApp (ce_audit E)) (singleReadAuditOutcome (n x) None) None))]"
proof -
  from assms(3) obtain h v1 v2 y where
    b: "beginReadAudit E f spec w = (Inr h, v1)" and op: "operation v1 = ((x, y), v2)"
    and fin: "finishReadAudit E f h (n x) y v2 = (Inr (), w')"
    unfolding runMandatoryRead_def accessed_def
    by (auto simp: asOp_run stepC_run callE_run errOf_def split: prod.splits sum.splits option.splits)
  obtain a1 where a1: "beginMutationAudit (ce_audit E) f (readMutationSpec spec) (wo_aud w) = (Inr (rh_mutation h), a1)"
    "wo_aud v1 = a1"
    using b unfolding beginReadAudit_def
    by (auto simp: tryE_run seqE_run audit_def zoom_run split: prod.splits sum.splits)
  have y: "y = None"
    using fin unfolding finishReadAudit_def check_def by (auto split: option.splits elim!: seqE_Inr)
  obtain a2 where a2: "finishMutationAudit (ce_audit E) f (rh_mutation h) (singleReadAuditOutcome (n x) None) None (wo_aud v2)
      = (Inr (), a2)" "wo_aud w' = a2"
    using finishRead_Inr [OF fin [unfolded y]] by blast
  obtain before now where "mh_spec (rh_mutation h) = readMutationSpec spec"
    "obs (au_log a1) = obs (au_log (wo_aud w)) @ before @
      [marshalled_record (handle_record (ce_su E) f now (rh_mutation h) mutationAuditPhaseIntent None)]"
    using begin_durable [OF assms(1) a1(1)] unfolding ce_su_def by blast
  moreover obtain zs where "obs (au_log (wo_aud v2)) = obs (au_log a1) @ zs"
    using assms(2) [rule_format, of v1] op a1(2) by (auto simp: prefix_def)
  moreover obtain now' older where "obs (au_log a2) = obs (au_log (wo_aud v2)) @ older @
      [marshalled_record (outcomeRecord (ce_audit E) f now' (rh_mutation h)
         (normalizeMutationAuditOutcome (ae_asApp (ce_audit E)) (singleReadAuditOutcome (n x) None) None))]"
    using finish_Inr [OF assms(1) a2(1)] by blast
  ultimately show ?thesis
    using a2(2) by (intro exI [of _ "rh_mutation h"] exI [of _ before] exI [of _ "zs @ older"]) auto
qed

theorem read_results_follow_their_audit_witness:
  "\<exists>w' r1 r2. runMandatoryRead demo_live demo_flags demo_read 0 (answer 5 None) (\<lambda>_. 1) demo_world = (Inr (5 :: nat), w') \<and>
     {r1, r2} \<subseteq> set (au_log (wo_aud w'))"
proof -
  obtain w' where w': "runMandatoryRead demo_live demo_flags demo_read 0 (answer 5 None) (\<lambda>_. 1) demo_world = (Inr (5 :: nat), w')"
    using demo_read_runs by blast
  have reading: "\<forall>v :: (safeAuditRecord list, fake) world. prefix (id (au_log (wo_aud v)))
      (id (au_log (wo_aud (snd (answer (5 :: nat) None v)))))" by simp
  show ?thesis
    using read_results_follow_their_audit [where operation = "answer 5 None", OF demo_contracts(1) reading w'] w' by auto
qed

text \<open>
  C14: Metadata that a command is authorized by are those of the topic that was asked for: a resolved target has
  the name, the plan and the backend it was resolved for, is protected when the broker or the context says so, internal when the
  broker or the name says so, and lies in the cluster and namespace that flags and context ask for.
\<close>

theorem resolved_targets_are_the_ones_asked_for:
  assumes "resolveTopicTarget E cn f meta topic plan w = (Inr r, w')"
  defines "t \<equiv> rt_Classification r" and "d \<equiv> rt_Description r" and "c \<equiv> rt_Coordinate r"
  shows "tc_Topic c = topic \<and> tc_Topic (td_Coordinate d) = topic \<and> t_topic t = topic \<and> t_plan t = plan \<and>
    trim_space topic \<noteq> '''' \<and>
    (t_protected_topic t \<longleftrightarrow> td_Protected d \<or> topic \<in> set (cx_Topics meta)) \<and>
    (t_internal_topic t \<longleftrightarrow> td_Internal d \<or> IsInternalTopic (t_backend t) topic) \<and>
    \<not> conflicting (tc_Cluster c) (tc_Cluster (td_Coordinate d)) \<and>
    \<not> conflicting (tc_Namespace c) (tc_Namespace (td_Coordinate d)) \<and>
    \<not> conflicting (firstNonEmpty [fl_Cluster f, cx_Cluster meta]) (tc_Cluster c) \<and>
    \<not> conflicting (firstNonEmpty [fl_Namespace f, cx_Namespace meta]) (tc_Namespace c)"
proof -
  have scope: "canonicalBrokerScope f meta cn v = (Inr desc, v') \<Longrightarrow>
      \<not> conflicting (firstNonEmpty [fl_Cluster f, cx_Cluster meta]) (de_Cluster desc) \<and>
      \<not> conflicting (firstNonEmpty [fl_Namespace f, cx_Namespace meta]) (de_Namespace desc)" for v desc v'
    unfolding canonicalBrokerScope_def by (auto simp: seqE_run Let_def conflicting_def split: if_splits)
  have coord: "topicCoord f meta cn topic v = (Inr co, v') \<Longrightarrow> trim_space topic \<noteq> '''' \<and> tc_Topic co = topic \<and>
      \<not> conflicting (firstNonEmpty [fl_Cluster f, cx_Cluster meta]) (tc_Cluster co) \<and>
      \<not> conflicting (firstNonEmpty [fl_Namespace f, cx_Namespace meta]) (tc_Namespace co)" for v co v'
    unfolding topicCoord_def
    by (auto simp: check_def validateTopicName_def dest!: scope split: option.splits if_splits elim!: seqE_Inr)
  obtain co w0 w1 where co: "topicCoord f meta cn topic w0 = (Inr co, w1)"
    and rest: "callE (broker_call E cn (DescribeTopic (cn_broker cn) co)) (\<lambda>(desc, err).
       case err of
         Some e \<Rightarrow> throw (AppError (codeOf E e) ''cannot resolve topic metadata before authorization'' (Some e))
       | None \<Rightarrow>
           if differentTopic (td_Coordinate desc) co
           then throw (invalid ''broker returned metadata for a different topic target'')
           else seqE (getS (describe cn)) (\<lambda>scope.
             ret \<lparr>rt_Coordinate = co, rt_Description = desc,
               rt_Classification = empty_target\<lparr>t_backend := de_Backend scope, t_topic := topic,
                 t_protected_topic := isProtectedTopic meta topic desc,
                 t_internal_topic := td_Internal desc \<or> IsInternalTopic (de_Backend scope) topic,
                 t_plan := plan\<rparr>\<rparr>)) w1 = (Inr r, w')"
    using assms(1) unfolding resolveTopicTarget_def by (elim seqE_Inr)
  obtain desc e w2 where call: "broker_call E cn (DescribeTopic (cn_broker cn) co) w1 = ((desc, e), w2)"
    by (metis surj_pair)
  have "e = None" "\<not> differentTopic (td_Coordinate desc) co" "rt_Coordinate r = co" "rt_Description r = desc"
    "\<exists>backend. rt_Classification r = empty_target\<lparr>t_backend := backend, t_topic := topic,
       t_protected_topic := isProtectedTopic meta topic desc,
       t_internal_topic := td_Internal desc \<or> IsInternalTopic backend topic, t_plan := plan\<rparr>"
    using rest call by (auto simp: callE_run seqE_run split: option.splits if_splits)
  then show ?thesis
    using coord [OF co] unfolding t_def d_def c_def by (auto simp: differentTopic_def isProtectedTopic_def)
qed

theorem resolved_targets_are_the_ones_asked_for_witness:
  "\<exists>r w'. resolveTopicTarget demo_live fake_conn delete_flags demo_direct ''orders'' False demo_world = (Inr r, w') \<and>
     t_topic (rt_Classification r) = ''orders''"
proof -
  obtain d where d: "fake_topic (New '''' '''') ''orders'' = Some d"
    "\<not> differentTopic (td_Coordinate d) (fake_coordinate delete_flags demo_direct (New '''' '''') ''orders'')"
    by (rule demo_orders)
  obtain r w' where "resolveTopicTarget demo_live fake_conn delete_flags demo_direct ''orders'' False demo_world = (Inr r, w')"
    using live_resolve [OF demo_on_fake(2) demo_standing demo_topics(3) d] by blast
  then show ?thesis using resolved_targets_are_the_ones_asked_for by blast
qed

section \<open>Success\<close>

text \<open>
  C12: On a healthy machine with an empty spool, with authorizations granted to those who give the flags they need, topic
  create of a new topic and then topic delete of it return without an error on the in-memory backend; the
  broker is as it was, and the log has grown by the intents and outcomes of the two preflights and the two mutations in order.
\<close>

theorem create_then_delete_succeeds:
  assumes "obliging E obs f" and "on_fake E f meta name b" and "standing E obs b tr w"
    and "\<not> contextPlanOnly f" and "fl_AllowTopicDelete f" and "trim_space topic \<noteq> ''''" and "fake_topic b topic = None"
  shows "\<exists>w1 w2. run E f (Topic_Create partitions topic) w = (Inr (), w1) \<and>
    fake_topic (wo_broker w1) topic \<noteq> None \<and> run E f (Topic_Delete topic) w1 = (Inr (), w2) \<and>
    fake_topic (wo_broker w2) = fake_topic b \<and>
    trail obs w2 = tr @ marks ''mq.topic.create.preflight'' @ marks ''mq.topic.create'' @
      marks ''mq.topic.delete.preflight'' @ marks ''mq.topic.delete''"
proof -
  let ?req = "creation_request f meta b partitions topic" and ?c = "fake_coordinate f meta b topic"
  obtain b1 where create: "fake_CreateTopic ?req b = (Inr (created_topic ?req), b1)"
    using topic_registry.create_new [of b ?req] assms(7) by (auto simp: prod_eq_iff creation_request_def fake_coordinate_def)
  have valid: "validateTopicName topic = None" using assms(6) by (simp add: validateTopicName_def)
  obtain w1 where w1: "run E f (Topic_Create partitions topic) w = (Inr (), w1)"
    "standing E obs b1 (tr @ marks ''mq.topic.create.preflight'' @ marks ''mq.topic.create'') w1"
    using live_create [OF assms(1-4) valid assms(7), of partitions] create by auto
  have scope: "fk_cluster b1 = fk_cluster b" "fk_namespace b1 = fk_namespace b"
    using create assms(7) by (auto simp: fake_CreateTopic_def Let_def fake_topic_def split: option.splits)
  then have k: "on_fake E f meta name b1" and c: "fake_coordinate f meta b1 topic = ?c"
    using assms(2) by (simp_all add: on_fake_def fake_coordinate_def fake_scope_def)
  have find: "fake_topic b1 = (fake_topic b)(topic \<mapsto> created_topic ?req)"
    using topic_registry.find_create [of ?req b] create assms(7) by (simp add: creation_request_def fake_coordinate_def)
  have "\<not> differentTopic (td_Coordinate (created_topic ?req)) ?c"
    by (simp add: differentTopic_def created_topic_def creation_request_def conflicting_def)
  then obtain w2 where w2: "run E f (Topic_Delete topic) w1 = (Inr (), w2)"
    "standing E obs (snd (fake_DeleteTopic ?c b1)) ((tr @ marks ''mq.topic.create.preflight'' @ marks ''mq.topic.create'') @
       marks ''mq.topic.delete.preflight'' @ marks ''mq.topic.delete'') w2"
    using live_delete [OF assms(1) k w1(2) assms(4,5) valid, of "created_topic ?req"] find by (auto simp: c)
  moreover have "fake_topic (snd (fake_DeleteTopic ?c b1)) = fake_topic b"
    using topic_registry.find_delete [of ?c b1] find assms(7) by (auto simp: fake_coordinate_def fun_eq_iff)
  ultimately show ?thesis using w1 find by (auto simp: standing_def)
qed

theorem create_then_delete_succeeds_witness:
  "\<exists>w1 w2. run demo_live delete_flags (Topic_Create 3 ''invoices'') demo_world = (Inr (), w1) \<and>
    run demo_live delete_flags (Topic_Delete ''invoices'') w1 = (Inr (), w2) \<and>
    length (trail id w2) = 8"
proof -
  have "trim_space ''invoices'' \<noteq> ''''" by code_simp
  from create_then_delete_succeeds [OF demo_obliging(2) demo_on_fake(2) demo_standing demo_topics(5,6) this demo_topics(1), of 3]
  show ?thesis by (auto simp: marks_def)
qed

end
