(* ===== verification/Credential_Slots.thy ===== *)
theory Credential_Slots
  imports Governance
begin

text \<open>
  Where a credential of a context is kept (cmd/context_import_credentials.go): the physical slot of a
  credential, the identity of a Vault server behind its address, and the owners of the slots that the
  stored contexts refer to.

  The credential stores are those of the core library, \<open>'c\<close> is their state, whatever it is, and
  \<open>'c Backend\<close> is the interface \<open>credstore.Backend\<close>. A call may fail and change the state in any way
  that a hypothesis does not exclude. A map of Go is an association list whose order is the order in
  which a \<open>range\<close> visits it.

  \<open>cred_env\<close> has the functions of the core library and of Go's packages \<open>net\<close> and \<open>net/url\<close>:
  \<open>cr_parseURL\<close> is \<open>url.Parse\<close> with the parts of the result that are read here, \<open>cr_parseIP\<close> is
  \<open>net.ParseIP\<close> with the text of the address and whether it is one of IPv4, \<open>cr_escapedPath\<close> is
  \<open>URL.EscapedPath\<close>, \<open>cr_isNotFound\<close> is \<open>errors.Is\<close> with \<open>credstore.ErrNotFound\<close>.
\<close>

section \<open>Credential stores and addresses\<close>

record 'c Backend =
  bk_Name :: string
  bk_Available :: "('c, unit) op"
  bk_Get :: "string \<Rightarrow> ('c, string) op"
  bk_Put :: "string \<Rightarrow> string \<Rightarrow> ('c, unit) op"
  bk_Delete :: "string \<Rightarrow> ('c, unit) op"

record VaultConfig =
  vc_Addr :: string
  vc_Path :: string
  vc_RoleID :: string
  vc_Namespace :: string

record parsed_url =
  ur_Scheme :: string
  ur_Host :: string
  ur_Hostname :: string
  ur_Port :: string
  ur_hasUser :: bool
  ur_Path :: string
  ur_RawQuery :: string
  ur_ForceQuery :: bool
  ur_Fragment :: string

record 'c cred_env =
  cr_parseRef :: "string \<Rightarrow> string option"
  cr_encodeRef :: "string \<Rightarrow> string"
  cr_new :: "string \<Rightarrow> go_error + 'c Backend"
  cr_newVault :: "VaultConfig \<Rightarrow> 'c Backend"
  cr_requireSecure :: "string \<Rightarrow> bool \<Rightarrow> go_error option"
  cr_availableNames :: "string list"
  cr_isNotFound :: "go_error \<Rightarrow> bool"
  cr_parseURL :: "string \<Rightarrow> parsed_url option"
  cr_parseIP :: "string \<Rightarrow> (string \<times> bool) option"
  cr_escapedPath :: "string \<Rightarrow> string"

section \<open>Text\<close>

definition trim_chars :: "char list \<Rightarrow> string \<Rightarrow> string" where
  "trim_chars cs s = rev (dropWhile (\<lambda>c. c \<in> set cs) (rev (dropWhile (\<lambda>c. c \<in> set cs) s)))"

text \<open>\<open>textproto.TrimString\<close>.\<close>

definition trim_header :: "string \<Rightarrow> string" where
  "trim_header s = trim_chars [CHR 0x20, CHR 0x09, CHR 0x0A, CHR 0x0D] s"

definition replace_char :: "char \<Rightarrow> string \<Rightarrow> string \<Rightarrow> string" where
  "replace_char c r s = concat (map (\<lambda>x. if x = c then r else [x]) s)"

text \<open>
  \<open>path.Clean\<close>: the elements are visited from the left, \<open>kept\<close> are those kept so far, the last one first.
\<close>

fun clean_elements :: "bool \<Rightarrow> string list \<Rightarrow> string list \<Rightarrow> string list" where
  "clean_elements rooted kept [] = rev kept"
| "clean_elements rooted kept (e # es) =
    (if e = '''' \<or> e = ''.'' then clean_elements rooted kept es
     else if e = ''..''
     then (if kept \<noteq> [] \<and> hd kept \<noteq> ''..'' then clean_elements rooted (tl kept) es
           else if rooted then clean_elements rooted kept es
           else clean_elements rooted (e # kept) es)
     else clean_elements rooted (e # kept) es)"

definition path_clean :: "string \<Rightarrow> string" where
  "path_clean p =
    (let rooted = has_prefix p ''/'';
         body = join_with ''/'' (clean_elements rooted [] (split_on (CHR ''/'') p))
     in if rooted then CHR ''/'' # body else if body = '''' then ''.'' else body)"

section \<open>Identity of a Vault server\<close>

definition invalidVaultAddrIdentityError :: go_error where
  "invalidVaultAddrIdentityError = AppError CodeValidationFailed
     ''vaultAddr cannot be normalized to a safe HTTPS endpoint identity'' None"

text \<open>The host in canonical form and whether it is an IPv6 address.\<close>

definition canonicalVaultHostname :: "'c cred_env \<Rightarrow> string \<Rightarrow> go_error + (string \<times> bool)" where
  "canonicalVaultHostname C rawHostname =
    (if rawHostname = '''' then Inl invalidVaultAddrIdentityError
     else case last_index_byte rawHostname (CHR ''%'') of
       Some zoneIndex \<Rightarrow>
         (let address = take zoneIndex rawHostname; zone = drop (zoneIndex + 1) rawHostname in
          case cr_parseIP C address of
            None \<Rightarrow> Inl invalidVaultAddrIdentityError
          | Some (text, isIPv4) \<Rightarrow>
              if isIPv4 \<or> zone = '''' then Inl invalidVaultAddrIdentityError
              else Inr (to_lower text @ ''%'' @ zone, True))
     | None \<Rightarrow>
         (case cr_parseIP C rawHostname of
            Some (text, _) \<Rightarrow> Inr (to_lower text, contains (to_lower text) '':'')
          | None \<Rightarrow>
              if list_ex (\<lambda>c. c \<le> CHR 0x20 \<or> c \<ge> CHR 0x7F) rawHostname \<or> contains_any rawHostname '':%[]''
              then Inl invalidVaultAddrIdentityError
              else (let hostname = trim_suffix (to_lower rawHostname) ''.'' in
                if hostname = '''' \<or> has_suffix hostname ''.'' \<or> contains hostname ''..''
                then Inl invalidVaultAddrIdentityError
                else Inr (hostname, False))))"

definition canonicalVaultPort :: "string \<Rightarrow> string \<Rightarrow> go_error + string" where
  "canonicalVaultPort rawHost rawPort =
    (if rawPort = ''''
     then (if has_suffix rawHost '':'' then Inl invalidVaultAddrIdentityError else Inr '''')
     else case go_atoi rawPort of
       None \<Rightarrow> Inl invalidVaultAddrIdentityError
     | Some port \<Rightarrow>
         if port < 1 \<or> 65535 < port then Inl invalidVaultAddrIdentityError
         else if port = 443 then Inr '''' else Inr (show_int port))"

definition joinHostPort :: "string \<Rightarrow> string \<Rightarrow> string" where
  "joinHostPort host port =
     (if contains host '':'' then ''['' @ host @ '']:'' @ port else host @ '':'' @ port)"

definition canonicalVaultAddrIdentity :: "'c cred_env \<Rightarrow> string \<Rightarrow> go_error + string" where
  "canonicalVaultAddrIdentity C rawAddr =
    (case cr_parseURL C (trim_space rawAddr) of
       None \<Rightarrow> Inl invalidVaultAddrIdentityError
     | Some parsed \<Rightarrow>
         if ur_Scheme parsed = '''' \<or> \<not> equal_fold (ur_Scheme parsed) ''https'' \<or> ur_Host parsed = '''' \<or>
            ur_hasUser parsed \<or> ur_RawQuery parsed \<noteq> '''' \<or> ur_ForceQuery parsed \<or> ur_Fragment parsed \<noteq> ''''
         then Inl invalidVaultAddrIdentityError
         else (case canonicalVaultHostname C (ur_Hostname parsed) of
           Inl e \<Rightarrow> Inl e
         | Inr (hostname, ipv6) \<Rightarrow>
             (case canonicalVaultPort (ur_Host parsed) (ur_Port parsed) of
                Inl e \<Rightarrow> Inl e
              | Inr port \<Rightarrow>
                  let bare = (if ipv6 then ''['' @ replace_char (CHR ''%'') ''%25'' hostname @ '']'' else hostname);
                      joined = (if ipv6 then replace_char (CHR ''%'') ''%25'' (joinHostPort hostname port)
                                else joinHostPort hostname port);
                      authority = (if port \<noteq> '''' then joined else bare);
                      cleaned = path_clean (ur_Path parsed);
                      basePath = (if cleaned = ''.'' \<or> cleaned = ''/'' then '''' else cleaned)
                  in Inr (''https://'' @ authority @ cr_escapedPath C basePath))))"

section \<open>Slots\<close>

record credentialPhysicalSlot =
  sl_backendName :: string
  sl_key :: string
  sl_vaultAddr :: string
  sl_vaultNamespace :: string
  sl_vaultPath :: string

definition contextCredentialPhysicalSlot ::
  "'c cred_env \<Rightarrow> Context \<Rightarrow> string \<Rightarrow> string \<Rightarrow> go_error + credentialPhysicalSlot" where
  "contextCredentialPhysicalSlot C item backendName key =
    (if backendName = ''vault''
     then (case canonicalVaultAddrIdentity C (cx_VaultAddr item) of
        Inl e \<Rightarrow> Inl e
      | Inr addr \<Rightarrow> Inr \<lparr>sl_backendName = backendName, sl_key = '''', sl_vaultAddr = addr,
          sl_vaultNamespace = trim_header (cx_VaultNamespace item),
          sl_vaultPath = trim_chars ''/'' (trim_space (cx_VaultPath item))\<rparr>)
     else Inr \<lparr>sl_backendName = backendName, sl_key = key, sl_vaultAddr = '''', sl_vaultNamespace = '''',
          sl_vaultPath = ''''\<rparr>)"

definition primaryOwner :: "string \<Rightarrow> string" where
  "primaryOwner name = name @ CHR 0x00 # ''primary''"

definition schemaRegistryOwner :: "string \<Rightarrow> string" where
  "schemaRegistryOwner name = name @ CHR 0x00 # ''schema-registry''"

type_synonym owners = "(credentialPhysicalSlot \<times> string) list"

definition addContextImportCredentialOwner ::
  "owners \<Rightarrow> credentialPhysicalSlot \<Rightarrow> string \<Rightarrow> go_error + owners" where
  "addContextImportCredentialOwner owners slot owner =
    (case map_of owners slot of
       Some previous \<Rightarrow> if previous \<noteq> owner
         then Inl (AppError CodeValidationFailed
           ''credential physical slot collides with another context credential slot'' None)
         else Inr (alist_put slot owner owners)
     | None \<Rightarrow> Inr (alist_put slot owner owners))"

text \<open>One credential of a context: nothing for a literal one.\<close>

definition addReference ::
  "'c cred_env \<Rightarrow> Context \<Rightarrow> string \<Rightarrow> string \<Rightarrow> string \<Rightarrow> owners \<Rightarrow> go_error + owners" where
  "addReference C item value key owner owners =
    (case cr_parseRef C value of
       None \<Rightarrow> Inr owners
     | Some backendName \<Rightarrow>
         (case contextCredentialPhysicalSlot C item backendName key of
            Inl e \<Rightarrow> Inl e
          | Inr slot \<Rightarrow> addContextImportCredentialOwner owners slot owner))"

fun slotOwners :: "'c cred_env \<Rightarrow> owners \<Rightarrow> (string \<times> Context) list \<Rightarrow> go_error + owners" where
  "slotOwners C owners [] = Inr owners"
| "slotOwners C owners ((name, item) # contexts) =
    (case addReference C item (cx_Password item) name (primaryOwner name) owners of
       Inl e \<Rightarrow> Inl e
     | Inr owners1 \<Rightarrow>
         (case addReference C item (cx_KafkaSchemaRegistryPassword item) (name @ ''/schema-registry'')
                 (schemaRegistryOwner name) owners1 of
            Inl e \<Rightarrow> Inl e
          | Inr owners2 \<Rightarrow> slotOwners C owners2 contexts))"

definition contextCredentialSlotOwners :: "'c cred_env \<Rightarrow> (string \<times> Context) list \<Rightarrow> go_error + owners" where
  "contextCredentialSlotOwners C contexts = slotOwners C [] contexts"

text \<open>The contexts of \<open>over\<close> replace those of the same names.\<close>

definition overlay :: "(string \<times> Context) list \<Rightarrow> (string \<times> Context) list \<Rightarrow> (string \<times> Context) list" where
  "overlay contexts over = fold (\<lambda>(name, item). alist_put name item) over contexts"

definition validateContextImportCredentialKeySet ::
  "'c cred_env \<Rightarrow> Config \<Rightarrow> (string \<times> Context) list \<Rightarrow> go_error option" where
  "validateContextImportCredentialKeySet C cfg expected =
     errOf (contextCredentialSlotOwners C (overlay (cf_Contexts cfg) expected))"

definition isLiteralCredential :: "'c cred_env \<Rightarrow> string \<Rightarrow> bool" where
  "isLiteralCredential C value =
     (value \<noteq> '''' \<and> value \<noteq> ''<REDACTED>'' \<and> cr_parseRef C value = None)"

end
