(* ===== verification/Credential_Transactions.thy ===== *)
theory Credential_Transactions
  imports Credential_Slots
begin

text \<open>
  The credential transactions of cmd/context_import_credentials.go and cmd/context.go: the writes of the
  credentials of several contexts into their stores, the record of what they replaced, and the
  compensation that puts it back.

  A transaction is the list of its writes. It is a pointer that may be nil in the source, so it is an
  option where it may be. A failing \<open>Get\<close> has no value, \<open>previous\<close> is empty then. The time limit of a
  compensation is one of the ways in which a store may fail. A configuration is never nil.
\<close>

section \<open>Credentials to write\<close>

record 'c contextImportCredentialCandidate =
  ic_name :: string
  ic_backend :: "'c Backend option"
  ic_password :: string
  ic_schemaRegistryPassword :: string
  ic_primarySlot :: credentialPhysicalSlot
  ic_schemaRegistrySlot :: credentialPhysicalSlot

record 'c contextImportCredentialWrite =
  iw_backend :: "'c Backend"
  iw_key :: string
  iw_slot :: credentialPhysicalSlot
  iw_owner :: string
  iw_previous :: string
  iw_written :: string
  iw_existed :: bool
  iw_putSucceeded :: bool

type_synonym 'c import_transaction = "'c contextImportCredentialWrite list"

definition credentialCompensationSucceeded :: string where "credentialCompensationSucceeded = ''succeeded''"
definition credentialCompensationIncomplete :: string where "credentialCompensationIncomplete = ''incomplete''"
definition credentialCompensationNotSafe :: string where "credentialCompensationNotSafe = ''not-safe''"

definition newContextImportCredentialCandidate ::
  "'c cred_env \<Rightarrow> string \<Rightarrow> Context \<Rightarrow> go_error + 'c contextImportCredentialCandidate" where
  "newContextImportCredentialCandidate C name item =
    (case contextCredentialPhysicalSlot C item (cx_CredentialBackend item) name of
       Inl e \<Rightarrow> Inl e
     | Inr primarySlot \<Rightarrow>
         (case contextCredentialPhysicalSlot C item (cx_CredentialBackend item) (name @ ''/schema-registry'') of
            Inl e \<Rightarrow> Inl e
          | Inr schemaRegistrySlot \<Rightarrow>
              Inr \<lparr>ic_name = name, ic_backend = None, ic_password = '''', ic_schemaRegistryPassword = '''',
                   ic_primarySlot = primarySlot, ic_schemaRegistrySlot = schemaRegistrySlot\<rparr>))"

definition credentialBackendForContext :: "'c cred_env \<Rightarrow> Context \<Rightarrow> go_error + 'c Backend" where
  "credentialBackendForContext C item =
    (if cx_CredentialBackend item = ''vault''
     then Inr (cr_newVault C \<lparr>vc_Addr = cx_VaultAddr item, vc_Path = cx_VaultPath item,
       vc_RoleID = cx_VaultRoleID item, vc_Namespace = cx_VaultNamespace item\<rparr>)
     else cr_new C (cx_CredentialBackend item))"

text \<open>The functions that plan the writes also change the context: literals become references.\<close>

definition planContextImportCredential ::
  "'c cred_env \<Rightarrow> string \<Rightarrow> Context \<Rightarrow> go_error + ('c contextImportCredentialCandidate \<times> Context)" where
  "planContextImportCredential C name item0 =
    (let item1 = (case cr_parseRef C (cx_Password item0) of
           Some backendName \<Rightarrow> item0\<lparr>cx_CredentialBackend := backendName\<rparr> | None \<Rightarrow> item0);
         item2 = (case cr_parseRef C (cx_KafkaSchemaRegistryPassword item0) of
           Some backendName \<Rightarrow> item1\<lparr>cx_CredentialBackend := backendName\<rparr> | None \<Rightarrow> item1);
         item = (if cx_CredentialBackend item0 = '''' then item2 else item0)
     in case newContextImportCredentialCandidate C name item of
       Inl e \<Rightarrow> Inl e
     | Inr candidate \<Rightarrow>
         if cx_CredentialBackend item = '''' \<or> cx_CredentialBackend item = ''plain-yaml''
         then Inr (candidate, item)
         else (case credentialBackendForContext C item of
           Inl e \<Rightarrow> Inl e
         | Inr backend \<Rightarrow>
             let candidate1 = candidate\<lparr>ic_backend := Some backend\<rparr>;
                 ref = cr_encodeRef C (cx_CredentialBackend item);
                 (candidate2, itemA) = (if isLiteralCredential C (cx_Password item)
                   then (candidate1\<lparr>ic_password := cx_Password item\<rparr>, item\<lparr>cx_Password := ref\<rparr>)
                   else (candidate1, item))
             in if isLiteralCredential C (cx_KafkaSchemaRegistryPassword item)
                then Inr (candidate2\<lparr>ic_schemaRegistryPassword := cx_KafkaSchemaRegistryPassword item\<rparr>,
                          itemA\<lparr>cx_KafkaSchemaRegistryPassword := ref\<rparr>)
                else Inr (candidate2, itemA)))"

definition planContextSetCredentials ::
  "'c cred_env \<Rightarrow> string \<Rightarrow> Context \<Rightarrow> string \<Rightarrow> string \<Rightarrow>
   go_error + ('c contextImportCredentialCandidate \<times> Context)" where
  "planContextSetCredentials C name item password schemaRegistryPassword =
    (case newContextImportCredentialCandidate C name item of
       Inl e \<Rightarrow> Inl e
     | Inr candidate \<Rightarrow>
         if cx_CredentialBackend item = '''' \<or> cx_CredentialBackend item = ''plain-yaml''
         then Inr (candidate, item\<lparr>cx_Password := password, cx_KafkaSchemaRegistryPassword := schemaRegistryPassword\<rparr>)
         else (case credentialBackendForContext C item of
           Inl e \<Rightarrow> Inl e
         | Inr backend \<Rightarrow>
             let candidate1 = candidate\<lparr>ic_backend := Some backend\<rparr>;
                 ref = cr_encodeRef C (cx_CredentialBackend item);
                 (candidate2, itemA) = (if password \<noteq> ''''
                   then (candidate1\<lparr>ic_password := password\<rparr>, item\<lparr>cx_Password := ref\<rparr>)
                   else (candidate1, item))
             in if schemaRegistryPassword \<noteq> ''''
                then Inr (candidate2\<lparr>ic_schemaRegistryPassword := schemaRegistryPassword\<rparr>,
                          itemA\<lparr>cx_KafkaSchemaRegistryPassword := ref\<rparr>)
                else Inr (candidate2, itemA)))"

definition hasWrites :: "'c contextImportCredentialCandidate \<Rightarrow> bool" where
  "hasWrites candidate = (ic_password candidate \<noteq> '''' \<or> ic_schemaRegistryPassword candidate \<noteq> '''')"

definition slots :: "'c contextImportCredentialCandidate \<Rightarrow> credentialPhysicalSlot list" where
  "slots candidate =
     (if ic_password candidate \<noteq> '''' then [ic_primarySlot candidate] else []) @
     (if ic_schemaRegistryPassword candidate \<noteq> '''' then [ic_schemaRegistrySlot candidate] else [])"

definition slotCollision :: "string \<Rightarrow> string \<Rightarrow> go_error" where
  "slotCollision previous name = AppError CodeValidationFailed
     (''credential import physical slot collision between contexts '' @ go_quote previous @ '' and '' @
      go_quote name) None"

fun planSlots :: "string \<Rightarrow> owners \<Rightarrow> credentialPhysicalSlot list \<Rightarrow> go_error + owners" where
  "planSlots name planned [] = Inr planned"
| "planSlots name planned (slot # rest) =
    (case map_of planned slot of
       Some previous \<Rightarrow> Inl (slotCollision previous name)
     | None \<Rightarrow> planSlots name (alist_put slot name planned) rest)"

fun validateCandidates :: "owners \<Rightarrow> 'c contextImportCredentialCandidate list \<Rightarrow> ('c, unit) op" where
  "validateCandidates planned [] = ret ()"
| "validateCandidates planned (candidate # candidates) =
    (case ic_backend candidate of
       None \<Rightarrow> validateCandidates planned candidates
     | Some backend \<Rightarrow>
         if \<not> hasWrites candidate then validateCandidates planned candidates
         else tryE (bk_Available backend) (\<lambda>available.
           case available of
             Inl e \<Rightarrow> throw (AppError CodeCredentialStoreError
               (''credential backend for context '' @ go_quote (ic_name candidate) @ '' is unavailable'') (Some e))
           | Inr _ \<Rightarrow>
               (case planSlots (ic_name candidate) planned (slots candidate) of
                  Inl e \<Rightarrow> throw e
                | Inr planned' \<Rightarrow> validateCandidates planned' candidates)))"

definition validateContextImportCredentialCandidates :: "'c contextImportCredentialCandidate list \<Rightarrow> ('c, unit) op" where
  "validateContextImportCredentialCandidates candidates = validateCandidates [] candidates"

section \<open>Writing\<close>

definition contextImportCredentialTransaction_put ::
  "'c cred_env \<Rightarrow> 'c Backend option \<Rightarrow> string \<Rightarrow> credentialPhysicalSlot \<Rightarrow> string \<Rightarrow> string \<Rightarrow>
   'c import_transaction \<Rightarrow> ('c, 'c import_transaction) call" where
  "contextImportCredentialTransaction_put C backend key slot owner val transaction =
    (case backend of
       None \<Rightarrow> answer transaction
         (Some (AppError CodeCredentialStoreError ''credential backend is required'' None))
     | Some b \<Rightarrow>
         callE (bk_Get b key) (\<lambda>got.
         if (case got of Inl e \<Rightarrow> \<not> cr_isNotFound C e | Inr _ \<Rightarrow> False) then answer transaction (errOf got)
         else let write = \<lparr>iw_backend = b, iw_key = key, iw_slot = slot, iw_owner = owner,
                    iw_previous = (case got of Inr previous \<Rightarrow> previous | Inl _ \<Rightarrow> ''''), iw_written = val,
                    iw_existed = (errOf got = None), iw_putSucceeded = False\<rparr>
              in callE (bk_Put b key val) (\<lambda>stored.
                 case stored of
                   Inl e \<Rightarrow> answer (transaction @ [write]) (Some e)
                 | Inr _ \<Rightarrow> answer (transaction @ [write\<lparr>iw_putSucceeded := True\<rparr>]) None)))"

text \<open>\<open>if value != "" { if err := put(); err != nil { return transaction, apperrors.New(..., err) } }\<close>.\<close>

definition putWhen ::
  "bool \<Rightarrow> string \<Rightarrow> ('t \<Rightarrow> ('c, 't) call) \<Rightarrow> 't \<Rightarrow> ('c, 't) call" where
  "putWhen present msg put transaction =
    (if \<not> present then answer transaction None
     else callE (put transaction) (\<lambda>(transaction', err).
       case err of
         None \<Rightarrow> answer transaction' None
       | Some e \<Rightarrow> answer transaction' (Some (AppError CodeCredentialStoreError msg (Some e)))))"

definition thenCall :: "('c, 't) call \<Rightarrow> ('t \<Rightarrow> ('c, 't) call) \<Rightarrow> ('c, 't) call" where
  "thenCall m f = callE m (\<lambda>(transaction, err).
     case err of Some e \<Rightarrow> answer transaction (Some e) | None \<Rightarrow> f transaction)"

definition storeFailed :: "string \<Rightarrow> string \<Rightarrow> string" where
  "storeFailed what name = ''store '' @ what @ '' for context '' @ go_quote name @ '' failed''"

fun storeImports ::
  "'c cred_env \<Rightarrow> 'c contextImportCredentialCandidate list \<Rightarrow> 'c import_transaction \<Rightarrow>
   ('c, 'c import_transaction) call" where
  "storeImports C [] transaction = answer transaction None"
| "storeImports C (candidate # candidates) transaction =
     thenCall (putWhen (ic_password candidate \<noteq> '''') (storeFailed ''credential'' (ic_name candidate))
       (contextImportCredentialTransaction_put C (ic_backend candidate) (ic_name candidate)
          (ic_primarySlot candidate) (primaryOwner (ic_name candidate)) (ic_password candidate)) transaction)
     (\<lambda>transaction1.
     thenCall (putWhen (ic_schemaRegistryPassword candidate \<noteq> '''')
         (storeFailed ''schema registry credential'' (ic_name candidate))
       (contextImportCredentialTransaction_put C (ic_backend candidate) (ic_name candidate @ ''/schema-registry'')
          (ic_schemaRegistrySlot candidate) (schemaRegistryOwner (ic_name candidate))
          (ic_schemaRegistryPassword candidate)) transaction1)
     (\<lambda>transaction2. storeImports C candidates transaction2))"

definition storeContextImportCredentials ::
  "'c cred_env \<Rightarrow> 'c contextImportCredentialCandidate list \<Rightarrow> ('c, 'c import_transaction) call" where
  "storeContextImportCredentials C candidates = storeImports C candidates []"

section \<open>Compensation\<close>

definition credentialChanged :: go_error where
  "credentialChanged = AppError CodeCredentialStoreError
     ''credential value changed before compensation; refusing to overwrite'' None"

definition credentialWriteNeedsRestore ::
  "'c cred_env \<Rightarrow> 'c Backend option \<Rightarrow> string \<Rightarrow> string \<Rightarrow> string \<Rightarrow> bool \<Rightarrow> bool \<Rightarrow> ('c, bool) op" where
  "credentialWriteNeedsRestore C backend key previous written existed putSucceeded =
    (case backend of
       None \<Rightarrow> throw (AppError CodeCredentialStoreError
         ''credential backend is unavailable during compensation'' None)
     | Some b \<Rightarrow>
         tryE (bk_Get b key) (\<lambda>got.
         case got of
           Inr current \<Rightarrow>
             if current = written then ret True
             else if \<not> putSucceeded \<and> existed \<and> current = previous then ret False
             else throw credentialChanged
         | Inl e \<Rightarrow>
             if \<not> cr_isNotFound C e then throw e
             else if \<not> putSucceeded \<and> \<not> existed then ret False
             else throw credentialChanged))"

fun import_compensationPlan :: "'c cred_env \<Rightarrow> 'c import_transaction \<Rightarrow> ('c, bool list) op" where
  "import_compensationPlan C [] = ret []"
| "import_compensationPlan C (write # writes) =
     seqE (credentialWriteNeedsRestore C (Some (iw_backend write)) (iw_key write) (iw_previous write)
             (iw_written write) (iw_existed write) (iw_putSucceeded write)) (\<lambda>needsRestore.
     seqE (import_compensationPlan C writes) (\<lambda>restore. ret (needsRestore # restore)))"

text \<open>The writes are undone from the last to the first; the first error is returned.\<close>

fun undoImports ::
  "('c contextImportCredentialWrite \<times> bool) list \<Rightarrow> go_error option \<Rightarrow> 'c \<Rightarrow> go_error option \<times> 'c" where
  "undoImports [] compensationErr c = (compensationErr, c)"
| "undoImports ((write, restore) # rest) compensationErr c =
    (if \<not> restore then undoImports rest compensationErr c
     else callE (if iw_existed write then bk_Put (iw_backend write) (iw_key write) (iw_previous write)
                 else bk_Delete (iw_backend write) (iw_key write))
       (\<lambda>undone. undoImports rest (if compensationErr = None then errOf undone else compensationErr)) c)"

definition import_compensate ::
  "'c import_transaction \<Rightarrow> bool list \<Rightarrow> 'c \<Rightarrow> go_error option \<times> 'c" where
  "import_compensate transaction restore = undoImports (rev (zip transaction restore)) None"

definition validateCompensationCapabilities :: "'c import_transaction \<Rightarrow> bool list \<Rightarrow> go_error option" where
  "validateCompensationCapabilities transaction restore =
    (if list_ex (\<lambda>(write, r). r \<and> sl_backendName (iw_slot write) = ''vault'') (zip transaction restore)
     then Some (AppError CodeCredentialStoreError
       ''Vault credentials cannot be compensated safely without compare-and-swap; refusing to overwrite'' None)
     else None)"

definition ownershipChanged :: go_error where
  "ownershipChanged = AppError CodeCredentialStoreError
     ''credential slot ownership changed before compensation; refusing to overwrite'' None"

definition validateContextImportCompensationOwners ::
  "'c cred_env \<Rightarrow> Config \<Rightarrow> 'c import_transaction \<Rightarrow> go_error option" where
  "validateContextImportCompensationOwners C cfg transaction =
    (case contextCredentialSlotOwners C (cf_Contexts cfg) of
       Inl e \<Rightarrow> Some e
     | Inr owners \<Rightarrow>
         if list_ex (\<lambda>write. case map_of owners (iw_slot write) of
              Some owner \<Rightarrow> owner \<noteq> iw_owner write | None \<Rightarrow> False) transaction
         then Some ownershipChanged else None)"

definition compensateContextImportCredentialsLocked ::
  "'c cred_env \<Rightarrow> Config \<Rightarrow> 'c import_transaction option \<Rightarrow> ('c, string) call" where
  "compensateContextImportCredentialsLocked C cfg transaction =
    (case transaction of
       None \<Rightarrow> answer '''' None
     | Some writes \<Rightarrow>
         if writes = [] then answer '''' None
         else case validateContextImportCompensationOwners C cfg writes of
           Some e \<Rightarrow> answer credentialCompensationNotSafe (Some e)
         | None \<Rightarrow>
             callE (import_compensationPlan C writes) (\<lambda>plan.
             case plan of
               Inl e \<Rightarrow> answer credentialCompensationNotSafe (Some e)
             | Inr restore \<Rightarrow>
                 (case validateCompensationCapabilities writes restore of
                    Some e \<Rightarrow> answer credentialCompensationNotSafe (Some e)
                  | None \<Rightarrow>
                      callE (import_compensate writes restore) (\<lambda>err.
                      case err of
                        Some e \<Rightarrow> answer credentialCompensationIncomplete (Some e)
                      | None \<Rightarrow> answer credentialCompensationSucceeded None))))"

end
