(* ===== verification/Credential_Migration.thy ===== *)
theory Credential_Migration
  imports Credential_Transactions
begin

text \<open>
  The migration of literal credentials into a credential store (cmd/context.go): which credentials there
  are to migrate, the check that no two of them share a slot, and the transaction that writes them. It is
  the transaction of theory Credential_Transactions for a single store, which is no Vault.
\<close>

section \<open>Candidates\<close>

record migrateCredentialCandidate =
  mc_name :: string
  mc_context :: Context
  mc_password :: string
  mc_schemaRegistryPassword :: string

record migrateCredentialsOptions =
  mo_toBackend :: string
  mo_contextName :: string
  mo_dryRun :: bool

record credentialMigrationResult =
  mr_DryRun :: bool
  mr_Backend :: string
  mr_Contexts :: "string list"
  mr_Credentials :: int

record credentialMigrationProgress =
  mp_succeeded :: int
  mp_failed :: int
  mp_uncertain :: int

definition validCredentialMigrationBackend :: "string \<Rightarrow> bool" where
  "validCredentialMigrationBackend name = (name = ''encrypted-file'' \<or> name = ''keychain'')"

definition validateCredentialMigrationOptions :: "cliFlags \<Rightarrow> migrateCredentialsOptions \<Rightarrow> go_error option" where
  "validateCredentialMigrationOptions f opts =
    (if \<not> validCredentialMigrationBackend (mo_toBackend opts)
     then Some (AppError CodeUsageError ''--to must be encrypted-file or keychain'' None)
     else if mo_dryRun opts \<and> fl_Yes f
     then Some (AppError CodeUsageError ''ctx migrate-credentials accepts only one of --dry-run or --yes'' None)
     else None)"

definition contextNotFound :: "string \<Rightarrow> go_error" where
  "contextNotFound name = AppError CodeUsageError (''context '' @ go_quote name @ '' not found'') None"

definition migrationCandidate :: "'c cred_env \<Rightarrow> string \<Rightarrow> Context \<Rightarrow> migrateCredentialCandidate" where
  "migrationCandidate C name item = \<lparr>mc_name = name, mc_context = item,
     mc_password = (if isLiteralCredential C (cx_Password item) then cx_Password item else ''''),
     mc_schemaRegistryPassword = (if isLiteralCredential C (cx_KafkaSchemaRegistryPassword item)
       then cx_KafkaSchemaRegistryPassword item else '''')\<rparr>"

definition migrates :: "migrateCredentialCandidate \<Rightarrow> bool" where
  "migrates candidate = (mc_password candidate \<noteq> '''' \<or> mc_schemaRegistryPassword candidate \<noteq> '''')"

text \<open>The names of a map in sorted order, each with its value.\<close>

definition sorted_entries :: "(string \<times> 'v) list \<Rightarrow> (string \<times> 'v) list" where
  "sorted_entries m = sort_key fst m"

definition credentialMigrationCandidates ::
  "'c cred_env \<Rightarrow> Config \<Rightarrow> string \<Rightarrow> go_error + migrateCredentialCandidate list" where
  "credentialMigrationCandidates C cfg name =
    (if name \<noteq> ''''
     then (case map_of (cf_Contexts cfg) name of
        None \<Rightarrow> Inl (contextNotFound name)
      | Some item \<Rightarrow> Inr (filter migrates [migrationCandidate C name item]))
     else Inr (filter migrates (map (\<lambda>(name, item). migrationCandidate C name item)
            (sorted_entries (cf_Contexts cfg)))))"

definition credentialMigrationContextNames :: "migrateCredentialCandidate list \<Rightarrow> string list" where
  "credentialMigrationContextNames candidates = map mc_name candidates"

definition countCredentials :: "migrateCredentialCandidate \<Rightarrow> int \<Rightarrow> int" where
  "countCredentials candidate n =
    (let n1 = (if mc_password candidate \<noteq> '''' then n + 1 else n)
     in if mc_schemaRegistryPassword candidate \<noteq> '''' then n1 + 1 else n1)"

definition credentialMigrationCredentialCount :: "migrateCredentialCandidate list \<Rightarrow> int" where
  "credentialMigrationCredentialCount candidates = fold countCredentials candidates 0"

text \<open>The context of a candidate once its credentials have moved to the store.\<close>

definition migratedContext :: "'c cred_env \<Rightarrow> string \<Rightarrow> migrateCredentialCandidate \<Rightarrow> Context" where
  "migratedContext C backendName candidate =
    (let item0 = mc_context candidate;
         item1 = (if mc_password candidate \<noteq> ''''
           then item0\<lparr>cx_Password := cr_encodeRef C backendName\<rparr> else item0);
         item2 = (if mc_schemaRegistryPassword candidate \<noteq> ''''
           then item1\<lparr>cx_KafkaSchemaRegistryPassword := cr_encodeRef C backendName\<rparr> else item1)
     in item2\<lparr>cx_CredentialBackend := backendName\<rparr>)"

definition migratedContexts ::
  "'c cred_env \<Rightarrow> string \<Rightarrow> migrateCredentialCandidate list \<Rightarrow> (string \<times> Context) list" where
  "migratedContexts C backendName candidates =
     map (\<lambda>candidate. (mc_name candidate, migratedContext C backendName candidate)) candidates"

definition validateCredentialMigrationKeySet ::
  "'c cred_env \<Rightarrow> Config \<Rightarrow> migrateCredentialCandidate list \<Rightarrow> string \<Rightarrow> go_error option" where
  "validateCredentialMigrationKeySet C cfg candidates backendName =
     errOf (contextCredentialSlotOwners C
       (overlay (cf_Contexts cfg) (migratedContexts C backendName candidates)))"

definition credentialMigrationBackend :: "'c cred_env \<Rightarrow> (go_error \<Rightarrow> string) \<Rightarrow> string \<Rightarrow> ('c, 'c Backend) op" where
  "credentialMigrationBackend C errorText name =
    (case cr_new C name of
       Inl e \<Rightarrow> throw (AppError CodeUsageError (errorText e) (Some e))
     | Inr backend \<Rightarrow>
         tryE (bk_Available backend) (\<lambda>available.
         case available of
           Inl e \<Rightarrow> throw (AppError CodeUsageError (''backend '' @ go_quote name @ '' not available'') (Some e))
         | Inr _ \<Rightarrow> ret backend))"

section \<open>The transaction\<close>

record credentialMigrationWrite =
  mw_key :: string
  mw_slot :: credentialPhysicalSlot
  mw_owner :: string
  mw_previous :: string
  mw_written :: string
  mw_existed :: bool
  mw_putSucceeded :: bool

record 'c credentialMigrationTransaction =
  mt_backend :: "'c Backend"
  mt_writes :: "credentialMigrationWrite list"

definition storeSlot :: "string \<Rightarrow> string \<Rightarrow> credentialPhysicalSlot" where
  "storeSlot backendName key = \<lparr>sl_backendName = backendName, sl_key = key, sl_vaultAddr = '''',
     sl_vaultNamespace = '''', sl_vaultPath = ''''\<rparr>"

definition addWrite ::
  "credentialMigrationWrite \<Rightarrow> 'c credentialMigrationTransaction \<Rightarrow> 'c credentialMigrationTransaction" where
  "addWrite write transaction = transaction\<lparr>mt_writes := mt_writes transaction @ [write]\<rparr>"

definition credentialMigrationTransaction_put ::
  "'c cred_env \<Rightarrow> string \<Rightarrow> string \<Rightarrow> string \<Rightarrow> 'c credentialMigrationTransaction \<Rightarrow>
   ('c, 'c credentialMigrationTransaction) call" where
  "credentialMigrationTransaction_put C key owner val transaction =
     callE (bk_Get (mt_backend transaction) key) (\<lambda>got.
     if (case got of Inl e \<Rightarrow> \<not> cr_isNotFound C e | Inr _ \<Rightarrow> False) then answer transaction (errOf got)
     else let write = \<lparr>mw_key = key, mw_slot = storeSlot (bk_Name (mt_backend transaction)) key, mw_owner = owner,
                mw_previous = (case got of Inr previous \<Rightarrow> previous | Inl _ \<Rightarrow> ''''), mw_written = val,
                mw_existed = (errOf got = None), mw_putSucceeded = False\<rparr>
          in callE (bk_Put (mt_backend transaction) key val) (\<lambda>stored.
             case stored of
               Inl e \<Rightarrow> answer (addWrite write transaction) (Some e)
             | Inr _ \<Rightarrow> answer (addWrite (write\<lparr>mw_putSucceeded := True\<rparr>) transaction) None))"

type_synonym 'c migration_state = "'c credentialMigrationTransaction \<times> credentialMigrationProgress"

text \<open>One write and its place in the progress.\<close>

definition migrateWhen ::
  "bool \<Rightarrow> string \<Rightarrow> ('c credentialMigrationTransaction \<Rightarrow> ('c, 'c credentialMigrationTransaction) call) \<Rightarrow>
   'c migration_state \<Rightarrow> ('c, 'c migration_state) call" where
  "migrateWhen present msg put st =
    (if \<not> present then answer st None
     else callE (put (fst st)) (\<lambda>(transaction, err).
       case err of
         Some e \<Rightarrow> answer (transaction, (snd st)\<lparr>mp_failed := mp_failed (snd st) + 1\<rparr>)
           (Some (AppError CodeCredentialStoreError msg (Some e)))
       | None \<Rightarrow> answer (transaction, (snd st)\<lparr>mp_succeeded := mp_succeeded (snd st) + 1\<rparr>) None))"

fun storeMigrations ::
  "'c cred_env \<Rightarrow> migrateCredentialCandidate list \<Rightarrow> 'c migration_state \<Rightarrow> ('c, 'c migration_state) call" where
  "storeMigrations C [] st = answer st None"
| "storeMigrations C (candidate # candidates) st =
     thenCall (migrateWhen (mc_password candidate \<noteq> '''') (storeFailed ''credential'' (mc_name candidate))
       (credentialMigrationTransaction_put C (mc_name candidate) (primaryOwner (mc_name candidate))
          (mc_password candidate)) st)
     (\<lambda>st1.
     thenCall (migrateWhen (mc_schemaRegistryPassword candidate \<noteq> '''')
         (storeFailed ''schema registry credential'' (mc_name candidate))
       (credentialMigrationTransaction_put C (mc_name candidate @ ''/schema-registry'')
          (schemaRegistryOwner (mc_name candidate)) (mc_schemaRegistryPassword candidate)) st1)
     (\<lambda>st2. storeMigrations C candidates st2))"

definition no_progress :: credentialMigrationProgress where
  "no_progress = \<lparr>mp_succeeded = 0, mp_failed = 0, mp_uncertain = 0\<rparr>"

definition storeCredentialMigrationCandidates ::
  "'c cred_env \<Rightarrow> 'c Backend \<Rightarrow> migrateCredentialCandidate list \<Rightarrow> ('c, 'c migration_state) call" where
  "storeCredentialMigrationCandidates C backend candidates =
     storeMigrations C candidates (\<lparr>mt_backend = backend, mt_writes = []\<rparr>, no_progress)"

fun migration_planWrites ::
  "'c cred_env \<Rightarrow> 'c Backend \<Rightarrow> credentialMigrationWrite list \<Rightarrow> ('c, bool list) op" where
  "migration_planWrites C backend [] = ret []"
| "migration_planWrites C backend (write # writes) =
     seqE (credentialWriteNeedsRestore C (Some backend) (mw_key write) (mw_previous write)
             (mw_written write) (mw_existed write) (mw_putSucceeded write)) (\<lambda>needsRestore.
     seqE (migration_planWrites C backend writes) (\<lambda>restore. ret (needsRestore # restore)))"

definition migration_compensationPlan :: "'c cred_env \<Rightarrow> 'c credentialMigrationTransaction \<Rightarrow> ('c, bool list) op" where
  "migration_compensationPlan C transaction =
     migration_planWrites C (mt_backend transaction) (mt_writes transaction)"

fun undoMigrations ::
  "'c Backend \<Rightarrow> (credentialMigrationWrite \<times> bool) list \<Rightarrow> go_error option \<Rightarrow> 'c \<Rightarrow> go_error option \<times> 'c" where
  "undoMigrations backend [] compensationErr c = (compensationErr, c)"
| "undoMigrations backend ((write, restore) # rest) compensationErr c =
    (if \<not> restore then undoMigrations backend rest compensationErr c
     else callE (if mw_existed write then bk_Put backend (mw_key write) (mw_previous write)
                 else bk_Delete backend (mw_key write))
       (\<lambda>undone. undoMigrations backend rest (if compensationErr = None then errOf undone else compensationErr)) c)"

definition migration_compensate ::
  "'c credentialMigrationTransaction \<Rightarrow> bool list \<Rightarrow> 'c \<Rightarrow> go_error option \<times> 'c" where
  "migration_compensate transaction restore =
     undoMigrations (mt_backend transaction) (rev (zip (mt_writes transaction) restore)) None"

definition compensateCredentialMigrationTransaction ::
  "'c cred_env \<Rightarrow> 'c credentialMigrationTransaction \<Rightarrow> ('c, string) call" where
  "compensateCredentialMigrationTransaction C transaction =
     callE (migration_compensationPlan C transaction) (\<lambda>plan.
     case plan of
       Inl e \<Rightarrow> answer credentialCompensationNotSafe (Some e)
     | Inr restore \<Rightarrow>
         callE (migration_compensate transaction restore) (\<lambda>err.
         case err of
           Some e \<Rightarrow> answer credentialCompensationIncomplete (Some e)
         | None \<Rightarrow> answer credentialCompensationSucceeded None))"

definition validateCredentialMigrationCompensationOwners ::
  "'c cred_env \<Rightarrow> Config \<Rightarrow> 'c credentialMigrationTransaction \<Rightarrow> go_error option" where
  "validateCredentialMigrationCompensationOwners C cfg transaction =
    (case contextCredentialSlotOwners C (cf_Contexts cfg) of
       Inl e \<Rightarrow> Some e
     | Inr owners \<Rightarrow>
         if list_ex (\<lambda>write. case map_of owners (mw_slot write) of
              Some owner \<Rightarrow> owner \<noteq> mw_owner write | None \<Rightarrow> False) (mt_writes transaction)
         then Some ownershipChanged else None)"

definition compensateCredentialMigrationLocked ::
  "'c cred_env \<Rightarrow> Config \<Rightarrow> 'c credentialMigrationTransaction option \<Rightarrow> ('c, string) call" where
  "compensateCredentialMigrationLocked C cfg transaction =
    (case transaction of
       None \<Rightarrow> answer '''' None
     | Some t \<Rightarrow>
         if mt_writes t = [] then answer '''' None
         else case validateCredentialMigrationCompensationOwners C cfg t of
           Some e \<Rightarrow> answer credentialCompensationNotSafe (Some e)
         | None \<Rightarrow> compensateCredentialMigrationTransaction C t)"

definition afterSuccessfulCompensation :: "credentialMigrationProgress \<Rightarrow> credentialMigrationProgress" where
  "afterSuccessfulCompensation progress =
     progress\<lparr>mp_failed := mp_failed progress + mp_succeeded progress, mp_succeeded := 0\<rparr>"

definition afterIncompleteCompensation :: "credentialMigrationProgress \<Rightarrow> credentialMigrationProgress" where
  "afterIncompleteCompensation progress =
     progress\<lparr>mp_uncertain := mp_uncertain progress + (mp_succeeded progress + mp_failed progress),
       mp_succeeded := 0, mp_failed := 0\<rparr>"

end
