(* ===== verification/Context_Control.thy ===== *)
theory Context_Control
  imports Topic_Cmd Credential_Migration
begin

text \<open>
  The commands that control the contexts themselves (cmd/context.go): their state, the change of the
  context store under its lock (internal/mqgovctx/context.go), the policy that governs a change, and the
  commands \<open>ctx use\<close>, \<open>delete\<close>, \<open>list\<close>, \<open>current\<close>, \<open>role\<close> and \<open>test\<close>.

  The state \<open>ctl\<close> extends the world of the other commands with the context store \<open>'s\<close> and the credential
  stores \<open>'c\<close>, each behind its library. \<open>context_store\<close> has what the core library does with the former:
  \<open>store.Load\<close>, the two halves of \<open>store.Update\<close> (\<open>st_begin\<close> takes the lock and loads, \<open>st_commit\<close> saves and
  \<open>st_abandon\<close> gives up, both release the lock), and the lock of the configuration alone. What other
  processes do meanwhile is part of these calls. \<open>ctl_env\<close> also has the text of an error, the JSON of a
  context (its type is partly one of the core library), the names of events of the core library, whether a
  path is a directory (\<open>os.Stat\<close>) and \<open>yaml.Unmarshal\<close>.

  A slice or map that is nil is not told from an empty one, save that both are printed as nil is.
\<close>

section \<open>State and environment\<close>

record ('l, 'b, 's, 'c) ctl =
  ct_world :: "('l, 'b) world"
  ct_store :: 's
  ct_creds :: 'c

record 's context_store =
  st_Load :: "('s, Config) op"
  st_begin :: "('s, Config) op"
  st_commit :: "Config \<Rightarrow> ('s, unit) op"
  st_abandon :: "'s \<Rightarrow> 's"
  st_lock :: "('s, unit) op"
  st_unlock :: "('s, unit) op"

record contextExportDocument =
  cd_APIVersion :: string
  cd_Name :: string
  cd_Context :: "Context option"
  cd_Contexts :: "(string \<times> Context) list"

record ('l, 'b, 's, 'c) ctl_env =
  kc_cmd :: "('l, 'b) cmd_env"
  kc_cred :: "'c cred_env"
  kc_store :: "'s context_store"
  kc_configDir :: "go_error + string"
  kc_errorText :: "go_error \<Rightarrow> string"
  kc_jsonContext :: "Context \<Rightarrow> json"
  kc_eventContextImport :: string
  kc_eventRoleAssign :: string
  kc_eventRoleRevoke :: string
  kc_isDir :: "string \<Rightarrow> go_error + bool"
  kc_unmarshal :: "string \<Rightarrow> go_error + contextExportDocument"

definition inWorld ::
  "(('l, 'b) world \<Rightarrow> 'r \<times> ('l, 'b) world) \<Rightarrow> ('l, 'b, 's, 'c, 'm) ctl_scheme \<Rightarrow> 'r \<times> ('l, 'b, 's, 'c, 'm) ctl_scheme" where
  "inWorld m = zoom ct_world (\<lambda>v w. w\<lparr>ct_world := v\<rparr>) m"

definition inStore :: "('s \<Rightarrow> 'r \<times> 's) \<Rightarrow> ('l, 'b, 's, 'c, 'm) ctl_scheme \<Rightarrow> 'r \<times> ('l, 'b, 's, 'c, 'm) ctl_scheme" where
  "inStore m = zoom ct_store (\<lambda>v w. w\<lparr>ct_store := v\<rparr>) m"

definition inCreds :: "('c \<Rightarrow> 'r \<times> 'c) \<Rightarrow> ('l, 'b, 's, 'c, 'm) ctl_scheme \<Rightarrow> 'r \<times> ('l, 'b, 's, 'c, 'm) ctl_scheme" where
  "inCreds m = zoom ct_creds (\<lambda>v w. w\<lparr>ct_creds := v\<rparr>) m"

definition kc_audit :: "('l, 'b, 's, 'c) ctl_env \<Rightarrow> 'l audit_env" where
  "kc_audit K = ce_audit (kc_cmd K)"

section \<open>The context store\<close>

text \<open>\<open>mqgovctx.Load\<close> and \<open>mqgovctx.Update\<close>. \<open>x\<close> are the variables of the caller that the function \<open>fn\<close> sets.\<close>

definition loadContexts :: "('l, 'b, 's, 'c) ctl_env \<Rightarrow> (('l, 'b, 's, 'c, 'm) ctl_scheme, Config) op" where
  "loadContexts K = tryE (inStore (st_Load (kc_store K))) (\<lambda>loaded. liftE (Load loaded))"

definition abandon :: "('l, 'b, 's, 'c) ctl_env \<Rightarrow> ('l, 'b, 's, 'c) ctl \<Rightarrow> ('l, 'b, 's, 'c) ctl" where
  "abandon K w = w\<lparr>ct_store := st_abandon (kc_store K) (ct_store w)\<rparr>"

definition Update ::
  "('l, 'b, 's, 'c) ctl_env \<Rightarrow> 'x \<Rightarrow>
   (Config \<Rightarrow> ('l, 'b, 's, 'c) ctl \<Rightarrow> ((go_error + Config) \<times> 'x) \<times> ('l, 'b, 's, 'c) ctl) \<Rightarrow>
   ('l, 'b, 's, 'c) ctl \<Rightarrow> (go_error option \<times> 'x) \<times> ('l, 'b, 's, 'c) ctl" where
  "Update K x fn w =
    (case inStore (st_begin (kc_store K)) w of
       (Inl e, w1) \<Rightarrow> ((Some e, x), w1)
     | (Inr cfg, w1) \<Rightarrow>
        (case validatePersistedRoles cfg of
           Some e \<Rightarrow> ((Some e, x), abandon K w1)
         | None \<Rightarrow>
            (case fn cfg w1 of
               ((Inl e, x1), w2) \<Rightarrow> ((Some e, x1), abandon K w2)
             | ((Inr cfg1, x1), w2) \<Rightarrow>
                (case validatePersistedRoles cfg1 of
                   Some e \<Rightarrow> ((Some e, x1), abandon K w2)
                 | None \<Rightarrow> (case inStore (st_commit (kc_store K) cfg1) w2 of (r, w3) \<Rightarrow> ((errOf r, x1), w3))))))"

text \<open>\<open>releaseMutationAuditLock\<close> on the lock of the configuration, as in theory Audit_Engine.\<close>

fun releaseContextLock :: "('l, 'b, 's, 'c) ctl_env \<Rightarrow> nat \<Rightarrow> (('l, 'b, 's, 'c, 'm) ctl_scheme, unit) op" where
  "releaseContextLock K 0 = ret ()"
| "releaseContextLock K (Suc n) = tryE (inStore (st_unlock (kc_store K))) (\<lambda>released.
     case released of
       Inr _ \<Rightarrow> ret ()
     | Inl e \<Rightarrow> if n = 0 then throw e else releaseContextLock K n)"

text \<open>\<open>withContextStoreLock\<close> of cmd/audit.go. \<open>x\<close> as in \<open>Update\<close>.\<close>

definition withContextStoreLock ::
  "('l, 'b, 's, 'c) ctl_env \<Rightarrow> 'x \<Rightarrow>
   (Config \<Rightarrow> ('l, 'b, 's, 'c, 'm) ctl_scheme \<Rightarrow> (go_error option \<times> 'x) \<times> ('l, 'b, 's, 'c, 'm) ctl_scheme) \<Rightarrow>
   ('l, 'b, 's, 'c, 'm) ctl_scheme \<Rightarrow> (go_error option \<times> 'x) \<times> ('l, 'b, 's, 'c, 'm) ctl_scheme" where
  "withContextStoreLock K x action w =
    (case kc_configDir K of
       Inl _ \<Rightarrow> ((Some (local_io ''failed to resolve context config directory''), x), w)
     | Inr _ \<Rightarrow>
        (case inStore (st_lock (kc_store K)) w of
           (Inl e, w1) \<Rightarrow> ((Some e, x), w1)
         | (Inr _, w1) \<Rightarrow>
            (case (case loadContexts K w1 of
                     (Inl e, w2) \<Rightarrow> ((Some e, x), w2) | (Inr cfg, w2) \<Rightarrow> action cfg w2) of
               ((err, x1), w3) \<Rightarrow>
                 (case releaseContextLock K 20 w3 of
                    (Inl _, w4) \<Rightarrow>
                      ((if err = None then Some (local_io ''failed to release context policy lock'') else err, x1), w4)
                  | (Inr _, w4) \<Rightarrow> ((err, x1), w4)))))"

section \<open>The policy of a change\<close>

record contextControlPolicy =
  cp_meta :: Context
  cp_source :: string
  cp_targetExists :: bool

definition missingCurrent :: "string \<Rightarrow> go_error" where
  "missingCurrent name = local_io (''current context '' @ go_quote name @ '' is missing from the context store'')"

definition contextPreChangePolicy :: "Config \<Rightarrow> string \<Rightarrow> go_error + contextControlPolicy" where
  "contextPreChangePolicy cfg target =
    (case map_of (cf_Contexts cfg) target of
       Some item \<Rightarrow> Inr \<lparr>cp_meta = item, cp_source = target, cp_targetExists = True\<rparr>
     | None \<Rightarrow>
         if cf_CurrentContext cfg \<noteq> ''''
         then (case map_of (cf_Contexts cfg) (cf_CurrentContext cfg) of
            Some item \<Rightarrow> Inr \<lparr>cp_meta = item, cp_source = cf_CurrentContext cfg, cp_targetExists = False\<rparr>
          | None \<Rightarrow> Inl (missingCurrent (cf_CurrentContext cfg)))
         else Inr \<lparr>cp_meta = no_context, cp_source = '''', cp_targetExists = False\<rparr>)"

definition contextUsePreChangePolicy :: "Config \<Rightarrow> string \<Rightarrow> go_error + contextControlPolicy" where
  "contextUsePreChangePolicy cfg target =
    (case map_of (cf_Contexts cfg) target of
       None \<Rightarrow> Inl (contextNotFound target)
     | Some targetItem \<Rightarrow>
         if cf_CurrentContext cfg \<noteq> ''''
         then (case map_of (cf_Contexts cfg) (cf_CurrentContext cfg) of
            Some current \<Rightarrow> Inr \<lparr>cp_meta = current, cp_source = cf_CurrentContext cfg, cp_targetExists = True\<rparr>
          | None \<Rightarrow> Inl (missingCurrent (cf_CurrentContext cfg)))
         else Inr \<lparr>cp_meta = targetItem, cp_source = target, cp_targetExists = True\<rparr>)"

text \<open>\<open>reflect.DeepEqual\<close> on maps, and on contexts.\<close>

definition same_roles :: "(string \<times> role) list \<Rightarrow> (string \<times> role) list \<Rightarrow> bool" where
  "same_roles r s = list_all (\<lambda>(k, _). map_of r k = map_of s k) (r @ s)"

definition same_context :: "Context \<Rightarrow> Context \<Rightarrow> bool" where
  "same_context c d = (same_roles (cx_Roles c) (cx_Roles d) \<and> c\<lparr>cx_Roles := []\<rparr> = d\<lparr>cx_Roles := []\<rparr>)"

definition sameContextControlPolicy :: "contextControlPolicy \<Rightarrow> contextControlPolicy \<Rightarrow> bool" where
  "sameContextControlPolicy actual expected =
     (cp_source actual = cp_source expected \<and> cp_targetExists actual = cp_targetExists expected \<and>
      cx_Env (cp_meta actual) = cx_Env (cp_meta expected) \<and>
      cx_Protected (cp_meta actual) = cx_Protected (cp_meta expected) \<and>
      cx_TicketPattern (cp_meta actual) = cx_TicketPattern (cp_meta expected) \<and>
      cx_TicketValidator (cp_meta actual) = cx_TicketValidator (cp_meta expected) \<and>
      same_roles (cx_Roles (cp_meta actual)) (cx_Roles (cp_meta expected)))"

definition unchangedPolicy :: "string \<Rightarrow> go_error + contextControlPolicy \<Rightarrow> contextControlPolicy \<Rightarrow> go_error option" where
  "unchangedPolicy msg actual expected =
    (case actual of
       Inl e \<Rightarrow> Some e
     | Inr policy \<Rightarrow>
         if sameContextControlPolicy policy expected then None
         else Some (AppError CodeAuthorizationRequired msg None))"

definition ensureContextPolicyUnchanged :: "Config \<Rightarrow> string \<Rightarrow> contextControlPolicy \<Rightarrow> go_error option" where
  "ensureContextPolicyUnchanged cfg target expected =
     unchangedPolicy ''context policy changed during authorization; retry the command''
       (contextPreChangePolicy cfg target) expected"

definition ensureContextUsePolicyUnchanged :: "Config \<Rightarrow> string \<Rightarrow> contextControlPolicy \<Rightarrow> go_error option" where
  "ensureContextUsePolicyUnchanged cfg target expected =
     unchangedPolicy ''current context policy changed during authorization; retry the command''
       (contextUsePreChangePolicy cfg target) expected"

text \<open>\<open>safety.Authorize\<close> always at R3.\<close>

definition controlOptions ::
  "cliFlags \<Rightarrow> string \<Rightarrow> contextControlPolicy \<Rightarrow> string \<Rightarrow> string \<Rightarrow> safety_options" where
  "controlOptions f name preChange allow operator =
     \<lparr>so_Yes = fl_Yes f, so_NonInteractive = fl_NonInter f, so_Ticket = fl_Ticket f,
      so_TicketPattern = cx_TicketPattern (cp_meta preChange),
      so_Validator = ticketValidator (cx_TicketValidator (cp_meta preChange))
        (firstNonEmpty [cp_source preChange, name]) operator,
      so_RequiredAllowFlags = [allow], so_GrantedAllowFlags = grantedAllowFlags f,
      so_Roles = cx_Roles (cp_meta preChange), so_Operator = operator\<rparr>"

definition authorizeContextControl ::
  "('l, 'b) cmd_env \<Rightarrow> cliFlags \<Rightarrow> string \<Rightarrow> contextControlPolicy \<Rightarrow> string \<Rightarrow> ('l, 'b, unit) cmd" where
  "authorizeContextControl E f name preChange allow =
    (case trustedOperatorIdentity (ce_su E) f of
       Inl e \<Rightarrow> throw e
     | Inr operator \<Rightarrow>
         seqE (getS wo_asks) (\<lambda>n.
         seqE (modS (\<lambda>w. w\<lparr>wo_asks := Suc n\<rparr>)) (\<lambda>_.
         case ce_authorize E n R3 (controlOptions f name preChange allow operator) of
           None \<Rightarrow> ret ()
         | Some e \<Rightarrow>
             tryE (audit (appendAuditWarn (ce_audit E) f (ce_eventAuthorizationDenied E) (cp_meta preChange)
                    \<lparr>et_ResourceType = ''context'', et_Resource = name\<rparr> StatusDenied '''' (Some e)))
               (\<lambda>_. throw e))))"

section \<open>Plans and outcomes\<close>

definition printJSONData :: "('l, 'b, 's, 'c) ctl_env \<Rightarrow> cliFlags \<Rightarrow> string \<Rightarrow> (string \<times> json) list \<Rightarrow>
  (('l, 'b, 's, 'c, 'm) ctl_scheme, unit) op" where
  "printJSONData K f kind data = inWorld (printed (kc_cmd K) (Out_JSON (newPrinter f) kind (V_Map data) None))"

definition printContextControlPlan ::
  "('l, 'b, 's, 'c) ctl_env \<Rightarrow> cliFlags \<Rightarrow> string \<Rightarrow> string \<Rightarrow> Context \<Rightarrow> (('l, 'b, 's, 'c) ctl, unit) op" where
  "printContextControlPlan K f action name item = printJSONData K f ''ChangePlan''
     [(''resourceType'', JStr ''context''), (''action'', JStr action), (''context'', JStr name),
      (''protected'', JBool (cx_Protected item)), (''dryRun'', JBool True)]"

definition appendContextAuditWarn ::
  "('l, 'b, 's, 'c) ctl_env \<Rightarrow> cliFlags \<Rightarrow> string \<Rightarrow> Context \<Rightarrow> string \<Rightarrow> (('l, 'b, 's, 'c) ctl, unit) op" where
  "appendContextAuditWarn K f eventType item diff = inWorld (audit (appendAuditWarn (kc_audit K) f eventType item
     \<lparr>et_ResourceType = ''context'', et_Resource = contextName (ae_su (kc_audit K)) f\<rparr> StatusSuccess diff None))"

text \<open>What \<open>appendRoleAuditWarn\<close> and \<open>appendCredentialMigrationAuditWarn\<close> share: \<open>record\<close> is made at a time.\<close>

definition appendRecordWarn ::
  "('l, 'b, 's, 'c) ctl_env \<Rightarrow> cliFlags \<Rightarrow> (go_time \<Rightarrow> safeAuditRecord) \<Rightarrow> (('l, 'b, 's, 'c) ctl, unit) op" where
  "appendRecordWarn K f makeRecord =
    (case ae_default_path (kc_audit K) of
       Inl _ \<Rightarrow> ret ()
     | Inr _ \<Rightarrow> inWorld (audit (
         seqE (now_op (kc_audit K)) (\<lambda>now.
         tryE (appendQueuedAuditRecord (kc_audit K) f (makeRecord now)) (\<lambda>_. ret ())))))"

definition appendRoleAuditWarn ::
  "('l, 'b, 's, 'c) ctl_env \<Rightarrow> cliFlags \<Rightarrow> string \<Rightarrow> string \<Rightarrow> Context \<Rightarrow> string \<Rightarrow> string \<Rightarrow>
   (('l, 'b, 's, 'c) ctl, unit) op" where
  "appendRoleAuditWarn K f eventType name item operator role =
     appendRecordWarn K f (\<lambda>now.
       let r = newSafeAuditRecord (ae_asApp (kc_audit K)) (ae_su (kc_audit K)) f now eventType item name
             \<lparr>et_ResourceType = ''role'', et_Resource = operator\<rparr> StatusSuccess '''' None
       in r\<lparr>ar_Event := (ar_Event r)\<lparr>ev_RoleChange := Some (operator, role)\<rparr>\<rparr>)"

text \<open>The tail that the commands share: the outcome if there was an intent, else the error as it is.\<close>

definition concludeControl ::
  "('l, 'b, 's, 'c) ctl_env \<Rightarrow> cliFlags \<Rightarrow> mutationAuditOutcome \<Rightarrow>
   go_error option \<Rightarrow> mutationAuditHandle option \<Rightarrow> (('l, 'b, 's, 'c) ctl, unit) op" where
  "concludeControl K f oc operationErr handle =
    (case handle of
       None \<Rightarrow> check operationErr
     | Some h \<Rightarrow>
         tryE (inWorld (audit (finishMutationAudit (kc_audit K) f h oc operationErr))) (\<lambda>finished.
         check (finishReturn finished operationErr)))"

definition controlSpec :: "string \<Rightarrow> string \<Rightarrow> Context \<Rightarrow> EventTarget \<Rightarrow> mutationAuditMetadata \<Rightarrow> mutationAuditSpec" where
  "controlSpec action name meta target metadata = \<lparr>sp_Action = action, sp_ContextName = name,
     sp_Context = meta, sp_Target = target, sp_Metadata = metadata, sp_AuditPath = '''', sp_Read = False\<rparr>"

text \<open>
  The function that \<open>ctx use\<close>, \<open>delete\<close> and \<open>role\<close> hand to \<open>Update\<close>: recheck, write the intent, change. Its
  variable is the handle.
\<close>

definition auditedChange ::
  "('l, 'b, 's, 'c) ctl_env \<Rightarrow> cliFlags \<Rightarrow> (Config \<Rightarrow> go_error option) \<Rightarrow> mutationAuditSpec \<Rightarrow> (Config \<Rightarrow> Config) \<Rightarrow>
   Config \<Rightarrow> ('l, 'b, 's, 'c) ctl \<Rightarrow> ((go_error + Config) \<times> mutationAuditHandle option) \<times> ('l, 'b, 's, 'c) ctl" where
  "auditedChange K f recheck spec change locked w =
    (case recheck locked of
       Some e \<Rightarrow> ((Inl e, None), w)
     | None \<Rightarrow>
        (case inWorld (audit (beginMutationAudit (kc_audit K) f spec)) w of
           (Inl e, w1) \<Rightarrow> ((Inl e, None), w1)
         | (Inr handle, w1) \<Rightarrow> ((Inr (change locked), Some handle), w1)))"

definition controlChange ::
  "('l, 'b, 's, 'c) ctl_env \<Rightarrow> cliFlags \<Rightarrow> (Config \<Rightarrow> go_error option) \<Rightarrow> mutationAuditSpec \<Rightarrow> (Config \<Rightarrow> Config) \<Rightarrow>
   (('l, 'b, 's, 'c) ctl, unit) op" where
  "controlChange K f recheck spec change =
     callE (Update K None (auditedChange K f recheck spec change)) (\<lambda>(operationErr, handle).
     concludeControl K f empty_outcome operationErr handle)"

end
