(* ===== verification/Context_Cmd.thy ===== *)
theory Context_Cmd
  imports Context_Control
begin

text \<open>
  The handlers of \<open>ctx use\<close>, \<open>list\<close>, \<open>current\<close>, \<open>delete\<close>, \<open>role\<close> and \<open>test\<close> (cmd/context.go). Arguments and
  flags of the command line are arguments of the definitions.
\<close>

section \<open>Using, deleting and listing contexts\<close>

definition contextTarget :: "string \<Rightarrow> EventTarget" where
  "contextTarget name = \<lparr>et_ResourceType = ''context'', et_Resource = name\<rparr>"

definition ctxUseCmd :: "('l, 'b, 's, 'c) ctl_env \<Rightarrow> cliFlags \<Rightarrow> string \<Rightarrow> (('l, 'b, 's, 'c) ctl, unit) op" where
  "ctxUseCmd K f name =
     seqE (loadContexts K) (\<lambda>cfg.
     case map_of (cf_Contexts cfg) name of
       None \<Rightarrow> throw (contextNotFound name)
     | Some item \<Rightarrow>
         seqE (liftE (contextUsePreChangePolicy cfg name)) (\<lambda>preChange.
         if contextPlanOnly f
         then seqE (appendContextAuditWarn K f ''ctx.use'' item ''ctx use dryRun=true'') (\<lambda>_.
              printContextControlPlan K f ''use'' name item)
         else
           seqE (inWorld (authorizeContextControl (kc_cmd K) f name preChange allowContextChange)) (\<lambda>_.
           seqE (controlChange K f (\<lambda>locked. ensureContextUsePolicyUnchanged locked name preChange)
                  (controlSpec ''mq.ctx.use'' name (cp_meta preChange) (contextTarget name)
                    (mutationPayloadMetadata ''mq.ctx.use'' name))
                  (\<lambda>locked. locked\<lparr>cf_CurrentContext := name\<rparr>)) (\<lambda>_.
           printJSONData K f ''ContextItem'' [(''current'', JStr name)]))))"

definition json_strings :: "string list \<Rightarrow> json" where
  "json_strings xs = (if xs = [] then JNull else JArr (map JStr xs))"

definition tlsCAConfigured :: "Context \<Rightarrow> bool" where
  "tlsCAConfigured item = (cx_KafkaCACertFile item \<noteq> '''' \<or> cx_RabbitMQCACertFile item \<noteq> '''' \<or>
     cx_PulsarCACertFile item \<noteq> '''' \<or> cx_RocketMQCACertFile item \<noteq> '''')"

definition tlsClientConfigured :: "Context \<Rightarrow> bool" where
  "tlsClientConfigured item =
     (cx_KafkaClientCertFile item \<noteq> '''' \<or> cx_KafkaClientKeyFile item \<noteq> '''' \<or>
      cx_RabbitMQClientCertFile item \<noteq> '''' \<or> cx_RabbitMQClientKeyFile item \<noteq> '''' \<or>
      cx_PulsarClientCertFile item \<noteq> '''' \<or> cx_PulsarClientKeyFile item \<noteq> '''' \<or>
      cx_RocketMQClientCertFile item \<noteq> '''' \<or> cx_RocketMQClientKeyFile item \<noteq> '''')"

definition contextView :: "string \<Rightarrow> Context \<Rightarrow> bool \<Rightarrow> bool \<Rightarrow> (string \<times> json) list" where
  "contextView name item current showSecrets =
    [(''name'', JStr name), (''current'', JBool current), (''backend'', JStr (cx_Backend item)),
     (''cluster'', JStr (cx_Cluster item)), (''namespace'', JStr (cx_Namespace item)),
     (''username'', JStr (cx_Username item)),
     (''password'', JStr (if showSecrets then cx_Password item else '''')),
     (''passwordSet'', JBool (cx_Password item \<noteq> '''')), (''protected'', JBool (cx_Protected item)),
     (''credentialBackend'', JStr (cx_CredentialBackend item)),
     (''kafkaBrokers'', json_strings (cx_KafkaBrokers item)),
     (''kafkaSaslMechanism'', JStr (cx_KafkaSASLMechanism item)), (''kafkaTls'', JBool (cx_KafkaTLS item)),
     (''kafkaSchemaRegistryUrl'', JStr (cx_KafkaSchemaRegistryURL item)),
     (''kafkaSchemaRegistryUsername'', JStr (cx_KafkaSchemaRegistryUsername item)),
     (''kafkaSchemaRegistryPasswordSet'', JBool (cx_KafkaSchemaRegistryPassword item \<noteq> '''')),
     (''rabbitmqAmqpUrl'', JStr (cx_RabbitMQAMQPURL item)),
     (''rabbitmqManagementUrl'', JStr (cx_RabbitMQManagementURL item)),
     (''rabbitmqHost'', JStr (cx_RabbitMQHost item)), (''rabbitmqPort'', JNum (cx_RabbitMQPort item)),
     (''rabbitmqVhost'', JStr (cx_RabbitMQVHost item)), (''rabbitmqTls'', JBool (cx_RabbitMQTLS item)),
     (''pulsarServiceUrl'', JStr (cx_PulsarServiceURL item)), (''pulsarAdminUrl'', JStr (cx_PulsarAdminURL item)),
     (''pulsarTenant'', JStr (cx_PulsarTenant item)), (''pulsarNamespace'', JStr (cx_PulsarNamespace item)),
     (''pulsarTls'', JBool (cx_PulsarTLS item)),
     (''rocketmqNameServers'', json_strings (cx_RocketMQNameServers item)),
     (''rocketmqBrokerAddr'', JStr (cx_RocketMQBrokerAddr item)),
     (''rocketmqAccessKey'', JStr (cx_RocketMQAccessKey item)), (''rocketmqTls'', JBool (cx_RocketMQTLS item)),
     (''caCertFilesConfigured'', JBool (tlsCAConfigured item)),
     (''clientCertsConfigured'', JBool (tlsClientConfigured item))]"

definition ctxListCmd :: "('l, 'b, 's, 'c) ctl_env \<Rightarrow> cliFlags \<Rightarrow> (('l, 'b, 's, 'c) ctl, unit) op" where
  "ctxListCmd K f =
     seqE (loadContexts K) (\<lambda>cfg.
     let entries = sorted_entries (cf_Contexts cfg);
         items = map (\<lambda>(name, item). contextView name item (name = cf_CurrentContext cfg) False) entries;
         rows = map (\<lambda>(name, item). [name, show_bool (name = cf_CurrentContext cfg), cx_Backend item,
           cx_Cluster item, cx_Namespace item, show_bool (cx_Protected item), show_bool (cx_Password item \<noteq> '''')])
           entries;
         n = int (length items)
     in inWorld (printed (kc_cmd K)
          (if fl_Output f = ''json'' then Out_JSONList (newPrinter f) ''ContextList'' (V_Maps items) n 1 n False
           else Out_Table (newPrinter f)
             [''NAME'', ''CURRENT'', ''BACKEND'', ''CLUSTER'', ''NAMESPACE'', ''PROTECTED'', ''CREDENTIAL''] rows)))"

text \<open>\<open>mqgovctx.Current\<close> loads the store anew.\<close>

definition ctxCurrentCmd :: "('l, 'b, 's, 'c) ctl_env \<Rightarrow> cliFlags \<Rightarrow> (('l, 'b, 's, 'c) ctl, unit) op" where
  "ctxCurrentCmd K f =
     tryE (inStore (st_Load (kc_store K))) (\<lambda>loaded.
     seqE (liftE (Current loaded)) (\<lambda>(item, name).
     printJSONData K f ''ContextItem'' (contextView name item True False @
       [(''credentialBackends'', json_strings (cr_availableNames (kc_cred K)))])))"

definition recheckExisting :: "string \<Rightarrow> contextControlPolicy \<Rightarrow> Config \<Rightarrow> go_error option" where
  "recheckExisting name preChange locked = (case ensureContextPolicyUnchanged locked name preChange of
     Some e \<Rightarrow> Some e
   | None \<Rightarrow> if map_of (cf_Contexts locked) name = None then Some (contextNotFound name) else None)"

definition ctxDeleteCmd :: "('l, 'b, 's, 'c) ctl_env \<Rightarrow> cliFlags \<Rightarrow> string \<Rightarrow> (('l, 'b, 's, 'c) ctl, unit) op" where
  "ctxDeleteCmd K f name =
     seqE (loadContexts K) (\<lambda>cfg.
     case map_of (cf_Contexts cfg) name of
       None \<Rightarrow> throw (contextNotFound name)
     | Some item \<Rightarrow>
         seqE (liftE (contextPreChangePolicy cfg name)) (\<lambda>preChange.
         if contextPlanOnly f
         then seqE (appendContextAuditWarn K f ''ctx.delete'' item ''ctx delete dryRun=true'') (\<lambda>_.
              printContextControlPlan K f ''delete'' name item)
         else
           seqE (inWorld (authorizeContextControl (kc_cmd K) f name preChange allowContextDelete)) (\<lambda>_.
           seqE (controlChange K f
                  (recheckExisting name preChange)
                  (controlSpec ''mq.ctx.delete'' name (cp_meta preChange) (contextTarget name)
                    (mutationPayloadMetadata ''mq.ctx.delete'' name))
                  (\<lambda>locked. locked\<lparr>cf_Contexts := alist_del name (cf_Contexts locked),
                     cf_CurrentContext := (if cf_CurrentContext locked = name then '''' else cf_CurrentContext locked)\<rparr>))
             (\<lambda>_.
           printJSONData K f ''ContextItem'' [(''deleted'', JStr name)]))))"

section \<open>Roles\<close>

record roleOptions =
  ro_targetOperator :: string
  ro_role :: string

definition to_role :: "string \<Rightarrow> role" where
  "to_role r = (if r = ''reader'' then RoleReader else if r = ''writer'' then RoleWriter
     else if r = ''admin'' then RoleAdmin else RoleOther r)"

definition show_role :: "role \<Rightarrow> string" where
  "show_role r = (case r of RoleReader \<Rightarrow> ''reader'' | RoleWriter \<Rightarrow> ''writer'' | RoleAdmin \<Rightarrow> ''admin''
     | RoleOther s \<Rightarrow> s)"

definition validRole :: "string \<Rightarrow> bool" where
  "validRole r = (to_role r = RoleReader \<or> to_role r = RoleWriter \<or> to_role r = RoleAdmin)"

definition roleItems :: "(string \<times> role) list \<Rightarrow> (string \<times> string) list" where
  "roleItems roles = map (\<lambda>(operator, r). (operator, show_role r)) (sorted_entries roles)"

definition changeRoles :: "string \<Rightarrow> ((string \<times> role) list \<Rightarrow> (string \<times> role) list) \<Rightarrow> Config \<Rightarrow> Config" where
  "changeRoles name change locked = (case map_of (cf_Contexts locked) name of
     None \<Rightarrow> locked
   | Some current \<Rightarrow> locked\<lparr>cf_Contexts :=
       alist_put name (current\<lparr>cx_Roles := change (cx_Roles current)\<rparr>) (cf_Contexts locked)\<rparr>)"


definition roleTarget :: "string \<Rightarrow> EventTarget" where
  "roleTarget operator = \<lparr>et_ResourceType = ''role'', et_Resource = operator\<rparr>"

definition runCtxRoleSet ::
  "('l, 'b, 's, 'c) ctl_env \<Rightarrow> cliFlags \<Rightarrow> string \<Rightarrow> roleOptions \<Rightarrow> (('l, 'b, 's, 'c) ctl, unit) op" where
  "runCtxRoleSet K f name opts =
    (let operator = ro_targetOperator opts; role = ro_role opts in
     if operator = '''' then throw (usage_error ''--target-operator is required'')
     else if \<not> validRole role then throw (usage_error ''--role must be reader, writer, or admin'')
     else
       seqE (loadContexts K) (\<lambda>cfg.
       if map_of (cf_Contexts cfg) name = None then throw (contextNotFound name)
       else
         seqE (liftE (contextPreChangePolicy cfg name)) (\<lambda>preChange.
         if contextPlanOnly f
         then seqE (appendRoleAuditWarn K f (kc_eventRoleAssign K) name (cp_meta preChange) operator role) (\<lambda>_.
              printJSONData K f ''ChangePlan'' [(''resourceType'', JStr ''role''), (''action'', JStr ''set''),
                (''context'', JStr name), (''operator'', JStr operator), (''role'', JStr role),
                (''dryRun'', JBool True)])
         else
           seqE (inWorld (authorizeContextControl (kc_cmd K) f name preChange allowRoleChange)) (\<lambda>_.
           seqE (controlChange K f (recheckExisting name preChange)
                  (controlSpec ''mq.ctx.role.set'' name (cp_meta preChange) (roleTarget operator)
                    ((valueMetadata ''mq.ctx.role.set'' (json_map [(''operator'', JStr operator), (''role'', JStr role)]))
                       \<lparr>md_Items := 1\<rparr>))
                  (changeRoles name (alist_put operator (to_role role)))) (\<lambda>_.
           if fl_Output f = ''json''
           then printJSONData K f ''ContextItem'' [(''context'', JStr name), (''operator'', JStr operator),
                  (''role'', JStr role)]
           else inWorld (printed (kc_cmd K) (Out_Success (newPrinter f) (''role '' @ go_quote role @
                  '' assigned to '' @ go_quote operator @ '' in context '' @ go_quote name))))))))"

definition runCtxRoleUnset ::
  "('l, 'b, 's, 'c) ctl_env \<Rightarrow> cliFlags \<Rightarrow> string \<Rightarrow> roleOptions \<Rightarrow> (('l, 'b, 's, 'c) ctl, unit) op" where
  "runCtxRoleUnset K f name opts =
    (let operator = ro_targetOperator opts in
     if operator = '''' then throw (usage_error ''--target-operator is required'')
     else
       seqE (loadContexts K) (\<lambda>cfg.
       if map_of (cf_Contexts cfg) name = None then throw (contextNotFound name)
       else
         seqE (liftE (contextPreChangePolicy cfg name)) (\<lambda>preChange.
         if contextPlanOnly f
         then seqE (appendRoleAuditWarn K f (kc_eventRoleRevoke K) name (cp_meta preChange) operator '''') (\<lambda>_.
              printJSONData K f ''ChangePlan'' [(''resourceType'', JStr ''role''), (''action'', JStr ''unset''),
                (''context'', JStr name), (''operator'', JStr operator), (''dryRun'', JBool True)])
         else
           seqE (inWorld (authorizeContextControl (kc_cmd K) f name preChange allowRoleChange)) (\<lambda>_.
           seqE (controlChange K f (recheckExisting name preChange)
                  (controlSpec ''mq.ctx.role.unset'' name (cp_meta preChange) (roleTarget operator)
                    ((valueMetadata ''mq.ctx.role.unset'' (json_map [(''operator'', JStr operator)]))\<lparr>md_Items := 1\<rparr>))
                  (changeRoles name (alist_del operator))) (\<lambda>_.
           if fl_Output f = ''json''
           then printJSONData K f ''ContextItem'' [(''context'', JStr name), (''operator'', JStr operator),
                  (''removed'', JBool True)]
           else inWorld (printed (kc_cmd K) (Out_Success (newPrinter f) (''role removed from '' @ go_quote operator @
                  '' in context '' @ go_quote name))))))))"

definition loadContextForRole :: "('l, 'b, 's, 'c) ctl_env \<Rightarrow> string \<Rightarrow> (('l, 'b, 's, 'c) ctl, Context) op" where
  "loadContextForRole K name =
     seqE (loadContexts K) (\<lambda>cfg.
     case map_of (cf_Contexts cfg) name of None \<Rightarrow> throw (contextNotFound name) | Some item \<Rightarrow> ret item)"

definition runCtxRoleList :: "('l, 'b, 's, 'c) ctl_env \<Rightarrow> cliFlags \<Rightarrow> string \<Rightarrow> (('l, 'b, 's, 'c) ctl, unit) op" where
  "runCtxRoleList K f name =
     seqE (loadContextForRole K name) (\<lambda>item.
     let items = roleItems (cx_Roles item); n = int (length items) in
     inWorld (printed (kc_cmd K)
       (if fl_Output f = ''json''
        then Out_JSONList (newPrinter f) ''RoleList''
               (V_Maps (map (\<lambda>(operator, role). [(''operator'', JStr operator), (''role'', JStr role)]) items)) n 1 n False
        else if items = [] then Out_Info (newPrinter f) ''(no roles assigned)''
        else Out_Table (newPrinter f) [''OPERATOR'', ''ROLE''] (map (\<lambda>(operator, role). [operator, role]) items))))"

section \<open>Testing a context\<close>

text \<open>The command has the world of the commands on brokers; the argument becomes the flag \<open>--context\<close>.\<close>

definition ctxTestCmd :: "('l, 'b) cmd_env \<Rightarrow> cliFlags \<Rightarrow> string option \<Rightarrow> ('l, 'b, unit) cmd" where
  "ctxTestCmd E f0 arg =
    (let ctxName = (case arg of None \<Rightarrow> contextName (ce_su E) f0 | Some name \<Rightarrow> name);
         f = (case arg of None \<Rightarrow> f0 | Some name \<Rightarrow> f0\<lparr>fl_Context := name\<rparr>)
     in seqE (runMandatoryBrokerRead E f
          ((readSpec ''mq.context.test'' (resource ''context'' ctxName)
             (valueMetadata ''mq.context.test'' (json_map [(''context'', JStr ctxName)])))\<lparr>rs_ContextName := ctxName\<rparr>)
          ''''
          (\<lambda>meta. classifyAndAuthorize E f meta OperationClusterInfo empty_target '''')
          (\<lambda>backend _ w. (case broker_call E backend (Ping (cn_broker backend)) w of
             (pinged, w1) \<Rightarrow> ((de_Backend (describe backend w), errOf pinged), w1)))
          (\<lambda>_. 1)) (\<lambda>(backendName, _).
        printed E (Out_JSON (newPrinter f) ''ContextTestResult'' (V_Map [(''name'', JStr ctxName),
          (''backend'', JStr backendName), (''ok'', JBool True)]) None)))"

end
