(* ===== verification/Context_Import.thy ===== *)
theory Context_Import
  imports Context_Cmd
begin

text \<open>
  \<open>ctx set\<close> and \<open>ctx import\<close> (cmd/context.go, cmd/context_import_credentials.go): contexts and their
  credentials change together. The credentials are written while the context store is locked, after the
  intent; what was written is put back when a later write fails, or when the contexts could not be saved.
\<close>

section \<open>The change of contexts and credentials\<close>

record contextImportTargetState =
  ts_context :: Context
  ts_exists :: bool

text \<open>The variables that the function given to \<open>Update\<close> sets.\<close>

record 'c importVars =
  iv_handle :: "mutationAuditHandle option"
  iv_transaction :: "'c import_transaction option"
  iv_original :: "(string \<times> contextImportTargetState) list"
  iv_status :: string
  iv_uncertain :: bool
  iv_compensated :: bool

definition no_vars :: "'c importVars" where
  "no_vars = \<lparr>iv_handle = None, iv_transaction = None, iv_original = [], iv_status = '''',
     iv_uncertain = False, iv_compensated = False\<rparr>"

definition captureContextImportTargets :: "Config \<Rightarrow> string list \<Rightarrow> (string \<times> contextImportTargetState) list" where
  "captureContextImportTargets cfg names = map (\<lambda>name. (name, case map_of (cf_Contexts cfg) name of
     Some item \<Rightarrow> \<lparr>ts_context = item, ts_exists = True\<rparr>
   | None \<Rightarrow> \<lparr>ts_context = no_context, ts_exists = False\<rparr>)) names"

definition normalizeItem :: "Context \<Rightarrow> Context" where
  "normalizeItem item = item\<lparr>
     cx_OTLPEndpointSource := (if cx_OTLPEndpointSource item = '''' then ''auto'' else cx_OTLPEndpointSource item),
     cx_OTLPMetricsSource := (if cx_OTLPMetricsSource item = '''' then ''auto'' else cx_OTLPMetricsSource item)\<rparr>"

definition contextImportItemsEqual :: "Context \<Rightarrow> Context \<Rightarrow> bool" where
  "contextImportItemsEqual left right = same_context (normalizeItem left) (normalizeItem right)"

text \<open>Whether the contexts are all the new ones, and whether they are all the old ones.\<close>

definition contextImportConfigState ::
  "Config \<Rightarrow> (string \<times> contextImportTargetState) list \<Rightarrow> (string \<times> Context) list \<Rightarrow> bool \<times> bool" where
  "contextImportConfigState cfg original expected =
    (list_all (\<lambda>(name, expectedItem). case map_of (cf_Contexts cfg) name of
        None \<Rightarrow> False | Some current \<Rightarrow> contextImportItemsEqual current expectedItem) expected,
     list_all (\<lambda>(name, _).
        let before = (case map_of original name of
              Some st \<Rightarrow> st | None \<Rightarrow> \<lparr>ts_context = no_context, ts_exists = False\<rparr>)
        in case map_of (cf_Contexts cfg) name of
             None \<Rightarrow> \<not> ts_exists before
           | Some current \<Rightarrow> ts_exists before \<and> contextImportItemsEqual current (ts_context before)) expected)"

definition contextImportCompensationError :: "go_error option \<Rightarrow> go_error" where
  "contextImportCompensationError cause = AppError CodeCredentialStoreError
     ''context import failed and credential compensation could not be completed safely'' cause"

definition contextSetCompensationError :: "go_error \<Rightarrow> go_error \<Rightarrow> go_error" where
  "contextSetCompensationError operationErr compensationErr = AppError CodeCredentialStoreError
     ''context set failed and credential compensation could not be completed safely''
     (Some (JoinedError [operationErr, compensationErr]))"

definition importCompensationError :: "go_error \<Rightarrow> go_error \<Rightarrow> go_error" where
  "importCompensationError operationErr compensationErr =
     contextImportCompensationError (Some (JoinedError [operationErr, compensationErr]))"

text \<open>The function that the three commands hand to \<open>Update\<close>.\<close>

definition importChange ::
  "('l, 'b, 's, 'c) ctl_env \<Rightarrow> cliFlags \<Rightarrow> (Config \<Rightarrow> go_error option) \<Rightarrow> (string \<times> Context) list \<Rightarrow>
   mutationAuditSpec \<Rightarrow> 'c contextImportCredentialCandidate list \<Rightarrow> (go_error \<Rightarrow> go_error \<Rightarrow> go_error) \<Rightarrow>
   Config \<Rightarrow> ('l, 'b, 's, 'c) ctl \<Rightarrow> ((go_error + Config) \<times> 'c importVars) \<times> ('l, 'b, 's, 'c) ctl" where
  "importChange K f recheck expected spec candidates compensationError locked w =
    (case recheck locked of
       Some e \<Rightarrow> ((Inl e, no_vars), w)
     | None \<Rightarrow>
    (case validateContextImportCredentialKeySet (kc_cred K) locked expected of
       Some e \<Rightarrow> ((Inl e, no_vars), w)
     | None \<Rightarrow>
        (let v0 = no_vars\<lparr>iv_original := captureContextImportTargets locked (map fst expected)\<rparr> in
         case inWorld (audit (beginMutationAudit (kc_audit K) f spec)) w of
           (Inl e, w1) \<Rightarrow> ((Inl e, v0), w1)
         | (Inr handle, w1) \<Rightarrow>
            (case inCreds (storeContextImportCredentials (kc_cred K) candidates) w1 of
               ((transaction, None), w2) \<Rightarrow>
                 ((Inr (locked\<lparr>cf_Contexts := overlay (cf_Contexts locked) expected\<rparr>),
                   v0\<lparr>iv_handle := Some handle, iv_transaction := Some transaction\<rparr>), w2)
             | ((transaction, Some e), w2) \<Rightarrow>
                 (case inCreds (compensateContextImportCredentialsLocked (kc_cred K) locked (Some transaction)) w2 of
                    ((status, compensationErr), w3) \<Rightarrow>
                      (let v = v0\<lparr>iv_handle := Some handle, iv_transaction := Some transaction,
                             iv_status := status, iv_compensated := True\<rparr>
                       in case compensationErr of
                            None \<Rightarrow> ((Inl e, v), w3)
                          | Some ce \<Rightarrow> ((Inl (compensationError e ce), v\<lparr>iv_uncertain := True\<rparr>), w3)))))))"

text \<open>
  What happens under the lock: whether the contexts were saved, and the status of a compensation. Then the
  status, whether it is uncertain, and an error.
\<close>

definition reconcileImport ::
  "('l, 'b, 's, 'c) ctl_env \<Rightarrow> 'c import_transaction option \<Rightarrow> (string \<times> contextImportTargetState) list \<Rightarrow>
   (string \<times> Context) list \<Rightarrow> Config \<Rightarrow> ('l, 'b, 's, 'c) ctl \<Rightarrow>
   (go_error option \<times> bool \<times> string) \<times> ('l, 'b, 's, 'c) ctl" where
  "reconcileImport K transaction original expected locked w =
    (let (committed, unchanged) = contextImportConfigState locked original expected in
     if committed then ((None, True, credentialCompensationNotSafe), w)
     else if \<not> unchanged
     then ((Some (contextImportCompensationError None), False, credentialCompensationNotSafe), w)
     else if transaction = None \<or> transaction = Some [] then ((None, False, ''''), w)
     else (case inCreds (compensateContextImportCredentialsLocked (kc_cred K) locked transaction) w of
             ((status, err), w1) \<Rightarrow> ((err, False, status), w1)))"

definition reconcileContextImportFailure ::
  "('l, 'b, 's, 'c) ctl_env \<Rightarrow> 'c import_transaction option \<Rightarrow> (string \<times> contextImportTargetState) list \<Rightarrow>
   (string \<times> Context) list \<Rightarrow> ('l, 'b, 's, 'c) ctl \<Rightarrow>
   (string \<times> bool \<times> go_error option) \<times> ('l, 'b, 's, 'c) ctl" where
  "reconcileContextImportFailure K transaction original expected w =
    (case withContextStoreLock K (False, '''') (reconcileImport K transaction original expected) w of
       ((Some stateErr, _, status), w1) \<Rightarrow>
         (let status1 = (if status = '''' then credentialCompensationNotSafe else status)
          in ((status1, status1 \<noteq> credentialCompensationSucceeded,
               Some (contextImportCompensationError (Some stateErr))), w1))
     | ((None, committed, status), w1) \<Rightarrow>
         if committed then ((credentialCompensationNotSafe, False, None), w1)
         else if transaction = None \<or> transaction = Some [] then (('''', False, None), w1)
         else ((status, False, None), w1))"

definition contextImportOutcome :: "int \<Rightarrow> string \<Rightarrow> bool \<Rightarrow> go_error option \<Rightarrow> mutationAuditOutcome" where
  "contextImportOutcome tot compensationStatus compensationUncertain operationErr =
    (let oc = empty_outcome\<lparr>oc_counted := True, oc_CompensationStatus := compensationStatus\<rparr> in
     if operationErr = None then oc\<lparr>oc_Status := StatusSuccess, oc_Succeeded := tot\<rparr>
     else if compensationUncertain then oc\<lparr>oc_Status := StatusFailed, oc_Uncertain := tot\<rparr>
     else if compensationStatus = credentialCompensationNotSafe
     then oc\<lparr>oc_Status := StatusPartialFailed, oc_Succeeded := tot\<rparr>
     else if compensationStatus = credentialCompensationIncomplete
     then oc\<lparr>oc_Status := StatusFailed, oc_Uncertain := tot\<rparr>
     else oc\<lparr>oc_Status := StatusFailed, oc_Failed := 1,
            oc_Skipped := (if tot - 1 < 0 then 0 else tot - 1)\<rparr>)"

text \<open>What follows \<open>Update\<close>: the contexts may have been saved or not when it returned an error.\<close>

definition settleImport ::
  "('l, 'b, 's, 'c) ctl_env \<Rightarrow> (string \<times> Context) list \<Rightarrow> (go_error \<Rightarrow> go_error \<Rightarrow> go_error) \<Rightarrow>
   go_error option \<Rightarrow> 'c importVars \<Rightarrow> ('l, 'b, 's, 'c) ctl \<Rightarrow>
   (string \<times> bool \<times> go_error option) \<times> ('l, 'b, 's, 'c) ctl" where
  "settleImport K expected compensationError operationErr v w =
    (case operationErr of
       None \<Rightarrow> ((iv_status v, iv_uncertain v, None), w)
     | Some e \<Rightarrow>
         if iv_transaction v \<noteq> None \<and> \<not> iv_compensated v
         then (case reconcileContextImportFailure K (iv_transaction v) (iv_original v) expected w of
            ((status, uncertain, reconciliationErr), w1) \<Rightarrow>
              ((status, uncertain, case reconciliationErr of
                  None \<Rightarrow> Some e | Some re \<Rightarrow> Some (compensationError e re)), w1))
         else ((iv_status v, iv_uncertain v, Some e), w))"

text \<open>The change, the reconciliation, and the outcome (\<open>finishContextImportAudit\<close>).\<close>

definition importContexts ::
  "('l, 'b, 's, 'c) ctl_env \<Rightarrow> cliFlags \<Rightarrow> (Config \<Rightarrow> go_error option) \<Rightarrow> (string \<times> Context) list \<Rightarrow>
   mutationAuditSpec \<Rightarrow> 'c contextImportCredentialCandidate list \<Rightarrow> (go_error \<Rightarrow> go_error \<Rightarrow> go_error) \<Rightarrow>
   (('l, 'b, 's, 'c) ctl, unit) op" where
  "importContexts K f recheck expected spec candidates compensationError =
     callE (Update K no_vars (importChange K f recheck expected spec candidates compensationError))
       (\<lambda>(operationErr0, v).
     callE (settleImport K expected compensationError operationErr0 v) (\<lambda>(status, uncertain, operationErr).
     concludeControl K f (contextImportOutcome (int (length expected)) status uncertain operationErr)
       operationErr (iv_handle v)))"

section \<open>Setting a context\<close>

record ctxSetOptions =
  so_credentialBackend :: string
  so_protected :: bool
  so_password :: string
  so_cluster :: string
  so_namespace :: string
  so_kafkaBrokers :: string
  so_kafkaSASL :: string
  so_kafkaSchemaRegistryURL :: string
  so_kafkaSchemaRegistryUsername :: string
  so_kafkaSchemaRegistryPassword :: string
  so_rabbitAMQPURL :: string
  so_rabbitManagement :: string
  so_rabbitUsername :: string
  so_rabbitHost :: string
  so_rabbitPort :: int
  so_rabbitVHost :: string
  so_pulsarServiceURL :: string
  so_pulsarAdminURL :: string
  so_pulsarTenant :: string
  so_pulsarNamespace :: string
  so_rocketNameServers :: string
  so_rocketBrokerAddr :: string
  so_rocketAccessKey :: string
  so_tls :: bool
  so_caCert :: string
  so_clientCert :: string
  so_clientKey :: string

definition supportedContextBackend :: "string \<Rightarrow> bool" where
  "supportedContextBackend backend = (backend \<in> {''kafka'', ''rabbitmq'', ''pulsar'', ''rocketmq''})"

definition splitCSV :: "string \<Rightarrow> string list" where
  "splitCSV s = (if s = '''' then []
     else filter (\<lambda>part. part \<noteq> '''') (map trim_space (split_on (CHR '','') s)))"

definition applyBackendContextOptions :: "Context \<Rightarrow> ctxSetOptions \<Rightarrow> Context" where
  "applyBackendContextOptions item opts =
    (if cx_Backend item = ''kafka'' then item\<lparr>
       cx_KafkaBrokers := splitCSV (so_kafkaBrokers opts), cx_KafkaSASLMechanism := so_kafkaSASL opts,
       cx_KafkaTLS := so_tls opts, cx_KafkaCACertFile := so_caCert opts,
       cx_KafkaClientCertFile := so_clientCert opts, cx_KafkaClientKeyFile := so_clientKey opts,
       cx_KafkaSchemaRegistryURL := so_kafkaSchemaRegistryURL opts,
       cx_KafkaSchemaRegistryUsername := so_kafkaSchemaRegistryUsername opts\<rparr>
     else if cx_Backend item = ''rabbitmq'' then item\<lparr>
       cx_Username := (if so_rabbitUsername opts \<noteq> '''' then so_rabbitUsername opts else cx_Username item),
       cx_RabbitMQAMQPURL := so_rabbitAMQPURL opts, cx_RabbitMQManagementURL := so_rabbitManagement opts,
       cx_RabbitMQHost := so_rabbitHost opts, cx_RabbitMQPort := so_rabbitPort opts,
       cx_RabbitMQVHost := so_rabbitVHost opts, cx_RabbitMQTLS := so_tls opts,
       cx_RabbitMQCACertFile := so_caCert opts, cx_RabbitMQClientCertFile := so_clientCert opts,
       cx_RabbitMQClientKeyFile := so_clientKey opts\<rparr>
     else if cx_Backend item = ''pulsar'' then item\<lparr>
       cx_PulsarServiceURL := so_pulsarServiceURL opts, cx_PulsarAdminURL := so_pulsarAdminURL opts,
       cx_PulsarTenant := so_pulsarTenant opts, cx_PulsarNamespace := so_pulsarNamespace opts,
       cx_PulsarTLS := so_tls opts, cx_PulsarCACertFile := so_caCert opts,
       cx_PulsarClientCertFile := so_clientCert opts, cx_PulsarClientKeyFile := so_clientKey opts\<rparr>
     else if cx_Backend item = ''rocketmq'' then item\<lparr>
       cx_RocketMQNameServers := splitCSV (so_rocketNameServers opts),
       cx_RocketMQBrokerAddr := so_rocketBrokerAddr opts, cx_RocketMQAccessKey := so_rocketAccessKey opts,
       cx_RocketMQTLS := so_tls opts, cx_RocketMQCACertFile := so_caCert opts,
       cx_RocketMQClientCertFile := so_clientCert opts, cx_RocketMQClientKeyFile := so_clientKey opts\<rparr>
     else item)"

definition validateContextDefinition :: "Context \<Rightarrow> go_error + Context" where
  "validateContextDefinition item =
    (if \<not> supportedContextBackend (cx_Backend item)
     then Inl (AppError CodeNotImplemented ''backend is not supported'' None)
     else if cx_Backend item = ''rocketmq''
     then (if trim_space (cx_Namespace item) \<noteq> ''''
           then Inl (AppError CodeNotImplemented
             ''RocketMQ namespace is not supported consistently by the v2 admin client'' None)
           else Inr (item\<lparr>cx_Namespace := trim_space (cx_Namespace item)\<rparr>))
     else Inr item)"

definition contextOfOptions :: "cliFlags \<Rightarrow> ctxSetOptions \<Rightarrow> Context" where
  "contextOfOptions f opts = applyBackendContextOptions
     (no_context\<lparr>cx_Username := so_rabbitUsername opts, cx_Protected := so_protected opts,
        cx_CredentialBackend := so_credentialBackend opts, cx_OTLPRedact := True, cx_Backend := fl_Backend f,
        cx_Cluster := firstNonEmpty [so_cluster opts, fl_Cluster f],
        cx_Namespace := firstNonEmpty [so_namespace opts, fl_Namespace f]\<rparr>) opts"

definition ctxSetCmd ::
  "('l, 'b, 's, 'c) ctl_env \<Rightarrow> cliFlags \<Rightarrow> string \<Rightarrow> ctxSetOptions \<Rightarrow> (('l, 'b, 's, 'c) ctl, unit) op" where
  "ctxSetCmd K f name opts =
    (if fl_Backend f = '''' then throw (usage_error ''--backend is required'')
     else if \<not> supportedContextBackend (fl_Backend f)
     then throw (AppError CodeNotImplemented ''backend is not supported'' None)
     else
       seqE (check (cr_requireSecure (kc_cred K) (so_credentialBackend opts)
              (so_password opts \<noteq> '''' \<or> so_kafkaSchemaRegistryPassword opts \<noteq> ''''))) (\<lambda>_.
       seqE (liftE (validateContextDefinition (contextOfOptions f opts))) (\<lambda>item0.
       seqE (loadContexts K) (\<lambda>cfg.
       seqE (liftE (contextPreChangePolicy cfg name)) (\<lambda>preChange.
       if contextPlanOnly f
       then seqE (appendContextAuditWarn K f ''ctx.set'' (cp_meta preChange) ''ctx set dryRun=true'') (\<lambda>_.
            printContextControlPlan K f ''set'' name item0)
       else
         seqE (inWorld (authorizeContextControl (kc_cmd K) f name preChange allowContextChange)) (\<lambda>_.
         seqE (liftE (planContextSetCredentials (kc_cred K) name item0 (so_password opts)
                (so_kafkaSchemaRegistryPassword opts))) (\<lambda>(candidate, item).
         seqE (inCreds (validateContextImportCredentialCandidates [candidate])) (\<lambda>_.
         seqE (importContexts K f (\<lambda>locked. ensureContextPolicyUnchanged locked name preChange) [(name, item)]
                (controlSpec ''mq.ctx.set'' name (cp_meta preChange) (contextTarget name)
                  ((valueMetadata ''mq.ctx.set'' (kc_jsonContext K item))\<lparr>md_Items := 1\<rparr>))
                [candidate] contextSetCompensationError) (\<lambda>_.
         printJSONData K f ''ContextItem'' (contextView name item False False))))))))))"


section \<open>Importing contexts\<close>

record ctxImportOptions =
  io_file :: string
  io_rename :: string
  io_force :: bool

definition redactedCredential :: string where "redactedCredential = ''<REDACTED>''"

definition ctxExportAPIVersion :: string where "ctxExportAPIVersion = ''mqgov-cli.io/ctx-export/v1''"

definition readContextExportDocument ::
  "('l, 'b, 's, 'c) ctl_env \<Rightarrow> string \<Rightarrow> go_error + contextExportDocument" where
  "readContextExportDocument K path =
    (let clean = path_clean path in
     if clean = ''.'' \<or> clean = ''/'' then Inl (usage_error ''invalid context import file'')
     else case kc_isDir K clean of
       Inl e \<Rightarrow> Inl (AppError CodeLocalIOError ''failed to stat context import file'' (Some e))
     | Inr isDir \<Rightarrow>
         if isDir then Inl (usage_error ''context import file is a directory'')
         else (case ce_readFile (kc_cmd K) clean of
           Inl e \<Rightarrow> Inl (AppError CodeLocalIOError ''failed to read context import file'' (Some e))
         | Inr text \<Rightarrow>
             (case kc_unmarshal K text of
                Inl e \<Rightarrow> Inl (AppError CodeUsageError ''failed to parse context import file'' (Some e))
              | Inr doc \<Rightarrow>
                  if cd_APIVersion doc \<noteq> ctxExportAPIVersion
                  then Inl (AppError CodeUnsupportedProtocol
                    (''unsupported context export apiVersion '' @ go_quote (cd_APIVersion doc)) None)
                  else Inr doc)))"

text \<open>The context without the placeholders of redacted credentials, and whether there were any.\<close>

definition clearRedactedImportedCredentials :: "Context \<Rightarrow> bool \<times> Context" where
  "clearRedactedImportedCredentials item =
    (let (r1, item1) = (if cx_Password item = redactedCredential
           then (True, item\<lparr>cx_Password := ''''\<rparr>) else (False, item))
     in if cx_KafkaSchemaRegistryPassword item1 = redactedCredential
        then (True, item1\<lparr>cx_KafkaSchemaRegistryPassword := ''''\<rparr>) else (r1, item1))"

definition alreadyExists :: "string \<Rightarrow> string \<Rightarrow> go_error" where
  "alreadyExists name flag = usage_error
     (''context '' @ go_quote name @ '' already exists; use '' @ flag @ '' to overwrite'')"

definition runCtxImportOne ::
  "('l, 'b, 's, 'c) ctl_env \<Rightarrow> cliFlags \<Rightarrow> contextExportDocument \<Rightarrow> ctxImportOptions \<Rightarrow>
   (('l, 'b, 's, 'c) ctl, unit) op" where
  "runCtxImportOne K f doc opts =
    (case cd_Context doc of
       None \<Rightarrow> throw (usage_error ''context import file has no context'')
     | Some given \<Rightarrow>
        (let name = firstNonEmpty [io_rename opts, cd_Name doc] in
         if name = '''' then throw (usage_error ''context name is required'')
         else
           let (credentialRedacted, item0) = clearRedactedImportedCredentials given in
           seqE (liftE (planContextImportCredential (kc_cred K) name item0)) (\<lambda>(candidate, item1).
           seqE (liftE (validateContextDefinition item1)) (\<lambda>item.
           seqE (loadContexts K) (\<lambda>cfg.
           if map_of (cf_Contexts cfg) name \<noteq> None \<and> \<not> io_force opts then throw (alreadyExists name ''--force'')
           else
             seqE (liftE (contextPreChangePolicy cfg name)) (\<lambda>preChange.
             if contextPlanOnly f
             then seqE (appendContextAuditWarn K f (kc_eventContextImport K) (cp_meta preChange)
                    ''ctx import dryRun=true'') (\<lambda>_.
                  printJSONData K f ''ChangePlan'' [(''resourceType'', JStr ''context''), (''action'', JStr ''import''),
                    (''context'', JStr name), (''credentialRedacted'', JBool credentialRedacted),
                    (''dryRun'', JBool True)])
             else
               seqE (inWorld (authorizeContextControl (kc_cmd K) f name preChange allowContextChange)) (\<lambda>_.
               seqE (inCreds (validateContextImportCredentialCandidates [candidate])) (\<lambda>_.
               seqE (importContexts K f (\<lambda>locked. ensureContextPolicyUnchanged locked name preChange) [(name, item)]
                      (controlSpec ''mq.ctx.import'' name (cp_meta preChange) (contextTarget name)
                        ((valueMetadata ''mq.ctx.import'' (kc_jsonContext K item))\<lparr>md_Items := 1\<rparr>))
                      [candidate] importCompensationError) (\<lambda>_.
               if fl_Output f = ''json''
               then printJSONData K f ''ContextImportResult'' [(''name'', JStr name), (''names'', JArr [JStr name]),
                      (''count'', JNum 1), (''credentialRedacted'', JBool credentialRedacted)]
               else
                 seqE (inWorld (printed (kc_cmd K) (Out_Success (newPrinter f)
                        (''context '' @ go_quote name @ '' imported'')))) (\<lambda>_.
                 if credentialRedacted
                 then inWorld (printed (kc_cmd K) (Out_Info (newPrinter f) (''credential is redacted; run: mqgov ctx set ''
                        @ name @ '' with a credential backend'')))
                 else ret ()))))))))))"

text \<open>One context of a document with several: redacted, candidate, new context, policy.\<close>

record 'c plannedImport =
  pm_name :: string
  pm_redacted :: bool
  pm_candidate :: "'c contextImportCredentialCandidate"
  pm_item :: Context
  pm_preChange :: contextControlPolicy

fun planImports ::
  "'c cred_env \<Rightarrow> Config \<Rightarrow> bool \<Rightarrow> (string \<times> Context) list \<Rightarrow> go_error + 'c plannedImport list" where
  "planImports C cfg force [] = Inr []"
| "planImports C cfg force ((name, given) # rest) =
    (let (redacted, item0) = clearRedactedImportedCredentials given in
     case planContextImportCredential C name item0 of
       Inl e \<Rightarrow> Inl e
     | Inr (candidate, item1) \<Rightarrow>
    (case validateContextDefinition item1 of
       Inl e \<Rightarrow> Inl e
     | Inr item \<Rightarrow>
         if map_of (cf_Contexts cfg) name \<noteq> None \<and> \<not> force then Inl (alreadyExists name ''--overwrite'')
         else (case contextPreChangePolicy cfg name of
           Inl e \<Rightarrow> Inl e
         | Inr preChange \<Rightarrow>
             (case planImports C cfg force rest of
                Inl e \<Rightarrow> Inl e
              | Inr planned \<Rightarrow> Inr (\<lparr>pm_name = name, pm_redacted = redacted, pm_candidate = candidate,
                  pm_item = item, pm_preChange = preChange\<rparr> # planned)))))"

text \<open>\<open>for x := range xs { if err := m(x); err != nil { return err } }\<close>.\<close>

fun forEachE :: "('a \<Rightarrow> ('w, unit) op) \<Rightarrow> 'a list \<Rightarrow> ('w, unit) op" where
  "forEachE m [] = ret ()"
| "forEachE m (x # xs) = seqE (m x) (\<lambda>_. forEachE m xs)"

fun firstError :: "('a \<Rightarrow> go_error option) \<Rightarrow> 'a list \<Rightarrow> go_error option" where
  "firstError g [] = None"
| "firstError g (x # xs) = (case g x of Some e \<Rightarrow> Some e | None \<Rightarrow> firstError g xs)"

definition batchAuditContext :: "'c plannedImport list \<Rightarrow> string \<times> Context" where
  "batchAuditContext planned = (case planned of
     [] \<Rightarrow> (''batch'', no_context)
   | p # _ \<Rightarrow> (firstNonEmpty [cp_source (pm_preChange p), pm_name p], cp_meta (pm_preChange p)))"

definition runCtxImportMany ::
  "('l, 'b, 's, 'c) ctl_env \<Rightarrow> cliFlags \<Rightarrow> contextExportDocument \<Rightarrow> ctxImportOptions \<Rightarrow>
   (('l, 'b, 's, 'c) ctl, unit) op" where
  "runCtxImportMany K f doc opts =
    (if io_rename opts \<noteq> '''' then throw (usage_error ''--rename cannot be used with multi-context import'')
     else
       seqE (loadContexts K) (\<lambda>cfg.
       seqE (liftE (planImports (kc_cred K) cfg (io_force opts) (sorted_entries (cd_Contexts doc)))) (\<lambda>planned.
       let names = map pm_name planned;
           redacted = list_ex pm_redacted planned;
           expected = map (\<lambda>p. (pm_name p, pm_item p)) planned;
           candidates = map pm_candidate planned
       in if contextPlanOnly f
       then seqE (forEachE (\<lambda>p. appendContextAuditWarn K f (kc_eventContextImport K) (cp_meta (pm_preChange p))
                ''ctx import --all dryRun=true'') planned) (\<lambda>_.
            printJSONData K f ''ChangePlan'' [(''resourceType'', JStr ''context''), (''action'', JStr ''import''),
              (''contexts'', JArr (map JStr names)), (''count'', JNum (int (length names))),
              (''credentialRedacted'', JBool redacted), (''dryRun'', JBool True)])
       else
         seqE (forEachE (\<lambda>p. inWorld (authorizeContextControl (kc_cmd K) f (pm_name p) (pm_preChange p)
                allowContextChange)) planned) (\<lambda>_.
         seqE (inCreds (validateContextImportCredentialCandidates candidates)) (\<lambda>_.
         seqE (importContexts K f
                (\<lambda>locked. firstError (\<lambda>p. ensureContextPolicyUnchanged locked (pm_name p) (pm_preChange p)) planned)
                expected
                (case batchAuditContext planned of (auditName, auditMeta) \<Rightarrow>
                   controlSpec ''mq.ctx.import-batch'' auditName auditMeta (contextTarget '''')
                     ((valueMetadata ''mq.ctx.import-batch''
                         (json_map (map (\<lambda>(name, item). (name, kc_jsonContext K item)) expected)))
                        \<lparr>md_Items := int (length names)\<rparr>))
                candidates importCompensationError) (\<lambda>_.
         if fl_Output f = ''json''
         then printJSONData K f ''ContextImportResult'' [(''name'', JStr ''''), (''names'', JArr (map JStr names)),
                (''count'', JNum (int (length names))), (''credentialRedacted'', JBool redacted)]
         else inWorld (printed (kc_cmd K) (Out_Success (newPrinter f)
                (''imported '' @ show_int (int (length names)) @ '' context(s)'')))))))))"

definition runCtxImport ::
  "('l, 'b, 's, 'c) ctl_env \<Rightarrow> cliFlags \<Rightarrow> ctxImportOptions \<Rightarrow> (('l, 'b, 's, 'c) ctl, unit) op" where
  "runCtxImport K f opts =
    (if io_file opts = '''' then throw (usage_error ''-f/--file or --input is required'')
     else seqE (liftE (readContextExportDocument K (io_file opts))) (\<lambda>doc.
       if cd_Contexts doc \<noteq> [] then runCtxImportMany K f doc opts else runCtxImportOne K f doc opts))"

end
