(* ===== verification/Context_Migrate.thy ===== *)
theory Context_Migrate
  imports Context_Import
begin

text \<open>
  \<open>ctx migrate-credentials\<close> (cmd/context.go): the literal credentials of one context or of all move into a
  credential store, and the contexts come to refer to it. Credentials and contexts change together, as in
  theory Context_Import, with a count of the writes.
\<close>

record 'c migrationVars =
  gv_handle :: "mutationAuditHandle option"
  gv_transaction :: "'c credentialMigrationTransaction option"
  gv_progress :: credentialMigrationProgress
  gv_status :: string
  gv_compensated :: bool

definition no_migrationVars :: "'c migrationVars" where
  "no_migrationVars = \<lparr>gv_handle = None, gv_transaction = None, gv_progress = no_progress, gv_status = '''',
     gv_compensated = False\<rparr>"

definition joinErrors :: "go_error option list \<Rightarrow> go_error option" where
  "joinErrors errs = (case List.map_filter id errs of [] \<Rightarrow> None | es \<Rightarrow> Some (JoinedError es))"

definition credentialMigrationCompensationError :: "go_error option \<Rightarrow> go_error option \<Rightarrow> go_error" where
  "credentialMigrationCompensationError operationErr compensationErr = AppError CodeCredentialStoreError
     ''credential migration failed and credential compensation could not be completed safely''
     (joinErrors [operationErr, compensationErr])"

definition credentialMigrationConfigState ::
  "'c cred_env \<Rightarrow> Config \<Rightarrow> migrateCredentialCandidate list \<Rightarrow> string \<Rightarrow> bool \<times> bool" where
  "credentialMigrationConfigState C cfg candidates backendName =
    (if list_ex (\<lambda>d. map_of (cf_Contexts cfg) (mc_name d) = None) candidates then (False, False)
     else
       let holds = (\<lambda>expected d. case map_of (cf_Contexts cfg) (mc_name d) of
             None \<Rightarrow> False | Some current \<Rightarrow> same_context current (expected d))
       in (list_all (holds (migratedContext C backendName)) candidates, list_all (holds mc_context) candidates))"

text \<open>The checks under the lock: the policy, then the context itself, one candidate after the other.\<close>

definition recheckMigration ::
  "(string \<times> contextControlPolicy) list \<Rightarrow> migrateCredentialCandidate list \<Rightarrow> Config \<Rightarrow> go_error option" where
  "recheckMigration preChanges candidates locked = firstError (\<lambda>d.
     case ensureContextPolicyUnchanged locked (mc_name d)
            (case map_of preChanges (mc_name d) of
               Some p \<Rightarrow> p | None \<Rightarrow> \<lparr>cp_meta = no_context, cp_source = '''', cp_targetExists = False\<rparr>) of
       Some e \<Rightarrow> Some e
     | None \<Rightarrow>
         (case map_of (cf_Contexts locked) (mc_name d) of
            Some current \<Rightarrow> if same_context current (mc_context d) then None
              else Some (AppError CodeAuthorizationRequired
                ''context changed during credential migration; retry the command'' None)
          | None \<Rightarrow> Some (AppError CodeAuthorizationRequired
                ''context changed during credential migration; retry the command'' None))) candidates"

definition migrationChange ::
  "('l, 'b, 's, 'c) ctl_env \<Rightarrow> cliFlags \<Rightarrow> (string \<times> contextControlPolicy) list \<Rightarrow> mutationAuditSpec \<Rightarrow>
   'c Backend \<Rightarrow> migrateCredentialCandidate list \<Rightarrow> string \<Rightarrow>
   Config \<Rightarrow> ('l, 'b, 's, 'c) ctl \<Rightarrow> ((go_error + Config) \<times> 'c migrationVars) \<times> ('l, 'b, 's, 'c) ctl" where
  "migrationChange K f preChanges spec backend candidates toBackend locked w =
    (case recheckMigration preChanges candidates locked of
       Some e \<Rightarrow> ((Inl e, no_migrationVars), w)
     | None \<Rightarrow>
    (case validateCredentialMigrationKeySet (kc_cred K) locked candidates toBackend of
       Some e \<Rightarrow> ((Inl e, no_migrationVars), w)
     | None \<Rightarrow>
        (case inWorld (audit (beginMutationAudit (kc_audit K) f spec)) w of
           (Inl e, w1) \<Rightarrow> ((Inl e, no_migrationVars), w1)
         | (Inr handle, w1) \<Rightarrow>
            (case inCreds (storeCredentialMigrationCandidates (kc_cred K) backend candidates) w1 of
               (((transaction, progress), None), w2) \<Rightarrow>
                 ((Inr (locked\<lparr>cf_Contexts := overlay (cf_Contexts locked)
                      (migratedContexts (kc_cred K) toBackend candidates)\<rparr>),
                   no_migrationVars\<lparr>gv_handle := Some handle, gv_transaction := Some transaction,
                     gv_progress := progress\<rparr>), w2)
             | (((transaction, progress), Some e), w2) \<Rightarrow>
                 (case inCreds (compensateCredentialMigrationLocked (kc_cred K) locked (Some transaction)) w2 of
                    ((status, compensationErr), w3) \<Rightarrow>
                      (let v = no_migrationVars\<lparr>gv_handle := Some handle, gv_transaction := Some transaction,
                             gv_progress := progress, gv_status := status, gv_compensated := True\<rparr>
                       in case compensationErr of
                            Some ce \<Rightarrow> ((Inl (credentialMigrationCompensationError (Some e) (Some ce)),
                              v\<lparr>gv_progress := afterIncompleteCompensation progress\<rparr>), w3)
                          | None \<Rightarrow> ((Inl e, if status = credentialCompensationSucceeded
                              then v\<lparr>gv_progress := afterSuccessfulCompensation progress\<rparr> else v), w3)))))))"

definition reconcileMigration ::
  "('l, 'b, 's, 'c) ctl_env \<Rightarrow> 'c credentialMigrationTransaction option \<Rightarrow> credentialMigrationProgress \<Rightarrow>
   migrateCredentialCandidate list \<Rightarrow> string \<Rightarrow> Config \<Rightarrow> ('l, 'b, 's, 'c) ctl \<Rightarrow>
   (go_error option \<times> bool \<times> string \<times> credentialMigrationProgress) \<times> ('l, 'b, 's, 'c) ctl" where
  "reconcileMigration K transaction progress candidates backendName locked w =
    (let (committed, unchanged) = credentialMigrationConfigState (kc_cred K) locked candidates backendName in
     if committed then ((None, True, credentialCompensationNotSafe, progress), w)
     else if \<not> unchanged
     then ((Some (credentialMigrationCompensationError None None), False, credentialCompensationNotSafe,
       afterIncompleteCompensation progress), w)
     else (case inCreds (compensateCredentialMigrationLocked (kc_cred K) locked transaction) w of
             ((status, err), w1) \<Rightarrow> ((err, False, status,
               if status = credentialCompensationSucceeded then afterSuccessfulCompensation progress
               else if status = credentialCompensationIncomplete \<or> status = credentialCompensationNotSafe
               then afterIncompleteCompensation progress else progress), w1)))"

definition reconcileCredentialMigrationFailure ::
  "('l, 'b, 's, 'c) ctl_env \<Rightarrow> 'c credentialMigrationTransaction option \<Rightarrow> credentialMigrationProgress \<Rightarrow>
   migrateCredentialCandidate list \<Rightarrow> string \<Rightarrow> ('l, 'b, 's, 'c) ctl \<Rightarrow>
   (credentialMigrationProgress \<times> string \<times> go_error option) \<times> ('l, 'b, 's, 'c) ctl" where
  "reconcileCredentialMigrationFailure K transaction progress candidates backendName w =
    (case withContextStoreLock K (False, '''', progress)
            (reconcileMigration K transaction progress candidates backendName) w of
       ((Some stateErr, _, status, progress1), w1) \<Rightarrow>
         (if status = ''''
          then ((afterIncompleteCompensation progress1, credentialCompensationNotSafe, Some stateErr), w1)
          else ((progress1, status, Some stateErr), w1))
     | ((None, committed, status, progress1), w1) \<Rightarrow>
         if committed then ((progress1, credentialCompensationNotSafe, None), w1)
         else ((progress1, status, None), w1))"

definition credentialMigrationOutcome ::
  "int \<Rightarrow> credentialMigrationProgress \<Rightarrow> string \<Rightarrow> go_error option \<Rightarrow> mutationAuditOutcome" where
  "credentialMigrationOutcome tot progress compensationStatus operationErr =
    (let skipped0 = tot - mp_succeeded progress - mp_failed progress - mp_uncertain progress in
     empty_outcome\<lparr>
       oc_Status := (if operationErr = None then StatusSuccess
         else if 0 < mp_succeeded progress then StatusPartialFailed else StatusFailed),
       oc_Succeeded := mp_succeeded progress, oc_Failed := mp_failed progress,
       oc_Skipped := (if skipped0 < 0 then 0 else skipped0), oc_Uncertain := mp_uncertain progress,
       oc_CompensationStatus := compensationStatus, oc_counted := True\<rparr>)"

definition settleMigration ::
  "('l, 'b, 's, 'c) ctl_env \<Rightarrow> migrateCredentialCandidate list \<Rightarrow> string \<Rightarrow> int \<Rightarrow> go_error option \<Rightarrow>
   'c migrationVars \<Rightarrow> ('l, 'b, 's, 'c) ctl \<Rightarrow>
   (credentialMigrationProgress \<times> string \<times> go_error option) \<times> ('l, 'b, 's, 'c) ctl" where
  "settleMigration K candidates toBackend credentials operationErr v w =
    (case operationErr of
       None \<Rightarrow> (((gv_progress v)\<lparr>mp_succeeded := credentials, mp_failed := 0\<rparr>, gv_status v, None), w)
     | Some e \<Rightarrow>
         if gv_transaction v \<noteq> None \<and> \<not> gv_compensated v
         then (case reconcileCredentialMigrationFailure K (gv_transaction v) (gv_progress v) candidates toBackend w of
            ((progress, status, reconciliationErr), w1) \<Rightarrow>
              ((progress, status, case reconciliationErr of
                  None \<Rightarrow> Some e
                | Some re \<Rightarrow> Some (credentialMigrationCompensationError (Some e) (Some re))), w1))
         else ((gv_progress v, gv_status v, Some e), w))"

text \<open>The change, the reconciliation, and the outcome (\<open>finishCredentialMigrationAudit\<close>).\<close>

definition migrateContexts ::
  "('l, 'b, 's, 'c) ctl_env \<Rightarrow> cliFlags \<Rightarrow> (string \<times> contextControlPolicy) list \<Rightarrow> mutationAuditSpec \<Rightarrow>
   'c Backend \<Rightarrow> migrateCredentialCandidate list \<Rightarrow> string \<Rightarrow> int \<Rightarrow> (('l, 'b, 's, 'c) ctl, unit) op" where
  "migrateContexts K f preChanges spec backend candidates toBackend credentials =
     callE (Update K no_migrationVars (migrationChange K f preChanges spec backend candidates toBackend))
       (\<lambda>(operationErr0, v).
     callE (settleMigration K candidates toBackend credentials operationErr0 v) (\<lambda>(progress, status, operationErr).
     concludeControl K f (credentialMigrationOutcome credentials progress status operationErr)
       operationErr (gv_handle v)))"

definition printCredentialMigrationResult ::
  "('l, 'b, 's, 'c) ctl_env \<Rightarrow> cliFlags \<Rightarrow> credentialMigrationResult \<Rightarrow> (('l, 'b, 's, 'c) ctl, unit) op" where
  "printCredentialMigrationResult K f result =
    (if fl_Output f = ''json''
     then printJSONData K f ''CredentialMigration'' [(''dryRun'', JBool (mr_DryRun result)),
            (''backend'', JStr (mr_Backend result)), (''contexts'', JArr (map JStr (mr_Contexts result))),
            (''credentials'', JNum (mr_Credentials result))]
     else inWorld (printed (kc_cmd K) (Out_Success (newPrinter f)
            ((if mr_DryRun result then ''would migrate'' else ''migrated'') @ '' '' @ show_int (mr_Credentials result) @
             '' credential(s) in '' @ show_int (int (length (mr_Contexts result))) @ '' context(s) to '' @
             mr_Backend result))))"

definition appendCredentialMigrationAuditWarn ::
  "('l, 'b, 's, 'c) ctl_env \<Rightarrow> cliFlags \<Rightarrow> string \<Rightarrow> Context \<Rightarrow> string \<Rightarrow> (('l, 'b, 's, 'c) ctl, unit) op" where
  "appendCredentialMigrationAuditWarn K f name item backendName =
     appendRecordWarn K f (\<lambda>now. newSafeAuditRecord (ae_asApp (kc_audit K)) (ae_su (kc_audit K)) f now
       ''credential.migrate'' item name \<lparr>et_ResourceType = ''credential'', et_Resource = backendName\<rparr>
       StatusSuccess (''credential backend='' @ backendName) None)"

text \<open>The policies of the candidates, authorized one after the other.\<close>

fun authorizeMigrations ::
  "('l, 'b, 's, 'c) ctl_env \<Rightarrow> cliFlags \<Rightarrow> Config \<Rightarrow> migrateCredentialCandidate list \<Rightarrow>
   (('l, 'b, 's, 'c) ctl, (string \<times> contextControlPolicy) list) op" where
  "authorizeMigrations K f cfg [] = ret []"
| "authorizeMigrations K f cfg (candidate # candidates) =
     seqE (liftE (contextPreChangePolicy cfg (mc_name candidate))) (\<lambda>preChange.
     seqE (inWorld (authorizeContextControl (kc_cmd K) f (mc_name candidate) preChange allowContextChange)) (\<lambda>_.
     seqE (authorizeMigrations K f cfg candidates) (\<lambda>preChanges.
     ret ((mc_name candidate, preChange) # preChanges))))"

definition migrationSpec ::
  "(string \<times> contextControlPolicy) list \<Rightarrow> string \<Rightarrow> credentialMigrationResult \<Rightarrow> mutationAuditSpec" where
  "migrationSpec preChanges toBackend result =
    (let (name, preChange) = hd preChanges in
     controlSpec ''mq.ctx.credentials.migrate'' (firstNonEmpty [cp_source preChange, name]) (cp_meta preChange)
       \<lparr>et_ResourceType = ''credential'', et_Resource = toBackend\<rparr>
       ((valueMetadata ''mq.ctx.credentials.migrate'' (json_map [(''backend'', JStr toBackend),
           (''contexts'', JArr (map JStr (mr_Contexts result))), (''credentials'', JNum (mr_Credentials result))]))
          \<lparr>md_Items := mr_Credentials result, md_Updates := int (length preChanges)\<rparr>))"

definition runCtxMigrateCredentials ::
  "('l, 'b, 's, 'c) ctl_env \<Rightarrow> cliFlags \<Rightarrow> migrateCredentialsOptions \<Rightarrow> (('l, 'b, 's, 'c) ctl, unit) op" where
  "runCtxMigrateCredentials K f opts =
     seqE (check (validateCredentialMigrationOptions f opts)) (\<lambda>_.
     seqE (loadContexts K) (\<lambda>cfg.
     seqE (liftE (credentialMigrationCandidates (kc_cred K) cfg (mo_contextName opts))) (\<lambda>candidates.
     seqE (check (validateCredentialMigrationKeySet (kc_cred K) cfg candidates (mo_toBackend opts))) (\<lambda>_.
     let preview = mo_dryRun opts \<or> contextPlanOnly f;
         result = \<lparr>mr_DryRun = preview, mr_Backend = mo_toBackend opts,
           mr_Contexts = credentialMigrationContextNames candidates,
           mr_Credentials = credentialMigrationCredentialCount candidates\<rparr>
     in if preview
        then seqE (forEachE (\<lambda>d. appendCredentialMigrationAuditWarn K f (mc_name d) (mc_context d) (mo_toBackend opts))
               candidates) (\<lambda>_. printCredentialMigrationResult K f result)
        else if candidates = [] then printCredentialMigrationResult K f result
        else
          seqE (authorizeMigrations K f cfg candidates) (\<lambda>preChanges.
          seqE (inCreds (credentialMigrationBackend (kc_cred K) (kc_errorText K) (mo_toBackend opts))) (\<lambda>backend.
          seqE (migrateContexts K f preChanges (migrationSpec preChanges (mo_toBackend opts) result) backend candidates
                 (mo_toBackend opts) (mr_Credentials result)) (\<lambda>_.
          printCredentialMigrationResult K f result)))))))"

end
