(* ===== verification/Credential_Laws.thy ===== *)
theory Credential_Laws
  imports Credential_Transactions
begin

text \<open>
  What a credential transaction guarantees. The stores are seen through \<open>view\<close>, the value in every slot,
  and \<open>backed\<close> is the documented behaviour of a store at one key: a call concerns the slot of that key
  only, a successful one has its effect, and a failed one has it or not.
\<close>

section \<open>What a store promises\<close>

type_synonym 'c slot_view = "credentialPhysicalSlot \<Rightarrow> 'c \<Rightarrow> string option"

definition backed :: "'c cred_env \<Rightarrow> 'c slot_view \<Rightarrow> 'c Backend \<Rightarrow> string \<Rightarrow> credentialPhysicalSlot \<Rightarrow> bool" where
  "backed C view b key slot =
    ((\<forall>c r c'. bk_Get b key c = (r, c') \<longrightarrow> (\<forall>s. view s c' = view s c) \<and>
        (case r of Inr v \<Rightarrow> view slot c = Some v | Inl e \<Rightarrow> cr_isNotFound C e \<longrightarrow> view slot c = None)) \<and>
     (\<forall>v c r c'. bk_Put b key v c = (r, c') \<longrightarrow> (\<forall>s. s \<noteq> slot \<longrightarrow> view s c' = view s c) \<and>
        (if r = Inr () then view slot c' = Some v else view slot c' = view slot c \<or> view slot c' = Some v)) \<and>
     (\<forall>c r c'. bk_Delete b key c = (r, c') \<longrightarrow> (\<forall>s. s \<noteq> slot \<longrightarrow> view s c' = view s c) \<and>
        (if r = Inr () then view slot c' = None else view slot c' = view slot c \<or> view slot c' = None)))"

lemma backed_Get:
  assumes "backed C view b key slot" and "bk_Get b key c = (r, c')"
  shows "view s c' = view s c" "r = Inr v \<Longrightarrow> view slot c = Some v"
    "r = Inl e \<Longrightarrow> cr_isNotFound C e \<Longrightarrow> view slot c = None"
proof -
  from assms have "(\<forall>s. view s c' = view s c) \<and>
        (case r of Inr v \<Rightarrow> view slot c = Some v | Inl e \<Rightarrow> cr_isNotFound C e \<longrightarrow> view slot c = None)"
    unfolding backed_def by blast
  then show "view s c' = view s c" "r = Inr v \<Longrightarrow> view slot c = Some v"
    "r = Inl e \<Longrightarrow> cr_isNotFound C e \<Longrightarrow> view slot c = None" by auto
qed

lemma backed_Put:
  assumes "backed C view b key slot" and "bk_Put b key v c = (r, c')"
  shows "s \<noteq> slot \<Longrightarrow> view s c' = view s c" "r = Inr u \<Longrightarrow> view slot c' = Some v"
    "view slot c' = view slot c \<or> view slot c' = Some v"
  using assms unfolding backed_def by (metis (full_types) old.unit.exhaust)+

lemma backed_Delete:
  assumes "backed C view b key slot" and "bk_Delete b key c = (r, c')"
  shows "s \<noteq> slot \<Longrightarrow> view s c' = view s c" "r = Inr u \<Longrightarrow> view slot c' = None"
    "view slot c' = view slot c \<or> view slot c' = None"
  using assms unfolding backed_def by (metis (full_types) old.unit.exhaust)+

definition write_backed :: "'c cred_env \<Rightarrow> 'c slot_view \<Rightarrow> 'c contextImportCredentialWrite \<Rightarrow> bool" where
  "write_backed C view w = backed C view (iw_backend w) (iw_key w) (iw_slot w)"

text \<open>The value that a write replaced, as the transaction remembers it.\<close>

definition before :: "'c contextImportCredentialWrite \<Rightarrow> string option" where
  "before w = (if iw_existed w then Some (iw_previous w) else None)"

section \<open>Compensation\<close>

lemma needsRestore_law:
  assumes "write_backed C view w"
    and "credentialWriteNeedsRestore C (Some (iw_backend w)) (iw_key w) (iw_previous w) (iw_written w)
           (iw_existed w) (iw_putSucceeded w) c = (r, c')"
  shows "\<forall>s. view s c' = view s c" "r = Inr True \<Longrightarrow> view (iw_slot w) c = Some (iw_written w)"
    "r = Inr False \<Longrightarrow> view (iw_slot w) c = before w"
proof -
  obtain g c1 where g: "bk_Get (iw_backend w) (iw_key w) c = (g, c1)" by fastforce
  note laws = backed_Get [OF assms(1) [unfolded write_backed_def] g]
  show "\<forall>s. view s c' = view s c" "r = Inr True \<Longrightarrow> view (iw_slot w) c = Some (iw_written w)"
    "r = Inr False \<Longrightarrow> view (iw_slot w) c = before w"
    using assms(2) laws
    by (auto simp: credentialWriteNeedsRestore_def tryE_run g before_def throw_def ret_def
        split: sum.splits if_splits)
qed

definition decided :: "'c slot_view \<Rightarrow> 'c \<Rightarrow> 'c contextImportCredentialWrite \<Rightarrow> bool \<Rightarrow> bool" where
  "decided view c w b = (view (iw_slot w) c = (if b then Some (iw_written w) else before w))"

lemma decided_cong: "\<forall>s. view s c1 = view s c \<Longrightarrow> decided view c1 = decided view c"
  by (simp add: decided_def fun_eq_iff)

lemma plan_law:
  assumes "\<forall>w \<in> set ws. write_backed C view w" and "import_compensationPlan C ws c = (r, c')"
  shows "(\<forall>s. view s c' = view s c) \<and> (\<forall>restore. r = Inr restore \<longrightarrow>
    list_all2 (decided view c) ws restore)"
  using assms
proof (induction ws arbitrary: c r c')
  case Nil
  then show ?case by auto
next
  case (Cons w ws)
  obtain g c1 where g: "credentialWriteNeedsRestore C (Some (iw_backend w)) (iw_key w) (iw_previous w)
      (iw_written w) (iw_existed w) (iw_putSucceeded w) c = (g, c1)" by fastforce
  have w: "write_backed C view w" using Cons.prems(1) by simp
  note here = needsRestore_law [OF w g]
  show ?case
  proof (cases g)
    case (Inl e)
    then show ?thesis using Cons.prems(2) here by (auto simp: seqE_run g)
  next
    case (Inr b)
    obtain p c2 where p: "import_compensationPlan C ws c1 = (p, c2)" by fastforce
    have rest: "(\<forall>s. view s c2 = view s c1) \<and> (\<forall>restore. p = Inr restore \<longrightarrow>
        list_all2 (decided view c1) ws restore)"
      using Cons.IH [OF _ p] Cons.prems(1) by simp
    have "decided view c w b"
      using here Inr by (cases b) (auto simp: decided_def)
    then show ?thesis
      using Cons.prems(2) here(1) rest Inr p decided_cong [OF here(1)] by (auto simp: seqE_run g split: sum.splits)
  qed
qed

text \<open>Undoing writes of distinct slots.\<close>

lemma undo_frame:
  assumes "\<forall>(w, b) \<in> set ps. write_backed C view w" and "undoImports ps err c = (r, c')"
    and "\<forall>(w, b) \<in> set ps. b \<longrightarrow> iw_slot w \<noteq> s"
  shows "view s c' = view s c"
  using assms
proof (induction ps arbitrary: err c)
  case (Cons p ps)
  obtain w b where p: "p = (w, b)" by fastforce
  show ?case
  proof (cases b)
    case False
    then show ?thesis using Cons by (auto simp: p)
  next
    case True
    obtain u c1 where u: "(if iw_existed w then bk_Put (iw_backend w) (iw_key w) (iw_previous w)
        else bk_Delete (iw_backend w) (iw_key w)) c = (u, c1)" by fastforce
    have "backed C view (iw_backend w) (iw_key w) (iw_slot w)" "s \<noteq> iw_slot w"
      using Cons.prems True by (auto simp: p write_backed_def)
    then have "view s c1 = view s c"
      using u by (auto split: if_splits dest: backed_Put(1) backed_Delete(1))
    moreover have "view s c' = view s c1"
      using Cons.prems Cons.IH [of _ c1] u True by (fastforce simp: p callE_run)
    ultimately show ?thesis by simp
  qed
qed simp

lemma undo_err: "undoImports ps (Some e) c = (r, c') \<Longrightarrow> r \<noteq> None"
proof (induction ps arbitrary: c)
  case (Cons p ps)
  then show ?case by (cases p) (auto simp: callE_run split: if_splits prod.splits)
qed auto

lemma undo_restores:
  assumes "\<forall>(w, b) \<in> set ps. write_backed C view w" and "undoImports ps None c = (None, c')"
    and "distinct (map (iw_slot \<circ> fst) ps)" and "(w, True) \<in> set ps"
  shows "view (iw_slot w) c' = before w"
  using assms
proof (induction ps arbitrary: c)
  case (Cons p ps)
  obtain v b where p: "p = (v, b)" by fastforce
  show ?case
  proof (cases b)
    case False
    then show ?thesis using Cons by (auto simp: p)
  next
    case True
    obtain u c1 where u: "(if iw_existed v then bk_Put (iw_backend v) (iw_key v) (iw_previous v)
        else bk_Delete (iw_backend v) (iw_key v)) c = (u, c1)" by fastforce
    have rest: "undoImports ps (errOf u) c1 = (None, c')"
      using Cons.prems(2) u True by (auto simp: p callE_run)
    then have ok: "u = Inr ()"
      using undo_err [of ps _ c1 None c'] by (cases u) auto
    show ?thesis
    proof (cases "w = v")
      case False
      then show ?thesis using Cons.IH [of c1] Cons.prems rest ok by (auto simp: p)
    next
      case same: True
      have b: "backed C view (iw_backend v) (iw_key v) (iw_slot v)"
        using Cons.prems(1) by (auto simp: p write_backed_def)
      have "view (iw_slot v) c1 = before v"
        using u ok b by (auto simp: before_def split: if_splits dest: backed_Put(2) backed_Delete(2))
      moreover have "\<forall>(w, b) \<in> set ps. b \<longrightarrow> iw_slot w \<noteq> iw_slot v"
        using Cons.prems(3) by (force simp: p)
      ultimately show ?thesis
        using undo_frame [OF _ rest, of C view "iw_slot v"] Cons.prems(1) same by simp
    qed
  qed
qed simp

lemma zip_rev_facts:
  assumes "list_all2 P ws bs"
  shows "map fst (rev (zip ws bs)) = rev ws" "w \<in> set ws \<Longrightarrow> \<exists>b. (w, b) \<in> set (zip ws bs)"
    "(w, b) \<in> set (zip ws bs) \<Longrightarrow> P w b"
  using assms by (auto simp: rev_map [symmetric] list_all2_lengthD in_set_zip list_all2_nthD
      in_set_conv_nth dest: list_all2_lengthD) (metis assms list_all2_lengthD nth_zip)

definition transaction_backed :: "'c cred_env \<Rightarrow> 'c slot_view \<Rightarrow> 'c import_transaction \<Rightarrow> bool" where
  "transaction_backed C view ws = (\<forall>w \<in> set ws. write_backed C view w)"

text \<open>The stores after a compensation that reports success.\<close>

definition undone :: "'c slot_view \<Rightarrow> 'c import_transaction \<Rightarrow> 'c \<Rightarrow> 'c \<Rightarrow> bool" where
  "undone view ws c c' = (\<forall>s. view s c' = (case find (\<lambda>w. iw_slot w = s) ws of
     Some w \<Rightarrow> before w | None \<Rightarrow> view s c))"

lemma compensate_law:
  assumes "transaction_backed C view ws" and "distinct (map iw_slot ws)"
    and plan: "import_compensationPlan C ws c = (Inr restore, c1)" and "import_compensate ws restore c1 = (err, c2)"
  shows "\<forall>s. view s c2 \<noteq> view s c \<longrightarrow> (\<exists>w \<in> set ws. iw_slot w = s \<and> view s c = Some (iw_written w))"
    "err = None \<Longrightarrow> undone view ws c c2"
proof -
  let ?ps = "rev (zip ws restore)"
  have backed: "\<forall>w \<in> set ws. write_backed C view w" using assms(1) by (simp add: transaction_backed_def)
  have same: "\<And>s. view s c1 = view s c"
    and planned: "list_all2 (decided view c) ws restore"
    using plan_law [OF backed plan] by auto
  note z = zip_rev_facts [OF planned]
  have ps: "\<forall>(w, b) \<in> set ?ps. write_backed C view w"
    using backed by (auto dest: set_zip_leftD)
  have undo: "undoImports ?ps None c1 = (err, c2)" using assms(4) by (simp add: import_compensate_def)
  show "\<forall>s. view s c2 \<noteq> view s c \<longrightarrow> (\<exists>w \<in> set ws. iw_slot w = s \<and> view s c = Some (iw_written w))"
  proof (intro allI impI)
    fix s assume "view s c2 \<noteq> view s c"
    then obtain w where "(w, True) \<in> set ?ps" "iw_slot w = s"
      using undo_frame [OF ps undo, of s] same by fastforce
    then show "\<exists>w \<in> set ws. iw_slot w = s \<and> view s c = Some (iw_written w)"
      using z(3) by (force simp: decided_def dest: set_zip_leftD)
  qed
  show "undone view ws c c2" if "err = None"
    unfolding undone_def
  proof
    fix s
    have dist: "distinct (map (iw_slot \<circ> fst) ?ps)"
      using assms(2) z(1) by (metis distinct_rev map_map rev_map)
    show "view s c2 = (case find (\<lambda>w. iw_slot w = s) ws of Some w \<Rightarrow> before w | None \<Rightarrow> view s c)"
    proof (cases "find (\<lambda>w. iw_slot w = s) ws")
      case None
      then have "\<forall>(w, b) \<in> set ?ps. b \<longrightarrow> iw_slot w \<noteq> s"
        by (auto simp: find_None_iff dest: set_zip_leftD)
      then show ?thesis using undo_frame [OF ps undo] same None by simp
    next
      case (Some w)
      then have w: "w \<in> set ws" "iw_slot w = s" by (auto simp: find_Some_iff)
      then obtain b where b: "(w, b) \<in> set ?ps" using z(2) by fastforce
      show ?thesis
      proof (cases b)
        case True
        then have "(w, True) \<in> set ?ps" using b by simp
        then have "view (iw_slot w) c2 = before w"
          using undo_restores [OF ps _ dist] undo that by blast
        then show ?thesis using w(2) Some by simp
      next
        case False
        have "iw_slot v \<noteq> s" if v: "(v, r) \<in> set ?ps" and "r" for v r
        proof
          assume "iw_slot v = s"
          then have "(v, r) = (w, b)"
            using dist v b w(2) by (metis (no_types, lifting) comp_apply distinct_map fst_conv inj_onD)
          then show False using False \<open>r\<close> by simp
        qed
        then have "\<forall>(v, r) \<in> set ?ps. r \<longrightarrow> iw_slot v \<noteq> s" by blast
        then have "view s c2 = view s c"
          using undo_frame [OF ps undo, of s] same by simp
        then show ?thesis using z(3) [of w b] b w Some False by (simp add: decided_def)
      qed
    qed
  qed
qed

lemma compensation_safe:
  assumes "transaction_backed C view ws" and "distinct (map iw_slot ws)"
    and "compensateContextImportCredentialsLocked C cfg (Some ws) c = ((status, err), c')"
  shows "\<forall>s. view s c' \<noteq> view s c \<longrightarrow> (\<exists>w \<in> set ws. iw_slot w = s \<and> view s c = Some (iw_written w))"
    "status = credentialCompensationNotSafe \<Longrightarrow> \<forall>s. view s c' = view s c"
    "status = credentialCompensationSucceeded \<Longrightarrow> undone view ws c c'"
    "err = None \<Longrightarrow> undone view ws c c'"
    "err = None \<longleftrightarrow> status = credentialCompensationSucceeded \<or> status = ''''"
proof -
  have backed: "\<forall>w \<in> set ws. write_backed C view w" using assms(1) by (simp add: transaction_backed_def)
  obtain p c1 where p: "import_compensationPlan C ws c = (p, c1)" by fastforce
  have same: "\<forall>s. view s c1 = view s c" using plan_law [OF backed p] by blast
  note names = credentialCompensationNotSafe_def credentialCompensationSucceeded_def
    credentialCompensationIncomplete_def
  note run = assms(3) [unfolded compensateContextImportCredentialsLocked_def callE_run]
  have "(\<forall>s. view s c' \<noteq> view s c \<longrightarrow> (\<exists>w \<in> set ws. iw_slot w = s \<and> view s c = Some (iw_written w))) \<and>
    (status = credentialCompensationNotSafe \<longrightarrow> (\<forall>s. view s c' = view s c)) \<and>
    (status = credentialCompensationSucceeded \<longrightarrow> undone view ws c c') \<and> (err = None \<longrightarrow> undone view ws c c') \<and>
    (err = None \<longleftrightarrow> status = credentialCompensationSucceeded \<or> status = '''')"
  proof (cases "\<exists>restore err2 c2. ws \<noteq> [] \<and> p = Inr restore \<and> import_compensate ws restore c1 = (err2, c2) \<and>
      c' = c2 \<and> err = err2 \<and>
      status = (if err2 = None then credentialCompensationSucceeded else credentialCompensationIncomplete)")
    case True
    then obtain restore where "p = Inr restore" "import_compensate ws restore c1 = (err, c')"
      "status = (if err = None then credentialCompensationSucceeded else credentialCompensationIncomplete)" by blast
    then show ?thesis using compensate_law [OF assms(1,2)] p by (auto simp: names)
  next
    case False
    then have "(\<forall>s. view s c' = view s c) \<and> (if ws = [] then status = '''' \<and> err = None
        else status = credentialCompensationNotSafe \<and> err \<noteq> None)"
      using run same p by (auto simp: callE_run split: if_splits option.splits sum.splits prod.splits)
    then show ?thesis by (auto simp: names undone_def split: if_splits)
  qed
  then show "\<forall>s. view s c' \<noteq> view s c \<longrightarrow> (\<exists>w \<in> set ws. iw_slot w = s \<and> view s c = Some (iw_written w))"
    "status = credentialCompensationNotSafe \<Longrightarrow> \<forall>s. view s c' = view s c"
    "status = credentialCompensationSucceeded \<Longrightarrow> undone view ws c c'"
    "err = None \<Longrightarrow> undone view ws c c'"
    "err = None \<longleftrightarrow> status = credentialCompensationSucceeded \<or> status = ''''" by blast+
qed

section \<open>Writing\<close>

lemma find_snoc: "find P (xs @ [x]) = (case find P xs of None \<Rightarrow> (if P x then Some x else None) | Some y \<Rightarrow> Some y)"
  by (induction xs) auto

lemma undone_Nil [simp]: "undone view [] c c' \<longleftrightarrow> (\<forall>s. view s c' = view s c)"
  by (simp add: undone_def)

text \<open>
  The invariant of a transaction in progress, begun in \<open>c0\<close>: it writes each slot once, and undoing its
  writes gives back what was there.
\<close>

definition open_transaction ::
  "'c cred_env \<Rightarrow> 'c slot_view \<Rightarrow> 'c \<Rightarrow> 'c import_transaction \<Rightarrow> 'c \<Rightarrow> bool" where
  "open_transaction C view c0 ws c =
     (transaction_backed C view ws \<and> distinct (map iw_slot ws) \<and> undone view ws c c0)"

lemma open_snoc:
  assumes "open_transaction C view c0 ws c" and "write_backed C view w" and "iw_slot w \<notin> iw_slot ` set ws"
    and "view (iw_slot w) c = before w" and "\<And>s. s \<noteq> iw_slot w \<Longrightarrow> view s c' = view s c"
  shows "open_transaction C view c0 (ws @ [w]) c'"
proof -
  have u: "view s c0 = (case find (\<lambda>w. iw_slot w = s) ws of Some w \<Rightarrow> before w | None \<Rightarrow> view s c)" for s
    using assms(1) by (simp add: open_transaction_def undone_def)
  have "view s c0 = (case find (\<lambda>w. iw_slot w = s) (ws @ [w]) of Some w \<Rightarrow> before w | None \<Rightarrow> view s c')" for s
    using u [of s] assms(4,5) by (auto simp: find_snoc split: option.splits)
  then show ?thesis
    using assms(1-3) by (auto simp: open_transaction_def undone_def transaction_backed_def)
qed

lemma open_same:
  assumes "open_transaction C view c0 ws c" and "\<And>s. view s c' = view s c"
  shows "open_transaction C view c0 ws c'"
  using assms by (auto simp: open_transaction_def undone_def split: option.split)

lemma put_law:
  assumes "open_transaction C view c0 ws c" and "slot \<notin> iw_slot ` set ws"
    and "\<And>b. backend = Some b \<Longrightarrow> backed C view b key slot"
    and "contextImportCredentialTransaction_put C backend key slot owner val ws c = ((ws', err), c')"
  shows "open_transaction C view c0 ws' c'" "iw_slot ` set ws' \<subseteq> insert slot (iw_slot ` set ws)"
    "\<And>s. s \<noteq> slot \<Longrightarrow> view s c' = view s c" "err = None \<Longrightarrow> view slot c' = Some val"
proof -
  have "open_transaction C view c0 ws' c' \<and> iw_slot ` set ws' \<subseteq> insert slot (iw_slot ` set ws) \<and>
    (\<forall>s. s \<noteq> slot \<longrightarrow> view s c' = view s c) \<and> (err = None \<longrightarrow> view slot c' = Some val)"
  proof (cases backend)
    case None
    then show ?thesis using assms by (auto simp: contextImportCredentialTransaction_put_def)
  next
    case (Some b)
    have b: "backed C view b key slot" using assms(3) Some by simp
    obtain g c1 where g: "bk_Get b key c = (g, c1)" by fastforce
    obtain p c2 where p: "bk_Put b key val c1 = (p, c2)" by fastforce
    note get = backed_Get [OF b g] and put = backed_Put [OF b p]
    show ?thesis
    proof (cases "\<exists>e. g = Inl e \<and> \<not> cr_isNotFound C e")
      case True
      then have "ws' = ws" "c' = c1" "err \<noteq> None"
        using assms(4) by (auto simp: contextImportCredentialTransaction_put_def Some callE_run g)
      then show ?thesis using open_same [OF assms(1)] get(1) by auto
    next
      case False
      define w where "w ok = \<lparr>iw_backend = b, iw_key = key, iw_slot = slot, iw_owner = owner,
        iw_previous = (case g of Inr previous \<Rightarrow> previous | Inl _ \<Rightarrow> ''''), iw_written = val,
        iw_existed = (errOf g = None), iw_putSucceeded = ok\<rparr>" for ok
      have run: "ws' = ws @ [w (errOf p = None)]" "err = errOf p" "c' = c2"
        using assms(4) False
        by (auto simp: contextImportCredentialTransaction_put_def Some callE_run g p w_def Let_def
            split: sum.splits if_splits)
      have "view slot c = before (w ok)" for ok
        using get False by (cases g) (auto simp: before_def w_def)
      moreover have "write_backed C view (w ok)" "iw_slot (w ok) = slot" for ok
        using b by (simp_all add: write_backed_def w_def)
      ultimately have "open_transaction C view c0 (ws @ [w (errOf p = None)]) c2"
        using open_snoc [OF assms(1)] assms(2) get(1) put(1) by metis
      then show ?thesis
        using run put get(1) by (cases p) (auto simp: w_def)
    qed
  qed
  then show "open_transaction C view c0 ws' c'" "iw_slot ` set ws' \<subseteq> insert slot (iw_slot ` set ws)"
    "\<And>s. s \<noteq> slot \<Longrightarrow> view s c' = view s c" "err = None \<Longrightarrow> view slot c' = Some val" by blast+
qed

lemma putWhen_law:
  assumes "open_transaction C view c0 ws c" and "present \<Longrightarrow> slot \<notin> iw_slot ` set ws"
    and "\<And>b. present \<Longrightarrow> backend = Some b \<Longrightarrow> backed C view b key slot"
    and "putWhen present msg (contextImportCredentialTransaction_put C backend key slot owner val) ws c
      = ((ws', err), c')"
  shows "open_transaction C view c0 ws' c' \<and>
    iw_slot ` set ws' \<subseteq> (if present then {slot} else {}) \<union> iw_slot ` set ws \<and>
    (\<forall>s. (present \<longrightarrow> s \<noteq> slot) \<longrightarrow> view s c' = view s c) \<and> (err = None \<longrightarrow> present \<longrightarrow> view slot c' = Some val)"
proof (cases present)
  case False
  then show ?thesis using assms by (auto simp: putWhen_def)
next
  case True
  obtain e where "contextImportCredentialTransaction_put C backend key slot owner val ws c = ((ws', e), c')"
    "err = None \<longleftrightarrow> e = None"
    using assms(4) True by (auto simp: putWhen_def callE_run split: prod.splits option.splits)
  note put_law [OF assms(1) assms(2) [OF True] assms(3) [OF True] this(1)] this(2)
  then show ?thesis using True by simp
qed


text \<open>The slots that candidates will write, and the stores behind them.\<close>

definition planned_slots :: "'c contextImportCredentialCandidate list \<Rightarrow> credentialPhysicalSlot list" where
  "planned_slots candidates = concat (map (\<lambda>d. if ic_backend d = None then [] else slots d) candidates)"

definition candidate_backed :: "'c cred_env \<Rightarrow> 'c slot_view \<Rightarrow> 'c contextImportCredentialCandidate \<Rightarrow> bool" where
  "candidate_backed C view d = (\<forall>b. ic_backend d = Some b \<longrightarrow>
     (ic_password d \<noteq> '''' \<longrightarrow> backed C view b (ic_name d) (ic_primarySlot d)) \<and>
     (ic_schemaRegistryPassword d \<noteq> '''' \<longrightarrow>
        backed C view b (ic_name d @ ''/schema-registry'') (ic_schemaRegistrySlot d)))"

definition stored :: "'c slot_view \<Rightarrow> 'c contextImportCredentialCandidate \<Rightarrow> 'c \<Rightarrow> bool" where
  "stored view d c =
     ((ic_password d \<noteq> '''' \<longrightarrow> view (ic_primarySlot d) c = Some (ic_password d)) \<and>
      (ic_schemaRegistryPassword d \<noteq> '''' \<longrightarrow>
         view (ic_schemaRegistrySlot d) c = Some (ic_schemaRegistryPassword d)))"

lemma storeImports_law:
  assumes "open_transaction C view c0 ws c" and "\<forall>d \<in> set ds. candidate_backed C view d"
    and "distinct (planned_slots ds)" and "set (planned_slots ds) \<inter> iw_slot ` set ws = {}"
    and "storeImports C ds ws c = ((ws', err), c')"
  shows "open_transaction C view c0 ws' c' \<and>
    (\<forall>s. s \<notin> set (planned_slots ds) \<longrightarrow> view s c' = view s c) \<and> (err = None \<longrightarrow> (\<forall>d \<in> set ds. stored view d c'))"
  using assms
proof (induction ds arbitrary: ws c)
  case Nil
  then show ?case by (simp add: planned_slots_def)
next
  case (Cons d ds)
  let ?P = "ic_password d \<noteq> ''''" and ?R = "ic_schemaRegistryPassword d \<noteq> ''''"
  let ?put1 = "putWhen ?P (storeFailed ''credential'' (ic_name d)) (contextImportCredentialTransaction_put C
    (ic_backend d) (ic_name d) (ic_primarySlot d) (primaryOwner (ic_name d)) (ic_password d))"
  let ?put2 = "putWhen ?R (storeFailed ''schema registry credential'' (ic_name d))
    (contextImportCredentialTransaction_put C (ic_backend d) (ic_name d @ ''/schema-registry'')
      (ic_schemaRegistrySlot d) (schemaRegistryOwner (ic_name d)) (ic_schemaRegistryPassword d))"
  have backed: "?P \<Longrightarrow> ic_backend d = Some b \<Longrightarrow> backed C view b (ic_name d) (ic_primarySlot d)"
    "?R \<Longrightarrow> ic_backend d = Some b \<Longrightarrow> backed C view b (ic_name d @ ''/schema-registry'') (ic_schemaRegistrySlot d)" for b
    using Cons.prems(2) by (auto simp: candidate_backed_def)
  obtain ws1 e1 c1 where put1: "?put1 ws c = ((ws1, e1), c1)" by (metis prod.collapse)
  show ?case
  proof (cases "ic_backend d")
    case None
    show ?thesis
    proof (cases "?P \<or> ?R")
      case True
      have "ws' = ws" "c' = c" "err \<noteq> None"
        using Cons.prems(5) True None
        by (auto simp: thenCall_def callE_run putWhen_def contextImportCredentialTransaction_put_def split: if_splits)
      then show ?thesis using Cons.prems(1) by auto
    next
      case False
      then have "storeImports C ds ws c = ((ws', err), c')"
        using Cons.prems(5) by (simp add: thenCall_def callE_run putWhen_def)
      then show ?thesis
        using Cons.IH [OF Cons.prems(1)] Cons.prems(2-4) None False by (auto simp: planned_slots_def stored_def)
    qed
  next
    case (Some b)
    have pl: "planned_slots (d # ds) = slots d @ planned_slots ds" by (simp add: planned_slots_def Some)
    have fresh: "?P \<Longrightarrow> ic_primarySlot d \<notin> iw_slot ` set ws" "?R \<Longrightarrow> ic_schemaRegistrySlot d \<notin> iw_slot ` set ws"
      and dist: "?P \<Longrightarrow> ?R \<Longrightarrow> ic_primarySlot d \<noteq> ic_schemaRegistrySlot d" "distinct (planned_slots ds)"
      and apart: "?P \<Longrightarrow> ic_primarySlot d \<notin> set (planned_slots ds)"
        "?R \<Longrightarrow> ic_schemaRegistrySlot d \<notin> set (planned_slots ds)"
      using Cons.prems(3,4) unfolding pl by (auto simp: slots_def)
    have one: "open_transaction C view c0 ws1 c1"
      "iw_slot ` set ws1 \<subseteq> (if ?P then {ic_primarySlot d} else {}) \<union> iw_slot ` set ws"
      "\<And>s. ?P \<longrightarrow> s \<noteq> ic_primarySlot d \<Longrightarrow> view s c1 = view s c"
      "e1 = None \<Longrightarrow> ?P \<Longrightarrow> view (ic_primarySlot d) c1 = Some (ic_password d)"
      using putWhen_law [OF Cons.prems(1) fresh(1) backed(1) put1] by blast+
    show ?thesis
    proof (cases e1)
      case (Some e)
      then have "ws' = ws1" "c' = c1" "err = Some e"
        using Cons.prems(5) put1 by (auto simp: thenCall_def callE_run)
      then show ?thesis using one unfolding pl by (auto simp: slots_def)
    next
      case None
      obtain ws2 e2 c2 where put2: "?put2 ws1 c1 = ((ws2, e2), c2)" by (metis prod.collapse)
      have "?R \<Longrightarrow> ic_schemaRegistrySlot d \<notin> iw_slot ` set ws1"
        using one fresh dist(1) by (auto split: if_splits)
      from putWhen_law [OF one(1) this backed(2) put2]
      have two: "open_transaction C view c0 ws2 c2"
        "iw_slot ` set ws2 \<subseteq> (if ?R then {ic_schemaRegistrySlot d} else {}) \<union> iw_slot ` set ws1"
        "\<And>s. ?R \<longrightarrow> s \<noteq> ic_schemaRegistrySlot d \<Longrightarrow> view s c2 = view s c1"
        "e2 = None \<Longrightarrow> ?R \<Longrightarrow> view (ic_schemaRegistrySlot d) c2 = Some (ic_schemaRegistryPassword d)" by blast+
      show ?thesis
      proof (cases e2)
        case (Some e)
        then have "ws' = ws2" "c' = c2" "err = Some e"
          using Cons.prems(5) put1 put2 None by (auto simp: thenCall_def callE_run)
        then show ?thesis using one two unfolding pl by (auto simp: slots_def)
      next
        case done2: None
        have rest: "storeImports C ds ws2 c2 = ((ws', err), c')"
          using Cons.prems(5) put1 put2 None done2 by (simp add: thenCall_def callE_run)
        have "iw_slot ` set ws2 \<subseteq> set (slots d) \<union> iw_slot ` set ws"
        proof -
          have "set (slots d) = (if ?R then {ic_schemaRegistrySlot d} else {}) \<union> (if ?P then {ic_primarySlot d} else {})"
            by (simp add: slots_def)
          then show ?thesis
            using order_trans [OF two(2) Un_mono [OF order_refl one(2)]] by (simp only: Un_assoc)
        qed
        moreover have "set (planned_slots ds) \<inter> set (slots d) = {}"
          using Cons.prems(3) unfolding pl by auto
        ultimately have "set (planned_slots ds) \<inter> iw_slot ` set ws2 = {}"
          using Cons.prems(4) unfolding pl by fastforce
        from Cons.IH [OF two(1) _ dist(2) this rest] Cons.prems(2)
        have all: "open_transaction C view c0 ws' c'"
          "\<And>s. s \<notin> set (planned_slots ds) \<Longrightarrow> view s c' = view s c2"
          "err = None \<Longrightarrow> \<forall>d \<in> set ds. stored view d c'" by simp_all
        have "stored view d c'" if "err = None"
          using all one two apart dist(1) None done2 Cons.prems(2) by (auto simp: stored_def)
        then show ?thesis
          using all one two Cons.prems(2) unfolding pl by (auto simp: slots_def)
      qed
    qed
  qed
qed


lemma planSlots_law:
  assumes "planSlots name planned ss = Inr planned'"
  shows "distinct ss \<and> set ss \<inter> fst ` set planned = {} \<and> fst ` set planned' = set ss \<union> fst ` set planned"
  using assms
  by (induction name planned ss arbitrary: planned' rule: planSlots.induct)
     (force split: option.splits simp: map_of_eq_None_iff)+

lemma validateCandidates_law:
  assumes "validateCandidates planned ds c = (Inr u, c')"
  shows "distinct (planned_slots ds) \<and> set (planned_slots ds) \<inter> fst ` set planned = {}"
  using assms
proof (induction ds arbitrary: planned c)
  case (Cons d ds)
  consider (skip) "ic_backend d = None \<or> \<not> hasWrites d" "validateCandidates planned ds c = (Inr u, c')"
    | (plan) planned' c1 where "planSlots (ic_name d) planned (slots d) = Inr planned'"
        "validateCandidates planned' ds c1 = (Inr u, c')" "ic_backend d \<noteq> None"
    using Cons.prems by (auto simp: tryE_run split: option.splits if_splits sum.splits prod.splits)
  then show ?case
  proof cases
    case skip
    then show ?thesis using Cons.IH by (auto simp: planned_slots_def slots_def hasWrites_def)
  next
    case plan
    then show ?thesis
      using planSlots_law [OF plan(1)] Cons.IH [OF plan(2)] by (auto simp: planned_slots_def)
  qed
qed (simp add: planned_slots_def)

text \<open>
  Validated candidates: every credential is stored, or undoing the transaction gives back what was there.
\<close>

lemma store_law:
  assumes "validateContextImportCredentialCandidates ds c00 = (Inr u, c01)"
    and "\<forall>d \<in> set ds. candidate_backed C view d"
    and "storeContextImportCredentials C ds c = ((ws, err), c')"
  shows "open_transaction C view c ws c'" "err = None \<Longrightarrow> d \<in> set ds \<Longrightarrow> stored view d c'"
    "s \<notin> set (planned_slots ds) \<Longrightarrow> view s c' = view s c"
proof -
  have start: "open_transaction C view c [] c" by (simp add: open_transaction_def transaction_backed_def)
  have dist: "distinct (planned_slots ds)"
    using assms(1) validateCandidates_law [of "[]" ds c00 u c01]
    by (simp add: validateContextImportCredentialCandidates_def)
  have "open_transaction C view c ws c' \<and> (\<forall>s. s \<notin> set (planned_slots ds) \<longrightarrow> view s c' = view s c) \<and>
      (err = None \<longrightarrow> (\<forall>d \<in> set ds. stored view d c'))"
    by (rule storeImports_law [OF start assms(2) dist _ assms(3) [unfolded storeContextImportCredentials_def]])
       simp
  then show "open_transaction C view c ws c'" "err = None \<Longrightarrow> d \<in> set ds \<Longrightarrow> stored view d c'"
    "s \<notin> set (planned_slots ds) \<Longrightarrow> view s c' = view s c" by blast+
qed

end
