(* ===== verification/Credential_Migration_Laws.thy ===== *)
theory Credential_Migration_Laws
  imports Credential_Laws Credential_Migration
begin

text \<open>
  The migration of credentials is an import of credentials into one store that is no Vault: it makes the
  same calls with the same results. So what theory Credential_Laws shows of the one holds of the other.
\<close>

section \<open>The embedding\<close>

definition import_write :: "'c Backend \<Rightarrow> credentialMigrationWrite \<Rightarrow> 'c contextImportCredentialWrite" where
  "import_write b w = \<lparr>iw_backend = b, iw_key = mw_key w, iw_slot = mw_slot w, iw_owner = mw_owner w,
     iw_previous = mw_previous w, iw_written = mw_written w, iw_existed = mw_existed w,
     iw_putSucceeded = mw_putSucceeded w\<rparr>"

definition embed :: "'c credentialMigrationTransaction \<Rightarrow> 'c import_transaction" where
  "embed t = map (import_write (mt_backend t)) (mt_writes t)"

definition import_candidate ::
  "'c Backend \<Rightarrow> migrateCredentialCandidate \<Rightarrow> 'c contextImportCredentialCandidate" where
  "import_candidate b d = \<lparr>ic_name = mc_name d, ic_backend = Some b, ic_password = mc_password d,
     ic_schemaRegistryPassword = mc_schemaRegistryPassword d, ic_primarySlot = storeSlot (bk_Name b) (mc_name d),
     ic_schemaRegistrySlot = storeSlot (bk_Name b) (mc_name d @ ''/schema-registry'')\<rparr>"

lemma import_write_simps [simp]:
  "iw_backend (import_write b w) = b" "iw_key (import_write b w) = mw_key w"
  "iw_slot (import_write b w) = mw_slot w" "iw_owner (import_write b w) = mw_owner w"
  "iw_previous (import_write b w) = mw_previous w" "iw_written (import_write b w) = mw_written w"
  "iw_existed (import_write b w) = mw_existed w" "iw_putSucceeded (import_write b w) = mw_putSucceeded w"
  by (simp_all add: import_write_def)

lemma embed_put:
  assumes "credentialMigrationTransaction_put C key owner val t c = ((t', err), c')"
  shows "contextImportCredentialTransaction_put C (Some (mt_backend t)) key (storeSlot (bk_Name (mt_backend t)) key)
      owner val (embed t) c = ((embed t', err), c')" "mt_backend t' = mt_backend t"
proof -
  obtain g c1 where g: "bk_Get (mt_backend t) key c = (g, c1)" by fastforce
  obtain p c2 where p: "bk_Put (mt_backend t) key val c1 = (p, c2)" by fastforce
  have "contextImportCredentialTransaction_put C (Some (mt_backend t)) key (storeSlot (bk_Name (mt_backend t)) key)
      owner val (embed t) c = ((embed t', err), c') \<and> mt_backend t' = mt_backend t"
    using assms
    by (auto simp: credentialMigrationTransaction_put_def contextImportCredentialTransaction_put_def callE_run g p
        embed_def addWrite_def import_write_def Let_def split: if_splits sum.splits)
  then show "contextImportCredentialTransaction_put C (Some (mt_backend t)) key (storeSlot (bk_Name (mt_backend t)) key)
      owner val (embed t) c = ((embed t', err), c')" "mt_backend t' = mt_backend t" by blast+
qed

lemma embed_putWhen:
  assumes "migrateWhen present msg (credentialMigrationTransaction_put C key owner val) st c = ((st', err), c')"
  shows "putWhen present msg (contextImportCredentialTransaction_put C (Some (mt_backend (fst st))) key
      (storeSlot (bk_Name (mt_backend (fst st))) key) owner val) (embed (fst st)) c = ((embed (fst st'), err), c') \<and>
    mt_backend (fst st') = mt_backend (fst st)"
proof (cases present)
  case False
  then show ?thesis using assms by (auto simp: migrateWhen_def putWhen_def)
next
  case True
  obtain t' e c2 where put: "credentialMigrationTransaction_put C key owner val (fst st) c = ((t', e), c2)"
    by (metis prod.collapse)
  show ?thesis
    using assms True embed_put [OF put] by (cases e) (auto simp: migrateWhen_def putWhen_def callE_run put)
qed

lemma embed_storeImports:
  assumes "storeMigrations C ds st c = ((st', err), c')"
  shows "storeImports C (map (import_candidate (mt_backend (fst st))) ds) (embed (fst st)) c =
      ((embed (fst st'), err), c') \<and> mt_backend (fst st') = mt_backend (fst st)"
  using assms
proof (induction ds arbitrary: st c)
  case (Cons d ds)
  let ?put1 = "migrateWhen (mc_password d \<noteq> '''') (storeFailed ''credential'' (mc_name d))
    (credentialMigrationTransaction_put C (mc_name d) (primaryOwner (mc_name d)) (mc_password d))"
  let ?put2 = "migrateWhen (mc_schemaRegistryPassword d \<noteq> '''') (storeFailed ''schema registry credential'' (mc_name d))
    (credentialMigrationTransaction_put C (mc_name d @ ''/schema-registry'') (schemaRegistryOwner (mc_name d))
      (mc_schemaRegistryPassword d))"
  obtain s1 e1 c1 where put1: "?put1 st c = ((s1, e1), c1)" by (metis prod.collapse)
  obtain s2 e2 c2 where put2: "?put2 s1 c1 = ((s2, e2), c2)" by (metis prod.collapse)
  note one = embed_putWhen [OF put1] and two = embed_putWhen [OF put2]
  show ?case
  proof (cases "e1 = None \<and> e2 = None")
    case True
    then have "storeMigrations C ds s2 c2 = ((st', err), c')"
      using Cons.prems put1 put2 by (simp add: thenCall_def callE_run)
    from Cons.IH [OF this] show ?thesis
      using one two True by (simp add: thenCall_def callE_run import_candidate_def)
  next
    case False
    then show ?thesis
      using Cons.prems one two put1 put2
      by (auto simp: thenCall_def callE_run import_candidate_def split: option.splits)
  qed
qed simp

lemma embed_plan: "migration_planWrites C b ws = import_compensationPlan C (map (import_write b) ws)"
  by (induction ws) simp_all

lemma embed_undo:
  "undoMigrations b ps err c = undoImports (map (\<lambda>(w, r). (import_write b w, r)) ps) err c"
proof (induction ps arbitrary: err c)
  case (Cons p ps)
  then show ?case by (cases p) (simp add: callE_run)
qed simp

lemma embed_compensate: "migration_compensate t restore = import_compensate (embed t) restore"
proof -
  have "map (\<lambda>(w, r). (import_write (mt_backend t) w, r)) (rev (zip (mt_writes t) restore)) =
      rev (zip (embed t) restore)"
    by (simp add: embed_def rev_map zip_map1)
  then show ?thesis
    by (simp add: migration_compensate_def import_compensate_def embed_undo fun_eq_iff)
qed

definition no_vault :: "'c credentialMigrationTransaction \<Rightarrow> bool" where
  "no_vault t = (\<forall>w \<in> set (mt_writes t). sl_backendName (mw_slot w) \<noteq> ''vault'')"

lemma list_ex_map: "list_ex P (map g xs) = list_ex (P \<circ> g) xs"
  by (induction xs) simp_all

lemma embed_locked:
  assumes "no_vault t"
  shows "compensateCredentialMigrationLocked C cfg (Some t) c =
    compensateContextImportCredentialsLocked C cfg (Some (embed t)) c"
proof -
  have owners: "validateContextImportCompensationOwners C cfg (embed t) =
      validateCredentialMigrationCompensationOwners C cfg t"
    by (simp add: validateContextImportCompensationOwners_def validateCredentialMigrationCompensationOwners_def
        embed_def list_ex_map comp_def cong: option.case_cong sum.case_cong)
  have vault: "validateCompensationCapabilities (embed t) restore = None" for restore
    using assms
    by (auto simp: validateCompensationCapabilities_def embed_def list_ex_iff no_vault_def dest!: set_zip_leftD)
  have empty: "embed t = [] \<longleftrightarrow> mt_writes t = []" by (simp add: embed_def)
  show ?thesis
    by (simp add: compensateCredentialMigrationLocked_def compensateContextImportCredentialsLocked_def owners vault
        empty compensateCredentialMigrationTransaction_def migration_compensationPlan_def embed_plan
        embed_def [symmetric] embed_compensate callE_run split: option.splits sum.splits prod.splits)
qed


section \<open>Owners of slots\<close>

text \<open>What a reference of a context occupies, and by whom.\<close>

definition occupies ::
  "'c cred_env \<Rightarrow> Context \<Rightarrow> string \<Rightarrow> string \<Rightarrow> credentialPhysicalSlot \<Rightarrow> bool" where
  "occupies C item val key slot =
     (\<exists>backendName. cr_parseRef C val = Some backendName \<and>
        contextCredentialPhysicalSlot C item backendName key = Inr slot)"

lemma addOwner_law:
  assumes "addContextImportCredentialOwner owners slot owner = Inr owners'"
  shows "map_of owners' = (map_of owners)(slot \<mapsto> owner)" "map_of owners slot \<noteq> None \<Longrightarrow> map_of owners slot = Some owner"
  using assms by (auto simp: addContextImportCredentialOwner_def split: option.splits if_splits)

lemma addReference_law:
  assumes "addReference C item val key owner owners = Inr owners'"
  shows "map_of owners \<subseteq>\<^sub>m map_of owners'" "occupies C item val key slot \<Longrightarrow> map_of owners' slot = Some owner"
proof -
  show "map_of owners \<subseteq>\<^sub>m map_of owners'"
    using assms
    by (auto simp: addReference_def map_le_def split: option.splits sum.splits)
       (metis addOwner_law option.distinct(1) fun_upd_apply)
  show "occupies C item val key slot \<Longrightarrow> map_of owners' slot = Some owner"
    using assms by (auto simp: addReference_def occupies_def dest!: addOwner_law(1))
qed

text \<open>Every reference of the contexts is owned, by its context alone.\<close>

lemma slotOwners_law:
  assumes "slotOwners C owners contexts = Inr owners'"
  shows "map_of owners \<subseteq>\<^sub>m map_of owners'"
    "(name, item) \<in> set contexts \<Longrightarrow> occupies C item (cx_Password item) name slot \<Longrightarrow>
       map_of owners' slot = Some (primaryOwner name)"
    "(name, item) \<in> set contexts \<Longrightarrow>
       occupies C item (cx_KafkaSchemaRegistryPassword item) (name @ ''/schema-registry'') slot \<Longrightarrow>
       map_of owners' slot = Some (schemaRegistryOwner name)"
proof -
  have "map_of owners \<subseteq>\<^sub>m map_of owners' \<and>
    (\<forall>(name, item) \<in> set contexts. \<forall>slot.
      (occupies C item (cx_Password item) name slot \<longrightarrow> map_of owners' slot = Some (primaryOwner name)) \<and>
      (occupies C item (cx_KafkaSchemaRegistryPassword item) (name @ ''/schema-registry'') slot \<longrightarrow>
         map_of owners' slot = Some (schemaRegistryOwner name)))"
    using assms
  proof (induction contexts arbitrary: owners)
    case (Cons nc contexts)
    obtain name item where nc: "nc = (name, item)" by fastforce
    obtain o1 where o1: "addReference C item (cx_Password item) name (primaryOwner name) owners = Inr o1"
      using Cons.prems by (auto simp: nc split: sum.splits)
    obtain o2 where o2: "addReference C item (cx_KafkaSchemaRegistryPassword item) (name @ ''/schema-registry'')
        (schemaRegistryOwner name) o1 = Inr o2"
      using Cons.prems o1 by (auto simp: nc split: sum.splits)
    have rest: "slotOwners C o2 contexts = Inr owners'" using Cons.prems by (simp add: nc o1 o2)
    note IH = Cons.IH [OF rest]
    have le: "map_of o2 \<subseteq>\<^sub>m map_of owners'" using IH by blast
    have keep: "map_of o2 s = Some v \<Longrightarrow> map_of owners' s = Some v" for s v
      using le by (metis domI map_le_def)
    have keep1: "map_of o1 s = Some v \<Longrightarrow> map_of owners' s = Some v" for s v
      using keep addReference_law(1) [OF o2] by (metis domI map_le_def)
    show ?case
      using IH keep keep1 addReference_law(2) [OF o1] addReference_law(2) [OF o2]
        map_le_trans [OF map_le_trans [OF addReference_law(1) [OF o1] addReference_law(1) [OF o2]] le]
      by (auto simp: nc)
  qed simp
  then show "map_of owners \<subseteq>\<^sub>m map_of owners'"
    "(name, item) \<in> set contexts \<Longrightarrow> occupies C item (cx_Password item) name slot \<Longrightarrow>
       map_of owners' slot = Some (primaryOwner name)"
    "(name, item) \<in> set contexts \<Longrightarrow>
       occupies C item (cx_KafkaSchemaRegistryPassword item) (name @ ''/schema-registry'') slot \<Longrightarrow>
       map_of owners' slot = Some (schemaRegistryOwner name)" by blast+
qed

lemma owner_names:
  "primaryOwner n = primaryOwner m \<longleftrightarrow> n = m" "schemaRegistryOwner n = schemaRegistryOwner m \<longleftrightarrow> n = m"
  "primaryOwner n \<noteq> schemaRegistryOwner m"
proof -
  have "rev (primaryOwner n) ! 2 \<noteq> rev (schemaRegistryOwner m) ! 2"
    by (simp add: primaryOwner_def schemaRegistryOwner_def nth_append)
  then show "primaryOwner n \<noteq> schemaRegistryOwner m" by metis
qed (simp_all add: primaryOwner_def schemaRegistryOwner_def)

lemma map_of_overlay:
  assumes "distinct (map fst over)"
  shows "map_of (overlay contexts over) = map_of contexts ++ map_of over"
  using assms
proof (induction over arbitrary: contexts)
  case (Cons p over)
  obtain k v where p: "p = (k, v)" by fastforce
  have "overlay contexts (p # over) = overlay (alist_put k v contexts) over" by (simp add: overlay_def p)
  moreover have "k \<notin> dom (map_of over)"
    using Cons.prems by (simp add: p dom_map_of_conv_image_fst)
  ultimately show ?case
    using Cons.IH [of "alist_put k v contexts"] Cons.prems
    by (auto simp: p fun_eq_iff map_add_def domIff split: option.splits)
qed (simp add: overlay_def)


section \<open>The slots of a migration\<close>

text \<open>What is assumed of a reference: it names the store that it was made for.\<close>

definition ref_contract :: "'c cred_env \<Rightarrow> bool" where
  "ref_contract C = (\<forall>backendName. cr_parseRef C (cr_encodeRef C backendName) = Some backendName)"

lemma migrated_occupies:
  assumes "ref_contract C" and "bn \<noteq> ''vault''"
  shows "mc_password d \<noteq> '''' \<Longrightarrow>
      occupies C (migratedContext C bn d) (cx_Password (migratedContext C bn d)) key (storeSlot bn key)"
    "mc_schemaRegistryPassword d \<noteq> '''' \<Longrightarrow> occupies C (migratedContext C bn d)
      (cx_KafkaSchemaRegistryPassword (migratedContext C bn d)) key (storeSlot bn key)"
  using assms
  by (simp_all add: occupies_def migratedContext_def ref_contract_def contextCredentialPhysicalSlot_def
      storeSlot_def Let_def)

text \<open>A migration that passed the check of the key set writes every slot once.\<close>

lemma migration_slots:
  assumes "ref_contract C" and "bk_Name b \<noteq> ''vault''" and names: "distinct (map mc_name ds)"
    and ok: "validateCredentialMigrationKeySet C cfg ds (bk_Name b) = None"
  shows "distinct (planned_slots (map (import_candidate b) ds))"
proof -
  let ?bn = "bk_Name b" and ?over = "overlay (cf_Contexts cfg) (migratedContexts C (bk_Name b) ds)"
  obtain owners where owners: "slotOwners C [] ?over = Inr owners"
    using ok by (auto simp: validateCredentialMigrationKeySet_def contextCredentialSlotOwners_def errOf_def
        split: sum.splits)
  have member: "(mc_name d, migratedContext C ?bn d) \<in> set ?over" if "d \<in> set ds" for d
  proof -
    have keys: "map fst (migratedContexts C ?bn ds) = map mc_name ds" by (simp add: migratedContexts_def)
    have "map_of (migratedContexts C ?bn ds) (mc_name d) = Some (migratedContext C ?bn d)"
      using that names by (intro map_of_is_SomeI) (auto simp: migratedContexts_def comp_def)
    then show ?thesis
      using map_of_overlay [of "migratedContexts C ?bn ds" "cf_Contexts cfg"] names keys
      by (metis map_add_find_right map_of_SomeD)
  qed
  define owner where "owner s = map_of owners s" for s
  have own: "mc_password d \<noteq> '''' \<Longrightarrow> owner (storeSlot ?bn (mc_name d)) = Some (primaryOwner (mc_name d))"
    "mc_schemaRegistryPassword d \<noteq> '''' \<Longrightarrow>
       owner (storeSlot ?bn (mc_name d @ ''/schema-registry'')) = Some (schemaRegistryOwner (mc_name d))"
    if "d \<in> set ds" for d
    using slotOwners_law(2,3) [OF owners member [OF that]] migrated_occupies [OF assms(1,2)]
    unfolding owner_def by blast+
  have "distinct (map owner (planned_slots (map (import_candidate b) ds')))" if "set ds' \<subseteq> set ds"
    "distinct (map mc_name ds')" for ds'
    using that
  proof (induction ds')
    case (Cons d ds')
    have mine: "map owner (slots (import_candidate b d)) =
       (if mc_password d \<noteq> '''' then [Some (primaryOwner (mc_name d))] else []) @
       (if mc_schemaRegistryPassword d \<noteq> '''' then [Some (schemaRegistryOwner (mc_name d))] else [])"
      using own [of d] Cons.prems by (simp add: slots_def import_candidate_def)
    have others: "set (map owner (planned_slots (map (import_candidate b) ds'))) \<subseteq>
       (\<Union>x \<in> set ds'. {Some (primaryOwner (mc_name x)), Some (schemaRegistryOwner (mc_name x))})"
      using own Cons.prems(1) by (fastforce simp: planned_slots_def slots_def import_candidate_def)
    have "mc_name x \<noteq> mc_name d" if "x \<in> set ds'" for x
      using Cons.prems(2) imageI [OF that, of mc_name] by (metis distinct.simps(2) list.set_map list.simps(9))
    then have "set (map owner (slots (import_candidate b d))) \<inter>
        set (map owner (planned_slots (map (import_candidate b) ds'))) = {}"
      using others mine by (auto simp: owner_names owner_names(3) [symmetric])
    moreover have "planned_slots (map (import_candidate b) (d # ds')) =
        slots (import_candidate b d) @ planned_slots (map (import_candidate b) ds')"
      by (simp add: planned_slots_def import_candidate_def)
    moreover have "distinct (map owner (slots (import_candidate b d)))"
      using mine by (simp add: owner_names)
    ultimately show ?case using Cons by simp
  qed (simp add: planned_slots_def)
  from this [OF order_refl names] show ?thesis by (simp add: distinct_map)
qed


lemma sorted_entries_facts [simp]:
  "set (sorted_entries m) = set m" "map fst (sorted_entries m) = sort (map fst m)"
  by (simp add: sorted_entries_def) (simp add: sorted_entries_def properties_for_sort [symmetric])

lemma candidate_names:
  assumes "distinct (map fst (cf_Contexts cfg))" and "credentialMigrationCandidates C cfg name = Inr ds"
  shows "distinct (map mc_name ds)"
proof (cases "name = ''''")
  case True
  have "map mc_name (map (\<lambda>(name, item). migrationCandidate C name item) (sorted_entries (cf_Contexts cfg))) =
      sort (map fst (cf_Contexts cfg))"
    using sorted_entries_facts(2) [of "cf_Contexts cfg"]
    by (simp add: case_prod_unfold migrationCandidate_def comp_def)
  then have "distinct (map mc_name (map (\<lambda>(name, item). migrationCandidate C name item)
      (sorted_entries (cf_Contexts cfg))))"
    using assms(1) by simp
  then show ?thesis using assms(2) True by (auto simp: credentialMigrationCandidates_def intro: distinct_map_filter)
next
  case False
  then show ?thesis using assms(2) by (auto simp: credentialMigrationCandidates_def split: option.splits if_splits)
qed

lemma migration_no_vault:
  assumes "storeCredentialMigrationCandidates C b ds c = (((t, progress), err), c')" and "bk_Name b \<noteq> ''vault''"
  shows "no_vault t"
proof -
  have "\<forall>w \<in> set (mt_writes (fst st')). sl_backendName (mw_slot w) \<noteq> ''vault''"
    if "storeMigrations C ds st c = ((st', e), c'')" "mt_backend (fst st) = b"
      "\<forall>w \<in> set (mt_writes (fst st)). sl_backendName (mw_slot w) \<noteq> ''vault''" for ds st st' e c c''
    using that
  proof (induction ds arbitrary: st c)
    case (Cons d ds)
    have step: "mt_backend (fst s2) = b \<and> (\<forall>w \<in> set (mt_writes (fst s2)). sl_backendName (mw_slot w) \<noteq> ''vault'')"
      if "migrateWhen p msg (credentialMigrationTransaction_put C key owner v) s1 c1 = ((s2, e1), c2)"
        "mt_backend (fst s1) = b" "\<forall>w \<in> set (mt_writes (fst s1)). sl_backendName (mw_slot w) \<noteq> ''vault''"
      for p msg key owner v s1 c1 s2 e1 c2
      using that assms(2)
      by (auto simp: migrateWhen_def credentialMigrationTransaction_put_def callE_run addWrite_def storeSlot_def Let_def
          split: if_splits prod.splits sum.splits option.splits)
    show ?case
      using Cons.prems
      by (auto simp: thenCall_def callE_run split: prod.splits option.splits dest!: step Cons.IH)
  qed simp
  then show ?thesis
    using assms(1) unfolding storeCredentialMigrationCandidates_def no_vault_def by fastforce
qed

text \<open>
  The migration up to the end of its writes: undoing the transaction gives back what was there, and a
  migration without an error has stored every credential.
\<close>

lemma migration_store_law:
  assumes "ref_contract C" and "bk_Name b \<noteq> ''vault''" and "distinct (map mc_name ds)"
    and "validateCredentialMigrationKeySet C cfg ds (bk_Name b) = None"
    and "\<forall>key. backed C view b key (storeSlot (bk_Name b) key)"
    and "storeCredentialMigrationCandidates C b ds c = (((t, progress), err), c')"
  shows "open_transaction C view c (embed t) c'" "no_vault t"
    "err = None \<Longrightarrow> d \<in> set ds \<Longrightarrow> stored view (import_candidate b d) c'"
proof -
  have start: "open_transaction C view c [] c" by (simp add: open_transaction_def transaction_backed_def)
  have behind: "\<forall>d \<in> set (map (import_candidate b) ds). candidate_backed C view d"
    using assms(5) by (auto simp: candidate_backed_def import_candidate_def)
  have run: "storeImports C (map (import_candidate b) ds) [] c = ((embed t, err), c')"
    using embed_storeImports [OF assms(6) [unfolded storeCredentialMigrationCandidates_def]]
    by (simp add: embed_def)
  have all: "open_transaction C view c (embed t) c' \<and>
      (\<forall>s. s \<notin> set (planned_slots (map (import_candidate b) ds)) \<longrightarrow> view s c' = view s c) \<and>
      (err = None \<longrightarrow> (\<forall>d \<in> set (map (import_candidate b) ds). stored view d c'))"
    by (rule storeImports_law [OF start behind migration_slots [OF assms(1-4)] _ run]) simp
  then show "open_transaction C view c (embed t) c'"
    "err = None \<Longrightarrow> d \<in> set ds \<Longrightarrow> stored view (import_candidate b d) c'" by auto
  show "no_vault t" by (rule migration_no_vault [OF assms(6,2)])
qed


section \<open>Progress\<close>

lemma credentialCount_Cons:
  "credentialMigrationCredentialCount (d # ds) = (if mc_password d \<noteq> '''' then 1 else 0) +
     (if mc_schemaRegistryPassword d \<noteq> '''' then 1 else 0) + credentialMigrationCredentialCount ds"
proof -
  have step: "countCredentials d n = n + countCredentials d 0" for d n
    by (simp add: countCredentials_def)
  have "fold countCredentials ds n = n + fold countCredentials ds 0" for n
  proof (induction ds arbitrary: n)
    case (Cons d ds)
    show ?case using Cons [of "countCredentials d n"] Cons [of "countCredentials d 0"] step [of d n] by simp
  qed simp
  from this [of "countCredentials d 0"] show ?thesis
    by (simp add: credentialMigrationCredentialCount_def countCredentials_def)
qed

lemma credentialCount_nonneg: "0 \<le> credentialMigrationCredentialCount ds"
  by (induction ds) (simp_all add: credentialCount_Cons, simp add: credentialMigrationCredentialCount_def)

text \<open>The writes counted so far; an error counts one write as failed.\<close>

lemma migrateWhen_progress:
  assumes "migrateWhen present msg put st c = ((st', err), c')"
  shows "mp_uncertain (snd st') = mp_uncertain (snd st)"
    "mp_succeeded (snd st') = mp_succeeded (snd st) + (if present \<and> err = None then 1 else 0)"
    "mp_failed (snd st') = mp_failed (snd st) + (if err = None then 0 else 1)" "err \<noteq> None \<Longrightarrow> present"
  using assms by (auto simp: migrateWhen_def callE_run split: if_splits prod.splits option.splits)

lemma storeMigrations_progress:
  assumes "storeMigrations C ds st c = ((st', err), c')"
  shows "mp_uncertain (snd st') = mp_uncertain (snd st) \<and>
    mp_failed (snd st') = mp_failed (snd st) + (if err = None then 0 else 1) \<and>
    mp_succeeded (snd st) \<le> mp_succeeded (snd st') \<and>
    mp_succeeded (snd st') + (if err = None then 0 else 1) \<le> mp_succeeded (snd st) + credentialMigrationCredentialCount ds \<and>
    (err = None \<longrightarrow> mp_succeeded (snd st') = mp_succeeded (snd st) + credentialMigrationCredentialCount ds)"
  using assms
proof (induction ds arbitrary: st c)
  case Nil
  then show ?case by (auto simp: credentialMigrationCredentialCount_def)
next
  case (Cons d ds)
  let ?put1 = "migrateWhen (mc_password d \<noteq> '''') (storeFailed ''credential'' (mc_name d))
    (credentialMigrationTransaction_put C (mc_name d) (primaryOwner (mc_name d)) (mc_password d))"
  let ?put2 = "migrateWhen (mc_schemaRegistryPassword d \<noteq> '''') (storeFailed ''schema registry credential'' (mc_name d))
    (credentialMigrationTransaction_put C (mc_name d @ ''/schema-registry'') (schemaRegistryOwner (mc_name d))
      (mc_schemaRegistryPassword d))"
  obtain s1 e1 c1 where put1: "?put1 st c = ((s1, e1), c1)" by (metis prod.collapse)
  obtain s2 e2 c2 where put2: "?put2 s1 c1 = ((s2, e2), c2)" by (metis prod.collapse)
  note one = migrateWhen_progress [OF put1] and two = migrateWhen_progress [OF put2]
  note count = credentialCount_Cons [of d ds] credentialCount_nonneg [of ds]
  show ?case
  proof (cases e1)
    case (Some e)
    then have "st' = s1" "err = Some e" using Cons.prems put1 by (auto simp: thenCall_def callE_run)
    then show ?thesis using one count Some by simp
  next
    case none1: None
    show ?thesis
    proof (cases e2)
      case (Some e)
      then have "st' = s2" "err = Some e" using Cons.prems put1 put2 none1 by (auto simp: thenCall_def callE_run)
      then show ?thesis using one two count Some none1 by simp
    next
      case None
      then have "storeMigrations C ds s2 c2 = ((st', err), c')"
        using Cons.prems put1 put2 none1 by (simp add: thenCall_def callE_run)
      from Cons.IH [OF this] show ?thesis using one two count None none1 by (auto split: if_splits)
    qed
  qed
qed

definition progress_total :: "credentialMigrationProgress \<Rightarrow> int" where
  "progress_total p = mp_succeeded p + mp_failed p + mp_uncertain p"

lemma compensated_progress [simp]:
  "progress_total (afterSuccessfulCompensation p) = progress_total p"
  "progress_total (afterIncompleteCompensation p) = progress_total p"
  by (simp_all add: progress_total_def afterSuccessfulCompensation_def afterIncompleteCompensation_def)

end
