(* ===== verification/Context_Laws.thy ===== *)
theory Context_Laws
  imports Command_Laws Context_Migrate Credential_Migration_Laws
begin

text \<open>
  What the commands of contexts do to the context store: it is saved at most once, after authorization under
  the policy that the locked contexts have, and after a durable intent.

  The store is seen through \<open>saves\<close>, the configurations that this program has saved so far. Of the core library
  it is assumed (\<open>store_contract\<close>) that only a commit saves, the given configuration and once, and that a
  commit without an error has saved it.
\<close>

section \<open>Commands\<close>

datatype context_command =
    Ctx_Set string ctxSetOptions | Ctx_Use string | Ctx_List | Ctx_Current | Ctx_Delete string
  | Ctx_Import ctxImportOptions | Ctx_Role_Set string roleOptions | Ctx_Role_Unset string roleOptions
  | Ctx_Role_List string | Ctx_Migrate migrateCredentialsOptions

fun run_context ::
  "('l, 'b, 's, 'c) ctl_env \<Rightarrow> cliFlags \<Rightarrow> context_command \<Rightarrow> (('l, 'b, 's, 'c) ctl, unit) op" where
  "run_context K f (Ctx_Set name opts) = ctxSetCmd K f name opts"
| "run_context K f (Ctx_Use name) = ctxUseCmd K f name"
| "run_context K f Ctx_List = ctxListCmd K f"
| "run_context K f Ctx_Current = ctxCurrentCmd K f"
| "run_context K f (Ctx_Delete name) = ctxDeleteCmd K f name"
| "run_context K f (Ctx_Import opts) = runCtxImport K f opts"
| "run_context K f (Ctx_Role_Set name opts) = runCtxRoleSet K f name opts"
| "run_context K f (Ctx_Role_Unset name opts) = runCtxRoleUnset K f name opts"
| "run_context K f (Ctx_Role_List name) = runCtxRoleList K f name"
| "run_context K f (Ctx_Migrate opts) = runCtxMigrateCredentials K f opts"

text \<open>The allow flag that a command requires, and the actions of its intents.\<close>

fun control_flag :: "context_command \<Rightarrow> string" where
  "control_flag (Ctx_Delete _) = allowContextDelete"
| "control_flag (Ctx_Role_Set _ _) = allowRoleChange"
| "control_flag (Ctx_Role_Unset _ _) = allowRoleChange"
| "control_flag _ = allowContextChange"

fun control_actions :: "context_command \<Rightarrow> string list" where
  "control_actions (Ctx_Set _ _) = [''mq.ctx.set'']"
| "control_actions (Ctx_Use _) = [''mq.ctx.use'']"
| "control_actions (Ctx_Delete _) = [''mq.ctx.delete'']"
| "control_actions (Ctx_Import _) = [''mq.ctx.import'', ''mq.ctx.import-batch'']"
| "control_actions (Ctx_Role_Set _ _) = [''mq.ctx.role.set'']"
| "control_actions (Ctx_Role_Unset _ _) = [''mq.ctx.role.unset'']"
| "control_actions (Ctx_Migrate _) = [''mq.ctx.credentials.migrate'']"
| "control_actions _ = []"

fun control_policy :: "context_command \<Rightarrow> Config \<Rightarrow> string \<Rightarrow> go_error + contextControlPolicy" where
  "control_policy (Ctx_Use _) = contextUsePreChangePolicy"
| "control_policy _ = contextPreChangePolicy"

section \<open>Saving\<close>

definition store_contract :: "'s context_store \<Rightarrow> ('s \<Rightarrow> Config list) \<Rightarrow> bool" where
  "store_contract S saves =
    ((\<forall>s. saves (snd (st_Load S s)) = saves s) \<and> (\<forall>s. saves (snd (st_begin S s)) = saves s) \<and>
     (\<forall>s. saves (st_abandon S s) = saves s) \<and> (\<forall>s. saves (snd (st_lock S s)) = saves s) \<and>
     (\<forall>s. saves (snd (st_unlock S s)) = saves s) \<and>
     (\<forall>cfg s r s'. st_commit S cfg s = (r, s') \<longrightarrow>
        saves s' = saves s @ [cfg] \<or> saves s' = saves s \<and> r \<noteq> Inr ()))"

definition calm ::
  "('l \<Rightarrow> safeAuditRecord list) \<Rightarrow> ('s \<Rightarrow> Config list) \<Rightarrow> ('l, 'b, 's, 'c) ctl \<Rightarrow> ('l, 'b, 's, 'c) ctl \<Rightarrow> bool" where
  "calm obs saves w w' = (onward obs (ct_world w) (ct_world w') \<and> saves (ct_store w') = saves (ct_store w))"

interpretation still: op_relation "calm obs saves :: ('l, 'b, 's, 'c) ctl \<Rightarrow> _"
  for obs :: "'l \<Rightarrow> safeAuditRecord list" and saves :: "'s \<Rightarrow> Config list"
  by unfold_locales (auto simp: calm_def onward_refl intro: onward_trans)

text \<open>An intent of one of the actions was written on the way.\<close>

definition intent_between ::
  "('l \<Rightarrow> safeAuditRecord list) \<Rightarrow> ('l, 'b, 's, 'c) ctl_env \<Rightarrow> cliFlags \<Rightarrow> string list \<Rightarrow>
   ('l, 'b, 's, 'c) ctl \<Rightarrow> ('l, 'b, 's, 'c) ctl \<Rightarrow> bool" where
  "intent_between obs K f acts w w' = (\<exists>older newer h now. sp_Action (mh_spec h) \<in> set acts \<and>
     obs (au_log (wo_aud (ct_world w'))) = obs (au_log (wo_aud (ct_world w))) @ older @
       [marshalled_record (handle_record (ae_su (kc_audit K)) f now h mutationAuditPhaseIntent None)] @ newer)"

lemma intent_calm:
  "intent_between obs K f acts u v \<Longrightarrow> onward obs (ct_world v) (ct_world w) \<Longrightarrow> intent_between obs K f acts u w"
  "onward obs (ct_world u) (ct_world v) \<Longrightarrow> intent_between obs K f acts v w \<Longrightarrow> intent_between obs K f acts u w"
proof -
  assume i: "intent_between obs K f acts u v" and "onward obs (ct_world v) (ct_world w)"
  then obtain zs where "obs (au_log (wo_aud (ct_world w))) = obs (au_log (wo_aud (ct_world v))) @ zs"
    by (auto simp: onward_def prefix_def)
  then show "intent_between obs K f acts u w" using i unfolding intent_between_def by (metis append.assoc)
next
  assume "onward obs (ct_world u) (ct_world v)" and i: "intent_between obs K f acts v w"
  then obtain zs where "obs (au_log (wo_aud (ct_world v))) = obs (au_log (wo_aud (ct_world u))) @ zs"
    by (auto simp: onward_def prefix_def)
  then show "intent_between obs K f acts u w" using i unfolding intent_between_def by (metis append.assoc)
qed

text \<open>
  At most one configuration was saved: one made from the configuration that \<open>Update\<close> loaded under the lock,
  after an intent, with \<open>P\<close> of the two and of the authorizations asked in between.
\<close>

definition saved ::
  "('l \<Rightarrow> safeAuditRecord list) \<Rightarrow> ('s \<Rightarrow> Config list) \<Rightarrow> ('l, 'b, 's, 'c) ctl_env \<Rightarrow> cliFlags \<Rightarrow> string list \<Rightarrow>
   (Config \<Rightarrow> Config \<Rightarrow> nat \<Rightarrow> nat \<Rightarrow> bool) \<Rightarrow> ('l, 'b, 's, 'c) ctl \<Rightarrow> ('l, 'b, 's, 'c) ctl \<Rightarrow> bool" where
  "saved obs saves K f acts P w w' = (onward obs (ct_world w) (ct_world w') \<and>
     (saves (ct_store w') = saves (ct_store w) \<or>
      (\<exists>s s' locked cfg lo hi. saves s = saves (ct_store w) \<and> st_begin (kc_store K) s = (Inr locked, s') \<and>
         saves (ct_store w') = saves (ct_store w) @ [cfg] \<and> validatePersistedRoles cfg = None \<and>
         intent_between obs K f acts w w' \<and> wo_asks (ct_world w) \<le> lo \<and> hi \<le> wo_asks (ct_world w') \<and>
         P locked cfg lo hi)))"

lemma saved_calm: "calm obs saves w w' \<Longrightarrow> saved obs saves K f acts P w w'"
  by (simp add: saved_def calm_def)

lemma onward_asks: "onward obs u v \<Longrightarrow> wo_asks u \<le> wo_asks v"
  by (simp add: onward_def)

lemma saved_before:
  assumes "calm obs saves u v" and "saved obs saves K f acts P v w"
  shows "saved obs saves K f acts P u w"
proof -
  have a: "onward obs (ct_world u) (ct_world v)" "saves (ct_store v) = saves (ct_store u)"
    using assms(1) by (auto simp: calm_def)
  have "\<And>lo. wo_asks (ct_world v) \<le> lo \<Longrightarrow> wo_asks (ct_world u) \<le> lo"
    using onward_asks [OF a(1)] by linarith
  with assms(2) a show ?thesis
    unfolding saved_def by (elim conjE disjE exE) (metis onward_trans, metis onward_trans intent_calm(2))
qed

lemma saved_after:
  assumes "saved obs saves K f acts P u v" and "calm obs saves v w"
  shows "saved obs saves K f acts P u w"
proof -
  have a: "onward obs (ct_world v) (ct_world w)" "saves (ct_store w) = saves (ct_store v)"
    using assms(2) by (auto simp: calm_def)
  have "\<And>hi. hi \<le> wo_asks (ct_world v) \<Longrightarrow> hi \<le> wo_asks (ct_world w)"
    using onward_asks [OF a(1)] by linarith
  with assms(1) a show ?thesis
    unfolding saved_def by (elim conjE disjE exE) (metis onward_trans, metis onward_trans intent_calm(1))
qed

lemma saved_mono:
  "saved obs saves K f acts P u v \<Longrightarrow> (\<And>l c lo hi. P l c lo hi \<Longrightarrow> Q l c lo hi) \<Longrightarrow> saved obs saves K f acts Q u v"
  unfolding saved_def by blast

lemma saved_seq:
  assumes "still.keeps obs saves m"
    and "\<And>x w1. m w = (Inr x, w1) \<Longrightarrow> saved obs saves K f acts P w1 (snd (g x w1))"
  shows "saved obs saves K f acts P w (snd (seqE m g w))"
  using assms
  by (cases "m w", cases "fst (m w)")
     (auto simp: seqE_run dest!: still.keepsD intro: saved_calm saved_before split: sum.split)

lemma saved_then:
  assumes "saved obs saves K f acts P w (snd (m w))" and "\<And>x. still.keeps obs saves (g x)"
  shows "saved obs saves K f acts P w (snd (seqE m g w))"
proof -
  obtain r w1 where m: "m w = (r, w1)" by fastforce
  show ?thesis
  proof (cases r)
    case (Inl e)
    then show ?thesis using assms(1) m by (simp add: seqE_run)
  next
    case (Inr x)
    have "calm obs saves w1 (snd (g x w1))" using assms(2) by (simp add: still.keeps_def)
    then show ?thesis using assms(1) m Inr saved_after by (fastforce simp: seqE_run)
  qed
qed


section \<open>Steps that do not save\<close>

lemma calm_world:
  assumes "\<And>v. onward obs v (snd (m v))"
  shows "still.keeps obs saves (inWorld m)"
  using assms by (simp add: still.keeps_def inWorld_def zoom_run calm_def split: prod.split) (metis snd_conv)

interpretation ahead: op_relation "onward obs :: ('l, 'b) world \<Rightarrow> _" for obs :: "'l \<Rightarrow> safeAuditRecord list"
  by unfold_locales (auto simp: onward_refl intro: onward_trans)

lemma ahead_audit: "kept.keeps obs m \<Longrightarrow> ahead.keeps obs (audit m)"
  unfolding ahead.keeps_def audit_def zoom_run onward_def kept.keeps_def nothing_lost_def
  by (auto split: prod.split) (metis snd_conv)

lemma calm_ahead: "ahead.keeps obs m \<Longrightarrow> still.keeps obs saves (inWorld m)"
  by (rule calm_world) (simp add: ahead.keeps_def)

lemmas calm_audit = calm_ahead [OF ahead_audit]

lemma calm_printed: "still.keeps obs saves (inWorld (printed E x))"
  by (rule calm_world) (auto simp: printed_def onward_same)

lemma calm_creds: "still.keeps obs saves (inCreds m)"
  by (simp add: still.keeps_def inCreds_def zoom_run calm_def onward_refl split: prod.split)

lemma calm_store:
  assumes "\<And>s. saves (snd (m s)) = saves s"
  shows "still.keeps obs saves (inStore m)"
  using assms by (simp add: still.keeps_def inStore_def zoom_run calm_def onward_refl split: prod.split) (metis snd_conv)

lemma calm_authorize:
  assumes "append_contract (ce_audit E) obs"
  shows "still.keeps obs saves (inWorld (authorizeContextControl E f name preChange allow))"
proof (rule calm_ahead)
  have denied: "ahead.keeps obs (tryE (audit (appendAuditWarn (ce_audit E) f ty ctx t st d err)) (\<lambda>_. throw e))"
    for ty ctx t st d err e
    unfolding appendAuditWarn_def by (intro ahead.keeps_rules ahead_audit kept_warn assms)
  have asked: "ahead.keeps obs (seqE (getS wo_asks) (\<lambda>n. seqE (modS (\<lambda>w. w\<lparr>wo_asks := Suc n\<rparr>)) (\<lambda>_. g n)))"
    if "\<And>n. ahead.keeps obs (g n)" for g :: "nat \<Rightarrow> ('a, 'b, unit) cmd"
    unfolding ahead.keeps_def
  proof
    fix w :: "('a, 'b) world"
    have "onward obs w (w\<lparr>wo_asks := Suc (wo_asks w)\<rparr>)" by (simp add: onward_same)
    then show "onward obs w (snd (seqE (getS wo_asks) (\<lambda>n. seqE (modS (\<lambda>w. w\<lparr>wo_asks := Suc n\<rparr>)) (\<lambda>_. g n)) w))"
      using that onward_trans unfolding ahead.keeps_def by (fastforce simp: seqE_run)
  qed
  show "ahead.keeps obs (authorizeContextControl E f name preChange allow)"
    unfolding authorizeContextControl_def
    by (auto intro!: asked denied ahead.keeps_rules split: sum.split option.split)
qed


lemma calm_warn:
  assumes "append_contract (kc_audit K) obs"
  shows "still.keeps obs saves (appendContextAuditWarn K f ty item diff)"
    and "still.keeps obs saves (appendRecordWarn K f mk)"
proof -
  show "still.keeps obs saves (appendContextAuditWarn K f ty item diff)"
    unfolding appendContextAuditWarn_def appendAuditWarn_def by (intro calm_audit kept_warn assms)
  have "kept.keeps obs (appendQueuedAuditRecord (kc_audit K) f r)" for r
    unfolding appendQueuedAuditRecord_def withMutationAuditQueue_def by (intro kept_rules kept_queue kept_replay kept_append assms)
  then show "still.keeps obs saves (appendRecordWarn K f mk)"
    unfolding appendRecordWarn_def
    by (auto intro!: calm_audit kept.keeps_rules still.keeps_rules quiet_kept [OF quiet_clocks(1)] split: sum.split)
qed

lemma calm_printed_data: "still.keeps obs saves (printJSONData K f kind entries)"
  unfolding printJSONData_def by (rule calm_printed)

lemma calm_load:
  assumes "store_contract (kc_store K) saves"
  shows "still.keeps obs saves (loadContexts K)"
  using assms unfolding loadContexts_def store_contract_def
  by (intro still.keeps_rules calm_store) blast

lemma calm_conclude:
  assumes "append_contract (kc_audit K) obs"
  shows "still.keeps obs saves (concludeControl K f oc err handle)"
  unfolding concludeControl_def check_def
  by (intro still.keeps_rules calm_audit kept_finish assms)

lemma calm_release:
  assumes "store_contract (kc_store K) saves"
  shows "still.keeps obs saves (releaseContextLock K n)"
proof (induction n)
  case (Suc n)
  have "\<And>s. saves (snd (st_unlock (kc_store K) s)) = saves s" using assms by (simp add: store_contract_def)
  then show ?case by (auto intro!: still.keeps_rules calm_store Suc split: sum.split)
qed (simp add: still.keeps_def still.R_refl)


lemma calm_lock:
  assumes "store_contract (kc_store K) saves" and "\<And>cfg. still.keeps obs saves (action cfg)"
  shows "still.keeps obs saves (withContextStoreLock K x action)"
proof -
  have lock: "\<And>s. saves (snd (st_lock (kc_store K) s)) = saves s" using assms(1) by (simp add: store_contract_def)
  have form: "withContextStoreLock K x action = (case kc_configDir K of
      Inl _ \<Rightarrow> (\<lambda>w. ((Some (local_io ''failed to resolve context config directory''), x), w))
    | Inr _ \<Rightarrow> callE (inStore (st_lock (kc_store K))) (\<lambda>l. case l of
          Inl e \<Rightarrow> (\<lambda>w. ((Some e, x), w))
        | Inr _ \<Rightarrow> callE (callE (loadContexts K) (\<lambda>r. case r of
              Inl e \<Rightarrow> (\<lambda>w. ((Some e, x), w)) | Inr cfg \<Rightarrow> action cfg)) (\<lambda>(err, x1).
            callE (releaseContextLock K 20) (\<lambda>r. case r of
              Inl _ \<Rightarrow> (\<lambda>w. ((if err = None then Some (local_io ''failed to release context policy lock'') else err, x1), w))
            | Inr _ \<Rightarrow> (\<lambda>w. ((err, x1), w))))))"
    by (rule ext) (auto simp: withContextStoreLock_def callE_run split: prod.split sum.split)
  have same: "still.keeps obs saves (\<lambda>w. (y, w))" for y :: 'y by (simp add: still.keeps_def still.R_refl)
  show ?thesis unfolding form
    by (intro still.keeps_rules same calm_store lock calm_load [OF assms(1)] calm_release [OF assms(1)] assms(2))
qed

section \<open>The change under the lock\<close>

text \<open>A function for \<open>Update\<close>: it saves nothing itself, and it returns a configuration only after an intent.\<close>

definition lawful ::
  "('l \<Rightarrow> safeAuditRecord list) \<Rightarrow> ('s \<Rightarrow> Config list) \<Rightarrow> ('l, 'b, 's, 'c) ctl_env \<Rightarrow> cliFlags \<Rightarrow> string list \<Rightarrow>
   (Config \<Rightarrow> Config \<Rightarrow> bool) \<Rightarrow>
   (Config \<Rightarrow> ('l, 'b, 's, 'c) ctl \<Rightarrow> ((go_error + Config) \<times> 'x) \<times> ('l, 'b, 's, 'c) ctl) \<Rightarrow> bool" where
  "lawful obs saves K f acts R fn = (\<forall>locked w r x w'. fn locked w = ((r, x), w') \<longrightarrow> calm obs saves w w' \<and>
     (\<forall>cfg. r = Inr cfg \<longrightarrow> R locked cfg \<and> intent_between obs K f acts w w'))"

lemma Update_saved:
  assumes c: "store_contract (kc_store K) saves" and fn: "lawful obs saves K f acts R fn"
  shows "saved obs saves K f acts (\<lambda>locked cfg _ _. R locked cfg) w (snd (Update K x fn w))"
proof -
  let ?s = "ct_store w"
  obtain r s1 where b: "st_begin (kc_store K) ?s = (r, s1)" by fastforce
  then have s1: "saves s1 = saves ?s" using c unfolding store_contract_def by (metis snd_conv)
  let ?w1 = "w\<lparr>ct_store := s1\<rparr>"
  have w1: "inStore (st_begin (kc_store K)) w = (r, ?w1)" by (simp add: inStore_def zoom_run b)
  have a: "saves (st_abandon (kc_store K) s) = saves s" for s using c by (simp add: store_contract_def)
  have calm1: "calm obs saves w ?w1" by (simp add: calm_def onward_refl s1)
  have abandoned: "calm obs saves w u \<Longrightarrow> calm obs saves w (abandon K u)" for u
    by (simp add: calm_def abandon_def a)
  show ?thesis
  proof (cases r)
    case (Inl e)
    then show ?thesis using calm1 by (simp add: Update_def w1 saved_calm)
  next
    case (Inr locked)
    show ?thesis
    proof (cases "validatePersistedRoles locked")
      case (Some e)
      then show ?thesis using abandoned [OF calm1] Inr by (simp add: Update_def w1 saved_calm)
    next
      case None
      obtain q y w2 where f: "fn locked ?w1 = ((q, y), w2)" by (metis surj_pair)
      then have f1: "calm obs saves ?w1 w2" "\<And>cfg. q = Inr cfg \<Longrightarrow> R locked cfg \<and> intent_between obs K f acts ?w1 w2"
        using fn unfolding lawful_def by blast+
      then have calm2: "calm obs saves w w2" using calm1 still.R_trans by blast
      show ?thesis
      proof (cases q)
        case (Inl e)
        then show ?thesis using abandoned [OF calm2] Inr None by (simp add: Update_def w1 f saved_calm)
      next
        case q: (Inr cfg)
        show ?thesis
        proof (cases "validatePersistedRoles cfg")
          case (Some e)
          then show ?thesis using abandoned [OF calm2] Inr None q by (simp add: Update_def w1 f saved_calm)
        next
          case v: None
          obtain z s3 where m: "st_commit (kc_store K) cfg (ct_store w2) = (z, s3)" by fastforce
          then have s3: "saves s3 = saves (ct_store w2) @ [cfg] \<or> saves s3 = saves (ct_store w2)"
            using c unfolding store_contract_def by blast
          have u: "snd (Update K x fn w) = w2\<lparr>ct_store := s3\<rparr>"
            using m by (simp add: Update_def w1 f Inr None q v inStore_def [of "st_commit (kc_store K) cfg"] zoom_run)
          have i: "intent_between obs K f acts w w2"
            using f1(2) [OF q] calm1 intent_calm(2) unfolding calm_def by blast
          then have i3: "intent_between obs K f acts w (w2\<lparr>ct_store := s3\<rparr>)" by (simp add: intent_between_def)
          have o: "onward obs (ct_world w) (ct_world w2)" "saves (ct_store w2) = saves ?s"
            using calm2 by (auto simp: calm_def)
          show ?thesis
            unfolding u saved_def using s3 o i3 v f1(2) [OF q] b Inr onward_asks [OF o(1)] by (auto, blast)
        qed
      qed
    qed
  qed
qed

lemma saved_callE:
  assumes "saved obs saves K f acts P w (snd (m w))" and "\<And>x. still.keeps obs saves (g x)"
  shows "saved obs saves K f acts P w (snd (callE m g w))"
proof -
  obtain r w1 where m: "m w = (r, w1)" by fastforce
  have "calm obs saves w1 (snd (g r w1))" using assms(2) by (simp add: still.keeps_def)
  then show ?thesis using assms(1) m saved_after by (fastforce simp: callE_run)
qed

lemma begin_intent:
  assumes "append_contract (kc_audit K) obs" and "sp_Action spec \<in> set acts"
    and "inWorld (audit (beginMutationAudit (kc_audit K) f spec)) w = (Inr h, w')"
  shows "intent_between obs K f acts w w'"
proof -
  from assms(3) obtain a where b: "beginMutationAudit (kc_audit K) f spec (wo_aud (ct_world w)) = (Inr h, a)"
    and w': "w' = w\<lparr>ct_world := (ct_world w)\<lparr>wo_aud := a\<rparr>\<rparr>"
    by (auto simp: inWorld_def audit_def zoom_run split: prod.splits)
  show ?thesis
    using begin_durable [OF assms(1) b] assms(2) unfolding intent_between_def w' by fastforce
qed


lemma lawful_audited:
  assumes "append_contract (kc_audit K) obs" and "sp_Action spec \<in> set acts"
  shows "lawful obs saves K f acts (\<lambda>locked cfg. recheck locked = None \<and> cfg = change locked)
    (auditedChange K f recheck spec change)"
  unfolding lawful_def
proof (intro allI impI)
  fix locked w r x w'
  assume run: "auditedChange K f recheck spec change locked w = ((r, x), w')"
  obtain b w1 where b: "inWorld (audit (beginMutationAudit (kc_audit K) f spec)) w = (b, w1)" by fastforce
  have "calm obs saves w w1"
    using still.keepsD [OF calm_audit [OF kept_begin [OF assms(1)]] b] .
  then show "calm obs saves w w' \<and> (\<forall>cfg. r = Inr cfg \<longrightarrow>
      (recheck locked = None \<and> cfg = change locked) \<and> intent_between obs K f acts w w')"
    using run b begin_intent [OF assms] by (auto simp: auditedChange_def still.R_refl split: option.splits sum.splits)
qed

lemma lawful_import:
  assumes "append_contract (kc_audit K) obs" and "sp_Action spec \<in> set acts"
  shows "lawful obs saves K f acts (\<lambda>locked cfg. recheck locked = None \<and>
      cfg = locked\<lparr>cf_Contexts := overlay (cf_Contexts locked) expected\<rparr>)
    (importChange K f recheck expected spec candidates compensationError)"
  unfolding lawful_def
proof (intro allI impI)
  fix locked w r x w'
  assume run: "importChange K f recheck expected spec candidates compensationError locked w = ((r, x), w')"
  obtain b w1 where b: "inWorld (audit (beginMutationAudit (kc_audit K) f spec)) w = (b, w1)" by fastforce
  have w1: "calm obs saves w w1"
    using still.keepsD [OF calm_audit [OF kept_begin [OF assms(1)]] b] .
  obtain t e w2 where s: "inCreds (storeContextImportCredentials (kc_cred K) candidates) w1 = ((t, e), w2)"
    by (metis surj_pair)
  have w2: "calm obs saves w1 w2" using still.keepsD [OF calm_creds s] .
  obtain st ce w3 where c: "inCreds (compensateContextImportCredentialsLocked (kc_cred K) locked (Some t)) w2 = ((st, ce), w3)"
    by (metis surj_pair)
  have w3: "calm obs saves w2 w3" using still.keepsD [OF calm_creds c] .
  have calms: "calm obs saves w w" "calm obs saves w w2" "calm obs saves w w3"
    using w1 w2 w3 still.R_trans still.R_refl by blast+
  have intent: "b = Inr h \<Longrightarrow> intent_between obs K f acts w w2" for h
    using begin_intent [OF assms] b w2 intent_calm(1) unfolding calm_def by blast
  show "calm obs saves w w' \<and> (\<forall>cfg. r = Inr cfg \<longrightarrow>
      (recheck locked = None \<and> cfg = locked\<lparr>cf_Contexts := overlay (cf_Contexts locked) expected\<rparr>) \<and>
      intent_between obs K f acts w w')"
    using run b s c w1 calms intent
    by (auto simp: importChange_def Let_def split: option.splits sum.splits)
qed

lemma lawful_migration:
  assumes "append_contract (kc_audit K) obs" and "sp_Action spec \<in> set acts"
  shows "lawful obs saves K f acts (\<lambda>locked cfg. recheckMigration preChanges candidates locked = None \<and>
      cfg = locked\<lparr>cf_Contexts := overlay (cf_Contexts locked) (migratedContexts (kc_cred K) toBackend candidates)\<rparr>)
    (migrationChange K f preChanges spec backend candidates toBackend)"
  unfolding lawful_def
proof (intro allI impI)
  fix locked w r x w'
  assume run: "migrationChange K f preChanges spec backend candidates toBackend locked w = ((r, x), w')"
  obtain b w1 where b: "inWorld (audit (beginMutationAudit (kc_audit K) f spec)) w = (b, w1)" by fastforce
  have w1: "calm obs saves w w1"
    using still.keepsD [OF calm_audit [OF kept_begin [OF assms(1)]] b] .
  obtain t p e w2 where s: "inCreds (storeCredentialMigrationCandidates (kc_cred K) backend candidates) w1 = (((t, p), e), w2)"
    by (metis surj_pair)
  have w2: "calm obs saves w1 w2" using still.keepsD [OF calm_creds s] .
  obtain st ce w3 where c: "inCreds (compensateCredentialMigrationLocked (kc_cred K) locked (Some t)) w2 = ((st, ce), w3)"
    by (metis surj_pair)
  have w3: "calm obs saves w2 w3" using still.keepsD [OF calm_creds c] .
  have calms: "calm obs saves w w" "calm obs saves w w2" "calm obs saves w w3"
    using w1 w2 w3 still.R_trans still.R_refl by blast+
  have intent: "b = Inr h \<Longrightarrow> intent_between obs K f acts w w2" for h
    using begin_intent [OF assms] b w2 intent_calm(1) unfolding calm_def by blast
  show "calm obs saves w w' \<and> (\<forall>cfg. r = Inr cfg \<longrightarrow> (recheckMigration preChanges candidates locked = None \<and>
      cfg = locked\<lparr>cf_Contexts := overlay (cf_Contexts locked) (migratedContexts (kc_cred K) toBackend candidates)\<rparr>) \<and>
      intent_between obs K f acts w w')"
    using run b s c w1 calms intent
    by (auto simp: migrationChange_def Let_def split: option.splits sum.splits)
qed

section \<open>After the change\<close>

lemma calm_reconcile:
  assumes "store_contract (kc_store K) saves"
  shows "still.keeps obs saves (reconcileContextImportFailure K t original expected)"
    and "still.keeps obs saves (reconcileCredentialMigrationFailure K t' progress candidates toBackend)"
proof -
  note rules = still.keepsI still.R_refl still.keepsD [OF calm_creds]
  have "still.keeps obs saves (reconcileImport K t original expected locked)" for locked
    by (rule still.keepsI) (auto simp: reconcileImport_def Let_def intro: rules split: prod.splits if_splits)
  from still.keepsD [OF calm_lock [OF assms this]]
  show "still.keeps obs saves (reconcileContextImportFailure K t original expected)"
    by (intro still.keepsI) (auto simp: reconcileContextImportFailure_def Let_def split: prod.splits option.splits if_splits)
  have "still.keeps obs saves (reconcileMigration K t' progress candidates toBackend locked)" for locked
    by (rule still.keepsI) (auto simp: reconcileMigration_def Let_def intro: rules split: prod.splits if_splits)
  from still.keepsD [OF calm_lock [OF assms this]]
  show "still.keeps obs saves (reconcileCredentialMigrationFailure K t' progress candidates toBackend)"
    by (intro still.keepsI) (auto simp: reconcileCredentialMigrationFailure_def split: prod.splits option.splits if_splits)
qed

lemma calm_settle:
  assumes "store_contract (kc_store K) saves"
  shows "still.keeps obs saves (settleImport K expected ce err v)"
    and "still.keeps obs saves (settleMigration K candidates toBackend n err v')"
proof -
  note c = calm_reconcile [OF assms, unfolded still.keeps_def, rule_format] and refl = still.R_refl
  show "still.keeps obs saves (settleImport K expected ce err v)"
    unfolding still.keeps_def settleImport_def
    using c(1) [of obs _ "iv_transaction v" "iv_original v" expected]
    by (auto simp: refl split: option.split prod.split) (metis snd_conv)+
  show "still.keeps obs saves (settleMigration K candidates toBackend n err v')"
    unfolding still.keeps_def settleMigration_def
    using c(2) [of obs _ "gv_transaction v'" "gv_progress v'" candidates toBackend]
    by (auto simp: refl split: option.split prod.split) (metis snd_conv)+
qed


section \<open>Authorized changes\<close>

definition control_approved ::
  "('l, 'b) cmd_env \<Rightarrow> cliFlags \<Rightarrow> string \<Rightarrow> contextControlPolicy \<Rightarrow> string \<Rightarrow> nat \<Rightarrow> bool" where
  "control_approved E f name preChange allow n = (\<exists>operator. trustedOperatorIdentity (ce_su E) f = Inr operator \<and>
     ce_authorize E n R3 (controlOptions f name preChange allow operator) = None)"

text \<open>The command was granted a change of the context \<open>name\<close>, under the policy that it has when it is changed.\<close>

definition authorized_name ::
  "('l, 'b, 's, 'c) ctl_env \<Rightarrow> cliFlags \<Rightarrow> context_command \<Rightarrow> Config \<Rightarrow> string \<Rightarrow> nat \<Rightarrow> nat \<Rightarrow> bool" where
  "authorized_name K f c locked name lo hi = (\<exists>n policy current. lo \<le> n \<and> n < hi \<and>
     control_approved (kc_cmd K) f name policy (control_flag c) n \<and>
     control_policy c locked name = Inr current \<and> sameContextControlPolicy current policy)"

definition authorized_change ::
  "('l, 'b, 's, 'c) ctl_env \<Rightarrow> cliFlags \<Rightarrow> context_command \<Rightarrow> Config \<Rightarrow> Config \<Rightarrow> nat \<Rightarrow> nat \<Rightarrow> bool" where
  "authorized_change K f c locked cfg lo hi = (\<not> contextPlanOnly f \<and>
     (\<forall>name. map_of (cf_Contexts cfg) name \<noteq> map_of (cf_Contexts locked) name \<longrightarrow>
        authorized_name K f c locked name lo hi) \<and>
     (cf_CurrentContext cfg \<noteq> cf_CurrentContext locked \<longrightarrow>
        authorized_name K f c locked (cf_CurrentContext cfg) lo hi \<or>
        authorized_name K f c locked (cf_CurrentContext locked) lo hi))"

lemma control_granted:
  assumes "inWorld (authorizeContextControl E f name preChange allow) w = (Inr x, w')"
  shows "wo_asks (ct_world w') = Suc (wo_asks (ct_world w)) \<and>
    control_approved E f name preChange allow (wo_asks (ct_world w))"
  using assms unfolding authorizeContextControl_def control_approved_def
  by (auto simp: inWorld_def zoom_run seqE_run tryE_run split: sum.splits option.splits prod.splits)

lemma unchanged_policies:
  "ensureContextPolicyUnchanged locked name p = None \<longleftrightarrow>
     (\<exists>q. contextPreChangePolicy locked name = Inr q \<and> sameContextControlPolicy q p)"
  "ensureContextUsePolicyUnchanged locked name p = None \<longleftrightarrow>
     (\<exists>q. contextUsePreChangePolicy locked name = Inr q \<and> sameContextControlPolicy q p)"
  by (auto simp: ensureContextPolicyUnchanged_def ensureContextUsePolicyUnchanged_def unchangedPolicy_def
      split: sum.splits if_splits)

lemma saved_keeps: "still.keeps obs saves m \<Longrightarrow> saved obs saves K f acts P w (snd (m w))"
  by (rule saved_calm) (simp add: still.keeps_def)

text \<open>Rules for the bodies of the commands, which end in a change or keep the store.\<close>

lemma saved_bind:
  assumes "still.keeps obs saves m" and "\<And>x w1. saved obs saves K f acts P w1 (snd (g x w1))"
  shows "saved obs saves K f acts P w (snd (seqE m g w))"
  using assms by (rule saved_seq)

lemma saved_cases:
  "(b \<Longrightarrow> saved obs saves K f acts P w (snd (m w))) \<Longrightarrow> (\<not> b \<Longrightarrow> saved obs saves K f acts P w (snd (m' w))) \<Longrightarrow>
     saved obs saves K f acts P w (snd ((if b then m else m') w))"
  "(z = None \<Longrightarrow> saved obs saves K f acts P w (snd (m w))) \<Longrightarrow>
     (\<And>y. z = Some y \<Longrightarrow> saved obs saves K f acts P w (snd (g y w))) \<Longrightarrow>
     saved obs saves K f acts P w (snd ((case z of None \<Rightarrow> m | Some y \<Rightarrow> g y) w))"
  "(\<And>a b. y = (a, b) \<Longrightarrow> saved obs saves K f acts P w (snd (h a b w))) \<Longrightarrow>
     saved obs saves K f acts P w (snd ((case y of (a, b) \<Rightarrow> h a b) w))"
  by (auto split: option.split prod.split)

lemmas saved_steps = saved_bind [OF still.keeps_basic(4)] saved_bind [OF calm_creds] saved_cases

lemma saved_asking:
  assumes m: "still.keeps obs saves m"
    and G: "\<And>x w1. m w = (Inr x, w1) \<Longrightarrow> G x (wo_asks (ct_world w)) (wo_asks (ct_world w1))"
    and g: "\<And>x. saved obs saves K f acts (\<lambda>locked cfg _ _. R x locked cfg) (snd (m w)) (snd (g x (snd (m w))))"
    and P: "\<And>x locked cfg lo hi. G x lo hi \<Longrightarrow> R x locked cfg \<Longrightarrow> P locked cfg lo hi"
  shows "saved obs saves K f acts P w (snd (seqE m g w))"
proof -
  obtain r w1 where w1: "m w = (r, w1)" by fastforce
  have calm1: "calm obs saves w w1" using still.keepsD [OF m w1] .
  show ?thesis
  proof (cases r)
    case (Inl e)
    then show ?thesis using calm1 w1 by (simp add: seqE_run saved_calm)
  next
    case (Inr x)
    let ?v = "snd (g x w1)"
    have s: "saved obs saves K f acts (\<lambda>locked cfg _ _. R x locked cfg) w1 ?v" using g [of x] w1 by simp
    have "saved obs saves K f acts (\<lambda>locked cfg _ _. R x locked cfg) w ?v" using saved_before [OF calm1 s] .
    moreover have "wo_asks (ct_world w1) \<le> wo_asks (ct_world ?v)" using s onward_asks unfolding saved_def by blast
    moreover have "P locked cfg (wo_asks (ct_world w)) (wo_asks (ct_world w1))" if "R x locked cfg" for locked cfg
      using P G w1 Inr that by blast
    ultimately have "saved obs saves K f acts P w ?v" unfolding saved_def by blast
    then show ?thesis using w1 Inr by (simp add: seqE_run)
  qed
qed

section \<open>The commands\<close>

lemma saved_controlChange:
  assumes "store_contract (kc_store K) saves" and "append_contract (kc_audit K) obs" and "sp_Action spec \<in> set acts"
  shows "saved obs saves K f acts (\<lambda>locked cfg _ _. recheck locked = None \<and> cfg = change locked) w
    (snd (controlChange K f recheck spec change w))"
  unfolding controlChange_def
  by (rule saved_callE [OF Update_saved [OF assms(1) lawful_audited [OF assms(2,3)]]])
    (auto intro: calm_conclude [OF assms(2)])

lemma saved_importContexts:
  assumes "store_contract (kc_store K) saves" and "append_contract (kc_audit K) obs" and "sp_Action spec \<in> set acts"
  shows "saved obs saves K f acts (\<lambda>locked cfg _ _. recheck locked = None \<and>
      cfg = locked\<lparr>cf_Contexts := overlay (cf_Contexts locked) expected\<rparr>) w
    (snd (importContexts K f recheck expected spec candidates ce w))"
  unfolding importContexts_def
  by (rule saved_callE [OF Update_saved [OF assms(1) lawful_import [OF assms(2,3)]]])
    (auto intro!: still.keeps_callE calm_settle [OF assms(1)] calm_conclude [OF assms(2)])

lemma saved_migrateContexts:
  assumes "store_contract (kc_store K) saves" and "append_contract (kc_audit K) obs" and "sp_Action spec \<in> set acts"
  shows "saved obs saves K f acts (\<lambda>locked cfg _ _. recheckMigration preChanges candidates locked = None \<and>
      cfg = locked\<lparr>cf_Contexts := overlay (cf_Contexts locked) (migratedContexts (kc_cred K) toBackend candidates)\<rparr>) w
    (snd (migrateContexts K f preChanges spec backend candidates toBackend n w))"
  unfolding migrateContexts_def
  by (rule saved_callE [OF Update_saved [OF assms(1) lawful_migration [OF assms(2,3)]]])
    (auto intro!: still.keeps_callE calm_settle [OF assms(1)] calm_conclude [OF assms(2)])

lemma overlay_other: "name \<notin> fst ` set over \<Longrightarrow> map_of (overlay contexts over) name = map_of contexts name"
  unfolding overlay_def by (induction over arbitrary: contexts) auto

text \<open>One authorization, then the change of one context.\<close>

lemma saved_one:
  assumes ac: "append_contract (ce_audit (kc_cmd K)) obs" and plan: "\<not> contextPlanOnly f"
    and g: "\<And>x w. saved obs saves K f acts (\<lambda>locked cfg _ _. R locked cfg) w (snd (g x w))"
    and R: "\<And>locked cfg. R locked cfg \<Longrightarrow>
      (\<exists>q. control_policy c locked name = Inr q \<and> sameContextControlPolicy q preChange) \<and>
      (\<forall>k. k \<noteq> name \<longrightarrow> map_of (cf_Contexts cfg) k = map_of (cf_Contexts locked) k) \<and>
      (cf_CurrentContext cfg = cf_CurrentContext locked \<or> cf_CurrentContext cfg = name \<or>
       cf_CurrentContext locked = name)"
    and allow: "allow = control_flag c"
  shows "saved obs saves K f acts (authorized_change K f c) w
    (snd (seqE (inWorld (authorizeContextControl (kc_cmd K) f name preChange allow)) g w))"
proof (rule saved_asking [where G = "\<lambda>_ lo hi. hi = Suc lo \<and> control_approved (kc_cmd K) f name preChange allow lo"
      and R = "\<lambda>_. R"])
  show "still.keeps obs saves (inWorld (authorizeContextControl (kc_cmd K) f name preChange allow))"
    by (rule calm_authorize [OF ac])
  show "saved obs saves K f acts (\<lambda>locked cfg _ _. R locked cfg)
      (snd (inWorld (authorizeContextControl (kc_cmd K) f name preChange allow) w))
      (snd (g x (snd (inWorld (authorizeContextControl (kc_cmd K) f name preChange allow) w))))" for x
    by (rule g)
next
  fix x w1
  assume "inWorld (authorizeContextControl (kc_cmd K) f name preChange allow) w = (Inr x, w1)"
  from control_granted [OF this]
  show "wo_asks (ct_world w1) = Suc (wo_asks (ct_world w)) \<and>
    control_approved (kc_cmd K) f name preChange allow (wo_asks (ct_world w))" .
next
  fix x :: unit and locked cfg lo hi
  assume a: "hi = Suc lo \<and> control_approved (kc_cmd K) f name preChange allow lo" and r: "R locked cfg"
  have "authorized_name K f c locked name lo hi"
    using a R [OF r] allow unfolding authorized_name_def by blast
  then show "authorized_change K f c locked cfg lo hi"
    using plan R [OF r] unfolding authorized_change_def by metis
qed

lemma governed_use:
  assumes s: "store_contract (kc_store K) saves" and l: "append_contract (kc_audit K) obs"
  shows "saved obs saves K f [''mq.ctx.use''] (authorized_change K f (Ctx_Use name)) w (snd (ctxUseCmd K f name w))"
  unfolding ctxUseCmd_def printContextControlPlan_def
proof (intro saved_bind [OF calm_load [OF s]] saved_steps, goal_cases)
  case (3 cfg w1 item preChange w2)
  have "saved obs saves K f [''mq.ctx.use''] (\<lambda>locked cfg _ _. ensureContextUsePolicyUnchanged locked name preChange = None \<and>
      cfg = locked\<lparr>cf_CurrentContext := name\<rparr>) w (snd (seqE (controlChange K f
         (\<lambda>locked. ensureContextUsePolicyUnchanged locked name preChange)
         (controlSpec ''mq.ctx.use'' name (cp_meta preChange) (contextTarget name) (mutationPayloadMetadata ''mq.ctx.use'' name))
         (\<lambda>locked. locked\<lparr>cf_CurrentContext := name\<rparr>)) (\<lambda>_. printJSONData K f ''ContextItem'' [(''current'', JStr name)]) w))" for w
    by (rule saved_then [OF saved_controlChange [OF s l] calm_printed_data]) (simp add: controlSpec_def)
  then show ?case
    by (rule saved_one [rotated 2]) (use l 3 in \<open>auto simp: kc_audit_def unchanged_policies\<close>)
qed ((intro saved_keeps still.keeps_rules calm_warn [OF l] calm_printed_data)+)


lemma recheck_existing: "recheckExisting name p locked = None \<Longrightarrow>
    ensureContextPolicyUnchanged locked name p = None \<and> map_of (cf_Contexts locked) name \<noteq> None"
  by (auto simp: recheckExisting_def split: option.splits if_splits)

lemma governed_delete:
  assumes s: "store_contract (kc_store K) saves" and l: "append_contract (kc_audit K) obs"
  shows "saved obs saves K f [''mq.ctx.delete''] (authorized_change K f (Ctx_Delete name)) w (snd (ctxDeleteCmd K f name w))"
  unfolding ctxDeleteCmd_def printContextControlPlan_def
proof (intro saved_bind [OF calm_load [OF s]] saved_steps, goal_cases)
  case (3 cfg w1 item preChange w2)
  let ?change = "\<lambda>locked. locked\<lparr>cf_Contexts := alist_del name (cf_Contexts locked),
                     cf_CurrentContext := (if cf_CurrentContext locked = name then '''' else cf_CurrentContext locked)\<rparr>"
  have "saved obs saves K f [''mq.ctx.delete''] (\<lambda>locked cfg _ _. recheckExisting name preChange locked = None \<and>
      cfg = ?change locked) w (snd (seqE (controlChange K f (recheckExisting name preChange)
         (controlSpec ''mq.ctx.delete'' name (cp_meta preChange) (contextTarget name) (mutationPayloadMetadata ''mq.ctx.delete'' name))
         ?change) (\<lambda>_. printJSONData K f ''ContextItem'' [(''deleted'', JStr name)]) w))" for w
    by (rule saved_then [OF saved_controlChange [OF s l] calm_printed_data]) (simp add: controlSpec_def)
  then show ?case
    by (rule saved_one [rotated 2]) (use l 3 in \<open>auto simp: kc_audit_def unchanged_policies dest!: recheck_existing\<close>)
qed ((intro saved_keeps still.keeps_rules calm_warn [OF l] calm_printed_data)+)

lemma changeRoles_other:
  "k \<noteq> name \<Longrightarrow> map_of (cf_Contexts (changeRoles name change locked)) k = map_of (cf_Contexts locked) k"
  "cf_CurrentContext (changeRoles name change locked) = cf_CurrentContext locked"
  by (auto simp: changeRoles_def split: option.split)

text \<open>What the two changes of roles share after the checks of their options.\<close>

lemma governed_roles:
  assumes s: "store_contract (kc_store K) saves" and l: "append_contract (kc_audit K) obs"
    and c: "control_flag c = allowRoleChange" "control_policy c = contextPreChangePolicy"
      "control_actions c = [sp_Action spec]"
    and plan: "\<not> contextPlanOnly f" and tail: "\<And>x. still.keeps obs saves (t x)"
  shows "saved obs saves K f (control_actions c) (authorized_change K f c) w
    (snd (seqE (inWorld (authorizeContextControl (kc_cmd K) f name p allowRoleChange)) (\<lambda>_.
       seqE (controlChange K f (recheckExisting name p) spec (changeRoles name change)) t) w))"
proof -
  have "saved obs saves K f (control_actions c) (\<lambda>locked cfg _ _. recheckExisting name p locked = None \<and>
      cfg = changeRoles name change locked) w
    (snd (seqE (controlChange K f (recheckExisting name p) spec (changeRoles name change)) t w))" for w
    by (rule saved_then [OF saved_controlChange [OF s l] tail]) (simp add: c)
  then show ?thesis
    by (rule saved_one [rotated 2])
      (use l plan in \<open>auto simp: kc_audit_def c unchanged_policies changeRoles_other dest!: recheck_existing\<close>)
qed

lemma governed_role_set:
  assumes s: "store_contract (kc_store K) saves" and l: "append_contract (kc_audit K) obs"
  shows "saved obs saves K f [''mq.ctx.role.set''] (authorized_change K f (Ctx_Role_Set name opts)) w
    (snd (runCtxRoleSet K f name opts w))"
  unfolding runCtxRoleSet_def Let_def
proof (intro saved_bind [OF calm_load [OF s]] saved_steps, goal_cases)
  case (5 cfg w1 preChange w2)
  show ?case
    by (rule governed_roles [where c = "Ctx_Role_Set name opts", unfolded control_actions.simps, OF s l _ _ _ 5(4)])
      (auto intro!: still.keeps_rules calm_printed_data calm_printed simp: controlSpec_def)
qed ((intro saved_keeps still.keeps_rules calm_warn [OF l] calm_printed_data | simp add: appendRoleAuditWarn_def Let_def)+)


lemma governed_role_unset:
  assumes s: "store_contract (kc_store K) saves" and l: "append_contract (kc_audit K) obs"
  shows "saved obs saves K f [''mq.ctx.role.unset''] (authorized_change K f (Ctx_Role_Unset name opts)) w
    (snd (runCtxRoleUnset K f name opts w))"
  unfolding runCtxRoleUnset_def Let_def
proof (intro saved_bind [OF calm_load [OF s]] saved_steps, goal_cases)
  case (4 cfg w1 preChange w2)
  show ?case
    by (rule governed_roles [where c = "Ctx_Role_Unset name opts", unfolded control_actions.simps, OF s l _ _ _ 4(3)])
      (auto intro!: still.keeps_rules calm_printed_data calm_printed simp: controlSpec_def)
qed ((intro saved_keeps still.keeps_rules calm_warn [OF l] calm_printed_data | simp add: appendRoleAuditWarn_def Let_def)+)

text \<open>What \<open>ctx set\<close> and the import of one context share after authorization and planning.\<close>

lemma governed_import:
  assumes s: "store_contract (kc_store K) saves" and l: "append_contract (kc_audit K) obs"
    and c: "sp_Action spec \<in> set acts" and tail: "\<And>x. still.keeps obs saves (t x)"
  shows "saved obs saves K f acts (\<lambda>locked cfg _ _. ensureContextPolicyUnchanged locked name p = None \<and>
      (\<exists>item. cfg = locked\<lparr>cf_Contexts := overlay (cf_Contexts locked) [(name, item)]\<rparr>)) w
    (snd (seqE (inCreds (validateContextImportCredentialCandidates cs)) (\<lambda>_.
       seqE (importContexts K f (\<lambda>locked. ensureContextPolicyUnchanged locked name p) [(name, item)] spec cs ce) t) w))"
  by (rule saved_bind [OF calm_creds], rule saved_mono [OF saved_then [OF saved_importContexts [OF s l c] tail]]) blast

lemma overlaid_one:
  assumes "ensureContextPolicyUnchanged locked name p = None \<and>
    (\<exists>item. cfg = locked\<lparr>cf_Contexts := overlay (cf_Contexts locked) [(name, item)]\<rparr>)"
  shows "(\<exists>q. contextPreChangePolicy locked name = Inr q \<and> sameContextControlPolicy q p) \<and>
    (\<forall>k. k \<noteq> name \<longrightarrow> map_of (cf_Contexts cfg) k = map_of (cf_Contexts locked) k) \<and>
    cf_CurrentContext cfg = cf_CurrentContext locked"
  using assms overlay_other [of _ "[(name, item)]" for item] by (auto simp: unchanged_policies)

lemma saved_one_item:
  assumes ac: "append_contract (kc_audit K) obs" and plan: "\<not> contextPlanOnly f"
    and g: "\<And>x w. saved obs saves K f acts (\<lambda>locked cfg _ _. ensureContextPolicyUnchanged locked name p = None \<and>
      (\<exists>item. cfg = locked\<lparr>cf_Contexts := overlay (cf_Contexts locked) [(name, item)]\<rparr>)) w (snd (g x w))"
    and c: "control_policy c = contextPreChangePolicy" "allow = control_flag c"
  shows "saved obs saves K f acts (authorized_change K f c) w
    (snd (seqE (inWorld (authorizeContextControl (kc_cmd K) f name p allow)) g w))"
proof (rule saved_one [OF _ plan g])
  fix locked cfg
  assume "ensureContextPolicyUnchanged locked name p = None \<and>
    (\<exists>item. cfg = locked\<lparr>cf_Contexts := overlay (cf_Contexts locked) [(name, item)]\<rparr>)"
  from overlaid_one [OF this] show "(\<exists>q. control_policy c locked name = Inr q \<and> sameContextControlPolicy q p) \<and>
    (\<forall>k. k \<noteq> name \<longrightarrow> map_of (cf_Contexts cfg) k = map_of (cf_Contexts locked) k) \<and>
    (cf_CurrentContext cfg = cf_CurrentContext locked \<or> cf_CurrentContext cfg = name \<or>
     cf_CurrentContext locked = name)" by (simp add: c)
qed (use ac c in \<open>simp_all add: kc_audit_def\<close>)

lemma governed_set:
  assumes s: "store_contract (kc_store K) saves" and l: "append_contract (kc_audit K) obs"
  shows "saved obs saves K f [''mq.ctx.set''] (authorized_change K f (Ctx_Set name opts)) w (snd (ctxSetCmd K f name opts w))"
proof -
  have checked: "still.keeps obs saves (check e)" for e by (auto simp: check_def intro!: still.keeps_rules)
  show ?thesis
    unfolding ctxSetCmd_def printContextControlPlan_def
  proof (intro saved_bind [OF calm_load [OF s]] saved_bind [OF checked] saved_steps, goal_cases)
    case (4 x w1 item0 w2 cfg w3 preChange w4)
    show ?case
      by (rule saved_one_item [OF l 4(3)])
        ((intro saved_bind [OF still.keeps_basic(4)] saved_cases(3) governed_import [OF s l] calm_printed_data;
          simp add: controlSpec_def)+, simp_all)
  qed ((intro saved_keeps still.keeps_rules calm_warn [OF l] calm_printed_data)+)
qed

lemma governed_import_one:
  assumes s: "store_contract (kc_store K) saves" and l: "append_contract (kc_audit K) obs"
  shows "saved obs saves K f [''mq.ctx.import'', ''mq.ctx.import-batch''] (authorized_change K f (Ctx_Import o2)) w
    (snd (runCtxImportOne K f doc opts w))"
  unfolding runCtxImportOne_def Let_def
proof (intro saved_bind [OF calm_load [OF s]] saved_steps, goal_cases)
  case (5 given redacted item0 x w1 candidate item1 item w2 cfg w3 preChange w4)
  show ?case
    by (rule saved_one_item [OF l 5(6)])
      ((intro governed_import [OF s l] still.keeps_rules calm_printed_data calm_printed; simp add: controlSpec_def)+, simp_all)
qed ((intro saved_keeps still.keeps_rules calm_warn [OF l] calm_printed_data)+)


lemma calm_forEach:
  assumes "\<And>p. still.keeps obs saves (m p)"
  shows "still.keeps obs saves (forEachE m ps)"
proof (induction ps)
  case Nil
  show ?case by (simp add: still.keeps_def still.R_refl)
qed (auto intro!: still.keeps_rules assms)

lemma granted_each:
  "forEachE (\<lambda>p. inWorld (authorizeContextControl E f (nm p) (pol p) allow)) ps (w :: ('l, 'b, 's, 'c) ctl) = (Inr x, w') \<Longrightarrow>
    append_contract (ce_audit E) obs \<Longrightarrow>
    \<forall>p \<in> set ps. \<exists>n. wo_asks (ct_world w) \<le> n \<and> n < wo_asks (ct_world w') \<and> control_approved E f (nm p) (pol p) allow n"
proof (induction ps arbitrary: w)
  case (Cons p ps)
  from Cons.prems(1) obtain y w1 where a: "inWorld (authorizeContextControl E f (nm p) (pol p) allow) w = (Inr y, w1)"
    and rest: "forEachE (\<lambda>p. inWorld (authorizeContextControl E f (nm p) (pol p) allow)) ps w1 = (Inr x, w')"
    by (auto elim: seqE_Inr)
  have "wo_asks (ct_world w1) \<le> wo_asks (ct_world w')"
    using still.keepsD [OF calm_forEach [OF calm_authorize [OF Cons.prems(2)]] rest] onward_asks by (auto simp: calm_def)
  then show ?case
    using control_granted [OF a] Cons.IH [OF rest Cons.prems(2)] by (fastforce dest: Suc_leD)
qed simp

lemma firstError_None: "firstError g xs = None \<longleftrightarrow> (\<forall>x \<in> set xs. g x = None)"
  by (induction xs) (auto split: option.split)

text \<open>Several contexts at once: \<open>names\<close> are changed, each granted with its policy.\<close>

lemma authorized_all:
  assumes plan: "\<not> contextPlanOnly f" and c: "control_policy c = contextPreChangePolicy"
    and cfg: "cfg = locked\<lparr>cf_Contexts := overlay (cf_Contexts locked) new\<rparr>"
    and each: "\<And>name. name \<in> fst ` set new \<Longrightarrow> \<exists>n policy. lo \<le> n \<and> n < hi \<and>
      control_approved (kc_cmd K) f name policy (control_flag c) n \<and> ensureContextPolicyUnchanged locked name policy = None"
  shows "authorized_change K f c locked cfg lo hi"
proof -
  have "authorized_name K f c locked name lo hi" if "map_of (cf_Contexts cfg) name \<noteq> map_of (cf_Contexts locked) name" for name
  proof -
    have "name \<in> fst ` set new" using that overlay_other [of name new] by (auto simp: cfg)
    from each [OF this] show ?thesis
      unfolding authorized_name_def c unchanged_policies by blast
  qed
  then show ?thesis using plan by (simp add: authorized_change_def cfg)
qed

lemma governed_import_many:
  assumes s: "store_contract (kc_store K) saves" and l: "append_contract (kc_audit K) obs"
  shows "saved obs saves K f [''mq.ctx.import'', ''mq.ctx.import-batch''] (authorized_change K f (Ctx_Import o2)) w
    (snd (runCtxImportMany K f doc opts w))"
  unfolding runCtxImportMany_def Let_def
proof (intro saved_bind [OF calm_load [OF s]] saved_steps, goal_cases)
  case (3 cfg w1 planned w2)
  have ac: "append_contract (ce_audit (kc_cmd K)) obs" using l by (simp add: kc_audit_def)
  show ?case
  proof (rule saved_asking [where G = "\<lambda>_ lo hi. \<forall>p \<in> set planned. \<exists>n. lo \<le> n \<and> n < hi \<and>
            control_approved (kc_cmd K) f (pm_name p) (pm_preChange p) allowContextChange n"
        and R = "\<lambda>_ locked cfg. firstError (\<lambda>p. ensureContextPolicyUnchanged locked (pm_name p) (pm_preChange p)) planned = None \<and>
            cfg = locked\<lparr>cf_Contexts := overlay (cf_Contexts locked) (map (\<lambda>p. (pm_name p, pm_item p)) planned)\<rparr>"], goal_cases)
    case 1
    show ?case by (rule calm_forEach) (rule calm_authorize [OF ac])
  next
    case (2 x v)
    from granted_each [OF this ac] show ?case .
  next
    case (3 x)
    show ?case
      by (rule saved_bind [OF calm_creds], rule saved_then [OF saved_importContexts [OF s l]])
        (auto intro!: still.keeps_rules calm_printed_data calm_printed simp: controlSpec_def split: prod.split)
  next
    case (4 x locked cfg lo hi)
    then show ?case
      using 3 by (intro authorized_all) (fastforce simp: firstError_None)+
  qed
qed ((intro saved_keeps still.keeps_rules calm_forEach calm_warn [OF l] calm_printed_data)+)


lemma calm_migrations:
  assumes "append_contract (ce_audit (kc_cmd K)) obs"
  shows "still.keeps obs saves (authorizeMigrations K f cfg ds)"
  by (induction ds) (auto intro!: still.keeps_rules calm_authorize assms simp: still.keeps_def [of _ _ "Pair _"] still.R_refl)

lemma granted_migrations:
  assumes "append_contract (ce_audit (kc_cmd K)) obs"
  shows "authorizeMigrations K f cfg ds w = (Inr ps, w') \<Longrightarrow> map fst ps = map mc_name ds \<and>
    (\<forall>(name, p) \<in> set ps. \<exists>n. wo_asks (ct_world w) \<le> n \<and> n < wo_asks (ct_world w') \<and>
       control_approved (kc_cmd K) f name p allowContextChange n)"
proof (induction ds arbitrary: w ps)
  case (Cons d ds)
  from Cons.prems obtain p y w1 qs where
    a: "inWorld (authorizeContextControl (kc_cmd K) f (mc_name d) p allowContextChange) w = (Inr y, w1)"
    and rest: "authorizeMigrations K f cfg ds w1 = (Inr qs, w')" and ps: "ps = (mc_name d, p) # qs"
    by (auto elim!: seqE_Inr)
  have "wo_asks (ct_world w1) \<le> wo_asks (ct_world w')"
    using still.keepsD [OF calm_migrations [OF assms, of "\<lambda>_. []"] rest] onward_asks by (auto simp: calm_def)
  then show ?case
    using control_granted [OF a] Cons.IH [OF rest] ps by (fastforce dest: Suc_leD)
qed simp

lemma governed_migrate:
  assumes s: "store_contract (kc_store K) saves" and l: "append_contract (kc_audit K) obs"
  shows "saved obs saves K f [''mq.ctx.credentials.migrate''] (authorized_change K f (Ctx_Migrate opts)) w
    (snd (runCtxMigrateCredentials K f opts w))"
proof -
  have checked: "still.keeps obs saves (check e)" for e by (auto simp: check_def intro!: still.keeps_rules)
  have result: "still.keeps obs saves (printCredentialMigrationResult K f r)" for r
    by (auto simp: printCredentialMigrationResult_def intro!: calm_printed_data calm_printed)
  have ac: "append_contract (ce_audit (kc_cmd K)) obs" using l by (simp add: kc_audit_def)
  show ?thesis
    unfolding runCtxMigrateCredentials_def Let_def
  proof (intro saved_bind [OF calm_load [OF s]] saved_bind [OF checked] saved_steps, goal_cases)
    case (3 u w1 cfg w2 ds w3 v w4)
    show ?case
    proof (rule saved_asking [where G = "\<lambda>ps lo hi. map fst ps = map mc_name ds \<and> (\<forall>(name, p) \<in> set ps. \<exists>n. lo \<le> n \<and> n < hi \<and>
              control_approved (kc_cmd K) f name p allowContextChange n)"
          and R = "\<lambda>ps locked cfg. recheckMigration ps ds locked = None \<and>
            cfg = locked\<lparr>cf_Contexts := overlay (cf_Contexts locked) (migratedContexts (kc_cred K) (mo_toBackend opts) ds)\<rparr>"],
        goal_cases)
      case 1
      show ?case by (rule calm_migrations [OF ac])
    next
      case (2 x v)
      from granted_migrations [OF ac this] show ?case .
    next
      case (3 x)
      show ?case
        by (rule saved_bind [OF calm_creds], rule saved_then [OF saved_migrateContexts [OF s l] result])
          (simp add: migrationSpec_def controlSpec_def split: prod.split)
    next
      case (4 ps locked cfg lo hi)
      have each: "\<exists>n policy. lo \<le> n \<and> n < hi \<and> control_approved (kc_cmd K) f name policy allowContextChange n \<and>
          ensureContextPolicyUnchanged locked name policy = None" if d: "d \<in> set ds" "name = mc_name d" for name d
      proof -
        have "name \<in> fst ` set ps" using 4(1) d by (metis image_eqI list.set_map)
        then obtain p where p: "map_of ps name = Some p" by (metis map_of_eq_None_iff not_None_eq)
        then have "(name, p) \<in> set ps" by (rule map_of_SomeD)
        moreover have "ensureContextPolicyUnchanged locked name p = None"
          using 4(2) d p by (auto simp: recheckMigration_def firstError_None split: option.splits)
        ultimately show ?thesis using 4(1) by fastforce
      qed
      show ?case
        using 3(1) 4(2) each by (intro authorized_all) (auto simp: migratedContexts_def)
    qed
  qed ((intro saved_keeps still.keeps_rules calm_forEach calm_warn [OF l] result |
        simp add: appendCredentialMigrationAuditWarn_def)+)
qed

lemma context_command_governed:
  assumes s: "store_contract (kc_store K) saves" and l: "append_contract (kc_audit K) obs"
  shows "saved obs saves K f (control_actions c) (authorized_change K f c) w (snd (run_context K f c w))"
proof (cases c)
  case (Ctx_Import opts)
  have "saved obs saves K f (control_actions c) (authorized_change K f c) w (snd (runCtxImport K f opts w))"
    unfolding runCtxImport_def Ctx_Import control_actions.simps
    by (intro saved_steps governed_import_one [OF s l] governed_import_many [OF s l] saved_keeps [OF still.keeps_basic(2)])
  then show ?thesis by (simp add: Ctx_Import)
next
  case Ctx_List
  then show ?thesis
    by (auto simp: ctxListCmd_def Let_def intro!: saved_keeps still.keeps_seqE calm_load [OF s] calm_printed)
next
  case Ctx_Current
  have "still.keeps obs saves (inStore (st_Load (kc_store K)))"
    using s by (intro calm_store) (simp add: store_contract_def)
  then show ?thesis
    by (simp add: Ctx_Current ctxCurrentCmd_def) (intro saved_keeps still.keeps_rules calm_printed_data)
next
  case (Ctx_Role_List name)
  then show ?thesis
    by (simp add: runCtxRoleList_def loadContextForRole_def Let_def)
      (intro saved_keeps still.keeps_rules calm_load [OF s] calm_printed)
qed (simp_all add: governed_set governed_use governed_delete governed_role_set governed_role_unset governed_migrate s l)

end
