(* ===== verification/Context_Credentials.thy ===== *)
theory Context_Credentials
  imports Context_Laws
begin

text \<open>
  The credentials in what the commands of contexts save: a context that a command wrote holds no literal password
  beside a credential store, whichever command it was.
\<close>

section \<open>Sheltered credentials\<close>

text \<open>Plain storage was chosen, or the passwords of the context are references, empty or redacted.\<close>

definition sheltered :: "'c cred_env \<Rightarrow> Context \<Rightarrow> bool" where
  "sheltered C x = (cx_CredentialBackend x \<in> {'''', ''plain-yaml''} \<or>
     \<not> isLiteralCredential C (cx_Password x) \<and> \<not> isLiteralCredential C (cx_KafkaSchemaRegistryPassword x))"

definition same_credentials :: "Context \<Rightarrow> Context \<Rightarrow> bool" where
  "same_credentials x y = (cx_Password x = cx_Password y \<and> cx_CredentialBackend x = cx_CredentialBackend y \<and>
     cx_KafkaSchemaRegistryPassword x = cx_KafkaSchemaRegistryPassword y)"

text \<open>Every context of the new configuration is sheltered or has the credentials that it had.\<close>

definition careful :: "'c cred_env \<Rightarrow> Config \<Rightarrow> Config \<Rightarrow> bool" where
  "careful C locked cfg = (\<forall>name x. map_of (cf_Contexts cfg) name = Some x \<longrightarrow>
     sheltered C x \<or> (\<exists>y. map_of (cf_Contexts locked) name = Some y \<and> same_credentials x y))"

lemma same_credentials_refl [simp]: "same_credentials x x"
  by (simp add: same_credentials_def)

lemma overlay_cases:
  "map_of (overlay contexts over) name = Some x \<Longrightarrow> (name, x) \<in> set over \<or> map_of contexts name = Some x"
proof (induction over arbitrary: contexts)
  case (Cons p over)
  obtain k y where p: "p = (k, y)" by (cases p)
  have "map_of (overlay (alist_put k y contexts) over) name = Some x" using Cons.prems by (simp add: overlay_def p)
  from Cons.IH [OF this] show ?case by (auto simp: p split: if_splits)
qed (simp add: overlay_def)

lemma careful_overlay:
  "\<forall>(name, x) \<in> set over. sheltered C x \<Longrightarrow>
    careful C locked (locked\<lparr>cf_Contexts := overlay (cf_Contexts locked) over\<rparr>)"
  unfolding careful_def using overlay_cases same_credentials_refl by fastforce

lemma careful_changes:
  "careful C locked (locked\<lparr>cf_CurrentContext := name\<rparr>)"
  "careful C locked (locked\<lparr>cf_Contexts := alist_del name (cf_Contexts locked), cf_CurrentContext := current\<rparr>)"
  "careful C locked (changeRoles name change locked)"
  by (auto simp: careful_def changeRoles_def split: option.split if_splits) (simp add: same_credentials_def)

section \<open>The plans of credentials\<close>

lemma encoded_not_literal: "ref_contract C \<Longrightarrow> \<not> isLiteralCredential C (cr_encodeRef C name)"
  by (simp add: ref_contract_def isLiteralCredential_def)

lemma empty_not_literal: "\<not> isLiteralCredential C ''''"
  by (simp add: isLiteralCredential_def)

lemma sheltered_import:
  assumes "ref_contract C" and "planContextImportCredential C name item = Inr (candidate, item')"
  shows "sheltered C item'"
  using assms(2) encoded_not_literal [OF assms(1)]
  by (auto simp: planContextImportCredential_def sheltered_def Let_def split: sum.splits if_splits option.splits prod.splits)

lemma sheltered_set:
  assumes "ref_contract C" and "planContextSetCredentials C name item password schemaPassword = Inr (candidate, item')"
    and "cx_Password item = ''''" and "cx_KafkaSchemaRegistryPassword item = ''''"
  shows "sheltered C item'"
  using assms(2-4) encoded_not_literal [OF assms(1)] empty_not_literal [of C]
  by (auto simp: planContextSetCredentials_def sheltered_def Let_def split: sum.splits if_splits prod.splits)

lemma sheltered_validated: "validateContextDefinition item = Inr item' \<Longrightarrow> sheltered C item' = sheltered C item"
  by (auto simp: validateContextDefinition_def sheltered_def split: if_splits)

lemma options_no_credentials:
  "cx_Password (contextOfOptions f opts) = ''''" "cx_KafkaSchemaRegistryPassword (contextOfOptions f opts) = ''''"
  by (simp_all add: contextOfOptions_def applyBackendContextOptions_def no_context_def)

lemma validated_credentials: "validateContextDefinition item = Inr item' \<Longrightarrow> cx_Password item' = cx_Password item \<and>
    cx_KafkaSchemaRegistryPassword item' = cx_KafkaSchemaRegistryPassword item"
  by (auto simp: validateContextDefinition_def split: if_splits)

lemma sheltered_planned:
  assumes "ref_contract C"
  shows "planImports C cfg force items = Inr planned \<Longrightarrow> \<forall>p \<in> set planned. sheltered C (pm_item p)"
proof (induction items arbitrary: planned)
  case (Cons p items)
  obtain name given where p: "p = (name, given)" by (cases p)
  obtain redacted item0 where c: "clearRedactedImportedCredentials given = (redacted, item0)" by fastforce
  from Cons.prems obtain candidate item1 item preChange rest where
    i: "planContextImportCredential C name item0 = Inr (candidate, item1)" "validateContextDefinition item1 = Inr item"
    and r: "planImports C cfg force items = Inr rest"
    and planned: "planned = \<lparr>pm_name = name, pm_redacted = redacted, pm_candidate = candidate, pm_item = item, pm_preChange = preChange\<rparr> # rest"
    by (auto simp: p c split: sum.splits if_splits prod.splits)
  have "sheltered C item" using sheltered_import [OF assms i(1)] sheltered_validated [OF i(2), of C] by simp
  then show ?case using Cons.IH [OF r] planned by simp
qed simp

lemma sheltered_migrated:
  assumes "ref_contract C"
  shows "sheltered C (migratedContext C backend (migrationCandidate C name item))"
  using encoded_not_literal [OF assms] empty_not_literal [of C]
  by (auto simp: sheltered_def migratedContext_def migrationCandidate_def Let_def)

lemma candidates_made:
  "credentialMigrationCandidates C cfg name = Inr ds \<Longrightarrow> d \<in> set ds \<Longrightarrow> \<exists>n item. d = migrationCandidate C n item"
  by (auto simp: credentialMigrationCandidates_def split: if_splits option.splits) blast+

section \<open>The commands\<close>

lemma saved_lifted:
  "(\<And>x. y = Inr x \<Longrightarrow> saved obs saves K f acts P w (snd (g x w))) \<Longrightarrow> saved obs saves K f acts P w (snd (seqE (liftE y) g w))"
  by (cases y) (auto simp: seqE_run intro: saved_calm still.R_refl)

lemma careful_control:
  assumes "store_contract (kc_store K) saves" and "append_contract (kc_audit K) obs" and "sp_Action spec \<in> set acts"
    and "\<And>locked. careful C locked (change locked)" and "\<And>x. still.keeps obs saves (t x)"
  shows "saved obs saves K f acts (\<lambda>locked cfg _ _. careful C locked cfg) w (snd (seqE (controlChange K f recheck spec change) t w))"
  by (rule saved_mono [OF saved_then [OF saved_controlChange [OF assms(1-3)] assms(5)]]) (use assms(4) in auto)

lemma careful_import:
  assumes "store_contract (kc_store K) saves" and "append_contract (kc_audit K) obs" and "sp_Action spec \<in> set acts"
    and "\<forall>(name, x) \<in> set over. sheltered C x" and "\<And>x. still.keeps obs saves (t x)"
  shows "saved obs saves K f acts (\<lambda>locked cfg _ _. careful C locked cfg) w
    (snd (seqE (importContexts K f recheck over spec candidates ce) t w))"
  by (rule saved_mono [OF saved_then [OF saved_importContexts [OF assms(1-3)] assms(5)]]) (use careful_overlay [OF assms(4)] in auto)

lemma careful_migrate:
  assumes "store_contract (kc_store K) saves" and "append_contract (kc_audit K) obs" and "sp_Action spec \<in> set acts"
    and "\<forall>d \<in> set ds. sheltered (kc_cred K) (migratedContext (kc_cred K) toBackend d)" and "\<And>x. still.keeps obs saves (t x)"
  shows "saved obs saves K f acts (\<lambda>locked cfg _ _. careful (kc_cred K) locked cfg) w
    (snd (seqE (migrateContexts K f preChanges spec backend ds toBackend n) t w))"
  by (rule saved_mono [OF saved_then [OF saved_migrateContexts [OF assms(1-3)] assms(5)]])
    (use careful_overlay [of "migratedContexts (kc_cred K) toBackend ds" "kc_cred K"] assms(4) in \<open>auto simp: migratedContexts_def\<close>)

lemma calm_check: "still.keeps obs saves (check e)"
  by (auto simp: check_def intro!: still.keeps_rules)

lemma careful_commands:
  assumes s: "store_contract (kc_store K) saves" and l: "append_contract (kc_audit K) obs" and r: "ref_contract (kc_cred K)"
  shows "saved obs saves K f (control_actions c) (\<lambda>locked cfg _ _. careful (kc_cred K) locked cfg) w (snd (run_context K f c w))"
proof -
  have ac: "append_contract (ce_audit (kc_cmd K)) obs" using l by (simp add: kc_audit_def)
  note asked = saved_bind [OF calm_authorize [OF ac]]
  note loads = saved_bind [OF calm_load [OF s]]
  note keeps = saved_keeps still.keeps_rules calm_warn [OF l] calm_printed_data calm_printed
  show ?thesis
  proof (cases c)
    case (Ctx_Set name opts)
    show ?thesis
      unfolding Ctx_Set run_context.simps ctxSetCmd_def printContextControlPlan_def
    proof (intro saved_bind [OF calm_check] loads saved_lifted saved_cases asked saved_bind [OF calm_creds], goal_cases)
      case (4 x w1 item0 cfg w2 preChange y w3 p candidate item z w4)
      have "sheltered (kc_cred K) item"
        using 4 sheltered_set [OF r, of name item0] validated_credentials options_no_credentials by auto
      then show ?case by (intro careful_import [OF s l]) (auto intro!: calm_printed_data simp: controlSpec_def)
    qed ((intro keeps)+)
  next
    case (Ctx_Use name)
    show ?thesis
      unfolding Ctx_Use run_context.simps ctxUseCmd_def printContextControlPlan_def
    proof (intro loads saved_lifted saved_cases asked, goal_cases)
      case 3
      show ?case by (intro careful_control [OF s l] careful_changes calm_printed_data) (simp add: controlSpec_def)
    qed ((intro keeps)+)
  next
    case (Ctx_Delete name)
    show ?thesis
      unfolding Ctx_Delete run_context.simps ctxDeleteCmd_def printContextControlPlan_def
    proof (intro loads saved_lifted saved_cases asked, goal_cases)
      case 3
      show ?case by (intro careful_control [OF s l] careful_changes calm_printed_data) (simp add: controlSpec_def)
    qed ((intro keeps)+)
  next
    case (Ctx_Role_Set name opts)
    show ?thesis
      unfolding Ctx_Role_Set run_context.simps runCtxRoleSet_def Let_def
    proof (intro loads saved_lifted saved_cases asked, goal_cases)
      case 5
      show ?case by (intro careful_control [OF s l] careful_changes) (auto intro!: keeps simp: controlSpec_def)
    qed ((intro keeps | simp add: appendRoleAuditWarn_def Let_def)+)
  next
    case (Ctx_Role_Unset name opts)
    show ?thesis
      unfolding Ctx_Role_Unset run_context.simps runCtxRoleUnset_def Let_def
    proof (intro loads saved_lifted saved_cases asked, goal_cases)
      case 4
      show ?case by (intro careful_control [OF s l] careful_changes) (auto intro!: keeps simp: controlSpec_def)
    qed ((intro keeps | simp add: appendRoleAuditWarn_def Let_def)+)
  next
    case (Ctx_Import opts)
    have one: "saved obs saves K f [''mq.ctx.import'', ''mq.ctx.import-batch''] (\<lambda>locked cfg _ _. careful (kc_cred K) locked cfg) w
        (snd (runCtxImportOne K f doc opts w))" for doc w
      unfolding runCtxImportOne_def Let_def
    proof (intro loads saved_lifted saved_cases asked saved_bind [OF calm_creds], goal_cases)
      case (5 given redacted item0 x candidate item1 item cfg w1 preChange y w2 z w3)
      have "sheltered (kc_cred K) item"
        using 5 sheltered_import [OF r] sheltered_validated by blast
      then show ?case by (intro careful_import [OF s l]) (auto intro!: keeps simp: controlSpec_def)
    qed ((intro keeps)+)
    have many: "saved obs saves K f [''mq.ctx.import'', ''mq.ctx.import-batch''] (\<lambda>locked cfg _ _. careful (kc_cred K) locked cfg) w
        (snd (runCtxImportMany K f doc opts w))" for doc w
      unfolding runCtxImportMany_def Let_def
    proof (intro loads saved_lifted saved_cases saved_bind [OF calm_forEach [OF calm_authorize [OF ac]]] saved_bind [OF calm_creds],
        goal_cases)
      case (3 cfg w1 planned x w2 y w3)
      have "\<forall>p \<in> set planned. sheltered (kc_cred K) (pm_item p)" using sheltered_planned [OF r 3(2)] .
      then show ?case by (intro careful_import [OF s l]) (auto intro!: keeps simp: controlSpec_def split: prod.split)
    qed ((intro keeps calm_forEach)+)
    have "saved obs saves K f [''mq.ctx.import'', ''mq.ctx.import-batch''] (\<lambda>locked cfg _ _. careful (kc_cred K) locked cfg) w
        (snd (runCtxImport K f opts w))"
      unfolding runCtxImport_def by (intro saved_lifted saved_cases one many keeps)
    then show ?thesis by (simp add: Ctx_Import)
  next
    case (Ctx_Migrate opts)
    have result: "still.keeps obs saves (printCredentialMigrationResult K f x)" for x
      by (auto simp: printCredentialMigrationResult_def intro!: calm_printed_data calm_printed)
    show ?thesis
      unfolding Ctx_Migrate run_context.simps runCtxMigrateCredentials_def Let_def
    proof (intro saved_bind [OF calm_check] loads saved_lifted saved_cases saved_bind [OF calm_migrations [OF ac]]
        saved_bind [OF calm_creds], goal_cases)
      case (3 x w1 cfg w2 ds y w3 ps w4 backend w5)
      have "\<forall>d \<in> set ds. sheltered (kc_cred K) (migratedContext (kc_cred K) (mo_toBackend opts) d)"
        using candidates_made [OF 3(1)] sheltered_migrated [OF r] by metis
      then show ?case
        by (intro careful_migrate [OF s l] result) (simp_all add: migrationSpec_def controlSpec_def split: prod.split)
    qed ((intro keeps calm_forEach result | simp add: appendCredentialMigrationAuditWarn_def)+)
  next
    case Ctx_Current
    have "still.keeps obs saves (inStore (st_Load (kc_store K)))"
      using s by (intro calm_store) (simp add: store_contract_def)
    then show ?thesis
      by (simp add: Ctx_Current ctxCurrentCmd_def) (intro saved_keeps still.keeps_rules calm_printed_data)
  qed (simp_all add: ctxListCmd_def runCtxRoleList_def loadContextForRole_def Let_def,
      (intro saved_keeps still.keeps_rules calm_load [OF s] calm_printed)+)
qed

section \<open>The import of one context\<close>

text \<open>What an import of the document \<open>doc\<close> with one context saves, under \<open>name\<close>.\<close>

lemma saved_import_one:
  assumes s: "store_contract (kc_store K) saves" and l: "append_contract (kc_audit K) obs"
    and doc: "readContextExportDocument K (io_file io) = Inr doc" "cd_Contexts doc = []" "cd_Context doc = Some given"
  shows "saved obs saves K f [''mq.ctx.import'', ''mq.ctx.import-batch''] (\<lambda>locked cfg _ _. \<exists>candidate item1 item.
      planContextImportCredential (kc_cred K) (firstNonEmpty [io_rename io, cd_Name doc])
        (snd (clearRedactedImportedCredentials given)) = Inr (candidate, item1) \<and> validateContextDefinition item1 = Inr item \<and>
      cfg = locked\<lparr>cf_Contexts := overlay (cf_Contexts locked) [(firstNonEmpty [io_rename io, cd_Name doc], item)]\<rparr>) w
    (snd (run_context K f (Ctx_Import io) w))"
    (is "saved _ _ _ _ _ ?P _ _")
proof -
  have ac: "append_contract (ce_audit (kc_cmd K)) obs" using l by (simp add: kc_audit_def)
  note asked = saved_bind [OF calm_authorize [OF ac]]
  note keeps = saved_keeps still.keeps_rules calm_warn [OF l] calm_printed_data calm_printed
  have one: "saved obs saves K f [''mq.ctx.import'', ''mq.ctx.import-batch''] ?P w (snd (runCtxImportOne K f doc io w))" for w
    unfolding runCtxImportOne_def Let_def doc(3) option.case
  proof (intro saved_bind [OF calm_load [OF s]] saved_lifted saved_cases asked saved_bind [OF calm_creds], goal_cases)
    case (4 redacted item0 x candidate item1 item cfg w1 preChange y w2 z w3)
    show ?case
      by (rule saved_mono [OF saved_then [OF saved_importContexts [OF s l]]]) (use 4 in \<open>auto intro!: keeps simp: controlSpec_def\<close>)
  qed ((intro keeps)+)
  show ?thesis
    unfolding run_context.simps runCtxImport_def doc
  proof (intro saved_lifted saved_cases, goal_cases)
    case 1
    show ?case by (intro keeps)
  next
    case (2 x)
    then show ?case using doc by simp
  next
    case (3 x)
    then show ?case using one by simp
  qed
qed

end
