(* ===== verification/Context_Outcomes.thy ===== *)
theory Context_Outcomes
  imports Context_Migrate Credential_Migration_Laws Audit_Record_Laws
begin

text \<open>
  The outcomes that an import, a \<open>ctx set\<close> and a migration record: whatever fails, the record passes the
  checks that a later replay makes of it, and its counters add up to the planned items.
\<close>

section \<open>Outcomes with a compensation\<close>

definition compensation_consistent :: "mutationAuditOutcome \<Rightarrow> go_error option \<Rightarrow> bool" where
  "compensation_consistent oc err = (oc_counted oc \<and> oc_Status oc \<noteq> StatusUnset \<and> status_consistent oc err \<and> counts_nonneg oc \<and>
     no_error_fields (oc\<lparr>oc_CompensationStatus := ''''\<rparr>) \<and> validMutationCompensationStatus (oc_CompensationStatus oc) \<and>
     validateMutationSpoolCompensation oc = None \<and> (err = None \<longrightarrow> oc_CompensationStatus oc = ''''))"

lemma compensation_ok:
  assumes "compensation_consistent oc err"
  shows "outcome_ok (normalizeMutationAuditOutcome asApp oc err)"
proof (cases err)
  case None
  then have "no_error_fields oc" using assms by (simp add: compensation_consistent_def no_error_fields_def)
  then show ?thesis using normalize_ok assms by (simp add: compensation_consistent_def)
next
  case (Some e)
  let ?n = "mutationAuditErrorOutcome asApp oc e"
  note a = assms [unfolded compensation_consistent_def]
  have n: "normalizeMutationAuditOutcome asApp oc err = ?n"
    using a Some by (simp add: normalizeMutationAuditOutcome_def error_outcome_fields Let_def)
  have "validateMutationSpoolCompensation ?n = validateMutationSpoolCompensation oc"
    by (simp add: validateMutationSpoolCompensation_def error_outcome_fields)
  moreover have "\<not> bad_fingerprint (oc_ErrorFingerprint ?n, oc_ErrorBytes ?n)"
    by (rule error_outcome_fields(10)) (use a in \<open>simp add: no_error_fields_def bad_fingerprint_def\<close>)
  moreover have "validMutationOutcomeStatus (oc_Status ?n)" "validateMutationSpoolOutcomeStatus ?n = None"
    using a Some error_outcome_fields(9) [of asApp oc e]
    by (cases "oc_Status oc"; simp add: status_consistent_def validMutationOutcomeStatus_def
        validateMutationSpoolOutcomeStatus_def validPartialMutationSpoolOutcome_def error_outcome_fields)+
  ultimately show ?thesis
    using a unfolding n outcome_ok_def counts_nonneg_def by (simp add: error_outcome_fields)
qed

text \<open>A status of a compensation and what it tells: nothing to undo, undone, or neither, and then an error.\<close>

lemmas status_names = credentialCompensationSucceeded_def credentialCompensationIncomplete_def
  credentialCompensationNotSafe_def

definition compensated_with :: "string \<Rightarrow> go_error option \<Rightarrow> bool" where
  "compensated_with status err =
     (if err = None then status \<in> {'''', credentialCompensationSucceeded}
      else status \<in> {credentialCompensationIncomplete, credentialCompensationNotSafe})"

lemma compensate_import_status:
  "compensateContextImportCredentialsLocked C cfg t c = ((status, err), c') \<Longrightarrow> compensated_with status err"
  by (auto simp: compensateContextImportCredentialsLocked_def compensated_with_def callE_run
      split: option.splits if_splits sum.splits prod.splits)

lemma compensate_migration_status:
  "compensateCredentialMigrationLocked C cfg t c = ((status, err), c') \<Longrightarrow> compensated_with status err \<and>
    (status = '''' \<longrightarrow> (case t of None \<Rightarrow> True | Some x \<Rightarrow> mt_writes x = []))"
  by (auto simp: compensateCredentialMigrationLocked_def compensateCredentialMigrationTransaction_def
      compensated_with_def callE_run status_names split: option.splits if_splits sum.splits prod.splits)

section \<open>Imports\<close>

definition import_vars_ok :: "go_error option \<Rightarrow> 'c importVars \<Rightarrow> bool" where
  "import_vars_ok err v = ((err = None \<longrightarrow> iv_status v = '''' \<and> \<not> iv_uncertain v) \<and>
     (iv_uncertain v \<longrightarrow> iv_status v \<in> {credentialCompensationIncomplete, credentialCompensationNotSafe}) \<and>
     (\<not> iv_uncertain v \<longrightarrow> iv_status v \<in> {'''', credentialCompensationSucceeded}))"

lemma import_change_vars:
  assumes "importChange K f recheck expected spec candidates ce locked w = ((r, v), w')"
  shows "import_vars_ok (Some e) v \<and> (isl r \<or> import_vars_ok None v)"
proof -
  have none: "import_vars_ok err no_vars" "import_vars_ok err (no_vars\<lparr>iv_original := x\<rparr>)" for err x
    by (simp_all add: import_vars_ok_def no_vars_def)
  obtain b w1 where b: "inWorld (audit (beginMutationAudit (kc_audit K) f spec)) w = (b, w1)" by fastforce
  obtain t x w2 where s: "inCreds (storeContextImportCredentials (kc_cred K) candidates) w1 = ((t, x), w2)"
    by (metis surj_pair)
  obtain st y w3 where c: "inCreds (compensateContextImportCredentialsLocked (kc_cred K) locked (Some t)) w2 = ((st, y), w3)"
    by (metis surj_pair)
  then have st: "compensated_with st y"
    by (auto simp: inCreds_def zoom_run split: prod.splits dest: compensate_import_status)
  show ?thesis
    using assms b s c none
    by (auto simp: importChange_def Let_def split: option.splits sum.splits)
      (use st in \<open>auto simp: import_vars_ok_def no_vars_def compensated_with_def status_names\<close>)
qed

text \<open>What a function for \<open>Update\<close> ensures of its variables, holds after \<open>Update\<close>.\<close>

lemma Update_vars:
  assumes start: "\<And>e. P (Some e) x"
    and step: "\<And>locked u r y u'. fn locked u = ((r, y), u') \<Longrightarrow> (\<forall>e. P (Some e) y) \<and> (\<forall>cfg. r = Inr cfg \<longrightarrow> P None y)"
    and run: "Update K x fn w = ((err, v), w')"
  shows "P err v"
proof -
  obtain b w1 where b: "inStore (st_begin (kc_store K)) w = (b, w1)" by fastforce
  show ?thesis
  proof (cases b)
    case (Inl e)
    then show ?thesis using run b start by (auto simp: Update_def)
  next
    case (Inr locked)
    obtain r y w2 where f: "fn locked w1 = ((r, y), w2)" by (metis surj_pair)
    note y = step [OF f]
    show ?thesis
    proof (cases "validatePersistedRoles locked")
      case (Some e)
      then show ?thesis using run b Inr start [of e] by (auto simp: Update_def)
    next
      case None
      show ?thesis
      proof (cases r)
        case (Inl e)
        then show ?thesis using run b Inr None f y by (auto simp: Update_def)
      next
        case r: (Inr cfg)
        obtain z w3 where "inStore (st_commit (kc_store K) cfg) w2 = (z, w3)" by fastforce
        then have "v = y \<and> (err = None \<or> (\<exists>e. err = Some e))"
          using run b Inr None f r by (auto simp: Update_def split: option.splits)
        then show ?thesis using y r by auto
      qed
    qed
  qed
qed

lemma update_import_vars:
  assumes "Update K no_vars (importChange K f recheck expected spec candidates ce) w = ((err, v), w')"
  shows "import_vars_ok err v"
proof (rule Update_vars [OF _ _ assms])
  show "import_vars_ok (Some e) no_vars" for e by (simp add: import_vars_ok_def no_vars_def)
  show "importChange K f recheck expected spec candidates ce locked u = ((r, y), u') \<Longrightarrow>
      (\<forall>e. import_vars_ok (Some e) y) \<and> (\<forall>cfg. r = Inr cfg \<longrightarrow> import_vars_ok None y)" for locked u r y u'
    using import_change_vars [of K f recheck expected spec candidates ce locked u r y u'] by auto
qed

definition import_outcome_ok :: "string \<Rightarrow> bool \<Rightarrow> go_error option \<Rightarrow> bool" where
  "import_outcome_ok status uncertain err =
     ((err = None \<longrightarrow> status = '''' \<and> \<not> uncertain) \<and>
      (if uncertain then status \<in> {credentialCompensationIncomplete, credentialCompensationNotSafe}
       else status \<in> {'''', credentialCompensationSucceeded, credentialCompensationNotSafe}))"


text \<open>The lock hands on the variables of its action.\<close>

lemma lock_vars:
  assumes "\<And>e. P (Some e) x"
    and act: "\<And>locked u e y u'. action locked u = ((e, y), u') \<Longrightarrow> P e y \<and> (\<forall>e'. P (Some e') y)"
    and "withContextStoreLock K x action w = ((err, v), w')"
  shows "P err v"
  using assms(1,3) unfolding withContextStoreLock_def
  by (auto split: sum.splits prod.splits if_splits dest!: act)

definition status_possible :: "go_error option \<Rightarrow> string \<Rightarrow> bool" where
  "status_possible err status = (status \<in> {'''', credentialCompensationSucceeded, credentialCompensationNotSafe} \<or>
     status = credentialCompensationIncomplete \<and> err \<noteq> None)"

lemma reconcile_import_status:
  assumes "reconcileContextImportFailure K t original expected w = ((status, uncertain, err), w')"
  shows "if uncertain then status \<in> {credentialCompensationIncomplete, credentialCompensationNotSafe}
    else status \<in> {'''', credentialCompensationSucceeded, credentialCompensationNotSafe}"
proof -
  obtain e c st w1 where l: "withContextStoreLock K (False, '''') (reconcileImport K t original expected) w = ((e, c, st), w1)"
    by (metis surj_pair)
  have "(\<lambda>e (c, st). status_possible e st) e (c, st)"
  proof (rule lock_vars [OF _ _ l])
    show "case (False, '''') of (c, st) \<Rightarrow> status_possible (Some e) st" for e by (simp add: status_possible_def)
    show "reconcileImport K t original expected locked u = ((e, y), u') \<Longrightarrow> (case y of (c, st) \<Rightarrow> status_possible e st) \<and>
        (\<forall>e'. case y of (c, st) \<Rightarrow> status_possible (Some e') st)" for locked u e y u'
      by (auto simp: reconcileImport_def inCreds_def zoom_run compensated_with_def status_possible_def
          split: prod.splits if_splits dest!: compensate_import_status)
  qed
  then show ?thesis
    using assms l
    by (auto simp: reconcileContextImportFailure_def status_possible_def status_names Let_def split: option.splits if_splits)
qed

lemma settle_import_outcome:
  assumes "import_vars_ok err0 v" and "settleImport K expected ce err0 v w = ((status, uncertain, err), w')"
  shows "import_outcome_ok status uncertain err"
proof (cases err0)
  case None
  then show ?thesis using assms by (auto simp: settleImport_def import_vars_ok_def import_outcome_ok_def)
next
  case (Some e)
  obtain st un re w1 where r: "reconcileContextImportFailure K (iv_transaction v) (iv_original v) expected w = ((st, un, re), w1)"
    by (metis surj_pair)
  from reconcile_import_status [OF r] show ?thesis
    using assms Some r by (auto simp: settleImport_def import_vars_ok_def import_outcome_ok_def split: if_splits option.splits)
qed

lemma import_outcome_consistent:
  assumes "import_outcome_ok status uncertain err" and "0 < tot"
  shows "compensation_consistent (contextImportOutcome tot status uncertain err) err"
  using assms
  by (cases err; cases uncertain)
    (auto simp: compensation_consistent_def contextImportOutcome_def import_outcome_ok_def status_consistent_def
      counts_nonneg_def no_error_fields_def empty_outcome_def validMutationCompensationStatus_def
      validateMutationSpoolCompensation_def status_names Let_def)

lemma import_outcome_total:
  assumes "0 < tot" and "tot < 2 ^ 63"
  shows "outcome_total (normalizeMutationAuditOutcome asApp (contextImportOutcome tot status uncertain err) err) = tot"
proof -
  have "oc_counted (contextImportOutcome tot status uncertain err)"
    by (simp add: contextImportOutcome_def empty_outcome_def Let_def)
  then show ?thesis
    using assms by (simp add: normalize_total) (simp add: outcome_total_def contextImportOutcome_def empty_outcome_def Let_def)
qed


section \<open>Migrations\<close>

definition progress_of :: "int \<Rightarrow> int \<Rightarrow> int \<Rightarrow> credentialMigrationProgress" where
  "progress_of s f u = \<lparr>mp_succeeded = s, mp_failed = f, mp_uncertain = u\<rparr>"

lemma progress_of_simps [simp]:
  "mp_succeeded (progress_of s f u) = s" "mp_failed (progress_of s f u) = f" "mp_uncertain (progress_of s f u) = u"
  "afterSuccessfulCompensation (progress_of s f u) = progress_of 0 (f + s) u"
  "afterIncompleteCompensation (progress_of s f u) = progress_of 0 0 (u + (s + f))"
  by (simp_all add: progress_of_def afterSuccessfulCompensation_def afterIncompleteCompensation_def)

lemma progress_ofI: "p = progress_of (mp_succeeded p) (mp_failed p) (mp_uncertain p)"
  by (cases p) (simp add: progress_of_def)

text \<open>The progress and the status of a compensation that a migration with an error may end with.\<close>

definition failed_ok :: "int \<Rightarrow> credentialMigrationProgress \<Rightarrow> string \<Rightarrow> bool" where
  "failed_ok n p status = (0 \<le> mp_succeeded p \<and> 0 \<le> mp_failed p \<and> 0 \<le> mp_uncertain p \<and>
     mp_succeeded p + mp_failed p + mp_uncertain p \<le> n \<and>
     (if status \<in> {'''', credentialCompensationSucceeded} then mp_succeeded p = 0 \<and> mp_uncertain p = 0
      else if status = credentialCompensationIncomplete then 0 < mp_uncertain p \<and> mp_succeeded p = 0
      else status = credentialCompensationNotSafe \<and> 0 < mp_succeeded p + mp_uncertain p))"

lemma migrateWhen_writes:
  assumes "migrateWhen present msg (credentialMigrationTransaction_put C key owner v) st c = ((st', err), c')"
  shows "mp_succeeded (snd st') - mp_succeeded (snd st) \<le>
    int (length (mt_writes (fst st'))) - int (length (mt_writes (fst st)))"
  using assms
  by (auto simp: migrateWhen_def credentialMigrationTransaction_put_def callE_run addWrite_def Let_def
      split: if_splits prod.splits sum.splits option.splits)

lemma storeMigrations_writes:
  assumes "storeMigrations C ds st c = ((st', err), c')"
  shows "mp_succeeded (snd st') - mp_succeeded (snd st) \<le>
    int (length (mt_writes (fst st'))) - int (length (mt_writes (fst st)))"
  using assms
proof (induction ds arbitrary: st c)
  case (Cons d ds)
  let ?put1 = "migrateWhen (mc_password d \<noteq> '''') (storeFailed ''credential'' (mc_name d))
    (credentialMigrationTransaction_put C (mc_name d) (primaryOwner (mc_name d)) (mc_password d))"
  let ?put2 = "migrateWhen (mc_schemaRegistryPassword d \<noteq> '''') (storeFailed ''schema registry credential'' (mc_name d))
    (credentialMigrationTransaction_put C (mc_name d @ ''/schema-registry'') (schemaRegistryOwner (mc_name d))
      (mc_schemaRegistryPassword d))"
  obtain s1 e1 c1 where put1: "?put1 st c = ((s1, e1), c1)" by (metis prod.collapse)
  obtain s2 e2 c2 where put2: "?put2 s1 c1 = ((s2, e2), c2)" by (metis prod.collapse)
  show ?case
    using Cons.prems Cons.IH [of s2 c2] put1 put2 migrateWhen_writes [OF put1] migrateWhen_writes [OF put2]
    by (auto simp: thenCall_def callE_run split: option.splits)
qed simp

lemma store_progress:
  assumes "storeCredentialMigrationCandidates C b ds c = (((t, p), err), c')"
    and "n = credentialMigrationCredentialCount ds"
  shows "\<exists>s. 0 \<le> s \<and> s \<le> int (length (mt_writes t)) \<and>
    (if err = None then s = n \<and> p = progress_of n 0 0 else s + 1 \<le> n \<and> p = progress_of s 1 0)"
proof -
  have r: "storeMigrations C ds (\<lparr>mt_backend = b, mt_writes = []\<rparr>, no_progress) c = (((t, p), err), c')"
    using assms(1) by (simp add: storeCredentialMigrationCandidates_def)
  show ?thesis
    using storeMigrations_progress [OF r] storeMigrations_writes [OF r] progress_ofI [of p] assms(2)
    by (intro exI [of _ "mp_succeeded p"]) (auto simp: no_progress_def split: if_splits)
qed

definition migration_vars_ok :: "int \<Rightarrow> go_error option \<Rightarrow> 'c migrationVars \<Rightarrow> bool" where
  "migration_vars_ok n err v =
     (case gv_transaction v of
        None \<Rightarrow> err \<noteq> None \<and> failed_ok n (gv_progress v) (gv_status v)
      | Some t \<Rightarrow> if gv_compensated v then err \<noteq> None \<and> failed_ok n (gv_progress v) (gv_status v)
          else gv_progress v = progress_of n 0 0 \<and> gv_status v = '''' \<and> mt_writes t \<noteq> [])"

lemma migration_change_vars:
  assumes "migrationChange K f preChanges spec backend ds toBackend locked w = ((r, v), w')"
    and n: "n = credentialMigrationCredentialCount ds" "0 < n"
  shows "migration_vars_ok n (Some e) v \<and> (\<forall>cfg. r = Inr cfg \<longrightarrow> migration_vars_ok n None v)"
proof -
  have none: "migration_vars_ok n (Some e) no_migrationVars" for e :: go_error
    using n by (simp add: migration_vars_ok_def no_migrationVars_def no_progress_def failed_ok_def)
  obtain b w1 where b: "inWorld (audit (beginMutationAudit (kc_audit K) f spec)) w = (b, w1)" by fastforce
  obtain t p x w2 where s: "inCreds (storeCredentialMigrationCandidates (kc_cred K) backend ds) w1 = (((t, p), x), w2)"
    by (metis surj_pair)
  then obtain s where p: "0 \<le> s" "s \<le> int (length (mt_writes t))"
    "if x = None then s = n \<and> p = progress_of n 0 0 else s + 1 \<le> n \<and> p = progress_of s 1 0"
    using store_progress n(1) by (fastforce simp: inCreds_def zoom_run split: prod.splits)
  obtain st y w3 where c: "inCreds (compensateCredentialMigrationLocked (kc_cred K) locked (Some t)) w2 = ((st, y), w3)"
    by (metis surj_pair)
  then have st: "compensated_with st y \<and> (st = '''' \<longrightarrow> mt_writes t = [])"
    by (auto simp: inCreds_def zoom_run split: prod.splits dest: compensate_migration_status)
  show ?thesis
    using assms(1) b s c none
    by (auto simp: migrationChange_def Let_def split: option.splits sum.splits)
      (use p st n in \<open>auto simp: migration_vars_ok_def no_migrationVars_def failed_ok_def compensated_with_def status_names
        split: if_splits\<close>)
qed


lemma update_migration_vars:
  assumes "Update K no_migrationVars (migrationChange K f preChanges spec backend ds toBackend) w = ((err, v), w')"
    and n: "n = credentialMigrationCredentialCount ds" "0 < n"
  shows "migration_vars_ok n err v"
proof (rule Update_vars [OF _ _ assms(1)])
  show "migration_vars_ok n (Some e) no_migrationVars" for e
    using n by (simp add: migration_vars_ok_def no_migrationVars_def no_progress_def failed_ok_def)
  show "migrationChange K f preChanges spec backend ds toBackend locked u = ((r, y), u') \<Longrightarrow>
      (\<forall>e. migration_vars_ok n (Some e) y) \<and> (\<forall>cfg. r = Inr cfg \<longrightarrow> migration_vars_ok n None y)" for locked u r y u'
    using migration_change_vars [of K f preChanges spec backend ds toBackend locked u r y u', OF _ n] by blast
qed

lemma reconcile_migration_status:
  assumes "reconcileCredentialMigrationFailure K (Some t) (progress_of n 0 0) ds backendName w = ((p, status, err), w')"
    and t: "mt_writes t \<noteq> []" and n: "0 < n"
  shows "failed_ok n p status"
proof -
  let ?P = "\<lambda>e (c :: bool, st, q). if st = '''' then q = progress_of n 0 0 \<and> e \<noteq> (None :: go_error option)
    else failed_ok n q st \<and> (c \<longrightarrow> st = credentialCompensationNotSafe)"
  have ends: "failed_ok n (progress_of 0 0 n) credentialCompensationNotSafe"
    "failed_ok n (progress_of 0 0 n) credentialCompensationIncomplete"
    "failed_ok n (progress_of n 0 0) credentialCompensationNotSafe" "failed_ok n (progress_of 0 n 0) credentialCompensationSucceeded"
    using n by (simp_all add: failed_ok_def status_names)
  have distinct_status: "credentialCompensationNotSafe \<noteq> ''''" "credentialCompensationIncomplete \<noteq> ''''"
    "credentialCompensationSucceeded \<noteq> ''''" "credentialCompensationIncomplete \<noteq> credentialCompensationSucceeded"
    "credentialCompensationNotSafe \<noteq> credentialCompensationSucceeded"
    by (simp_all add: status_names)
  obtain e c st q w1 where l: "withContextStoreLock K (False, '''', progress_of n 0 0)
      (reconcileMigration K (Some t) (progress_of n 0 0) ds backendName) w = ((e, c, st, q), w1)"
    by (metis surj_pair)
  have "?P e (c, st, q)"
  proof (rule lock_vars [OF _ _ l])
    show "?P (Some e) (False, '''', progress_of n 0 0)" for e by simp
    show "?P e y \<and> (\<forall>e'. ?P (Some e') y)"
      if "reconcileMigration K (Some t) (progress_of n 0 0) ds backendName locked u = ((e, y), u')" for locked u e y u'
    proof -
      obtain s x u1 where c: "inCreds (compensateCredentialMigrationLocked (kc_cred K) locked (Some t)) u = ((s, x), u1)"
        by (metis surj_pair)
      then have s: "compensated_with s x" "s \<noteq> ''''"
        using t by (auto simp: inCreds_def zoom_run split: prod.splits dest!: compensate_migration_status)
      have "s = credentialCompensationSucceeded \<and> x = None \<or>
          (s = credentialCompensationIncomplete \<or> s = credentialCompensationNotSafe) \<and> x \<noteq> None"
        using s by (auto simp: compensated_with_def split: if_splits)
      then show ?thesis
        using that unfolding reconcileMigration_def c
        by (elim disjE conjE; cases "credentialMigrationConfigState (kc_cred K) locked ds backendName")
          (auto simp: ends distinct_status split: if_splits)
    qed
  qed
  then have q: "st = '''' \<Longrightarrow> q = progress_of n 0 0 \<and> e \<noteq> None" "st \<noteq> '''' \<Longrightarrow> failed_ok n q st"
    "st \<noteq> '''' \<Longrightarrow> c \<Longrightarrow> st = credentialCompensationNotSafe" by (simp_all split: if_splits)
  note run = assms(1) [unfolded reconcileCredentialMigrationFailure_def l prod.case]
  show ?thesis
  proof (cases "st = ''''")
    case True
    then obtain x where "e = Some x" "q = progress_of n 0 0" using q(1) by blast
    then show ?thesis using run True ends by simp
  next
    case False
    then show ?thesis using run q(2,3) by (cases e) (auto split: if_splits)
  qed
qed

definition migration_outcome_ok :: "int \<Rightarrow> credentialMigrationProgress \<Rightarrow> string \<Rightarrow> go_error option \<Rightarrow> bool" where
  "migration_outcome_ok n p status err =
     (if err = None then p = progress_of n 0 0 \<and> status = '''' else failed_ok n p status)"

lemma settle_migration_outcome:
  assumes "migration_vars_ok n err0 v" and "settleMigration K ds toBackend n err0 v w = ((p, status, err), w')" and "0 < n"
  shows "migration_outcome_ok n p status err"
proof (cases err0)
  case None
  then have "gv_progress v = progress_of n 0 0" "gv_status v = ''''"
    using assms(1) by (auto simp: migration_vars_ok_def split: option.splits if_splits)
  then show ?thesis
    using None assms(2) by (auto simp: settleMigration_def migration_outcome_ok_def progress_of_def)
next
  case (Some e)
  show ?thesis
  proof (cases "gv_transaction v = None \<or> gv_compensated v")
    case True
    then show ?thesis
      using assms Some by (auto simp: settleMigration_def migration_vars_ok_def migration_outcome_ok_def split: option.splits)
  next
    case False
    then obtain t where t: "gv_transaction v = Some t" "\<not> gv_compensated v" by auto
    then have v: "gv_progress v = progress_of n 0 0" "mt_writes t \<noteq> []" using assms(1) by (simp_all add: migration_vars_ok_def)
    obtain q st re w1 where r: "reconcileCredentialMigrationFailure K (Some t) (progress_of n 0 0) ds toBackend w = ((q, st, re), w1)"
      by (metis surj_pair)
    then show ?thesis
      using assms(2) Some t v reconcile_migration_status [OF r v(2) assms(3)]
      by (auto simp: settleMigration_def migration_outcome_ok_def split: option.splits)
  qed
qed

lemma migration_outcome_consistent:
  assumes "migration_outcome_ok n p status err" and "0 < n"
  shows "compensation_consistent (credentialMigrationOutcome n p status err) err"
  using assms
  by (cases err)
    (auto simp: compensation_consistent_def credentialMigrationOutcome_def migration_outcome_ok_def failed_ok_def
      status_consistent_def counts_nonneg_def no_error_fields_def empty_outcome_def validMutationCompensationStatus_def
      validateMutationSpoolCompensation_def status_names Let_def split: if_splits)

lemma migration_outcome_total:
  assumes "migration_outcome_ok n p status err" and "0 < n" and "n < 2 ^ 63"
  shows "outcome_total (normalizeMutationAuditOutcome asApp (credentialMigrationOutcome n p status err) err) = n"
proof -
  have "mp_succeeded p + mp_failed p + mp_uncertain p \<le> n"
    using assms(1) by (auto simp: migration_outcome_ok_def failed_ok_def split: if_splits)
  moreover have "oc_counted (credentialMigrationOutcome n p status err)"
    by (simp add: credentialMigrationOutcome_def Let_def)
  ultimately show ?thesis
    using assms(2,3) by (simp add: normalize_total) (simp add: outcome_total_def credentialMigrationOutcome_def empty_outcome_def Let_def)
qed

end
