(* ===== verification/Context_Demo.thy ===== *)
theory Context_Demo
  imports Context_Laws Context_Outcomes Command_Demo
begin

text \<open>
  A concrete machine for the commands of contexts: a context store that is the list of what was saved, a
  credential store that is an association list, and one that fails on some keys. The properties of theory
  Context_Properties are instantiated on it.
\<close>

section \<open>Credentials\<close>

definition demo_missing :: go_error where "demo_missing = OtherError ''not found''"

definition demo_backend :: "(string \<Rightarrow> bool) \<Rightarrow> string \<Rightarrow> (string \<times> string) list Backend" where
  "demo_backend broken name = \<lparr>bk_Name = name, bk_Available = ret (),
     bk_Get = (\<lambda>k c. (case map_of c k of None \<Rightarrow> (Inl demo_missing, c) | Some v \<Rightarrow> (Inr v, c))),
     bk_Put = (\<lambda>k v c. if broken k then (Inl other_backend, c) else (Inr (), alist_put k v c)),
     bk_Delete = (\<lambda>k c. (Inr (), alist_del k c))\<rparr>"

definition demo_cred :: "(string \<Rightarrow> bool) \<Rightarrow> (string \<times> string) list cred_env" where
  "demo_cred broken = \<lparr>cr_parseRef = (\<lambda>s. if has_prefix s ''ref:'' then Some (drop 4 s) else None),
     cr_encodeRef = (\<lambda>n. ''ref:'' @ n), cr_new = (\<lambda>n. Inr (demo_backend broken n)),
     cr_newVault = (\<lambda>_. demo_backend broken ''vault''), cr_requireSecure = (\<lambda>_ _. None),
     cr_availableNames = [''keychain''], cr_isNotFound = (\<lambda>e. e = demo_missing), cr_parseURL = (\<lambda>_. None),
     cr_parseIP = (\<lambda>_. None), cr_escapedPath = (\<lambda>s. s)\<rparr>"

definition demo_view :: "(string \<times> string) list slot_view" where
  "demo_view slot c = (if slot = storeSlot ''keychain'' (sl_key slot) then map_of c (sl_key slot) else None)"

lemma demo_backed: "backed (demo_cred broken) demo_view (demo_backend broken ''keychain'') key (storeSlot ''keychain'' key)"
proof -
  have slot: "s = storeSlot ''keychain'' (sl_key s) \<Longrightarrow> s \<noteq> storeSlot ''keychain'' key \<Longrightarrow> sl_key s \<noteq> key" for s by metis
  show ?thesis
    by (auto simp: backed_def demo_backend_def demo_cred_def demo_view_def storeSlot_def other_backend_def demo_missing_def
        split: option.splits if_splits dest: slot [unfolded storeSlot_def])
qed

lemma demo_refs: "ref_contract (demo_cred broken)"
  by (simp add: ref_contract_def demo_cred_def has_prefix_def)

section \<open>Contexts\<close>

definition demo_config :: Config where
  "demo_config = \<lparr>cf_CurrentContext = '''', cf_Contexts = [(''dev'', no_context\<lparr>cx_Backend := ''kafka''\<rparr>),
     (''prod'', no_context\<lparr>cx_Backend := ''kafka'', cx_Protected := True\<rparr>)]\<rparr>"

definition demo_store :: "Config list context_store" where
  "demo_store = \<lparr>st_Load = (\<lambda>s. (Inr (last s), s)), st_begin = (\<lambda>s. (Inr (last s), s)),
     st_commit = (\<lambda>cfg s. (Inr (), s @ [cfg])), st_abandon = (\<lambda>s. s), st_lock = (\<lambda>s. (Inr (), s)),
     st_unlock = (\<lambda>s. (Inr (), s))\<rparr>"

definition demo_ctl_env :: "(safeAuditRecord list, fake, Config list, (string \<times> string) list) ctl_env" where
  "demo_ctl_env = \<lparr>kc_cmd = demo_live, kc_cred = demo_cred (\<lambda>_. False), kc_store = demo_store,
     kc_configDir = Inr ''/home'', kc_errorText = (\<lambda>_. ''error''), kc_jsonContext = (\<lambda>_. JNull),
     kc_eventContextImport = ''context.import'', kc_eventRoleAssign = ''role.assign'',
     kc_eventRoleRevoke = ''role.revoke'', kc_isDir = (\<lambda>_. Inr False), kc_unmarshal = (\<lambda>_. Inl other_backend)\<rparr>"

definition demo_ctl :: "(safeAuditRecord list, fake, Config list, (string \<times> string) list) ctl" where
  "demo_ctl = \<lparr>ct_world = demo_world, ct_store = [demo_config], ct_creds = []\<rparr>"

definition change_flags :: cliFlags where
  "change_flags = demo_flags\<lparr>fl_AllowContextChange := True\<rparr>"

lemma demo_contracts_ctl: "store_contract (kc_store demo_ctl_env) id" "append_contract (kc_audit demo_ctl_env) id"
  by (simp_all add: store_contract_def demo_ctl_env_def demo_store_def kc_audit_def demo_live_def demo_cmd_def demo_contract)

text \<open>The run of \<open>ctx use prod\<close> on this machine saves the configuration with another current context.\<close>

lemma demo_used: "\<exists>r w'. run_context demo_ctl_env change_flags (Ctx_Use ''prod'') demo_ctl = (r, w') \<and>
    ct_store w' = [demo_config, demo_config\<lparr>cf_CurrentContext := ''prod''\<rparr>]"
proof -
  let ?K = demo_ctl_env and ?f = change_flags
  let ?prod = "no_context\<lparr>cx_Backend := ''kafka'', cx_Protected := True\<rparr>"
  let ?pol = "\<lparr>cp_meta = ?prod, cp_source = ''prod'', cp_targetExists = True\<rparr>"
  let ?spec = "controlSpec ''mq.ctx.use'' ''prod'' ?prod (contextTarget ''prod'') (mutationPayloadMetadata ''mq.ctx.use'' ''prod'')"
  have env: "kc_audit ?K = demo_env" "ce_su (kc_cmd ?K) = demo_su"
    by (simp_all add: kc_audit_def demo_ctl_env_def demo_live_def demo_cmd_def ce_su_def demo_env_def)
  have roles: "validatePersistedRoles demo_config = None"
    "validatePersistedRoles (demo_config\<lparr>cf_CurrentContext := ''prod''\<rparr>) = None" by code_simp+
  have pol: "map_of (cf_Contexts demo_config) ''prod'' = Some ?prod" "contextUsePreChangePolicy demo_config ''prod'' = Inr ?pol"
    "ensureContextUsePolicyUnchanged demo_config ''prod'' ?pol = None" "\<not> contextPlanOnly ?f"
    by code_simp+
  obtain operator where op: "trustedOperatorIdentity demo_su ?f = Inr operator"
  proof -
    have "\<not> isl (trustedOperatorIdentity demo_su ?f)" by code_simp
    then show thesis using that by (cases "trustedOperatorIdentity demo_su ?f") auto
  qed
  have granted: "ce_authorize (kc_cmd ?K) n R3 (controlOptions ?f ''prod'' ?pol allowContextChange operator) = None" for n
    by (simp add: demo_ctl_env_def demo_live_def demo_cmd_def gate_def controlOptions_def grantedAllowFlags_def change_flags_def)
  let ?w1 = "demo_ctl\<lparr>ct_world := demo_world\<lparr>wo_asks := Suc (wo_asks demo_world)\<rparr>\<rparr>"
  have start: "ct_store demo_ctl = [demo_config]" "ct_world demo_ctl = demo_world" "wo_aud demo_world = demo_aud"
    by (simp_all add: demo_ctl_def demo_world_def)
  have store: "kc_store ?K = demo_store" by (simp add: demo_ctl_env_def)
  have load: "loadContexts ?K demo_ctl = (Inr demo_config, demo_ctl)"
    by (simp add: loadContexts_def tryE_run inStore_def zoom_run store demo_store_def start Load_def roles)
  have auth: "inWorld (authorizeContextControl (kc_cmd ?K) ?f ''prod'' ?pol allowContextChange) demo_ctl = (Inr (), ?w1)"
    by (simp add: inWorld_def zoom_run authorizeContextControl_def env op seqE_run granted start)
  have "trim_space (sp_Action ?spec) \<noteq> ''''" by code_simp
  moreover have "resolveAuditPath demo_env ?spec = Inr ''/log''"
    by (simp add: resolveAuditPath_def controlSpec_def demo_env_def)
  ultimately obtain h a' where b: "beginMutationAudit demo_env ?f ?spec demo_aud = (Inr h, a')"
    using begin_works [OF demo_works demo_ready] by blast
  let ?new = "demo_config\<lparr>cf_CurrentContext := ''prod''\<rparr>"
  let ?w2 = "demo_ctl\<lparr>ct_world := demo_world\<lparr>wo_asks := Suc (wo_asks demo_world), wo_aud := a'\<rparr>\<rparr>"
  have started: "inStore (st_begin demo_store) ?w1 = (Inr demo_config, ?w1)"
    by (simp add: inStore_def zoom_run demo_store_def start)
  have intent: "inWorld (audit (beginMutationAudit demo_env ?f ?spec)) ?w1 = (Inr h, ?w2)"
    by (simp add: inWorld_def audit_def zoom_run start b)
  have committed: "inStore (st_commit demo_store ?new) ?w2 = (Inr (), ?w2\<lparr>ct_store := [demo_config, ?new]\<rparr>)"
    by (simp add: inStore_def zoom_run demo_store_def start)
  have change: "Update ?K None (auditedChange ?K ?f (\<lambda>locked. ensureContextUsePolicyUnchanged locked ''prod'' ?pol) ?spec
      (\<lambda>locked. locked\<lparr>cf_CurrentContext := ''prod''\<rparr>)) ?w1 = ((None, Some h), ?w2\<lparr>ct_store := [demo_config, ?new]\<rparr>)"
    by (simp add: Update_def auditedChange_def started intent committed store roles pol env)
  have kept: "ct_store (snd (inWorld m w)) = ct_store w" for m :: "(safeAuditRecord list, fake, unit) cmd" and w :: "(safeAuditRecord list, fake, Config list, (string \<times> string) list) ctl"
    by (simp add: inWorld_def zoom_run split: prod.split)
  obtain r w3 where f: "inWorld (audit (finishMutationAudit demo_env ?f h empty_outcome None)) (?w2\<lparr>ct_store := [demo_config, ?new]\<rparr>) = (r, w3)"
    by fastforce
  have w3: "ct_store w3 = [demo_config, ?new]"
    using kept [of "audit (finishMutationAudit demo_env ?f h empty_outcome None)" "?w2\<lparr>ct_store := [demo_config, ?new]\<rparr>"] f by simp
  have ended: "controlChange ?K ?f (\<lambda>locked. ensureContextUsePolicyUnchanged locked ''prod'' ?pol) ?spec
      (\<lambda>locked. locked\<lparr>cf_CurrentContext := ''prod''\<rparr>) ?w1 = (case finishReturn r None of None \<Rightarrow> Inr () | Some e \<Rightarrow> Inl e, w3)"
    by (simp add: controlChange_def callE_run change concludeControl_def env tryE_run f check_def split: option.split)
  have "ct_store (snd (ctxUseCmd ?K ?f ''prod'' demo_ctl)) = [demo_config, ?new]"
    using w3 ended auth load pol kept
    by (auto simp: ctxUseCmd_def seqE_run printJSONData_def split: option.splits)
  then show ?thesis by (metis prod.collapse run_context.simps(2))
qed

end
