(* ===== verification/Context_Import_Demo.thy ===== *)
theory Context_Import_Demo
  imports Context_Demo
begin

text \<open>
  The import of one context on the machine of theory Context_Demo, up to the configuration that it saves and the
  credentials that it stores.
\<close>

text \<open>The machine with other files.\<close>

definition import_env ::
  "(string \<Rightarrow> go_error + string) \<Rightarrow> (string \<Rightarrow> go_error + contextExportDocument) \<Rightarrow>
   (safeAuditRecord list, fake, Config list, (string \<times> string) list) ctl_env" where
  "import_env rd un = demo_ctl_env\<lparr>kc_unmarshal := un, kc_cmd := (kc_cmd demo_ctl_env)\<lparr>ce_readFile := rd\<rparr>\<rparr>"

lemma import_env_fields:
  "kc_audit (import_env rd un) = demo_env" "ce_su (kc_cmd (import_env rd un)) = demo_su"
  "kc_store (import_env rd un) = demo_store" "kc_cred (import_env rd un) = demo_cred (\<lambda>_. False)"
  "kc_unmarshal (import_env rd un) = un" "ce_readFile (kc_cmd (import_env rd un)) = rd"
  "kc_isDir (import_env rd un) p = Inr False" "ce_authorize (kc_cmd (import_env rd un)) = gate"
  by (simp_all add: import_env_def kc_audit_def demo_ctl_env_def demo_live_def demo_cmd_def ce_su_def demo_env_def)

lemma import_contracts: "store_contract (kc_store (import_env rd un)) id" "append_contract (kc_audit (import_env rd un)) id"
  "ref_contract (kc_cred (import_env rd un))"
  using demo_contracts_ctl demo_refs by (simp_all add: import_env_fields) (simp_all add: demo_ctl_env_def demo_contract)

lemma kept_in_world:
  "ct_store (snd (inWorld m w)) = ct_store w" "ct_creds (snd (inWorld m w)) = ct_creds w"
  by (simp_all add: inWorld_def zoom_run split: prod.split)

lemma demo_importing:
  assumes doc: "readContextExportDocument (import_env rd un) (io_file io) = Inr doc" "io_file io \<noteq> ''''"
      "cd_Contexts doc = []" "cd_Context doc = Some given"
    and name: "firstNonEmpty [io_rename io, cd_Name doc] = name" "name \<noteq> ''''" "map_of (cf_Contexts demo_config) name = None"
    and plan: "clearRedactedImportedCredentials given = (redacted, item0)"
      "planContextImportCredential (demo_cred (\<lambda>_. False)) name item0 = Inr (candidate, item1)"
      "validateContextDefinition item1 = Inr item"
    and roles: "validatePersistedRoles (demo_config\<lparr>cf_Contexts := overlay (cf_Contexts demo_config) [(name, item)]\<rparr>) = None"
    and keys: "validateContextImportCredentialKeySet (demo_cred (\<lambda>_. False)) demo_config [(name, item)] = None"
    and candidates: "validateContextImportCredentialCandidates [candidate] [] = (Inr (), [])"
    and stored: "storeContextImportCredentials (demo_cred (\<lambda>_. False)) [candidate] [] = ((transaction, None), creds)"
  shows "\<exists>r w'. run_context (import_env rd un) change_flags (Ctx_Import io) demo_ctl = (r, w') \<and>
    ct_store w' = [demo_config, demo_config\<lparr>cf_Contexts := overlay (cf_Contexts demo_config) [(name, item)]\<rparr>] \<and> ct_creds w' = creds"
proof -
  let ?K = "import_env rd un" and ?f = change_flags and ?C = "demo_cred (\<lambda>_. False)"
  let ?new = "demo_config\<lparr>cf_Contexts := overlay (cf_Contexts demo_config) [(name, item)]\<rparr>"
  let ?pol = "\<lparr>cp_meta = no_context, cp_source = '''', cp_targetExists = False\<rparr>"
  let ?spec = "controlSpec ''mq.ctx.import'' name no_context (contextTarget name)
    ((valueMetadata ''mq.ctx.import'' (kc_jsonContext ?K item))\<lparr>md_Items := 1\<rparr>)"
  note env = import_env_fields
  have roles0: "validatePersistedRoles demo_config = None" by code_simp
  have current: "cf_CurrentContext demo_config = ''''" by (simp add: demo_config_def)
  have pol: "contextPreChangePolicy demo_config name = Inr ?pol" using name(3) current by (simp add: contextPreChangePolicy_def)
  have "sameContextControlPolicy ?pol ?pol" by code_simp
  then have recheck: "ensureContextPolicyUnchanged demo_config name ?pol = None"
    using pol by (simp add: ensureContextPolicyUnchanged_def unchangedPolicy_def)
  have plan_only: "\<not> contextPlanOnly ?f" by code_simp
  obtain operator where op: "trustedOperatorIdentity demo_su ?f = Inr operator"
  proof -
    have "\<not> isl (trustedOperatorIdentity demo_su ?f)" by code_simp
    then show thesis using that by (cases "trustedOperatorIdentity demo_su ?f") auto
  qed
  have granted: "ce_authorize (kc_cmd ?K) n R3 (controlOptions ?f name ?pol allowContextChange operator) = None" for n
    by (simp add: env gate_def controlOptions_def grantedAllowFlags_def change_flags_def)
  let ?w1 = "demo_ctl\<lparr>ct_world := demo_world\<lparr>wo_asks := Suc (wo_asks demo_world)\<rparr>\<rparr>"
  have start: "ct_store demo_ctl = [demo_config]" "ct_world demo_ctl = demo_world" "wo_aud demo_world = demo_aud" "ct_creds demo_ctl = []"
    by (simp_all add: demo_ctl_def demo_world_def)
  have load: "loadContexts ?K demo_ctl = (Inr demo_config, demo_ctl)"
    by (simp add: loadContexts_def tryE_run inStore_def zoom_run env demo_store_def start Load_def roles0)
  have auth: "inWorld (authorizeContextControl (kc_cmd ?K) ?f name ?pol allowContextChange) demo_ctl = (Inr (), ?w1)"
    by (simp add: inWorld_def zoom_run authorizeContextControl_def env(2) op seqE_run granted start)
  have checked: "inCreds (validateContextImportCredentialCandidates [candidate]) ?w1 = (Inr (), ?w1)"
    by (simp add: inCreds_def zoom_run start candidates)
  have "trim_space (sp_Action ?spec) \<noteq> ''''" by (simp add: controlSpec_def) code_simp
  moreover have "resolveAuditPath demo_env ?spec = Inr ''/log''" by (simp add: resolveAuditPath_def controlSpec_def demo_env_def)
  ultimately obtain h a' where b: "beginMutationAudit demo_env ?f ?spec demo_aud = (Inr h, a')"
    using begin_works [OF demo_works demo_ready] by blast
  let ?w2 = "demo_ctl\<lparr>ct_world := demo_world\<lparr>wo_asks := Suc (wo_asks demo_world), wo_aud := a'\<rparr>\<rparr>"
  have started: "inStore (st_begin demo_store) ?w1 = (Inr demo_config, ?w1)"
    by (simp add: inStore_def zoom_run demo_store_def start)
  have intent: "inWorld (audit (beginMutationAudit demo_env ?f ?spec)) ?w1 = (Inr h, ?w2)"
    by (simp add: inWorld_def audit_def zoom_run start b)
  have put: "inCreds (storeContextImportCredentials ?C [candidate]) ?w2 = ((transaction, None), ?w2\<lparr>ct_creds := creds\<rparr>)"
    by (simp add: inCreds_def zoom_run start stored)
  let ?w3 = "?w2\<lparr>ct_creds := creds, ct_store := [demo_config, ?new]\<rparr>"
  have committed: "inStore (st_commit demo_store ?new) (?w2\<lparr>ct_creds := creds\<rparr>) = (Inr (), ?w3)"
    by (simp add: inStore_def zoom_run demo_store_def start)
  obtain v where change: "Update ?K no_vars (importChange ?K ?f (\<lambda>locked. ensureContextPolicyUnchanged locked name ?pol) [(name, item)] ?spec
      [candidate] importCompensationError) ?w1 = ((None, v), ?w3)" and v: "iv_handle v = Some h"
    by (simp add: Update_def importChange_def started intent put committed env(1,3,4) roles0 roles recheck keys Let_def)
  obtain r w3 where f: "inWorld (audit (finishMutationAudit demo_env ?f h (contextImportOutcome (int (length [(name, item)]))
      (iv_status v) (iv_uncertain v) None) None)) ?w3 = (r, w3)"
    by fastforce
  have w3: "ct_store w3 = [demo_config, ?new]" "ct_creds w3 = creds"
    using kept_in_world [of "audit (finishMutationAudit demo_env ?f h (contextImportOutcome (int (length [(name, item)]))
      (iv_status v) (iv_uncertain v) None) None)" ?w3] f by simp_all
  have ended: "snd (importContexts ?K ?f (\<lambda>locked. ensureContextPolicyUnchanged locked name ?pol) [(name, item)] ?spec
      [candidate] importCompensationError ?w1) = w3"
    using f by (simp add: importContexts_def callE_run change settleImport_def concludeControl_def v env(1) tryE_run check_def split: option.split)
  have finished: "ct_store (snd (seqE (importContexts ?K ?f (\<lambda>locked. ensureContextPolicyUnchanged locked name ?pol) [(name, item)] ?spec
      [candidate] importCompensationError) t ?w1)) = [demo_config, ?new] \<and>
     ct_creds (snd (seqE (importContexts ?K ?f (\<lambda>locked. ensureContextPolicyUnchanged locked name ?pol) [(name, item)] ?spec
      [candidate] importCompensationError) t ?w1)) = creds"
    if "\<And>x w. ct_store (snd (t x w)) = ct_store w \<and> ct_creds (snd (t x w)) = ct_creds w"
    for t :: "unit \<Rightarrow> (safeAuditRecord list, fake, Config list, (string \<times> string) list) ctl \<Rightarrow> (go_error + unit) \<times> _"
    using that w3 ended by (auto simp: seqE_run split: prod.split sum.split)
  have shown: "ct_store (snd (printJSONData ?K ?f kind d w)) = ct_store w \<and> ct_creds (snd (printJSONData ?K ?f kind d w)) = ct_creds w"
    for kind d and w :: "(safeAuditRecord list, fake, Config list, (string \<times> string) list) ctl"
    by (simp add: printJSONData_def kept_in_world)
  have tail: "ct_store (snd (seqE (inWorld m) (\<lambda>_. if b then inWorld m' else ret ()) w)) = ct_store w \<and>
      ct_creds (snd (seqE (inWorld m) (\<lambda>_. if b then inWorld m' else ret ()) w)) = ct_creds w"
    for b and m m' :: "(safeAuditRecord list, fake, unit) cmd"
      and w :: "(safeAuditRecord list, fake, Config list, (string \<times> string) list) ctl"
  proof -
    obtain r u where m: "inWorld m w = (r, u)" by fastforce
    have "ct_store u = ct_store w" "ct_creds u = ct_creds w" using kept_in_world [of m w] m by simp_all
    then show ?thesis using m by (cases r) (simp_all add: seqE_run kept_in_world)
  qed
  have "ct_store (snd (runCtxImportOne ?K ?f doc io demo_ctl)) = [demo_config, ?new] \<and>
      ct_creds (snd (runCtxImportOne ?K ?f doc io demo_ctl)) = creds"
    using finished [of "\<lambda>_. if fl_Output ?f = ''json''
               then printJSONData ?K ?f ''ContextImportResult'' [(''name'', JStr name), (''names'', JArr [JStr name]),
                      (''count'', JNum 1), (''credentialRedacted'', JBool redacted)]
               else
                 seqE (inWorld (printed (kc_cmd ?K) (Out_Success (newPrinter ?f)
                        (''context '' @ go_quote name @ '' imported'')))) (\<lambda>_.
                 if redacted
                 then inWorld (printed (kc_cmd ?K) (Out_Info (newPrinter ?f) (''credential is redacted; run: mqgov ctx set ''
                        @ name @ '' with a credential backend'')))
                 else ret ())"] shown tail
    by (simp only: runCtxImportOne_def doc(4) option.case Let_def name(1) plan(1) prod.case)
      (simp add: name plan pol plan_only load auth checked seqE_run [of "liftE _"] seqE_run [of "loadContexts _"]
        seqE_run [of "inWorld (authorizeContextControl _ _ _ _ _)"] seqE_run [of "inCreds _"] env(4) Let_def)
  then have "ct_store (snd (runCtxImport ?K ?f io demo_ctl)) = [demo_config, ?new] \<and> ct_creds (snd (runCtxImport ?K ?f io demo_ctl)) = creds"
    by (simp add: runCtxImport_def doc seqE_run [of "liftE _"])
  then show ?thesis by (metis prod.collapse run_context.simps(6))
qed

end
