(* ===== verification/Context_Refused.thy ===== *)
theory Context_Refused
  imports Context_Laws
begin

text \<open>
  A command of contexts that is refused its authorization saves nothing: the authorization stands before every change,
  also where the change turns out to change no context.
\<close>

definition refuses :: "('l, 'b) cmd_env \<Rightarrow> cliFlags \<Rightarrow> string \<Rightarrow> bool" where
  "refuses E f allow = (\<forall>n name policy operator. ce_authorize E n R3 (controlOptions f name policy allow operator) \<noteq> None)"

lemma refused_authorize:
  assumes "refuses E f allow"
  shows "isl (fst (inWorld (authorizeContextControl E f name policy allow) w))"
proof (cases "inWorld (authorizeContextControl E f name policy allow) w")
  case (Pair r w')
  have "\<not> control_approved E f name policy allow n" for n using assms by (simp add: refuses_def control_approved_def)
  then show ?thesis using control_granted [of E f name policy allow w _ w'] Pair by (cases r) auto
qed

lemma fails_first: "isl (fst (m w)) \<Longrightarrow> isl (fst (seqE m g w))"
  by (auto simp: seqE_run split: prod.split sum.split)

lemma refused_each:
  assumes "refuses E f allow" and "ps \<noteq> []"
  shows "isl (fst (forEachE (\<lambda>p. inWorld (authorizeContextControl E f (nm p) (pol p) allow)) ps w))"
  using assms(2) by (cases ps) (auto intro: fails_first refused_authorize [OF assms(1)])

lemma refused_migrations:
  assumes "refuses (kc_cmd K) f allowContextChange" and "ds \<noteq> []"
  shows "isl (fst (authorizeMigrations K f cfg ds w))"
proof (cases ds)
  case (Cons d rest)
  then show ?thesis
    using fails_first [OF refused_authorize [OF assms(1)]]
    by (cases "contextPreChangePolicy cfg (mc_name d)") (simp_all add: seqE_run [of "liftE _"])
qed (use assms in simp)

text \<open>What follows a step that fails is not run.\<close>

lemma still_refused:
  assumes "still.keeps obs saves m" and "\<And>w. isl (fst (m w))"
  shows "still.keeps obs saves (seqE m g)"
  unfolding still.keeps_def
proof
  fix w
  obtain e w' where "m w = (Inl e, w')" using assms(2) [of w] by (cases "m w") (auto simp: isl_def)
  then show "calm obs saves w (snd (seqE m g w))" using still.keepsD [OF assms(1)] by (simp add: seqE_run)
qed

lemma planned_many: "planImports C cfg force xs = Inr planned \<Longrightarrow> planned = [] \<longleftrightarrow> xs = []"
  by (cases "(C, cfg, force, xs)" rule: planImports.cases) (auto simp: Let_def split: sum.splits prod.splits if_splits)


lemma refused_stop:
  assumes "append_contract (ce_audit E) obs" and "refuses E f allow"
  shows "still.keeps obs saves (seqE (inWorld (authorizeContextControl E f name policy allow)) g)"
  by (rule still_refused [OF calm_authorize [OF assms(1)] refused_authorize [OF assms(2)]])

lemma refused_import:
  assumes s: "store_contract (kc_store K) saves" and l: "append_contract (kc_audit K) obs"
    and refused: "refuses (kc_cmd K) f allowContextChange"
  shows "still.keeps obs saves (runCtxImport K f opts)"
proof -
  have ac: "append_contract (ce_audit (kc_cmd K)) obs" using l by (simp add: kc_audit_def)
  note stop = refused_stop [OF ac refused]
  note rules = still.keeps_lifted still.keeps_rules calm_load [OF s] calm_warn [OF l] calm_printed_data calm_printed calm_forEach
  have one: "still.keeps obs saves (runCtxImportOne K f doc opts)" for doc
    unfolding runCtxImportOne_def Let_def by (intro stop rules)
  have many: "still.keeps obs saves (runCtxImportMany K f doc opts)" if "cd_Contexts doc \<noteq> []" for doc
  proof -
    have each: "still.keeps obs saves (seqE (forEachE (\<lambda>p. inWorld (authorizeContextControl (kc_cmd K) f (pm_name p)
        (pm_preChange p) allowContextChange)) planned) g)"
      if "planImports (kc_cred K) cfg (io_force opts) (sorted_entries (cd_Contexts doc)) = Inr planned"
      for cfg planned and g :: "_ \<Rightarrow> (_, unit) op"
    proof (rule still_refused [OF calm_forEach [OF calm_authorize [OF ac]]])
      have "planned \<noteq> []" using planned_many [OF that] \<open>cd_Contexts doc \<noteq> []\<close>
        by (metis set_empty sorted_entries_facts(1))
      then show "isl (fst (forEachE (\<lambda>p. inWorld (authorizeContextControl (kc_cmd K) f (pm_name p)
        (pm_preChange p) allowContextChange)) planned w))" for w by (rule refused_each [OF refused])
    qed
    show ?thesis unfolding runCtxImportMany_def Let_def by (intro each rules)
  qed
  show ?thesis unfolding runCtxImport_def by (intro one many rules)
qed

lemma refused_commands_save_nothing:
  assumes s: "store_contract (kc_store K) saves" and l: "append_contract (kc_audit K) obs"
    and refused: "refuses (kc_cmd K) f (control_flag c)"
  shows "still.keeps obs saves (run_context K f c)"
proof -
  have ac: "append_contract (ce_audit (kc_cmd K)) obs" using l by (simp add: kc_audit_def)
  have checked: "still.keeps obs saves (check e)" for e by (auto simp: check_def intro!: still.keeps_rules)
  have result: "still.keeps obs saves (printCredentialMigrationResult K f r)" for r
    by (auto simp: printCredentialMigrationResult_def intro!: calm_printed_data calm_printed)
  note stop = refused_stop [OF ac refused]
  note rules = still.keeps_lifted still.keeps_rules calm_load [OF s] calm_warn [OF l] calm_printed_data calm_printed checked calm_forEach result
  have reading: "still.keeps obs saves (run_context K f c)" if "control_actions c = []"
    unfolding still.keeps_def
  proof
    fix w
    show "calm obs saves w (snd (run_context K f c w))"
      using context_command_governed [OF s l, of f c w] that by (auto simp: saved_def calm_def intent_between_def)
  qed
  show ?thesis
  proof (cases c)
    case (Ctx_Set name opts)
    note stop = stop [unfolded Ctx_Set control_flag.simps]
    show ?thesis
      unfolding Ctx_Set run_context.simps ctxSetCmd_def printContextControlPlan_def by (intro stop rules)
  next
    case (Ctx_Use name)
    note stop = stop [unfolded Ctx_Use control_flag.simps]
    show ?thesis
      unfolding Ctx_Use run_context.simps ctxUseCmd_def printContextControlPlan_def by (intro stop rules)
  next
    case (Ctx_Delete name)
    note stop = stop [unfolded Ctx_Delete control_flag.simps]
    show ?thesis
      unfolding Ctx_Delete run_context.simps ctxDeleteCmd_def printContextControlPlan_def by (intro stop rules)
  next
    case (Ctx_Role_Set name opts)
    note stop = stop [unfolded Ctx_Role_Set control_flag.simps]
    show ?thesis
      unfolding Ctx_Role_Set run_context.simps runCtxRoleSet_def appendRoleAuditWarn_def Let_def by (intro stop rules)
  next
    case (Ctx_Role_Unset name opts)
    note stop = stop [unfolded Ctx_Role_Unset control_flag.simps]
    show ?thesis
      unfolding Ctx_Role_Unset run_context.simps runCtxRoleUnset_def appendRoleAuditWarn_def Let_def by (intro stop rules)
  next
    case (Ctx_Migrate opts)
    note refused = refused [unfolded Ctx_Migrate control_flag.simps]
    have stop: "still.keeps obs saves (seqE (authorizeMigrations K f cfg ds) g)" if "ds \<noteq> []" for cfg ds and g :: "_ \<Rightarrow> (_, unit) op"
      using that by (intro still_refused calm_migrations [OF ac] refused_migrations [OF refused])
    show ?thesis
      unfolding Ctx_Migrate run_context.simps runCtxMigrateCredentials_def appendCredentialMigrationAuditWarn_def Let_def
      by (intro stop rules)
  next
    case (Ctx_Import opts)
    show ?thesis
      unfolding Ctx_Import run_context.simps using refused by (intro refused_import [OF s l]) (simp add: Ctx_Import)
  qed (use reading in simp_all)
qed

end
