(* ===== verification/Context_Properties.thy ===== *)
theory Context_Properties
  imports Context_Credentials Context_Import_Demo Context_Refused Command_Properties
begin

text \<open>
  What the commands of contexts guarantee: who may change the saved contexts and when, what happens to the
  credentials of a change that fails, and that its outcome can be replayed.
\<close>

section \<open>Changes of the contexts\<close>

lemma authorized_change_mono:
  "authorized_change K f c cfg0 cfg lo hi \<Longrightarrow> lo' \<le> lo \<Longrightarrow> hi \<le> hi' \<Longrightarrow> authorized_change K f c cfg0 cfg lo' hi'"
  unfolding authorized_change_def authorized_name_def by (meson le_trans less_le_trans)

definition contracts_ctl :: "('l, 'b, 's, 'c) ctl_env \<Rightarrow> ('l \<Rightarrow> safeAuditRecord list) \<Rightarrow> ('s \<Rightarrow> Config list) \<Rightarrow> bool" where
  "contracts_ctl K obs saves = (store_contract (kc_store K) saves \<and> append_contract (kc_audit K) obs)"

text \<open>
  C2: A command changes the saved contexts at most once, and only if it is no plan: the configuration is made from the
  one that was loaded under the lock, its roles are known, an intent of one of the command's actions became part of the
  audit log before, and every context that it changes, and a change of the current context, was authorized as R3 with the
  command's allow flag, under a policy that the context still had under the lock.
\<close>

theorem context_changes_are_governed:
  assumes "contracts_ctl K obs saves"
    and "run_context K f c w = (r, w')" and "saves (ct_store w') \<noteq> saves (ct_store w)"
  shows "\<exists>s s' cfg0 cfg. st_begin (kc_store K) s = (Inr cfg0, s') \<and>
    saves (ct_store w') = saves (ct_store w) @ [cfg] \<and> validatePersistedRoles cfg = None \<and>
    intent_between obs K f (control_actions c) w w' \<and>
    authorized_change K f c cfg0 cfg (wo_asks (ct_world w)) (wo_asks (ct_world w'))"
proof -
  have "saved obs saves K f (control_actions c) (authorized_change K f c) w w'"
    using context_command_governed [of K saves obs f c w] assms(1,2) by (simp add: contracts_ctl_def)
  then show ?thesis
    using assms(3) authorized_change_mono unfolding saved_def by meson
qed

theorem context_changes_are_governed_witness:
  "\<exists>r w'. run_context demo_ctl_env change_flags (Ctx_Use ''prod'') demo_ctl = (r, w') \<and>
     (\<exists>cfg. ct_store w' = ct_store demo_ctl @ [cfg] \<and> validatePersistedRoles cfg = None)"
proof -
  obtain r w' where w': "run_context demo_ctl_env change_flags (Ctx_Use ''prod'') demo_ctl = (r, w')"
    "ct_store w' = [demo_config, demo_config\<lparr>cf_CurrentContext := ''prod''\<rparr>]" using demo_used by blast
  have "contracts_ctl demo_ctl_env id id" using demo_contracts_ctl by (simp add: contracts_ctl_def)
  from context_changes_are_governed [OF this w'(1)] w' show ?thesis by (auto simp: demo_ctl_def)
qed

text \<open>The allow flag of a command, as it is given.\<close>

definition flag_given :: "cliFlags \<Rightarrow> context_command \<Rightarrow> bool" where
  "flag_given f c = (case c of
     Ctx_Delete _ \<Rightarrow> fl_AllowContextDelete f
   | Ctx_Role_Set _ _ \<Rightarrow> fl_AllowRoleChange f
   | Ctx_Role_Unset _ _ \<Rightarrow> fl_AllowRoleChange f
   | _ \<Rightarrow> fl_AllowContextChange f)"

lemma granted_control: "(control_flag c, True) \<in> set (grantedAllowFlags f) \<longleftrightarrow> flag_given f c"
  by (cases c) (auto simp: flag_given_def grantedAllowFlags_def allow_flags)

text \<open>
  C6: With a core library that grants an R3 operation only with all required flags, a command without its own allow flag
  (the one for deleting a context, for changing roles, or for any other change of contexts) saves nothing.
\<close>

theorem context_changes_need_their_flag:
  assumes "contracts_ctl K obs saves" and "R3_needs_flags (kc_cmd K)"
    and "run_context K f c w = (r, w')" and "saves (ct_store w') \<noteq> saves (ct_store w)"
  shows "flag_given f c"
proof (rule ccontr)
  assume no: "\<not> flag_given f c"
  have "refuses (kc_cmd K) f (control_flag c)"
    using assms(2) no unfolding refuses_def R3_needs_flags_def granted_control [symmetric]
    by (fastforce simp: controlOptions_def)
  then have "still.keeps obs saves (run_context K f c)"
    using assms(1) refused_commands_save_nothing unfolding contracts_ctl_def by blast
  from still.keepsD [OF this assms(3)] show False using assms(4) by (simp add: calm_def)
qed

theorem context_changes_need_their_flag_witness:
  "\<exists>r w'. run_context demo_ctl_env change_flags (Ctx_Use ''prod'') demo_ctl = (r, w') \<and>
     ct_store w' \<noteq> ct_store demo_ctl \<and> flag_given change_flags (Ctx_Use ''prod'')"
proof -
  obtain r w' where w': "run_context demo_ctl_env change_flags (Ctx_Use ''prod'') demo_ctl = (r, w')"
    "ct_store w' = [demo_config, demo_config\<lparr>cf_CurrentContext := ''prod''\<rparr>]" using demo_used by blast
  have c: "contracts_ctl demo_ctl_env id id" using demo_contracts_ctl by (simp add: contracts_ctl_def)
  have R3: "R3_needs_flags (kc_cmd demo_ctl_env)"
    by (auto simp: R3_needs_flags_def demo_ctl_env_def demo_live_def demo_cmd_def gate_def split: if_splits)
  have "ct_store w' \<noteq> ct_store demo_ctl" using w'(2) by (simp add: demo_ctl_def)
  then show ?thesis using context_changes_need_their_flag [OF c R3 w'(1)] w'(1) by auto
qed


section \<open>Credentials\<close>

text \<open>
  C8: A change whose credentials are stored and then compensated with success leaves every slot of every credential store
  as it was, whichever store failed and whether the failed write took effect or not; and storing without an error
  leaves every credential in its slot.
\<close>

theorem failed_writes_are_undone:
  assumes "validateContextImportCredentialCandidates ds c00 = (Inr (), c01)"
    and "\<And>d. d \<in> set ds \<Longrightarrow> candidate_backed C view d"
    and "storeContextImportCredentials C ds c = ((ws, err), c1)"
    and "compensateContextImportCredentialsLocked C cfg (Some ws) c1 = ((status, err2), c2)"
  shows "(err2 = None \<longrightarrow> view s c2 = view s c) \<and> (err = None \<longrightarrow> (\<forall>d \<in> set ds. stored view d c1))"
proof -
  have "open_transaction C view c ws c1" using store_law(1) [OF assms(1) _ assms(3)] assms(2) by blast
  then have "undone view ws c1 c" and t: "transaction_backed C view ws" "distinct (map iw_slot ws)"
    by (simp_all add: open_transaction_def)
  moreover have "err = None \<Longrightarrow> d \<in> set ds \<Longrightarrow> stored view d c1" for d
    using store_law(2) [OF assms(1) _ assms(3)] assms(2) by blast
  ultimately show ?thesis using compensation_safe(4) [OF t assms(4)] by (simp add: undone_def)
qed

text \<open>Two contexts whose credentials go to the same store, which fails for the second.\<close>

definition demo_broken :: "(string \<times> string) list cred_env" where "demo_broken = demo_cred (\<lambda>k. k = ''prod'')"

definition demo_candidate :: "string \<Rightarrow> string \<Rightarrow> (string \<times> string) list contextImportCredentialCandidate" where
  "demo_candidate name password = \<lparr>ic_name = name, ic_backend = Some (demo_backend (\<lambda>k. k = ''prod'') ''keychain''),
     ic_password = password, ic_schemaRegistryPassword = '''', ic_primarySlot = storeSlot ''keychain'' name,
     ic_schemaRegistrySlot = storeSlot ''keychain'' (name @ ''/schema-registry'')\<rparr>"

definition demo_candidates :: "(string \<times> string) list contextImportCredentialCandidate list" where
  "demo_candidates = [demo_candidate ''dev'' ''new'', demo_candidate ''prod'' ''secret'']"

lemma demo_validated: "validateContextImportCredentialCandidates demo_candidates [(''dev'', ''old'')] = (Inr (), [(''dev'', ''old'')])"
  by code_simp

lemma demo_behind: "d \<in> set demo_candidates \<Longrightarrow> candidate_backed demo_broken demo_view d"
  using demo_backed [of "\<lambda>k. k = ''prod''"]
  by (auto simp: demo_candidates_def demo_candidate_def candidate_backed_def demo_broken_def)

definition demo_failed ::
  "((string \<times> string) list import_transaction \<times> go_error option) \<times> (string \<times> string) list" where
  "demo_failed = storeContextImportCredentials demo_broken demo_candidates [(''dev'', ''old'')]"

lemma demo_failed_run: "snd demo_failed = [(''dev'', ''new'')]" "snd (fst demo_failed) \<noteq> None"
  "fst (compensateContextImportCredentialsLocked demo_broken demo_config (Some (fst (fst demo_failed))) [(''dev'', ''new'')]) =
     (credentialCompensationSucceeded, None)"
  "snd (compensateContextImportCredentialsLocked demo_broken demo_config (Some (fst (fst demo_failed))) [(''dev'', ''new'')]) =
     [(''dev'', ''old'')]"
  by code_simp+

theorem failed_writes_are_undone_witness:
  "\<exists>ws err c1 c2. storeContextImportCredentials demo_broken demo_candidates [(''dev'', ''old'')] = ((ws, err), c1) \<and>
     c1 \<noteq> [(''dev'', ''old'')] \<and>
     compensateContextImportCredentialsLocked demo_broken demo_config (Some ws) c1 = ((credentialCompensationSucceeded, None), c2) \<and>
     demo_view (storeSlot ''keychain'' ''dev'') c2 = Some ''old''"
proof -
  obtain ws err c1 where s: "storeContextImportCredentials demo_broken demo_candidates [(''dev'', ''old'')] = ((ws, err), c1)"
    by (metis surj_pair)
  then have c1: "c1 = [(''dev'', ''new'')]" and ws: "fst (fst demo_failed) = ws"
    using demo_failed_run(1) by (simp_all add: demo_failed_def)
  obtain c2 where c2: "compensateContextImportCredentialsLocked demo_broken demo_config (Some ws) c1 =
      ((credentialCompensationSucceeded, None), c2)"
    using demo_failed_run(3) unfolding ws c1 by (metis prod.collapse)
  have "demo_view (storeSlot ''keychain'' ''dev'') c2 = demo_view (storeSlot ''keychain'' ''dev'') [(''dev'', ''old'')]"
    using failed_writes_are_undone [OF demo_validated demo_behind s c2] by simp
  also have "\<dots> = Some ''old''" by code_simp
  finally show ?thesis using s c1 c2 by fastforce
qed


text \<open>
  C9: A compensation, begun in whatever state the stores have got to since, changes a slot only if the transaction wrote it
  and it still holds what the transaction wrote, so the values of others are never overwritten; one that reports
  to be unsafe has changed nothing, and it returns an error unless it succeeded or had nothing to do.
\<close>

theorem compensation_never_overwrites_others:
  assumes "transaction_backed C view ws" and "distinct (map iw_slot ws)"
    and "compensateContextImportCredentialsLocked C cfg (Some ws) c = ((status, err), c')"
  shows "(view s c' \<noteq> view s c \<longrightarrow> (\<exists>w \<in> set ws. iw_slot w = s \<and> view s c = Some (iw_written w))) \<and>
    (status = credentialCompensationNotSafe \<longrightarrow> view s c' = view s c) \<and>
    (err = None \<longleftrightarrow> status = credentialCompensationSucceeded \<or> status = '''')"
  using compensation_safe(1,2,5) [OF assms] by blast

theorem compensation_never_overwrites_others_witness:
  "\<exists>c'. compensateContextImportCredentialsLocked demo_broken demo_config (Some (fst (fst demo_failed)))
      [(''dev'', ''other'')] = ((credentialCompensationNotSafe, Some credentialChanged), c') \<and>
    demo_view (storeSlot ''keychain'' ''dev'') c' = Some ''other''"
proof -
  obtain c' where c': "compensateContextImportCredentialsLocked demo_broken demo_config (Some (fst (fst demo_failed)))
      [(''dev'', ''other'')] = ((credentialCompensationNotSafe, Some credentialChanged), c')"
  proof -
    have "fst (compensateContextImportCredentialsLocked demo_broken demo_config (Some (fst (fst demo_failed)))
      [(''dev'', ''other'')]) = (credentialCompensationNotSafe, Some credentialChanged)" by code_simp
    then show thesis using that by (metis prod.collapse)
  qed
  have "open_transaction demo_broken demo_view [(''dev'', ''old'')] (fst (fst demo_failed)) (snd demo_failed)"
    by (rule store_law(1) [OF demo_validated, where err = "snd (fst demo_failed)"]) (auto simp: demo_behind demo_failed_def)
  then have t: "transaction_backed demo_broken demo_view (fst (fst demo_failed))" "distinct (map iw_slot (fst (fst demo_failed)))"
    by (simp_all add: open_transaction_def)
  have "demo_view (storeSlot ''keychain'' ''dev'') [(''dev'', ''other'')] = Some ''other''" by code_simp
  then show ?thesis using compensation_never_overwrites_others [OF t c'] c' by simp
qed

text \<open>
  C24: Migrating credentials writes exactly what importing them would, with the same errors, and compensates it in
  the same way: the two transactions, which the source keeps apart, are one.
\<close>

theorem migration_is_an_import:
  assumes "storeCredentialMigrationCandidates C b ds c = (((t, progress), err), c')" and "bk_Name b \<noteq> ''vault''"
  shows "storeContextImportCredentials C (map (import_candidate b) ds) c = ((embed t, err), c') \<and>
    compensateCredentialMigrationLocked C cfg (Some t) c' = compensateContextImportCredentialsLocked C cfg (Some (embed t)) c'"
  using embed_storeImports [OF assms(1) [unfolded storeCredentialMigrationCandidates_def]]
    embed_locked [OF migration_no_vault [OF assms]]
  by (simp add: storeContextImportCredentials_def embed_def)

theorem migration_is_an_import_witness:
  "\<exists>t progress c'. storeCredentialMigrationCandidates demo_broken (demo_backend (\<lambda>_. False) ''keychain'')
       [\<lparr>mc_name = ''dev'', mc_context = no_context, mc_password = ''pw'', mc_schemaRegistryPassword = ''''\<rparr>] [] =
         (((t, progress), None), c') \<and> c' = [(''dev'', ''pw'')] \<and>
     storeContextImportCredentials demo_broken (map (import_candidate (demo_backend (\<lambda>_. False) ''keychain''))
       [\<lparr>mc_name = ''dev'', mc_context = no_context, mc_password = ''pw'', mc_schemaRegistryPassword = ''''\<rparr>]) [] =
         ((embed t, None), c')"
proof -
  let ?ds = "[\<lparr>mc_name = ''dev'', mc_context = no_context, mc_password = ''pw'', mc_schemaRegistryPassword = ''''\<rparr>]"
  let ?run = "storeCredentialMigrationCandidates demo_broken (demo_backend (\<lambda>_. False) ''keychain'') ?ds []"
  have "snd (fst ?run) = None" "snd ?run = [(''dev'', ''pw'')]" by code_simp+
  then obtain t progress where r: "?run = (((t, progress), None), [(''dev'', ''pw'')])" by (metis prod.collapse)
  have "bk_Name (demo_backend (\<lambda>_. False) ''keychain'') \<noteq> ''vault''" by (simp add: demo_backend_def)
  from migration_is_an_import [OF r this] r show ?thesis by blast
qed

text \<open>
  C29: In a configuration whose credential slots pass their validation no two contexts, and not the two
  credentials of one context, refer to the same slot of a credential store.
\<close>

theorem credential_slots_have_one_owner:
  assumes "contextCredentialSlotOwners C contexts = Inr owners"
    and "(n, x) \<in> set contexts" and "(m, y) \<in> set contexts"
  shows "(occupies C x (cx_Password x) n slot \<longrightarrow> occupies C y (cx_Password y) m slot \<longrightarrow> n = m) \<and>
    (occupies C x (cx_KafkaSchemaRegistryPassword x) (n @ ''/schema-registry'') slot \<longrightarrow>
     occupies C y (cx_KafkaSchemaRegistryPassword y) (m @ ''/schema-registry'') slot \<longrightarrow> n = m) \<and>
    (occupies C x (cx_Password x) n slot \<longrightarrow>
     \<not> occupies C y (cx_KafkaSchemaRegistryPassword y) (m @ ''/schema-registry'') slot)"
  using slotOwners_law(2,3) [OF assms(1) [unfolded contextCredentialSlotOwners_def]] assms(2,3) owner_names
  by (metis option.inject)

theorem credential_slots_have_one_owner_witness:
  "\<exists>owners. contextCredentialSlotOwners (demo_cred (\<lambda>_. False)) [(''a'', no_context\<lparr>cx_Password := ''ref:keychain''\<rparr>),
       (''b'', no_context\<lparr>cx_Password := ''ref:keychain''\<rparr>)] = Inr owners \<and>
     occupies (demo_cred (\<lambda>_. False)) (no_context\<lparr>cx_Password := ''ref:keychain''\<rparr>) ''ref:keychain'' ''a'' (storeSlot ''keychain'' ''a'') \<and>
     \<not> occupies (demo_cred (\<lambda>_. False)) (no_context\<lparr>cx_Password := ''ref:keychain''\<rparr>) ''ref:keychain'' ''b'' (storeSlot ''keychain'' ''a'')"
proof -
  let ?x = "no_context\<lparr>cx_Password := ''ref:keychain''\<rparr>" and ?C = "demo_cred (\<lambda>_. False)"
  have "\<not> isl (contextCredentialSlotOwners ?C [(''a'', ?x), (''b'', ?x)])" by code_simp
  then obtain owners where o: "contextCredentialSlotOwners ?C [(''a'', ?x), (''b'', ?x)] = Inr owners"
    by (cases "contextCredentialSlotOwners ?C [(''a'', ?x), (''b'', ?x)]") auto
  have a: "occupies ?C ?x ''ref:keychain'' ''a'' (storeSlot ''keychain'' ''a'')"
    by (simp add: occupies_def demo_cred_def has_prefix_def contextCredentialPhysicalSlot_def storeSlot_def)
  have "cx_Password ?x = ''ref:keychain''" by simp
  then show ?thesis using credential_slots_have_one_owner [OF o, of "''a''" ?x "''b''" ?x] o a by auto
qed


section \<open>Outcomes\<close>

lemma compensated_record_accepted:
  assumes "validMutationAuditAction (sp_Action (mh_spec h))" and "operation_id (mh_id h)" and "\<not> time_IsZero now"
    and "metadata_ok (sp_Metadata (mh_spec h))" and "compensation_consistent oc err"
    and "outcome_total (normalizeMutationAuditOutcome asApp oc err) = md_Items (sp_Metadata (mh_spec h))"
  shows "validateMutationSpoolRecord (outcomeRecord E f now h (normalizeMutationAuditOutcome asApp oc err))
      (spoolRecordName s (mh_id h)) = None"
  using handle_record_accepted [OF assms(1-4) compensation_ok [OF assms(5), of asApp]] assms(6)
  by (simp add: outcomeRecord_def)

text \<open>
  C22: Whatever happens to the contexts and the credentials during an import or \<open>ctx set\<close> (an error of the
  store of contexts, of a credential store, of the compensation or of the reconciliation), the outcome that is
  audited is consistent: its record passes the validation that guards the replay of spooled records.
\<close>

theorem import_outcome_is_replayable:
  assumes "Update K no_vars (importChange K f recheck expected spec candidates ce) w = ((err0, v), w1)"
    and "settleImport K expected ce err0 v w1 = ((status, uncertain, err), w2)"
    and "md_Items (sp_Metadata (mh_spec h)) = int (length expected)" "0 < length expected" "int (length expected) < 2 ^ 63"
    and "validMutationAuditAction (sp_Action (mh_spec h))" "operation_id (mh_id h)" "\<not> time_IsZero now"
      "metadata_ok (sp_Metadata (mh_spec h))"
  shows "validateMutationSpoolRecord (outcomeRecord E f now h
      (normalizeMutationAuditOutcome asApp (contextImportOutcome (int (length expected)) status uncertain err) err))
      (spoolRecordName s (mh_id h)) = None"
  using import_outcome_consistent [OF settle_import_outcome [OF update_import_vars [OF assms(1)] assms(2)]]
    import_outcome_total assms(3-)
  by (intro compensated_record_accepted) auto

definition demo_items :: "int \<Rightarrow> mutationAuditHandle" where
  "demo_items n = demo_handle\<lparr>mh_spec := demo_spec\<lparr>sp_Metadata := (sp_Metadata demo_spec)\<lparr>md_Items := n\<rparr>\<rparr>\<rparr>"

lemma demo_items_ok: "validMutationAuditAction (sp_Action (mh_spec (demo_items n)))" "operation_id (mh_id (demo_items n))"
  "md_Items (sp_Metadata (mh_spec (demo_items n))) = n" "metadata_ok (sp_Metadata (mh_spec (demo_items 2)))"
  "\<not> time_IsZero \<lparr>gt_nanos = 5, gt_offset = 0\<rparr>"
proof -
  have "validMutationAuditAction (sp_Action demo_spec)" by code_simp
  then show "validMutationAuditAction (sp_Action (mh_spec (demo_items n)))" by (simp add: demo_items_def)
  show "metadata_ok (sp_Metadata (mh_spec (demo_items 2)))" by code_simp
qed (use demo_id in \<open>simp_all add: demo_items_def time_IsZero_def\<close>)

theorem import_outcome_is_replayable_witness:
  "\<exists>err0 v w1 status uncertain err w2.
     Update (demo_ctl_env\<lparr>kc_cred := demo_broken\<rparr>) no_vars (importChange (demo_ctl_env\<lparr>kc_cred := demo_broken\<rparr>) change_flags
         (\<lambda>_. None) (cf_Contexts demo_config) demo_spec demo_candidates importCompensationError) demo_ctl = ((err0, v), w1) \<and>
     settleImport (demo_ctl_env\<lparr>kc_cred := demo_broken\<rparr>) (cf_Contexts demo_config) importCompensationError err0 v w1 =
       ((status, uncertain, err), w2) \<and>
     validateMutationSpoolRecord (outcomeRecord demo_env change_flags \<lparr>gt_nanos = 5, gt_offset = 0\<rparr> (demo_items 2)
       (normalizeMutationAuditOutcome (ae_asApp demo_env) (contextImportOutcome 2 status uncertain err) err))
       (spoolRecordName 1 (mh_id (demo_items 2))) = None"
proof -
  let ?K = "demo_ctl_env\<lparr>kc_cred := demo_broken\<rparr>"
  obtain err0 v w1 where u: "Update ?K no_vars (importChange ?K change_flags (\<lambda>_. None) (cf_Contexts demo_config) demo_spec
      demo_candidates importCompensationError) demo_ctl = ((err0, v), w1)" by (metis surj_pair)
  obtain status uncertain err w2 where s: "settleImport ?K (cf_Contexts demo_config) importCompensationError err0 v w1 =
      ((status, uncertain, err), w2)" by (metis surj_pair)
  have n: "int (length (cf_Contexts demo_config)) = 2" "cf_Contexts demo_config \<noteq> []" by (simp_all add: demo_config_def)
  show ?thesis
    using import_outcome_is_replayable [OF u s, of "demo_items 2"] u s n demo_items_ok(3) [of 2] demo_items_ok by auto
qed

text \<open>
  C23: Whatever happens during a migration of credentials, the outcome that is audited, with its counts of written, failed
  and uncertain credentials, is consistent, and its record passes the validation that guards the replay.
\<close>

theorem migration_outcome_is_replayable:
  assumes "n = credentialMigrationCredentialCount ds" "0 < n" "n < 2 ^ 63"
    and "Update K no_migrationVars (migrationChange K f preChanges spec backend ds toBackend) w = ((err0, v), w1)"
    and "settleMigration K ds toBackend n err0 v w1 = ((p, status, err), w2)"
    and "md_Items (sp_Metadata (mh_spec h)) = n"
    and "validMutationAuditAction (sp_Action (mh_spec h))" "operation_id (mh_id h)" "\<not> time_IsZero now"
      "metadata_ok (sp_Metadata (mh_spec h))"
  shows "validateMutationSpoolRecord (outcomeRecord E f now h
      (normalizeMutationAuditOutcome asApp (credentialMigrationOutcome n p status err) err))
      (spoolRecordName s (mh_id h)) = None"
proof -
  have ok: "migration_outcome_ok n p status err"
    by (rule settle_migration_outcome [OF update_migration_vars [OF assms(4,1,2)] assms(5,2)])
  show ?thesis
    using migration_outcome_consistent [OF ok] migration_outcome_total [OF ok] assms
    by (intro compensated_record_accepted) auto
qed

definition demo_moves :: "migrateCredentialCandidate list" where
  "demo_moves = [\<lparr>mc_name = ''dev'', mc_context = no_context, mc_password = ''new'', mc_schemaRegistryPassword = ''''\<rparr>,
     \<lparr>mc_name = ''prod'', mc_context = no_context, mc_password = ''secret'', mc_schemaRegistryPassword = ''''\<rparr>]"

theorem migration_outcome_is_replayable_witness:
  "\<exists>err0 v w1 p status err w2.
     Update demo_ctl_env no_migrationVars (migrationChange demo_ctl_env change_flags [] demo_spec
         (demo_backend (\<lambda>k. k = ''prod'') ''keychain'') demo_moves ''keychain'') demo_ctl = ((err0, v), w1) \<and>
     settleMigration demo_ctl_env demo_moves ''keychain'' 2 err0 v w1 = ((p, status, err), w2) \<and>
     validateMutationSpoolRecord (outcomeRecord demo_env change_flags \<lparr>gt_nanos = 5, gt_offset = 0\<rparr> (demo_items 2)
       (normalizeMutationAuditOutcome (ae_asApp demo_env) (credentialMigrationOutcome 2 p status err) err))
       (spoolRecordName 1 (mh_id (demo_items 2))) = None"
proof -
  let ?b = "demo_backend (\<lambda>k. k = ''prod'') ''keychain''"
  obtain err0 v w1 where u: "Update demo_ctl_env no_migrationVars (migrationChange demo_ctl_env change_flags [] demo_spec
      ?b demo_moves ''keychain'') demo_ctl = ((err0, v), w1)" by (metis surj_pair)
  obtain p status err w2 where s: "settleMigration demo_ctl_env demo_moves ''keychain'' 2 err0 v w1 =
      ((p, status, err), w2)" by (metis surj_pair)
  have n: "2 = credentialMigrationCredentialCount demo_moves" by code_simp
  show ?thesis
    using migration_outcome_is_replayable [OF n _ _ u s, of "demo_items 2"] u s demo_items_ok(3) [of 2] demo_items_ok by auto
qed


text \<open>
  C30: In the configuration that a command saves (\<open>ctx set\<close>, \<open>ctx import\<close> of one or several contexts, \<open>ctx migrate\<close> or any
  other), a context with a credential store other than plain storage holds no literal password and no literal
  password of a schema registry, unless the context of that name had these very credential fields in the
  configuration that was loaded under the lock.
\<close>

theorem saved_contexts_shelter_credentials:
  assumes "contracts_ctl K obs saves" and "ref_contract (kc_cred K)"
    and "run_context K f c w = (r, w')" and "saves (ct_store w') \<noteq> saves (ct_store w)"
  shows "\<exists>s s' locked cfg. saves s = saves (ct_store w) \<and> st_begin (kc_store K) s = (Inr locked, s') \<and>
    saves (ct_store w') = saves (ct_store w) @ [cfg] \<and> (\<forall>name x. map_of (cf_Contexts cfg) name = Some x \<longrightarrow>
       cx_CredentialBackend x \<in> {'''', ''plain-yaml''} \<or>
       \<not> isLiteralCredential (kc_cred K) (cx_Password x) \<and> \<not> isLiteralCredential (kc_cred K) (cx_KafkaSchemaRegistryPassword x) \<or>
       (\<exists>y. map_of (cf_Contexts locked) name = Some y \<and> cx_Password x = cx_Password y \<and>
          cx_CredentialBackend x = cx_CredentialBackend y \<and>
          cx_KafkaSchemaRegistryPassword x = cx_KafkaSchemaRegistryPassword y))"
proof -
  have "saved obs saves K f (control_actions c) (\<lambda>locked cfg _ _. careful (kc_cred K) locked cfg) w w'"
    using careful_commands [of K saves obs f c w] assms(1-3) by (simp add: contracts_ctl_def)
  then obtain s s' locked cfg where "saves s = saves (ct_store w)" "st_begin (kc_store K) s = (Inr locked, s')"
    "saves (ct_store w') = saves (ct_store w) @ [cfg]" "careful (kc_cred K) locked cfg"
    using assms(4) unfolding saved_def by blast
  then show ?thesis unfolding careful_def sheltered_def same_credentials_def by blast
qed

text \<open>The import of a context that brings a password, and chooses a credential store.\<close>

definition secret_context :: Context where
  "secret_context = no_context\<lparr>cx_Backend := ''kafka'', cx_CredentialBackend := ''keychain'', cx_Password := ''pw''\<rparr>"

definition secret_document :: contextExportDocument where
  "secret_document = \<lparr>cd_APIVersion = ctxExportAPIVersion, cd_Name = ''new'', cd_Context = Some secret_context, cd_Contexts = []\<rparr>"

definition secret_import :: ctxImportOptions where
  "secret_import = \<lparr>io_file = ''/in.yaml'', io_rename = '''', io_force = False\<rparr>"

abbreviation secret_env :: "(safeAuditRecord list, fake, Config list, (string \<times> string) list) ctl_env" where
  "secret_env \<equiv> import_env (\<lambda>_. Inr ''document'') (\<lambda>_. Inr secret_document)"

lemma demo_imports_secret: "\<exists>r w'. run_context secret_env change_flags (Ctx_Import secret_import) demo_ctl = (r, w') \<and>
    ct_store w' = [demo_config, demo_config\<lparr>cf_Contexts := overlay (cf_Contexts demo_config)
      [(''new'', secret_context\<lparr>cx_Password := ''ref:keychain''\<rparr>)]\<rparr>] \<and> ct_creds w' = [(''new'', ''pw'')]"
proof -
  let ?C = "demo_cred (\<lambda>_. False)" and ?item = "secret_context\<lparr>cx_Password := ''ref:keychain''\<rparr>"
  let ?plan = "planContextImportCredential ?C ''new'' secret_context"
  let ?store = "storeContextImportCredentials ?C [fst (projr ?plan)] []"
  have "\<not> isl ?plan" "snd (projr ?plan) = ?item" by code_simp+
  then have plan: "?plan = Inr (fst (projr ?plan), ?item)" by (cases ?plan) auto
  have "snd (fst ?store) = None" "snd ?store = [(''new'', ''pw'')]" by code_simp+
  then have stored: "?store = ((fst (fst ?store), None), [(''new'', ''pw'')])" by (metis prod.collapse)
  have source: "path_clean ''/in.yaml'' \<notin> {''.'', ''/''}" by code_simp
  have doc: "readContextExportDocument secret_env (io_file secret_import) = Inr secret_document"
    using source by (simp add: readContextExportDocument_def import_env_fields Let_def secret_import_def secret_document_def)
  show ?thesis
  proof (rule demo_importing [OF doc _ _ _ _ _ _ _ plan _ _ _ _ stored])
    show "io_file secret_import \<noteq> ''''" "cd_Contexts secret_document = []" "cd_Context secret_document = Some secret_context"
      "firstNonEmpty [io_rename secret_import, cd_Name secret_document] = ''new''" "''new'' \<noteq> ''''"
      "map_of (cf_Contexts demo_config) ''new'' = None"
      by (simp_all add: secret_import_def secret_document_def demo_config_def)
    show "clearRedactedImportedCredentials secret_context = (False, secret_context)" "validateContextDefinition ?item = Inr ?item"
      "validatePersistedRoles (demo_config\<lparr>cf_Contexts := overlay (cf_Contexts demo_config) [(''new'', ?item)]\<rparr>) = None"
      "validateContextImportCredentialKeySet ?C demo_config [(''new'', ?item)] = None"
      "validateContextImportCredentialCandidates [fst (projr ?plan)] [] = (Inr (), [])"
      by code_simp+
  qed
qed

theorem saved_contexts_shelter_credentials_witness:
  "\<exists>r w' cfg. run_context secret_env change_flags (Ctx_Import secret_import) demo_ctl = (r, w') \<and>
     ct_store w' = ct_store demo_ctl @ [cfg] \<and>
     (\<exists>x. map_of (cf_Contexts cfg) ''new'' = Some x \<and> cx_CredentialBackend x = ''keychain'' \<and>
        \<not> isLiteralCredential (kc_cred secret_env) (cx_Password x)) \<and>
     isLiteralCredential (kc_cred secret_env) (cx_Password secret_context)"
proof -
  obtain r w' where w': "run_context secret_env change_flags (Ctx_Import secret_import) demo_ctl = (r, w')"
    "ct_store w' = [demo_config, demo_config\<lparr>cf_Contexts := overlay (cf_Contexts demo_config)
      [(''new'', secret_context\<lparr>cx_Password := ''ref:keychain''\<rparr>)]\<rparr>]"
    using demo_imports_secret by blast
  have start: "ct_store demo_ctl = [demo_config]" by (simp add: demo_ctl_def)
  have k: "contracts_ctl secret_env id id" using import_contracts by (simp add: contracts_ctl_def)
  have lit: "isLiteralCredential (kc_cred secret_env) (cx_Password secret_context)"
    unfolding import_env_fields by code_simp
  have new: "map_of (cf_Contexts (demo_config\<lparr>cf_Contexts := overlay (cf_Contexts demo_config)
      [(''new'', secret_context\<lparr>cx_Password := ''ref:keychain''\<rparr>)]\<rparr>)) ''new'' = Some (secret_context\<lparr>cx_Password := ''ref:keychain''\<rparr>)"
    "cx_CredentialBackend (secret_context\<lparr>cx_Password := ''ref:keychain''\<rparr>) = ''keychain''"
    "map_of (cf_Contexts demo_config) ''new'' = None"
    by code_simp+
  obtain s s' locked cfg where g: "id s = id (ct_store demo_ctl)" "st_begin (kc_store secret_env) s = (Inr locked, s')"
    "id (ct_store w') = id (ct_store demo_ctl) @ [cfg]"
    "\<forall>name x. map_of (cf_Contexts cfg) name = Some x \<longrightarrow> cx_CredentialBackend x \<in> {'''', ''plain-yaml''} \<or>
       \<not> isLiteralCredential (kc_cred secret_env) (cx_Password x) \<and>
       \<not> isLiteralCredential (kc_cred secret_env) (cx_KafkaSchemaRegistryPassword x) \<or>
       (\<exists>y. map_of (cf_Contexts locked) name = Some y \<and> cx_Password x = cx_Password y \<and>
          cx_CredentialBackend x = cx_CredentialBackend y \<and> cx_KafkaSchemaRegistryPassword x = cx_KafkaSchemaRegistryPassword y)"
    using saved_contexts_shelter_credentials [OF k import_contracts(3) w'(1)] w'(2) start by auto
  have cfg: "cfg = demo_config\<lparr>cf_Contexts := overlay (cf_Contexts demo_config)
      [(''new'', secret_context\<lparr>cx_Password := ''ref:keychain''\<rparr>)]\<rparr>" using g(3) w'(2) start by simp
  have locked: "locked = demo_config" using g(1,2) start by (simp add: import_env_fields demo_store_def)
  let ?x = "secret_context\<lparr>cx_Password := ''ref:keychain''\<rparr>"
  have x: "map_of (cf_Contexts cfg) ''new'' = Some ?x" using new(1) by (simp add: cfg)
  have "\<not> isLiteralCredential (kc_cred secret_env) (cx_Password ?x)"
    using g(4) [rule_format, OF x] new(2,3) locked by auto
  then show ?thesis using w' start new(1,2) lit by (intro exI [of _ r] exI [of _ w'] exI [of _ cfg]) (auto simp: cfg)
qed

end
