(* ===== verification/Governed_Paths.thy ===== *)
theory Governed_Paths
  imports Context_Import
begin

text \<open>
  Paths that the program may not write or delete: cmd/context.go 989-1187 and
  cmd/context_export_permissions_other.go. The path of an output is resolved through its symbolic links and compared
  with the files that hold the state of the program: the contexts, the audit log and its companions, the spool of
  outcomes, the rotated logs and the credentials.

  \<open>'x\<close> is the state of the file system, \<open>file_system\<close> are the calls of Go's package \<open>os\<close> on it (a path stands for an
  open file), whose errors the code replaces by its own; \<open>fs_VolumeName\<close> and \<open>fs_Abs\<close> are the functions of path/filepath
  that depend on the platform. The other functions of path/filepath are those of a system with the separator \<open>/\<close>.
  \<open>fs_RotatedFiles\<close> and \<open>fs_isRotated\<close> are \<open>audit.RotatedFiles\<close> and \<open>audit.RotatedFileTimestamp\<close> of the core library.
\<close>

section \<open>File names\<close>

definition path_dir :: "string \<Rightarrow> string" where
  "path_dir p = path_clean (case last_index_byte p (CHR ''/'') of None \<Rightarrow> '''' | Some i \<Rightarrow> take (Suc i) p)"

definition path_base :: "string \<Rightarrow> string" where
  "path_base p =
    (if p = '''' then ''.''
     else let q = rev (dropWhile (\<lambda>c. c = CHR ''/'') (rev p));
              e = (case last_index_byte q (CHR ''/'') of None \<Rightarrow> q | Some i \<Rightarrow> drop (Suc i) q)
          in if e = '''' then ''/'' else e)"

definition path_join :: "string list \<Rightarrow> string" where
  "path_join es = (case dropWhile (\<lambda>e. e = '''') es of [] \<Rightarrow> '''' | fs \<Rightarrow> path_clean (join_with ''/'' fs))"

definition path_elements :: "string \<Rightarrow> string list" where
  "path_elements p = filter (\<lambda>e. e \<noteq> '''') (split_on (CHR ''/'') p)"

fun drop_common :: "string list \<Rightarrow> string list \<Rightarrow> string list \<times> string list" where
  "drop_common (b # bs) (t # ts) = (if b = t then drop_common bs ts else (b # bs, t # ts))"
| "drop_common bs ts = (bs, ts)"

text \<open>\<open>filepath.Rel\<close>: \<open>None\<close> is its error.\<close>

definition path_rel :: "string \<Rightarrow> string \<Rightarrow> string option" where
  "path_rel base target =
    (let b = path_clean base; t = path_clean target in
     if t = b then Some ''.''
     else let b' = (if b = ''.'' then '''' else b) in
       if has_prefix b' ''/'' \<noteq> has_prefix t ''/'' then None
       else (case drop_common (path_elements b') (path_elements t) of
         (bs, ts) \<Rightarrow> if bs \<noteq> [] \<and> hd bs = ''..'' then None
           else Some (join_with ''/'' (replicate (length bs) ''..'' @ ts))))"

section \<open>The file system\<close>

record 'x file_system =
  fs_Lstat :: "string \<Rightarrow> ('x, file_info) op"
  fs_Stat :: "string \<Rightarrow> ('x, int) op"
  fs_EvalSymlinks :: "string \<Rightarrow> ('x, string) op"
  fs_Abs :: "string \<Rightarrow> ('x, string) op"
  fs_VolumeName :: "string \<Rightarrow> string"
  fs_isNotExist :: "go_error \<Rightarrow> bool"
  fs_UserHomeDir :: "go_error + string"
  fs_RotatedFiles :: "string \<Rightarrow> ('x, string list) op"
  fs_isRotated :: "string \<Rightarrow> string \<Rightarrow> bool"

text \<open>\<open>if err != nil { return apperrors.New(CodeLocalIOError, msg, nil) }\<close>.\<close>

definition orFail :: "('w, 'a) op \<Rightarrow> string \<Rightarrow> ('w, 'a) op" where
  "orFail m msg = tryE m (\<lambda>r. case r of Inl _ \<Rightarrow> throw (local_io msg) | Inr x \<Rightarrow> ret x)"

definition liftFail :: "go_error + 'a \<Rightarrow> string \<Rightarrow> ('w, 'a) op" where
  "liftFail r msg = orFail (liftE r) msg"

section \<open>Aliases\<close>

text \<open>The nearest ancestor that exists, and the elements below it, the deepest one first.\<close>

function existingAncestor :: "'x file_system \<Rightarrow> string \<Rightarrow> string list \<Rightarrow> ('x, string \<times> string list) op" where
  "existingAncestor X current below w =
    (case fs_Lstat X current w of
       (Inr _, w1) \<Rightarrow> (Inr (current, below), w1)
     | (Inl e, w1) \<Rightarrow>
         if \<not> fs_isNotExist X e then (Inl (local_io ''failed to inspect context export path''), w1)
         else let parent = path_dir current in
           if parent = current then (Inl (local_io ''context export path has no existing ancestor''), w1)
           else existingAncestor X parent (below @ [path_base current]) w1)"
  by pat_completeness auto

text \<open>The parent of a path is shorter, or the path is \<open>/\<close> or \<open>.\<close>.\<close>

definition path_size :: "string list \<Rightarrow> nat" where
  "path_size es = sum_list (map (\<lambda>e. Suc (length e)) es)"

lemma path_size_simps [simp]: "path_size [] = 0" "path_size (e # es) = Suc (length e + path_size es)"
  "path_size (es @ fs) = path_size es + path_size fs" "path_size (rev es) = path_size es"
  by (simp_all add: path_size_def rev_map [symmetric])

lemma path_size_split: "path_size (split_on c p) = Suc (length p)"
  by (induction c p rule: split_on.induct) (auto split: list.splits)

lemma length_join: "length (join_with ''/'' es) = path_size es - 1"
proof (induction "''/''" es rule: join_with.induct)
  case (3 p q ps)
  then show ?case by simp
qed simp_all

lemma clean_size: "path_size (clean_elements rooted kept es) \<le> path_size kept + path_size (filter (\<lambda>e. e \<noteq> '''') es)"
proof (induction rooted kept es rule: clean_elements.induct)
  case (2 rooted kept e es)
  show ?case
  proof (cases "kept \<noteq> [] \<and> hd kept \<noteq> ''..''")
    case True
    then obtain k ks where "kept = k # ks" by (cases kept) auto
    then show ?thesis using 2 True by (auto simp: le_Suc_eq)
  qed (use 2 in \<open>auto simp: le_Suc_eq\<close>)
qed simp


lemma filter_size: "path_size (filter P es) \<le> path_size es"
  by (induction es) (auto simp: le_Suc_eq)

lemma split_not_Nil: "split_on c p \<noteq> []"
  by (cases p) (auto split: list.splits)

lemma split_snoc: "split_on c (p @ [c]) = split_on c p @ ['''']"
  using split_not_Nil by (induction c p rule: split_on.induct) (auto split: list.splits)

lemma clean_length: "length (join_with ''/'' (clean_elements rooted [] (split_on (CHR ''/'') p))) \<le> length p"
proof -
  let ?es = "split_on (CHR ''/'') p"
  have "path_size (clean_elements rooted [] ?es) \<le> path_size ?es"
    using clean_size [of rooted "[]" ?es] filter_size [of "\<lambda>e. e \<noteq> ''''" ?es] by simp
  then show ?thesis using path_size_split [of "CHR ''/''" p] by (simp add: length_join)
qed

lemma clean_shorter:
  assumes "r \<noteq> ''''"
  shows "length (path_clean (r @ ''/'')) < length (r @ ''/'')"
proof -
  have drop_last: "clean_elements rooted kept (es @ ['''']) = clean_elements rooted kept es" for rooted kept es
    by (induction rooted kept es rule: clean_elements.induct) auto
  show ?thesis
  proof (cases "has_prefix r ''/''")
    case True
    then obtain r' where r: "r = CHR ''/'' # r'" by (auto simp: has_prefix_def prefix_def)
    have "has_prefix (r @ ''/'') ''/''" by (simp add: r has_prefix_def)
    then have "length (path_clean (r @ ''/'')) \<le> Suc (length r')"
      using clean_length [of True r'] by (simp add: path_clean_def Let_def r split_snoc drop_last del: append_Cons) 
    then show ?thesis by (simp add: r)
  next
    case False
    then have "\<not> has_prefix (r @ ''/'') ''/''" using assms by (cases r) (auto simp: has_prefix_def)
    then have "length (path_clean (r @ ''/'')) \<le> max 1 (length r)"
      using clean_length [of False r] by (auto simp: path_clean_def Let_def split_snoc drop_last)
    then show ?thesis using assms by (cases r) auto
  qed
qed

lemma last_index_take: "last_index_byte p c = Some i \<Longrightarrow> i < length p \<and> take (Suc i) p = take i p @ [c]"
  by (induction p c arbitrary: i rule: last_index_byte.induct) (auto split: option.splits if_splits)

definition path_rank :: "string \<Rightarrow> nat" where
  "path_rank p = (if p = ''.'' then 0 else Suc (length p))"

lemma parent_smaller: "path_dir p \<noteq> p \<Longrightarrow> path_rank (path_dir p) < path_rank p"
proof (cases "last_index_byte p (CHR ''/'')")
  case None
  then have "path_dir p = ''.''" by (simp add: path_dir_def path_clean_def has_prefix_def)
  then show "path_dir p \<noteq> p \<Longrightarrow> ?thesis" by (simp add: path_rank_def)
next
  case (Some i)
  note i = last_index_take [OF Some]
  have p: "p \<noteq> ''.''" using Some by auto
  assume other: "path_dir p \<noteq> p"
  show ?thesis
  proof (cases "take i p = ''''")
    case True
    then have "take (Suc i) p = ''/''" using i by simp
    then have "path_dir p = ''/''" using Some by (simp add: path_dir_def path_clean_def has_prefix_def)
    moreover have "length p > 1"
      using True i other calculation by (cases p; cases "tl p") auto
    ultimately show ?thesis using p by (simp add: path_rank_def)
  next
    case False
    then have "length (path_dir p) < Suc i" using i Some clean_shorter [OF False] by (simp add: path_dir_def)
    then show ?thesis using p i by (auto simp: path_rank_def)
  qed
qed

termination existingAncestor
  by (relation "measure (\<lambda>(X, current, below, w). path_rank current)") (auto simp: parent_smaller)

declare existingAncestor.simps [simp del]


definition resolveContextExportAlias :: "'x file_system \<Rightarrow> string \<Rightarrow> ('x, string) op" where
  "resolveContextExportAlias X path =
     seqE (orFail (fs_Abs X path) ''failed to resolve context export path'') (\<lambda>absolute.
     seqE (existingAncestor X (path_clean absolute) []) (\<lambda>(current, below).
     seqE (orFail (fs_EvalSymlinks X current) ''failed to resolve context export path aliases'') (\<lambda>resolved.
     ret (path_clean (foldr (\<lambda>e r. path_join [r, e]) below resolved)))))"

section \<open>Conflicts\<close>

definition contextExportPathsEqual :: "'x file_system \<Rightarrow> string \<Rightarrow> string \<Rightarrow> bool" where
  "contextExportPathsEqual X left right =
    (if fs_VolumeName X left \<noteq> '''' \<or> fs_VolumeName X right \<noteq> ''''
     then equal_fold (path_clean left) (path_clean right)
     else path_clean left = path_clean right)"

definition contextExportPathWithin :: "string \<Rightarrow> string \<Rightarrow> bool" where
  "contextExportPathWithin path directory =
    (case path_rel directory path of
       None \<Rightarrow> False
     | Some relative \<Rightarrow> relative = ''.'' \<or> (relative \<noteq> ''..'' \<and> \<not> has_prefix relative ''../''))"

definition contextExportPathsConflict :: "'x file_system \<Rightarrow> string \<Rightarrow> string \<Rightarrow> string \<Rightarrow> ('x, bool) op" where
  "contextExportPathsConflict X target targetResolved protected =
     seqE (resolveContextExportAlias X protected) (\<lambda>protectedResolved.
     if contextExportPathsEqual X targetResolved protectedResolved then ret True
     else
       tryE (fs_Stat X target) (\<lambda>targetInfo.
       tryE (fs_Stat X protected) (\<lambda>protectedInfo.
       if (case (targetInfo, protectedInfo) of (Inr i, Inr j) \<Rightarrow> i = j | _ \<Rightarrow> False) then ret True
       else if (case targetInfo of Inl e \<Rightarrow> \<not> fs_isNotExist X e | Inr _ \<Rightarrow> False)
       then throw (local_io ''failed to identify context export output'')
       else if (case protectedInfo of Inl e \<Rightarrow> \<not> fs_isNotExist X e | Inr _ \<Rightarrow> False)
       then throw (local_io ''failed to identify governed state path'')
       else ret False)))"

definition contextExportConflictsWithAuditTempNamespace :: "'x file_system \<Rightarrow> string \<Rightarrow> string \<Rightarrow> bool" where
  "contextExportConflictsWithAuditTempNamespace X target auditPath =
    (if \<not> contextExportPathsEqual X (path_dir target) (path_dir auditPath) then False
     else
       let fold_case = (if fs_VolumeName X target \<noteq> '''' \<or> fs_VolumeName X auditPath \<noteq> '''' then to_lower else id);
           targetName = fold_case (path_base target);
           auditName = fold_case (path_base auditPath)
       in has_prefix targetName (auditName @ ''.checkpoint.tmp-'') \<or>
          has_prefix targetName (auditName @ ''.hmac-key.tmp-''))"

definition contextExportConfigPath :: "'x file_system \<Rightarrow> cliFlags \<Rightarrow> go_error + string" where
  "contextExportConfigPath X f =
    (if trim_space (fl_Config f) \<noteq> '''' then Inr (fl_Config f)
     else case fs_UserHomeDir X of
       Inl _ \<Rightarrow> Inl (local_io ''failed to resolve context config path'')
     | Inr home \<Rightarrow> Inr (path_join [home, ''.mqgov-cli'', ''config.yaml'']))"

definition mutationAuditSpoolPath :: "string \<Rightarrow> string" where
  "mutationAuditSpoolPath path = path @ ''.outcome-spool''"

definition mutationAuditSpoolLockBase :: string where "mutationAuditSpoolLockBase = ''queue''"

text \<open>The paths, and the spool among them. \<open>defaultPath\<close> is what \<open>audit.DefaultPath\<close> returns.\<close>

definition contextExportProtectedPaths ::
  "'x file_system \<Rightarrow> go_error + string \<Rightarrow> cliFlags \<Rightarrow> ('x, string list \<times> string) op" where
  "contextExportProtectedPaths X defaultPath f =
     seqE (liftE (contextExportConfigPath X f)) (\<lambda>configPath.
     seqE (liftFail defaultPath ''failed to resolve mutation audit path'') (\<lambda>auditPath.
     let spool = mutationAuditSpoolPath auditPath;
         paths = [configPath, configPath @ ''.tmp'', configPath @ ''.lock'',
           path_join [path_dir configPath, ''config.lock''],
           auditPath, auditPath @ ''.lock'', auditPath @ ''.checkpoint'', auditPath @ ''.hmac-key'',
           spool, path_join [spool, mutationAuditSpoolLockBase @ ''.lock'']]
     in seqE (fs_RotatedFiles X auditPath) (\<lambda>rotated.
        seqE (liftFail (fs_UserHomeDir X) ''failed to resolve credential store path'') (\<lambda>home.
        let credentialPath = path_join [home, ''.mqgov-cli'', ''credentials.enc'']
        in ret (paths @ rotated @ [credentialPath, credentialPath @ ''.tmp''], spool)))))"

text \<open>\<open>for _, p := range protected\<close>: an error, a conflict, or neither.\<close>

fun refuseConflicts :: "'x file_system \<Rightarrow> string \<Rightarrow> string \<Rightarrow> string \<Rightarrow> string list \<Rightarrow> ('x, unit) op" where
  "refuseConflicts X msg target targetResolved [] = ret ()"
| "refuseConflicts X msg target targetResolved (protected # rest) =
     seqE (contextExportPathsConflict X target targetResolved protected) (\<lambda>conflict.
     if conflict then throw (usage_error msg) else refuseConflicts X msg target targetResolved rest)"

definition rejectContextExportStateConflict ::
  "'x file_system \<Rightarrow> go_error + string \<Rightarrow> cliFlags \<Rightarrow> string \<Rightarrow> string \<Rightarrow> ('x, unit) op" where
  "rejectContextExportStateConflict X defaultPath f target targetResolved =
     seqE (contextExportProtectedPaths X defaultPath f) (\<lambda>(protected, spool).
     seqE (refuseConflicts X ''context export output conflicts with governed state'' target targetResolved protected) (\<lambda>_.
     seqE (liftFail defaultPath ''failed to resolve mutation audit path'') (\<lambda>auditPath.
     seqE (resolveContextExportAlias X auditPath) (\<lambda>auditResolved.
     if contextExportConflictsWithAuditTempNamespace X targetResolved auditResolved
     then throw (usage_error ''context export output conflicts with temporary audit state'')
     else if fs_isRotated X auditResolved targetResolved
     then throw (usage_error ''context export output conflicts with rotated audit state'')
     else
       seqE (resolveContextExportAlias X spool) (\<lambda>spoolResolved.
       if contextExportPathWithin targetResolved spoolResolved
       then throw (usage_error ''context export output conflicts with the mutation audit spool'')
       else ret ())))))"

definition validateContextExportTargetType :: "'x file_system \<Rightarrow> string \<Rightarrow> ('x, unit) op" where
  "validateContextExportTargetType X target =
     tryE (fs_Lstat X target) (\<lambda>r. case r of
       Inr info \<Rightarrow>
         if fi_symlink info then throw (local_io ''context export output must not be a symlink or reparse point'')
         else if \<not> fi_regular info then throw (local_io ''context export output must be a regular file'')
         else ret ()
     | Inl e \<Rightarrow> if fs_isNotExist X e then ret () else throw (local_io ''failed to inspect context export output''))"

definition validateContextExportPath ::
  "'x file_system \<Rightarrow> go_error + string \<Rightarrow> cliFlags \<Rightarrow> string \<Rightarrow> ('x, unit) op" where
  "validateContextExportPath X defaultPath f path =
    (let target = trim_space path in
     if target = '''' then throw (usage_error ''context export output path is required'')
     else
       seqE (validateContextExportTargetType X target) (\<lambda>_.
       seqE (resolveContextExportAlias X target) (\<lambda>targetResolved.
       rejectContextExportStateConflict X defaultPath f target targetResolved)))"

end
