(* ===== verification/Context_Export.thy ===== *)
theory Context_Export
  imports Governed_Paths
begin

text \<open>
  \<open>ctx export\<close> (cmd/context.go 666-987, 1189-1197, cmd/context_export_permissions_other.go): one context or all of
  them become a YAML document, without their credentials unless asked, on the standard output or in a file that
  replaces another atomically and belongs to the user alone.

  \<open>export_system\<close> adds to the file system the calls that change it and the standard output (\<open>xs_Stdout\<close>), and
  \<open>yaml.Marshal\<close>. A context read from a map is a copy.
\<close>

section \<open>State and environment\<close>

type_synonym ('l, 'b, 's, 'c, 'x) machine = "('l, 'b, 's, 'c) ctl \<times> 'x"

record 'x export_system = "'x file_system" +
  xs_OpenExclusive :: "string \<Rightarrow> ('x, unit) op"
  xs_Write :: "string \<Rightarrow> string \<Rightarrow> ('x, unit) op"
  xs_Sync :: "string \<Rightarrow> ('x, unit) op"
  xs_Close :: "string \<Rightarrow> ('x, unit) op"
  xs_Remove :: "string \<Rightarrow> ('x, unit) op"
  xs_Rename :: "string \<Rightarrow> string \<Rightarrow> ('x, unit) op"
  xs_SyncDirectory :: "string \<Rightarrow> ('x, unit) op"
  xs_Stdout :: "string \<Rightarrow> ('x, unit) op"
  xs_marshal :: "contextExportDocument \<Rightarrow> go_error + string"
  xs_eventContextExport :: string

definition inCtl :: "('w \<Rightarrow> 'r \<times> 'w) \<Rightarrow> 'w \<times> 'x \<Rightarrow> 'r \<times> ('w \<times> 'x)" where
  "inCtl m = zoom fst (\<lambda>v w. (v, snd w)) m"

definition inFiles :: "('x \<Rightarrow> 'r \<times> 'x) \<Rightarrow> 'w \<times> 'x \<Rightarrow> 'r \<times> ('w \<times> 'x)" where
  "inFiles m = zoom snd (\<lambda>v w. (fst w, v)) m"

section \<open>Documents\<close>

record ctxExportOptions =
  xo_includeCredentials :: bool
  xo_outputFile :: string
  xo_all :: bool

definition redactContextCredentials :: "(string \<Rightarrow> string) \<Rightarrow> Context \<Rightarrow> Context" where
  "redactContextCredentials redact item = item\<lparr>
     cx_Password := (if cx_Password item \<noteq> '''' then redactedCredential else cx_Password item),
     cx_KafkaSchemaRegistryPassword := (if cx_KafkaSchemaRegistryPassword item \<noteq> '''' then redactedCredential
       else cx_KafkaSchemaRegistryPassword item),
     cx_RabbitMQAMQPURL := redact (cx_RabbitMQAMQPURL item)\<rparr>"

text \<open>The part that \<open>runCtxExport\<close> and the loop of \<open>runCtxExportAll\<close> share.\<close>

definition exportedContext :: "(string \<Rightarrow> string) \<Rightarrow> ctxExportOptions \<Rightarrow> Context \<Rightarrow> go_error + Context" where
  "exportedContext redact opts item =
    (if xo_includeCredentials opts
     then (if cx_CredentialBackend item \<noteq> '''' \<and> cx_CredentialBackend item \<noteq> ''plain-yaml''
       then Inl (AppError CodeCredentialStoreError
         (''credentials backed by '' @ cx_CredentialBackend item @ '' cannot be exported in cleartext'') None)
       else Inr item)
     else Inr (redactContextCredentials redact item))"

fun exportedContexts ::
  "(string \<Rightarrow> string) \<Rightarrow> ctxExportOptions \<Rightarrow> (string \<times> Context) list \<Rightarrow> go_error + (string \<times> Context) list" where
  "exportedContexts redact opts [] = Inr []"
| "exportedContexts redact opts ((name, item) # rest) =
    (case exportedContext redact opts item of
       Inl e \<Rightarrow> Inl e
     | Inr item' \<Rightarrow> (case exportedContexts redact opts rest of
         Inl e \<Rightarrow> Inl e | Inr items \<Rightarrow> Inr ((name, item') # items)))"

definition marshalExport ::
  "('x, 'more) export_system_scheme \<Rightarrow> contextExportDocument \<Rightarrow> ('w, string) op" where
  "marshalExport X doc = liftE (case xs_marshal X doc of
     Inl e \<Rightarrow> Inl (AppError CodeLocalIOError ''failed to marshal context export'' (Some e)) | Inr text \<Rightarrow> Inr text)"

section \<open>Writing\<close>

definition replaceContextExportFile :: "'x export_system \<Rightarrow> string \<Rightarrow> string \<Rightarrow> ('x, unit) op" where
  "replaceContextExportFile X src dst =
     seqE (xs_Rename X src dst) (\<lambda>_. xs_SyncDirectory X (path_dir dst))"

definition verifyContextExportOwnerOnly :: "'l audit_env \<Rightarrow> 'x export_system \<Rightarrow> string \<Rightarrow> ('x, unit) op" where
  "verifyContextExportOwnerOnly A X path =
     seqE (orFail (fs_Lstat (file_system.truncate X) path) ''failed to inspect mutation outcome spool file'') (\<lambda>info.
     check (spoolFileCheck A info path))"

text \<open>What is done with the open temporary file, up to \<open>complete = true\<close>.\<close>

definition fillAndReplace :: "'x export_system \<Rightarrow> string \<Rightarrow> string \<Rightarrow> string \<Rightarrow> ('x, unit) op" where
  "fillAndReplace X tempPath path data =
     seqE (orFail (xs_Write X tempPath data) ''failed to write context export temporary file'') (\<lambda>_.
     seqE (orFail (xs_Sync X tempPath) ''failed to sync context export temporary file'') (\<lambda>_.
     seqE (orFail (xs_Close X tempPath) ''failed to close context export temporary file'') (\<lambda>_.
     orFail (replaceContextExportFile X tempPath path) ''failed to atomically replace context export file'')))"

text \<open>From the creation of the temporary file on. The deferred function closes it, and removes it unless complete.\<close>

definition writeThroughTemp :: "'l audit_env \<Rightarrow> 'x export_system \<Rightarrow> string \<Rightarrow> string \<Rightarrow> string \<Rightarrow> ('x, unit) op" where
  "writeThroughTemp A X tempPath path data =
     seqE (orFail (xs_OpenExclusive X tempPath) ''failed to create private context export temporary file'') (\<lambda>_.
     tryE (fillAndReplace X tempPath path data) (\<lambda>filled. case filled of
       Inl e \<Rightarrow> tryE (xs_Close X tempPath) (\<lambda>_. tryE (xs_Remove X tempPath) (\<lambda>_. throw e))
     | Inr _ \<Rightarrow>
         tryE (orFail (verifyContextExportOwnerOnly A X path) ''context export file is not owner-only'') (\<lambda>verified.
         tryE (xs_Close X tempPath) (\<lambda>_. liftE verified))))"

definition writeContextExport ::
  "('l, 'b, 's, 'c) ctl_env \<Rightarrow> 'x export_system \<Rightarrow> cliFlags \<Rightarrow> string \<Rightarrow> string \<Rightarrow>
   (('l, 'b, 's, 'c, 'x) machine, unit) op" where
  "writeContextExport K X f path data =
    (if path = ''''
     then tryE (inFiles (xs_Stdout X data)) (\<lambda>r. case r of
       Inl e \<Rightarrow> throw (AppError CodeLocalIOError ''failed to write context export'' (Some e)) | Inr _ \<Rightarrow> ret ())
     else
       seqE (inFiles (validateContextExportPath (file_system.truncate X) (ae_default_path (kc_audit K)) f path)) (\<lambda>_.
       seqE (inCtl (inWorld (audit (newMutationID_op (kc_audit K))))) (\<lambda>ident.
       inFiles (writeThroughTemp (kc_audit K) X
         (path_join [path_dir path, ''.mqgov-context-export-'' @ ident @ ''.tmp'']) path data))))"

section \<open>The command\<close>

definition exportPlan :: "string \<Rightarrow> (string \<times> json) list \<Rightarrow> (string \<times> json) list" where
  "exportPlan path what = [(''resourceType'', JStr ''file''), (''action'', JStr ''context export'')] @ what @
     [(''path'', JStr path), (''dryRun'', JBool True)]"

definition exportSpec :: "string \<Rightarrow> string \<Rightarrow> Context \<Rightarrow> string \<Rightarrow> int \<Rightarrow> mutationAuditSpec" where
  "exportSpec action name item data items = controlSpec action name item
     \<lparr>et_ResourceType = ''file'', et_Resource = ''''\<rparr> ((mutationPayloadMetadata action data)\<lparr>md_Items := items\<rparr>)"

definition validateExportOutput ::
  "('l, 'b, 's, 'c) ctl_env \<Rightarrow> 'x export_system \<Rightarrow> cliFlags \<Rightarrow> string \<Rightarrow> (('l, 'b, 's, 'c, 'x) machine, unit) op" where
  "validateExportOutput K X f path = (if path \<noteq> ''''
     then inFiles (validateContextExportPath (file_system.truncate X) (ae_default_path (kc_audit K)) f path) else ret ())"

definition runCtxExportAll ::
  "('l, 'b, 's, 'c) ctl_env \<Rightarrow> 'x export_system \<Rightarrow> cliFlags \<Rightarrow> (string \<times> Context) list \<Rightarrow> ctxExportOptions \<Rightarrow>
   (('l, 'b, 's, 'c, 'x) machine, unit) op" where
  "runCtxExportAll K X f contexts opts =
    (let entries = sorted_entries contexts; names = map fst entries; n = int (length names); path = xo_outputFile opts in
     seqE (liftE (exportedContexts (ce_redact (kc_cmd K)) opts entries)) (\<lambda>exported.
     seqE (marshalExport X \<lparr>cd_APIVersion = ctxExportAPIVersion, cd_Name = '''', cd_Context = None, cd_Contexts = exported\<rparr>) (\<lambda>data.
     seqE (validateExportOutput K X f path) (\<lambda>_.
     if contextPlanOnly f
     then inCtl (printJSONData K f ''ChangePlan''
       (exportPlan path [(''contexts'', JArr (map JStr names)), (''count'', JNum n)]))
     else if path = ''''
     then seqE (writeContextExport K X f '''' data) (\<lambda>_.
       inCtl (inWorld (audit (appendAuditWarn (kc_audit K) f (xs_eventContextExport X) no_context
         \<lparr>et_ResourceType = ''context'', et_Resource = ''''\<rparr> StatusSuccess ''ctx export --all stdout'' None))))
     else
       seqE (inCtl (inWorld (audit (beginMutationAudit (kc_audit K) f
         (exportSpec ''mq.ctx.export-batch'' '''' no_context data n))))) (\<lambda>handle.
       callE (writeContextExport K X f path data) (\<lambda>written.
       tryE (inCtl (inWorld (audit (finishBatchMutationAudit (kc_audit K) f handle n
         (if errOf written = None then n else 0) (if errOf written = None then 0 else 1) (errOf written))))) (\<lambda>finished.
       check (finishReturn finished (errOf written)))))))))"

definition runCtxExport ::
  "('l, 'b, 's, 'c) ctl_env \<Rightarrow> 'x export_system \<Rightarrow> cliFlags \<Rightarrow> string \<Rightarrow> ctxExportOptions \<Rightarrow>
   (('l, 'b, 's, 'c, 'x) machine, unit) op" where
  "runCtxExport K X f name opts =
     seqE (inCtl (loadContexts K)) (\<lambda>cfg.
     if xo_all opts then runCtxExportAll K X f (cf_Contexts cfg) opts
     else case map_of (cf_Contexts cfg) name of
       None \<Rightarrow> throw (contextNotFound name)
     | Some stored_item \<Rightarrow>
         seqE (liftE (exportedContext (ce_redact (kc_cmd K)) opts stored_item)) (\<lambda>item.
         seqE (marshalExport X \<lparr>cd_APIVersion = ctxExportAPIVersion, cd_Name = name, cd_Context = Some item, cd_Contexts = []\<rparr>) (\<lambda>data.
         let path = xo_outputFile opts in
         seqE (validateExportOutput K X f path) (\<lambda>_.
         if contextPlanOnly f
         then seqE (inCtl (appendContextAuditWarn K f (xs_eventContextExport X) item ''ctx export dryRun=true'')) (\<lambda>_.
              inCtl (printJSONData K f ''ChangePlan'' (exportPlan path [(''context'', JStr name)])))
         else if path = ''''
         then seqE (writeContextExport K X f '''' data) (\<lambda>_.
              inCtl (appendContextAuditWarn K f (xs_eventContextExport X) item ''ctx export stdout''))
         else
           seqE (inCtl (inWorld (audit (beginMutationAudit (kc_audit K) f (exportSpec ''mq.ctx.export'' name item data 1))))) (\<lambda>handle.
           callE (writeContextExport K X f path data) (\<lambda>written.
           inCtl (concludeControl K f empty_outcome (errOf written) (Some handle))))))))"

text \<open>The check of the arguments, and \<open>name\<close>.\<close>

definition ctxExportCmd ::
  "('l, 'b, 's, 'c) ctl_env \<Rightarrow> 'x export_system \<Rightarrow> cliFlags \<Rightarrow> string list \<Rightarrow> ctxExportOptions \<Rightarrow>
   (('l, 'b, 's, 'c, 'x) machine, unit) op" where
  "ctxExportCmd K X f args opts =
    (if xo_all opts \<and> args \<noteq> [] then throw (usage_error ''ctx export --all accepts no positional context'')
     else if \<not> xo_all opts \<and> length args \<noteq> 1
     then throw (usage_error ''ctx export requires a context name or --all'')
     else runCtxExport K X f (case args of [name] \<Rightarrow> name | _ \<Rightarrow> '''') opts)"

end
