(* ===== verification/Context_Export_Laws.thy ===== *)
theory Context_Export_Laws
  imports Context_Export
begin

text \<open>
  What the checks of paths mean and what an export does to the files: the resolution of aliases ends after a bounded
  number of system calls, and an export shows only what may be shown and replaces only a file that is none of the
  governed ones.
\<close>

section \<open>Aliases\<close>

text \<open>\<open>looks\<close> counts the calls of \<open>os.Lstat\<close>; no other call of the resolution adds to it.\<close>

definition counts_looks :: "('x, 'more) file_system_scheme \<Rightarrow> ('x \<Rightarrow> nat) \<Rightarrow> bool" where
  "counts_looks X looks = ((\<forall>p x. looks (snd (fs_Lstat X p x)) \<le> Suc (looks x)) \<and>
     (\<forall>p x. looks (snd (fs_EvalSymlinks X p x)) = looks x) \<and> (\<forall>p x. looks (snd (fs_Abs X p x)) = looks x))"

lemma ancestor_looks:
  assumes "counts_looks X looks"
  shows "looks (snd (existingAncestor X current below x)) \<le> looks x + Suc (path_rank current)"
  using assms
proof (induction X current below x rule: existingAncestor.induct)
  case (1 X current below x)
  obtain r x1 where look: "fs_Lstat X current x = (r, x1)" by fastforce
  have x1: "looks x1 \<le> Suc (looks x)" using 1(2) look by (metis counts_looks_def snd_conv)
  show ?case
  proof (cases "\<exists>e. r = Inl e \<and> fs_isNotExist X e \<and> path_dir current \<noteq> current")
    case True
    then obtain e where e: "r = Inl e" "fs_isNotExist X e" "path_dir current \<noteq> current" by blast
    then have "looks (snd (existingAncestor X (path_dir current) (below @ [path_base current]) x1)) \<le>
        looks x1 + Suc (path_rank (path_dir current))"
      using 1 look by simp
    then show ?thesis
      using x1 e look parent_smaller [OF e(3)] by (subst existingAncestor.simps) (simp add: Let_def)
  next
    case False
    then have "snd (existingAncestor X current below x) = x1"
      using look by (subst existingAncestor.simps) (auto simp: Let_def split: sum.split)
    then show ?thesis using x1 by simp
  qed
qed

text \<open>While nobody else changes the file system, its inspection leaves it as it is.\<close>

definition steady :: "('x, 'more) file_system_scheme \<Rightarrow> bool" where
  "steady X = ((\<forall>p x. snd (fs_Lstat X p x) = x) \<and> (\<forall>p x. snd (fs_Stat X p x) = x) \<and>
     (\<forall>p x. snd (fs_EvalSymlinks X p x) = x) \<and> (\<forall>p x. snd (fs_Abs X p x) = x) \<and>
     (\<forall>p x. snd (fs_RotatedFiles X p x) = x))"

lemma steady_truncate [simp]: "steady (file_system.truncate X) = steady X"
  by (simp add: steady_def file_system.truncate_def)

interpretation same: op_relation "\<lambda>x y. y = x" by unfold_locales auto

lemma sameD: "same.keeps m \<Longrightarrow> m x = (r, x') \<Longrightarrow> x' = x"
  by (rule same.keepsD)

lemma same_calls:
  assumes "steady X"
  shows "same.keeps (fs_Lstat X p)" "same.keeps (fs_Stat X p)" "same.keeps (fs_EvalSymlinks X p)"
    "same.keeps (fs_Abs X p)" "same.keeps (fs_RotatedFiles X p)"
  using assms by (simp_all add: same.keeps_def steady_def)

lemma same_orFail: "same.keeps m \<Longrightarrow> same.keeps (orFail m msg)"
  unfolding orFail_def by (intro same.keeps_rules)

lemma same_ancestor:
  assumes "steady X"
  shows "snd (existingAncestor X current below x) = x"
  using assms
proof (induction X current below x rule: existingAncestor.induct)
  case (1 X current below x)
  have look: "snd (fs_Lstat X current x) = x" using 1(2) by (simp add: steady_def)
  then show ?case
    using 1 by (subst existingAncestor.simps) (auto simp: Let_def split: prod.split sum.split)
qed

lemma same_resolve: "steady X \<Longrightarrow> same.keeps (resolveContextExportAlias X path)"
  unfolding resolveContextExportAlias_def
  by (intro same.keeps_rules same_orFail same_calls) (auto simp: same.keeps_def same_ancestor)

lemma same_conflict: "steady X \<Longrightarrow> same.keeps (contextExportPathsConflict X target tr p)"
  unfolding contextExportPathsConflict_def by (intro same.keeps_rules same_resolve same_calls)

lemma same_refuse: "steady X \<Longrightarrow> same.keeps (refuseConflicts X msg target tr ps)"
  by (induction ps) (auto intro!: same.keeps_rules same_conflict simp: same.keeps_def [of "Pair _"])

lemma same_protected: "steady X \<Longrightarrow> same.keeps (contextExportProtectedPaths X dp f)"
  unfolding contextExportProtectedPaths_def liftFail_def Let_def by (intro same.keeps_rules same_orFail same_calls)

section \<open>Conflicts\<close>

text \<open>A path is apart from a governed one: another path, and another file if both exist.\<close>

definition apart :: "'x file_system \<Rightarrow> string \<Rightarrow> string \<Rightarrow> 'x \<Rightarrow> string \<Rightarrow> bool" where
  "apart X target targetResolved x p = ((\<exists>r. resolveContextExportAlias X p x = (Inr r, x) \<and>
       \<not> contextExportPathsEqual X targetResolved r) \<and>
     (\<forall>i j. fst (fs_Stat X target x) = Inr i \<longrightarrow> fst (fs_Stat X p x) = Inr j \<longrightarrow> i \<noteq> j))"

lemma conflict_apart:
  assumes "steady X" and run: "contextExportPathsConflict X target tr p x = (Inr False, x')"
  shows "apart X target tr x p"
proof -
  obtain r where r: "resolveContextExportAlias X p x = (Inr r, x)" "\<not> contextExportPathsEqual X tr r"
    using run sameD [OF same_resolve [OF assms(1)]]
    by (fastforce simp: contextExportPathsConflict_def seqE_run split: prod.splits sum.splits if_splits)
  obtain i j where s: "fs_Stat X target x = (i, x)" "fs_Stat X p x = (j, x)"
    using assms(1) by (metis steady_def prod.collapse)
  show ?thesis
    using run r s by (auto simp: apart_def contextExportPathsConflict_def seqE_run tryE_run split: if_splits sum.splits)
qed

lemma refuse_apart:
  assumes "steady X"
  shows "refuseConflicts X msg target tr ps x = (Inr u, x') \<Longrightarrow> p \<in> set ps \<Longrightarrow> apart X target tr x p"
proof (induction ps)
  case (Cons q ps)
  from Cons.prems(1) obtain x1 where c: "contextExportPathsConflict X target tr q x = (Inr False, x1)"
    and rest: "refuseConflicts X msg target tr ps x1 = (Inr u, x')"
    by (auto elim!: seqE_Inr split: if_splits)
  have "x1 = x" by (rule sameD [OF same_conflict [OF assms] c])
  then show ?case using Cons conflict_apart [OF assms c] rest by auto
qed simp

text \<open>What a path that passes the validation is.\<close>

definition ungoverned :: "'x file_system \<Rightarrow> go_error + string \<Rightarrow> cliFlags \<Rightarrow> string \<Rightarrow> 'x \<Rightarrow> bool" where
  "ungoverned X defaultPath f target x = (\<exists>targetResolved protected spool spoolResolved auditPath auditResolved.
     (case fst (fs_Lstat X target x) of
        Inr info \<Rightarrow> fi_regular info \<and> \<not> fi_symlink info | Inl e \<Rightarrow> fs_isNotExist X e) \<and>
     resolveContextExportAlias X target x = (Inr targetResolved, x) \<and>
     contextExportProtectedPaths X defaultPath f x = (Inr (protected, spool), x) \<and>
     list_all (apart X target targetResolved x) protected \<and>
     defaultPath = Inr auditPath \<and> resolveContextExportAlias X auditPath x = (Inr auditResolved, x) \<and>
     \<not> contextExportConflictsWithAuditTempNamespace X targetResolved auditResolved \<and>
     \<not> fs_isRotated X auditResolved targetResolved \<and>
     resolveContextExportAlias X spool x = (Inr spoolResolved, x) \<and>
     \<not> contextExportPathWithin targetResolved spoolResolved)"

lemma target_type_ok:
  assumes "steady X" and "validateContextExportTargetType X t x = (Inr u, x')"
  shows "case fst (fs_Lstat X t x) of Inr info \<Rightarrow> fi_regular info \<and> \<not> fi_symlink info | Inl e \<Rightarrow> fs_isNotExist X e"
  using assms by (auto simp: validateContextExportTargetType_def tryE_run split: prod.splits sum.splits if_splits)

lemma validated_ungoverned:
  assumes st: "steady X" and run: "validateContextExportPath X dp f path x = (Inr u, x')"
  shows "ungoverned X dp f (trim_space path) x"
proof -
  let ?t = "trim_space path"
  have ty: "same.keeps (validateContextExportTargetType X ?t)"
    unfolding validateContextExportTargetType_def by (intro same.keeps_rules same_calls st)
  obtain x1 x2 tr where v: "validateContextExportTargetType X ?t x = (Inr (), x1)"
    and tr: "resolveContextExportAlias X ?t x1 = (Inr tr, x2)" and rj: "rejectContextExportStateConflict X dp f ?t tr x2 = (Inr u, x')"
    using run by (auto simp: validateContextExportPath_def Let_def elim!: seqE_Inr split: if_splits)
  have x: "x1 = x" "x2 = x" using sameD [OF ty v] sameD [OF same_resolve [OF st] tr] by auto
  obtain protected spool x3 x4 x5 x6 x7 ap ar sr where
    p: "contextExportProtectedPaths X dp f x2 = (Inr (protected, spool), x3)"
    and rf: "refuseConflicts X ''context export output conflicts with governed state'' ?t tr protected x3 = (Inr (), x4)"
    and dp: "liftFail dp ''failed to resolve mutation audit path'' x4 = (Inr ap, x5)"
    and ar: "resolveContextExportAlias X ap x5 = (Inr ar, x6)"
    and ns: "\<not> contextExportConflictsWithAuditTempNamespace X tr ar" "\<not> fs_isRotated X ar tr"
    and sr: "resolveContextExportAlias X spool x6 = (Inr sr, x7)" "\<not> contextExportPathWithin tr sr"
    using rj by (auto simp: rejectContextExportStateConflict_def elim!: seqE_Inr split: if_splits prod.splits)
  have "x5 = x4" "dp = Inr ap" using dp by (auto simp: liftFail_def orFail_def tryE_run liftE_def split: sum.splits)
  then have "x3 = x" "x4 = x" "x5 = x" "x6 = x" "x7 = x" "dp = Inr ap"
    using x sameD [OF same_protected [OF st] p] sameD [OF same_refuse [OF st] rf] sameD [OF same_resolve [OF st] ar]
      sameD [OF same_resolve [OF st] sr(1)] by auto
  then show ?thesis
    using x tr p refuse_apart [OF st rf] ar ns sr target_type_ok [OF st v] unfolding ungoverned_def list_all_iff by blast
qed


section \<open>Directories\<close>

definition plain_element :: "string \<Rightarrow> bool" where
  "plain_element e = (e \<noteq> '''' \<and> e \<noteq> ''.'' \<and> e \<noteq> ''..'' \<and> CHR ''/'' \<notin> set e)"

lemma split_elements: "e \<in> set (split_on c p) \<Longrightarrow> c \<notin> set e"
  by (induction c p arbitrary: e rule: split_on.induct) (fastforce split: list.splits if_splits)+

lemma split_single: "c \<notin> set p \<Longrightarrow> split_on c p = [p]"
  by (induction p) auto

lemma split_append: "c \<notin> set p \<Longrightarrow> split_on c (p @ c # q) = p # split_on c q"
  by (induction p) auto

lemma split_join:
  "es \<noteq> [] \<Longrightarrow> \<forall>e \<in> set es. CHR ''/'' \<notin> set e \<Longrightarrow> split_on (CHR ''/'') (join_with ''/'' es) = es"
  by (induction "''/''" es rule: join_with.induct) (auto simp: split_single split_append)

lemma clean_plain:
  "\<forall>e \<in> set kept. plain_element e \<Longrightarrow> \<forall>e \<in> set es. CHR ''/'' \<notin> set e \<Longrightarrow>
    \<forall>e \<in> set (clean_elements True kept es). plain_element e"
proof (induction es arbitrary: kept)
  case (Cons e es)
  let ?k = "if e = '''' \<or> e = ''.'' then kept
    else if e = ''..'' then (if kept \<noteq> [] \<and> hd kept \<noteq> ''..'' then tl kept else kept) else e # kept"
  have step: "clean_elements True kept (e # es) = clean_elements True ?k es" by simp
  have e: "e \<noteq> '''' \<Longrightarrow> e \<noteq> ''.'' \<Longrightarrow> e \<noteq> ''..'' \<Longrightarrow> plain_element e"
    using Cons.prems(2) by (simp add: plain_element_def)
  have "\<forall>x \<in> set (tl kept). plain_element x" using Cons.prems(1) by (cases kept) simp_all
  then have k: "\<forall>x \<in> set ?k. plain_element x" using Cons.prems(1) e by simp
  show ?case unfolding step by (rule Cons.IH [OF k]) (use Cons.prems(2) in simp)
qed simp

lemma rooted_elements:
  assumes "has_prefix p ''/''"
  shows "\<exists>es. path_clean p = CHR ''/'' # join_with ''/'' es \<and> path_elements (path_clean p) = es \<and> (\<forall>e \<in> set es. plain_element e)"
proof -
  let ?es = "clean_elements True [] (split_on (CHR ''/'') p)"
  have plain: "\<forall>e \<in> set ?es. plain_element e" by (rule clean_plain) (auto dest: split_elements)
  have c: "path_clean p = CHR ''/'' # join_with ''/'' ?es" using assms by (simp add: path_clean_def)
  have "path_elements (CHR ''/'' # join_with ''/'' ?es) = ?es"
  proof (cases "?es = []")
    case False
    then have "split_on (CHR ''/'') (join_with ''/'' ?es) = ?es"
      using plain by (intro split_join) (auto simp: plain_element_def)
    moreover have "filter (\<lambda>e. e \<noteq> '''') ?es = ?es" using plain by (auto simp: plain_element_def filter_id_conv)
    ultimately show ?thesis by (simp add: path_elements_def)
  qed (simp add: path_elements_def)
  then show ?thesis using c plain by auto
qed

lemma drop_common_law: "drop_common bs ts = (bs', ts') \<Longrightarrow>
    \<exists>c. bs = c @ bs' \<and> ts = c @ ts' \<and> (bs' = [] \<or> ts' = [] \<or> hd bs' \<noteq> hd ts')"
proof (induction bs ts rule: drop_common.induct)
  case (1 b bs t ts)
  show ?case
  proof (cases "b = t")
    case True
    then obtain c where "bs = c @ bs'" "ts = c @ ts'" "bs' = [] \<or> ts' = [] \<or> hd bs' \<noteq> hd ts'" using 1 by auto
    then show ?thesis using True by (intro exI [of _ "b # c"]) auto
  qed (use 1 in auto)
qed auto

lemma upwards: "n > 0 \<Longrightarrow> join_with ''/'' (replicate n ''..'' @ ts) = ''..'' \<or>
    has_prefix (join_with ''/'' (replicate n ''..'' @ ts)) ''../''"
  by (cases n; cases "replicate (n - 1) ''..'' @ ts") (auto simp: has_prefix_def)

lemma downwards:
  assumes "\<forall>e \<in> set ts. plain_element e"
  shows "join_with ''/'' ts \<noteq> ''..''" "\<not> has_prefix (join_with ''/'' ts) ''../''"
proof -
  have "\<not> (\<exists>s. join_with ''/'' ts = ''..'' \<or> join_with ''/'' ts = ''..'' @ CHR ''/'' # s)"
  proof (cases "ts = []")
    case False
    then have "split_on (CHR ''/'') (join_with ''/'' ts) = ts" using assms by (intro split_join) (auto simp: plain_element_def)
    moreover have "hd ts \<noteq> ''..''" using assms False by (cases ts) (auto simp: plain_element_def)
    ultimately show ?thesis using split_append [of "CHR ''/''" "''..''"] by force
  qed simp
  then show "join_with ''/'' ts \<noteq> ''..''" "\<not> has_prefix (join_with ''/'' ts) ''../''"
    by (auto simp: has_prefix_def prefix_def)
qed

lemma within_prefix:
  assumes "has_prefix p ''/''" and "has_prefix d ''/''"
  shows "contextExportPathWithin p d \<longleftrightarrow> prefix (path_elements (path_clean d)) (path_elements (path_clean p))"
proof -
  obtain B where B: "path_clean d = CHR ''/'' # join_with ''/'' B" "path_elements (path_clean d) = B" "\<forall>e \<in> set B. plain_element e"
    using rooted_elements [OF assms(2)] by blast
  obtain T where T: "path_clean p = CHR ''/'' # join_with ''/'' T" "path_elements (path_clean p) = T" "\<forall>e \<in> set T. plain_element e"
    using rooted_elements [OF assms(1)] by blast
  show ?thesis
  proof (cases "path_clean p = path_clean d")
    case True
    then show ?thesis using B T by (simp add: contextExportPathWithin_def path_rel_def)
  next
    case False
    obtain bs ts where d: "drop_common B T = (bs, ts)" by fastforce
    then obtain c where c: "B = c @ bs" "T = c @ ts" "bs = [] \<or> ts = [] \<or> hd bs \<noteq> hd ts" using drop_common_law by blast
    have up: "bs \<noteq> [] \<Longrightarrow> hd bs \<noteq> ''..''" using B(3) c(1) by (cases bs) (auto simp: plain_element_def)
    have rooted: "has_prefix (CHR ''/'' # s) ''/''" for s by (simp add: has_prefix_def)
    have rel: "path_rel d p = Some (join_with ''/'' (replicate (length bs) ''..'' @ ts))"
      using False B T d up by (auto simp: path_rel_def Let_def rooted)
    show ?thesis
    proof (cases "bs = []")
      case True
      then show ?thesis using rel downwards [of ts] T(3) c B(2) T(2) by (auto simp: contextExportPathWithin_def)
    next
      case bs: False
      then have "\<not> prefix bs ts" using c(3) by (cases bs; cases ts) auto
      moreover have "join_with ''/'' (replicate (length bs) ''..'' @ ts) \<noteq> ''.''"
        using upwards [of "length bs" ts] bs by (auto simp: has_prefix_def prefix_def)
      ultimately show ?thesis using rel upwards [of "length bs" ts] bs c B(2) T(2) by (auto simp: contextExportPathWithin_def)
    qed
  qed
qed


section \<open>What an export does\<close>

text \<open>
  What leaves the program, seen through \<open>fx\<close>: text on the standard output or in a file, and files that take the place
  of others. It is assumed that only the calls for it do so.
\<close>

datatype export_effect = Printed string | Wrote string string | Replaced string string

definition effect_contract :: "'x export_system \<Rightarrow> ('x \<Rightarrow> export_effect list) \<Rightarrow> bool" where
  "effect_contract X fx =
    ((\<forall>d x. fx (snd (xs_Stdout X d x)) \<in> {fx x, fx x @ [Printed d]}) \<and>
     (\<forall>p d x. fx (snd (xs_Write X p d x)) \<in> {fx x, fx x @ [Wrote p d]}) \<and>
     (\<forall>a b x. fx (snd (xs_Rename X a b x)) \<in> {fx x, fx x @ [Replaced a b]}) \<and>
     (\<forall>p x. fx (snd (xs_OpenExclusive X p x)) = fx x) \<and> (\<forall>p x. fx (snd (xs_Sync X p x)) = fx x) \<and>
     (\<forall>p x. fx (snd (xs_Close X p x)) = fx x) \<and> (\<forall>p x. fx (snd (xs_Remove X p x)) = fx x) \<and>
     (\<forall>p x. fx (snd (xs_SyncDirectory X p x)) = fx x))"

definition effects_only :: "('x \<Rightarrow> export_effect list) \<Rightarrow> (export_effect \<Rightarrow> bool) \<Rightarrow> 'x \<Rightarrow> 'x \<Rightarrow> bool" where
  "effects_only fx ok x x' = (\<exists>new. fx x' = fx x @ new \<and> list_all ok new)"

interpretation shows_only: op_relation "effects_only fx ok" for fx :: "'x \<Rightarrow> export_effect list" and ok
  by unfold_locales (auto simp: effects_only_def)

lemma effects_one: "fx x' \<in> {fx x, fx x @ [e]} \<Longrightarrow> ok e \<Longrightarrow> effects_only fx ok x x'"
  by (auto simp: effects_only_def)

lemma effects_none: "fx x' = fx x \<Longrightarrow> effects_only fx ok x x'"
  by (simp add: effects_only_def)

lemma shows_calls:
  assumes "effect_contract X fx"
  shows "ok (Printed d) \<Longrightarrow> shows_only.keeps fx ok (xs_Stdout X d)"
    "ok (Wrote p d) \<Longrightarrow> shows_only.keeps fx ok (xs_Write X p d)"
    "ok (Replaced a b) \<Longrightarrow> shows_only.keeps fx ok (xs_Rename X a b)"
    "shows_only.keeps fx ok (xs_OpenExclusive X p)" "shows_only.keeps fx ok (xs_Sync X p)"
    "shows_only.keeps fx ok (xs_Close X p)" "shows_only.keeps fx ok (xs_Remove X p)"
    "shows_only.keeps fx ok (xs_SyncDirectory X p)"
  using assms unfolding shows_only.keeps_def effect_contract_def
  by (meson effects_one effects_none)+

lemma shows_orFail: "shows_only.keeps fx ok m \<Longrightarrow> shows_only.keeps fx ok (orFail m msg)"
  unfolding orFail_def by (intro shows_only.keeps_rules)

lemma shows_same: "same.keeps m \<Longrightarrow> shows_only.keeps fx ok m"
  by (simp add: shows_only.keeps_def same.keeps_def shows_only.R_refl)

text \<open>The effects of writing the text \<open>data\<close> for the output \<open>path\<close>, in the file system \<open>x\<close>.\<close>

definition may_write ::
  "'x export_system \<Rightarrow> go_error + string \<Rightarrow> cliFlags \<Rightarrow> string \<Rightarrow> (string \<Rightarrow> bool) \<Rightarrow> 'x \<Rightarrow> export_effect \<Rightarrow> bool" where
  "may_write X dp f path allowed x effect = (case effect of
     Printed d \<Rightarrow> path = '''' \<and> allowed d
   | Wrote p d \<Rightarrow> path \<noteq> '''' \<and> allowed d
   | Replaced a b \<Rightarrow> b = path \<and> path \<noteq> '''' \<and> ungoverned (file_system.truncate X) dp f (trim_space path) x)"

lemma same_validate: "steady X \<Longrightarrow> same.keeps (validateContextExportPath (file_system.truncate X) dp f path)"
  unfolding validateContextExportPath_def validateContextExportTargetType_def rejectContextExportStateConflict_def
    Let_def liftFail_def
  by (intro same.keeps_rules same_calls same_resolve same_refuse same_protected same_orFail) simp_all

lemma shows_temp:
  assumes fx: "effect_contract X fx" and st: "steady X" and "allowed data" and "path \<noteq> ''''"
    and "ungoverned (file_system.truncate X) dp f (trim_space path) x"
  shows "shows_only.keeps fx (may_write X dp f path allowed x) (writeThroughTemp A X temp path data)"
proof -
  have ok: "may_write X dp f path allowed x (Wrote temp data)" "may_write X dp f path allowed x (Replaced temp path)"
    using assms(3-5) by (auto simp: may_write_def)
  have look: "shows_only.keeps fx (may_write X dp f path allowed x) (fs_Lstat (file_system.truncate X) p)" for p
    using st by (intro shows_same same_calls) simp
  show ?thesis
    unfolding writeThroughTemp_def fillAndReplace_def replaceContextExportFile_def verifyContextExportOwnerOnly_def check_def
    by (intro shows_only.keeps_rules shows_orFail shows_calls [OF fx] ok look)
qed

text \<open>
  An export looks at the files, writes once and then does not touch the files any more: what it does is allowed in the
  file system that the run began with.
\<close>

interpretation away: op_relation "\<lambda>w w'. snd w' = snd w" by unfold_locales simp_all

lemma away_ctl: "away.keeps (inCtl m)"
  by (simp add: away.keeps_def inCtl_def zoom_run split: prod.split)

lemma away_files: "same.keeps m \<Longrightarrow> away.keeps (inFiles m)"
  by (simp add: away.keeps_def same.keeps_def inFiles_def zoom_run split: prod.split) (metis snd_conv)

definition writes ::
  "('x \<Rightarrow> export_effect list) \<Rightarrow> ('x \<Rightarrow> export_effect \<Rightarrow> bool) \<Rightarrow> ('w \<times> 'x \<Rightarrow> 'r \<times> ('w \<times> 'x)) \<Rightarrow> bool" where
  "writes fx ok m = (\<forall>w. effects_only fx (ok (snd w)) (snd w) (snd (snd (m w))))"

lemma writesD: "writes fx ok m \<Longrightarrow> m w = (r, w') \<Longrightarrow> effects_only fx (ok (snd w)) (snd w) (snd w')"
  unfolding writes_def by (metis snd_conv)

lemma writes_away: "away.keeps m \<Longrightarrow> writes fx ok m"
  by (simp add: writes_def away.keeps_def shows_only.R_refl)

lemma writes_lifted: "(\<And>x. y = Inr x \<Longrightarrow> writes fx ok (g x)) \<Longrightarrow> writes fx ok (seqE (liftE y) g)"
  by (cases y) (auto simp: writes_def seqE_run shows_only.R_refl)

lemma writes_before:
  fixes g :: "'a \<Rightarrow> 'w \<times> 'x \<Rightarrow> (go_error + 'r) \<times> ('w \<times> 'x)"
  assumes "away.keeps m" and g: "\<And>x. writes fx ok (g x)"
  shows "writes fx ok (seqE m g)"
  unfolding writes_def
proof
  fix w :: "'w \<times> 'x"
  obtain r w1 where m: "m w = (r, w1)" by (cases "m w")
  have same: "snd w1 = snd w" by (rule away.keepsD [OF assms(1) m])
  have "effects_only fx (ok (snd w1)) (snd w1) (snd (snd (g x w1)))" for x by (rule g [of x, unfolded writes_def, THEN spec])
  then show "effects_only fx (ok (snd w)) (snd w) (snd (snd (seqE m g w)))"
    using m same by (cases r) (simp_all add: seqE_run shows_only.R_refl)
qed

lemma writes_after: "writes fx ok m \<Longrightarrow> (\<And>x. away.keeps (g x)) \<Longrightarrow> writes fx ok (seqE m g)"
  unfolding writes_def away.keeps_def seqE_run by (auto split: prod.split sum.split) (metis snd_conv)+

lemma writes_call: "writes fx ok m \<Longrightarrow> (\<And>x. away.keeps (g x)) \<Longrightarrow> writes fx ok (callE m g)"
  unfolding writes_def away.keeps_def callE_run by (auto split: prod.split) (metis snd_conv)

lemma writes_cases:
  "(b \<Longrightarrow> writes fx ok m) \<Longrightarrow> (\<not> b \<Longrightarrow> writes fx ok m') \<Longrightarrow> writes fx ok (if b then m else m')"
  "(z = None \<Longrightarrow> writes fx ok m) \<Longrightarrow> (\<And>y. z = Some y \<Longrightarrow> writes fx ok (g y)) \<Longrightarrow>
     writes fx ok (case z of None \<Rightarrow> m | Some y \<Rightarrow> g y)"
  by (auto split: option.split)

lemma writes_write:
  fixes K :: "('l, 'b, 's, 'c) ctl_env" and X :: "'x export_system"
  assumes fx: "effect_contract X fx" and st: "steady X" and "allowed data"
  shows "writes fx (may_write X (ae_default_path (kc_audit K)) f path allowed) (writeContextExport K X f path data)"
    (is "writes fx ?ok _")
proof (cases "path = ''''")
  case True
  have ok: "?ok x (Printed data)" for x using assms(3) True by (simp add: may_write_def)
  have "shows_only.keeps fx (?ok x) (xs_Stdout X data)" for x by (rule shows_calls(1) [OF fx]) (rule ok)
  then show ?thesis
    by (auto simp: writes_def writeContextExport_def True inFiles_def tryE_run zoom_run shows_only.keeps_def
        split: prod.split sum.split) (metis snd_conv)+
next
  case False
  let ?v = "validateContextExportPath (file_system.truncate X) (ae_default_path (kc_audit K)) f path"
  let ?temp = "\<lambda>ident. writeThroughTemp (kc_audit K) X
    (path_join [path_dir path, ''.mqgov-context-export-'' @ ident @ ''.tmp'']) path data"
  let ?rest = "seqE (inCtl (inWorld (audit (newMutationID_op (kc_audit K))))) (\<lambda>ident. inFiles (?temp ident))"
  have rest: "effects_only fx (?ok (snd w)) (snd w) (snd (snd (?rest w)))"
    if u: "ungoverned (file_system.truncate X) (ae_default_path (kc_audit K)) f (trim_space path) (snd w)" for w
  proof -
    have "shows_only.keeps fx (?ok (snd w)) (?temp ident)" for ident
      by (rule shows_temp [of X fx allowed data path "ae_default_path (kc_audit K)" f "snd w"]) (use fx st assms(3) False u in auto)
    then show ?thesis
      by (auto simp: seqE_run inCtl_def inFiles_def zoom_run shows_only.keeps_def shows_only.R_refl
          split: prod.split sum.split) (metis snd_conv)
  qed
  show ?thesis
    unfolding writes_def
  proof
    fix w :: "('l, 'b, 's, 'c, 'x) machine"
    obtain r x where v: "?v (snd w) = (r, x)" by fastforce
    have x: "x = snd w" by (rule sameD [OF same_validate [OF st] v])
    show "effects_only fx (?ok (snd w)) (snd w) (snd (snd (writeContextExport K X f path data w)))"
    proof (cases r)
      case (Inl e)
      then show ?thesis
        using False v x by (simp add: writeContextExport_def seqE_run inFiles_def zoom_run shows_only.R_refl)
    next
      case (Inr u)
      have "ungoverned (file_system.truncate X) (ae_default_path (kc_audit K)) f (trim_space path) (snd w)"
        using validated_ungoverned [OF _ v [unfolded Inr]] st by simp
      moreover have "writeContextExport K X f path data w = ?rest w"
        using False v x Inr by (simp add: writeContextExport_def seqE_run inFiles_def [of ?v] zoom_run)
      ultimately show ?thesis using rest by simp
    qed
  qed
qed

text \<open>A context in a document, and the documents an export may show.\<close>

definition discreet :: "(string \<Rightarrow> string) \<Rightarrow> ctxExportOptions \<Rightarrow> Context \<Rightarrow> bool" where
  "discreet redact opts c =
    (if xo_includeCredentials opts then cx_CredentialBackend c \<in> {'''', ''plain-yaml''}
     else cx_Password c \<in> {'''', redactedCredential} \<and> cx_KafkaSchemaRegistryPassword c \<in> {'''', redactedCredential} \<and>
       (\<exists>url. cx_RabbitMQAMQPURL c = redact url))"

definition exportable :: "'x export_system \<Rightarrow> (string \<Rightarrow> string) \<Rightarrow> ctxExportOptions \<Rightarrow> string \<Rightarrow> bool" where
  "exportable X redact opts data = (\<exists>doc. xs_marshal X doc = Inr data \<and>
     (\<forall>c. cd_Context doc = Some c \<or> c \<in> snd ` set (cd_Contexts doc) \<longrightarrow> discreet redact opts c))"

lemma exported_discreet: "exportedContext redact opts item = Inr c \<Longrightarrow> discreet redact opts c"
  by (auto simp: exportedContext_def discreet_def redactContextCredentials_def split: if_splits)

lemma exported_all_discreet:
  "exportedContexts redact opts items = Inr cs \<Longrightarrow> c \<in> snd ` set cs \<Longrightarrow> discreet redact opts c"
proof (induction items arbitrary: cs)
  case (Cons p items)
  obtain name item where p: "p = (name, item)" by fastforce
  from Cons.prems(1) obtain c1 cs1 where "exportedContext redact opts item = Inr c1" "exportedContexts redact opts items = Inr cs1"
    "cs = (name, c1) # cs1" by (auto simp: p split: sum.splits)
  then show ?case using Cons exported_discreet by auto
qed simp

text \<open>The text that an export of the configuration \<open>cfg\<close> writes.\<close>

definition exported_text ::
  "'x export_system \<Rightarrow> (string \<Rightarrow> string) \<Rightarrow> ctxExportOptions \<Rightarrow> string \<Rightarrow> Config \<Rightarrow> string \<Rightarrow> bool" where
  "exported_text X redact opts name cfg data =
    (if xo_all opts
     then \<exists>cs. exportedContexts redact opts (sorted_entries (cf_Contexts cfg)) = Inr cs \<and> xs_marshal X
       \<lparr>cd_APIVersion = ctxExportAPIVersion, cd_Name = '''', cd_Context = None, cd_Contexts = cs\<rparr> = Inr data
     else \<exists>item c. map_of (cf_Contexts cfg) name = Some item \<and> exportedContext redact opts item = Inr c \<and> xs_marshal X
       \<lparr>cd_APIVersion = ctxExportAPIVersion, cd_Name = name, cd_Context = Some c, cd_Contexts = []\<rparr> = Inr data)"

lemma exported_text_exportable: "exported_text X redact opts name cfg data \<Longrightarrow> exportable X redact opts data"
  unfolding exported_text_def exportable_def
  by (fastforce split: if_splits dest: exported_discreet exported_all_discreet)

lemma writes_marshal:
  "(\<And>data. xs_marshal X doc = Inr data \<Longrightarrow> writes fx ok (g data)) \<Longrightarrow> writes fx ok (seqE (marshalExport X doc) g)"
  unfolding marshalExport_def by (rule writes_lifted) (auto split: sum.splits)

lemma away_output: "steady X \<Longrightarrow> away.keeps (validateExportOutput K X f path)"
  unfolding validateExportOutput_def by (intro away.keeps_rules away_files same_validate)

lemma away_check: "away.keeps (check e)"
  by (auto simp: check_def intro!: away.keeps_rules)

lemma writes_stored:
  assumes fx: "effect_contract X fx" and st: "steady X" and load: "loadContexts K (fst w) = (Inr cfg, c1)"
    and run: "runCtxExport K X f name opts w = (r, w')"
  shows "effects_only fx (may_write X (ae_default_path (kc_audit K)) f (xo_outputFile opts)
    (exported_text X (ce_redact (kc_cmd K)) opts name cfg) (snd w)) (snd w) (snd w')"
proof -
  let ?ok = "may_write X (ae_default_path (kc_audit K)) f (xo_outputFile opts)
    (exported_text X (ce_redact (kc_cmd K)) opts name cfg)"
  obtain g where g: "runCtxExport K X f name opts = seqE (inCtl (loadContexts K)) g" "writes fx ?ok (g cfg)"
  proof
    have puts: "writes fx ?ok (writeContextExport K X f (xo_outputFile opts) data)"
      if "exported_text X (ce_redact (kc_cmd K)) opts name cfg data" for data
      using writes_write [OF fx st, where allowed = "exported_text X (ce_redact (kc_cmd K)) opts name cfg"] that by blast
    then have stdout: "writes fx ?ok (writeContextExport K X f '''' data)"
      if "xo_outputFile opts = ''''" "exported_text X (ce_redact (kc_cmd K)) opts name cfg data" for data using that by metis
    note rules = writes_lifted writes_marshal writes_before [OF away_output [OF st]] writes_cases writes_before [OF away_ctl]
      writes_after writes_call away.keeps_tryE away_ctl away_check writes_away [OF away_ctl] writes_away [OF away.keeps_basic(2)]
    have all: "writes fx ?ok (runCtxExportAll K X f (cf_Contexts cfg) opts)" if "xo_all opts"
      unfolding runCtxExportAll_def Let_def
      by (intro rules puts stdout) (use that in \<open>auto simp: exported_text_def\<close>)
    show "writes fx ?ok ((\<lambda>cfg. if xo_all opts then runCtxExportAll K X f (cf_Contexts cfg) opts
     else case map_of (cf_Contexts cfg) name of
       None \<Rightarrow> throw (contextNotFound name)
     | Some stored_item \<Rightarrow>
         seqE (liftE (exportedContext (ce_redact (kc_cmd K)) opts stored_item)) (\<lambda>item.
         seqE (marshalExport X \<lparr>cd_APIVersion = ctxExportAPIVersion, cd_Name = name, cd_Context = Some item, cd_Contexts = []\<rparr>) (\<lambda>data.
         let path = xo_outputFile opts in
         seqE (validateExportOutput K X f path) (\<lambda>_.
         if contextPlanOnly f
         then seqE (inCtl (appendContextAuditWarn K f (xs_eventContextExport X) item ''ctx export dryRun=true'')) (\<lambda>_.
              inCtl (printJSONData K f ''ChangePlan'' (exportPlan path [(''context'', JStr name)])))
         else if path = ''''
         then seqE (writeContextExport K X f '''' data) (\<lambda>_.
              inCtl (appendContextAuditWarn K f (xs_eventContextExport X) item ''ctx export stdout''))
         else
           seqE (inCtl (inWorld (audit (beginMutationAudit (kc_audit K) f (exportSpec ''mq.ctx.export'' name item data 1))))) (\<lambda>handle.
           callE (writeContextExport K X f path data) (\<lambda>written.
           inCtl (concludeControl K f empty_outcome (errOf written) (Some handle)))))))) cfg)"
      unfolding Let_def
      by (intro all rules puts stdout) (auto simp: exported_text_def)
  qed (simp add: runCtxExport_def)
  obtain w1 where w1: "inCtl (loadContexts K) w = (Inr cfg, w1)" "snd w1 = snd w"
    using load by (simp add: inCtl_def zoom_run)
  then have "g cfg w1 = (r, w')" using run g(1) by (simp add: seqE_run)
  from writesD [OF g(2) this] show ?thesis by (simp add: w1(2))
qed

lemma export_run:
  assumes fx: "effect_contract X fx" and st: "steady X" and run: "ctxExportCmd K X f args opts w = (r, w')"
  shows "fx (snd w') = fx (snd w) \<or> (\<exists>name cfg c1. (\<not> xo_all opts \<longrightarrow> args = [name]) \<and> loadContexts K (fst w) = (Inr cfg, c1) \<and>
    effects_only fx (may_write X (ae_default_path (kc_audit K)) f (xo_outputFile opts)
      (exported_text X (ce_redact (kc_cmd K)) opts name cfg) (snd w)) (snd w) (snd w'))"
proof (cases "xo_all opts \<and> args \<noteq> [] \<or> \<not> xo_all opts \<and> length args \<noteq> 1")
  case True
  then show ?thesis using run by (auto simp: ctxExportCmd_def)
next
  case False
  let ?name = "case args of [name] \<Rightarrow> name | _ \<Rightarrow> ''''"
  have e: "runCtxExport K X f ?name opts w = (r, w')" using run False by (auto simp: ctxExportCmd_def split: if_splits)
  have n: "\<not> xo_all opts \<longrightarrow> args = [?name]" using False by (auto simp: length_Suc_conv)
  show ?thesis
  proof (cases "loadContexts K (fst w)")
    case (Pair l c1)
    show ?thesis
    proof (cases l)
      case (Inl x)
      then have "snd w' = snd w" using e Pair by (auto simp: runCtxExport_def seqE_run inCtl_def zoom_run)
      then show ?thesis by simp
    next
      case (Inr cfg)
      show ?thesis using writes_stored [OF fx st _ e, of cfg c1] Pair Inr n by blast
    qed
  qed
qed

end
