(* ===== verification/Export_Properties.thy ===== *)
theory Export_Properties
  imports Context_Export_Laws Context_Properties
begin

text \<open>
  What the export of contexts guarantees: it shows no credential unless asked and then no stored one, it replaces no file
  that holds the state of the program, its checks end, and what it wrote can be imported again.
\<close>

section \<open>A machine\<close>

text \<open>The file system is the list of the paths that exist and the effects so far.\<close>

definition not_there :: go_error where "not_there = OtherError ''file does not exist''"

definition demo_files :: "(string list \<times> export_effect list) export_system" where
  "demo_files = \<lparr>
     fs_Lstat = (\<lambda>p x. (if p \<in> set (fst x) then Inr (if p = ''/'' \<or> p = ''/home'' then demo_dir else demo_file_info)
       else Inl not_there, x)),
     fs_Stat = (\<lambda>p x. (if p \<in> set (fst x) then Inr (int (length p)) else Inl not_there, x)),
     fs_EvalSymlinks = (\<lambda>p x. (Inr p, x)), fs_Abs = (\<lambda>p x. (Inr p, x)), fs_VolumeName = (\<lambda>_. ''''),
     fs_isNotExist = (\<lambda>e. e = not_there), fs_UserHomeDir = Inr ''/home'', fs_RotatedFiles = (\<lambda>_ x. (Inr [], x)),
     fs_isRotated = (\<lambda>_ _. False),
     xs_OpenExclusive = (\<lambda>p x. (Inr (), p # fst x, snd x)),
     xs_Write = (\<lambda>p d x. (Inr (), fst x, snd x @ [Wrote p d])), xs_Sync = (\<lambda>_ x. (Inr (), x)), xs_Close = (\<lambda>_ x. (Inr (), x)),
     xs_Remove = (\<lambda>p x. (Inr (), remove1 p (fst x), snd x)),
     xs_Rename = (\<lambda>a b x. (Inr (), b # remove1 a (fst x), snd x @ [Replaced a b])),
     xs_SyncDirectory = (\<lambda>_ x. (Inr (), x)), xs_Stdout = (\<lambda>d x. (Inr (), fst x, snd x @ [Printed d])),
     xs_marshal = (\<lambda>doc. Inr (cd_Name doc)), xs_eventContextExport = ''context.export''\<rparr>"

lemma demo_files_lawful: "steady demo_files" "effect_contract demo_files snd"
  by (simp_all add: steady_def effect_contract_def demo_files_def)

definition demo_disk :: "string list \<times> export_effect list" where "demo_disk = ([''/'', ''/home''], [])"

definition demo_out :: string where "demo_out = ''/home/out.yaml''"

definition demo_options :: "string \<Rightarrow> ctxExportOptions" where
  "demo_options path = \<lparr>xo_includeCredentials = False, xo_outputFile = path, xo_all = False\<rparr>"

lemma demo_out_valid: "validateContextExportPath (file_system.truncate demo_files) (Inr ''/log'') demo_flags demo_out demo_disk =
    (Inr (), demo_disk)"
  by code_simp

text \<open>The temporary file of an export to \<open>path\<close>.\<close>

definition export_temp :: "string \<Rightarrow> string" where
  "export_temp path = path_join [path_dir path, ''.mqgov-context-export-'' @ hex_encode (replicate 16 (CHR 0x2A)) @ ''.tmp'']"

definition demo_temp :: string where "demo_temp = export_temp demo_out"

lemma demo_through: "writeThroughTemp demo_env demo_files (export_temp demo_out) demo_out ''dev'' demo_disk =
    (Inr (), [demo_out, ''/'', ''/home''], [Wrote demo_temp ''dev'', Replaced demo_temp demo_out])"
  by code_simp

text \<open>An export of one context to a file that passes the check ends with the document in place.\<close>

lemma demo_exporting:
  assumes cfg: "validatePersistedRoles cfg = None" "map_of (cf_Contexts cfg) name = Some given"
    and opts: "\<not> xo_all opts" "xo_outputFile opts \<noteq> ''''" and f: "\<not> contextPlanOnly f"
    and item: "exportedContext (ce_redact (kc_cmd demo_ctl_env)) opts given = Inr item"
    and mar: "mar \<lparr>cd_APIVersion = ctxExportAPIVersion, cd_Name = name, cd_Context = Some item, cd_Contexts = []\<rparr> = Inr data"
    and valid: "validateContextExportPath (file_system.truncate demo_files) (Inr ''/log'') f (xo_outputFile opts) disk = (Inr (), disk)"
    and through: "writeThroughTemp demo_env demo_files (export_temp (xo_outputFile opts)) (xo_outputFile opts) data disk = (Inr (), disk')"
  shows "\<exists>r w'. ctxExportCmd demo_ctl_env (demo_files\<lparr>xs_marshal := mar\<rparr>) f [name] opts (demo_ctl\<lparr>ct_store := [cfg]\<rparr>, disk) =
    (r, w') \<and> snd w' = disk'"
proof -
  let ?K = demo_ctl_env and ?X = "demo_files\<lparr>xs_marshal := mar\<rparr>" and ?ctl = "demo_ctl\<lparr>ct_store := [cfg]\<rparr>"
    and ?path = "xo_outputFile opts"
  have env: "kc_audit ?K = demo_env" "ae_default_path demo_env = Inr ''/log''" "ae_random demo_env n = Some (replicate 16 (CHR 0x2A))" for n
    by (simp_all add: kc_audit_def demo_ctl_env_def demo_live_def demo_cmd_def demo_env_def)
  have store: "kc_store ?K = demo_store" by (simp add: demo_ctl_env_def)
  have load: "inCtl (loadContexts ?K) (?ctl, disk) = (Inr cfg, ?ctl, disk)"
    by (simp add: inCtl_def zoom_run loadContexts_def tryE_run inStore_def store demo_store_def Load_def cfg(1))
  let ?spec = "exportSpec ''mq.ctx.export'' name item data 1"
  have "trim_space (sp_Action ?spec) \<noteq> ''''" by (simp add: exportSpec_def controlSpec_def) code_simp
  moreover have "resolveAuditPath demo_env ?spec = Inr ''/log''"
    by (simp add: resolveAuditPath_def exportSpec_def controlSpec_def demo_env_def)
  ultimately obtain h a' where b: "beginMutationAudit demo_env f ?spec demo_aud = (Inr h, a')"
    using begin_works [OF demo_works demo_ready] by blast
  obtain c' where begun: "inCtl (inWorld (audit (beginMutationAudit demo_env f ?spec))) (?ctl, disk) = (Inr h, c', disk)"
    by (simp add: inCtl_def inWorld_def audit_def zoom_run demo_ctl_def demo_world_def b)
  have plain: "file_system.truncate ?X = file_system.truncate demo_files" by (simp add: file_system.truncate_def)
  have outer: "inFiles (validateContextExportPath (file_system.truncate ?X) (Inr ''/log'') f ?path) (c, disk) = (Inr (), c, disk)"
    for c :: "(safeAuditRecord list, fake, Config list, (string \<times> string) list) ctl"
    unfolding plain by (simp add: inFiles_def zoom_run valid)
  obtain c2 where ident: "inCtl (inWorld (audit (newMutationID_op demo_env))) (c', disk) =
      (Inr (hex_encode (replicate 16 (CHR 0x2A))), c2, disk)"
    by (simp add: inCtl_def inWorld_def audit_def zoom_run newMutationID_op_def newMutationID_def env)
  have "writeThroughTemp demo_env ?X t p d = writeThroughTemp demo_env demo_files t p d" for t p d
    by (simp add: writeThroughTemp_def fillAndReplace_def replaceContextExportFile_def verifyContextExportOwnerOnly_def plain cong: sum.case_cong)
  then have "inFiles (writeThroughTemp demo_env ?X (export_temp ?path) ?path data) (c2, disk) = (Inr (), c2, disk')"
    using through by (simp add: inFiles_def zoom_run)
  then have written: "writeContextExport ?K ?X f ?path data (c', disk) = (Inr (), c2, disk')"
    using opts(2) outer ident by (simp add: writeContextExport_def seqE_run env export_temp_def)
  have marshalled: "marshalExport ?X \<lparr>cd_APIVersion = ctxExportAPIVersion, cd_Name = name, cd_Context = Some item, cd_Contexts = []\<rparr> w =
      (Inr data, w)"
    for w :: "(safeAuditRecord list, fake, Config list, (string \<times> string) list, string list \<times> export_effect list) machine"
    by (simp add: marshalExport_def mar)
  have "snd (snd (ctxExportCmd ?K ?X f [name] opts (?ctl, disk))) = disk'"
    using load cfg(2) opts f item marshalled outer begun written
    by (simp add: ctxExportCmd_def runCtxExport_def seqE_run callE_run validateExportOutput_def env Let_def
        inCtl_def [of "concludeControl _ _ _ _ _"] zoom_run split: prod.split)
  then show ?thesis by (metis prod.collapse)
qed

text \<open>\<open>ctx export dev --output /home/out.yaml\<close> writes the document and puts it in place.\<close>

lemma demo_exported: "\<exists>r w'. ctxExportCmd demo_ctl_env demo_files demo_flags [''dev''] (demo_options demo_out) (demo_ctl, demo_disk) =
    (r, w') \<and> snd (snd w') = [Wrote demo_temp ''dev'', Replaced demo_temp demo_out]"
proof -
  let ?dev = "no_context\<lparr>cx_Backend := ''kafka''\<rparr>" and ?o = "demo_options demo_out"
  obtain item where item: "exportedContext (ce_redact (kc_cmd demo_ctl_env)) ?o ?dev = Inr item"
    by (simp add: exportedContext_def demo_options_def)
  have dev: "validatePersistedRoles demo_config = None" "map_of (cf_Contexts demo_config) ''dev'' = Some ?dev"
    "\<not> contextPlanOnly demo_flags" "demo_out \<noteq> ''''" by code_simp+
  have o: "\<not> xo_all ?o" "xo_outputFile ?o = demo_out" by (simp_all add: demo_options_def)
  have "demo_files\<lparr>xs_marshal := \<lambda>doc. Inr (cd_Name doc)\<rparr> = demo_files" "demo_ctl\<lparr>ct_store := [demo_config]\<rparr> = demo_ctl"
    by (simp_all add: demo_files_def demo_ctl_def)
  then show ?thesis
    using demo_exporting [OF dev(1,2) o(1) _ dev(3) item, where mar = "\<lambda>doc. Inr (cd_Name doc)" and data = "''dev''"]
      demo_out_valid demo_through dev(4) o(2) by fastforce
qed


section \<open>Effects\<close>

lemma export_effects:
  assumes "effect_contract X fx" and "steady X" and "ctxExportCmd K X f args opts w = (r, w')"
  shows "\<exists>new. fx (snd w') = fx (snd w) @ new \<and> list_all (may_write X (ae_default_path (kc_audit K)) f (xo_outputFile opts)
    (exportable X (ce_redact (kc_cmd K)) opts) (snd w)) new"
  using export_run [OF assms]
proof (elim disjE exE conjE)
  fix name cfg c1
  let ?allowed = "exported_text X (ce_redact (kc_cmd K)) opts name cfg"
  assume "effects_only fx (may_write X (ae_default_path (kc_audit K)) f (xo_outputFile opts) ?allowed (snd w)) (snd w) (snd w')"
  moreover have "may_write X dp f path ?allowed x e \<Longrightarrow> may_write X dp f path (exportable X (ce_redact (kc_cmd K)) opts) x e"
    for dp path x e by (auto simp: may_write_def split: export_effect.splits dest: exported_text_exportable)
  ultimately show ?thesis unfolding effects_only_def by (metis (mono_tags, lifting) list_all_iff)
qed simp

text \<open>
  C25: Whatever \<open>ctx export\<close> writes to the standard output or to a file is the YAML of a document whose contexts have their
  credentials redacted and their AMQP address passed through the redaction of the core library, or, with
  \<open>--include-credentials\<close>, use no credential store.
\<close>

theorem exports_reveal_no_credentials:
  assumes "effect_contract X fx" and "steady X" and "ctxExportCmd K X f args opts w = (r, w')"
  shows "\<exists>new. fx (snd w') = fx (snd w) @ new \<and>
    (\<forall>d. Printed d \<in> set new \<or> (\<exists>p. Wrote p d \<in> set new) \<longrightarrow>
       (\<exists>doc. xs_marshal X doc = Inr d \<and>
          (\<forall>c. cd_Context doc = Some c \<or> c \<in> snd ` set (cd_Contexts doc) \<longrightarrow> discreet (ce_redact (kc_cmd K)) opts c)))"
proof -
  obtain new where new: "fx (snd w') = fx (snd w) @ new"
    "\<forall>e \<in> set new. may_write X (ae_default_path (kc_audit K)) f (xo_outputFile opts) (exportable X (ce_redact (kc_cmd K)) opts) (snd w) e"
    using export_effects [OF assms] by (auto simp: list_all_iff)
  have "exportable X (ce_redact (kc_cmd K)) opts d" if "Printed d \<in> set new \<or> (\<exists>p. Wrote p d \<in> set new)" for d
    using new(2) that by (fastforce simp: may_write_def)
  then show ?thesis using new(1) unfolding exportable_def by blast
qed

theorem exports_reveal_no_credentials_witness:
  "\<exists>r w'. ctxExportCmd demo_ctl_env demo_files demo_flags [''dev''] (demo_options demo_out) (demo_ctl, demo_disk) = (r, w') \<and>
     Wrote demo_temp ''dev'' \<in> set (snd (snd w')) \<and>
     (\<exists>doc. xs_marshal demo_files doc = Inr ''dev'' \<and> (\<forall>c. cd_Context doc = Some c \<longrightarrow> cx_Password c \<in> {'''', redactedCredential}))"
proof -
  obtain r w' where w': "ctxExportCmd demo_ctl_env demo_files demo_flags [''dev''] (demo_options demo_out) (demo_ctl, demo_disk) = (r, w')"
    "snd (snd w') = [Wrote demo_temp ''dev'', Replaced demo_temp demo_out]" using demo_exported by blast
  from exports_reveal_no_credentials [OF demo_files_lawful(2,1) w'(1)]
  obtain doc where "xs_marshal demo_files doc = Inr ''dev''"
    "\<forall>c. cd_Context doc = Some c \<or> c \<in> snd ` set (cd_Contexts doc) \<longrightarrow>
       discreet (ce_redact (kc_cmd demo_ctl_env)) (demo_options demo_out) c"
    using w'(2) by (auto simp: demo_disk_def)
  then show ?thesis using w' by (fastforce simp: discreet_def demo_options_def)
qed

lemma protected_files:
  assumes "contextExportProtectedPaths X dp f x = (Inr (protected, spool), x)" and "dp = Inr log" and "steady X"
  shows "\<exists>config home rotated. contextExportConfigPath X f = Inr config \<and> fs_UserHomeDir X = Inr home \<and>
    fst (fs_RotatedFiles X log x) = Inr rotated \<and> spool = mutationAuditSpoolPath log \<and>
    {config, config @ ''.tmp'', config @ ''.lock'', path_join [path_dir config, ''config.lock''],
      log, log @ ''.lock'', log @ ''.checkpoint'', log @ ''.hmac-key'', mutationAuditSpoolPath log,
      path_join [home, ''.mqgov-cli'', ''credentials.enc'']} \<union> set rotated \<subseteq> set protected"
  using assms by (auto simp: contextExportProtectedPaths_def seqE_run liftE_def liftFail_def orFail_def tryE_run Let_def
      split: sum.splits prod.splits)

text \<open>
  C26: \<open>ctx export\<close>, with an output path that has no white space around it and while nobody else changes the files,
  replaces its output file only, and only if this path, in the file system that the run began with, was a regular
  file or none, and no symbolic link; was, by its path resolved through symbolic links and by the identity of the file,
  none of the files that hold the contexts, their locks, the audit log with its lock, checkpoint and key, the rotated
  logs and the credentials; was no temporary or rotated file of the log by its name; and lay outside the spool of
  outcomes.
\<close>

theorem exports_replace_no_governed_file:
  assumes "effect_contract X fx" and "steady X" and "trim_space (xo_outputFile opts) = xo_outputFile opts"
    and "ctxExportCmd K X f args opts w = (r, w')"
  shows "\<exists>new. fx (snd w') = fx (snd w) @ new \<and> (\<forall>a b. Replaced a b \<in> set new \<longrightarrow> b = xo_outputFile opts \<and>
    (\<exists>target config home log rotated logTarget spoolTarget.
       (case fst (fs_Lstat (file_system.truncate X) b (snd w)) of
          Inr info \<Rightarrow> fi_regular info \<and> \<not> fi_symlink info | Inl e \<Rightarrow> fs_isNotExist (file_system.truncate X) e) \<and>
       resolveContextExportAlias (file_system.truncate X) b (snd w) = (Inr target, snd w) \<and>
       contextExportConfigPath (file_system.truncate X) f = Inr config \<and> fs_UserHomeDir (file_system.truncate X) = Inr home \<and>
       ae_default_path (kc_audit K) = Inr log \<and> fst (fs_RotatedFiles (file_system.truncate X) log (snd w)) = Inr rotated \<and>
       (\<forall>p \<in> {config, config @ ''.tmp'', config @ ''.lock'', path_join [path_dir config, ''config.lock''],
            log, log @ ''.lock'', log @ ''.checkpoint'', log @ ''.hmac-key'', mutationAuditSpoolPath log,
            path_join [home, ''.mqgov-cli'', ''credentials.enc'']} \<union> set rotated.
          apart (file_system.truncate X) b target (snd w) p) \<and>
       resolveContextExportAlias (file_system.truncate X) log (snd w) = (Inr logTarget, snd w) \<and>
       \<not> contextExportConflictsWithAuditTempNamespace (file_system.truncate X) target logTarget \<and>
       \<not> fs_isRotated (file_system.truncate X) logTarget target \<and>
       resolveContextExportAlias (file_system.truncate X) (mutationAuditSpoolPath log) (snd w) = (Inr spoolTarget, snd w) \<and>
       \<not> contextExportPathWithin target spoolTarget))"
    (is "\<exists>new. _ \<and> (\<forall>a b. _ \<longrightarrow> _ \<and> ?governed b)")
proof -
  let ?F = "file_system.truncate X" and ?dp = "ae_default_path (kc_audit K)"
  obtain new where new: "fx (snd w') = fx (snd w) @ new"
    "\<forall>e \<in> set new. may_write X ?dp f (xo_outputFile opts) (exportable X (ce_redact (kc_cmd K)) opts) (snd w) e"
    using export_effects [OF assms(1,2,4)] by (auto simp: list_all_iff)
  have st: "steady ?F" using assms(2) by simp
  show ?thesis
  proof (intro exI [of _ new] conjI allI impI, rule new(1))
    fix a b
    assume "Replaced a b \<in> set new"
    then have b: "b = xo_outputFile opts" "ungoverned ?F ?dp f b (snd w)"
      using new(2) assms(3) by (fastforce simp: may_write_def)+
    show "b = xo_outputFile opts" by (rule b(1))
    from b(2) obtain target protected spool spoolTarget log logTarget where u:
      "case fst (fs_Lstat ?F b (snd w)) of Inr info \<Rightarrow> fi_regular info \<and> \<not> fi_symlink info | Inl e \<Rightarrow> fs_isNotExist ?F e"
      "resolveContextExportAlias ?F b (snd w) = (Inr target, snd w)"
      "contextExportProtectedPaths ?F ?dp f (snd w) = (Inr (protected, spool), snd w)"
      "list_all (apart ?F b target (snd w)) protected" "?dp = Inr log"
      "resolveContextExportAlias ?F log (snd w) = (Inr logTarget, snd w)"
      "\<not> contextExportConflictsWithAuditTempNamespace ?F target logTarget" "\<not> fs_isRotated ?F logTarget target"
      "resolveContextExportAlias ?F spool (snd w) = (Inr spoolTarget, snd w)" "\<not> contextExportPathWithin target spoolTarget"
      unfolding ungoverned_def by blast
    obtain config home rotated where p: "contextExportConfigPath ?F f = Inr config" "fs_UserHomeDir ?F = Inr home"
      "fst (fs_RotatedFiles ?F log (snd w)) = Inr rotated" "spool = mutationAuditSpoolPath log"
      "{config, config @ ''.tmp'', config @ ''.lock'', path_join [path_dir config, ''config.lock''],
        log, log @ ''.lock'', log @ ''.checkpoint'', log @ ''.hmac-key'', mutationAuditSpoolPath log,
        path_join [home, ''.mqgov-cli'', ''credentials.enc'']} \<union> set rotated \<subseteq> set protected"
      using protected_files [OF u(3,5) st] by blast
    have "\<forall>q \<in> set protected. apart ?F b target (snd w) q" using u(4) by (simp add: list_all_iff)
    note clear = bspec [OF this subsetD [OF p(5)]]
    show "?governed b"
      by (intro exI [of _ target] exI [of _ config] exI [of _ home] exI [of _ log] exI [of _ rotated] exI [of _ logTarget]
          exI [of _ spoolTarget] conjI ballI clear p(1-3) u(1,2,5-8,10) u(9) [unfolded p(4)])
  qed
qed

theorem exports_replace_no_governed_file_witness:
  "\<exists>r w' target. ctxExportCmd demo_ctl_env demo_files demo_flags [''dev''] (demo_options demo_out) (demo_ctl, demo_disk) = (r, w') \<and>
     Replaced demo_temp demo_out \<in> set (snd (snd w')) \<and>
     resolveContextExportAlias (file_system.truncate demo_files) demo_out demo_disk = (Inr target, demo_disk) \<and>
     apart (file_system.truncate demo_files) demo_out target demo_disk ''/log''"
proof -
  obtain r w' where w': "ctxExportCmd demo_ctl_env demo_files demo_flags [''dev''] (demo_options demo_out) (demo_ctl, demo_disk) = (r, w')"
    "snd (snd w') = [Wrote demo_temp ''dev'', Replaced demo_temp demo_out]" using demo_exported by blast
  have t: "trim_space (xo_outputFile (demo_options demo_out)) = xo_outputFile (demo_options demo_out)" by code_simp
  have l: "ae_default_path (kc_audit demo_ctl_env) = Inr ''/log''"
    by (simp add: kc_audit_def demo_ctl_env_def demo_live_def demo_cmd_def demo_env_def)
  from exports_replace_no_governed_file [OF demo_files_lawful(2,1) t w'(1)] show ?thesis
  proof (elim exE conjE, goal_cases)
    case (1 new)
    have "Replaced demo_temp demo_out \<in> set new" using 1(1) w'(2) by (auto simp: demo_disk_def)
    from 1(2) [rule_format, OF this, THEN conjunct2] show ?case
    proof (elim exE conjE, goal_cases)
      case (1 target config home log rotated logTarget spoolTarget)
      have "log = ''/log''" using 1(5) l by simp
      then have "apart (file_system.truncate demo_files) demo_out target demo_disk ''/log''" using 1(7) by simp
      then show ?case using 1(2) w' by auto
    qed
  qed
qed

text \<open>
  White space at the end of the output path hides a governed file from the check: a configuration whose name ends in a space,
  given with \<open>--config\<close>, is replaced by the export.
\<close>

definition padded :: string where "padded = ''/home/out.yaml ''"

definition padded_flags :: cliFlags where "padded_flags = demo_flags\<lparr>fl_Config := padded\<rparr>"

theorem padded_output_replaces_the_config:
  "\<exists>r w' temp. ctxExportCmd demo_ctl_env demo_files padded_flags [''dev''] (demo_options padded) (demo_ctl, [padded, ''/'', ''/home''], []) =
     (r, w') \<and> contextExportConfigPath (file_system.truncate demo_files) padded_flags = Inr padded \<and>
     Replaced temp padded \<in> set (snd (snd w'))"
proof -
  let ?dev = "no_context\<lparr>cx_Backend := ''kafka''\<rparr>" and ?o = "demo_options padded" and ?disk = "([padded, ''/'', ''/home''], [])"
  obtain item where item: "exportedContext (ce_redact (kc_cmd demo_ctl_env)) ?o ?dev = Inr item"
    by (simp add: exportedContext_def demo_options_def)
  have dev: "validatePersistedRoles demo_config = None" "map_of (cf_Contexts demo_config) ''dev'' = Some ?dev"
    "\<not> contextPlanOnly padded_flags" "padded \<noteq> ''''" "\<not> xo_all ?o" "xo_outputFile ?o = padded" by code_simp+
  have run: "validateContextExportPath (file_system.truncate demo_files) (Inr ''/log'') padded_flags padded ?disk = (Inr (), ?disk)"
    "contextExportConfigPath (file_system.truncate demo_files) padded_flags = Inr padded"
    "\<not> isl (fst (writeThroughTemp demo_env demo_files (export_temp padded) padded ''dev'' ?disk))"
    "Replaced (export_temp padded) padded \<in> set (snd (snd (writeThroughTemp demo_env demo_files (export_temp padded) padded ''dev'' ?disk)))"
    by code_simp+
  obtain r disk' where through: "writeThroughTemp demo_env demo_files (export_temp padded) padded ''dev'' ?disk = (r, disk')" by (metis surj_pair)
  then have "r = Inr ()" "Replaced (export_temp padded) padded \<in> set (snd disk')" using run(3,4) by (cases r; simp)+
  moreover have "demo_files\<lparr>xs_marshal := \<lambda>doc. Inr (cd_Name doc)\<rparr> = demo_files" "demo_ctl\<lparr>ct_store := [demo_config]\<rparr> = demo_ctl"
    by (simp_all add: demo_files_def demo_ctl_def)
  ultimately show ?thesis
    using demo_exporting [OF dev(1,2,5) _ dev(3) item, where mar = "\<lambda>doc. Inr (cd_Name doc)" and data = "''dev''"
      and disk = ?disk and disk' = disk'] run(1,2) through dev(4,6) by fastforce
qed

section \<open>Paths\<close>

text \<open>
  C27: The resolution of a path through its nearest existing ancestor ends, whatever the file system answers: it inspects
  no more paths than the absolute path has characters, and two.
\<close>

theorem alias_resolution_terminates:
  assumes "counts_looks X looks" and "fs_Abs X path x = (Inr absolute, x0)"
  shows "looks (snd (resolveContextExportAlias X path x)) \<le> looks x + length (path_clean absolute) + 2"
proof -
  let ?a = "path_clean absolute"
  obtain q x1 where q: "existingAncestor X ?a [] x0 = (q, x1)" by fastforce
  have x0: "looks x0 = looks x" using assms by (metis counts_looks_def snd_conv)
  have "looks x1 \<le> looks x0 + Suc (path_rank ?a)" using ancestor_looks [OF assms(1), of ?a "[]" x0] q by simp
  moreover have "path_rank ?a \<le> Suc (length ?a)" by (simp add: path_rank_def)
  moreover have "looks (snd (resolveContextExportAlias X path x)) = looks x1"
    using assms q by (auto simp: resolveContextExportAlias_def orFail_def counts_looks_def seqE_run tryE_run
        split: sum.split prod.split) (metis snd_conv)+
  ultimately show ?thesis using x0 by simp
qed

text \<open>A file system with the root alone, whose state counts the inspections.\<close>

definition counting_files :: "nat file_system" where
  "counting_files = \<lparr>fs_Lstat = (\<lambda>p n. (if p = ''/'' then Inr demo_dir else Inl not_there, Suc n)),
     fs_Stat = (\<lambda>_ n. (Inl not_there, n)), fs_EvalSymlinks = (\<lambda>p n. (Inr p, n)), fs_Abs = (\<lambda>p n. (Inr (''/home/'' @ p), n)),
     fs_VolumeName = (\<lambda>_. ''''), fs_isNotExist = (\<lambda>e. e = not_there), fs_UserHomeDir = Inr ''/home'',
     fs_RotatedFiles = (\<lambda>_ n. (Inr [], n)), fs_isRotated = (\<lambda>_ _. False)\<rparr>"

theorem alias_resolution_terminates_witness:
  "resolveContextExportAlias counting_files ''a/../b'' 0 = (Inr ''/home/b'', 3) \<and>
   snd (resolveContextExportAlias counting_files ''a/../b'' 0) \<le> 0 + length ''/home/b'' + 2"
proof -
  have c: "counts_looks counting_files id" by (simp add: counts_looks_def counting_files_def)
  have a: "fs_Abs counting_files ''a/../b'' 0 = (Inr ''/home/a/../b'', 0)" by (simp add: counting_files_def)
  have "path_clean ''/home/a/../b'' = ''/home/b''" by code_simp
  moreover have "resolveContextExportAlias counting_files ''a/../b'' 0 = (Inr ''/home/b'', 3)" by code_simp
  ultimately show ?thesis using alias_resolution_terminates [OF c a] by simp
qed

text \<open>
  A rooted path lies in a rooted directory exactly when its elements, once the path is cleaned of dots and
  repeated separators, begin with those of the directory; in particular a name that begins with two dots is no
  way out of it.
\<close>

theorem containment_is_by_elements:
  assumes "has_prefix p ''/''" and "has_prefix d ''/''"
  shows "contextExportPathWithin p d \<longleftrightarrow> prefix (path_elements (path_clean d)) (path_elements (path_clean p))"
  by (rule within_prefix [OF assms])

theorem containment_is_by_elements_witness:
  "contextExportPathWithin ''/a/b/..c'' ''/a//b'' \<and> \<not> contextExportPathWithin ''/a/bc'' ''/a/b''"
proof -
  have "path_elements (path_clean ''/a//b'') = [''a'', ''b'']" "path_elements (path_clean ''/a/b'') = [''a'', ''b'']"
    "path_elements (path_clean ''/a/b/..c'') = [''a'', ''b'', ''..c'']" "path_elements (path_clean ''/a/bc'') = [''a'', ''bc'']"
    "has_prefix ''/a//b'' ''/''" "has_prefix ''/a/b'' ''/''" "has_prefix ''/a/b/..c'' ''/''" "has_prefix ''/a/bc'' ''/''" by code_simp+
  then show ?thesis
    using containment_is_by_elements [of "''/a/b/..c''" "''/a//b''"] containment_is_by_elements [of "''/a/bc''" "''/a/b''"] by simp
qed

section \<open>Exports and imports\<close>

text \<open>The context that an import makes of an exported one: its passwords are gone, its AMQP address is as the redaction left it.\<close>

definition without_credentials :: "(string \<Rightarrow> string) \<Rightarrow> Context \<Rightarrow> Context" where
  "without_credentials redact item = item\<lparr>cx_Password := '''', cx_KafkaSchemaRegistryPassword := '''',
     cx_RabbitMQAMQPURL := redact (cx_RabbitMQAMQPURL item)\<rparr>"

lemma cleared_export:
  "snd (clearRedactedImportedCredentials (redactContextCredentials redact item)) = without_credentials redact item"
  by (simp add: clearRedactedImportedCredentials_def redactContextCredentials_def without_credentials_def redactedCredential_def)

lemma planned_without_credentials:
  assumes "planContextImportCredential C name item = Inr (candidate, item')" and "cr_parseRef C '''' = None"
    and "cx_Password item = ''''" "cx_KafkaSchemaRegistryPassword item = ''''"
  shows "item' = item"
  using assms by (auto simp: planContextImportCredential_def isLiteralCredential_def Let_def split: sum.splits if_splits)

lemma validated_plain:
  "validateContextDefinition item = Inr item' \<Longrightarrow> cx_Backend item \<noteq> ''rocketmq'' \<Longrightarrow> item' = item"
  "validateContextDefinition item = Inr item' \<Longrightarrow> cx_Backend item = ''rocketmq'' \<Longrightarrow> item' = item\<lparr>cx_Namespace := ''''\<rparr>"
  by (auto simp: validateContextDefinition_def split: if_splits)

text \<open>
  C28: Let \<open>ctx export <name>\<close> without \<open>--include-credentials\<close> write a text to a file. If that text, which YAML reads back as
  the document that it came from, is imported on any machine (\<open>ctx import\<close>, perhaps under another name) and the import
  changes the saved contexts, then it saves the configuration that was loaded under the lock with one context more or
  replaced: the one that the export had loaded under that name, less its two passwords, with its AMQP address as the
  redaction left it and, for RocketMQ, an empty namespace.
\<close>

theorem exported_context_is_imported:
  assumes "effect_contract X fx" and "steady X" and "\<not> xo_includeCredentials opts"
    and "ctxExportCmd K X f [name] opts w = (r, w')"
    and "fx (snd w') = fx (snd w) @ new" and "Wrote p data \<in> set new"
    and "\<forall>doc. xs_marshal X doc = Inr data \<longrightarrow> kc_unmarshal K2 data = Inr doc"
    and "ce_readFile (kc_cmd K2) (path_clean (io_file io)) = Inr data" and "kc_isDir K2 (path_clean (io_file io)) = Inr False"
    and "path_clean (io_file io) \<notin> {''.'', ''/''}"
    and "contracts_ctl K2 obs saves" and "cr_parseRef (kc_cred K2) '''' = None"
    and "run_context K2 f2 (Ctx_Import io) v = (r2, v')" and "saves (ct_store v') \<noteq> saves (ct_store v)"
  shows "\<exists>cfg c item s s' locked cfg2. loadContexts K (fst w) = (Inr cfg, c) \<and> map_of (cf_Contexts cfg) name = Some item \<and>
    saves s = saves (ct_store v) \<and> st_begin (kc_store K2) s = (Inr locked, s') \<and> saves (ct_store v') = saves (ct_store v) @ [cfg2] \<and>
    cf_CurrentContext cfg2 = cf_CurrentContext locked \<and>
    (\<forall>n. map_of (cf_Contexts cfg2) n =
      (if n = firstNonEmpty [io_rename io, name]
       then Some ((without_credentials (ce_redact (kc_cmd K)) item)
         \<lparr>cx_Namespace := (if cx_Backend item = ''rocketmq'' then '''' else cx_Namespace item)\<rparr>)
       else map_of (cf_Contexts locked) n))"
proof -
  let ?redact = "ce_redact (kc_cmd K)" and ?name = "firstNonEmpty [io_rename io, name]"
  have one: "\<not> xo_all opts"
    using assms(4-6) by (auto simp: ctxExportCmd_def)
  obtain cfg c1 where load: "loadContexts K (fst w) = (Inr cfg, c1)" and written: "exported_text X ?redact opts name cfg data"
    using export_run [OF assms(1,2,4)] assms(5,6) one by (fastforce simp: effects_only_def may_write_def list_all_iff)
  obtain item c where item: "map_of (cf_Contexts cfg) name = Some item" "exportedContext ?redact opts item = Inr c" and marshalled:
    "xs_marshal X \<lparr>cd_APIVersion = ctxExportAPIVersion, cd_Name = name, cd_Context = Some c, cd_Contexts = []\<rparr> = Inr data"
    using written one by (auto simp: exported_text_def)
  have c: "c = redactContextCredentials ?redact item" using item(2) assms(3) by (simp add: exportedContext_def)
  let ?doc = "\<lparr>cd_APIVersion = ctxExportAPIVersion, cd_Name = name, cd_Context = Some c, cd_Contexts = []\<rparr>"
  have doc: "readContextExportDocument K2 (io_file io) = Inr ?doc"
    using assms(7-10) marshalled by (simp add: readContextExportDocument_def Let_def)
  have contracts: "store_contract (kc_store K2) saves" "append_contract (kc_audit K2) obs"
    using assms(11) by (simp_all add: contracts_ctl_def)
  obtain s s' locked cfg2 candidate item1 item2 where saved: "saves s = saves (ct_store v)" "st_begin (kc_store K2) s = (Inr locked, s')"
    "saves (ct_store v') = saves (ct_store v) @ [cfg2]"
    "planContextImportCredential (kc_cred K2) ?name (snd (clearRedactedImportedCredentials c)) = Inr (candidate, item1)"
    "validateContextDefinition item1 = Inr item2"
    "cfg2 = locked\<lparr>cf_Contexts := overlay (cf_Contexts locked) [(?name, item2)]\<rparr>"
    using saved_import_one [OF contracts doc, of c f2 v] assms(13,14) unfolding saved_def by auto
  have item1: "item1 = without_credentials ?redact item"
    using planned_without_credentials [OF saved(4) assms(12)] by (simp add: c cleared_export without_credentials_def)
  have "item2 = (without_credentials ?redact item)
      \<lparr>cx_Namespace := (if cx_Backend item = ''rocketmq'' then '''' else cx_Namespace item)\<rparr>"
    using validated_plain [OF saved(5)] unfolding item1 by (cases "cx_Backend item = ''rocketmq''") (simp_all add: without_credentials_def)
  then show ?thesis using load item(1) saved by (auto simp: overlay_def)
qed

text \<open>A context with a password is exported, and imported on another machine as \<open>copy\<close>.\<close>

definition private_context :: Context where
  "private_context = no_context\<lparr>cx_Backend := ''kafka'', cx_Username := ''me'', cx_Password := ''pw''\<rparr>"

definition private_config :: Config where
  "private_config = \<lparr>cf_CurrentContext = '''', cf_Contexts = [(''dev'', private_context)]\<rparr>"

definition private_document :: contextExportDocument where
  "private_document = \<lparr>cd_APIVersion = ctxExportAPIVersion, cd_Name = ''dev'',
     cd_Context = Some (redactContextCredentials (ce_redact (kc_cmd demo_ctl_env)) private_context), cd_Contexts = []\<rparr>"

definition private_files :: "(string list \<times> export_effect list) export_system" where
  "private_files = demo_files\<lparr>xs_marshal := \<lambda>doc. if doc = private_document then Inr ''yaml'' else Inl other_backend\<rparr>"

definition copy_import :: ctxImportOptions where
  "copy_import = \<lparr>io_file = ''/home/out.yaml'', io_rename = ''copy'', io_force = False\<rparr>"

abbreviation copy_env :: "(safeAuditRecord list, fake, Config list, (string \<times> string) list) ctl_env" where
  "copy_env \<equiv> import_env (\<lambda>_. Inr ''yaml'') (\<lambda>_. Inr private_document)"

lemma private_exported:
  "\<exists>r w'. ctxExportCmd demo_ctl_env private_files demo_flags [''dev''] (demo_options demo_out)
     (demo_ctl\<lparr>ct_store := [private_config]\<rparr>, demo_disk) = (r, w') \<and> snd (snd w') = [Wrote demo_temp ''yaml'', Replaced demo_temp demo_out]"
proof -
  have cfg: "validatePersistedRoles private_config = None" "map_of (cf_Contexts private_config) ''dev'' = Some private_context"
    "\<not> contextPlanOnly demo_flags" "demo_out \<noteq> ''''" by code_simp+
  have item: "exportedContext (ce_redact (kc_cmd demo_ctl_env)) (demo_options demo_out) private_context =
      Inr (redactContextCredentials (ce_redact (kc_cmd demo_ctl_env)) private_context)"
    by (simp add: exportedContext_def demo_options_def)
  have o: "\<not> xo_all (demo_options demo_out)" "xo_outputFile (demo_options demo_out) = demo_out" by (simp_all add: demo_options_def)
  have through: "writeThroughTemp demo_env demo_files (export_temp demo_out) demo_out ''yaml'' demo_disk =
      (Inr (), [demo_out, ''/'', ''/home''], [Wrote demo_temp ''yaml'', Replaced demo_temp demo_out])" by code_simp
  show ?thesis
    unfolding private_files_def
    using demo_exporting [OF cfg(1,2) o(1) _ cfg(3) item, where data = "''yaml''" and disk = demo_disk
      and mar = "\<lambda>doc. if doc = private_document then Inr ''yaml'' else Inl other_backend"]
      demo_out_valid through cfg(4) o(2) by (fastforce simp: private_document_def)
qed

lemma private_imported:
  "\<exists>r v'. run_context copy_env change_flags (Ctx_Import copy_import) demo_ctl = (r, v') \<and> (\<exists>cfg. ct_store v' = [demo_config, cfg])"
proof -
  let ?C = "demo_cred (\<lambda>_. False)" and ?item = "private_context\<lparr>cx_Password := ''''\<rparr>"
  let ?plan = "planContextImportCredential ?C ''copy'' ?item"
  let ?store = "storeContextImportCredentials ?C [fst (projr ?plan)] []"
  have redact: "ce_redact (kc_cmd demo_ctl_env) '''' = ''''" by (simp add: demo_ctl_env_def demo_live_def demo_cmd_def)
  have "\<not> isl ?plan" "snd (projr ?plan) = ?item" by code_simp+
  then have plan: "?plan = Inr (fst (projr ?plan), ?item)" by (cases ?plan) auto
  have "snd (fst ?store) = None" by code_simp
  then have stored: "?store = ((fst (fst ?store), None), snd ?store)" by (metis prod.collapse)
  have "path_clean ''/home/out.yaml'' \<notin> {''.'', ''/''}" by code_simp
  then have doc: "readContextExportDocument copy_env (io_file copy_import) = Inr private_document"
    by (simp add: readContextExportDocument_def import_env_fields Let_def copy_import_def private_document_def)
  have cleared: "clearRedactedImportedCredentials (redactContextCredentials (ce_redact (kc_cmd demo_ctl_env)) private_context) = (True, ?item)"
    by (simp add: clearRedactedImportedCredentials_def redactContextCredentials_def private_context_def redactedCredential_def redact
        no_context_def)
  have "\<exists>r v'. run_context copy_env change_flags (Ctx_Import copy_import) demo_ctl = (r, v') \<and>
      ct_store v' = [demo_config, demo_config\<lparr>cf_Contexts := overlay (cf_Contexts demo_config) [(''copy'', ?item)]\<rparr>] \<and>
      ct_creds v' = snd ?store"
  proof (rule demo_importing [OF doc _ _ _ _ _ _ cleared plan _ _ _ _ stored])
    show "io_file copy_import \<noteq> ''''" "cd_Contexts private_document = []" "firstNonEmpty [io_rename copy_import, cd_Name private_document] = ''copy''"
      "cd_Context private_document = Some (redactContextCredentials (ce_redact (kc_cmd demo_ctl_env)) private_context)"
      "''copy'' \<noteq> ''''" "map_of (cf_Contexts demo_config) ''copy'' = None"
      by (simp_all add: copy_import_def private_document_def demo_config_def)
    show "validateContextDefinition ?item = Inr ?item"
      "validatePersistedRoles (demo_config\<lparr>cf_Contexts := overlay (cf_Contexts demo_config) [(''copy'', ?item)]\<rparr>) = None"
      "validateContextImportCredentialKeySet ?C demo_config [(''copy'', ?item)] = None"
      "validateContextImportCredentialCandidates [fst (projr ?plan)] [] = (Inr (), [])"
      by code_simp+
  qed
  then show ?thesis by blast
qed

theorem exported_context_is_imported_witness:
  "\<exists>r w' r2 v' cfg. ctxExportCmd demo_ctl_env private_files demo_flags [''dev''] (demo_options demo_out)
       (demo_ctl\<lparr>ct_store := [private_config]\<rparr>, demo_disk) = (r, w') \<and> Wrote demo_temp ''yaml'' \<in> set (snd (snd w')) \<and>
     run_context copy_env change_flags (Ctx_Import copy_import) demo_ctl = (r2, v') \<and> ct_store v' = [demo_config, cfg] \<and>
     map_of (cf_Contexts cfg) ''copy'' = Some (no_context\<lparr>cx_Backend := ''kafka'', cx_Username := ''me''\<rparr>) \<and>
     map_of (cf_Contexts cfg) ''prod'' = map_of (cf_Contexts demo_config) ''prod''"
proof -
  let ?w = "(demo_ctl\<lparr>ct_store := [private_config]\<rparr>, demo_disk)" and ?o = "demo_options demo_out"
  obtain r w' where w': "ctxExportCmd demo_ctl_env private_files demo_flags [''dev''] ?o ?w = (r, w')"
    "snd (snd w') = [Wrote demo_temp ''yaml'', Replaced demo_temp demo_out]" using private_exported by blast
  obtain r2 v' cfg where v': "run_context copy_env change_flags (Ctx_Import copy_import) demo_ctl = (r2, v')"
    "ct_store v' = [demo_config, cfg]" using private_imported by blast
  have lawful: "effect_contract private_files snd" "steady private_files"
    by (simp_all add: private_files_def steady_def effect_contract_def demo_files_def)
  have k: "contracts_ctl copy_env id id" using import_contracts by (simp add: contracts_ctl_def)
  have noref: "cr_parseRef (kc_cred copy_env) '''' = None" by (simp add: import_env_fields demo_cred_def has_prefix_def)
  have read: "path_clean (io_file copy_import) \<notin> {''.'', ''/''}" by code_simp
  have same: "\<forall>doc. xs_marshal private_files doc = Inr ''yaml'' \<longrightarrow> kc_unmarshal copy_env ''yaml'' = Inr doc"
    by (simp add: private_files_def import_env_fields split: if_splits)
  have new: "snd (snd w') = snd (snd ?w) @ [Wrote demo_temp ''yaml'', Replaced demo_temp demo_out]"
    "id (ct_store v') \<noteq> id (ct_store demo_ctl)" "\<not> xo_includeCredentials ?o"
    using w'(2) v'(2) by (simp_all add: demo_disk_def demo_ctl_def demo_options_def)
  have mem: "Wrote demo_temp ''yaml'' \<in> set [Wrote demo_temp ''yaml'', Replaced demo_temp demo_out]" by simp
  have input: "ce_readFile (kc_cmd copy_env) (path_clean (io_file copy_import)) = Inr ''yaml''"
    "kc_isDir copy_env (path_clean (io_file copy_import)) = Inr False" by (simp_all add: import_env_fields)
  have names: "firstNonEmpty [io_rename copy_import, ''dev''] = ''copy''" by (simp add: copy_import_def)
  have loaded: "loadContexts demo_ctl_env (fst ?w) = (Inr private_config, fst ?w)"
  proof -
    have "validatePersistedRoles private_config = None" by code_simp
    then show ?thesis by (simp add: loadContexts_def tryE_run inStore_def zoom_run demo_ctl_env_def demo_store_def Load_def)
  qed
  have redact: "ce_redact (kc_cmd demo_ctl_env) '''' = ''''" by (simp add: demo_ctl_env_def demo_live_def demo_cmd_def)
  have dev: "map_of (cf_Contexts private_config) ''dev'' = Some private_context" by (simp add: private_config_def)
  from exported_context_is_imported [OF lawful new(3) w'(1) new(1) mem same input read k noref v'(1) new(2)] show ?thesis
  proof (elim exE conjE, goal_cases)
    case (1 cfg0 c item s s' locked cfg2)
    have item: "item = private_context" using 1(1,2) loaded dev by simp
    have locked: "locked = demo_config" using 1(3,4) by (simp add: import_env_fields demo_store_def demo_ctl_def)
    have cfg2: "cfg2 = cfg" using 1(5) v'(2) by (simp add: demo_ctl_def)
    have "map_of (cf_Contexts cfg) ''copy'' = Some (no_context\<lparr>cx_Backend := ''kafka'', cx_Username := ''me''\<rparr>)"
      using spec [OF 1(7), of "''copy''"] names redact
      by (simp add: item cfg2 without_credentials_def private_context_def no_context_def)
    moreover have "map_of (cf_Contexts cfg) ''prod'' = map_of (cf_Contexts demo_config) ''prod''"
      using spec [OF 1(7), of "''prod''"] names by (simp add: locked cfg2)
    ultimately show ?case using w' v' by auto
  qed
qed

end
