(* ===== verification/Spec2Isabelle.thy ===== *)
theory Spec2Isabelle
  imports Risk_Properties Broker_Properties Audit_Properties Command_Properties Context_Properties
    Export_Properties
begin

text \<open>
  mqgov-cli is a command line for message brokers (Kafka, RabbitMQ, Pulsar, RocketMQ and an in-memory one) that governs
  what its users do: every operation is classified by its risk, authorized against the policy of the context it runs
  in, and audited before and after it takes effect. This development models the Go program from the classifier up to
  the handlers of the commands and proves what the governance promises. The theories \<open>*_Properties\<close> hold the
  properties, numbered C1 to C40 in their order of importance.

  \<^bold>\<open>How the parts interact.\<close> A handler (cmd/*.go) reads the flags and resolves the context, reads the metadata of its
  target under a mandatory read audit, classifies the operation on that target, asks the core library for the
  authorization, writes a durable intent, lets the backend act, and writes the outcome, into the audit log
  or, if the log refuses it, into a spool that later commands replay. Commands on contexts change the stored contexts
  and the credential stores together, under a lock, and compensate what they wrote when a part fails.

  \<^bold>\<open>Conventions.\<close> A function that may fail is an \<open>op\<close>, a function from a state to an error or a value and the next state
  (theory Prelude); \<open>seqE\<close> is the sequence \<open>if err != nil { return err }\<close>, \<open>tryE\<close> and \<open>callE\<close> keep the error as a value. A struct
  is a record with the prefix of its fields shortened, a map an association list whose order stands for the order
  of a \<open>range\<close>, a string a list of bytes, an \<open>int\<close> an \<open>int\<close> that is wrapped with \<open>go_int\<close> or kept as a 64-bit word where it can
  overflow. Names are those of the source; \<open>_op\<close> marks the operation on the state where a pure function
  has the same name, \<open>fake_\<close> the methods of the in-memory backend.

  \<^bold>\<open>Theories and sources.\<close>
  \<^item> Go's library: Go_Strings, Go_Numbers, Sha256 (executable), Json_Values (\<open>json.Marshal\<close> of what is fingerprinted), and the
    path functions in Credential_Slots (\<open>path.Clean\<close>) and Governed_Paths.
  \<^item> internal/mqclass/classifier.go: Classifier, with the declarative \<open>tier\<close> it computes; its properties are in
    Risk_Properties.
  \<^item> internal/mqgov: Broker_Types (requests, results, the interface of a broker as a record of operations with optional
    capabilities). internal/backend/fake/fake.go: Fake_Broker, every method on its state; Fake_Laws has the contract of a
    registry of named things and interprets it for topics and groups. Properties in Broker_Properties.
  \<^item> internal/mqgovctx and the flags of cmd/root.go: Cli_Env; authorization and choice of backend: Governance.
  \<^item> cmd/mutation_audit.go and cmd/mutation_audit_permissions_other.go: Audit_Record (records, outcomes, validation), Audit_Fs
    (owners, modes, atomic writes; every system call may fail), Audit_Spool (sequence numbers, spool files, quarantine,
    replay) and Audit_Engine (queue lock, intent, outcome, emergency spool). cmd/read_audit.go and cmd/read_diagnostics.go:
    Read_Audit, Cmd_World.
  \<^item> cmd/topic.go, topic_target.go, group.go, message.go, dlq.go, acl.go, schema.go: Topic_Target, Topic_Cmd, Group_Cmd,
    Message_Cmd, Mirror_Buffer, Mirror_Cmd, Dlq_Cmd, Acl_Cmd, Schema_Cmd, one definition per handler.
  \<^item> cmd/context.go and cmd/context_import_credentials.go: Credential_Slots, Credential_Transactions, Credential_Migration,
    Context_Control (store, lock, policy), Context_Cmd, Context_Import, Context_Migrate, Governed_Paths and Context_Export.

  \<^bold>\<open>State.\<close> \<open>'l aud\<close> has the audit log (\<open>'l\<close>), the spool directory with its files, and counters that index the readings of
  clock, random source and system calls, so that any of them may fail at any time. \<open>('l, 'b) world\<close> adds the broker (\<open>'b\<close>),
  open connections, authorizations asked, diagnostics and output. \<open>ctl\<close> adds the context store (\<open>'s\<close>) and the credential stores
  (\<open>'c\<close>), the export a file system (\<open>'x\<close>).

  \<^bold>\<open>What the lemmas show.\<close>
  \<^item> Audit_Spool_Laws, Audit_Queue, Audit_Replay, Audit_Replay_Complete, Audit_Durable, Audit_Engine_Laws: the log only grows,
    no record is lost, sequence numbers increase, a replay without failure is complete. Audit_Fifo: a record that is written to
    the spool is replayed after those before it. Audit_Record_Laws: what is written passes the validation that reads it back.
    Audit_Safety: records hold no ticket or reason in clear. Audit_Liveness, Audit_Idle, Command_Live: when nothing fails, commands succeed.
  \<^item> Command_Frame, Command_Keeps, Command_Mutations, Command_Run: a locale that asks of a relation between worlds what the basic
    steps of a command must keep, and yields that every command keeps it; Command_Laws interprets it on the relations about
    connections, broker, diagnostics, audit and discreet records from which the properties in Command_Properties follow.
  \<^item> Credential_Laws: a transaction of credentials can be undone and never overwrites the values of others;
    Credential_Migration_Laws: a migration is an import, and slots have one owner. Context_Laws: a command saves contexts at
    most once, authorized under the policy they have under the lock; Context_Refused: a refused command saves nothing;
    Context_Credentials: what a command saves holds no literal credential beside a credential store; Context_Outcomes: outcomes
    are consistent whatever fails. Context_Export_Laws: paths, aliases and what an export writes.
  \<^item> Audit_Demo, Command_Demo, Context_Demo, Context_Import_Demo: concrete machines on which each property with a hypothesis is instantiated.

  \<^bold>\<open>Parameters and their contracts.\<close> Code outside the repository is a parameter, and what is assumed of it is a named
  hypothesis. \<open>append_contract\<close>: the core library's append reports truthfully whether the record was added to the end of the log,
  or that it does not know. \<open>ae_fault\<close>: errors of system calls, unrestricted except in \<open>healthy\<close>, where
  nothing fails. \<open>ce_authorize\<close> and \<open>ce_effectiveRisk\<close>: \<open>safety.Authorize\<close> and the risk it applies in a context, unrestricted but for
  \<open>R3_needs_flags\<close> (R3 is granted only with all required flags and no risk is lowered) and \<open>obliging\<close> (what has its flags is granted).
  \<open>reading_contract\<close>: reading operations of a backend keep a relation on its states. \<open>store_contract\<close>: only a commit saves contexts.
  \<open>backed\<close>: a credential store acts on the slot of its key alone and a failed call has its effect or not. \<open>ref_contract\<close>: a reference
  names its store. \<open>steady\<close>, \<open>effect_contract\<close>: inspecting files does not change them, and only the calls that write do so.

  \<^bold>\<open>Bounds and fuel.\<close> The release of a lock is tried 20 times, as in the source, so its recursion is on that number.
  All other loops recurse on the data they consume; the walk to an existing ancestor of a path has a measure, the
  length of the path, and the property on it bounds the number of inspections. No definition runs out of fuel.

  \<^bold>\<open>Not modelled.\<close> The four network backends (internal/backend/kafka, pulsar, rabbitmq, rocketmq) are calls of client
  libraries and HTTP; a broker is a parameter of the commands, with the in-memory backend as its instance. The commands
  on the audit log (query, verify, prune), the fleet commands, capabilities, doctor, install and version, telemetry, the
  construction of the command tree, certificate pinning, and the Windows variants of the permission checks are left out. What
  other processes do is part of the calls that may fail; concurrency within the process is absent from the modelled code.
\<close>

end
